(* ===== verification/Prelude.thy ===== *)
theory Prelude
  imports Main "HOL-Library.Word" "HOL-Library.Sublist"
begin

text \<open>
  Shared vocabulary of the development: Go errors as values, results as sums, times and
  durations as integers, the three outcomes of a write, and the small list facts that the
  component theories use.

  An \<open>error\<close> of Go is a value of \<open>go_error\<close>: a package-level sentinel, a message made with
  \<open>errors.New\<close> or \<open>fmt.Errorf\<close>, an error wrapped with \<open>%w\<close> behind a prefix, or the result of
  \<open>errors.Join\<close>.  \<open>err_is\<close> is \<open>errors.Is\<close> for sentinels: it looks through wrapping and joins.
  A function that returns \<open>(T, error)\<close> returns \<open>T res\<close>; one that returns only \<open>error\<close> returns
  \<open>go_error option\<close>, with \<open>None\<close> for \<open>nil\<close>.

  A \<open>time.Time\<close> is the number of nanoseconds since the zero time, so \<open>IsZero\<close> is \<open>= 0\<close>; a
  \<open>time.Duration\<close> is a number of nanoseconds.
\<close>

section \<open>Errors and results\<close>

datatype sentinel =
    ErrNotFound | ErrConflict | ErrUnauthorized | ErrEnrollmentExpired | ErrPairingExpired
  | ErrRateLimited
  | ErrUpdateTaskActive | ErrUpdateCheckExpired | ErrUpdateUnavailable | ErrUpdateTargetMismatch
  | ErrNoUpdateAvailable | ErrPairingRejected | ErrCommandLeaseRejected
  | ErrNotExist | ContextCanceled | ContextDeadlineExceeded

datatype go_error =
    Sentinel sentinel
  | Message string
  | Wrapped string go_error
  | Joined "go_error list"

type_synonym 'a res = "go_error + 'a"

fun err_is :: "sentinel \<Rightarrow> go_error \<Rightarrow> bool" where
  "err_is s (Sentinel t) = (s = t)"
| "err_is s (Message m) = False"
| "err_is s (Wrapped p e) = err_is s e"
| "err_is s (Joined es) = list_ex (err_is s) es"

section \<open>Time\<close>

type_synonym time = int
type_synonym duration = int

abbreviation nanosecond :: duration where "nanosecond \<equiv> 1"
abbreviation second :: duration where "second \<equiv> 1000000000"
abbreviation minute :: duration where "minute \<equiv> 60 * second"
abbreviation hour :: duration where "hour \<equiv> 60 * minute"

definition is_zero_time :: "time \<Rightarrow> bool" where
  "is_zero_time t \<longleftrightarrow> t = 0"

lemma is_zero_time_iff [simp]: "is_zero_time t \<longleftrightarrow> t = 0"
  by (simp add: is_zero_time_def)

section \<open>Collections of facts\<close>

named_theorems frame_rules \<open>which parts of a state an operation leaves alone\<close>
named_theorems step_rules \<open>how the status of one row changes in one operation\<close>

section \<open>Lists\<close>

lemma map_if_filter_none:
  assumes "\<forall>x\<in>set xs. \<not> P x"
  shows "map (\<lambda>x. if P x then f x else x) xs = xs"
  using assms by (induction xs) auto

lemma map_if_id:
  assumes "\<And>x. x \<in> set xs \<Longrightarrow> P x \<Longrightarrow> f x = x"
  shows "map (\<lambda>x. if P x then f x else x) xs = xs"
  using assms by (induction xs) auto

lemma length_filter_zero_iff: "length (filter P xs) = 0 \<longleftrightarrow> (\<forall>x\<in>set xs. \<not> P x)"
  by (auto simp: filter_empty_conv)

lemma find_Some_conv: "find P xs = Some x \<Longrightarrow> x \<in> set xs \<and> P x"
  by (auto simp: find_Some_iff)

lemma find_None_conv: "find P xs = None \<longleftrightarrow> (\<forall>x\<in>set xs. \<not> P x)"
  by (auto simp: find_None_iff)

lemma distinct_map_eq:
  assumes "distinct (map f xs)" and "x \<in> set xs" and "y \<in> set xs" and "f x = f y"
  shows "x = y"
  using assms by (meson distinct_map inj_onD)

lemma find_distinct_key:
  assumes "distinct (map k xs)" and "x \<in> set xs"
  shows "find (\<lambda>y. k y = k x) xs = Some x"
  using assms by (induction xs) (auto simp: rev_image_eqI)

end
