(* ===== verification/GoStrings.thy ===== *)
theory GoStrings
  imports Prelude
begin

text \<open>
  The parts of Go's \<^verbatim>\<open>strings\<close> and \<^verbatim>\<open>unicode/utf8\<close> packages that the program relies on.  A Go
  string is a sequence of bytes, so it is a \<open>string\<close> here, one \<open>char\<close> per byte, and \<open>length\<close> is
  Go's \<open>len\<close>.

  \<open>rune_width\<close> decides whether a valid UTF-8 encoding starts at the head of a string and how many
  bytes it has, with the accept ranges of \<open>utf8.DecodeRune\<close>; an invalid byte has width one and
  is no encoding.  \<open>valid_utf8\<close> is \<open>utf8.ValidString\<close>, \<open>to_valid_utf8\<close> is \<open>strings.ToValidUTF8\<close>,
  \<open>rune_chunks\<close> is the iteration of \<open>range\<close> over a string, and \<open>trim_space\<close> and \<open>str_fields\<close> cut at
  the code points of \<open>unicode.IsSpace\<close>.  The lemmas say that sanitising gives valid text, leaves
  valid text alone, and that cutting valid text loses at most three bytes to reach valid text.
\<close>

section \<open>Bytes\<close>

definition byte :: "char \<Rightarrow> nat" where
  "byte c = of_char c"

lemma byte_inj [simp]: "byte c = byte d \<longleftrightarrow> c = d"
  by (simp add: byte_def)

definition is_cont :: "char \<Rightarrow> bool" where
  "is_cont c \<longleftrightarrow> 128 \<le> byte c \<and> byte c \<le> 191"

definition is_digit :: "char \<Rightarrow> bool" where
  "is_digit c \<longleftrightarrow> 48 \<le> byte c \<and> byte c \<le> 57"

definition is_lower_hex :: "char \<Rightarrow> bool" where
  "is_lower_hex c \<longleftrightarrow> is_digit c \<or> 97 \<le> byte c \<and> byte c \<le> 102"

definition is_letter :: "char \<Rightarrow> bool" where
  "is_letter c \<longleftrightarrow> 65 \<le> byte c \<and> byte c \<le> 90 \<or> 97 \<le> byte c \<and> byte c \<le> 122"

section \<open>UTF-8\<close>

definition second_low :: "nat \<Rightarrow> nat" where
  "second_low x = (if x = 224 then 160 else if x = 240 then 144 else 128)"

definition second_high :: "nat \<Rightarrow> nat" where
  "second_high x = (if x = 237 then 159 else if x = 244 then 143 else 191)"

definition rune_width :: "string \<Rightarrow> nat option" where
  "rune_width s = (case s of
     [] \<Rightarrow> None
   | c # r \<Rightarrow>
       let x = byte c in
       if x < 128 then Some 1
       else if 194 \<le> x \<and> x \<le> 223 then
         (case r of c1 # _ \<Rightarrow> if is_cont c1 then Some 2 else None | _ \<Rightarrow> None)
       else if 224 \<le> x \<and> x \<le> 239 then
         (case r of c1 # c2 # _ \<Rightarrow>
            if second_low x \<le> byte c1 \<and> byte c1 \<le> second_high x \<and> is_cont c2
            then Some 3 else None
          | _ \<Rightarrow> None)
       else if 240 \<le> x \<and> x \<le> 244 then
         (case r of c1 # c2 # c3 # _ \<Rightarrow>
            if second_low x \<le> byte c1 \<and> byte c1 \<le> second_high x \<and> is_cont c2 \<and> is_cont c3
            then Some 4 else None
          | _ \<Rightarrow> None)
       else None)"

lemma rune_width_bounds: "rune_width s = Some w \<Longrightarrow> 1 \<le> w \<and> w \<le> 4 \<and> w \<le> length s"
  by (auto simp: rune_width_def Let_def split: list.splits if_splits)

lemma rune_width_nil [simp]: "rune_width [] = None"
  by (simp add: rune_width_def)

text \<open>The encoding at the head depends on its own bytes only.\<close>

lemma rune_width_cases:
  assumes "rune_width s = Some w"
  obtains c r where "s = c # r" "w = 1" "byte c < 128"
  | c c1 r where "s = c # c1 # r" "w = 2" "194 \<le> byte c" "byte c \<le> 223" "is_cont c1"
  | c c1 c2 r where "s = c # c1 # c2 # r" "w = 3" "224 \<le> byte c" "byte c \<le> 239"
      "second_low (byte c) \<le> byte c1" "byte c1 \<le> second_high (byte c)" "is_cont c2"
  | c c1 c2 c3 r where "s = c # c1 # c2 # c3 # r" "w = 4" "240 \<le> byte c" "byte c \<le> 244"
      "second_low (byte c) \<le> byte c1" "byte c1 \<le> second_high (byte c)" "is_cont c2" "is_cont c3"
  using assms by (auto simp: rune_width_def Let_def split: list.splits if_splits)

lemma rune_width_take:
  assumes "rune_width s = Some w"
  shows "rune_width (take w s @ t) = Some w"
  using assms by (cases rule: rune_width_cases) (simp_all add: rune_width_def)

lemma rune_width_Suc:
  assumes "rune_width (c # s) = Some w"
  obtains k where "w = Suc k" "k \<le> length s" "k \<le> 3"
  using rune_width_bounds [OF assms] by (cases w) auto

fun valid_utf8 :: "string \<Rightarrow> bool" where
  "valid_utf8 [] = True"
| "valid_utf8 (c # s) =
     (case rune_width (c # s) of None \<Rightarrow> False | Some w \<Rightarrow> valid_utf8 (drop (w - 1) s))"

fun to_valid_utf8 :: "string \<Rightarrow> bool \<Rightarrow> string \<Rightarrow> string" where
  "to_valid_utf8 rep bad [] = []"
| "to_valid_utf8 rep bad (c # s) =
     (case rune_width (c # s) of
        Some w \<Rightarrow> take w (c # s) @ to_valid_utf8 rep False (drop (w - 1) s)
      | None \<Rightarrow> (if bad then [] else rep) @ to_valid_utf8 rep True s)"

fun rune_chunks :: "string \<Rightarrow> string list" where
  "rune_chunks [] = []"
| "rune_chunks (c # s) =
     (case rune_width (c # s) of
        Some w \<Rightarrow> take w (c # s) # rune_chunks (drop (w - 1) s)
      | None \<Rightarrow> [c] # rune_chunks s)"

definition rune_count :: "string \<Rightarrow> nat" where
  "rune_count s = length (rune_chunks s)"

definition replacement :: string where
  "replacement = [CHR 0xEF, CHR 0xBF, CHR 0xBD]"

lemma concat_rune_chunks [simp]: "concat (rune_chunks s) = s"
proof (induction s rule: rune_chunks.induct)
  case (2 c s)
  show ?case
  proof (cases "rune_width (c # s)")
    case (Some w)
    then obtain k where "w = Suc k" by (rule rune_width_Suc)
    with Some 2 show ?thesis by simp
  qed (use 2 in simp)
qed simp

text \<open>A valid string is a valid encoding followed by a valid string.\<close>

lemma valid_utf8_chunk_append:
  assumes "rune_width s = Some w" and "valid_utf8 t"
  shows "valid_utf8 (take w s @ t)"
proof -
  obtain c r where s: "s = c # r" using assms(1) by (cases s) auto
  with assms(1) obtain k where k: "w = Suc k" "k \<le> length r" by (auto elim: rune_width_Suc)
  show ?thesis using rune_width_take [OF assms(1), of t] assms(2) s k by simp
qed

lemma valid_utf8_append:
  "valid_utf8 s \<Longrightarrow> valid_utf8 t \<Longrightarrow> valid_utf8 (s @ t)"
proof (induction s rule: valid_utf8.induct)
  case (2 c s)
  from "2.prems"(1) obtain w where w: "rune_width (c # s) = Some w" "valid_utf8 (drop (w - 1) s)"
    by (auto split: option.splits)
  then obtain k where k: "w = Suc k" "k \<le> length s" by (auto elim: rune_width_Suc)
  have "valid_utf8 (drop (w - 1) s @ t)" using "2.IH" w "2.prems"(2) by simp
  with w(1) have "valid_utf8 (take w (c # s) @ (drop (w - 1) s @ t))"
    by (rule valid_utf8_chunk_append)
  with k show ?case
    by (simp add: append_assoc [symmetric] del: append_assoc valid_utf8.simps)
qed simp

lemma valid_to_valid_utf8:
  "valid_utf8 rep \<Longrightarrow> valid_utf8 (to_valid_utf8 rep bad s)"
proof (induction rep bad s rule: to_valid_utf8.induct)
  case (2 rep bad c s)
  show ?case
  proof (cases "rune_width (c # s)")
    case None
    then show ?thesis using 2 by (auto intro: valid_utf8_append)
  next
    case (Some w)
    then have "valid_utf8 (take w (c # s) @ to_valid_utf8 rep False (drop (w - 1) s))"
      using 2 by (intro valid_utf8_chunk_append) auto
    with Some show ?thesis by simp
  qed
qed simp

lemma to_valid_utf8_id: "valid_utf8 s \<Longrightarrow> to_valid_utf8 rep bad s = s"
proof (induction rep bad s rule: to_valid_utf8.induct)
  case (2 rep bad c s)
  then obtain w where w: "rune_width (c # s) = Some w" "valid_utf8 (drop (w - 1) s)"
    by (auto split: option.splits)
  then obtain k where k: "w = Suc k" by (auto elim: rune_width_Suc)
  have "to_valid_utf8 rep False (drop (w - 1) s) = drop (w - 1) s" using 2 w by simp
  with w(1) k show ?case by simp
qed simp

lemma valid_replacement [simp]: "valid_utf8 replacement"
  by (simp add: replacement_def rune_width_def byte_def is_cont_def second_low_def second_high_def)

text \<open>Cutting a valid string anywhere leaves at most three bytes behind the last whole rune.\<close>

lemma valid_prefix_near:
  "valid_utf8 s \<Longrightarrow> n \<le> length s \<Longrightarrow> \<exists>m. m \<le> n \<and> n \<le> m + 3 \<and> valid_utf8 (take m s)"
proof (induction s arbitrary: n rule: valid_utf8.induct)
  case (2 c s)
  from "2.prems"(1) obtain w where w: "rune_width (c # s) = Some w" "valid_utf8 (drop (w - 1) s)"
    by (auto split: option.splits)
  then obtain k where k: "w = Suc k" "k \<le> length s" "k \<le> 3" by (auto elim: rune_width_Suc)
  show ?case
  proof (cases "n \<le> k")
    case True
    with k have "0 \<le> n \<and> n \<le> 0 + 3 \<and> valid_utf8 (take 0 (c # s))" by simp
    then show ?thesis by blast
  next
    case False
    then obtain j where j: "n = Suc (k + j)" using less_iff_Suc_add [of k n] by auto
    have "j \<le> length (drop (w - 1) s)" using j k "2.prems"(2) by simp
    then obtain m where m: "m \<le> j" "j \<le> m + 3" "valid_utf8 (take m (drop k s))"
      using "2.IH" w k by fastforce
    have "valid_utf8 (take w (c # s) @ take m (drop k s))"
      using w(1) m(3) by (rule valid_utf8_chunk_append)
    moreover have "take (Suc (k + m)) (c # s) = take w (c # s) @ take m (drop k s)"
      using k by (simp add: take_add)
    ultimately have "valid_utf8 (take (Suc (k + m)) (c # s))" by (simp only:)
    with m j show ?thesis by (intro exI [of _ "Suc (k + m)"]) simp
  qed
qed simp

section \<open>Searching, trimming and cutting\<close>

definition has_prefix :: "string \<Rightarrow> string \<Rightarrow> bool" where
  "has_prefix s p \<longleftrightarrow> prefix p s"

definition has_suffix :: "string \<Rightarrow> string \<Rightarrow> bool" where
  "has_suffix s p \<longleftrightarrow> suffix p s"

definition trim_prefix :: "string \<Rightarrow> string \<Rightarrow> string" where
  "trim_prefix s p = (if has_prefix s p then drop (length p) s else s)"

definition contains :: "string \<Rightarrow> string \<Rightarrow> bool" where
  "contains s p \<longleftrightarrow> sublist p s"

definition contains_any :: "string \<Rightarrow> string \<Rightarrow> bool" where
  "contains_any s cs \<longleftrightarrow> list_ex (\<lambda>c. c \<in> set cs) s"

lemma has_prefix_append [simp]: "has_prefix (p @ s) p"
  by (simp add: has_prefix_def)

lemma trim_prefix_append [simp]: "trim_prefix (p @ s) p = s"
  by (simp add: trim_prefix_def)

lemma has_prefixE: "has_prefix s p \<Longrightarrow> s = p @ trim_prefix s p"
  by (auto simp: has_prefix_def trim_prefix_def prefix_def)

text \<open>The code points for which \<^verbatim>\<open>unicode.IsSpace\<close> holds, as their encodings.\<close>

definition space_chunks :: "string list" where
  "space_chunks =
     [[CHR 0x09], [CHR 0x0A], [CHR 0x0B], [CHR 0x0C], [CHR 0x0D], [CHR 0x20],
      [CHR 0xC2, CHR 0x85], [CHR 0xC2, CHR 0xA0], [CHR 0xE1, CHR 0x9A, CHR 0x80],
      [CHR 0xE2, CHR 0x80, CHR 0x80], [CHR 0xE2, CHR 0x80, CHR 0x81],
      [CHR 0xE2, CHR 0x80, CHR 0x82], [CHR 0xE2, CHR 0x80, CHR 0x83],
      [CHR 0xE2, CHR 0x80, CHR 0x84], [CHR 0xE2, CHR 0x80, CHR 0x85],
      [CHR 0xE2, CHR 0x80, CHR 0x86], [CHR 0xE2, CHR 0x80, CHR 0x87],
      [CHR 0xE2, CHR 0x80, CHR 0x88], [CHR 0xE2, CHR 0x80, CHR 0x89],
      [CHR 0xE2, CHR 0x80, CHR 0x8A], [CHR 0xE2, CHR 0x80, CHR 0xA8],
      [CHR 0xE2, CHR 0x80, CHR 0xA9], [CHR 0xE2, CHR 0x80, CHR 0xAF],
      [CHR 0xE2, CHR 0x81, CHR 0x9F], [CHR 0xE3, CHR 0x80, CHR 0x80]]"

definition is_space :: "string \<Rightarrow> bool" where
  "is_space chunk \<longleftrightarrow> chunk \<in> set space_chunks"

definition trim_space :: "string \<Rightarrow> string" where
  "trim_space s =
     concat (rev (dropWhile is_space (rev (dropWhile is_space (rune_chunks s)))))"

text \<open>\<open>strings.TrimRight(s, "/")\<close> and its relatives for one cut character.\<close>

definition trim_right :: "char \<Rightarrow> string \<Rightarrow> string" where
  "trim_right c s = rev (dropWhile (\<lambda>d. d = c) (rev s))"

fun group_fields :: "string list \<Rightarrow> string \<Rightarrow> string list" where
  "group_fields [] acc = (if acc = [] then [] else [acc])"
| "group_fields (k # ks) acc =
     (if is_space k then (if acc = [] then [] else [acc]) @ group_fields ks []
      else group_fields ks (acc @ k))"

definition str_fields :: "string \<Rightarrow> string list" where
  "str_fields s = group_fields (rune_chunks s) []"

fun join :: "string list \<Rightarrow> string \<Rightarrow> string" where
  "join [] sep = []"
| "join [x] sep = x"
| "join (x # y # xs) sep = x @ sep @ join (y # xs) sep"

text \<open>
  \<open>strings.ReplaceAll\<close> with a non-empty pattern: leftmost matches that do not overlap.  Every
  call in the program guards the empty pattern, for which this function changes nothing.
\<close>

fun replace_all :: "string \<Rightarrow> string \<Rightarrow> string \<Rightarrow> string" where
  "replace_all old new [] = []"
| "replace_all old new (c # s) =
     (if old \<noteq> [] \<and> prefix old (c # s)
      then new @ replace_all old new (drop (length old - 1) s)
      else c # replace_all old new s)"

lemma suffix_trim_right: "trim_right c s = s \<or> last s = c"
  by (cases s rule: rev_cases) (auto simp: trim_right_def)

lemma trim_right_idem [simp]: "trim_right c (trim_right c s) = trim_right c s"
  by (simp add: trim_right_def dropWhile_idem)

lemma trim_right_last: "trim_right c s \<noteq> [] \<Longrightarrow> last (trim_right c s) \<noteq> c"
  unfolding trim_right_def by (metis (full_types) hd_dropWhile last_rev rev_is_Nil_conv)

text \<open>\<open>strconv.Itoa\<close> on naturals and lower-casing of ASCII letters.\<close>

definition ascii_lower :: "char \<Rightarrow> char" where
  "ascii_lower c = (if 65 \<le> byte c \<and> byte c \<le> 90 then char_of (byte c + 32) else c)"

fun nat_text :: "nat \<Rightarrow> string" where
  "nat_text n = (if n < 10 then [char_of (48 + n)] else nat_text (n div 10) @ [char_of (48 + n mod 10)])"

declare nat_text.simps [simp del]

text \<open>\<^verbatim>\<open>strconv.ParseBool\<close>.\<close>

definition parse_bool :: "string \<Rightarrow> bool option" where
  "parse_bool s =
     (if s \<in> {''1'', ''t'', ''T'', ''true'', ''TRUE'', ''True''} then Some True
      else if s \<in> {''0'', ''f'', ''F'', ''false'', ''FALSE'', ''False''} then Some False else None)"

end
