(* ===== verification/RegexMatch.thy ===== *)
theory RegexMatch
  imports GoStrings
begin

text \<open>
  Anchored regular expressions, for the patterns the program compiles with
  \<^verbatim>\<open>regexp.MustCompile\<close>.  A pattern is a term of \<open>regex\<close>; \<open>matches\<close> runs it over the bytes of
  a string by derivatives, and \<open>matches_iff\<close> says that this is membership in the pattern's
  language.  All character classes of the program's patterns are ASCII, so a byte is a rune
  wherever a class can match.
\<close>

section \<open>Patterns and their language\<close>

datatype regex =
    RNone
  | REmpty
  | RChar "char \<Rightarrow> bool"
  | RAlt regex regex
  | RSeq regex regex
  | RStar regex

inductive_set star_lang :: "string set \<Rightarrow> string set" for L :: "string set" where
  star_nil: "[] \<in> star_lang L"
| star_cons: "u \<in> L \<Longrightarrow> v \<in> star_lang L \<Longrightarrow> u @ v \<in> star_lang L"

primrec language :: "regex \<Rightarrow> string set" where
  "language RNone = {}"
| "language REmpty = {[]}"
| "language (RChar p) = {[c] | c. p c}"
| "language (RAlt r q) = language r \<union> language q"
| "language (RSeq r q) = {u @ v | u v. u \<in> language r \<and> v \<in> language q}"
| "language (RStar r) = star_lang (language r)"

section \<open>Matching\<close>

text \<open>Constructors that drop the dead branches a derivative leaves behind.\<close>

fun alt :: "regex \<Rightarrow> regex \<Rightarrow> regex" where
  "alt RNone q = q"
| "alt r RNone = r"
| "alt r q = RAlt r q"

fun seq :: "regex \<Rightarrow> regex \<Rightarrow> regex" where
  "seq RNone q = RNone"
| "seq REmpty q = q"
| "seq r q = RSeq r q"

lemma language_alt [simp]: "language (alt r q) = language r \<union> language q"
  by (cases "(r, q)" rule: alt.cases) auto

lemma language_seq [simp]: "language (seq r q) = language (RSeq r q)"
  by (cases "(r, q)" rule: seq.cases) auto

primrec nullable :: "regex \<Rightarrow> bool" where
  "nullable RNone = False"
| "nullable REmpty = True"
| "nullable (RChar p) = False"
| "nullable (RAlt r q) = (nullable r \<or> nullable q)"
| "nullable (RSeq r q) = (nullable r \<and> nullable q)"
| "nullable (RStar r) = True"

primrec after :: "char \<Rightarrow> regex \<Rightarrow> regex" where
  "after c RNone = RNone"
| "after c REmpty = RNone"
| "after c (RChar p) = (if p c then REmpty else RNone)"
| "after c (RAlt r q) = alt (after c r) (after c q)"
| "after c (RSeq r q) =
     (if nullable r then alt (seq (after c r) q) (after c q) else seq (after c r) q)"
| "after c (RStar r) = seq (after c r) (RStar r)"

fun matches :: "regex \<Rightarrow> string \<Rightarrow> bool" where
  "matches r [] = nullable r"
| "matches r (c # s) = matches (after c r) s"

lemma nullable_iff: "nullable r \<longleftrightarrow> [] \<in> language r"
  by (induction r) (auto intro: star_nil)

lemma star_lang_Cons:
  "c # s \<in> star_lang L \<longleftrightarrow> (\<exists>u v. s = u @ v \<and> c # u \<in> L \<and> v \<in> star_lang L)"
proof
  assume "c # s \<in> star_lang L"
  then show "\<exists>u v. s = u @ v \<and> c # u \<in> L \<and> v \<in> star_lang L"
  proof (induction "c # s" rule: star_lang.induct)
    case (star_cons u v)
    show ?case
    proof (cases u)
      case Nil
      then show ?thesis using star_cons by simp
    next
      case (Cons d u')
      then show ?thesis using star_cons by auto
    qed
  qed
next
  assume "\<exists>u v. s = u @ v \<and> c # u \<in> L \<and> v \<in> star_lang L"
  then show "c # s \<in> star_lang L" by (metis append_Cons star_cons)
qed

lemma language_after: "s \<in> language (after c r) \<longleftrightarrow> c # s \<in> language r"
proof (induction r arbitrary: s)
  case (RSeq r q)
  have split: "c # s \<in> language (RSeq r q) \<longleftrightarrow>
    ([] \<in> language r \<and> c # s \<in> language q) \<or>
    (\<exists>u v. s = u @ v \<and> c # u \<in> language r \<and> v \<in> language q)"
    by (auto simp: Cons_eq_append_conv)
  show ?case unfolding split using RSeq by (auto simp: nullable_iff)
next
  case (RStar r)
  then show ?case by (auto simp: star_lang_Cons)
qed auto

lemma matches_iff: "matches r s \<longleftrightarrow> s \<in> language r"
  by (induction s arbitrary: r) (auto simp: nullable_iff language_after)

section \<open>Pattern building blocks\<close>

fun rlit :: "string \<Rightarrow> regex" where
  "rlit [] = REmpty"
| "rlit [c] = RChar (\<lambda>d. d = c)"
| "rlit (c # s) = RSeq (RChar (\<lambda>d. d = c)) (rlit s)"

fun rtimes :: "nat \<Rightarrow> regex \<Rightarrow> regex" where
  "rtimes 0 r = REmpty"
| "rtimes (Suc n) r = RSeq r (rtimes n r)"

definition rplus :: "regex \<Rightarrow> regex" where
  "rplus r = RSeq r (RStar r)"

definition ropt :: "regex \<Rightarrow> regex" where
  "ropt r = RAlt REmpty r"

lemma language_rlit [simp]: "language (rlit s) = {s}"
  by (induction s rule: rlit.induct) auto

lemma in_rseq_char_iff:
  "s \<in> language (RSeq (RChar p) r) \<longleftrightarrow> (\<exists>c t. s = c # t \<and> p c \<and> t \<in> language r)"
proof
  assume "\<exists>c t. s = c # t \<and> p c \<and> t \<in> language r"
  then obtain c t where "s = [c] @ t" "p c" "t \<in> language r" by auto
  then show "s \<in> language (RSeq (RChar p) r)" unfolding language.simps by blast
qed auto

lemma in_rtimes_char_iff:
  "s \<in> language (rtimes n (RChar p)) \<longleftrightarrow> length s = n \<and> list_all p s"
proof (induction n arbitrary: s)
  case (Suc n)
  show ?case unfolding rtimes.simps in_rseq_char_iff Suc.IH by (cases s) auto
qed auto

end
