(* ===== verification/CoreTypes.thy ===== *)
theory CoreTypes
  imports Complex_Main RegexMatch
begin

text \<open>
  The shared data model of the control plane: \<^verbatim>\<open>internal/core/command.go\<close>,
  \<^verbatim>\<open>internal/core/types.go\<close> and \<^verbatim>\<open>internal/domain\<close>.  A Go struct is a record with the fields in
  the source's order; a string enumeration that JSON can fill with anything is a datatype with a
  constructor for the other strings.  A pointer field is an option.  \<^verbatim>\<open>float64\<close> values are
  carried, compared with zero and classified, never computed with here, so they are a real or one
  of the three special values.
\<close>

section \<open>Commands (internal/core/command.go)\<close>

abbreviation max_command_bytes :: nat where "max_command_bytes \<equiv> 32768"
abbreviation max_command_output_bytes :: nat where "max_command_output_bytes \<equiv> 262144"
abbreviation min_command_timeout :: int where "min_command_timeout \<equiv> 10"
abbreviation max_command_timeout :: int where "max_command_timeout \<equiv> 1800"

datatype command_shell = PowerShell | Cmd | OtherShell string

datatype command_status =
  Queued | Leased | Running | Succeeded | Failed | TimedOut | OtherStatus string

record command_status_counts =
  cn_queued :: int
  cn_leased :: int
  cn_running :: int
  cn_succeeded :: int
  cn_failed :: int
  cn_timed_out :: int

record command_task =
  ct_id :: string
  ct_shell :: command_shell
  ct_command :: string
  ct_timeout :: int
  ct_created_by :: string
  ct_retried_from :: "string option"
  ct_created_at :: time
  ct_target_count :: int
  ct_counts :: command_status_counts

record command_execution =
  ce_id :: string
  ce_task_id :: string
  ce_node_id :: string
  ce_node_name :: string
  ce_status :: command_status
  ce_attempt :: int
  ce_started_at :: "time option"
  ce_finished_at :: "time option"
  ce_exit_code :: "int option"
  ce_output :: string
  ce_output_truncated :: bool
  ce_error_message :: string
  ce_duration_ms :: "int option"

record command_task_detail =
  cd_task :: command_task
  cd_executions :: "command_execution list"

record command_claim =
  cl_execution_id :: string
  cl_task_id :: string
  cl_shell :: command_shell
  cl_command :: string
  cl_timeout :: int
  cl_lease_token :: string
  cl_lease_expires_at :: time

record command_completion =
  cc_execution_id :: string
  cc_lease_token :: string
  cc_status :: command_status
  cc_exit_code :: "int option"
  cc_output :: string
  cc_output_truncated :: bool
  cc_error_message :: string
  cc_duration_ms :: int

definition validate_command :: "command_shell \<Rightarrow> string \<Rightarrow> int \<Rightarrow> go_error option" where
  "validate_command shell command timeout_seconds =
     (if shell \<noteq> PowerShell \<and> shell \<noteq> Cmd then Some (Message ''unsupported command shell'')
      else if \<not> valid_utf8 command then Some (Message ''command must be valid UTF-8'')
      else if trim_space command = [] then Some (Message ''command is required'')
      else if max_command_bytes < length command then
        Some (Message ''command exceeds 32768 bytes'')
      else if timeout_seconds < min_command_timeout \<or> max_command_timeout < timeout_seconds then
        Some (Message ''timeout_seconds must be between 10 and 1800'')
      else None)"

fun status_terminal :: "command_status \<Rightarrow> bool" where
  "status_terminal Succeeded = True"
| "status_terminal Failed = True"
| "status_terminal TimedOut = True"
| "status_terminal _ = False"

section \<open>Accounts, groups, nodes, enrolment and pairing (internal/core/types.go)\<close>

datatype go_float = Finite real | PosInf | NegInf | NaN

type_synonym u64 = "64 word"

record owner =
  ow_id :: string
  ow_username :: string
  ow_password_hash :: string
  ow_created_at :: time

record session =
  se_id :: string
  se_owner_id :: string
  se_token_hash :: string
  se_expires_at :: time
  se_created_at :: time

record organization =
  og_id :: string
  og_name :: string
  og_created_at :: time

record site =
  si_id :: string
  si_organization_id :: string
  si_name :: string
  si_created_at :: time

record node_group =
  ng_id :: string
  ng_site_id :: string
  ng_name :: string
  ng_created_at :: time

record node =
  nd_id :: string
  nd_group_id :: string
  nd_remark :: string
  nd_name :: string
  nd_type :: string
  nd_agent_version :: string
  nd_os_name :: string
  nd_os_version :: string
  nd_ip_address :: string
  nd_cpu_percent :: go_float
  nd_memory_percent :: go_float
  nd_disk_percent :: go_float
  nd_metrics_available :: bool
  nd_upload_rate :: go_float
  nd_download_rate :: go_float
  nd_usage_available :: bool
  nd_usage_day :: string
  nd_today_upload :: u64
  nd_today_download :: u64
  nd_month_upload :: u64
  nd_month_download :: u64
  nd_last_seen_at :: "time option"
  nd_created_at :: time

record enrollment =
  en_id :: string
  en_group_id :: string
  en_token_hash :: string
  en_expires_at :: time
  en_max_uses :: int
  en_uses :: int
  en_created_at :: time

record enroll_request =
  er_token :: string
  er_hostname :: string
  er_type :: string
  er_version :: string
  er_machine_id :: string

datatype pairing_state =
  PairingPending | PairingApproved | PairingRejected | PairingExpired | OtherPairing string

record pairing_request =
  pr_id :: string
  pr_machine_id :: string
  pr_hostname :: string
  pr_type :: string
  pr_agent_version :: string
  pr_credential_hash :: string
  pr_state :: pairing_state
  pr_existing_node :: "node option"
  pr_group_id :: string
  pr_created_at :: time
  pr_expires_at :: time
  pr_decided_at :: "time option"

record pairing_create_request =
  pc_hostname :: string
  pc_type :: string
  pc_agent_version :: string
  pc_machine_id :: string
  pc_pairing_credential :: string

record pairing_poll_result =
  pp_id :: string
  pp_state :: pairing_state
  pp_node :: "node option"
  pp_expires_at :: time

record heartbeat =
  hb_hostname :: string
  hb_agent_version :: string
  hb_os_name :: string
  hb_os_version :: string
  hb_ip_address :: string
  hb_cpu_percent :: go_float
  hb_memory_percent :: go_float
  hb_disk_percent :: go_float
  hb_metrics_available :: bool
  hb_upload_rate :: go_float
  hb_download_rate :: go_float
  hb_usage_available :: bool
  hb_usage_day :: string
  hb_today_upload :: u64
  hb_today_download :: u64
  hb_month_upload :: u64
  hb_month_download :: u64

record network_history_point =
  hp_captured_at :: time
  hp_upload_average :: go_float
  hp_download_average :: go_float
  hp_upload_peak :: go_float
  hp_download_peak :: go_float

record network_summary_item =
  su_node_id :: string
  su_upload_average :: go_float
  su_download_average :: go_float
  su_upload_peak :: go_float
  su_download_peak :: go_float

record agent_log_upload =
  lu_agent_log :: string
  lu_update_log :: string

record agent_log_snapshot =
  ls_node_id :: string
  ls_agent_log :: string
  ls_update_log :: string
  ls_captured_at :: time

section \<open>Task states and node types (internal/domain)\<close>

datatype task_state =
  TaskQueued | TaskDispatched | TaskRunning | TaskSucceeded | TaskFailed | TaskCancelled | TaskTimedOut

definition allowed_transitions :: "(task_state \<times> task_state list) list" where
  "allowed_transitions =
     [(TaskQueued, [TaskDispatched, TaskCancelled, TaskTimedOut]),
      (TaskDispatched, [TaskRunning, TaskFailed, TaskCancelled, TaskTimedOut]),
      (TaskRunning, [TaskSucceeded, TaskFailed, TaskCancelled, TaskTimedOut])]"

definition can_transition :: "task_state \<Rightarrow> task_state \<Rightarrow> bool" where
  "can_transition from to =
     (case map_of allowed_transitions from of None \<Rightarrow> False | Some ts \<Rightarrow> to \<in> set ts)"

definition node_type_windows :: string where "node_type_windows = ''windows''"
definition node_type_linux :: string where "node_type_linux = ''linux''"

definition validate_node_type :: "string \<Rightarrow> go_error option" where
  "validate_node_type t =
     (if t = node_type_windows \<or> t = node_type_linux then None
      else Some (Message (''unsupported node type '' @ [CHR 0x22] @ t @ [CHR 0x22])))"

lemma validate_command_None:
  "validate_command sh c t = None \<longleftrightarrow>
     (sh = PowerShell \<or> sh = Cmd) \<and> valid_utf8 c \<and> trim_space c \<noteq> [] \<and>
     length c \<le> max_command_bytes \<and> min_command_timeout \<le> t \<and> t \<le> max_command_timeout"
  by (auto simp: validate_command_def)

end
