(* ===== verification/Database.thy ===== *)
theory Database
  imports CoreTypes
begin

text \<open>
  The database of \<^verbatim>\<open>internal/postgres/schema.sql\<close> as the statements of \<^verbatim>\<open>internal/postgres\<close> see it:
  one list of rows per table and one record for the whole.  The SQL text of the program is
  translated statement by statement: \<open>UPDATE ... WHERE\<close> is \<open>sql_update\<close>, \<open>RowsAffected\<close> is
  \<open>sql_count\<close>, \<open>ORDER BY ... LIMIT 1\<close> is \<open>sql_first\<close>, \<open>ORDER BY\<close> is \<open>sql_sort\<close>.

  The database server itself is a parameter, the record \<open>server\<close>: whether a statement (named by
  the message the program wraps its failure in) fails, the collation of text, the rows that
  other transactions have locked, and the fresh identifiers of \<^verbatim>\<open>uuid.NewString\<close>.  A failing
  statement of a transaction leaves the tables as they were when the transaction began; a failing
  single statement has no effect.  The checks of the schema that data from outside can break
  (keys, references, the 32-bit range of \<open>INTEGER\<close>, no NUL byte in \<open>TEXT\<close>) are written out in the
  operations that insert or update.
\<close>

section \<open>Rows and tables\<close>

record credential_row =
  cr_node_id :: string
  cr_token_hash :: string
  cr_created_at :: time
  cr_revoked_at :: "time option"

record node_row = node +
  nw_machine_id :: string

record pairing_row =
  pw_id :: string
  pw_machine_id :: string
  pw_hostname :: string
  pw_type :: string
  pw_agent_version :: string
  pw_credential_hash :: string
  pw_state :: pairing_state
  pw_node_id :: "string option"
  pw_group_id :: "string option"
  pw_remark :: string
  pw_created_at :: time
  pw_expires_at :: time
  pw_decided_at :: "time option"

record task_row =
  tr_id :: string
  tr_shell :: command_shell
  tr_command :: string
  tr_timeout :: int
  tr_created_by :: string
  tr_retried_from :: "string option"
  tr_created_at :: time

record execution_row =
  xr_id :: string
  xr_task_id :: string
  xr_node_id :: string
  xr_status :: command_status
  xr_attempt :: int
  xr_lease_hash :: "string option"
  xr_lease_expires :: "time option"
  xr_started_at :: "time option"
  xr_finished_at :: "time option"
  xr_exit_code :: "int option"
  xr_output :: string
  xr_truncated :: bool
  xr_error :: string
  xr_duration :: "int option"

record sample_row =
  sm_node_id :: string
  sm_captured_at :: time
  sm_upload :: go_float
  sm_download :: go_float

record event_row =
  ev_id :: string
  ev_node_id :: "string option"
  ev_type :: string
  ev_hostname :: string
  ev_node_type :: string
  ev_created_at :: time

record database =
  db_owners :: "owner list"
  db_sessions :: "session list"
  db_organizations :: "organization list"
  db_sites :: "site list"
  db_groups :: "node_group list"
  db_nodes :: "node_row list"
  db_credentials :: "credential_row list"
  db_enrollments :: "enrollment list"
  db_pairings :: "pairing_row list"
  db_tasks :: "task_row list"
  db_executions :: "execution_row list"
  db_samples :: "sample_row list"
  db_logs :: "agent_log_snapshot list"
  db_events :: "event_row list"

definition empty_database :: database where
  "empty_database =
     \<lparr>db_owners = [], db_sessions = [], db_organizations = [], db_sites = [], db_groups = [], db_nodes = [], db_credentials = [],
      db_enrollments = [], db_pairings = [], db_tasks = [], db_executions = [], db_samples = [],
      db_logs = [], db_events = []\<rparr>"

section \<open>The database server\<close>

record server =
  sv_fault :: "string \<Rightarrow> go_error option"
  sv_text_le :: "string \<Rightarrow> string \<Rightarrow> bool"
  sv_locked :: "string \<Rightarrow> bool"
  sv_uuid :: "nat \<Rightarrow> string"

text \<open>One statement that may fail; \<open>before\<close> is what the database keeps then.\<close>

definition statement :: "server \<Rightarrow> string \<Rightarrow> 'd \<Rightarrow> 'a res \<times> 'd \<Rightarrow> 'a res \<times> 'd" where
  "statement sv label before rest =
     (case sv_fault sv label of Some e \<Rightarrow> (Inl (Wrapped label e), before) | None \<Rightarrow> rest)"

text \<open>A statement that the schema rejects unless a condition holds.\<close>

definition checked :: "bool \<Rightarrow> string \<Rightarrow> 'd \<Rightarrow> 'a res \<times> 'd \<Rightarrow> 'a res \<times> 'd" where
  "checked ok label before rest =
     (if ok then rest else (Inl (Wrapped label (Message ''constraint violation'')), before))"

definition int4 :: "int \<Rightarrow> bool" where
  "int4 x \<longleftrightarrow> - (2 ^ 31) \<le> x \<and> x < 2 ^ 31"

definition storable_text :: "string \<Rightarrow> bool" where
  "storable_text s \<longleftrightarrow> CHR 0x00 \<notin> set s"

section \<open>Statements over one table\<close>

definition sql_update :: "('r \<Rightarrow> bool) \<Rightarrow> ('r \<Rightarrow> 'r) \<Rightarrow> 'r list \<Rightarrow> 'r list" where
  "sql_update P f rows = map (\<lambda>r. if P r then f r else r) rows"

definition sql_count :: "('r \<Rightarrow> bool) \<Rightarrow> 'r list \<Rightarrow> int" where
  "sql_count P rows = int (length (filter P rows))"

fun sql_first :: "('r \<Rightarrow> 'r \<Rightarrow> bool) \<Rightarrow> 'r list \<Rightarrow> 'r option" where
  "sql_first le [] = None"
| "sql_first le (r # rs) =
     (case sql_first le rs of None \<Rightarrow> Some r | Some q \<Rightarrow> if le r q then Some r else Some q)"

fun sql_insert_sorted :: "('r \<Rightarrow> 'r \<Rightarrow> bool) \<Rightarrow> 'r \<Rightarrow> 'r list \<Rightarrow> 'r list" where
  "sql_insert_sorted le r [] = [r]"
| "sql_insert_sorted le r (q # qs) =
     (if le r q then r # q # qs else q # sql_insert_sorted le r qs)"

fun sql_sort :: "('r \<Rightarrow> 'r \<Rightarrow> bool) \<Rightarrow> 'r list \<Rightarrow> 'r list" where
  "sql_sort le [] = []"
| "sql_sort le (r # rs) = sql_insert_sorted le r (sql_sort le rs)"

lemma in_sql_update:
  "r \<in> set (sql_update P f rows) \<longleftrightarrow> (\<exists>q\<in>set rows. r = (if P q then f q else q))"
  by (auto simp: sql_update_def)

lemma length_sql_update [simp]: "length (sql_update P f rows) = length rows"
  by (simp add: sql_update_def)

lemma map_sql_update_key:
  "(\<And>r. k (f r) = k r) \<Longrightarrow> map k (sql_update P f rows) = map k rows"
  by (auto simp: sql_update_def)

lemma sql_update_none: "\<forall>r\<in>set rows. \<not> P r \<Longrightarrow> sql_update P f rows = rows"
  by (simp add: sql_update_def map_if_filter_none)

lemma find_sql_update:
  "(\<And>r. k (f r) = k r) \<Longrightarrow>
   find (\<lambda>r. k r = i) (sql_update P f rows) =
     map_option (\<lambda>r. if P r then f r else r) (find (\<lambda>r. k r = i) rows)"
  by (induction rows) (auto simp: sql_update_def)

lemma sql_count_zero: "sql_count P rows = 0 \<longleftrightarrow> (\<forall>r\<in>set rows. \<not> P r)"
  by (auto simp: sql_count_def filter_empty_conv)

lemma sql_count_nonneg [simp]: "0 \<le> sql_count P rows"
  by (simp add: sql_count_def)

text \<open>A condition that fixes the key hits at most one row of a table with that key.\<close>

lemma sql_count_key:
  assumes "distinct (map k rows)" and "\<And>r. P r \<Longrightarrow> k r = i"
  shows "sql_count P rows = 1 \<longleftrightarrow> (\<exists>r\<in>set rows. P r)" and "sql_count P rows \<le> 1"
proof -
  have *: "length (filter P rows) \<le> 1 \<and> (length (filter P rows) = 1 \<longleftrightarrow> (\<exists>r\<in>set rows. P r))"
    using assms
  proof (induction rows)
    case (Cons r rows)
    show ?case
    proof (cases "P r")
      case True
      have "\<not> P q" if "q \<in> set rows" for q
        using that True Cons.prems by (metis distinct.simps(2) imageI list.set_map list.simps(9))
      then have "filter P rows = []" by (simp add: filter_empty_conv)
      then show ?thesis using True by simp
    qed (use Cons in auto)
  qed simp
  then show "sql_count P rows = 1 \<longleftrightarrow> (\<exists>r\<in>set rows. P r)" and "sql_count P rows \<le> 1"
    by (auto simp: sql_count_def)
qed

lemma sql_first_in: "sql_first le rows = Some r \<Longrightarrow> r \<in> set rows"
  by (induction rows arbitrary: r) (auto split: option.splits if_splits)

lemma sql_first_None [simp]: "sql_first le rows = None \<longleftrightarrow> rows = []"
  by (cases rows) (auto split: option.splits)

lemma sql_first_least:
  assumes "\<And>a b. le a b \<or> le b a" and "\<And>a b c. le a b \<Longrightarrow> le b c \<Longrightarrow> le a c"
    and "sql_first le rows = Some r" and "q \<in> set rows"
  shows "le r q"
  using assms(3,4)
proof (induction rows arbitrary: r)
  case (Cons p rows)
  then show ?case using assms(1,2) by (auto split: option.splits if_splits)
qed simp

lemma set_sql_insert_sorted [simp]: "set (sql_insert_sorted le r rs) = insert r (set rs)"
  by (induction rs) auto

lemma set_sql_sort [simp]: "set (sql_sort le rs) = set rs"
  by (induction rs) auto

lemma length_sql_insert_sorted [simp]: "length (sql_insert_sorted le r rs) = Suc (length rs)"
  by (induction rs) auto

lemma length_sql_sort [simp]: "length (sql_sort le rs) = length rs"
  by (induction rs) auto

lemma distinct_sql_insert_sorted [simp]:
  "distinct (sql_insert_sorted le r rs) \<longleftrightarrow> r \<notin> set rs \<and> distinct rs"
  by (induction rs) auto

lemma distinct_sql_sort [simp]: "distinct (sql_sort le rs) \<longleftrightarrow> distinct rs"
  by (induction rs) auto

section \<open>Outcomes of statements\<close>

lemma statement_Inr:
  "statement sv l b rest = (Inr a, d) \<longleftrightarrow> sv_fault sv l = None \<and> rest = (Inr a, d)"
  by (auto simp: statement_def split: option.splits)

lemma checked_Inr: "checked ok l b rest = (Inr a, d) \<longleftrightarrow> ok \<and> rest = (Inr a, d)"
  by (auto simp: checked_def)

lemma statement_cases:
  assumes "statement sv l b rest = (r, d)"
  obtains e where "r = Inl (Wrapped l e)" "d = b" | "rest = (r, d)"
  using assms by (auto simp: statement_def split: option.splits)

lemma checked_cases:
  assumes "checked ok l b rest = (r, d)"
  obtains e where "r = Inl (Wrapped l e)" "d = b" | "ok" "rest = (r, d)"
  using assms by (auto simp: checked_def split: if_splits)

text \<open>The database after a statement, as a conditional that splits into the early exits.\<close>

lemma snd_statement: "snd (statement sv l b rest) = (if sv_fault sv l = None then snd rest else b)"
  by (simp add: statement_def split: option.split)

lemma snd_checked: "snd (checked ok l b rest) = (if ok then snd rest else b)"
  by (simp add: checked_def)

lemma statement_ok [simp]: "sv_fault sv l = None \<Longrightarrow> statement sv l b rest = rest"
  by (simp add: statement_def)

lemma checked_ok [simp]: "ok \<Longrightarrow> checked ok l b rest = rest"
  by (simp add: checked_def)

text \<open>A transaction that fails leaves the database of its beginning.\<close>

definition keeps_on_error :: "'d \<Rightarrow> 'a res \<times> 'd \<Rightarrow> bool" where
  "keeps_on_error db p \<longleftrightarrow> isl (fst p) \<longrightarrow> snd p = db"

lemma keeps_on_error_rules:
  "keeps_on_error db (Inl e, db)" "keeps_on_error db (Inr a, d)"
  "keeps_on_error db (statement sv l db rest) \<longleftrightarrow> sv_fault sv l = None \<longrightarrow> keeps_on_error db rest"
  "keeps_on_error db (checked ok l db rest) \<longleftrightarrow> ok \<longrightarrow> keeps_on_error db rest"
  by (auto simp: keeps_on_error_def statement_def checked_def split: option.splits)

definition healthy :: "server \<Rightarrow> bool" where
  "healthy sv \<longleftrightarrow> (\<forall>l. sv_fault sv l = None)"

lemma healthyD [simp]: "healthy sv \<Longrightarrow> sv_fault sv l = None"
  by (simp add: healthy_def)

end
