(* ===== verification/NodeStore.thy ===== *)
theory NodeStore
  imports Database
begin

text \<open>
  \<^verbatim>\<open>internal/postgres/store.go\<close>: owners and sessions, organizations, sites and groups, nodes with
  their credentials, heartbeats, network samples and logs, enrolment tokens, and the pairing
  requests by which a device asks to become a node.  One definition per operation, statement by
  statement; an operation that opens a transaction keeps the database of its beginning on every
  return before the commit.
\<close>

section \<open>Queries that only read\<close>

text \<open>A query that fails with its error wrapped, and the end of the iteration over its rows.\<close>

definition query :: "server \<Rightarrow> string \<Rightarrow> 'a res \<Rightarrow> 'a res" where
  "query sv label result =
     (case sv_fault sv label of Some e \<Rightarrow> Inl (Wrapped label e) | None \<Rightarrow> result)"

definition rows_err :: "server \<Rightarrow> string \<Rightarrow> 'a res \<Rightarrow> 'a res" where
  "rows_err sv label result = (case sv_fault sv label of Some e \<Rightarrow> Inl e | None \<Rightarrow> result)"

definition one_row :: "sentinel \<Rightarrow> 'a list \<Rightarrow> 'a res" where
  "one_row missing rows = (case rows of [] \<Rightarrow> Inl (Sentinel missing) | r # _ \<Rightarrow> Inr r)"

definition is_setup :: "server \<Rightarrow> database \<Rightarrow> bool res" where
  "is_setup sv db = query sv ''check owner setup'' (Inr (db_owners db \<noteq> []))"

definition owner_by_username :: "server \<Rightarrow> database \<Rightarrow> string \<Rightarrow> owner res" where
  "owner_by_username sv db name =
     query sv ''find owner'' (one_row ErrNotFound (filter (\<lambda>ow. ow_username ow = name) (db_owners db)))"

definition owner_by_session_hash :: "server \<Rightarrow> database \<Rightarrow> string \<Rightarrow> time \<Rightarrow> owner res" where
  "owner_by_session_hash sv db hash now =
     query sv ''find session owner'' (one_row ErrUnauthorized
       [ow. s \<leftarrow> db_sessions db, se_token_hash s = hash \<and> now < se_expires_at s,
            ow \<leftarrow> db_owners db, ow_id ow = se_owner_id s])"

definition list_organizations :: "server \<Rightarrow> database \<Rightarrow> organization list res" where
  "list_organizations sv db = query sv ''list organizations'' (rows_err sv ''organization rows''
     (Inr (sql_sort (\<lambda>a b. sv_text_le sv (og_name a) (og_name b)) (db_organizations db))))"

definition list_sites :: "server \<Rightarrow> database \<Rightarrow> site list res" where
  "list_sites sv db = query sv ''list sites'' (rows_err sv ''site rows''
     (Inr (sql_sort (\<lambda>a b. sv_text_le sv (si_name a) (si_name b)) (db_sites db))))"

definition list_groups :: "server \<Rightarrow> database \<Rightarrow> node_group list res" where
  "list_groups sv db = query sv ''list groups'' (rows_err sv ''group rows''
     (Inr (sql_sort (\<lambda>a b. sv_text_le sv (ng_name a) (ng_name b)) (db_groups db))))"

text \<open>The columns of \<open>nodeColumns\<close>: a row without its machine identifier.\<close>

definition scan_node :: "node_row \<Rightarrow> node" where
  "scan_node r = node.truncate r"

definition list_nodes :: "server \<Rightarrow> database \<Rightarrow> node list res" where
  "list_nodes sv db = query sv ''list nodes'' (rows_err sv ''node rows''
     (Inr (map scan_node (sql_sort (\<lambda>a b. sv_text_le sv (nd_name a) (nd_name b)) (db_nodes db)))))"

definition require_node :: "server \<Rightarrow> database \<Rightarrow> string \<Rightarrow> unit res" where
  "require_node sv db nid =
     query sv ''check node''
       (if nid \<in> nd_id ` set (db_nodes db) then Inr () else Inl (Sentinel ErrNotFound))"

definition node_by_id :: "server \<Rightarrow> database \<Rightarrow> string \<Rightarrow> node res" where
  "node_by_id sv db nid =
     query sv ''load node''
       (map_sum id scan_node (one_row ErrNotFound (filter (\<lambda>n. nd_id n = nid) (db_nodes db))))"

definition get_agent_logs :: "server \<Rightarrow> database \<Rightarrow> string \<Rightarrow> agent_log_snapshot res" where
  "get_agent_logs sv db nid =
     query sv ''get agent logs''
       (one_row ErrNotFound (filter (\<lambda>s. ls_node_id s = nid) (db_logs db)))"

section \<open>Network history\<close>

text \<open>\<open>AVG\<close> and \<open>MAX\<close> over \<open>DOUBLE PRECISION\<close> belong to the database server: a parameter.\<close>

record aggregates =
  ag_avg :: "go_float list \<Rightarrow> go_float"
  ag_max :: "go_float list \<Rightarrow> go_float"

text \<open>Unix time counts from 1970, the zero time of Go is the year 1.\<close>

definition unix_epoch :: time where
  "unix_epoch = 62135596800 * second"

definition bucket_start :: "duration \<Rightarrow> time \<Rightarrow> time" where
  "bucket_start bucket t = unix_epoch + (t - unix_epoch) div bucket * bucket"

definition history_point :: "aggregates \<Rightarrow> time \<Rightarrow> sample_row list \<Rightarrow> network_history_point" where
  "history_point ag t ss =
     \<lparr>hp_captured_at = t, hp_upload_average = ag_avg ag (map sm_upload ss),
      hp_download_average = ag_avg ag (map sm_download ss),
      hp_upload_peak = ag_max ag (map sm_upload ss),
      hp_download_peak = ag_max ag (map sm_download ss)\<rparr>"

definition list_network_history ::
    "server \<Rightarrow> aggregates \<Rightarrow> database \<Rightarrow> string \<Rightarrow> time \<Rightarrow> duration \<Rightarrow> network_history_point list res" where
  "list_network_history sv ag db nid since bucket =
     (if bucket \<le> 0 then Inl (Message ''network history bucket must be positive'')
      else case require_node sv db nid of
          Inl e \<Rightarrow> Inl e
        | Inr _ \<Rightarrow>
          query sv ''list network history'' (query sv ''iterate network history''
            (let ss = filter (\<lambda>s. sm_node_id s = nid \<and> since \<le> sm_captured_at s) (db_samples db);
                 starts = sql_sort (\<le>) (remdups (map (\<lambda>s. bucket_start bucket (sm_captured_at s)) ss))
             in Inr (map (\<lambda>t. history_point ag t
                        (filter (\<lambda>s. bucket_start bucket (sm_captured_at s) = t) ss)) starts))))"

definition summary_item :: "aggregates \<Rightarrow> string \<Rightarrow> sample_row list \<Rightarrow> network_summary_item" where
  "summary_item ag nid ss =
     \<lparr>su_node_id = nid, su_upload_average = ag_avg ag (map sm_upload ss),
      su_download_average = ag_avg ag (map sm_download ss),
      su_upload_peak = ag_max ag (map sm_upload ss),
      su_download_peak = ag_max ag (map sm_download ss)\<rparr>"

definition list_network_summary ::
    "server \<Rightarrow> aggregates \<Rightarrow> database \<Rightarrow> time \<Rightarrow> network_summary_item list res" where
  "list_network_summary sv ag db since =
     query sv ''list network summary'' (query sv ''iterate network summary''
       (let ss = filter (\<lambda>s. since \<le> sm_captured_at s) (db_samples db)
        in Inr (map (\<lambda>nid. summary_item ag nid (filter (\<lambda>s. sm_node_id s = nid) ss))
             (remdups (map sm_node_id ss)))))"

section \<open>Single statements that write\<close>

text \<open>\<open>INSERT\<close> of one row: the server may fail, the schema may refuse.\<close>

definition insert_row :: "server \<Rightarrow> string \<Rightarrow> bool \<Rightarrow> database \<Rightarrow> database \<Rightarrow> unit res \<times> database" where
  "insert_row sv label ok db db' = statement sv label db (checked ok label db (Inr (), db'))"

definition create_owner :: "server \<Rightarrow> database \<Rightarrow> owner \<Rightarrow> unit res \<times> database" where
  "create_owner sv db ow =
     insert_row sv ''create owner''
       (ow_id ow \<notin> ow_id ` set (db_owners db) \<and> ow_username ow \<notin> ow_username ` set (db_owners db) \<and>
        storable_text (ow_username ow))
       db (db\<lparr>db_owners := db_owners db @ [ow]\<rparr>)"

definition create_session :: "server \<Rightarrow> database \<Rightarrow> session \<Rightarrow> unit res \<times> database" where
  "create_session sv db s =
     insert_row sv ''create session''
       (se_id s \<notin> se_id ` set (db_sessions db) \<and> se_token_hash s \<notin> se_token_hash ` set (db_sessions db) \<and>
        se_owner_id s \<in> ow_id ` set (db_owners db))
       db (db\<lparr>db_sessions := db_sessions db @ [s]\<rparr>)"

definition delete_session :: "server \<Rightarrow> database \<Rightarrow> string \<Rightarrow> unit res \<times> database" where
  "delete_session sv db hash =
     statement sv ''delete session'' db
       (Inr (), db\<lparr>db_sessions := filter (\<lambda>s. se_token_hash s \<noteq> hash) (db_sessions db)\<rparr>)"

definition create_organization :: "server \<Rightarrow> database \<Rightarrow> organization \<Rightarrow> unit res \<times> database" where
  "create_organization sv db x =
     insert_row sv ''create organization''
       (og_id x \<notin> og_id ` set (db_organizations db) \<and> og_name x \<notin> og_name ` set (db_organizations db) \<and>
        storable_text (og_name x))
       db (db\<lparr>db_organizations := db_organizations db @ [x]\<rparr>)"

definition create_site :: "server \<Rightarrow> database \<Rightarrow> site \<Rightarrow> unit res \<times> database" where
  "create_site sv db x =
     insert_row sv ''create site''
       (si_id x \<notin> si_id ` set (db_sites db) \<and>
        (si_organization_id x, si_name x) \<notin> (\<lambda>s. (si_organization_id s, si_name s)) ` set (db_sites db) \<and>
        si_organization_id x \<in> og_id ` set (db_organizations db) \<and> storable_text (si_name x))
       db (db\<lparr>db_sites := db_sites db @ [x]\<rparr>)"

text \<open>An empty site is stored as \<open>NULL\<close>, which no unique key compares as equal.\<close>

definition create_group :: "server \<Rightarrow> database \<Rightarrow> node_group \<Rightarrow> unit res \<times> database" where
  "create_group sv db x =
     insert_row sv ''create group''
       (ng_id x \<notin> ng_id ` set (db_groups db) \<and> storable_text (ng_name x) \<and>
        (ng_site_id x = [] \<or> ng_site_id x \<in> si_id ` set (db_sites db) \<and>
           (ng_site_id x, ng_name x) \<notin> (\<lambda>g. (ng_site_id g, ng_name g)) ` set (db_groups db)))
       db (db\<lparr>db_groups := db_groups db @ [x]\<rparr>)"

definition update_node_remark :: "server \<Rightarrow> database \<Rightarrow> string \<Rightarrow> string \<Rightarrow> node res \<times> database" where
  "update_node_remark sv db nid remark =
     statement sv ''update node remark'' db
       (checked (storable_text remark) ''update node remark'' db
         (let nodes = sql_update (\<lambda>n. nd_id n = nid) (\<lambda>n. n\<lparr>nd_remark := remark\<rparr>) (db_nodes db)
          in case find (\<lambda>n. nd_id n = nid) nodes of
               None \<Rightarrow> (Inl (Sentinel ErrNotFound), db)
             | Some n \<Rightarrow> (Inr (scan_node n), db\<lparr>db_nodes := nodes\<rparr>)))"

definition prune_network_samples :: "server \<Rightarrow> database \<Rightarrow> time \<Rightarrow> int res \<times> database" where
  "prune_network_samples sv db before =
     statement sv ''prune network samples'' db
       (let old = (\<lambda>s. sm_captured_at s < before);
            db1 = db\<lparr>db_samples := filter (\<lambda>s. \<not> old s) (db_samples db)\<rparr>
        in statement sv ''count pruned network samples'' db1 (Inr (sql_count old (db_samples db)), db1))"

definition create_enrollment :: "server \<Rightarrow> database \<Rightarrow> enrollment \<Rightarrow> unit res \<times> database" where
  "create_enrollment sv db x =
     insert_row sv ''create enrollment''
       (en_id x \<notin> en_id ` set (db_enrollments db) \<and>
        en_token_hash x \<notin> en_token_hash ` set (db_enrollments db) \<and>
        en_group_id x \<in> ng_id ` set (db_groups db) \<and>
        0 < en_max_uses x \<and> int4 (en_max_uses x) \<and> 0 \<le> en_uses x \<and> int4 (en_uses x))
       db (db\<lparr>db_enrollments := db_enrollments db @ [x]\<rparr>)"

section \<open>Enrolment\<close>

text \<open>A node as \<open>INSERT INTO nodes\<close> leaves it: the columns not named have their defaults.\<close>

definition inserted_node ::
    "string \<Rightarrow> string \<Rightarrow> string \<Rightarrow> string \<Rightarrow> string \<Rightarrow> string \<Rightarrow> string \<Rightarrow> time option \<Rightarrow> time \<Rightarrow> node_row" where
  "inserted_node i gid remark name type machine version seen now =
     \<lparr>nd_id = i, nd_group_id = gid, nd_remark = remark, nd_name = name, nd_type = type,
      nd_agent_version = version, nd_os_name = [], nd_os_version = [], nd_ip_address = [],
      nd_cpu_percent = Finite 0, nd_memory_percent = Finite 0, nd_disk_percent = Finite 0,
      nd_metrics_available = False, nd_upload_rate = Finite 0, nd_download_rate = Finite 0,
      nd_usage_available = False, nd_usage_day = [], nd_today_upload = 0, nd_today_download = 0,
      nd_month_upload = 0, nd_month_download = 0, nd_last_seen_at = seen, nd_created_at = now,
      nw_machine_id = machine\<rparr>"

definition node_insertable :: "database \<Rightarrow> node_row \<Rightarrow> bool" where
  "node_insertable db n \<longleftrightarrow>
     nd_id n \<notin> nd_id ` set (db_nodes db) \<and> nd_group_id n \<in> ng_id ` set (db_groups db) \<and>
     (nd_type n = ''windows'' \<or> nd_type n = ''linux'') \<and>
     (nw_machine_id n = [] \<or> nw_machine_id n \<notin> nw_machine_id ` set (db_nodes db)) \<and>
     storable_text (nd_name n) \<and> storable_text (nd_remark n) \<and> storable_text (nd_agent_version n) \<and>
     storable_text (nw_machine_id n)"

definition credential_insertable :: "database \<Rightarrow> credential_row \<Rightarrow> bool" where
  "credential_insertable db c \<longleftrightarrow>
     cr_node_id c \<notin> cr_node_id ` set (db_credentials db) \<and>
     cr_token_hash c \<notin> cr_token_hash ` set (db_credentials db) \<and>
     cr_node_id c \<in> nd_id ` set (db_nodes db)"

definition use_enrollment :: "string \<Rightarrow> enrollment list \<Rightarrow> enrollment list" where
  "use_enrollment hash = sql_update (\<lambda>x. en_token_hash x = hash) (\<lambda>x. x\<lparr>en_uses := en_uses x + 1\<rparr>)"

definition enroll_node ::
    "server \<Rightarrow> database \<Rightarrow> string \<Rightarrow> string \<Rightarrow> enroll_request \<Rightarrow> time \<Rightarrow> node res \<times> database" where
  "enroll_node sv db hash device request now =
     statement sv ''begin enrollment transaction'' db
       (statement sv ''load enrollment'' db
         (case find (\<lambda>x. en_token_hash x = hash) (db_enrollments db) of
            None \<Rightarrow> (Inl (Sentinel ErrUnauthorized), db)
          | Some x \<Rightarrow>
            if \<not> now < en_expires_at x \<or> en_max_uses x \<le> en_uses x
            then (Inl (Sentinel ErrEnrollmentExpired), db)
            else statement sv ''consume enrollment'' db
              (checked (int4 (en_uses x + 1)) ''consume enrollment'' db
                (let n = inserted_node (sv_uuid sv 0) (en_group_id x) [] (er_hostname request)
                       (er_type request) (er_machine_id request) (er_version request) (Some now) now;
                     db1 = db\<lparr>db_enrollments := use_enrollment hash (db_enrollments db)\<rparr>;
                     c = \<lparr>cr_node_id = nd_id n, cr_token_hash = device, cr_created_at = now,
                          cr_revoked_at = None\<rparr>;
                     v = \<lparr>ev_id = sv_uuid sv 1, ev_node_id = Some (nd_id n), ev_type = ''node.enrolled'',
                          ev_hostname = nd_name n, ev_node_type = nd_type n, ev_created_at = now\<rparr>
                 in statement sv ''create node'' db (checked (node_insertable db1 n) ''create node'' db
                      (let db2 = db1\<lparr>db_nodes := db_nodes db1 @ [n]\<rparr>
                       in statement sv ''create node credential'' db
                            (checked (credential_insertable db2 c) ''create node credential'' db
                              (let db3 = db2\<lparr>db_credentials := db_credentials db2 @ [c]\<rparr>
                               in statement sv ''create enrollment event'' db
                                    (checked (ev_id v \<notin> ev_id ` set (db_events db3))
                                       ''create enrollment event'' db
                                      (statement sv ''commit enrollment'' db
                                        (Inr (scan_node n),
                                         db3\<lparr>db_events := db_events db3 @ [v]\<rparr>)))))))))))"

section \<open>Heartbeats and logs\<close>

definition credential_node :: "database \<Rightarrow> string \<Rightarrow> string option" where
  "credential_node db hash =
     map_option cr_node_id
       (find (\<lambda>c. cr_token_hash c = hash \<and> cr_revoked_at c = None) (db_credentials db))"

definition heartbeat_row :: "heartbeat \<Rightarrow> time \<Rightarrow> node_row \<Rightarrow> node_row" where
  "heartbeat_row h now n =
     n\<lparr>nd_name := (if hb_hostname h = [] then nd_name n else hb_hostname h),
       nd_agent_version := hb_agent_version h, nd_os_name := hb_os_name h,
       nd_os_version := hb_os_version h, nd_ip_address := hb_ip_address h,
       nd_cpu_percent := hb_cpu_percent h, nd_memory_percent := hb_memory_percent h,
       nd_disk_percent := hb_disk_percent h, nd_metrics_available := hb_metrics_available h,
       nd_upload_rate := hb_upload_rate h, nd_download_rate := hb_download_rate h,
       nd_usage_available := hb_usage_available h, nd_usage_day := hb_usage_day h,
       nd_today_upload := hb_today_upload h, nd_today_download := hb_today_download h,
       nd_month_upload := hb_month_upload h, nd_month_download := hb_month_download h,
       nd_last_seen_at := Some now\<rparr>"

text \<open>Text without NUL, and counters that fit the signed 64 bits of \<open>BIGINT\<close>.\<close>

definition heartbeat_storable :: "heartbeat \<Rightarrow> bool" where
  "heartbeat_storable h \<longleftrightarrow>
     storable_text (hb_hostname h) \<and> storable_text (hb_agent_version h) \<and> storable_text (hb_os_name h) \<and>
     storable_text (hb_os_version h) \<and> storable_text (hb_ip_address h) \<and> storable_text (hb_usage_day h) \<and>
     uint (hb_today_upload h) < 2 ^ 63 \<and> uint (hb_today_download h) < 2 ^ 63 \<and>
     uint (hb_month_upload h) < 2 ^ 63 \<and> uint (hb_month_download h) < 2 ^ 63"

text \<open>\<open>INSERT ... ON CONFLICT ... DO UPDATE\<close>: replace the row with the key, or append it.\<close>

definition sql_upsert :: "('r \<Rightarrow> 'k) \<Rightarrow> 'r \<Rightarrow> 'r list \<Rightarrow> 'r list" where
  "sql_upsert k r rows =
     (if k r \<in> k ` set rows then sql_update (\<lambda>q. k q = k r) (\<lambda>q. r) rows else rows @ [r])"

definition sample_key :: "sample_row \<Rightarrow> string \<times> time" where
  "sample_key s = (sm_node_id s, sm_captured_at s)"

definition record_heartbeat ::
    "server \<Rightarrow> database \<Rightarrow> string \<Rightarrow> heartbeat \<Rightarrow> time \<Rightarrow> node res \<times> database" where
  "record_heartbeat sv db hash h now =
     statement sv ''begin heartbeat transaction'' db
       (statement sv ''record heartbeat'' db
         (checked (heartbeat_storable h) ''record heartbeat'' db
           (let hit = (\<lambda>n. credential_node db hash = Some (nd_id n));
                nodes = sql_update hit (heartbeat_row h now) (db_nodes db)
            in case find hit nodes of
                 None \<Rightarrow> (Inl (Sentinel ErrUnauthorized), db)
               | Some n \<Rightarrow>
                 let s = \<lparr>sm_node_id = nd_id n, sm_captured_at = now,
                          sm_upload = hb_upload_rate h, sm_download = hb_download_rate h\<rparr>
                 in statement sv ''record network sample'' db
                      (statement sv ''commit heartbeat'' db
                        (Inr (scan_node n),
                         db\<lparr>db_nodes := nodes, db_samples := sql_upsert sample_key s (db_samples db)\<rparr>)))))"

definition record_agent_logs ::
    "server \<Rightarrow> database \<Rightarrow> string \<Rightarrow> agent_log_upload \<Rightarrow> time \<Rightarrow> agent_log_snapshot res \<times> database" where
  "record_agent_logs sv db hash logs now =
     statement sv ''record agent logs'' db
       (case credential_node db hash of
          None \<Rightarrow> (Inl (Sentinel ErrUnauthorized), db)
        | Some nid \<Rightarrow>
          checked (storable_text (lu_agent_log logs) \<and> storable_text (lu_update_log logs))
            ''record agent logs'' db
            (let s = \<lparr>ls_node_id = nid, ls_agent_log = lu_agent_log logs,
                      ls_update_log = lu_update_log logs, ls_captured_at = now\<rparr>
             in (Inr s, db\<lparr>db_logs := sql_upsert ls_node_id s (db_logs db)\<rparr>)))"

section \<open>Pairing\<close>

definition scan_pairing :: "pairing_row \<Rightarrow> pairing_request" where
  "scan_pairing w =
     \<lparr>pr_id = pw_id w, pr_machine_id = pw_machine_id w, pr_hostname = pw_hostname w,
      pr_type = pw_type w, pr_agent_version = pw_agent_version w, pr_credential_hash = [],
      pr_state = pw_state w, pr_existing_node = None,
      pr_group_id = (case pw_group_id w of None \<Rightarrow> [] | Some g \<Rightarrow> g),
      pr_created_at = pw_created_at w, pr_expires_at = pw_expires_at w, pr_decided_at = pw_decided_at w\<rparr>"

definition create_pairing_request ::
    "server \<Rightarrow> database \<Rightarrow> pairing_request \<Rightarrow> time \<Rightarrow> pairing_request res \<times> database" where
  "create_pairing_request sv db request0 now =
     (let request = request0\<lparr>pr_created_at := now, pr_expires_at := now + 10 * minute\<rparr>;
          w = \<lparr>pw_id = pr_id request, pw_machine_id = pr_machine_id request,
               pw_hostname = pr_hostname request, pw_type = pr_type request,
               pw_agent_version = pr_agent_version request,
               pw_credential_hash = pr_credential_hash request, pw_state = pr_state request,
               pw_node_id = None, pw_group_id = None, pw_remark = [],
               pw_created_at = pr_created_at request, pw_expires_at = pr_expires_at request,
               pw_decided_at = None\<rparr>
      in statement sv ''create pairing request'' db
           (checked (pw_id w \<notin> pw_id ` set (db_pairings db) \<and>
                (pw_type w = ''windows'' \<or> pw_type w = ''linux'') \<and>
                (\<forall>s. pw_state w \<noteq> OtherPairing s) \<and> storable_text (pw_machine_id w) \<and>
                storable_text (pw_hostname w) \<and> storable_text (pw_agent_version w))
              ''create pairing request'' db
             (Inr request, db\<lparr>db_pairings := db_pairings db @ [w]\<rparr>)))"

definition expire_row :: "time \<Rightarrow> pairing_row \<Rightarrow> pairing_row" where
  "expire_row now w =
     w\<lparr>pw_state := PairingExpired,
       pw_decided_at := (case pw_decided_at w of None \<Rightarrow> Some now | Some t \<Rightarrow> Some t)\<rparr>"

definition pairing_due :: "time \<Rightarrow> pairing_row \<Rightarrow> bool" where
  "pairing_due now w \<longleftrightarrow> pw_state w = PairingPending \<and> pw_expires_at w \<le> now"

definition get_pairing_request ::
    "server \<Rightarrow> database \<Rightarrow> string \<Rightarrow> string \<Rightarrow> time \<Rightarrow> pairing_request res \<times> database" where
  "get_pairing_request sv db i hash now =
     statement sv ''expire pairing request'' db
       (let db1 = db\<lparr>db_pairings := sql_update (\<lambda>w. pw_id w = i \<and> pairing_due now w)
                      (expire_row now) (db_pairings db)\<rparr>
        in statement sv ''get pairing request'' db1
             (case find (\<lambda>w. pw_id w = i \<and> pw_credential_hash w = hash) (db_pairings db1) of
                None \<Rightarrow> (Inl (Sentinel ErrUnauthorized), db1)
              | Some w \<Rightarrow>
                let nid = (case pw_node_id w of None \<Rightarrow> [] | Some n \<Rightarrow> n)
                in if nid = [] then (Inr (scan_pairing w), db1)
                   else (case node_by_id sv db1 nid of
                           Inl e \<Rightarrow> (Inl (Wrapped ''load paired node'' e), db1)
                         | Inr n \<Rightarrow> (Inr ((scan_pairing w)\<lparr>pr_existing_node := Some n\<rparr>), db1))))"

definition list_pending_pairing_requests ::
    "server \<Rightarrow> database \<Rightarrow> time \<Rightarrow> pairing_request list res \<times> database" where
  "list_pending_pairing_requests sv db now =
     statement sv ''expire pending pairings'' db
       (let db1 = db\<lparr>db_pairings := sql_update (pairing_due now) (expire_row now) (db_pairings db)\<rparr>
        in statement sv ''list pending pairings'' db1
             (statement sv ''iterate pending pairings'' db1
               (Inr (map scan_pairing (sql_sort (\<lambda>a b. pw_created_at a \<le> pw_created_at b)
                  (filter (\<lambda>w. pw_state w = PairingPending \<and> now < pw_expires_at w) (db_pairings db1)))),
                db1)))"

text \<open>The node of the machine: the one that exists, brought up to date, or a new one.\<close>

definition paired_row :: "string \<Rightarrow> string \<Rightarrow> pairing_row \<Rightarrow> node_row \<Rightarrow> node_row" where
  "paired_row gid remark w n =
     n\<lparr>nd_group_id := gid, nd_remark := remark, nd_name := pw_hostname w, nd_type := pw_type w,
       nd_agent_version := pw_agent_version w\<rparr>"

definition pair_node ::
    "server \<Rightarrow> database \<Rightarrow> pairing_row \<Rightarrow> string \<Rightarrow> string \<Rightarrow> time \<Rightarrow> node_row res \<times> database" where
  "pair_node sv db w gid remark now =
     statement sv ''find paired node'' db
       (case find (\<lambda>n. nw_machine_id n = pw_machine_id w) (db_nodes db) of
          None \<Rightarrow>
            let n = inserted_node (sv_uuid sv 0) gid remark (pw_hostname w) (pw_type w)
                      (pw_machine_id w) (pw_agent_version w) None now
            in statement sv ''create paired node'' db
                 (checked (node_insertable db n) ''create paired node'' db
                   (Inr n, db\<lparr>db_nodes := db_nodes db @ [n]\<rparr>))
        | Some n \<Rightarrow>
            statement sv ''update paired node'' db
              (checked (gid \<in> ng_id ` set (db_groups db) \<and> storable_text remark) ''update paired node'' db
                (Inr (paired_row gid remark w n),
                 db\<lparr>db_nodes := sql_update (\<lambda>q. nd_id q = nd_id n) (paired_row gid remark w) (db_nodes db)\<rparr>)))"

definition approved_row :: "string \<Rightarrow> string \<Rightarrow> string \<Rightarrow> time \<Rightarrow> pairing_row \<Rightarrow> pairing_row" where
  "approved_row nid gid remark now w =
     w\<lparr>pw_state := PairingApproved, pw_node_id := Some nid, pw_group_id := Some gid,
       pw_remark := remark, pw_decided_at := Some now\<rparr>"

definition approve_pairing_request ::
    "server \<Rightarrow> database \<Rightarrow> string \<Rightarrow> string \<Rightarrow> string \<Rightarrow> time \<Rightarrow> node res \<times> database" where
  "approve_pairing_request sv db i gid remark now =
     statement sv ''begin pairing approval transaction'' db
       (statement sv ''load pairing request'' db
         (case find (\<lambda>w. pw_id w = i) (db_pairings db) of
            None \<Rightarrow> (Inl (Sentinel ErrNotFound), db)
          | Some w \<Rightarrow>
            if pw_state w \<noteq> PairingPending
            then (Inl (Sentinel (if pw_state w = PairingExpired then ErrPairingExpired else ErrConflict)), db)
            else if \<not> now < pw_expires_at w
            then statement sv ''expire pairing request'' db (Inl (Sentinel ErrPairingExpired), db)
            else case pair_node sv db w gid remark now of
                (Inl e, d) \<Rightarrow> (Inl e, db)
              | (Inr n, db1) \<Rightarrow>
                let c = \<lparr>cr_node_id = nd_id n, cr_token_hash = pw_credential_hash w,
                         cr_created_at = now, cr_revoked_at = None\<rparr>
                in statement sv ''store paired node credential'' db
                     (checked (\<forall>q\<in>set (db_credentials db1).
                          cr_token_hash q = cr_token_hash c \<longrightarrow> cr_node_id q = cr_node_id c)
                        ''store paired node credential'' db
                       (statement sv ''approve pairing request'' db
                         (statement sv ''commit pairing approval'' db
                           (Inr (scan_node n),
                            db1\<lparr>db_credentials := sql_upsert cr_node_id c (db_credentials db1),
                               db_pairings := sql_update (\<lambda>w. pw_id w = i)
                                 (approved_row (nd_id n) gid remark now) (db_pairings db1)\<rparr>))))))"

text \<open>A single statement, so a rejection that another decision overtook changes nothing.\<close>

definition rejected_row :: "time \<Rightarrow> pairing_row \<Rightarrow> pairing_row" where
  "rejected_row now w = w\<lparr>pw_state := PairingRejected, pw_decided_at := Some now\<rparr>"

definition reject_pairing_request ::
    "server \<Rightarrow> database \<Rightarrow> string \<Rightarrow> time \<Rightarrow> unit res \<times> database" where
  "reject_pairing_request sv db i now =
     statement sv ''reject pairing request'' db
       (let open_now = (\<lambda>w. pw_id w = i \<and> pw_state w = PairingPending \<and> now < pw_expires_at w);
            db1 = db\<lparr>db_pairings := sql_update open_now (rejected_row now) (db_pairings db)\<rparr>
        in statement sv ''count rejected pairing request'' db1
             (if sql_count open_now (db_pairings db) = 1 then (Inr (), db1)
              else statement sv ''load rejected pairing request'' db1
                (case find (\<lambda>w. pw_id w = i) (db_pairings db1) of
                   None \<Rightarrow> (Inl (Sentinel ErrNotFound), db1)
                 | Some w \<Rightarrow>
                   if pw_state w = PairingExpired \<or> \<not> now < pw_expires_at w
                   then (Inl (Sentinel ErrPairingExpired), db1)
                   else (Inl (Sentinel ErrConflict), db1))))"

definition prune_pairing_requests :: "server \<Rightarrow> database \<Rightarrow> time \<Rightarrow> int res \<times> database" where
  "prune_pairing_requests sv db before =
     statement sv ''prune pairing requests'' db
       (let old = (\<lambda>w. pw_created_at w < before \<and> pw_state w \<noteq> PairingPending);
            db1 = db\<lparr>db_pairings := filter (\<lambda>w. \<not> old w) (db_pairings db)\<rparr>
        in statement sv ''count pruned pairing requests'' db1 (Inr (sql_count old (db_pairings db)), db1))"

end
