(* ===== verification/Lifecycle.thy ===== *)
theory Lifecycle
  imports Database
begin

text \<open>
  What the tables with a status column have in common: rows that move along a life cycle, keep
  their key and stop for good in a final state, and new rows that enter in a fresh state.  The
  locale \<open>row_lifecycle\<close> states that contract for one kind of row; its lemmas lift it from rows
  to tables, for any number of statements.  The command executions and the pairing requests are
  its interpretations.
\<close>

locale row_lifecycle =
  fixes step :: "'r \<Rightarrow> 'r \<Rightarrow> bool"
    and final :: "'r \<Rightarrow> bool"
    and fresh :: "'r \<Rightarrow> bool"
    and key :: "'r \<Rightarrow> 'k"
  assumes step_key: "step a b \<Longrightarrow> key b = key a"
    and step_final: "step a b \<Longrightarrow> final a \<Longrightarrow> b = a"
begin

definition born :: "'r \<Rightarrow> bool" where
  "born n \<longleftrightarrow> (\<exists>f. fresh f \<and> step\<^sup>*\<^sup>* f n)"

definition evolves :: "'r list \<Rightarrow> 'r list \<Rightarrow> bool" where
  "evolves rows rows' \<longleftrightarrow>
     (\<exists>g new. rows' = map g rows @ new \<and> (\<forall>r\<in>set rows. step\<^sup>*\<^sup>* r (g r)) \<and> (\<forall>n\<in>set new. born n))"

lemma steps_key: "step\<^sup>*\<^sup>* a b \<Longrightarrow> key b = key a"
  by (induction rule: rtranclp_induct) (auto dest: step_key)

lemma steps_final: "step\<^sup>*\<^sup>* a b \<Longrightarrow> final a \<Longrightarrow> b = a"
  by (induction rule: rtranclp_induct) (auto dest: step_final)

lemma steps_inv:
  assumes "step\<^sup>*\<^sup>* a b" and "I a" and "\<And>x y. step x y \<Longrightarrow> I x \<Longrightarrow> I y"
  shows "I b"
  using assms(1,2) by (induction rule: rtranclp_induct) (auto dest: assms(3))

lemma evolves_refl: "evolves rows rows"
  unfolding evolves_def by (rule exI [of _ id], rule exI [of _ "[]"]) simp

lemma evolvesI_update:
  assumes "\<And>r. r \<in> set rows \<Longrightarrow> P r \<Longrightarrow> step r (f r)"
  shows "evolves rows (sql_update P f rows)"
  unfolding evolves_def sql_update_def
  using assms by (intro exI [of _ "\<lambda>r. if P r then f r else r"] exI [of _ "[]"]) auto

lemma bornI: "fresh f \<Longrightarrow> born f"
  by (auto simp: born_def)

lemma born_steps: "born n \<Longrightarrow> step\<^sup>*\<^sup>* n m \<Longrightarrow> born m"
  by (auto simp: born_def intro: rtranclp_trans)

lemma evolvesI_append: "\<forall>n\<in>set new. fresh n \<Longrightarrow> evolves rows (rows @ new)"
  unfolding evolves_def by (intro exI [of _ id] exI [of _ new]) (auto intro: bornI)

lemma evolves_trans [trans]:
  assumes "evolves a b" and "evolves b c"
  shows "evolves a c"
proof -
  from assms(1) obtain g new where g: "b = map g a @ new" "\<forall>r\<in>set a. step\<^sup>*\<^sup>* r (g r)"
      "\<forall>n\<in>set new. born n"
    by (auto simp: evolves_def)
  from assms(2) obtain h new' where h: "c = map h b @ new'" "\<forall>r\<in>set b. step\<^sup>*\<^sup>* r (h r)"
      "\<forall>n\<in>set new'. born n"
    by (auto simp: evolves_def)
  have "c = map (h \<circ> g) a @ (map h new @ new')" using g h by simp
  moreover have "\<forall>r\<in>set a. step\<^sup>*\<^sup>* r ((h \<circ> g) r)" using g h by (auto intro: rtranclp_trans)
  moreover have "\<forall>n\<in>set (map h new @ new'). born n" using g h by (auto intro: born_steps)
  ultimately show ?thesis unfolding evolves_def by blast
qed

lemma evolves_row:
  assumes "evolves rows rows'" and "r \<in> set rows"
  obtains r' where "r' \<in> set rows'" "step\<^sup>*\<^sup>* r r'" "key r' = key r"
proof -
  from assms obtain g new where "rows' = map g rows @ new" "step\<^sup>*\<^sup>* r (g r)"
    by (auto simp: evolves_def)
  with assms(2) show ?thesis by (intro that [of "g r"]) (auto dest: steps_key)
qed

lemma evolves_origin:
  assumes "evolves rows rows'" and "r' \<in> set rows'"
  obtains r where "r \<in> set rows" "step\<^sup>*\<^sup>* r r'" "key r' = key r" | "born r'"
proof -
  from assms(1) obtain g new where g: "rows' = map g rows @ new" "\<forall>r\<in>set rows. step\<^sup>*\<^sup>* r (g r)"
      "\<forall>n\<in>set new. born n"
    by (auto simp: evolves_def)
  with assms(2) consider r where "r \<in> set rows" "r' = g r" | "r' \<in> set new" by auto
  then show ?thesis
  proof cases
    case 1
    then show ?thesis using g(2) steps_key by (intro that(1) [of r]) auto
  qed (use g(3) that(2) in auto)
qed

lemma evolves_final:
  assumes "evolves rows rows'" and "r \<in> set rows" and "final r"
  shows "r \<in> set rows'"
  using assms by (auto elim: evolves_row dest: steps_final)

lemma evolves_inv:
  assumes "evolves rows rows'" and "\<forall>r\<in>set rows. I r"
    and "\<And>x y. step x y \<Longrightarrow> I x \<Longrightarrow> I y" and "\<And>x. fresh x \<Longrightarrow> I x"
  shows "\<forall>r\<in>set rows'. I r"
proof
  fix r' assume "r' \<in> set rows'"
  with assms(1) show "I r'"
    by (rule evolves_origin) (use assms(2-) steps_inv [of _ r' I] in \<open>auto simp: born_def\<close>)
qed

text \<open>The row with a given key, followed through a table that keeps its keys apart.\<close>

lemma evolves_lookup:
  assumes "evolves rows rows'" and "distinct (map key rows')"
    and "r \<in> set rows" and "r' \<in> set rows'" and "key r' = key r"
  shows "step\<^sup>*\<^sup>* r r'"
proof -
  from assms(1,3) obtain q where "q \<in> set rows'" "step\<^sup>*\<^sup>* r q" "key q = key r"
    by (rule evolves_row)
  then show ?thesis using assms(2,4,5) distinct_map_eq [of key rows' q r'] by simp
qed

text \<open>
  A table from which rows are also deleted, once they are final: every row has a history, and
  every row of before is still there or ended in a final state.
\<close>

definition turnover :: "'r list \<Rightarrow> 'r list \<Rightarrow> bool" where
  "turnover rows rows' \<longleftrightarrow>
     (\<forall>r'\<in>set rows'. (\<exists>r\<in>set rows. step\<^sup>*\<^sup>* r r') \<or> born r') \<and>
     (\<forall>r\<in>set rows. (\<exists>r'\<in>set rows'. step\<^sup>*\<^sup>* r r') \<or> (\<exists>f. step\<^sup>*\<^sup>* r f \<and> final f))"

lemma turnover_refl: "turnover rows rows"
  by (auto simp: turnover_def)

lemma turnoverI_evolves: "evolves rows rows' \<Longrightarrow> turnover rows rows'"
  unfolding turnover_def by (meson evolves_origin evolves_row)

lemma turnoverI_delete: "\<forall>r\<in>set rows. \<not> K r \<longrightarrow> final r \<Longrightarrow> turnover rows (filter K rows)"
  by (auto simp: turnover_def)

lemma turnover_trans [trans]:
  assumes "turnover a b" and "turnover b c"
  shows "turnover a c"
  unfolding turnover_def
proof (intro conjI ballI)
  fix r' assume "r' \<in> set c"
  with assms(2) consider q where "q \<in> set b" "step\<^sup>*\<^sup>* q r'" | "born r'" by (auto simp: turnover_def)
  then show "(\<exists>r\<in>set a. step\<^sup>*\<^sup>* r r') \<or> born r'"
  proof cases
    case 1
    with assms(1) show ?thesis
      unfolding turnover_def by (meson born_steps rtranclp_trans)
  qed blast
next
  fix r assume "r \<in> set a"
  with assms(1) consider q where "q \<in> set b" "step\<^sup>*\<^sup>* r q" | f where "step\<^sup>*\<^sup>* r f" "final f"
    by (auto simp: turnover_def)
  then show "(\<exists>r'\<in>set c. step\<^sup>*\<^sup>* r r') \<or> (\<exists>f. step\<^sup>*\<^sup>* r f \<and> final f)"
  proof cases
    case 1
    with assms(2) show ?thesis unfolding turnover_def by (meson rtranclp_trans)
  qed blast
qed

text \<open>A row whose key is still in use is the continuation of the row that had the key.\<close>

lemma turnover_final:
  assumes "turnover rows rows'" and "r \<in> set rows" and "final r" and "r' \<in> set rows'"
    and "key r' = key r" and "distinct (map key rows)" and "\<not> born r'"
  shows "r' = r"
proof -
  from assms(1,4,7) obtain q where "q \<in> set rows" "step\<^sup>*\<^sup>* q r'" by (auto simp: turnover_def)
  moreover from this have "q = r"
    using assms(2,5,6) distinct_map_eq [of key rows q r] steps_key by metis
  ultimately show ?thesis using assms(3) steps_final by blast
qed

lemma turnover_inv:
  assumes "turnover rows rows'" and "\<forall>r\<in>set rows. I r"
    and "\<And>x y. step x y \<Longrightarrow> I x \<Longrightarrow> I y" and "\<And>x. fresh x \<Longrightarrow> I x"
  shows "\<forall>r\<in>set rows'. I r"
  using assms(1,2) steps_inv [of _ _ I] assms(3,4) unfolding turnover_def born_def by metis

end

end
