(* ===== verification/Registry.thy ===== *)
theory Registry
  imports NodeStore Lifecycle
begin

text \<open>
  What the registry of nodes promises: the life cycle of a pairing request (the second
  interpretation of \<open>row_lifecycle\<close>), the keys and references of the tables as invariants kept by
  every operation of \<^verbatim>\<open>store.go\<close>, and how devices get their credentials.
\<close>

section \<open>The life cycle of a pairing request\<close>

inductive pairing_step :: "pairing_row \<Rightarrow> pairing_row \<Rightarrow> bool" where
  pairing_expires: "pairing_due now w \<Longrightarrow> pairing_step w (expire_row now w)"
| pairing_approved: "pw_state w = PairingPending \<Longrightarrow> now < pw_expires_at w \<Longrightarrow>
     pairing_step w (approved_row nid gid remark now w)"
| pairing_rejected: "pw_state w = PairingPending \<Longrightarrow> now < pw_expires_at w \<Longrightarrow>
     pairing_step w (rejected_row now w)"

definition pairing_final :: "pairing_row \<Rightarrow> bool" where
  "pairing_final w \<longleftrightarrow> pw_state w \<noteq> PairingPending"

definition pairing_fresh :: "pairing_row \<Rightarrow> bool" where
  "pairing_fresh w \<longleftrightarrow> pw_state w = PairingPending \<and> pw_expires_at w = pw_created_at w + 10 * minute \<and>
     pw_node_id w = None \<and> pw_decided_at w = None"

interpretation pairing: row_lifecycle pairing_step pairing_final pairing_fresh pw_id
proof unfold_locales
  fix a b assume "pairing_step a b"
  then show "pw_id b = pw_id a"
    by cases (simp_all add: expire_row_def approved_row_def rejected_row_def)
next
  fix a b assume "pairing_step a b" and "pairing_final a"
  then show "b = a" by cases (simp_all add: pairing_final_def pairing_due_def)
qed

text \<open>A decision is dated, and only an approval names a node.\<close>

definition pairing_ok :: "pairing_row \<Rightarrow> bool" where
  "pairing_ok w \<longleftrightarrow> pw_expires_at w = pw_created_at w + 10 * minute \<and>
     (pw_state w = PairingPending \<longleftrightarrow> pw_decided_at w = None) \<and>
     (pw_state w = PairingApproved \<longleftrightarrow> pw_node_id w \<noteq> None) \<and>
     (\<forall>s. pw_state w \<noteq> OtherPairing s)"

lemma pairing_step_ok: "pairing_step v w \<Longrightarrow> pairing_ok v \<Longrightarrow> pairing_ok w"
  by (induction rule: pairing_step.induct)
    (auto simp: pairing_ok_def expire_row_def approved_row_def rejected_row_def pairing_due_def)

lemma pairing_fresh_ok: "pairing_fresh w \<Longrightarrow> pairing_ok w"
  by (simp add: pairing_fresh_def pairing_ok_def)

section \<open>The operations as one type\<close>

datatype store_op =
    SOwner owner | SSession session | SLogout string
  | SOrganization organization | SSite site | SGroup node_group
  | SRemark string string | SPruneSamples time
  | SEnrollment enrollment | SEnroll string string enroll_request time
  | SHeartbeat string heartbeat time | SLogs string agent_log_upload time
  | SPair pairing_request time | SPoll string string time | SPending time
  | SApprove string string string time | SReject string time | SPrunePairings time

fun run_store :: "server \<Rightarrow> database \<Rightarrow> store_op \<Rightarrow> database" where
  "run_store sv db (SOwner x) = snd (create_owner sv db x)"
| "run_store sv db (SSession x) = snd (create_session sv db x)"
| "run_store sv db (SLogout h) = snd (delete_session sv db h)"
| "run_store sv db (SOrganization x) = snd (create_organization sv db x)"
| "run_store sv db (SSite x) = snd (create_site sv db x)"
| "run_store sv db (SGroup x) = snd (create_group sv db x)"
| "run_store sv db (SRemark i r) = snd (update_node_remark sv db i r)"
| "run_store sv db (SPruneSamples t) = snd (prune_network_samples sv db t)"
| "run_store sv db (SEnrollment x) = snd (create_enrollment sv db x)"
| "run_store sv db (SEnroll h d r t) = snd (enroll_node sv db h d r t)"
| "run_store sv db (SHeartbeat h b t) = snd (record_heartbeat sv db h b t)"
| "run_store sv db (SLogs h l t) = snd (record_agent_logs sv db h l t)"
| "run_store sv db (SPair r t) = snd (create_pairing_request sv db r t)"
| "run_store sv db (SPoll i h t) = snd (get_pairing_request sv db i h t)"
| "run_store sv db (SPending t) = snd (list_pending_pairing_requests sv db t)"
| "run_store sv db (SApprove i g r t) = snd (approve_pairing_request sv db i g r t)"
| "run_store sv db (SReject i t) = snd (reject_pairing_request sv db i t)"
| "run_store sv db (SPrunePairings t) = snd (prune_pairing_requests sv db t)"

text \<open>How the API calls the store: requests start pending, enrolments unused.\<close>

fun api_store_op :: "store_op \<Rightarrow> bool" where
  "api_store_op (SPair r t) = (pr_state r = PairingPending)"
| "api_store_op (SEnrollment x) = (en_uses x = 0)"
| "api_store_op _ = True"

lemmas store_op_defs = create_owner_def create_session_def delete_session_def
  create_organization_def create_site_def create_group_def update_node_remark_def
  prune_network_samples_def create_enrollment_def enroll_node_def record_heartbeat_def
  record_agent_logs_def create_pairing_request_def get_pairing_request_def
  list_pending_pairing_requests_def reject_pairing_request_def prune_pairing_requests_def
  insert_row_def Let_def

text \<open>What an approval does to the database, in the three ways it can end.\<close>

lemma pair_node_cases:
  "pair_node sv db w gid remark now = (Inr n, db1) \<Longrightarrow>
     (\<exists>m. find (\<lambda>n. nw_machine_id n = pw_machine_id w) (db_nodes db) = Some m \<and>
        n = paired_row gid remark w m \<and> gid \<in> ng_id ` set (db_groups db) \<and>
        db1 = db\<lparr>db_nodes := sql_update (\<lambda>q. nd_id q = nd_id m) (paired_row gid remark w) (db_nodes db)\<rparr>) \<or>
     (find (\<lambda>n. nw_machine_id n = pw_machine_id w) (db_nodes db) = None \<and> node_insertable db n \<and>
        n = inserted_node (sv_uuid sv 0) gid remark (pw_hostname w) (pw_type w)
              (pw_machine_id w) (pw_agent_version w) None now \<and>
        db1 = db\<lparr>db_nodes := db_nodes db @ [n]\<rparr>)"
  by (auto simp: pair_node_def Let_def statement_Inr checked_Inr split: option.splits)

lemma approve_cases:
  obtains (same) "run_store sv db (SApprove i gid remark now) = db"
  | (approved) w n db1 where
      "find (\<lambda>w. pw_id w = i) (db_pairings db) = Some w" "pw_state w = PairingPending"
      "now < pw_expires_at w" "pair_node sv db w gid remark now = (Inr n, db1)"
      "\<forall>q\<in>set (db_credentials db1). cr_token_hash q = pw_credential_hash w \<longrightarrow> cr_node_id q = nd_id n"
      "run_store sv db (SApprove i gid remark now) = db1\<lparr>db_credentials := sql_upsert cr_node_id
           \<lparr>cr_node_id = nd_id n, cr_token_hash = pw_credential_hash w, cr_created_at = now,
            cr_revoked_at = None\<rparr> (db_credentials db1),
         db_pairings := sql_update (\<lambda>w. pw_id w = i) (approved_row (nd_id n) gid remark now) (db_pairings db1)\<rparr>"
proof (cases "find (\<lambda>w. pw_id w = i) (db_pairings db)")
  case None
  then show ?thesis by (intro same) (simp add: approve_pairing_request_def snd_statement)
next
  case (Some w)
  show ?thesis
  proof (cases "pw_state w = PairingPending \<and> now < pw_expires_at w")
    case False
    with Some show ?thesis by (intro same) (auto simp: approve_pairing_request_def snd_statement)
  next
    case True
    obtain r db1 where p: "pair_node sv db w gid remark now = (r, db1)" by fastforce
    show ?thesis
    proof (cases r)
      case (Inl e)
      with Some True p show ?thesis by (intro same) (simp add: approve_pairing_request_def snd_statement)
    next
      case (Inr n)
      show ?thesis
      proof (cases "run_store sv db (SApprove i gid remark now) = db")
        case True
        then show ?thesis by (rule same)
      next
        case False
        with Some True p Inr show ?thesis
          by (intro approved [of w n db1])
            (auto simp: approve_pairing_request_def Let_def snd_statement snd_checked split: if_splits)
      qed
    qed
  qed
qed

section \<open>Keys and references\<close>

definition accounts_inv :: "database \<Rightarrow> bool" where
  "accounts_inv db \<longleftrightarrow> distinct (map ow_id (db_owners db)) \<and> distinct (map ow_username (db_owners db)) \<and>
     distinct (map se_token_hash (db_sessions db)) \<and>
     (\<forall>s\<in>set (db_sessions db). se_owner_id s \<in> ow_id ` set (db_owners db))"

definition groups_inv :: "database \<Rightarrow> bool" where
  "groups_inv db \<longleftrightarrow> distinct (map og_id (db_organizations db)) \<and> distinct (map si_id (db_sites db)) \<and>
     distinct (map ng_id (db_groups db)) \<and>
     (\<forall>s\<in>set (db_sites db). si_organization_id s \<in> og_id ` set (db_organizations db)) \<and>
     (\<forall>g\<in>set (db_groups db). ng_site_id g = [] \<or> ng_site_id g \<in> si_id ` set (db_sites db))"

text \<open>One node per machine, each in a group and of a supported type.\<close>

definition nodes_inv :: "database \<Rightarrow> bool" where
  "nodes_inv db \<longleftrightarrow> distinct (map nd_id (db_nodes db)) \<and>
     distinct (filter (\<lambda>m. m \<noteq> []) (map nw_machine_id (db_nodes db))) \<and>
     (\<forall>n\<in>set (db_nodes db). nd_group_id n \<in> ng_id ` set (db_groups db))"

text \<open>One credential per node and one node per credential.\<close>

definition credentials_inv :: "database \<Rightarrow> bool" where
  "credentials_inv db \<longleftrightarrow> distinct (map cr_node_id (db_credentials db)) \<and>
     distinct (map cr_token_hash (db_credentials db)) \<and>
     (\<forall>c\<in>set (db_credentials db). cr_node_id c \<in> nd_id ` set (db_nodes db))"

definition enrollments_inv :: "database \<Rightarrow> bool" where
  "enrollments_inv db \<longleftrightarrow> distinct (map en_token_hash (db_enrollments db)) \<and>
     (\<forall>x\<in>set (db_enrollments db). 0 \<le> en_uses x \<and> en_uses x \<le> en_max_uses x \<and>
        en_group_id x \<in> ng_id ` set (db_groups db))"

definition pairings_inv :: "database \<Rightarrow> bool" where
  "pairings_inv db \<longleftrightarrow> distinct (map pw_id (db_pairings db)) \<and> (\<forall>w\<in>set (db_pairings db). pairing_ok w \<and>
     (\<forall>i. pw_node_id w = Some i \<longrightarrow> i \<in> nd_id ` set (db_nodes db)))"

definition telemetry_inv :: "database \<Rightarrow> bool" where
  "telemetry_inv db \<longleftrightarrow> distinct (map sample_key (db_samples db)) \<and> distinct (map ls_node_id (db_logs db))"

definition registry_inv :: "database \<Rightarrow> bool" where
  "registry_inv db \<longleftrightarrow> accounts_inv db \<and> groups_inv db \<and> nodes_inv db \<and> credentials_inv db \<and>
     enrollments_inv db \<and> pairings_inv db \<and> telemetry_inv db"

lemma distinct_upsert:
  assumes "distinct (map k rows)"
  shows "distinct (map k (sql_upsert k r rows))"
proof (cases "k r \<in> k ` set rows")
  case True
  have "map k (sql_update (\<lambda>q. k q = k r) (\<lambda>q. r) rows) = map k rows"
    by (auto simp: sql_update_def)
  then show ?thesis using assms True by (simp add: sql_upsert_def)
next
  case False
  then show ?thesis using assms by (simp add: sql_upsert_def)
qed

lemma set_upsert:
  "set (sql_upsert k r rows) = insert r {q \<in> set rows. k q \<noteq> k r}"
  by (auto simp: sql_upsert_def sql_update_def image_iff)

lemma distinct_map_filter_key: "distinct (map k rows) \<Longrightarrow> distinct (map k (filter P rows))"
  by (rule distinct_map_filter)

lemma distinct_upsert_other:
  assumes "distinct (map k rows)" and "distinct (map h rows)"
    and "\<forall>q\<in>set rows. h q = h r \<longrightarrow> k q = k r"
  shows "distinct (map h (sql_upsert k r rows))"
  using assms
proof (induction rows)
  case (Cons q rows)
  show ?case
  proof (cases "k q = k r")
    case True
    have ne: "k p \<noteq> k r" if "p \<in> set rows" for p
      using Cons.prems(1) True that by (metis distinct.simps(2) image_eqI list.set_map list.simps(9))
    then have rest: "sql_update (\<lambda>p. k p = k r) (\<lambda>p. r) rows = rows" by (simp add: sql_update_none)
    have "h r \<notin> h ` set rows" using Cons.prems(3) ne by (metis image_iff list.set_intros(2))
    then show ?thesis using Cons.prems(2) True rest by (simp add: sql_upsert_def sql_update_def)
  next
    case False
    have IH: "distinct (map h (sql_upsert k r rows))" using Cons by simp
    have "h q \<notin> h ` set (sql_upsert k r rows)" using Cons.prems False by (auto simp: set_upsert)
    moreover have "sql_upsert k r (q # rows) = q # sql_upsert k r rows"
      using False by (auto simp: sql_upsert_def sql_update_def)
    ultimately show ?thesis using IH by simp
  qed
qed (simp add: sql_upsert_def)

text \<open>An operation that leaves the tables of a part alone keeps that part's invariant.\<close>

lemma keys_image: "map k xs = map k ys \<Longrightarrow> k ` set xs = k ` set ys"
  by (metis list.set_map)

text \<open>What an enrolment does: nothing, or one use, one node, one credential and one event.\<close>

definition enrolled_node :: "server \<Rightarrow> enrollment \<Rightarrow> enroll_request \<Rightarrow> time \<Rightarrow> node_row" where
  "enrolled_node sv x request now =
     inserted_node (sv_uuid sv 0) (en_group_id x) [] (er_hostname request) (er_type request)
       (er_machine_id request) (er_version request) (Some now) now"

lemma enroll_cases:
  obtains (refused) e where "enroll_node sv db h d request now = (Inl e, db)"
  | (enrolled) x v where
      "find (\<lambda>x. en_token_hash x = h) (db_enrollments db) = Some x" "now < en_expires_at x"
      "en_uses x < en_max_uses x" "node_insertable db (enrolled_node sv x request now)"
      "d \<notin> cr_token_hash ` set (db_credentials db)"
      "sv_uuid sv 0 \<notin> cr_node_id ` set (db_credentials db)"
      "enroll_node sv db h d request now =
         (Inr (scan_node (enrolled_node sv x request now)),
          db\<lparr>db_enrollments := use_enrollment h (db_enrollments db),
             db_nodes := db_nodes db @ [enrolled_node sv x request now],
             db_credentials := db_credentials db @
               [\<lparr>cr_node_id = sv_uuid sv 0, cr_token_hash = d, cr_created_at = now, cr_revoked_at = None\<rparr>],
             db_events := db_events db @ [v]\<rparr>)"
proof (cases "fst (enroll_node sv db h d request now)")
  case (Inl e)
  have "keeps_on_error db (enroll_node sv db h d request now)"
    by (simp add: enroll_node_def Let_def keeps_on_error_rules split: option.split)
  with Inl have "enroll_node sv db h d request now = (Inl e, db)"
    by (cases "enroll_node sv db h d request now") (simp add: keeps_on_error_def)
  then show ?thesis by (rule refused)
next
  case (Inr n)
  then obtain db' where run: "enroll_node sv db h d request now = (Inr n, db')"
    by (metis prod.collapse)
  then obtain x where x: "find (\<lambda>x. en_token_hash x = h) (db_enrollments db) = Some x"
      "now < en_expires_at x" "en_uses x < en_max_uses x"
    by (simp add: enroll_node_def statement_Inr split: option.splits if_splits)
  let ?n = "enrolled_node sv x request now"
  let ?c = "\<lparr>cr_node_id = sv_uuid sv 0, cr_token_hash = d, cr_created_at = now, cr_revoked_at = None\<rparr>"
  let ?v = "\<lparr>ev_id = sv_uuid sv 1, ev_node_id = Some (nd_id ?n), ev_type = ''node.enrolled'',
     ev_hostname = nd_name ?n, ev_node_type = nd_type ?n, ev_created_at = now\<rparr>"
  from run x have *: "node_insertable (db\<lparr>db_enrollments := use_enrollment h (db_enrollments db)\<rparr>) ?n"
    "credential_insertable (db\<lparr>db_enrollments := use_enrollment h (db_enrollments db),
        db_nodes := db_nodes db @ [?n]\<rparr>) ?c"
    "scan_node ?n = n"
    "db\<lparr>db_enrollments := use_enrollment h (db_enrollments db), db_nodes := db_nodes db @ [?n],
        db_credentials := db_credentials db @ [?c], db_events := db_events db @ [?v]\<rparr> = db'"
    by (simp_all add: enroll_node_def Let_def statement_Inr checked_Inr enrolled_node_def inserted_node_def)
  show ?thesis
  proof (rule enrolled [OF x])
    show "enroll_node sv db h d request now = (Inr (scan_node ?n),
       db\<lparr>db_enrollments := use_enrollment h (db_enrollments db), db_nodes := db_nodes db @ [?n],
          db_credentials := db_credentials db @ [?c], db_events := db_events db @ [?v]\<rparr>)"
      unfolding run *(3,4) by (rule refl)
  qed (use *(1,2) in \<open>auto simp: node_insertable_def credential_insertable_def\<close>)
qed

lemma accounts_op: "accounts_inv db \<Longrightarrow> accounts_inv (run_store sv db op)"
proof (cases op)
  case (SApprove i gid r t)
  then show ?thesis if "accounts_inv db"
    using that by (cases rule: approve_cases [of sv db i gid r t])
      (auto simp: accounts_inv_def dest!: pair_node_cases)
qed (auto simp: accounts_inv_def store_op_defs snd_statement snd_checked distinct_map_filter
    split: option.split sum.split)

lemma groups_op: "groups_inv db \<Longrightarrow> groups_inv (run_store sv db op)"
proof (cases op)
  case (SApprove i gid r t)
  then show ?thesis if "groups_inv db"
    using that by (cases rule: approve_cases [of sv db i gid r t])
      (auto simp: groups_inv_def dest!: pair_node_cases)
qed (auto simp: groups_inv_def store_op_defs snd_statement snd_checked split: option.split sum.split)

lemma telemetry_op: "telemetry_inv db \<Longrightarrow> telemetry_inv (run_store sv db op)"
proof (cases op)
  case (SApprove i gid r t)
  then show ?thesis if "telemetry_inv db"
    using that by (cases rule: approve_cases [of sv db i gid r t])
      (auto simp: telemetry_inv_def dest!: pair_node_cases)
qed (auto simp: telemetry_inv_def store_op_defs snd_statement snd_checked distinct_map_filter
    distinct_upsert split: option.split sum.split)

lemma enrollments_use:
  assumes "enrollments_inv db" and "find (\<lambda>x. en_token_hash x = h) (db_enrollments db) = Some x"
    and "\<not> en_max_uses x \<le> en_uses x"
  shows "enrollments_inv (db\<lparr>db_enrollments := use_enrollment h (db_enrollments db)\<rparr>)"
proof -
  have x: "x \<in> set (db_enrollments db)" "en_token_hash x = h" using find_Some_conv [OF assms(2)] by auto
  have only: "y = x" if "y \<in> set (db_enrollments db)" "en_token_hash y = h" for y
    using assms(1) that x distinct_map_eq [of en_token_hash "db_enrollments db" y x]
    by (simp add: enrollments_inv_def)
  have "map en_token_hash (use_enrollment h (db_enrollments db)) = map en_token_hash (db_enrollments db)"
    unfolding use_enrollment_def by (rule map_sql_update_key) simp
  moreover have "0 \<le> en_uses y \<and> en_uses y \<le> en_max_uses y \<and> en_group_id y \<in> ng_id ` set (db_groups db)"
    if "y \<in> set (use_enrollment h (db_enrollments db))" for y
    using that assms(1,3) only
    by (fastforce simp: use_enrollment_def in_sql_update enrollments_inv_def)
  ultimately show ?thesis using assms(1) by (simp add: enrollments_inv_def)
qed

lemma enrollments_op:
  assumes "enrollments_inv db" and "api_store_op op"
  shows "enrollments_inv (run_store sv db op)"
proof (cases op)
  case (SApprove i gid r t)
  then show ?thesis
    using assms by (cases rule: approve_cases [of sv db i gid r t])
      (auto simp: enrollments_inv_def dest!: pair_node_cases)
next
  case (SEnroll h d r t)
  show ?thesis
  proof (cases rule: enroll_cases [of sv db h d r t])
    case (enrolled x v)
    then show ?thesis using SEnroll enrollments_use [OF assms(1) enrolled(1)]
      by (simp add: enrollments_inv_def)
  qed (use assms SEnroll in simp)
qed (use assms in \<open>auto simp: enrollments_inv_def store_op_defs snd_statement snd_checked
    split: option.split sum.split\<close>)

lemma nodes_inv_insert:
  "nodes_inv db \<Longrightarrow> node_insertable db n \<Longrightarrow> nodes_inv (db\<lparr>db_nodes := db_nodes db @ [n]\<rparr>)"
  by (auto simp: nodes_inv_def node_insertable_def)

lemma nodes_inv_update:
  assumes "nodes_inv db" and "\<And>n. nd_id (f n) = nd_id n" and "\<And>n. nw_machine_id (f n) = nw_machine_id n"
    and "\<And>n. n \<in> set (db_nodes db) \<Longrightarrow> P n \<Longrightarrow> nd_group_id (f n) \<in> ng_id ` set (db_groups db)"
  shows "nodes_inv (db\<lparr>db_nodes := sql_update P f (db_nodes db)\<rparr>)"
proof -
  have "map nd_id (sql_update P f (db_nodes db)) = map nd_id (db_nodes db)"
    and "map nw_machine_id (sql_update P f (db_nodes db)) = map nw_machine_id (db_nodes db)"
    by (rule map_sql_update_key, fact assms)+
  then show ?thesis using assms(1,4) by (auto simp: nodes_inv_def in_sql_update)
qed

lemma pair_node_nodes:
  assumes "nodes_inv db" and "pair_node sv db w gid r t = (Inr n, db1)"
  shows "nodes_inv db1 \<and> n \<in> set (db_nodes db1) \<and> db1 = db\<lparr>db_nodes := db_nodes db1\<rparr> \<and>
    nd_id ` set (db_nodes db) \<subseteq> nd_id ` set (db_nodes db1)"
  using pair_node_cases [OF assms(2)]
proof (elim disjE exE conjE)
  fix m assume m: "find (\<lambda>n. nw_machine_id n = pw_machine_id w) (db_nodes db) = Some m"
    "n = paired_row gid r w m" "gid \<in> ng_id ` set (db_groups db)"
    "db1 = db\<lparr>db_nodes := sql_update (\<lambda>q. nd_id q = nd_id m) (paired_row gid r w) (db_nodes db)\<rparr>"
  have "nodes_inv db1" unfolding m(4)
    by (rule nodes_inv_update [OF assms(1)]) (simp_all add: paired_row_def m(3))
  moreover have "n \<in> set (db_nodes db1)"
    using find_Some_conv [OF m(1)] m(2,4) by (auto simp: in_sql_update)
  moreover have "map nd_id (db_nodes db1) = map nd_id (db_nodes db)"
    unfolding m(4) by (simp add: map_sql_update_key paired_row_def)
  ultimately show ?thesis using m(4) keys_image by (metis (no_types, lifting) database.select_convs(6) database.surjective database.update_convs(6) equalityE)
next
  assume m: "node_insertable db n" "db1 = db\<lparr>db_nodes := db_nodes db @ [n]\<rparr>"
  then show ?thesis using nodes_inv_insert [OF assms(1) m(1)] by auto
qed

lemma nodes_op: "nodes_inv db \<Longrightarrow> nodes_inv (run_store sv db op)"
proof (cases op)
  case (SApprove i gid r t)
  assume inv: "nodes_inv db"
  show ?thesis
  proof (cases rule: approve_cases [of sv db i gid r t])
    case (approved w n db1)
    then show ?thesis using SApprove pair_node_nodes [OF inv approved(4)] by (simp add: nodes_inv_def)
  qed (use SApprove inv in simp)
next
  case (SEnroll h d r t)
  assume inv: "nodes_inv db"
  show ?thesis
  proof (cases rule: enroll_cases [of sv db h d r t])
    case (enrolled x v)
    then show ?thesis using SEnroll nodes_inv_insert [OF inv enrolled(4)] by (simp add: nodes_inv_def)
  qed (use inv SEnroll in simp)
next
  case (SRemark i r)
  assume inv: "nodes_inv db"
  have "nodes_inv (db\<lparr>db_nodes := sql_update (\<lambda>n. nd_id n = i) (\<lambda>n. n\<lparr>nd_remark := r\<rparr>) (db_nodes db)\<rparr>)"
    by (rule nodes_inv_update [OF inv]) (use inv in \<open>simp_all add: nodes_inv_def\<close>)
  then show ?thesis using inv SRemark by (simp add: store_op_defs snd_statement snd_checked split: option.split)
next
  case (SHeartbeat h b t)
  assume inv: "nodes_inv db"
  let ?hit = "\<lambda>n. credential_node db h = Some (nd_id n)"
  have "nodes_inv (db\<lparr>db_nodes := sql_update ?hit (heartbeat_row b t) (db_nodes db)\<rparr>)"
    by (rule nodes_inv_update [OF inv]) (use inv in \<open>simp_all add: nodes_inv_def heartbeat_row_def\<close>)
  then show ?thesis using inv SHeartbeat
    by (simp add: store_op_defs snd_statement snd_checked nodes_inv_def split: option.split)
qed (auto simp: nodes_inv_def store_op_defs snd_statement snd_checked split: option.split sum.split)

lemma credentials_op:
  assumes "nodes_inv db" and "credentials_inv db"
  shows "credentials_inv (run_store sv db op)"
proof (cases op)
  case (SApprove i gid r t)
  show ?thesis
  proof (cases rule: approve_cases [of sv db i gid r t])
    case (approved w n db1)
    note p = pair_node_nodes [OF assms(1) approved(4)]
    have creds: "db_credentials db1 = db_credentials db" using p by (metis database.ext_inject database.surjective database.update_convs(6))
    let ?c = "\<lparr>cr_node_id = nd_id n, cr_token_hash = pw_credential_hash w, cr_created_at = t,
            cr_revoked_at = None\<rparr>"
    let ?cs = "sql_upsert cr_node_id ?c (db_credentials db)"
    have "distinct (map cr_node_id ?cs)"
      using assms(2) by (intro distinct_upsert) (simp add: credentials_inv_def)
    moreover have "distinct (map cr_token_hash ?cs)"
      using assms(2) approved(5) unfolding creds
      by (intro distinct_upsert_other) (auto simp: credentials_inv_def)
    moreover have "\<forall>c\<in>set ?cs. cr_node_id c \<in> nd_id ` set (db_nodes db1)"
      using assms(2) p by (auto simp: set_upsert credentials_inv_def)
    ultimately show ?thesis using SApprove approved(6) creds by (simp add: credentials_inv_def)
  qed (use SApprove assms in simp)
next
  case (SEnroll h d r t)
  show ?thesis
  proof (cases rule: enroll_cases [of sv db h d r t])
    case (enrolled x v)
    then show ?thesis using SEnroll assms(2)
      by (auto simp: credentials_inv_def enrolled_node_def inserted_node_def)
  qed (use assms SEnroll in simp)
next
  case (SRemark i r)
  have "map nd_id (sql_update (\<lambda>n. nd_id n = i) (\<lambda>n. n\<lparr>nd_remark := r\<rparr>) (db_nodes db)) = map nd_id (db_nodes db)"
    by (simp add: map_sql_update_key)
  note keys_image [OF this]
  then show ?thesis using assms SRemark
    by (simp add: credentials_inv_def store_op_defs snd_statement snd_checked split: option.split)
next
  case (SHeartbeat h b t)
  have "map nd_id (sql_update (\<lambda>n. credential_node db h = Some (nd_id n)) (heartbeat_row b t) (db_nodes db)) =
      map nd_id (db_nodes db)"
    by (simp add: map_sql_update_key heartbeat_row_def)
  note keys_image [OF this]
  then show ?thesis using assms SHeartbeat
    by (simp add: credentials_inv_def store_op_defs snd_statement snd_checked split: option.split)
qed (use assms in \<open>auto simp: credentials_inv_def store_op_defs snd_statement snd_checked
    split: option.split sum.split\<close>)

text \<open>The nodes a registry knows are never forgotten.\<close>

lemma nodes_kept:
  assumes "nodes_inv db"
  shows "nd_id ` set (db_nodes db) \<subseteq> nd_id ` set (db_nodes (run_store sv db op))"
proof (cases op)
  case (SApprove i gid r t)
  show ?thesis
  proof (cases rule: approve_cases [of sv db i gid r t])
    case (approved w n db1)
    then show ?thesis using SApprove pair_node_nodes [OF assms approved(4)] by simp
  qed (use SApprove in simp)
next
  case (SEnroll h d r t)
  then show ?thesis by (cases rule: enroll_cases [of sv db h d r t]) auto
next
  case (SRemark i r)
  have "map nd_id (sql_update (\<lambda>n. nd_id n = i) (\<lambda>n. n\<lparr>nd_remark := r\<rparr>) (db_nodes db)) = map nd_id (db_nodes db)"
    by (simp add: map_sql_update_key)
  note keys_image [OF this]
  then show ?thesis using SRemark
    by (simp add: store_op_defs snd_statement snd_checked split: option.split)
next
  case (SHeartbeat h b t)
  have "map nd_id (sql_update (\<lambda>n. credential_node db h = Some (nd_id n)) (heartbeat_row b t) (db_nodes db)) =
      map nd_id (db_nodes db)"
    by (simp add: map_sql_update_key heartbeat_row_def)
  note keys_image [OF this]
  then show ?thesis using SHeartbeat
    by (simp add: store_op_defs snd_statement snd_checked split: option.split)
qed (auto simp: store_op_defs snd_statement snd_checked split: option.split sum.split)

definition pairing_refs :: "database \<Rightarrow> pairing_row \<Rightarrow> bool" where
  "pairing_refs db w \<longleftrightarrow> (\<forall>i. pw_node_id w = Some i \<longrightarrow> i \<in> nd_id ` set (db_nodes db))"

lemma pairings_inv_alt:
  "pairings_inv db \<longleftrightarrow> distinct (map pw_id (db_pairings db)) \<and> (\<forall>w\<in>set (db_pairings db). pairing_ok w) \<and>
     (\<forall>w\<in>set (db_pairings db). pairing_refs db w)"
  by (auto simp: pairings_inv_def pairing_refs_def)

lemma pairings_update:
  assumes "pairings_inv db" and "\<And>w. w \<in> set (db_pairings db) \<Longrightarrow> P w \<Longrightarrow> pairing_step w (f w)"
    and "\<And>w. pw_id (f w) = pw_id w"
    and "\<And>w. w \<in> set (db_pairings db) \<Longrightarrow> P w \<Longrightarrow> pairing_refs db w \<Longrightarrow> pairing_refs db (f w)"
  shows "pairings_inv (db\<lparr>db_pairings := sql_update P f (db_pairings db)\<rparr>)"
proof -
  have "map pw_id (sql_update P f (db_pairings db)) = map pw_id (db_pairings db)"
    using assms(3) by (rule map_sql_update_key)
  moreover have "\<forall>w\<in>set (sql_update P f (db_pairings db)). pairing_ok w \<and> pairing_refs db w"
  proof
    fix v assume "v \<in> set (sql_update P f (db_pairings db))"
    then obtain q where q: "q \<in> set (db_pairings db)" "v = (if P q then f q else q)"
      by (auto simp: in_sql_update)
    then have "pairing_ok q" "pairing_refs db q" using assms(1) by (simp_all add: pairings_inv_alt)
    then show "pairing_ok v \<and> pairing_refs db v"
      using q assms(2,4) pairing_step_ok [of q "f q"] by simp
  qed
  ultimately show ?thesis using assms(1) by (simp add: pairings_inv_alt pairing_refs_def)
qed

lemma pairings_expire:
  assumes "pairings_inv db" and "\<And>w. P w \<Longrightarrow> pairing_due now w"
  shows "pairings_inv (db\<lparr>db_pairings := sql_update P (expire_row now) (db_pairings db)\<rparr>)"
  by (rule pairings_update [OF assms(1)])
    (use assms(2) pairing_expires in \<open>auto simp: expire_row_def pairing_refs_def\<close>)

lemma pairings_frame:
  "pairings_inv db \<Longrightarrow> db_pairings db' = db_pairings db \<Longrightarrow>
   nd_id ` set (db_nodes db) \<subseteq> nd_id ` set (db_nodes db') \<Longrightarrow> pairings_inv db'"
  by (auto simp: pairings_inv_def)

lemma pairings_approve:
  assumes "nodes_inv db" and "pairings_inv db"
  shows "pairings_inv (run_store sv db (SApprove i gid r t))"
proof (cases rule: approve_cases [of sv db i gid r t])
  case (approved w n db1)
  note p = pair_node_nodes [OF assms(1) approved(4)]
  have rows: "db_pairings db1 = db_pairings db"
    using p by (metis database.ext_inject database.surjective database.update_convs(6))
  have inv1: "pairings_inv db1" using p by (intro pairings_frame [OF assms(2) rows]) blast
  have only: "v = w" if "v \<in> set (db_pairings db1)" "pw_id v = i" for v
    using that assms(2) find_Some_conv [OF approved(1)] distinct_map_eq [of pw_id "db_pairings db" v w]
    unfolding rows by (simp add: pairings_inv_def)
  have "pairings_inv (db1\<lparr>db_pairings :=
      sql_update (\<lambda>w. pw_id w = i) (approved_row (nd_id n) gid r t) (db_pairings db1)\<rparr>)"
  proof (rule pairings_update [OF inv1])
    fix v assume "v \<in> set (db_pairings db1)" "pw_id v = i"
    then have "v = w" by (rule only)
    then show "pairing_step v (approved_row (nd_id n) gid r t v)"
      using approved(2,3) by (simp add: pairing_approved)
  next
    fix v show "pairing_refs db1 (approved_row (nd_id n) gid r t v)"
      using p by (simp add: approved_row_def pairing_refs_def)
  qed (simp add: approved_row_def)
  then show ?thesis unfolding approved(6) by (simp add: pairings_inv_def)
qed (use assms in simp)

lemma pairings_op:
  assumes "nodes_inv db" and "pairings_inv db" and "api_store_op op"
  shows "pairings_inv (run_store sv db op)"
proof (cases op)
  case (SApprove i gid r t)
  then show ?thesis using pairings_approve [OF assms(1,2)] by simp
next
  case (SEnroll h d r t)
  then have "db_pairings (run_store sv db op) = db_pairings db"
    by (cases rule: enroll_cases [of sv db h d r t]) simp_all
  then show ?thesis using pairings_frame [OF assms(2)] nodes_kept [OF assms(1)] by blast
next
  case (SPair r t)
  then show ?thesis using assms
    by (auto simp: store_op_defs snd_statement snd_checked pairings_inv_def pairing_ok_def)
next
  case (SPoll i h t)
  have "pairings_inv (db\<lparr>db_pairings :=
      sql_update (\<lambda>w. pw_id w = i \<and> pairing_due t w) (expire_row t) (db_pairings db)\<rparr>)"
    by (rule pairings_expire [OF assms(2)]) simp
  then show ?thesis using SPoll assms(2)
    by (simp add: get_pairing_request_def Let_def snd_statement split: option.split sum.split)
next
  case (SPending t)
  have "pairings_inv (db\<lparr>db_pairings := sql_update (pairing_due t) (expire_row t) (db_pairings db)\<rparr>)"
    by (rule pairings_expire [OF assms(2)])
  then show ?thesis using SPending assms(2)
    by (simp add: list_pending_pairing_requests_def Let_def snd_statement)
next
  case (SReject i t)
  have "pairings_inv (db\<lparr>db_pairings :=
      sql_update (\<lambda>w. pw_id w = i \<and> pw_state w = PairingPending \<and> t < pw_expires_at w)
        (rejected_row t) (db_pairings db)\<rparr>)"
    by (rule pairings_update [OF assms(2)])
      (auto intro: pairing_rejected, simp_all add: rejected_row_def pairing_refs_def)
  then show ?thesis using SReject assms(2)
    by (simp add: reject_pairing_request_def Let_def snd_statement split: option.split)
next
  case (SPrunePairings t)
  then show ?thesis using assms(2)
    by (auto simp: prune_pairing_requests_def Let_def snd_statement pairings_inv_def distinct_map_filter)
next
  case (SRemark i r)
  then have "db_pairings (run_store sv db op) = db_pairings db"
    by (simp add: store_op_defs snd_statement snd_checked split: option.split)
  then show ?thesis using pairings_frame [OF assms(2)] nodes_kept [OF assms(1)] by blast
next
  case (SHeartbeat h b t)
  then have "db_pairings (run_store sv db op) = db_pairings db"
    by (simp add: store_op_defs snd_statement snd_checked split: option.split)
  then show ?thesis using pairings_frame [OF assms(2)] nodes_kept [OF assms(1)] by blast
qed (use assms in \<open>auto simp: pairings_inv_def store_op_defs snd_statement snd_checked
    split: option.split sum.split\<close>)

lemma run_store_inv:
  "registry_inv db \<Longrightarrow> api_store_op op \<Longrightarrow> registry_inv (run_store sv db op)"
  unfolding registry_inv_def
  by (intro conjI accounts_op groups_op nodes_op credentials_op enrollments_op pairings_op telemetry_op)
    simp_all

section \<open>The commands and the registry share a database\<close>

lemma run_store_commands:
  "db_executions (run_store sv db op) = db_executions db \<and> db_tasks (run_store sv db op) = db_tasks db"
proof (cases op)
  case (SApprove i gid r t)
  show ?thesis
  proof (cases rule: approve_cases [of sv db i gid r t])
    case (approved w n db1)
    then show ?thesis using SApprove pair_node_cases [OF approved(4)] by auto
  qed (use SApprove in simp)
next
  case (SEnroll h d r t)
  then show ?thesis by (cases rule: enroll_cases [of sv db h d r t]) simp_all
qed (simp_all add: store_op_defs snd_statement snd_checked split: option.split sum.split)

end
