(* ===== verification/CommandStore.thy ===== *)
theory CommandStore
  imports Database
begin

text \<open>
  \<^verbatim>\<open>internal/postgres/commands.go\<close>: the queue of remote commands.  A command task fans out into
  one execution per node; an Agent claims the oldest queued execution of its node under a lease,
  reports that it started it and finally completes it.  Every operation of the store is one
  definition here, with its SQL statements in the order of the source and every early return.
  \<open>command_op\<close> collects the operations that write, and \<open>run_op\<close> runs one of them on a database.
\<close>

section \<open>Scanning rows (scanCommandTask, scanCommandExecution)\<close>

definition summary_counts :: "execution_row list \<Rightarrow> command_status_counts" where
  "summary_counts es =
     \<lparr>cn_queued = sql_count (\<lambda>e. xr_status e = Queued) es,
      cn_leased = sql_count (\<lambda>e. xr_status e = Leased) es,
      cn_running = sql_count (\<lambda>e. xr_status e = Running) es,
      cn_succeeded = sql_count (\<lambda>e. xr_status e = Succeeded) es,
      cn_failed = sql_count (\<lambda>e. xr_status e = Failed) es,
      cn_timed_out = sql_count (\<lambda>e. xr_status e = TimedOut) es\<rparr>"

definition scan_command_task :: "task_row \<Rightarrow> execution_row list \<Rightarrow> command_task" where
  "scan_command_task t es =
     \<lparr>ct_id = tr_id t, ct_shell = tr_shell t, ct_command = tr_command t, ct_timeout = tr_timeout t,
      ct_created_by = tr_created_by t, ct_retried_from = tr_retried_from t,
      ct_created_at = tr_created_at t, ct_target_count = int (length es),
      ct_counts = summary_counts es\<rparr>"

definition scan_command_execution :: "execution_row \<Rightarrow> string \<Rightarrow> command_execution" where
  "scan_command_execution e name =
     \<lparr>ce_id = xr_id e, ce_task_id = xr_task_id e, ce_node_id = xr_node_id e, ce_node_name = name,
      ce_status = xr_status e, ce_attempt = xr_attempt e, ce_started_at = xr_started_at e,
      ce_finished_at = xr_finished_at e, ce_exit_code = xr_exit_code e, ce_output = xr_output e,
      ce_output_truncated = xr_truncated e, ce_error_message = xr_error e,
      ce_duration_ms = xr_duration e\<rparr>"

section \<open>Creating commands\<close>

fun has_duplicate_from :: "string list \<Rightarrow> string set \<Rightarrow> bool" where
  "has_duplicate_from [] seen = False"
| "has_duplicate_from (item # items) seen =
     (item = [] \<or> item \<in> seen \<or> has_duplicate_from items (insert item seen))"

definition has_duplicate_strings :: "string list \<Rightarrow> bool" where
  "has_duplicate_strings items = has_duplicate_from items {}"

text \<open>\<open>commandTargetValidationQuery\<close>: how many of the listed nodes exist, and how many run Windows.\<close>

definition count_targets :: "database \<Rightarrow> string list \<Rightarrow> int \<times> int" where
  "count_targets db ids =
     (let hit = filter (\<lambda>n. nd_id n \<in> set ids) (db_nodes db)
      in (int (length hit), sql_count (\<lambda>n. nd_type n = ''windows'') hit))"

definition new_execution :: "string \<Rightarrow> string \<Rightarrow> string \<Rightarrow> execution_row" where
  "new_execution eid tid nid =
     \<lparr>xr_id = eid, xr_task_id = tid, xr_node_id = nid, xr_status = Queued, xr_attempt = 0,
      xr_lease_hash = None, xr_lease_expires = None, xr_started_at = None, xr_finished_at = None,
      xr_exit_code = None, xr_output = [], xr_truncated = False, xr_error = [], xr_duration = None\<rparr>"

text \<open>\<open>commandExecutionInsert\<close>: a fresh identifier per node, in the order of the nodes.\<close>

definition command_execution_insert :: "server \<Rightarrow> string \<Rightarrow> string list \<Rightarrow> execution_row list" where
  "command_execution_insert sv tid ids =
     map (\<lambda>(i, nid). new_execution (sv_uuid sv i) tid nid) (zip [0..<length ids] ids)"

definition queued_view :: "execution_row \<Rightarrow> command_execution" where
  "queued_view e =
     \<lparr>ce_id = xr_id e, ce_task_id = xr_task_id e, ce_node_id = xr_node_id e, ce_node_name = [],
      ce_status = Queued, ce_attempt = 0, ce_started_at = None, ce_finished_at = None,
      ce_exit_code = None, ce_output = [], ce_output_truncated = False, ce_error_message = [],
      ce_duration_ms = None\<rparr>"

definition task_insertable :: "database \<Rightarrow> task_row \<Rightarrow> bool" where
  "task_insertable db t \<longleftrightarrow>
     tr_id t \<notin> tr_id ` set (db_tasks db) \<and> (tr_shell t = PowerShell \<or> tr_shell t = Cmd) \<and>
     min_command_timeout \<le> tr_timeout t \<and> tr_timeout t \<le> max_command_timeout \<and>
     storable_text (tr_command t) \<and> tr_created_by t \<in> ow_id ` set (db_owners db) \<and>
     (case tr_retried_from t of None \<Rightarrow> True | Some s \<Rightarrow> s \<in> tr_id ` set (db_tasks db))"

definition executions_insertable :: "database \<Rightarrow> execution_row list \<Rightarrow> bool" where
  "executions_insertable db es \<longleftrightarrow>
     distinct (map xr_id es) \<and> xr_id ` set es \<inter> xr_id ` set (db_executions db) = {} \<and>
     distinct (map (\<lambda>e. (xr_task_id e, xr_node_id e)) es) \<and>
     (\<lambda>e. (xr_task_id e, xr_node_id e)) ` set es \<inter>
       (\<lambda>e. (xr_task_id e, xr_node_id e)) ` set (db_executions db) = {} \<and>
     xr_node_id ` set es \<subseteq> nd_id ` set (db_nodes db) \<and>
     xr_task_id ` set es \<subseteq> tr_id ` set (db_tasks db)"

definition insert_command ::
    "server \<Rightarrow> database \<Rightarrow> database \<Rightarrow> command_task \<Rightarrow> string list \<Rightarrow>
     command_task_detail res \<times> database" where
  "insert_command sv db0 db task ids =
     (let t = \<lparr>tr_id = ct_id task, tr_shell = ct_shell task, tr_command = ct_command task,
               tr_timeout = ct_timeout task, tr_created_by = ct_created_by task,
               tr_retried_from = ct_retried_from task, tr_created_at = ct_created_at task\<rparr>
      in statement sv ''create command task'' db0
         (checked (task_insertable db t) ''create command task'' db0
           (let db1 = db\<lparr>db_tasks := db_tasks db @ [t]\<rparr>;
                es = command_execution_insert sv (ct_id task) ids
            in statement sv ''create command executions'' db0
               (checked (executions_insertable db1 es) ''create command executions'' db0
                 (Inr \<lparr>cd_task = task\<lparr>ct_target_count := int (length es),
                                     ct_counts := \<lparr>cn_queued = int (length es), cn_leased = 0,
                                       cn_running = 0, cn_succeeded = 0, cn_failed = 0,
                                       cn_timed_out = 0\<rparr>\<rparr>,
                       cd_executions = map queued_view es\<rparr>,
                  db1\<lparr>db_executions := db_executions db1 @ es\<rparr>)))))"

definition commit :: "server \<Rightarrow> string \<Rightarrow> database \<Rightarrow> 'a res \<times> database \<Rightarrow> 'a res \<times> database" where
  "commit sv label db0 result =
     (case result of
        (Inl e, d) \<Rightarrow> (Inl e, d)
      | (Inr a, d) \<Rightarrow> statement sv label db0 (Inr a, d))"

definition create_command ::
    "server \<Rightarrow> database \<Rightarrow> command_task \<Rightarrow> string list \<Rightarrow> command_task_detail res \<times> database" where
  "create_command sv db task ids =
     (case validate_command (ct_shell task) (ct_command task) (ct_timeout task) of
        Some e \<Rightarrow> (Inl e, db)
      | None \<Rightarrow>
        if ct_id task = [] \<or> ct_created_by task = [] \<or> is_zero_time (ct_created_at task) \<or>
           ids = [] \<or> has_duplicate_strings ids
        then (Inl (Sentinel ErrConflict), db)
        else statement sv ''begin command creation'' db
          (statement sv ''validate command targets'' db
            (let (targets, windows) = count_targets db ids
             in if targets \<noteq> int (length ids) \<or> windows \<noteq> int (length ids)
                then (Inl (Sentinel ErrNotFound), db)
                else commit sv ''commit command creation'' db (insert_command sv db db task ids))))"

section \<open>Listing commands\<close>

definition executions_of :: "database \<Rightarrow> string \<Rightarrow> execution_row list" where
  "executions_of db tid = filter (\<lambda>e. xr_task_id e = tid) (db_executions db)"

definition list_commands :: "server \<Rightarrow> database \<Rightarrow> int \<Rightarrow> command_task list res" where
  "list_commands sv db limit0 =
     (let limit = (if limit0 \<le> 0 \<or> 100 < limit0 then 100 else limit0)
      in case sv_fault sv ''list commands'' of
           Some e \<Rightarrow> Inl (Wrapped ''list commands'' e)
         | None \<Rightarrow>
           (case sv_fault sv ''iterate command tasks'' of
              Some e \<Rightarrow> Inl (Wrapped ''iterate command tasks'' e)
            | None \<Rightarrow>
              Inr (map (\<lambda>t. scan_command_task t (executions_of db (tr_id t)))
                    (take (nat limit)
                      (sql_sort (\<lambda>a b. tr_created_at b \<le> tr_created_at a) (db_tasks db))))))"

definition named_executions :: "database \<Rightarrow> string \<Rightarrow> (execution_row \<times> string) list" where
  "named_executions db tid =
     [(e, nd_name n). e \<leftarrow> executions_of db tid, n \<leftarrow> db_nodes db, nd_id n = xr_node_id e]"

definition execution_order :: "server \<Rightarrow> execution_row \<times> string \<Rightarrow> execution_row \<times> string \<Rightarrow> bool" where
  "execution_order sv a b \<longleftrightarrow>
     (if snd a = snd b then sv_text_le sv (xr_id (fst a)) (xr_id (fst b))
      else sv_text_le sv (snd a) (snd b))"

definition get_command :: "server \<Rightarrow> database \<Rightarrow> string \<Rightarrow> command_task_detail res" where
  "get_command sv db i =
     (case sv_fault sv ''find command'' of
        Some e \<Rightarrow> Inl (Wrapped ''find command'' e)
      | None \<Rightarrow>
        (case find (\<lambda>t. tr_id t = i) (db_tasks db) of
           None \<Rightarrow> Inl (Sentinel ErrNotFound)
         | Some t \<Rightarrow>
           (case sv_fault sv ''list command executions'' of
              Some e \<Rightarrow> Inl (Wrapped ''list command executions'' e)
            | None \<Rightarrow>
              (case sv_fault sv ''iterate command executions'' of
                 Some e \<Rightarrow> Inl (Wrapped ''iterate command executions'' e)
               | None \<Rightarrow>
                 Inr \<lparr>cd_task = scan_command_task t (executions_of db i),
                      cd_executions = map (\<lambda>(e, name). scan_command_execution e name)
                        (sql_sort (execution_order sv) (named_executions db i))\<rparr>))))"

section \<open>Retrying a command\<close>

definition retry_targets :: "server \<Rightarrow> database \<Rightarrow> string \<Rightarrow> string list" where
  "retry_targets sv db source =
     sql_sort (sv_text_le sv)
       (map xr_node_id
         (filter (\<lambda>e. xr_task_id e = source \<and> (xr_status e = Failed \<or> xr_status e = TimedOut))
           (db_executions db)))"

definition retry_command ::
    "server \<Rightarrow> database \<Rightarrow> command_task \<Rightarrow> string \<Rightarrow> command_task_detail res \<times> database" where
  "retry_command sv db task source =
     (if ct_id task = [] \<or> ct_created_by task = [] \<or> is_zero_time (ct_created_at task) \<or> source = []
      then (Inl (Sentinel ErrConflict), db)
      else statement sv ''begin command retry'' db
        (statement sv ''load source command'' db
          (case find (\<lambda>t. tr_id t = source) (db_tasks db) of
             None \<Rightarrow> (Inl (Sentinel ErrNotFound), db)
           | Some t \<Rightarrow>
             statement sv ''list retry targets'' db
               (statement sv ''close retry targets'' db
                 (statement sv ''iterate retry targets'' db
                   (let ids = retry_targets sv db source
                    in if ids = [] then (Inl (Sentinel ErrConflict), db)
                       else commit sv ''commit command retry'' db
                         (insert_command sv db db
                           (task\<lparr>ct_shell := tr_shell t, ct_command := tr_command t,
                                 ct_timeout := tr_timeout t, ct_retried_from := Some source\<rparr>)
                           ids)))))))"

section \<open>The device side: claim, start, complete\<close>

definition credential_active :: "database \<Rightarrow> string \<Rightarrow> credential_row \<Rightarrow> bool" where
  "credential_active db h c \<longleftrightarrow> cr_token_hash c = h \<and> cr_revoked_at c = None"

definition command_credential_node :: "server \<Rightarrow> database \<Rightarrow> string \<Rightarrow> string res" where
  "command_credential_node sv db h =
     (case sv_fault sv ''authenticate command device'' of
        Some e \<Rightarrow> Inl (Wrapped ''authenticate command device'' e)
      | None \<Rightarrow>
        (case [cr_node_id c. c \<leftarrow> db_credentials db, credential_active db h c,
                             n \<leftarrow> db_nodes db, nd_id n = cr_node_id c \<and> nd_type n = ''windows''] of
           [] \<Rightarrow> Inl (Sentinel ErrUnauthorized)
         | i # _ \<Rightarrow> Inr i))"

definition lease_expired :: "time \<Rightarrow> execution_row \<Rightarrow> bool" where
  "lease_expired now e \<longleftrightarrow> (case xr_lease_expires e of None \<Rightarrow> False | Some t \<Rightarrow> t \<le> now)"

definition lease_valid :: "time \<Rightarrow> execution_row \<Rightarrow> bool" where
  "lease_valid now e \<longleftrightarrow> (case xr_lease_expires e of None \<Rightarrow> False | Some t \<Rightarrow> now < t)"

definition stopped_message :: string where
  "stopped_message = ''Agent stopped before reporting the command result''"

definition expire_running :: "string \<Rightarrow> time \<Rightarrow> execution_row list \<Rightarrow> execution_row list" where
  "expire_running nid now =
     sql_update (\<lambda>e. xr_node_id e = nid \<and> xr_status e = Running \<and> lease_expired now e)
       (\<lambda>e. e\<lparr>xr_status := Failed, xr_finished_at := Some now, xr_error := stopped_message\<rparr>)"

definition recover_leased :: "string \<Rightarrow> time \<Rightarrow> execution_row list \<Rightarrow> execution_row list" where
  "recover_leased nid now =
     sql_update (\<lambda>e. xr_node_id e = nid \<and> xr_status e = Leased \<and> lease_expired now e)
       (\<lambda>e. e\<lparr>xr_status := Queued, xr_lease_hash := None, xr_lease_expires := None\<rparr>)"

definition claimable :: "server \<Rightarrow> database \<Rightarrow> string \<Rightarrow> execution_row list \<Rightarrow>
    (execution_row \<times> task_row) list" where
  "claimable sv db nid es =
     [(e, t). e \<leftarrow> es, xr_node_id e = nid \<and> xr_status e = Queued \<and> \<not> sv_locked sv (xr_id e),
              t \<leftarrow> db_tasks db, tr_id t = xr_task_id e]"

definition claim_order :: "server \<Rightarrow> execution_row \<times> task_row \<Rightarrow> execution_row \<times> task_row \<Rightarrow> bool" where
  "claim_order sv a b \<longleftrightarrow>
     tr_created_at (snd a) < tr_created_at (snd b) \<or>
     tr_created_at (snd a) = tr_created_at (snd b) \<and> sv_text_le sv (xr_id (fst a)) (xr_id (fst b))"

definition lease_target :: "string \<Rightarrow> string \<Rightarrow> execution_row \<Rightarrow> bool" where
  "lease_target eid nid e \<longleftrightarrow> xr_id e = eid \<and> xr_node_id e = nid \<and> xr_status e = Queued"

definition lease_row :: "string \<Rightarrow> time \<Rightarrow> execution_row \<Rightarrow> execution_row" where
  "lease_row h expires e =
     e\<lparr>xr_status := Leased, xr_attempt := xr_attempt e + 1, xr_lease_hash := Some h,
       xr_lease_expires := Some expires\<rparr>"

definition claim_command ::
    "server \<Rightarrow> database \<Rightarrow> string \<Rightarrow> string \<Rightarrow> time \<Rightarrow> duration \<Rightarrow>
     command_claim option res \<times> database" where
  "claim_command sv db cred lease now d =
     (if cred = [] \<or> lease = [] \<or> is_zero_time now \<or> d \<le> 0 then (Inl (Sentinel ErrConflict), db)
      else statement sv ''begin command claim'' db
        (case command_credential_node sv db cred of
           Inl e \<Rightarrow> (Inl e, db)
         | Inr nid \<Rightarrow>
           statement sv ''expire running commands'' db
             (statement sv ''recover leased commands'' db
               (let es = recover_leased nid now (expire_running nid now (db_executions db));
                    db1 = db\<lparr>db_executions := es\<rparr>
                in statement sv ''select command claim'' db
                   (case sql_first (claim_order sv) (claimable sv db nid es) of
                      None \<Rightarrow> statement sv ''commit empty command claim'' db (Inr None, db1)
                    | Some (e, t) \<Rightarrow>
                      let expires = now + d;
                          target = lease_target (xr_id e) nid
                      in statement sv ''lease command'' db
                         (checked (int4 (xr_attempt e + 1)) ''lease command'' db
                           (statement sv ''count leased command'' db
                             (if sql_count target es \<noteq> 1 then (Inl (Sentinel ErrConflict), db)
                              else statement sv ''commit command claim'' db
                                (Inr (Some \<lparr>cl_execution_id = xr_id e, cl_task_id = tr_id t,
                                   cl_shell = tr_shell t, cl_command = tr_command t,
                                   cl_timeout = tr_timeout t, cl_lease_token = [],
                                   cl_lease_expires_at = expires\<rparr>),
                                 db\<lparr>db_executions :=
                                    sql_update target (lease_row lease expires) es\<rparr>)))))))))"

definition held_by :: "string \<Rightarrow> string \<Rightarrow> string \<Rightarrow> time \<Rightarrow> execution_row \<Rightarrow> bool" where
  "held_by eid nid lease now e \<longleftrightarrow>
     xr_id e = eid \<and> xr_node_id e = nid \<and> xr_lease_hash e = Some lease \<and> lease_valid now e \<and>
     (xr_status e = Leased \<or> xr_status e = Running)"

definition start_row :: "time \<Rightarrow> execution_row \<Rightarrow> execution_row" where
  "start_row now e =
     e\<lparr>xr_status := Running,
       xr_started_at := (case xr_started_at e of None \<Rightarrow> Some now | Some t \<Rightarrow> Some t)\<rparr>"

definition start_command ::
    "server \<Rightarrow> database \<Rightarrow> string \<Rightarrow> string \<Rightarrow> string \<Rightarrow> time \<Rightarrow> unit res \<times> database" where
  "start_command sv db cred eid lease now =
     (if cred = [] \<or> eid = [] \<or> lease = [] \<or> is_zero_time now then (Inl (Sentinel ErrConflict), db)
      else case command_credential_node sv db cred of
          Inl e \<Rightarrow> (Inl e, db)
        | Inr nid \<Rightarrow>
          statement sv ''start command'' db
            (let held = held_by eid nid lease now;
                 db1 = db\<lparr>db_executions := sql_update held (start_row now) (db_executions db)\<rparr>
             in statement sv ''count started command'' db1
                (if sql_count held (db_executions db) \<noteq> 1 then (Inl (Sentinel ErrConflict), db1)
                 else (Inr (), db1))))"

definition valid_command_completion :: "command_completion \<Rightarrow> bool" where
  "valid_command_completion c \<longleftrightarrow>
     cc_execution_id c \<noteq> [] \<and> status_terminal (cc_status c) \<and> 0 \<le> cc_duration_ms c \<and>
     valid_utf8 (cc_output c) \<and> length (cc_output c) \<le> max_command_output_bytes \<and>
     valid_utf8 (cc_error_message c) \<and> length (cc_error_message c) \<le> 512"

definition same_command_completion :: "command_completion \<Rightarrow> execution_row \<Rightarrow> bool" where
  "same_command_completion c e =
     (if xr_status e \<noteq> cc_status c \<or> xr_output e \<noteq> cc_output c \<or> xr_truncated e \<noteq> cc_output_truncated c \<or>
         xr_error e \<noteq> cc_error_message c \<or> xr_duration e = None \<or>
         xr_duration e \<noteq> Some (cc_duration_ms c) then False
      else (case cc_exit_code c of
              None \<Rightarrow> xr_exit_code e = None
            | Some x \<Rightarrow> xr_exit_code e = Some x))"

definition complete_row :: "command_completion \<Rightarrow> time \<Rightarrow> execution_row \<Rightarrow> execution_row" where
  "complete_row c now e =
     e\<lparr>xr_status := cc_status c, xr_exit_code := cc_exit_code c, xr_output := cc_output c,
       xr_truncated := cc_output_truncated c, xr_error := cc_error_message c,
       xr_duration := Some (cc_duration_ms c), xr_finished_at := Some now\<rparr>"

text \<open>What the columns of \<open>command_executions\<close> accept: a 32-bit exit code, text without NUL.\<close>

definition completion_storable :: "command_completion \<Rightarrow> bool" where
  "completion_storable c \<longleftrightarrow>
     (case cc_exit_code c of None \<Rightarrow> True | Some x \<Rightarrow> int4 x) \<and>
     storable_text (cc_output c) \<and> storable_text (cc_error_message c)"

definition complete_command ::
    "server \<Rightarrow> database \<Rightarrow> string \<Rightarrow> string \<Rightarrow> command_completion \<Rightarrow> time \<Rightarrow> unit res \<times> database" where
  "complete_command sv db cred lease c now =
     (if \<not> valid_command_completion c \<or> cred = [] \<or> lease = [] \<or> is_zero_time now
      then (Inl (Sentinel ErrConflict), db)
      else case command_credential_node sv db cred of
          Inl e \<Rightarrow> (Inl e, db)
        | Inr nid \<Rightarrow>
          statement sv ''complete command'' db
            (checked (completion_storable c) ''complete command'' db
              (let held = held_by (cc_execution_id c) nid lease now;
                   db1 = db\<lparr>db_executions := sql_update held (complete_row c now) (db_executions db)\<rparr>
               in statement sv ''count completed command'' db1
                  (if sql_count held (db_executions db) = 1 then (Inr (), db1)
                   else statement sv ''load completed command'' db1
                     (case find (\<lambda>e. xr_id e = cc_execution_id c \<and> xr_node_id e = nid \<and>
                                     xr_lease_hash e = Some lease) (db_executions db1) of
                        None \<Rightarrow> (Inl (Sentinel ErrConflict), db1)
                      | Some e \<Rightarrow>
                        if same_command_completion c e then (Inr (), db1)
                        else (Inl (Sentinel ErrConflict), db1))))))"

end
