(* ===== verification/CommandQueue.thy ===== *)
theory CommandQueue
  imports CommandStore Lifecycle
begin

text \<open>
  What the command queue promises.  \<open>execution_step\<close> is the life cycle of one execution, the
  abstract specification; each operation of \<^verbatim>\<open>commands.go\<close> refines it (\<open>run_op_evolves\<close>), also when
  a statement fails half-way.  From it follow the invariant of the table, that results are final,
  that a started command is never handed out again, that a lease is exclusive until it runs out,
  and that a repeated completion is accepted without effect.
\<close>

section \<open>The life cycle of one execution\<close>

inductive execution_step :: "execution_row \<Rightarrow> execution_row \<Rightarrow> bool" where
  step_claim: "xr_status e = Queued \<Longrightarrow> execution_step e (lease_row h t e)"
| step_recover: "xr_status e = Leased \<Longrightarrow> lease_expired now e \<Longrightarrow>
     execution_step e (e\<lparr>xr_status := Queued, xr_lease_hash := None, xr_lease_expires := None\<rparr>)"
| step_start: "held_by eid nid h now e \<Longrightarrow> execution_step e (start_row now e)"
| step_expire: "xr_status e = Running \<Longrightarrow> lease_expired now e \<Longrightarrow>
     execution_step e (e\<lparr>xr_status := Failed, xr_finished_at := Some now, xr_error := stopped_message\<rparr>)"
| step_complete: "held_by eid nid h now e \<Longrightarrow> valid_command_completion c \<Longrightarrow>
     execution_step e (complete_row c now e)"

definition execution_final :: "execution_row \<Rightarrow> bool" where
  "execution_final e \<longleftrightarrow> status_terminal (xr_status e)"

definition execution_fresh :: "execution_row \<Rightarrow> bool" where
  "execution_fresh e \<longleftrightarrow> e = new_execution (xr_id e) (xr_task_id e) (xr_node_id e)"

lemmas row_defs = lease_row_def start_row_def complete_row_def

interpretation exec: row_lifecycle execution_step execution_final execution_fresh xr_id
proof unfold_locales
  fix a b assume "execution_step a b"
  then show "xr_id b = xr_id a" by cases (simp_all add: row_defs)
next
  fix a b assume "execution_step a b" and "execution_final a"
  then show "b = a" by cases (auto simp: execution_final_def held_by_def)
qed

text \<open>The well-formedness of a row: what each status says about the other columns.\<close>

definition execution_ok :: "execution_row \<Rightarrow> bool" where
  "execution_ok e \<longleftrightarrow> (0 \<le> xr_attempt e \<and>
     (case xr_status e of
        Queued \<Rightarrow> xr_lease_hash e = None \<and> xr_lease_expires e = None \<and> xr_started_at e = None \<and>
                  xr_finished_at e = None
      | Leased \<Rightarrow> 0 < xr_attempt e \<and> xr_lease_hash e \<noteq> None \<and> xr_lease_expires e \<noteq> None \<and>
                  xr_started_at e = None \<and> xr_finished_at e = None
      | Running \<Rightarrow> 0 < xr_attempt e \<and> xr_lease_hash e \<noteq> None \<and> xr_lease_expires e \<noteq> None \<and>
                  xr_started_at e \<noteq> None \<and> xr_finished_at e = None
      | OtherStatus s \<Rightarrow> False
      | _ \<Rightarrow> 0 < xr_attempt e \<and> xr_lease_hash e \<noteq> None \<and> xr_lease_expires e \<noteq> None \<and>
                  xr_finished_at e \<noteq> None))"

lemma execution_step_ok: "execution_step e f \<Longrightarrow> execution_ok e \<Longrightarrow> execution_ok f"
proof (induction rule: execution_step.induct)
  case (step_complete eid nid h now e c)
  then show ?case
    by (cases "cc_status c") (auto simp: execution_ok_def row_defs held_by_def valid_command_completion_def
        split: command_status.splits)
qed (auto simp: execution_ok_def row_defs held_by_def split: command_status.splits option.splits)

lemma execution_fresh_ok: "execution_fresh e \<Longrightarrow> execution_ok e"
  unfolding execution_fresh_def by (erule ssubst) (simp add: execution_ok_def new_execution_def)

text \<open>Where a row can go from each status: never back from running.\<close>

lemma execution_step_running:
  "execution_step e f \<Longrightarrow> xr_status e = Running \<or> execution_final e \<Longrightarrow>
   xr_status f = Running \<or> execution_final f"
  by (induction rule: execution_step.induct)
    (auto simp: row_defs held_by_def execution_final_def valid_command_completion_def)

section \<open>The operations as one type\<close>

datatype command_op =
    OpCreate command_task "string list"
  | OpRetry command_task string
  | OpClaim string string time duration
  | OpStart string string string time
  | OpComplete string string command_completion time

fun run_op :: "server \<Rightarrow> database \<Rightarrow> command_op \<Rightarrow> database" where
  "run_op sv db (OpCreate t ids) = snd (create_command sv db t ids)"
| "run_op sv db (OpRetry t s) = snd (retry_command sv db t s)"
| "run_op sv db (OpClaim c l now d) = snd (claim_command sv db c l now d)"
| "run_op sv db (OpStart c e l now) = snd (start_command sv db c e l now)"
| "run_op sv db (OpComplete c l r now) = snd (complete_command sv db c l r now)"

lemma snd_commit:
  "snd (commit sv l b r) = (if isl (fst r) \<or> sv_fault sv l = None then snd r else b)"
  by (cases r; cases "fst r") (auto simp: commit_def snd_statement)

lemmas snd_exits = snd_statement snd_checked snd_commit

abbreviation table_evolves :: "database \<Rightarrow> database \<Rightarrow> bool" where
  "table_evolves db db' \<equiv> exec.evolves (db_executions db) (db_executions db')"

lemma command_execution_insert_fresh:
  "\<forall>n\<in>set (command_execution_insert sv tid ids). execution_fresh n"
  by (auto simp: command_execution_insert_def execution_fresh_def new_execution_def)

lemma evolves_insert_command: "table_evolves db (snd (insert_command sv db db t ids))"
  by (simp add: insert_command_def Let_def snd_exits exec.evolves_refl
      exec.evolvesI_append command_execution_insert_fresh)

lemma evolves_claim:
  "exec.evolves es (recover_leased nid now (expire_running nid now es))"
proof -
  have "exec.evolves es (expire_running nid now es)"
    unfolding expire_running_def by (intro exec.evolvesI_update step_expire) auto
  also have "exec.evolves \<dots> (recover_leased nid now (expire_running nid now es))"
    unfolding recover_leased_def by (intro exec.evolvesI_update step_recover) auto
  finally show ?thesis .
qed

lemma evolves_lease:
  "exec.evolves es (sql_update (lease_target i nid) (lease_row l t)
     (recover_leased nid now (expire_running nid now es)))"
  by (rule exec.evolves_trans [OF evolves_claim exec.evolvesI_update])
    (auto simp: lease_target_def intro: step_claim)

lemma evolves_claim_command: "table_evolves db (snd (claim_command sv db c l now d))"
  by (simp add: claim_command_def Let_def snd_exits exec.evolves_refl evolves_claim evolves_lease
      split: sum.split option.split)

lemma evolves_start: "exec.evolves es (sql_update (held_by i nid h now) (start_row now) es)"
  by (intro exec.evolvesI_update) (rule step_start)

lemma evolves_complete:
  "valid_command_completion c \<Longrightarrow>
   exec.evolves es (sql_update (held_by i nid h now) (complete_row c now) es)"
  by (intro exec.evolvesI_update) (rule step_complete)

lemma evolves_start_command: "table_evolves db (snd (start_command sv db c e l now))"
  by (simp add: start_command_def Let_def snd_exits exec.evolves_refl evolves_start split: sum.split)

lemma evolves_complete_command: "table_evolves db (snd (complete_command sv db c l r now))"
  by (simp add: complete_command_def Let_def snd_exits exec.evolves_refl evolves_complete
      split: sum.split option.split)

lemma run_op_evolves: "table_evolves db (run_op sv db op)"
  by (cases op)
    (simp_all add: create_command_def retry_command_def Let_def snd_exits exec.evolves_refl
      evolves_insert_command evolves_claim_command evolves_start_command evolves_complete_command
      split: option.split prod.split)

section \<open>The invariant of the queue\<close>

definition task_valid :: "task_row \<Rightarrow> bool" where
  "task_valid t \<longleftrightarrow> validate_command (tr_shell t) (tr_command t) (tr_timeout t) = None"

abbreviation target_key :: "execution_row \<Rightarrow> string \<times> string" where
  "target_key e \<equiv> (xr_task_id e, xr_node_id e)"

definition queue_inv :: "database \<Rightarrow> bool" where
  "queue_inv db \<longleftrightarrow>
     distinct (map xr_id (db_executions db)) \<and> distinct (map target_key (db_executions db)) \<and>
     distinct (map tr_id (db_tasks db)) \<and> (\<forall>t\<in>set (db_tasks db). task_valid t) \<and>
     (\<forall>e\<in>set (db_executions db). execution_ok e \<and> xr_task_id e \<in> tr_id ` set (db_tasks db))"

lemma evolves_ok:
  assumes "exec.evolves es es'" and "\<forall>e\<in>set es. execution_ok e"
  shows "\<forall>e\<in>set es'. execution_ok e"
  using assms(1,2) execution_step_ok execution_fresh_ok by (rule exec.evolves_inv)

lemma queue_inv_update:
  assumes "queue_inv db" and "exec.evolves (db_executions db) es"
    and "map xr_id es = map xr_id (db_executions db)"
    and "map target_key es = map target_key (db_executions db)"
  shows "queue_inv (db\<lparr>db_executions := es\<rparr>)"
proof -
  have "map xr_task_id es = map xr_task_id (db_executions db)"
    using arg_cong [OF assms(4), of "map fst"] by (simp add: comp_def)
  then have tasks: "xr_task_id ` set es = xr_task_id ` set (db_executions db)"
    by (metis list.set_map)
  have "xr_task_id e \<in> tr_id ` set (db_tasks db)" if "e \<in> set es" for e
  proof -
    from that tasks have "xr_task_id e \<in> xr_task_id ` set (db_executions db)" by blast
    with assms(1) show ?thesis by (auto simp: queue_inv_def)
  qed
  moreover have "\<forall>e\<in>set es. execution_ok e"
    using assms(1,2) evolves_ok by (auto simp: queue_inv_def)
  ultimately show ?thesis using assms(1,3,4) by (auto simp: queue_inv_def)
qed

lemma keys_recovered:
  "map xr_id (recover_leased nid now (expire_running nid now es)) = map xr_id es"
  "map target_key (recover_leased nid now (expire_running nid now es)) = map target_key es"
  by (simp_all add: recover_leased_def expire_running_def sql_update_def)

lemma keys_row_update:
  "map xr_id (sql_update P (lease_row l t) es) = map xr_id es"
  "map target_key (sql_update P (lease_row l t) es) = map target_key es"
  "map xr_id (sql_update P (start_row now) es) = map xr_id es"
  "map target_key (sql_update P (start_row now) es) = map target_key es"
  "map xr_id (sql_update P (complete_row c now) es) = map xr_id es"
  "map target_key (sql_update P (complete_row c now) es) = map target_key es"
  by (simp_all add: sql_update_def row_defs)

lemma queue_inv_insert:
  assumes "queue_inv db" and "task_insertable db t" and "task_valid t"
    and "executions_insertable (db\<lparr>db_tasks := db_tasks db @ [t]\<rparr>) (command_execution_insert sv (tr_id t) ids)"
  shows "queue_inv (db\<lparr>db_tasks := db_tasks db @ [t],
     db_executions := db_executions db @ command_execution_insert sv (tr_id t) ids\<rparr>)"
proof -
  let ?new = "command_execution_insert sv (tr_id t) ids"
  have ok: "\<forall>e\<in>set ?new. execution_ok e"
    using command_execution_insert_fresh execution_fresh_ok by blast
  have "xr_task_id ` set ?new \<subseteq> tr_id ` set (db_tasks db @ [t])"
    using assms(4) by (simp add: executions_insertable_def)
  then have tasks: "\<forall>e\<in>set ?new. xr_task_id e \<in> tr_id ` set (db_tasks db @ [t])" by blast
  have "distinct (map xr_id (db_executions db @ ?new))"
      and "distinct (map target_key (db_executions db @ ?new))"
    using assms(1,4) unfolding queue_inv_def executions_insertable_def map_append distinct_append
    by (simp_all add: Int_commute)
  moreover have "distinct (map tr_id (db_tasks db @ [t]))"
    using assms(1,2) by (simp add: queue_inv_def task_insertable_def)
  moreover have "\<forall>e\<in>set (db_executions db @ ?new).
      execution_ok e \<and> xr_task_id e \<in> tr_id ` set (db_tasks db @ [t])"
    using assms(1) ok tasks by (auto simp: queue_inv_def)
  ultimately show ?thesis using assms(1,3) by (simp add: queue_inv_def)
qed

lemma queue_inv_insert_command:
  assumes "queue_inv db"
    and "validate_command (ct_shell task) (ct_command task) (ct_timeout task) = None"
  shows "queue_inv (snd (insert_command sv db db task ids))"
  using assms queue_inv_insert
    [of db "\<lparr>tr_id = ct_id task, tr_shell = ct_shell task, tr_command = ct_command task,
       tr_timeout = ct_timeout task, tr_created_by = ct_created_by task,
       tr_retried_from = ct_retried_from task, tr_created_at = ct_created_at task\<rparr>" sv ids]
  by (simp add: insert_command_def Let_def snd_exits task_valid_def)

lemma run_op_inv:
  assumes "queue_inv db"
  shows "queue_inv (run_op sv db op)"
proof (cases op)
  case (OpRetry task s)
  have "validate_command (tr_shell t) (tr_command t) (tr_timeout t) = None"
    if "find (\<lambda>t. tr_id t = s) (db_tasks db) = Some t" for t
    using assms find_Some_conv [OF that] by (auto simp: queue_inv_def task_valid_def)
  then show ?thesis using assms OpRetry
    by (simp add: retry_command_def Let_def snd_exits queue_inv_insert_command split: option.split)
next
  case (OpCreate t ids)
  then show ?thesis using assms
    by (simp add: create_command_def Let_def snd_exits queue_inv_insert_command
        split: option.split prod.split)
next
  case (OpClaim c l now d)
  then show ?thesis using assms
    by (simp add: claim_command_def Let_def snd_exits queue_inv_update evolves_claim evolves_lease
        keys_recovered keys_row_update split: sum.split option.split)
next
  case (OpStart c i l now)
  then show ?thesis using assms
    by (simp add: start_command_def Let_def snd_exits queue_inv_update evolves_start
        keys_row_update split: sum.split)
next
  case (OpComplete c l r now)
  then show ?thesis using assms
    by (simp add: complete_command_def Let_def snd_exits queue_inv_update evolves_complete
        keys_row_update split: sum.split option.split)
qed

section \<open>Reachable databases\<close>

text \<open>
  The database changes by the operations of the queue, under any server behaviour, and by
  operations of other components, which leave the two command tables alone.
\<close>

definition other_change :: "database \<Rightarrow> database \<Rightarrow> bool" where
  "other_change db db' \<longleftrightarrow> db_executions db' = db_executions db \<and> db_tasks db' = db_tasks db"

inductive queue_reach :: "database \<Rightarrow> database \<Rightarrow> bool" for db0 where
  reach_start: "queue_reach db0 db0"
| reach_op: "queue_reach db0 db \<Longrightarrow> queue_reach db0 (run_op sv db op)"
| reach_other: "queue_reach db0 db \<Longrightarrow> other_change db db' \<Longrightarrow> queue_reach db0 db'"

lemma queue_reach_evolves: "queue_reach db0 db \<Longrightarrow> table_evolves db0 db"
proof (induction rule: queue_reach.induct)
  case (reach_op db sv op)
  from this(2) run_op_evolves show ?case by (rule exec.evolves_trans)
qed (simp_all add: other_change_def exec.evolves_refl)

lemma queue_reach_inv: "queue_reach db0 db \<Longrightarrow> queue_inv db0 \<Longrightarrow> queue_inv db"
proof (induction rule: queue_reach.induct)
  case (reach_other db db')
  have "queue_inv db" using reach_other.IH [OF reach_other.prems] .
  then show ?case using reach_other.hyps(2) unfolding queue_inv_def other_change_def by simp
next
  case (reach_op db sv op)
  show ?case using reach_op.IH [OF reach_op.prems] by (rule run_op_inv)
qed

lemma queue_inv_empty: "queue_inv empty_database"
  by (simp add: queue_inv_def empty_database_def)

lemma queue_inv_unique:
  "queue_inv db \<Longrightarrow> e \<in> set (db_executions db) \<Longrightarrow> f \<in> set (db_executions db) \<Longrightarrow>
   xr_id e = xr_id f \<Longrightarrow> e = f"
  using distinct_map_eq [of xr_id "db_executions db" e f] by (simp add: queue_inv_def)

lemma queue_inv_find:
  assumes "queue_inv db" and "e \<in> set (db_executions db)" and "P e"
    and "\<And>f. P f \<Longrightarrow> xr_id f = xr_id e"
  shows "find P (db_executions db) = Some e"
proof (cases "find P (db_executions db)")
  case None
  then show ?thesis using assms(2,3) by (auto simp: find_None_conv)
next
  case (Some f)
  then have f: "f \<in> set (db_executions db)" "P f" by (auto dest: find_Some_conv)
  have "e = f" using assms(4) [OF f(2)] by (intro queue_inv_unique [OF assms(1,2) f(1)]) simp
  with Some show ?thesis by simp
qed

end
