(* ===== verification/Json.thy ===== *)
theory Json
  imports CoreTypes
begin

text \<open>
  JSON values and how \<^verbatim>\<open>encoding/json\<close> reads them into the program's structs and writes them.  A
  request body is a value or does not parse; the text form itself is left to the parser.  Decoding
  a struct goes through the members in their order: a member whose name matches a field, without
  regard to the case of ASCII letters, sets it, \<open>null\<close> leaves it alone, an unknown member is
  skipped (or refused, under \<^verbatim>\<open>DisallowUnknownFields\<close>) and a value of the wrong type fails the whole decoding.  A number is an integer literal or another
  number; rounding to 53 bits is left out.
\<close>

datatype json =
    JNull
  | JBool bool
  | JInt int
  | JFloat go_float
  | JStr string
  | JTime time
  | JArr "json list"
  | JObj "(string \<times> json) list"

section \<open>Reading\<close>

definition key_matches :: "string \<Rightarrow> string \<Rightarrow> bool" where
  "key_matches name key \<longleftrightarrow> map ascii_lower name = map ascii_lower key"

fun read_string :: "json \<Rightarrow> string \<Rightarrow> string option" where
  "read_string JNull old = Some old"
| "read_string (JStr s) old = Some s"
| "read_string _ old = None"

fun read_bool :: "json \<Rightarrow> bool \<Rightarrow> bool option" where
  "read_bool JNull old = Some old"
| "read_bool (JBool b) old = Some b"
| "read_bool _ old = None"

text \<open>\<^verbatim>\<open>int\<close> and \<^verbatim>\<open>int64\<close> have 64 bits.\<close>

definition int64 :: "int \<Rightarrow> bool" where
  "int64 i \<longleftrightarrow> - (2 ^ 63) \<le> i \<and> i < 2 ^ 63"

fun read_int :: "json \<Rightarrow> int \<Rightarrow> int option" where
  "read_int JNull old = Some old"
| "read_int (JInt i) old = (if int64 i then Some i else None)"
| "read_int _ old = None"

fun read_u64 :: "json \<Rightarrow> u64 \<Rightarrow> u64 option" where
  "read_u64 JNull old = Some old"
| "read_u64 (JInt i) old = (if 0 \<le> i \<and> i < 2 ^ 64 then Some (word_of_int i) else None)"
| "read_u64 _ old = None"

fun read_float :: "json \<Rightarrow> go_float \<Rightarrow> go_float option" where
  "read_float JNull old = Some old"
| "read_float (JInt i) old = Some (Finite (of_int i))"
| "read_float (JFloat f) old = Some f"
| "read_float _ old = None"

fun read_option_int :: "json \<Rightarrow> int option \<Rightarrow> int option option" where
  "read_option_int JNull old = Some None"
| "read_option_int (JInt i) old = (if int64 i then Some (Some i) else None)"
| "read_option_int _ old = None"

fun read_strings :: "json list \<Rightarrow> string list option" where
  "read_strings [] = Some []"
| "read_strings (j # js) =
     (case read_string j [] of
        None \<Rightarrow> None
      | Some s \<Rightarrow> (case read_strings js of None \<Rightarrow> None | Some ss \<Rightarrow> Some (s # ss)))"

fun read_string_list :: "json \<Rightarrow> string list \<Rightarrow> string list option" where
  "read_string_list JNull old = Some []"
| "read_string_list (JArr js) old = read_strings js"
| "read_string_list _ old = None"

text \<open>A field of a struct: its name and how a value changes the struct.\<close>

type_synonym 'r field = "string \<times> (json \<Rightarrow> 'r \<Rightarrow> 'r option)"

definition field_of ::
    "string \<Rightarrow> (json \<Rightarrow> 'a \<Rightarrow> 'a option) \<Rightarrow> ('r \<Rightarrow> 'a) \<Rightarrow> (('a \<Rightarrow> 'a) \<Rightarrow> 'r \<Rightarrow> 'r) \<Rightarrow> 'r field" where
  "field_of name read get update =
     (name, \<lambda>j r. map_option (\<lambda>x. update (\<lambda>_. x) r) (read j (get r)))"

definition set_member :: "bool \<Rightarrow> 'r field list \<Rightarrow> string \<times> json \<Rightarrow> 'r \<Rightarrow> 'r option" where
  "set_member strict fs m r =
     (case find (\<lambda>f. fst f = fst m) fs of
        Some f \<Rightarrow> snd f (snd m) r
      | None \<Rightarrow>
        (case find (\<lambda>f. key_matches (fst f) (fst m)) fs of
           Some f \<Rightarrow> snd f (snd m) r
         | None \<Rightarrow> if strict then None else Some r))"

fun set_members :: "bool \<Rightarrow> 'r field list \<Rightarrow> (string \<times> json) list \<Rightarrow> 'r \<Rightarrow> 'r option" where
  "set_members strict fs [] r = Some r"
| "set_members strict fs (m # ms) r =
     (case set_member strict fs m r of None \<Rightarrow> None | Some r1 \<Rightarrow> set_members strict fs ms r1)"

fun read_struct :: "bool \<Rightarrow> 'r field list \<Rightarrow> json \<Rightarrow> 'r \<Rightarrow> 'r option" where
  "read_struct strict fs JNull r = Some r"
| "read_struct strict fs (JObj ms) r = set_members strict fs ms r"
| "read_struct strict fs _ r = None"

text \<open>A pointer to a struct: \<open>null\<close> clears it, a value is read into what it points to or a new struct.\<close>

fun read_pointer :: "(json \<Rightarrow> 'r \<Rightarrow> 'r option) \<Rightarrow> 'r \<Rightarrow> json \<Rightarrow> 'r option \<Rightarrow> 'r option option" where
  "read_pointer read zero JNull old = Some None"
| "read_pointer read zero j old = map_option Some (read j (case old of None \<Rightarrow> zero | Some x \<Rightarrow> x))"

text \<open>\<open>JTime t\<close> is the RFC 3339 text of \<open>t\<close>; it occurs only where a time is read.\<close>

fun read_time :: "json \<Rightarrow> time \<Rightarrow> time option" where
  "read_time JNull old = Some old"
| "read_time (JTime t) old = Some t"
| "read_time _ old = None"

section \<open>Writing\<close>

definition json_option :: "('a \<Rightarrow> json) \<Rightarrow> 'a option \<Rightarrow> json" where
  "json_option f x = (case x of None \<Rightarrow> JNull | Some y \<Rightarrow> f y)"

text \<open>Members with \<^verbatim>\<open>omitempty\<close>.\<close>

definition omit_none :: "string \<Rightarrow> ('a \<Rightarrow> json) \<Rightarrow> 'a option \<Rightarrow> (string \<times> json) list" where
  "omit_none name f x = (case x of None \<Rightarrow> [] | Some y \<Rightarrow> [(name, f y)])"

definition omit_empty :: "string \<Rightarrow> string \<Rightarrow> (string \<times> json) list" where
  "omit_empty name s = (if s = [] then [] else [(name, JStr s)])"

text \<open>Every string that a value contains.\<close>

fun json_strings :: "json \<Rightarrow> string list" where
  "json_strings (JStr s) = [s]"
| "json_strings (JArr js) = concat (map json_strings js)"
| "json_strings (JObj ms) = concat (map (\<lambda>(k, j). json_strings j) ms)"
| "json_strings _ = []"


section \<open>Bodies of HTTP messages\<close>

text \<open>
  A body as the program reads it: its length, whether reading it failed, the length up to the end
  of the first value, and the results of decoding one value after the other.
\<close>

record body =
  bd_size :: nat
  bd_failed :: bool
  bd_need :: nat
  bd_docs :: "json option list"

definition empty_body :: body where
  "empty_body = \<lparr>bd_size = 0, bd_failed = False, bd_need = 0, bd_docs = []\<rparr>"

definition json_body :: "nat \<Rightarrow> json \<Rightarrow> body" where
  "json_body n j = \<lparr>bd_size = n, bd_failed = False, bd_need = n, bd_docs = [Some j]\<rparr>"

text \<open>Read all of it up to a limit, then decode exactly one value.\<close>

definition read_single :: "nat \<Rightarrow> body \<Rightarrow> json option" where
  "read_single limit b =
     (if bd_failed b \<or> limit < bd_size b then None
      else case bd_docs b of [Some j] \<Rightarrow> Some j | _ \<Rightarrow> None)"

record http_request =
  rq_method :: string
  rq_path :: string
  rq_authorization :: string
  rq_cookie :: "string option"
  rq_range :: string
  rq_remote :: string
  rq_body :: body

record http_response =
  rs_status :: nat
  rs_body :: body
  rs_cookie :: "(string \<times> int) option"

end
