(* ===== verification/ApiJson.thy ===== *)
theory ApiJson
  imports Database Json
begin

text \<open>
  How the structs of \<^verbatim>\<open>internal/core\<close> travel as JSON: the \<^verbatim>\<open>json\<close> tags of \<^verbatim>\<open>types.go\<close> and
  \<^verbatim>\<open>command.go\<close> as writers for the responses of the API and as field lists for its requests.  A
  field tagged with a dash has no member.
\<close>

section \<open>Enumerations\<close>

fun shell_text :: "command_shell \<Rightarrow> string" where
  "shell_text PowerShell = ''powershell''"
| "shell_text Cmd = ''cmd''"
| "shell_text (OtherShell s) = s"

definition shell_of_text :: "string \<Rightarrow> command_shell" where
  "shell_of_text s = (if s = ''powershell'' then PowerShell else if s = ''cmd'' then Cmd else OtherShell s)"

fun status_text :: "command_status \<Rightarrow> string" where
  "status_text Queued = ''queued''"
| "status_text Leased = ''leased''"
| "status_text Running = ''running''"
| "status_text Succeeded = ''succeeded''"
| "status_text Failed = ''failed''"
| "status_text TimedOut = ''timed_out''"
| "status_text (OtherStatus s) = s"

definition status_of_text :: "string \<Rightarrow> command_status" where
  "status_of_text s =
     (case find (\<lambda>t. status_text t = s) [Queued, Leased, Running, Succeeded, Failed, TimedOut] of
        Some t \<Rightarrow> t | None \<Rightarrow> OtherStatus s)"

fun pairing_text :: "pairing_state \<Rightarrow> string" where
  "pairing_text PairingPending = ''pending''"
| "pairing_text PairingApproved = ''approved''"
| "pairing_text PairingRejected = ''rejected''"
| "pairing_text PairingExpired = ''expired''"
| "pairing_text (OtherPairing s) = s"

definition read_shell :: "json \<Rightarrow> command_shell \<Rightarrow> command_shell option" where
  "read_shell j old = map_option shell_of_text (read_string j (shell_text old))"

definition read_status_text :: "json \<Rightarrow> command_status \<Rightarrow> command_status option" where
  "read_status_text j old = map_option status_of_text (read_string j (status_text old))"

section \<open>Responses\<close>

definition write_owner :: "owner \<Rightarrow> json" where
  "write_owner x = JObj (
     [(''id'', JStr (ow_id x)),
      (''username'', JStr (ow_username x)),
      (''created_at'', JTime (ow_created_at x))])"

definition write_organization :: "organization \<Rightarrow> json" where
  "write_organization x = JObj (
     [(''id'', JStr (og_id x)),
      (''name'', JStr (og_name x)),
      (''created_at'', JTime (og_created_at x))])"

definition write_site :: "site \<Rightarrow> json" where
  "write_site x = JObj (
     [(''id'', JStr (si_id x)),
      (''organization_id'', JStr (si_organization_id x)),
      (''name'', JStr (si_name x)),
      (''created_at'', JTime (si_created_at x))])"

definition write_group :: "node_group \<Rightarrow> json" where
  "write_group x = JObj (
     [(''id'', JStr (ng_id x)),
      (''site_id'', JStr (ng_site_id x)),
      (''name'', JStr (ng_name x)),
      (''created_at'', JTime (ng_created_at x))])"

definition write_node :: "node \<Rightarrow> json" where
  "write_node x = JObj (
     [(''id'', JStr (nd_id x)),
      (''group_id'', JStr (nd_group_id x)),
      (''remark'', JStr (nd_remark x)),
      (''name'', JStr (nd_name x)),
      (''type'', JStr (nd_type x)),
      (''agent_version'', JStr (nd_agent_version x)),
      (''os_name'', JStr (nd_os_name x)),
      (''os_version'', JStr (nd_os_version x)),
      (''ip_address'', JStr (nd_ip_address x)),
      (''cpu_percent'', JFloat (nd_cpu_percent x)),
      (''memory_percent'', JFloat (nd_memory_percent x)),
      (''disk_percent'', JFloat (nd_disk_percent x)),
      (''network_metrics_available'', JBool (nd_metrics_available x)),
      (''network_upload_mb_s'', JFloat (nd_upload_rate x)),
      (''network_download_mb_s'', JFloat (nd_download_rate x)),
      (''network_usage_available'', JBool (nd_usage_available x)),
      (''network_usage_day'', JStr (nd_usage_day x)),
      (''network_today_upload_bytes'', JInt (uint (nd_today_upload x))),
      (''network_today_download_bytes'', JInt (uint (nd_today_download x))),
      (''network_month_upload_bytes'', JInt (uint (nd_month_upload x))),
      (''network_month_download_bytes'', JInt (uint (nd_month_download x))),
      (''last_seen_at'', json_option JTime (nd_last_seen_at x)),
      (''created_at'', JTime (nd_created_at x))])"

definition write_enrollment :: "enrollment \<Rightarrow> json" where
  "write_enrollment x = JObj (
     [(''id'', JStr (en_id x)),
      (''group_id'', JStr (en_group_id x)),
      (''expires_at'', JTime (en_expires_at x)),
      (''max_uses'', JInt (en_max_uses x)),
      (''uses'', JInt (en_uses x)),
      (''created_at'', JTime (en_created_at x))])"

definition write_pairing :: "pairing_request \<Rightarrow> json" where
  "write_pairing x = JObj (
     [(''id'', JStr (pr_id x)),
      (''machine_id'', JStr (pr_machine_id x)),
      (''hostname'', JStr (pr_hostname x)),
      (''type'', JStr (pr_type x)),
      (''agent_version'', JStr (pr_agent_version x)),
      (''state'', JStr (pairing_text (pr_state x)))] @
     omit_none ''existing_node'' write_node (pr_existing_node x) @
     omit_empty ''group_id'' (pr_group_id x) @
     [(''created_at'', JTime (pr_created_at x)),
      (''expires_at'', JTime (pr_expires_at x))] @
     omit_none ''decided_at'' JTime (pr_decided_at x))"

definition write_poll :: "pairing_poll_result \<Rightarrow> json" where
  "write_poll x = JObj (
     [(''pairing_id'', JStr (pp_id x)),
      (''state'', JStr (pairing_text (pp_state x)))] @
     omit_none ''node'' write_node (pp_node x) @
     [(''expires_at'', JTime (pp_expires_at x))])"

definition write_history :: "network_history_point \<Rightarrow> json" where
  "write_history x = JObj (
     [(''captured_at'', JTime (hp_captured_at x)),
      (''upload_avg_mb_s'', JFloat (hp_upload_average x)),
      (''download_avg_mb_s'', JFloat (hp_download_average x)),
      (''upload_peak_mb_s'', JFloat (hp_upload_peak x)),
      (''download_peak_mb_s'', JFloat (hp_download_peak x))])"

definition write_summary :: "network_summary_item \<Rightarrow> json" where
  "write_summary x = JObj (
     [(''node_id'', JStr (su_node_id x)),
      (''upload_avg_mb_s'', JFloat (su_upload_average x)),
      (''download_avg_mb_s'', JFloat (su_download_average x)),
      (''upload_peak_mb_s'', JFloat (su_upload_peak x)),
      (''download_peak_mb_s'', JFloat (su_download_peak x))])"

definition write_logs :: "agent_log_snapshot \<Rightarrow> json" where
  "write_logs x = JObj (
     [(''node_id'', JStr (ls_node_id x)),
      (''agent_log'', JStr (ls_agent_log x)),
      (''update_log'', JStr (ls_update_log x)),
      (''captured_at'', JTime (ls_captured_at x))])"

definition write_counts :: "command_status_counts \<Rightarrow> json" where
  "write_counts x = JObj (
     [(''queued'', JInt (cn_queued x)),
      (''leased'', JInt (cn_leased x)),
      (''running'', JInt (cn_running x)),
      (''succeeded'', JInt (cn_succeeded x)),
      (''failed'', JInt (cn_failed x)),
      (''timed_out'', JInt (cn_timed_out x))])"

definition write_command_task :: "command_task \<Rightarrow> json" where
  "write_command_task x = JObj (
     [(''id'', JStr (ct_id x)),
      (''shell'', JStr (shell_text (ct_shell x))),
      (''command'', JStr (ct_command x)),
      (''timeout_seconds'', JInt (ct_timeout x)),
      (''created_by'', JStr (ct_created_by x))] @
     omit_none ''retried_from_id'' JStr (ct_retried_from x) @
     [(''created_at'', JTime (ct_created_at x)),
      (''target_count'', JInt (ct_target_count x)),
      (''counts'', write_counts (ct_counts x))])"

definition write_execution :: "command_execution \<Rightarrow> json" where
  "write_execution x = JObj (
     [(''id'', JStr (ce_id x)),
      (''task_id'', JStr (ce_task_id x)),
      (''node_id'', JStr (ce_node_id x)),
      (''node_name'', JStr (ce_node_name x)),
      (''status'', JStr (status_text (ce_status x))),
      (''attempt'', JInt (ce_attempt x)),
      (''started_at'', json_option JTime (ce_started_at x)),
      (''finished_at'', json_option JTime (ce_finished_at x)),
      (''exit_code'', json_option JInt (ce_exit_code x)),
      (''output'', JStr (ce_output x)),
      (''output_truncated'', JBool (ce_output_truncated x)),
      (''error_message'', JStr (ce_error_message x)),
      (''duration_ms'', json_option JInt (ce_duration_ms x))])"

definition write_detail :: "command_task_detail \<Rightarrow> json" where
  "write_detail x = JObj (
     [(''task'', write_command_task (cd_task x)),
      (''executions'', JArr (map write_execution (cd_executions x)))])"

definition write_claim :: "command_claim \<Rightarrow> json" where
  "write_claim x = JObj (
     [(''execution_id'', JStr (cl_execution_id x)),
      (''task_id'', JStr (cl_task_id x)),
      (''shell'', JStr (shell_text (cl_shell x))),
      (''command'', JStr (cl_command x)),
      (''timeout_seconds'', JInt (cl_timeout x)),
      (''lease_token'', JStr (cl_lease_token x)),
      (''lease_expires_at'', JTime (cl_lease_expires_at x))])"

section \<open>Requests\<close>

record login_request =
  lq_username :: string
  lq_password :: string

definition login_fields :: "login_request field list" where
  "login_fields =
     [field_of ''username'' read_string lq_username lq_username_update,
      field_of ''password'' read_string lq_password lq_password_update]"

text \<open>Requests with one string, and the request of a new site.\<close>

definition text_fields :: "string \<Rightarrow> string field list" where
  "text_fields name = [field_of name read_string (\<lambda>v. v) (\<lambda>f. f)]"

record site_request =
  sq_organization_id :: string
  sq_name :: string

definition site_request_fields :: "site_request field list" where
  "site_request_fields =
     [field_of ''organization_id'' read_string sq_organization_id sq_organization_id_update,
      field_of ''name'' read_string sq_name sq_name_update]"

record enrollment_request =
  eq_group_id :: string
  eq_expires_minutes :: int
  eq_max_uses :: int

definition enrollment_request_fields :: "enrollment_request field list" where
  "enrollment_request_fields =
     [field_of ''group_id'' read_string eq_group_id eq_group_id_update,
      field_of ''expires_minutes'' read_int eq_expires_minutes eq_expires_minutes_update,
      field_of ''max_uses'' read_int eq_max_uses eq_max_uses_update]"

definition enroll_fields :: "enroll_request field list" where
  "enroll_fields =
     [field_of ''token'' read_string er_token er_token_update,
      field_of ''hostname'' read_string er_hostname er_hostname_update,
      field_of ''type'' read_string er_type er_type_update,
      field_of ''version'' read_string er_version er_version_update,
      field_of ''machine_id'' read_string er_machine_id er_machine_id_update]"

definition pairing_create_fields :: "pairing_create_request field list" where
  "pairing_create_fields =
     [field_of ''hostname'' read_string pc_hostname pc_hostname_update,
      field_of ''type'' read_string pc_type pc_type_update,
      field_of ''agent_version'' read_string pc_agent_version pc_agent_version_update,
      field_of ''machine_id'' read_string pc_machine_id pc_machine_id_update,
      field_of ''pairing_credential'' read_string pc_pairing_credential pc_pairing_credential_update]"

record approval_request =
  aq_group_id :: string
  aq_remark :: string

definition approval_fields :: "approval_request field list" where
  "approval_fields =
     [field_of ''group_id'' read_string aq_group_id aq_group_id_update,
      field_of ''remark'' read_string aq_remark aq_remark_update]"

definition heartbeat_fields :: "heartbeat field list" where
  "heartbeat_fields =
     [field_of ''hostname'' read_string hb_hostname hb_hostname_update,
      field_of ''agent_version'' read_string hb_agent_version hb_agent_version_update,
      field_of ''os_name'' read_string hb_os_name hb_os_name_update,
      field_of ''os_version'' read_string hb_os_version hb_os_version_update,
      field_of ''ip_address'' read_string hb_ip_address hb_ip_address_update,
      field_of ''cpu_percent'' read_float hb_cpu_percent hb_cpu_percent_update,
      field_of ''memory_percent'' read_float hb_memory_percent hb_memory_percent_update,
      field_of ''disk_percent'' read_float hb_disk_percent hb_disk_percent_update,
      field_of ''network_metrics_available'' read_bool hb_metrics_available hb_metrics_available_update,
      field_of ''network_upload_mb_s'' read_float hb_upload_rate hb_upload_rate_update,
      field_of ''network_download_mb_s'' read_float hb_download_rate hb_download_rate_update,
      field_of ''network_usage_available'' read_bool hb_usage_available hb_usage_available_update,
      field_of ''network_usage_day'' read_string hb_usage_day hb_usage_day_update,
      field_of ''network_today_upload_bytes'' read_u64 hb_today_upload hb_today_upload_update,
      field_of ''network_today_download_bytes'' read_u64 hb_today_download hb_today_download_update,
      field_of ''network_month_upload_bytes'' read_u64 hb_month_upload hb_month_upload_update,
      field_of ''network_month_download_bytes'' read_u64 hb_month_download hb_month_download_update]"

definition log_fields :: "agent_log_upload field list" where
  "log_fields =
     [field_of ''agent_log'' read_string lu_agent_log lu_agent_log_update,
      field_of ''update_log'' read_string lu_update_log lu_update_log_update]"

record command_request =
  cq_node_ids :: "string list"
  cq_shell :: command_shell
  cq_command :: string
  cq_timeout :: int

definition command_request_fields :: "command_request field list" where
  "command_request_fields =
     [field_of ''node_ids'' read_string_list cq_node_ids cq_node_ids_update,
      field_of ''shell'' read_shell cq_shell cq_shell_update,
      field_of ''command'' read_string cq_command cq_command_update,
      field_of ''timeout_seconds'' read_int cq_timeout cq_timeout_update]"

definition completion_fields :: "command_completion field list" where
  "completion_fields =
     [field_of ''lease_token'' read_string cc_lease_token cc_lease_token_update,
      field_of ''status'' read_status_text cc_status cc_status_update,
      field_of ''exit_code'' read_option_int cc_exit_code cc_exit_code_update,
      field_of ''output'' read_string cc_output cc_output_update,
      field_of ''output_truncated'' read_bool cc_output_truncated cc_output_truncated_update,
      field_of ''error_message'' read_string cc_error_message cc_error_message_update,
      field_of ''duration_ms'' read_int cc_duration_ms cc_duration_ms_update]"

text \<open>The zero values the requests are read into.\<close>

definition zero_login :: login_request where
  "zero_login = \<lparr>lq_username = [], lq_password = []\<rparr>"

definition zero_site_request :: site_request where
  "zero_site_request = \<lparr>sq_organization_id = [], sq_name = []\<rparr>"

definition zero_enrollment_request :: enrollment_request where
  "zero_enrollment_request = \<lparr>eq_group_id = [], eq_expires_minutes = 0, eq_max_uses = 0\<rparr>"

definition zero_enroll :: enroll_request where
  "zero_enroll = \<lparr>er_token = [], er_hostname = [], er_type = [], er_version = [], er_machine_id = []\<rparr>"

definition zero_pairing_create :: pairing_create_request where
  "zero_pairing_create = \<lparr>pc_hostname = [], pc_type = [], pc_agent_version = [], pc_machine_id = [], pc_pairing_credential = []\<rparr>"

definition zero_approval :: approval_request where
  "zero_approval = \<lparr>aq_group_id = [], aq_remark = []\<rparr>"

definition zero_heartbeat :: heartbeat where
  "zero_heartbeat = \<lparr>hb_hostname = [], hb_agent_version = [], hb_os_name = [], hb_os_version = [], hb_ip_address = [], hb_cpu_percent = Finite 0, hb_memory_percent = Finite 0, hb_disk_percent = Finite 0, hb_metrics_available = False, hb_upload_rate = Finite 0, hb_download_rate = Finite 0, hb_usage_available = False, hb_usage_day = [], hb_today_upload = 0, hb_today_download = 0, hb_month_upload = 0, hb_month_download = 0\<rparr>"

definition zero_logs :: agent_log_upload where
  "zero_logs = \<lparr>lu_agent_log = [], lu_update_log = []\<rparr>"

definition zero_command_request :: command_request where
  "zero_command_request = \<lparr>cq_node_ids = [], cq_shell = OtherShell [], cq_command = [], cq_timeout = 0\<rparr>"

definition zero_completion :: command_completion where
  "zero_completion = \<lparr>cc_execution_id = [], cc_lease_token = [], cc_status = OtherStatus [], cc_exit_code = None, cc_output = [], cc_output_truncated = False, cc_error_message = [], cc_duration_ms = 0\<rparr>"

end
