(* ===== verification/SuTypes.thy ===== *)
theory SuTypes
  imports Prelude
begin

text \<open>
  \<^verbatim>\<open>internal/systemupdate/types.go\<close> and \<^verbatim>\<open>checker.go\<close>: images and tasks of the managed upgrade of
  the backend and Web containers, their public views, and the check that compares the running
  pair with the published one.  \<^verbatim>\<open>golang.org/x/mod/semver\<close> is not in the repository: its three
  functions are the parameter \<open>semver\<close>, and \<open>semver_laws\<close> is what its documentation promises.
\<close>

section \<open>Types\<close>

datatype service = Backend | Web

datatype stage =
    Checking | BackingUp | Pulling | SwitchingBackend | CheckingBackend | SwitchingWeb | CheckingWeb
  | Stabilizing | Cleaning | RollingBack | StageSucceeded | StageFailed | ManualIntervention
  | OtherStage string

fun stage_terminal :: "stage \<Rightarrow> bool" where
  "stage_terminal StageSucceeded = True"
| "stage_terminal StageFailed = True"
| "stage_terminal ManualIntervention = True"
| "stage_terminal _ = False"

datatype cleanup = CleanupNotRun | CleanupComplete | CleanupPending | OtherCleanup string

record image =
  im_repository :: string
  im_version :: string
  im_digest :: string
  im_id :: string
  im_alias :: string
  im_published :: "time option"

definition empty_image :: image where
  "empty_image = \<lparr>im_repository = [], im_version = [], im_digest = [], im_id = [], im_alias = [],
     im_published = None\<rparr>"

record image_pair =
  ip_backend :: image
  ip_web :: image

fun pair_image :: "service \<Rightarrow> image_pair \<Rightarrow> image" where
  "pair_image Backend p = ip_backend p"
| "pair_image Web p = ip_web p"

fun set_pair_image :: "service \<Rightarrow> image \<Rightarrow> image_pair \<Rightarrow> image_pair" where
  "set_pair_image Backend i p = p\<lparr>ip_backend := i\<rparr>"
| "set_pair_image Web i p = p\<lparr>ip_web := i\<rparr>"

record check_result =
  ck_current :: image_pair
  ck_target :: image_pair
  ck_available :: bool
  ck_checked_at :: time

record update_task =
  ut_id :: string
  ut_original :: image_pair
  ut_target :: image_pair
  ut_stage :: stage
  ut_backup_path :: string
  ut_created_at :: time
  ut_started_at :: "time option"
  ut_finished_at :: "time option"
  ut_rolled_back :: bool
  ut_cleanup :: cleanup
  ut_error_code :: string
  ut_error_message :: string

record persistent_state =
  ps_last_check :: "check_result option"
  ps_task :: "update_task option"

definition empty_state :: persistent_state where
  "empty_state = \<lparr>ps_last_check = None, ps_task = None\<rparr>"

record version_pair_view =
  vp_backend :: string
  vp_web :: string

record task_view =
  tv_id :: string
  tv_from :: version_pair_view
  tv_to :: version_pair_view
  tv_stage :: stage
  tv_created_at :: time
  tv_started_at :: "time option"
  tv_finished_at :: "time option"
  tv_rolled_back :: bool
  tv_cleanup :: cleanup
  tv_error_code :: string
  tv_error_message :: string

record release_view =
  rv_versions :: version_pair_view
  rv_published :: "time option"

record status_view =
  sw_current :: version_pair_view
  sw_latest :: "release_view option"
  sw_available :: bool
  sw_checked_at :: "time option"
  sw_task :: "task_view option"

section \<open>Versions\<close>

record semver =
  sem_valid :: "string \<Rightarrow> bool"
  sem_canonical :: "string \<Rightarrow> string"
  sem_compare :: "string \<Rightarrow> string \<Rightarrow> int"

definition semver_laws :: "semver \<Rightarrow> bool" where
  "semver_laws sem \<longleftrightarrow> (\<forall>v. sem_compare sem v v = 0) \<and>
     (\<forall>v w. sem_compare sem v w < 0 \<longleftrightarrow> 0 < sem_compare sem w v)"

definition validate_version :: "semver \<Rightarrow> string \<Rightarrow> go_error option" where
  "validate_version sem v =
     (if \<not> sem_valid sem v \<or> sem_canonical sem v \<noteq> v
      then Some (Message (''version must be canonical semantic versioning: '' @ v)) else None)"

section \<open>Public views\<close>

text \<open>The error codes a task can carry.  The messages themselves are Chinese text; a message is
  named here by its code.\<close>

definition public_error_codes :: "string list" where
  "public_error_codes =
     [''state_invalid'', ''check_expired'', ''backup_failed'', ''pull_failed'', ''backend_switch_failed'',
      ''backend_unhealthy'', ''web_switch_failed'', ''web_unhealthy'', ''stability_failed'',
      ''rollback_failed'', ''cleanup_pending'', ''updater_restarted'']"

definition public_error_message :: "string \<Rightarrow> string option" where
  "public_error_message code =
     (if code \<in> set public_error_codes then Some (''message:'' @ code) else None)"

definition version_pair :: "image_pair \<Rightarrow> version_pair_view" where
  "version_pair p = \<lparr>vp_backend = im_version (ip_backend p), vp_web = im_version (ip_web p)\<rparr>"

definition task_to_view :: "update_task \<Rightarrow> task_view" where
  "task_to_view t =
     (let view = \<lparr>tv_id = ut_id t, tv_from = version_pair (ut_original t), tv_to = version_pair (ut_target t),
            tv_stage = ut_stage t, tv_created_at = ut_created_at t, tv_started_at = ut_started_at t,
            tv_finished_at = ut_finished_at t, tv_rolled_back = ut_rolled_back t,
            tv_cleanup = ut_cleanup t, tv_error_code = [], tv_error_message = []\<rparr>
      in if ut_error_code t = [] then view
         else case public_error_message (ut_error_code t) of
             Some m \<Rightarrow> view\<lparr>tv_error_code := ut_error_code t, tv_error_message := m\<rparr>
           | None \<Rightarrow> view\<lparr>tv_error_code := ''state_invalid'',
                         tv_error_message := the (public_error_message ''state_invalid'')\<rparr>)"

definition cleanup_pending_message :: string where
  "cleanup_pending_message = ''message:old image still referenced''"

definition public_task_view :: "update_task \<Rightarrow> task_view" where
  "public_task_view t =
     (if ut_stage t = StageSucceeded \<and> ut_cleanup t = CleanupPending
      then (task_to_view t)\<lparr>tv_error_code := ''cleanup_pending'', tv_error_message := cleanup_pending_message\<rparr>
      else task_to_view t)"

definition later_time :: "time option \<Rightarrow> time option \<Rightarrow> time option" where
  "later_time a b =
     (case a of None \<Rightarrow> b
      | Some x \<Rightarrow> (case b of None \<Rightarrow> a | Some y \<Rightarrow> if y < x then a else b))"

text \<open>A task blocks a new update while it runs and until someone has looked at it.\<close>

definition blocking :: "update_task \<Rightarrow> bool" where
  "blocking t \<longleftrightarrow> \<not> stage_terminal (ut_stage t) \<or> ut_stage t = ManualIntervention"

definition status_of :: "persistent_state \<Rightarrow> status_view" where
  "status_of s =
     (let v0 = \<lparr>sw_current = \<lparr>vp_backend = [], vp_web = []\<rparr>, sw_latest = None, sw_available = False,
                sw_checked_at = None, sw_task = None\<rparr>;
          v1 = (case ps_last_check s of
                  None \<Rightarrow> v0
                | Some c \<Rightarrow> v0\<lparr>sw_current := version_pair (ck_current c),
                     sw_latest := Some \<lparr>rv_versions = version_pair (ck_target c),
                       rv_published = later_time (im_published (ip_backend (ck_target c)))
                                        (im_published (ip_web (ck_target c)))\<rparr>,
                     sw_available := ck_available c, sw_checked_at := Some (ck_checked_at c)\<rparr>)
      in case ps_task s of
           None \<Rightarrow> v1
         | Some t \<Rightarrow>
           let v2 = v1\<lparr>sw_task := Some (public_task_view t)\<rparr>
           in if blocking t then v2\<lparr>sw_available := False\<rparr> else v2)"

section \<open>Checking for an update (checker.go)\<close>

text \<open>The registry (\<^verbatim>\<open>ImageResolver\<close>) and the runtime are what the checker is constructed with.\<close>

record checker =
  kr_resolve :: "string \<Rightarrow> string \<Rightarrow> image res"
  kr_inspect :: "service \<Rightarrow> image res"
  kr_backend_repo :: string
  kr_web_repo :: string
  kr_now :: time

definition validate_image :: "semver \<Rightarrow> image \<Rightarrow> string \<Rightarrow> string \<Rightarrow> go_error option" where
  "validate_image sem i repository label =
     (if im_repository i \<noteq> repository then Some (Message (label @ '' repository is unexpected''))
      else if im_digest i = [] then Some (Message (label @ '' digest is required''))
      else if validate_version sem (im_version i) \<noteq> None then Some (Message (label @ '' version is invalid''))
      else None)"

definition validate_pair :: "semver \<Rightarrow> checker \<Rightarrow> image_pair \<Rightarrow> string \<Rightarrow> go_error option" where
  "validate_pair sem k p kind =
     (case validate_image sem (ip_backend p) (kr_backend_repo k) (kind @ '' backend'') of
        Some e \<Rightarrow> Some e
      | None \<Rightarrow>
        (case validate_image sem (ip_web p) (kr_web_repo k) (kind @ '' web'') of
           Some e \<Rightarrow> Some e
         | None \<Rightarrow>
           if im_version (ip_backend p) \<noteq> im_version (ip_web p)
           then Some (Message (kind @ '' image versions must match'')) else None))"

definition stable_tag :: string where "stable_tag = ''stable''"

definition check :: "semver \<Rightarrow> checker \<Rightarrow> check_result res" where
  "check sem k =
     (if kr_backend_repo k = [] \<or> kr_web_repo k = [] then Inl (Message ''update checker is not configured'')
      else case kr_inspect k Backend of
        Inl e \<Rightarrow> Inl (Message ''inspect backend service'')
      | Inr cb \<Rightarrow>
        (case kr_inspect k Web of
           Inl e \<Rightarrow> Inl (Message ''inspect web service'')
         | Inr cw \<Rightarrow>
           let current = \<lparr>ip_backend = cb, ip_web = cw\<rparr>
           in case validate_pair sem k current ''current'' of
                Some e \<Rightarrow> Inl e
              | None \<Rightarrow>
                (case kr_resolve k (kr_backend_repo k) stable_tag of
                   Inl e \<Rightarrow> Inl (Message ''registry image resolution failed'')
                 | Inr tb \<Rightarrow>
                   (case kr_resolve k (kr_web_repo k) stable_tag of
                      Inl e \<Rightarrow> Inl (Message ''registry image resolution failed'')
                    | Inr tw \<Rightarrow>
                      let target = \<lparr>ip_backend = tb, ip_web = tw\<rparr>
                      in case validate_pair sem k target ''stable'' of
                           Some e \<Rightarrow> Inl e
                         | None \<Rightarrow>
                           let comparison = sem_compare sem (im_version tb) (im_version cb)
                           in if comparison < 0
                              then Inl (Message ''stable version must not be older than current version'')
                              else Inr \<lparr>ck_current = current, ck_target = target,
                                        ck_available = (0 < comparison), ck_checked_at = kr_now k\<rparr>))))"

end
