(* ===== verification/SuStore.thy ===== *)
theory SuStore
  imports SuTypes
begin

text \<open>
  \<^verbatim>\<open>internal/systemupdate/store.go\<close>: the state file of the updater.  The file is seen at the level
  of JSON documents, as \<^verbatim>\<open>encoding/json\<close> reads and writes them: a document is a persistent state
  or does not decode (malformed, or with an unknown field); \<open>json_size\<close> is the length of the
  encoding.  The file system is a parameter that says which call fails, by name.
\<close>

type_synonym faults = "string \<Rightarrow> go_error option"

record state_file =
  sf_size :: nat
  sf_documents :: "persistent_state res list"

definition max_state_bytes :: nat where
  "max_state_bytes = 2 ^ 20"

definition store_load :: "faults \<Rightarrow> state_file option \<Rightarrow> persistent_state res" where
  "store_load fs file =
     (case fs ''open'' of
        Some e \<Rightarrow> if err_is ErrNotExist e then Inr empty_state else Inl (Wrapped ''open update state'' e)
      | None \<Rightarrow>
        (case file of
           None \<Rightarrow> Inr empty_state
         | Some f \<Rightarrow>
           (case fs ''stat'' of
              Some e \<Rightarrow> Inl (Wrapped ''stat update state'' e)
            | None \<Rightarrow>
              if max_state_bytes < sf_size f then Inl (Message ''update state exceeds 1048576 bytes'')
              else (case sf_documents f of
                  [] \<Rightarrow> Inl (Wrapped ''decode update state'' (Message ''EOF''))
                | Inl e # _ \<Rightarrow> Inl (Wrapped ''decode update state'' e)
                | [Inr s] \<Rightarrow> Inr s
                | Inr s # Inr _ # _ \<Rightarrow> Inl (Message ''decode update state: multiple JSON values'')
                | Inr s # Inl e # _ \<Rightarrow> Inl (Wrapped ''decode update state'' e)))))"

text \<open>The calls before the rename, in their order, with the prefix of the error each returns.\<close>

definition save_calls :: "(string \<times> string) list" where
  "save_calls =
     [(''mkdirall'', ''create update state directory''),
      (''chmod'', ''secure update state directory''),
      (''createtemp'', ''create temporary update state''),
      (''tempchmod'', ''set temporary update state permissions''),
      (''encode'', ''encode update state''),
      (''sync'', ''sync temporary update state''),
      (''close'', ''close temporary update state''),
      (''rename'', ''replace state'')]"

fun first_fault :: "faults \<Rightarrow> (string \<times> string) list \<Rightarrow> go_error option" where
  "first_fault fs [] = None"
| "first_fault fs ((call, label) # calls) =
     (case fs call of Some e \<Rightarrow> Some (Wrapped label e) | None \<Rightarrow> first_fault fs calls)"

definition sync_state_directory :: "faults \<Rightarrow> go_error option" where
  "sync_state_directory fs =
     first_fault fs [(''opendir'', ''open update state directory''), (''syncdir'', ''sync update state directory'')]"

text \<open>Writes to a temporary file and renames it: a failure up to the rename keeps the old file, a
  failure after it reports an error although the new file is in place.\<close>

definition store_save ::
    "(persistent_state \<Rightarrow> nat) \<Rightarrow> faults \<Rightarrow> state_file option \<Rightarrow> persistent_state \<Rightarrow>
     go_error option \<times> state_file option" where
  "store_save json_size fs file s =
     (case first_fault fs save_calls of
        Some e \<Rightarrow> (Some e, file)
      | None \<Rightarrow> (sync_state_directory fs, Some \<lparr>sf_size = json_size s, sf_documents = [Inr s]\<rparr>))"

section \<open>What the store promises\<close>

text \<open>
  The contract the manager relies on: a save that succeeds is what the next load reads; a save
  that fails leaves the old contents or, at worst, the new ones; loading changes nothing.
\<close>

locale state_store =
  fixes load :: "'f \<Rightarrow> 's option"
    and save :: "'f \<Rightarrow> 's \<Rightarrow> 'e option \<times> 'f"
    and fits :: "'s \<Rightarrow> bool"
  assumes load_saved: "save f s = (None, g) \<Longrightarrow> fits s \<Longrightarrow> load g = Some s"
    and save_atomic: "save f s = (r, g) \<Longrightarrow> fits s \<Longrightarrow> g = f \<or> load g = Some s"
begin

fun saves :: "'f \<Rightarrow> 's list \<Rightarrow> 'f" where
  "saves f [] = f"
| "saves f (s # ss) = saves (snd (save f s)) ss"

lemma saves_reads:
  "\<forall>s\<in>set ss. fits s \<Longrightarrow> load (saves f ss) = load f \<or> (\<exists>s\<in>set ss. load (saves f ss) = Some s)"
proof (induction ss arbitrary: f)
  case (Cons s ss)
  obtain r g where g: "save f s = (r, g)" by fastforce
  with save_atomic [OF g] Cons.IH [of g] Cons.prems show ?case by auto
qed simp

lemma save_either:
  assumes "save f t = (r, g)" and "fits t"
  shows "load g = load f \<or> load g = Some t"
  using save_atomic [OF assms] by auto

end

text \<open>The file system of an undisturbed load, as the recovery after a restart finds it.\<close>

definition no_faults :: faults where
  "no_faults = (\<lambda>call. None)"

definition read_state :: "state_file option \<Rightarrow> persistent_state option" where
  "read_state file = (case store_load no_faults file of Inl e \<Rightarrow> None | Inr s \<Rightarrow> Some s)"

lemma read_saved:
  "json_size s \<le> max_state_bytes \<Longrightarrow>
   read_state (Some \<lparr>sf_size = json_size s, sf_documents = [Inr s]\<rparr>) = Some s"
  by (simp add: read_state_def store_load_def no_faults_def)

lemma store_save_file:
  "store_save json_size fs file s = (r, g) \<Longrightarrow>
   g = file \<or> g = Some \<lparr>sf_size = json_size s, sf_documents = [Inr s]\<rparr>"
  by (auto simp: store_save_def split: option.splits)

lemma store_save_ok:
  "store_save json_size fs file s = (None, g) \<Longrightarrow> g = Some \<lparr>sf_size = json_size s, sf_documents = [Inr s]\<rparr>"
  by (auto simp: store_save_def split: option.splits)

text \<open>The file store keeps that contract under every behaviour of the file system, for states
  whose encoding stays below the limit that loading enforces.\<close>

interpretation file_store: state_store read_state "store_save json_size fs" "\<lambda>s. json_size s \<le> max_state_bytes"
  for json_size fs
proof unfold_locales
  fix f s g assume "store_save json_size fs f s = (None, g)" and size: "json_size s \<le> max_state_bytes"
  then show "read_state g = Some s" using store_save_ok [of json_size fs f s g] read_saved [of json_size s] by simp
next
  fix f s r g assume "store_save json_size fs f s = (r, g)" and size: "json_size s \<le> max_state_bytes"
  then show "g = f \<or> read_state g = Some s"
    using store_save_file [of json_size fs f s r g] read_saved [of json_size s] by auto
qed

end
