(* ===== verification/SuManager.thy ===== *)
theory SuManager
  imports SuStore
begin

text \<open>
  \<^verbatim>\<open>internal/systemupdate/manager.go\<close>: the state machine of a managed upgrade.  A task runs through
  its stages, each of them saved before and after the platform call it stands for; a failure
  after the first switch rolls both services back; a restart of the updater resumes from the
  saved stage.

  The world is the state file and the log of what happened so far, latest first.  Everything the
  manager does not control is the parameter \<open>env\<close>, and each of its answers may depend on the
  whole log: the platform, the file system, the clock, the cancellation of the context, and the
  update checks that other goroutines run between two critical sections.
\<close>

section \<open>The world of the manager\<close>

datatype platform_call =
    InspectService service
  | InspectRollbackService service image string
  | CreateRollbackAlias service image string
  | BackupDatabase string
  | PullTarget service image
  | DeployTarget service image_pair string
  | DeployRollback service image_pair string
  | WaitHealthy service
  | WaitRollbackHealthy service image string
  | RemoveOldImage service image

datatype event = Called platform_call bool | Stored update_task bool | Slept duration bool

record world =
  wd_file :: "state_file option"
  wd_log :: "event list"

record env =
  en_inspect :: "event list \<Rightarrow> service \<Rightarrow> image res"
  en_inspect_rollback :: "event list \<Rightarrow> service \<Rightarrow> image \<Rightarrow> string \<Rightarrow> image res"
  en_alias :: "event list \<Rightarrow> service \<Rightarrow> image \<Rightarrow> string \<Rightarrow> image \<times> go_error option"
  en_backup :: "event list \<Rightarrow> string \<Rightarrow> string \<times> go_error option"
  en_call :: "event list \<Rightarrow> platform_call \<Rightarrow> go_error option"
  en_fs :: "event list \<Rightarrow> faults"
  en_size :: "persistent_state \<Rightarrow> nat"
  en_now :: "event list \<Rightarrow> time"
  en_clock :: "event list \<Rightarrow> time"
  en_sleep :: "event list \<Rightarrow> go_error option"
  en_cancelled :: "event list \<Rightarrow> go_error option"
  en_other :: "event list \<Rightarrow> check_result option"
  en_semver :: semver

definition log_event :: "event \<Rightarrow> world \<Rightarrow> world" where
  "log_event e w = w\<lparr>wd_log := e # wd_log w\<rparr>"

section \<open>The state file under the lock\<close>

definition load_state :: "env \<Rightarrow> world \<Rightarrow> persistent_state res" where
  "load_state env w = store_load (en_fs env (wd_log w)) (wd_file w)"

definition save_state :: "env \<Rightarrow> persistent_state \<Rightarrow> world \<Rightarrow> go_error option \<times> world" where
  "save_state env s w =
     (let (r, file) = store_save (en_size env) (en_fs env (wd_log w)) (wd_file w) s
      in (r, w\<lparr>wd_file := file\<rparr>))"

text \<open>What a concurrent \<open>Check\<close> did since the lock was last held: it replaces the last check.\<close>

definition acquire :: "env \<Rightarrow> world \<Rightarrow> world" where
  "acquire env w =
     (case en_other env (wd_log w) of
        None \<Rightarrow> w
      | Some c \<Rightarrow>
        (case load_state env w of
           Inl e \<Rightarrow> w
         | Inr s \<Rightarrow> snd (save_state env (s\<lparr>ps_last_check := Some c\<rparr>) w)))"

definition state_invalid_error :: go_error where
  "state_invalid_error = Message ''system update task state is invalid''"

definition save_task :: "env \<Rightarrow> update_task \<Rightarrow> world \<Rightarrow> go_error option \<times> world" where
  "save_task env t w0 =
     (let w = acquire env w0;
          (r, w1) = (case load_state env w of
              Inl e \<Rightarrow> (Some e, w)
            | Inr s \<Rightarrow>
              (case ps_task s of
                 None \<Rightarrow> (Some state_invalid_error, w)
               | Some old \<Rightarrow>
                 if ut_id old \<noteq> ut_id t then (Some state_invalid_error, w)
                 else save_state env (s\<lparr>ps_task := Some t\<rparr>) w))
      in (r, log_event (Stored t (r = None)) w1))"

definition finish_task :: "env \<Rightarrow> update_task \<Rightarrow> world \<Rightarrow> go_error option \<times> world" where
  "finish_task env t w0 =
     (let w = acquire env w0;
          (r, w1) = (case load_state env w of
              Inl e \<Rightarrow> (Some e, w)
            | Inr s \<Rightarrow>
              (case (ps_task s, ps_last_check s) of
                 (Some old, Some c) \<Rightarrow>
                   if ut_id old \<noteq> ut_id t then (Some state_invalid_error, w)
                   else let c1 = c\<lparr>ck_current := ut_target t\<rparr>;
                            c2 = c1\<lparr>ck_available := 0 < sem_compare (en_semver env)
                                   (im_version (ip_backend (ck_target c1)))
                                   (im_version (ip_backend (ck_current c1)))\<rparr>
                        in save_state env (s\<lparr>ps_task := Some t, ps_last_check := Some c2\<rparr>) w
               | _ \<Rightarrow> (Some state_invalid_error, w)))
      in (r, log_event (Stored t (r = None)) w1))"

section \<open>Platform calls\<close>

datatype action = ActInspect service | ActAlias service | ActBackup | ActPull service
  | ActDeploy service | ActHealthy service

definition called :: "platform_call \<Rightarrow> go_error option \<Rightarrow> world \<Rightarrow> world" where
  "called c r w = log_event (Called c (r = None)) w"

definition call :: "env \<Rightarrow> platform_call \<Rightarrow> world \<Rightarrow> go_error option \<times> world" where
  "call env c w = (let r = en_call env (wd_log w) c in (r, called c r w))"

definition error_of :: "'a res \<Rightarrow> go_error option" where
  "error_of r = (case r of Inl e \<Rightarrow> Some e | Inr _ \<Rightarrow> None)"

fun act :: "env \<Rightarrow> action \<Rightarrow> update_task \<Rightarrow> world \<Rightarrow> go_error option \<times> update_task \<times> world" where
  "act env (ActInspect s) t w =
     (let r = en_inspect env (wd_log w) s; w1 = called (InspectService s) (error_of r) w
      in case r of
           Inl e \<Rightarrow> (Some e, t, w1)
         | Inr i \<Rightarrow> (None, t\<lparr>ut_original := set_pair_image s i (ut_original t)\<rparr>, w1))"
| "act env (ActAlias s) t w =
     (let (i, r) = en_alias env (wd_log w) s (pair_image s (ut_original t)) (ut_id t)
      in (r, t\<lparr>ut_original := set_pair_image s i (ut_original t)\<rparr>,
          called (CreateRollbackAlias s (pair_image s (ut_original t)) (ut_id t)) r w))"
| "act env ActBackup t w =
     (let (path, r) = en_backup env (wd_log w) (ut_id t)
      in (r, t\<lparr>ut_backup_path := path\<rparr>, called (BackupDatabase (ut_id t)) r w))"
| "act env (ActPull s) t w =
     (let (r, w1) = call env (PullTarget s (pair_image s (ut_target t))) w in (r, t, w1))"
| "act env (ActDeploy s) t w =
     (let (r, w1) = call env (DeployTarget s (ut_target t) (ut_id t)) w in (r, t, w1))"
| "act env (ActHealthy s) t w = (let (r, w1) = call env (WaitHealthy s) w in (r, t, w1))"

definition perform ::
    "env \<Rightarrow> stage \<Rightarrow> action \<Rightarrow> update_task \<Rightarrow> world \<Rightarrow> go_error option \<times> update_task \<times> world" where
  "perform env st a t0 w0 =
     (let t1 = t0\<lparr>ut_stage := st\<rparr>
      in case save_task env t1 w0 of
           (Some e, w1) \<Rightarrow> (Some e, t1, w1)
         | (None, w1) \<Rightarrow>
           (case act env a t1 w1 of
              (Some e, t2, w2) \<Rightarrow> (Some e, t2, w2)
            | (None, t2, w2) \<Rightarrow> (let (r, w3) = save_task env t2 w2 in (r, t2, w3))))"

section \<open>Ending a task\<close>

definition mark_failed :: "env \<Rightarrow> update_task \<Rightarrow> string \<Rightarrow> bool \<Rightarrow> world \<Rightarrow> go_error option \<times> world" where
  "mark_failed env t code rolled_back w =
     save_task env (t\<lparr>ut_stage := StageFailed, ut_rolled_back := rolled_back, ut_error_code := code,
       ut_error_message := [], ut_finished_at := Some (en_now env (wd_log w))\<rparr>) w"

definition mark_manual_intervention :: "env \<Rightarrow> update_task \<Rightarrow> string \<Rightarrow> world \<Rightarrow> go_error option \<times> world" where
  "mark_manual_intervention env t code w =
     save_task env (t\<lparr>ut_stage := ManualIntervention, ut_rolled_back := False, ut_error_code := code,
       ut_error_message := [], ut_finished_at := Some (en_now env (wd_log w))\<rparr>) w"

definition has_rollback_images :: "image_pair \<Rightarrow> bool" where
  "has_rollback_images p \<longleftrightarrow> im_digest (ip_backend p) \<noteq> [] \<and> im_digest (ip_web p) \<noteq> [] \<and>
     im_alias (ip_backend p) \<noteq> [] \<and> im_alias (ip_web p) \<noteq> []"

definition first_error :: "go_error option \<Rightarrow> go_error option \<Rightarrow> go_error option" where
  "first_error a b = (case a of None \<Rightarrow> b | Some e \<Rightarrow> Some e)"

fun rollback_services ::
    "env \<Rightarrow> update_task \<Rightarrow> service list \<Rightarrow> go_error option \<Rightarrow> world \<Rightarrow> go_error option \<times> world" where
  "rollback_services env t [] r w = (r, w)"
| "rollback_services env t (s # ss) r w =
     (let (d, w1) = call env (DeployRollback s (ut_original t) (ut_id t)) w;
          (h, w2) = call env (WaitRollbackHealthy s (pair_image s (ut_original t)) (ut_id t)) w1
      in rollback_services env t ss (first_error (first_error r d) h) w2)"

definition rollback :: "env \<Rightarrow> update_task \<Rightarrow> string \<Rightarrow> world \<Rightarrow> go_error option \<times> world" where
  "rollback env t0 code w0 =
     (if \<not> has_rollback_images (ut_original t0) then mark_manual_intervention env t0 ''state_invalid'' w0
      else let t = t0\<lparr>ut_stage := RollingBack, ut_error_code := code, ut_error_message := []\<rparr>
        in case save_task env t w0 of
             (Some e, w1) \<Rightarrow> (Some e, w1)
           | (None, w1) \<Rightarrow>
             (case rollback_services env t [Backend, Web] None w1 of
                (Some e, w2) \<Rightarrow>
                  (case en_cancelled env (wd_log w2) of
                     Some c \<Rightarrow> (Some c, w2)
                   | None \<Rightarrow> mark_manual_intervention env t ''rollback_failed'' w2)
              | (None, w2) \<Rightarrow> mark_failed env t code True w2))"

definition handle_failure :: "env \<Rightarrow> update_task \<Rightarrow> string \<Rightarrow> bool \<Rightarrow> world \<Rightarrow> world" where
  "handle_failure env t code should_rollback w =
     (if en_cancelled env (wd_log w) \<noteq> None then w
      else if should_rollback then snd (rollback env t code w)
      else snd (mark_failed env t code False w))"

section \<open>The upgrade\<close>

text \<open>The blocks of \<open>run\<close> that have the same shape, as a table: stage, call, error code, and whether
  a failure rolls back.\<close>

record upgrade_step =
  us_stage :: stage
  us_action :: action
  us_code :: string
  us_rollback :: bool

definition upgrade_steps :: "upgrade_step list" where
  "upgrade_steps =
     [\<lparr>us_stage = Checking, us_action = ActInspect Backend, us_code = ''state_invalid'', us_rollback = False\<rparr>,
      \<lparr>us_stage = Checking, us_action = ActInspect Web, us_code = ''state_invalid'', us_rollback = False\<rparr>,
      \<lparr>us_stage = BackingUp, us_action = ActAlias Backend, us_code = ''backup_failed'', us_rollback = False\<rparr>,
      \<lparr>us_stage = BackingUp, us_action = ActAlias Web, us_code = ''backup_failed'', us_rollback = False\<rparr>,
      \<lparr>us_stage = BackingUp, us_action = ActBackup, us_code = ''backup_failed'', us_rollback = False\<rparr>,
      \<lparr>us_stage = Pulling, us_action = ActPull Backend, us_code = ''pull_failed'', us_rollback = False\<rparr>,
      \<lparr>us_stage = Pulling, us_action = ActPull Web, us_code = ''pull_failed'', us_rollback = False\<rparr>,
      \<lparr>us_stage = SwitchingBackend, us_action = ActDeploy Backend, us_code = ''backend_switch_failed'', us_rollback = True\<rparr>,
      \<lparr>us_stage = CheckingBackend, us_action = ActHealthy Backend, us_code = ''backend_unhealthy'', us_rollback = True\<rparr>,
      \<lparr>us_stage = SwitchingWeb, us_action = ActDeploy Web, us_code = ''web_switch_failed'', us_rollback = True\<rparr>,
      \<lparr>us_stage = CheckingWeb, us_action = ActHealthy Web, us_code = ''web_unhealthy'', us_rollback = True\<rparr>]"

fun run_steps :: "env \<Rightarrow> upgrade_step list \<Rightarrow> update_task \<Rightarrow> world \<Rightarrow> update_task option \<times> world" where
  "run_steps env [] t w = (Some t, w)"
| "run_steps env (s # ss) t w =
     (case perform env (us_stage s) (us_action s) t w of
        (Some e, t1, w1) \<Rightarrow> (None, handle_failure env t1 (us_code s) (us_rollback s) w1)
      | (None, t1, w1) \<Rightarrow> run_steps env ss t1 w1)"

text \<open>\<open>sleepContext\<close>, which the loop calls only for a positive duration.\<close>

definition pause :: "env \<Rightarrow> duration \<Rightarrow> world \<Rightarrow> go_error option \<times> world" where
  "pause env d w =
     (if 0 < d then (let r = en_sleep env (wd_log w) in (r, log_event (Slept d (r = None)) w)) else (None, w))"

definition stable_wait :: "env \<Rightarrow> duration \<Rightarrow> time \<Rightarrow> world \<Rightarrow> duration" where
  "stable_wait env interval deadline w =
     (let remaining = deadline - en_clock env (wd_log w)
      in if remaining < interval then remaining else interval)"

text \<open>The stability loop; \<open>None\<close> when the fuel runs out.\<close>

fun stabilize_from ::
    "nat \<Rightarrow> env \<Rightarrow> duration \<Rightarrow> time \<Rightarrow> update_task \<Rightarrow> world \<Rightarrow> (go_error option \<times> update_task \<times> world) option" where
  "stabilize_from 0 env interval deadline t w = None"
| "stabilize_from (Suc n) env interval deadline t w =
     (case pause env (stable_wait env interval deadline w) w of
        (Some e, w1) \<Rightarrow> Some (Some e, t, w1)
      | (None, w1) \<Rightarrow>
           (case perform env Stabilizing (ActHealthy Backend) t w1 of
              (Some e, t2, w2) \<Rightarrow> Some (Some e, t2, w2)
            | (None, t2, w2) \<Rightarrow>
              (case perform env Stabilizing (ActHealthy Web) t2 w2 of
                 (Some e, t3, w3) \<Rightarrow> Some (Some e, t3, w3)
               | (None, t3, w3) \<Rightarrow>
                 if deadline \<le> en_clock env (wd_log w3) then Some (None, t3, w3)
                 else stabilize_from n env interval deadline t3 w3)))"

definition stabilize ::
    "nat \<Rightarrow> env \<Rightarrow> duration \<Rightarrow> duration \<Rightarrow> update_task \<Rightarrow> world \<Rightarrow>
     (go_error option \<times> update_task \<times> world) option" where
  "stabilize fuel env window interval t w =
     stabilize_from fuel env interval (en_clock env (wd_log w) + window) t w"

fun clean_services ::
    "env \<Rightarrow> service list \<Rightarrow> update_task \<Rightarrow> bool \<Rightarrow> world \<Rightarrow> (go_error + bool) \<times> update_task \<times> world" where
  "clean_services env [] t pending w = (Inr pending, t, w)"
| "clean_services env (s # ss) t0 pending w =
     (let old = pair_image s (ut_original t0); t = t0\<lparr>ut_stage := Cleaning\<rparr>
      in case save_task env t w of
           (Some e, w1) \<Rightarrow> (Inl e, t, w1)
         | (None, w1) \<Rightarrow>
           (let (r, w2) = call env (RemoveOldImage s old) w1
            in case save_task env t w2 of
                 (Some e, w3) \<Rightarrow> (Inl e, t, w3)
               | (None, w3) \<Rightarrow> clean_services env ss t (pending \<or> r \<noteq> None) w3))"

definition finished_task :: "update_task \<Rightarrow> bool \<Rightarrow> time \<Rightarrow> update_task" where
  "finished_task t pending now =
     t\<lparr>ut_stage := StageSucceeded, ut_finished_at := Some now,
       ut_cleanup := (if pending then CleanupPending else CleanupComplete),
       ut_error_code := (if pending then ''cleanup_pending'' else []), ut_error_message := []\<rparr>"

definition resume_cleanup :: "env \<Rightarrow> update_task \<Rightarrow> world \<Rightarrow> go_error option \<times> world" where
  "resume_cleanup env t w =
     (case clean_services env [Backend, Web] t False w of
        (Inl e, t1, w1) \<Rightarrow> (Some e, w1)
      | (Inr pending, t1, w1) \<Rightarrow>
        finish_task env (finished_task t1 pending (en_now env (wd_log w1))) w1)"

definition run :: "nat \<Rightarrow> env \<Rightarrow> duration \<Rightarrow> duration \<Rightarrow> update_task \<Rightarrow> world \<Rightarrow> world option" where
  "run fuel env window interval t w =
     (case run_steps env upgrade_steps t w of
        (None, w1) \<Rightarrow> Some w1
      | (Some t1, w1) \<Rightarrow>
        (case stabilize fuel env window interval t1 w1 of
           None \<Rightarrow> None
         | Some (Some e, t2, w2) \<Rightarrow> Some (handle_failure env t2 ''stability_failed'' True w2)
         | Some (None, t2, w2) \<Rightarrow> Some (snd (resume_cleanup env t2 w2))))"

section \<open>Starting, checking and reporting\<close>

text \<open>The part of \<open>Start\<close> before the job is launched: validate the last check, save the task.\<close>

definition new_task :: "string \<Rightarrow> check_result \<Rightarrow> time \<Rightarrow> update_task" where
  "new_task i c now =
     \<lparr>ut_id = i, ut_original = ck_current c, ut_target = ck_target c, ut_stage = Checking,
      ut_backup_path = [], ut_created_at = now, ut_started_at = Some now, ut_finished_at = None,
      ut_rolled_back = False, ut_cleanup = CleanupNotRun, ut_error_code = [], ut_error_message = []\<rparr>"

definition start_task ::
    "env \<Rightarrow> duration \<Rightarrow> string \<Rightarrow> string \<Rightarrow> world \<Rightarrow> update_task res \<times> world" where
  "start_task env ttl new_id target w0 =
     (case validate_version (en_semver env) target of
        Some e \<Rightarrow> (Inl e, w0)
      | None \<Rightarrow>
        let w = acquire env w0
        in case load_state env w of
          Inl e \<Rightarrow> (Inl e, w)
        | Inr s \<Rightarrow>
          if (case ps_task s of None \<Rightarrow> False | Some t \<Rightarrow> blocking t)
          then (Inl (Sentinel ErrUpdateTaskActive), w)
          else let now = en_now env (wd_log w)
            in case ps_last_check s of
                 None \<Rightarrow> (Inl (Sentinel ErrUpdateCheckExpired), w)
               | Some c \<Rightarrow>
                 if now < ck_checked_at c \<or> ttl \<le> now - ck_checked_at c
                 then (Inl (Sentinel ErrUpdateCheckExpired), w)
                 else if \<not> ck_available c then (Inl (Sentinel ErrUpdateUnavailable), w)
                 else if im_version (ip_backend (ck_target c)) \<noteq> target \<or>
                         im_version (ip_web (ck_target c)) \<noteq> target
                 then (Inl (Sentinel ErrUpdateTargetMismatch), w)
                 else let t = new_task new_id c now
                   in case save_state env (s\<lparr>ps_task := Some t\<rparr>) w of
                        (Some e, w1) \<Rightarrow> (Inl e, log_event (Stored t False) w1)
                      | (None, w1) \<Rightarrow> (Inr t, log_event (Stored t True) w1))"

text \<open>The whole of \<open>Start\<close>: \<open>launch\<close> is what the launched job has done when the state is read back.\<close>

definition start ::
    "env \<Rightarrow> duration \<Rightarrow> string \<Rightarrow> (update_task \<Rightarrow> world \<Rightarrow> world) \<Rightarrow> string \<Rightarrow> world \<Rightarrow> task_view res \<times> world" where
  "start env ttl new_id launch target w0 =
     (case start_task env ttl new_id target w0 of
        (Inl e, w1) \<Rightarrow> (Inl e, w1)
      | (Inr t, w1) \<Rightarrow>
        let w2 = acquire env (launch t w1)
        in case load_state env w2 of
             Inl e \<Rightarrow> (Inl e, w2)
           | Inr s \<Rightarrow>
             (case ps_task s of
                None \<Rightarrow> (Inl state_invalid_error, w2)
              | Some u \<Rightarrow> if ut_id u \<noteq> ut_id t then (Inl state_invalid_error, w2)
                          else (Inr (public_task_view u), w2)))"

definition status :: "env \<Rightarrow> world \<Rightarrow> status_view" where
  "status env w =
     (case load_state env w of Inl e \<Rightarrow> status_of empty_state | Inr s \<Rightarrow> status_of s)"

text \<open>Inspecting a service that may run a rollback image (\<open>taskAwareRuntime\<close>).\<close>

definition task_aware ::
    "(service \<Rightarrow> image res) \<Rightarrow> (service \<Rightarrow> image \<Rightarrow> string \<Rightarrow> image res) \<Rightarrow> update_task \<Rightarrow> service \<Rightarrow> image res" where
  "task_aware inspect inspect_rollback t s =
     (case inspect s of
        Inr i \<Rightarrow> Inr i
      | Inl e \<Rightarrow>
        (let expected = pair_image s (ut_original t)
         in if im_alias expected = [] then Inl e else inspect_rollback s expected (ut_id t)))"

definition manager_check :: "env \<Rightarrow> checker \<Rightarrow> world \<Rightarrow> status_view res \<times> world" where
  "manager_check env k w =
     (case load_state env w of
        Inl e \<Rightarrow> (Inl e, w)
      | Inr s \<Rightarrow>
        let k1 = (case ps_task s of
                    Some t \<Rightarrow> if has_rollback_images (ut_original t)
                              then k\<lparr>kr_inspect := task_aware (kr_inspect k)
                                      (en_inspect_rollback env (wd_log w)) t\<rparr> else k
                  | None \<Rightarrow> k)
        in case SuTypes.check (en_semver env) k1 of
             Inl e \<Rightarrow> (Inl e, w)
           | Inr c \<Rightarrow>
             let s1 = s\<lparr>ps_last_check := Some c\<rparr>
             in case save_state env s1 w of
                  (Some e, w1) \<Rightarrow> (Inl e, w1)
                | (None, w1) \<Rightarrow> (Inr (status_of s1), w1))"

section \<open>Recovery after a restart\<close>

definition inspect_recovery :: "env \<Rightarrow> service \<Rightarrow> update_task \<Rightarrow> world \<Rightarrow> image res \<times> world" where
  "inspect_recovery env s t w =
     (let r = en_inspect env (wd_log w) s; w1 = called (InspectService s) (error_of r) w
      in case r of
           Inr i \<Rightarrow> (Inr i, w1)
         | Inl e \<Rightarrow>
           (let expected = pair_image s (ut_original t)
            in if im_alias expected = [] then (Inl e, w1)
               else let r2 = en_inspect_rollback env (wd_log w1) s expected (ut_id t)
                    in (r2, called (InspectRollbackService s expected (ut_id t)) (error_of r2) w1)))"

definition image_pair_matches :: "image \<Rightarrow> image \<Rightarrow> image_pair \<Rightarrow> bool" where
  "image_pair_matches b v expected \<longleftrightarrow>
     im_digest b = im_digest (ip_backend expected) \<and> im_digest v = im_digest (ip_web expected)"

fun wait_services :: "env \<Rightarrow> service list \<Rightarrow> world \<Rightarrow> go_error option \<times> world" where
  "wait_services env [] w = (None, w)"
| "wait_services env (s # ss) w =
     (case call env (WaitHealthy s) w of
        (Some e, w1) \<Rightarrow> (Some e, w1)
      | (None, w1) \<Rightarrow> wait_services env ss w1)"

definition recovery_failed :: "env \<Rightarrow> update_task \<Rightarrow> world \<Rightarrow> go_error option \<times> world" where
  "recovery_failed env t w =
     (case en_cancelled env (wd_log w) of
        Some c \<Rightarrow> (Some c, w)
      | None \<Rightarrow> mark_manual_intervention env t ''state_invalid'' w)"

definition recover_stage :: "env \<Rightarrow> update_task \<Rightarrow> image \<Rightarrow> image \<Rightarrow> world \<Rightarrow> go_error option \<times> world" where
  "recover_stage env t b v w =
     (case ut_stage t of
        Checking \<Rightarrow> if image_pair_matches b v (ut_original t) then mark_failed env t ''updater_restarted'' False w
                    else mark_manual_intervention env t ''state_invalid'' w
      | BackingUp \<Rightarrow> if image_pair_matches b v (ut_original t) then mark_failed env t ''updater_restarted'' False w
                    else mark_manual_intervention env t ''state_invalid'' w
      | Pulling \<Rightarrow> if image_pair_matches b v (ut_original t) then mark_failed env t ''updater_restarted'' False w
                    else mark_manual_intervention env t ''state_invalid'' w
      | SwitchingBackend \<Rightarrow> rollback env t ''updater_restarted'' w
      | CheckingBackend \<Rightarrow> rollback env t ''updater_restarted'' w
      | SwitchingWeb \<Rightarrow> rollback env t ''updater_restarted'' w
      | CheckingWeb \<Rightarrow> rollback env t ''updater_restarted'' w
      | Stabilizing \<Rightarrow> rollback env t ''updater_restarted'' w
      | RollingBack \<Rightarrow> rollback env t ''updater_restarted'' w
      | Cleaning \<Rightarrow>
          if \<not> has_rollback_images (ut_original t) then mark_manual_intervention env t ''state_invalid'' w
          else if \<not> image_pair_matches b v (ut_target t) then rollback env t ''updater_restarted'' w
          else (case wait_services env [Backend, Web] w of
              (Some e, w1) \<Rightarrow> rollback env t ''updater_restarted'' w1
            | (None, w1) \<Rightarrow> resume_cleanup env t w1)
      | _ \<Rightarrow> mark_manual_intervention env t ''state_invalid'' w)"

definition recover :: "env \<Rightarrow> world \<Rightarrow> go_error option \<times> world" where
  "recover env w0 =
     (let w = acquire env w0
      in case load_state env w of
        Inl e \<Rightarrow> (Some e, w)
      | Inr s \<Rightarrow>
        (case ps_task s of
           None \<Rightarrow> (None, w)
         | Some t \<Rightarrow>
           if stage_terminal (ut_stage t) then (None, w)
           else (case inspect_recovery env Backend t w of
               (Inl e, w1) \<Rightarrow> recovery_failed env t w1
             | (Inr b, w1) \<Rightarrow>
               (case inspect_recovery env Web t w1 of
                  (Inl e, w2) \<Rightarrow> recovery_failed env t w2
                | (Inr v, w2) \<Rightarrow> recover_stage env t b v w2))))"

end
