(* ===== verification/SuHttp.thy ===== *)
theory SuHttp
  imports SuManager Json
begin

text \<open>
  \<^verbatim>\<open>internal/systemupdate/http.go\<close> and \<^verbatim>\<open>internal/updaterclient\<close>: the manager behind its internal HTTP
  interface, and the client the backend talks to it with.  The manager is the source's interface
  \<^verbatim>\<open>UpdateManager\<close>, three operations on a state of any type; SHA-256, the length of an encoding (with
  its failure) and the transport of the client are parameters.  Views travel as JSON values.
\<close>

section \<open>Views as JSON\<close>

fun stage_text :: "stage \<Rightarrow> string" where
  "stage_text Checking = ''checking''"
| "stage_text BackingUp = ''backing_up''"
| "stage_text Pulling = ''pulling''"
| "stage_text SwitchingBackend = ''switching_backend''"
| "stage_text CheckingBackend = ''checking_backend''"
| "stage_text SwitchingWeb = ''switching_web''"
| "stage_text CheckingWeb = ''checking_web''"
| "stage_text Stabilizing = ''stabilizing''"
| "stage_text Cleaning = ''cleaning''"
| "stage_text RollingBack = ''rolling_back''"
| "stage_text StageSucceeded = ''succeeded''"
| "stage_text StageFailed = ''failed''"
| "stage_text ManualIntervention = ''manual_intervention''"
| "stage_text (OtherStage s) = s"

definition known_stages :: "stage list" where
  "known_stages = [Checking, BackingUp, Pulling, SwitchingBackend, CheckingBackend, SwitchingWeb, CheckingWeb,
     Stabilizing, Cleaning, RollingBack, StageSucceeded, StageFailed, ManualIntervention]"

definition stage_of_text :: "string \<Rightarrow> stage" where
  "stage_of_text s = (case find (\<lambda>st. stage_text st = s) known_stages of Some st \<Rightarrow> st | None \<Rightarrow> OtherStage s)"

fun cleanup_text :: "cleanup \<Rightarrow> string" where
  "cleanup_text CleanupNotRun = ''not_run''"
| "cleanup_text CleanupComplete = ''complete''"
| "cleanup_text CleanupPending = ''pending''"
| "cleanup_text (OtherCleanup s) = s"

definition cleanup_of_text :: "string \<Rightarrow> cleanup" where
  "cleanup_of_text s = (case find (\<lambda>c. cleanup_text c = s) [CleanupNotRun, CleanupComplete, CleanupPending] of
     Some c \<Rightarrow> c | None \<Rightarrow> OtherCleanup s)"

text \<open>Strings with names of their own, read through the text.\<close>

definition read_stage :: "json \<Rightarrow> stage \<Rightarrow> stage option" where
  "read_stage j old = map_option stage_of_text (read_string j (stage_text old))"

definition read_cleanup :: "json \<Rightarrow> cleanup \<Rightarrow> cleanup option" where
  "read_cleanup j old = map_option cleanup_of_text (read_string j (cleanup_text old))"

definition read_time_pointer :: "json \<Rightarrow> time option \<Rightarrow> time option option" where
  "read_time_pointer = read_pointer read_time 0"

definition write_versions :: "version_pair_view \<Rightarrow> (string \<times> json) list" where
  "write_versions v = [(''backend'', JStr (vp_backend v)), (''web'', JStr (vp_web v))]"

definition write_task :: "task_view \<Rightarrow> json" where
  "write_task t = JObj (
     [(''id'', JStr (tv_id t)), (''from'', JObj (write_versions (tv_from t))), (''to'', JObj (write_versions (tv_to t))),
      (''stage'', JStr (stage_text (tv_stage t))), (''created_at'', JTime (tv_created_at t))] @
     omit_none ''started_at'' JTime (tv_started_at t) @ omit_none ''finished_at'' JTime (tv_finished_at t) @
     [(''rolled_back'', JBool (tv_rolled_back t)), (''cleanup'', JStr (cleanup_text (tv_cleanup t)))] @
     omit_empty ''error_code'' (tv_error_code t) @ omit_empty ''error_message'' (tv_error_message t))"

definition write_release :: "release_view \<Rightarrow> json" where
  "write_release r = JObj (write_versions (rv_versions r) @ omit_none ''published_at'' JTime (rv_published r))"

definition write_status :: "status_view \<Rightarrow> json" where
  "write_status v = JObj (
     [(''current'', JObj (write_versions (sw_current v)))] @ omit_none ''latest'' write_release (sw_latest v) @
     [(''update_available'', JBool (sw_available v))] @ omit_none ''checked_at'' JTime (sw_checked_at v) @
     omit_none ''task'' write_task (sw_task v))"

definition zero_versions :: version_pair_view where
  "zero_versions = \<lparr>vp_backend = [], vp_web = []\<rparr>"

definition zero_task :: task_view where
  "zero_task = \<lparr>tv_id = [], tv_from = zero_versions, tv_to = zero_versions, tv_stage = OtherStage [], tv_created_at = 0,
     tv_started_at = None, tv_finished_at = None, tv_rolled_back = False, tv_cleanup = OtherCleanup [],
     tv_error_code = [], tv_error_message = []\<rparr>"

definition zero_release :: release_view where
  "zero_release = \<lparr>rv_versions = zero_versions, rv_published = None\<rparr>"

definition zero_status :: status_view where
  "zero_status = \<lparr>sw_current = zero_versions, sw_latest = None, sw_available = False, sw_checked_at = None, sw_task = None\<rparr>"

definition versions_fields :: "version_pair_view field list" where
  "versions_fields = [field_of ''backend'' read_string vp_backend vp_backend_update,
     field_of ''web'' read_string vp_web vp_web_update]"

definition task_fields :: "task_view field list" where
  "task_fields =
     [field_of ''id'' read_string tv_id tv_id_update,
      field_of ''from'' (read_struct True versions_fields) tv_from tv_from_update,
      field_of ''to'' (read_struct True versions_fields) tv_to tv_to_update,
      field_of ''stage'' read_stage tv_stage tv_stage_update,
      field_of ''created_at'' read_time tv_created_at tv_created_at_update,
      field_of ''started_at'' read_time_pointer tv_started_at tv_started_at_update,
      field_of ''finished_at'' read_time_pointer tv_finished_at tv_finished_at_update,
      field_of ''rolled_back'' read_bool tv_rolled_back tv_rolled_back_update,
      field_of ''cleanup'' read_cleanup tv_cleanup tv_cleanup_update,
      field_of ''error_code'' read_string tv_error_code tv_error_code_update,
      field_of ''error_message'' read_string tv_error_message tv_error_message_update]"

text \<open>The embedded \<^verbatim>\<open>VersionPairView\<close> of a release has its fields promoted.\<close>

definition release_fields :: "release_view field list" where
  "release_fields =
     [field_of ''backend'' read_string (\<lambda>r. vp_backend (rv_versions r)) (\<lambda>f r. r\<lparr>rv_versions := vp_backend_update f (rv_versions r)\<rparr>),
      field_of ''web'' read_string (\<lambda>r. vp_web (rv_versions r)) (\<lambda>f r. r\<lparr>rv_versions := vp_web_update f (rv_versions r)\<rparr>),
      field_of ''published_at'' read_time_pointer rv_published rv_published_update]"

definition status_fields :: "status_view field list" where
  "status_fields =
     [field_of ''current'' (read_struct True versions_fields) sw_current sw_current_update,
      field_of ''latest'' (read_pointer (read_struct True release_fields) zero_release) sw_latest sw_latest_update,
      field_of ''update_available'' read_bool sw_available sw_available_update,
      field_of ''checked_at'' read_time_pointer sw_checked_at sw_checked_at_update,
      field_of ''task'' (read_pointer (read_struct True task_fields) zero_task) sw_task sw_task_update]"

text \<open>A stage and a cleanup status by their own names: no second value has the same text.\<close>

definition named_task :: "task_view \<Rightarrow> bool" where
  "named_task t \<longleftrightarrow> stage_of_text (stage_text (tv_stage t)) = tv_stage t \<and>
     cleanup_of_text (cleanup_text (tv_cleanup t)) = tv_cleanup t"

definition named_status :: "status_view \<Rightarrow> bool" where
  "named_status v \<longleftrightarrow> (case sw_task v of None \<Rightarrow> True | Some t \<Rightarrow> named_task t)"

lemma read_time_pointer_some [simp]: "read_time_pointer (JTime t) old = Some (Some t)"
  by (simp add: read_time_pointer_def)

lemma read_versions: "read_struct True versions_fields (JObj (write_versions v)) old = Some v"
  by (simp add: versions_fields_def write_versions_def field_of_def set_member_def)

lemma read_task: "named_task t \<Longrightarrow> read_struct True task_fields (write_task t) zero_task = Some t"
  using read_versions
  by (cases "tv_started_at t"; cases "tv_finished_at t"; cases "tv_error_code t = []"; cases "tv_error_message t = []")
    (simp_all add: task_fields_def write_task_def field_of_def set_member_def omit_none_def omit_empty_def
      read_stage_def read_cleanup_def named_task_def zero_task_def)

lemma read_release: "read_struct True release_fields (write_release r) zero_release = Some r"
  by (cases "rv_published r")
    (simp_all add: release_fields_def write_release_def write_versions_def field_of_def set_member_def omit_none_def
      zero_release_def)

lemma write_not_null [simp]: "write_release r \<noteq> JNull" "write_task t \<noteq> JNull"
  by (simp_all add: write_release_def write_task_def)

lemma read_pointer_some: "j \<noteq> JNull \<Longrightarrow> read_pointer read zero j None = map_option Some (read j zero)"
  by (cases j) simp_all

lemma read_status: "named_status v \<Longrightarrow> read_struct True status_fields (write_status v) zero_status = Some v"
  using read_versions read_release read_task
  by (cases "sw_latest v"; cases "sw_checked_at v"; cases "sw_task v")
    (simp_all add: status_fields_def write_status_def field_of_def set_member_def omit_none_def read_pointer_some
      named_status_def zero_status_def)

section \<open>The server (http.go)\<close>

record 'm update_manager =
  um_status :: "'m \<Rightarrow> status_view"
  um_check :: "'m \<Rightarrow> status_view res \<times> 'm"
  um_start :: "'m \<Rightarrow> string \<Rightarrow> task_view res \<times> 'm"

record update_http =
  uh_token :: string
  uh_sha256 :: "string \<Rightarrow> string"
  uh_marshal :: "json \<Rightarrow> nat option"
  uh_semver :: semver

definition new_http_handler :: "update_http \<Rightarrow> update_http res" where
  "new_http_handler h = (if uh_token h = [] then Inl (Message ''updater token is required'') else Inr h)"

definition error_json :: "string \<Rightarrow> json" where
  "error_json text = JObj [(''error'', JStr text)]"

text \<open>The fixed bodies are literals of the source; their exact length is of no consequence.\<close>

definition fixed_response :: "nat \<Rightarrow> json \<Rightarrow> http_response" where
  "fixed_response code j = \<lparr>rs_status = code, rs_body = json_body 0 j, rs_cookie = None\<rparr>"

definition bare_response :: "nat \<Rightarrow> http_response" where
  "bare_response code = \<lparr>rs_status = code, rs_body = empty_body, rs_cookie = None\<rparr>"

definition service_unavailable :: http_response where
  "service_unavailable = fixed_response 503 (error_json ''update service unavailable'')"

definition write_json_value :: "update_http \<Rightarrow> nat \<Rightarrow> json \<Rightarrow> http_response" where
  "write_json_value h code j =
     (case uh_marshal h j of
        None \<Rightarrow> service_unavailable
      | Some n \<Rightarrow> \<lparr>rs_status = code, rs_body = json_body n j, rs_cookie = None\<rparr>)"

definition is_internal_update_route :: "string \<Rightarrow> string \<Rightarrow> bool" where
  "is_internal_update_route method path \<longleftrightarrow>
     method = ''GET'' \<and> path = ''/internal/v1/update'' \<or>
     method = ''POST'' \<and> (path = ''/internal/v1/update'' \<or> path = ''/internal/v1/update/check'')"

definition bearer :: string where "bearer = ''Bearer ''"

definition authorized :: "update_http \<Rightarrow> string \<Rightarrow> bool" where
  "authorized h authorization \<longleftrightarrow>
     has_prefix authorization bearer \<and>
     uh_sha256 h (uh_token h) = uh_sha256 h (trim_prefix authorization bearer)"

definition is_start_conflict :: "go_error \<Rightarrow> bool" where
  "is_start_conflict e \<longleftrightarrow> err_is ErrUpdateTaskActive e \<or> err_is ErrUpdateCheckExpired e \<or>
     err_is ErrUpdateUnavailable e \<or> err_is ErrUpdateTargetMismatch e"

abbreviation max_start_request_bytes :: nat where "max_start_request_bytes \<equiv> 1024"

definition start_request_fields :: "string field list" where
  "start_request_fields = [field_of ''target_version'' read_string (\<lambda>v. v) (\<lambda>f. f)]"

definition decode_start_request :: "body \<Rightarrow> string option" where
  "decode_start_request b =
     (case read_single max_start_request_bytes b of
        None \<Rightarrow> None | Some j \<Rightarrow> read_struct True start_request_fields j [])"

definition serve_check :: "update_http \<Rightarrow> 'm update_manager \<Rightarrow> 'm \<Rightarrow> http_response \<times> 'm" where
  "serve_check h um s =
     (case um_check um s of
        (Inl e, s1) \<Rightarrow> (service_unavailable, s1)
      | (Inr v, s1) \<Rightarrow> (write_json_value h 200 (write_status v), s1))"

definition serve_start :: "update_http \<Rightarrow> 'm update_manager \<Rightarrow> body \<Rightarrow> 'm \<Rightarrow> http_response \<times> 'm" where
  "serve_start h um b s =
     (case decode_start_request b of
        None \<Rightarrow> (fixed_response 400 (error_json ''invalid update request''), s)
      | Some target \<Rightarrow>
        if validate_version (uh_semver h) target \<noteq> None
        then (fixed_response 400 (error_json ''invalid update request''), s)
        else case um_start um s target of
            (Inl e, s1) \<Rightarrow>
              (if is_start_conflict e then fixed_response 409 (error_json ''update cannot be started'')
               else service_unavailable, s1)
          | (Inr t, s1) \<Rightarrow> (write_json_value h 202 (write_task t), s1))"

definition serve_http :: "update_http \<Rightarrow> 'm update_manager \<Rightarrow> http_request \<Rightarrow> 'm \<Rightarrow> http_response \<times> 'm" where
  "serve_http h um rq s =
     (if rq_path rq = ''/health''
      then (if rq_method rq \<noteq> ''GET'' then bare_response 405
            else fixed_response 200 (JObj [(''status'', JStr ''ok'')]), s)
      else if \<not> is_internal_update_route (rq_method rq) (rq_path rq) then (bare_response 404, s)
      else if \<not> authorized h (rq_authorization rq)
      then (fixed_response 401 (error_json ''unauthorized''), s)
      else if rq_method rq = ''GET'' then (write_json_value h 200 (write_status (um_status um s)), s)
      else if rq_path rq = ''/internal/v1/update/check'' then serve_check h um s
      else serve_start h um (rq_body rq) s)"

section \<open>The client (updaterclient)\<close>

datatype client_cause = ErrBadRequest | ErrUnauthorizedResponse | ErrConflictResponse | ErrUnavailable | ErrInvalidResponse

datatype client_error = ApiError nat client_cause | Plain client_cause

text \<open>\<open>errors.Is\<close> on an error of the client, which unwraps an \<^verbatim>\<open>APIError\<close>.\<close>

fun client_error_is :: "client_cause \<Rightarrow> client_error \<Rightarrow> bool" where
  "client_error_is c (ApiError n d) = (c = d)"
| "client_error_is c (Plain d) = (c = d)"

record parsed_url =
  pu_scheme :: string
  pu_host :: string
  pu_user :: bool
  pu_path :: string
  pu_query :: string
  pu_fragment :: string

record updater_client =
  uc_path :: string
  uc_token :: string

definition new_client :: "parsed_url option \<Rightarrow> string \<Rightarrow> updater_client res" where
  "new_client url token =
     (case url of
        None \<Rightarrow> Inl (Message ''invalid updater URL'')
      | Some u \<Rightarrow>
        if pu_scheme u \<noteq> ''http'' \<or> pu_host u = [] \<or> pu_user u \<or> pu_query u \<noteq> [] \<or> pu_fragment u \<noteq> []
        then Inl (Message ''invalid updater URL'')
        else if token = [] \<or> list_ex is_space (rune_chunks token)
        then Inl (Message ''updater token is required'')
        else Inr \<lparr>uc_path = pu_path u, uc_token = token\<rparr>)"

definition status_error :: "nat \<Rightarrow> client_error" where
  "status_error code = ApiError code
     (if code = 400 then ErrBadRequest else if code = 401 then ErrUnauthorizedResponse
      else if code = 409 then ErrConflictResponse else ErrUnavailable)"

abbreviation max_response_bytes :: nat where "max_response_bytes \<equiv> 1048576"

type_synonym 's transport = "http_request \<Rightarrow> 's \<Rightarrow> http_response option \<times> 's"

definition client_request :: "updater_client \<Rightarrow> string \<Rightarrow> string \<Rightarrow> body \<Rightarrow> http_request" where
  "client_request c method path b =
     \<lparr>rq_method = method, rq_path = trim_right (CHR ''/'') (uc_path c) @ path,
      rq_authorization = bearer @ uc_token c, rq_cookie = None, rq_range = [], rq_remote = [], rq_body = b\<rparr>"

definition client_do ::
    "'s transport \<Rightarrow> (json \<Rightarrow> nat option) \<Rightarrow> updater_client \<Rightarrow> string \<Rightarrow> string \<Rightarrow> json option \<Rightarrow>
     (json \<Rightarrow> 'v option) \<Rightarrow> 's \<Rightarrow> (client_error + 'v) \<times> 's" where
  "client_do transport marshal c method path input read s =
     (case (case input of None \<Rightarrow> Some empty_body
              | Some j \<Rightarrow> (case marshal j of None \<Rightarrow> None | Some n \<Rightarrow> Some (json_body n j))) of
        None \<Rightarrow> (Inl (Plain ErrUnavailable), s)
      | Some b \<Rightarrow>
        (case transport (client_request c method path b) s of
           (None, s1) \<Rightarrow> (Inl (Plain ErrUnavailable), s1)
         | (Some response, s1) \<Rightarrow>
           if rs_status response < 200 \<or> 300 \<le> rs_status response
           then (Inl (status_error (rs_status response)), s1)
           else case read_single max_response_bytes (rs_body response) of
               None \<Rightarrow> (Inl (Plain ErrInvalidResponse), s1)
             | Some j \<Rightarrow> (case read j of None \<Rightarrow> (Inl (Plain ErrInvalidResponse), s1) | Some v \<Rightarrow> (Inr v, s1))))"

definition client_status ::
    "'s transport \<Rightarrow> (json \<Rightarrow> nat option) \<Rightarrow> updater_client \<Rightarrow> 's \<Rightarrow> (client_error + status_view) \<times> 's" where
  "client_status transport marshal c =
     client_do transport marshal c ''GET'' ''/internal/v1/update'' None
       (\<lambda>j. read_struct True status_fields j zero_status)"

definition client_check ::
    "'s transport \<Rightarrow> (json \<Rightarrow> nat option) \<Rightarrow> updater_client \<Rightarrow> 's \<Rightarrow> (client_error + status_view) \<times> 's" where
  "client_check transport marshal c =
     client_do transport marshal c ''POST'' ''/internal/v1/update/check'' None
       (\<lambda>j. read_struct True status_fields j zero_status)"

definition client_start ::
    "'s transport \<Rightarrow> (json \<Rightarrow> nat option) \<Rightarrow> updater_client \<Rightarrow> string \<Rightarrow> 's \<Rightarrow> (client_error + task_view) \<times> 's" where
  "client_start transport marshal c target =
     client_do transport marshal c ''POST'' ''/internal/v1/update''
       (Some (JObj [(''target_version'', JStr target)]))
       (\<lambda>j. read_struct True task_fields j zero_task)"

section \<open>The manager over HTTP\<close>

text \<open>The real manager behind the interface: its check talks to registry and runtime \<open>k\<close>, a start launches
the job \<open>launch\<close>.\<close>

definition manager_interface ::
    "env \<Rightarrow> duration \<Rightarrow> string \<Rightarrow> checker \<Rightarrow> (update_task \<Rightarrow> world \<Rightarrow> world) \<Rightarrow> world update_manager" where
  "manager_interface env ttl new_id k launch =
     \<lparr>um_status = SuManager.status env, um_check = manager_check env k,
      um_start = (\<lambda>w target. start env ttl new_id launch target w)\<rparr>"

definition direct_transport :: "update_http \<Rightarrow> 'm update_manager \<Rightarrow> 'm transport" where
  "direct_transport h um rq s = (let (r, s1) = serve_http h um rq s in (Some r, s1))"

text \<open>The encoding of a value fits the limit of its reader.\<close>

definition fits :: "update_http \<Rightarrow> nat \<Rightarrow> json \<Rightarrow> bool" where
  "fits h limit j \<longleftrightarrow> (case uh_marshal h j of None \<Rightarrow> False | Some n \<Rightarrow> n \<le> limit)"

lemma read_single_json_body [simp]: "read_single limit (json_body n j) = (if n \<le> limit then Some j else None)"
  by (simp add: read_single_def json_body_def)

lemma write_json_value_fits:
  assumes "fits h max_response_bytes j"
  shows "rs_status (write_json_value h code j) = code" and
    "read_single max_response_bytes (rs_body (write_json_value h code j)) = Some j"
  using assms by (auto simp: fits_def write_json_value_def split: option.splits)

definition start_json :: "string \<Rightarrow> json" where
  "start_json target = JObj [(''target_version'', JStr target)]"

lemma decode_start_json: "n \<le> max_start_request_bytes \<Longrightarrow> decode_start_request (json_body n (start_json target)) = Some target"
  by (simp add: decode_start_request_def start_request_fields_def start_json_def field_of_def set_member_def)

lemma client_authorized:
  "uc_token c = uh_token h \<Longrightarrow> authorized h (rq_authorization (client_request c m p b))"
  by (simp add: authorized_def client_request_def)

text \<open>A client and a server that share the token, with no path of their own in the base URL.\<close>

definition connected :: "update_http \<Rightarrow> updater_client \<Rightarrow> bool" where
  "connected h c \<longleftrightarrow> uc_token c = uh_token h \<and> trim_right (CHR ''/'') (uc_path c) = []"

lemma serve_connected:
  assumes "connected h c"
  shows "serve_http h um (client_request c ''GET'' ''/internal/v1/update'' b) s =
      (write_json_value h 200 (write_status (um_status um s)), s)"
    and "serve_http h um (client_request c ''POST'' ''/internal/v1/update/check'' b) s = serve_check h um s"
    and "serve_http h um (client_request c ''POST'' ''/internal/v1/update'' b) s = serve_start h um b s"
  using assms client_authorized [of c h]
  by (simp_all add: serve_http_def connected_def is_internal_update_route_def client_request_def)

lemma remote_status:
  assumes "connected h c" and "named_status (um_status um s)"
    and "fits h max_response_bytes (write_status (um_status um s))"
  shows "client_status (direct_transport h um) (uh_marshal h) c s = (Inr (um_status um s), s)"
  using assms write_json_value_fits [OF assms(3)] read_status
  by (simp add: client_status_def client_do_def direct_transport_def serve_connected)

lemma unavailable_reply [simp]: "rs_status service_unavailable = 503" "rs_status (fixed_response code j) = code"
  by (simp_all add: service_unavailable_def fixed_response_def)

lemma remote_check:
  assumes "connected h c" and "um_check um s = (r, s1)"
    and "\<And>v. r = Inr v \<Longrightarrow> named_status v \<and> fits h max_response_bytes (write_status v)"
  shows "client_check (direct_transport h um) (uh_marshal h) c s =
    (map_sum (\<lambda>e. ApiError 503 ErrUnavailable) id r, s1)"
  using assms write_json_value_fits read_status
  by (cases r) (auto simp: client_check_def client_do_def direct_transport_def serve_connected serve_check_def status_error_def)

lemma remote_start:
  assumes "connected h c" and "validate_version (uh_semver h) target = None"
    and "fits h max_start_request_bytes (start_json target)" and "um_start um s target = (r, s1)"
    and "\<And>t. r = Inr t \<Longrightarrow> named_task t \<and> fits h max_response_bytes (write_task t)"
  shows "client_start (direct_transport h um) (uh_marshal h) c target s =
    (map_sum (\<lambda>e. if is_start_conflict e then ApiError 409 ErrConflictResponse else ApiError 503 ErrUnavailable) id r, s1)"
proof -
  obtain n where n: "uh_marshal h (start_json target) = Some n" "n \<le> max_start_request_bytes"
    using assms(3) by (auto simp: fits_def split: option.splits)
  have served: "serve_http h um (client_request c ''POST'' ''/internal/v1/update'' (json_body n (start_json target))) s =
      (case r of Inl e \<Rightarrow> (if is_start_conflict e then fixed_response 409 (error_json ''update cannot be started'')
               else service_unavailable) | Inr t \<Rightarrow> write_json_value h 202 (write_task t), s1)"
    using assms(1,2,4) decode_start_json [OF n(2)] by (cases r) (simp_all add: serve_connected serve_start_def)
  show ?thesis unfolding client_start_def client_do_def start_json_def [symmetric]
    using n served assms(5) write_json_value_fits read_task
    by (cases r) (auto simp: direct_transport_def status_error_def)
qed

text \<open>What the three operations return in a state can be encoded within the limits of its reader.\<close>

definition transportable :: "update_http \<Rightarrow> 'm update_manager \<Rightarrow> string \<Rightarrow> 'm \<Rightarrow> bool" where
  "transportable h um target s \<longleftrightarrow>
     named_status (um_status um s) \<and> fits h max_response_bytes (write_status (um_status um s)) \<and>
     (case fst (um_check um s) of Inl e \<Rightarrow> True
      | Inr v \<Rightarrow> named_status v \<and> fits h max_response_bytes (write_status v)) \<and>
     fits h max_start_request_bytes (start_json target) \<and>
     (case fst (um_start um s target) of Inl e \<Rightarrow> True
      | Inr t \<Rightarrow> named_task t \<and> fits h max_response_bytes (write_task t))"

text \<open>The errors of the manager as the backend sees them.\<close>

definition seen_error :: "go_error \<Rightarrow> client_error" where
  "seen_error e = (if is_start_conflict e then ApiError 409 ErrConflictResponse else ApiError 503 ErrUnavailable)"

text \<open>C22: A backend that talks to the updater over HTTP sees the manager itself: status, check and start
return the same views and leave the manager in the same state as direct calls, a refused start arrives
as a conflict and any other failure as an unavailable service; with another token the manager's
state never changes.\<close>

theorem remote_update_transparent:
  assumes "connected h c" and "transportable h um target s" and "validate_version (uh_semver h) target = None"
  shows "client_status (direct_transport h um) (uh_marshal h) c s = (Inr (um_status um s), s) \<and>
    client_check (direct_transport h um) (uh_marshal h) c s =
      map_prod (map_sum (\<lambda>e. ApiError 503 ErrUnavailable) id) id (um_check um s) \<and>
    client_start (direct_transport h um) (uh_marshal h) c target s =
      map_prod (map_sum seen_error id) id (um_start um s target) \<and>
    (\<forall>rq. authorized h (rq_authorization rq) \<or> snd (serve_http h um rq s) = s)"
proof (intro conjI allI)
  show "client_status (direct_transport h um) (uh_marshal h) c s = (Inr (um_status um s), s)"
    using assms(1,2) by (simp add: remote_status transportable_def)
next
  obtain r s1 where check: "um_check um s = (r, s1)" by fastforce
  have "named_status v \<and> fits h max_response_bytes (write_status v)" if "r = Inr v" for v
    using assms(2) check that by (simp add: transportable_def)
  from remote_check [OF assms(1) check this]
  show "client_check (direct_transport h um) (uh_marshal h) c s =
      map_prod (map_sum (\<lambda>e. ApiError 503 ErrUnavailable) id) id (um_check um s)"
    by (simp add: check)
next
  obtain r s1 where start: "um_start um s target = (r, s1)" by fastforce
  have small: "fits h max_start_request_bytes (start_json target)"
    and "named_task t \<and> fits h max_response_bytes (write_task t)" if "r = Inr t" for t
    using assms(2) start that by (simp_all add: transportable_def)
  from remote_start [OF assms(1,3) _ start this(2)] assms(2)
  show "client_start (direct_transport h um) (uh_marshal h) c target s =
      map_prod (map_sum seen_error id) id (um_start um s target)"
    by (simp add: start transportable_def seen_error_def [abs_def])
next
  fix rq :: http_request
  show "authorized h (rq_authorization rq) \<or> snd (serve_http h um rq s) = s"
    by (simp add: serve_http_def)
qed

text \<open>A manager whose state is the version it runs, and that starts every other version.\<close>

definition demo_versions :: "string \<Rightarrow> version_pair_view" where
  "demo_versions v = \<lparr>vp_backend = v, vp_web = v\<rparr>"

definition demo_manager :: "string update_manager" where
  "demo_manager = \<lparr>um_status = (\<lambda>s. zero_status\<lparr>sw_current := demo_versions s\<rparr>),
     um_check = (\<lambda>s. (Inl (Message ''registry''), s)),
     um_start = (\<lambda>s target. (Inr (zero_task\<lparr>tv_from := demo_versions s, tv_to := demo_versions target,
        tv_stage := Checking, tv_cleanup := CleanupNotRun\<rparr>), target))\<rparr>"

definition demo_http :: update_http where
  "demo_http = \<lparr>uh_token = ''secret'', uh_sha256 = id, uh_marshal = (\<lambda>j. Some 100),
     uh_semver = \<lparr>sem_valid = (\<lambda>v. True), sem_canonical = id, sem_compare = (\<lambda>v w. 0)\<rparr>\<rparr>"

theorem remote_update_transparent_witness:
  "fst (client_start (direct_transport demo_http demo_manager) (uh_marshal demo_http)
      \<lparr>uc_path = ''/'', uc_token = ''secret''\<rparr> ''v1.2.0'' ''v1.1.0'') =
    Inr (zero_task\<lparr>tv_from := demo_versions ''v1.1.0'', tv_to := demo_versions ''v1.2.0'',
        tv_stage := Checking, tv_cleanup := CleanupNotRun\<rparr>)"
proof -
  let ?c = "\<lparr>uc_path = ''/'', uc_token = ''secret''\<rparr>"
  have c: "connected demo_http ?c" by (simp add: connected_def demo_http_def trim_right_def)
  have v: "validate_version (uh_semver demo_http) ''v1.2.0'' = None"
    by (simp add: validate_version_def demo_http_def)
  have t: "transportable demo_http demo_manager ''v1.2.0'' ''v1.1.0''"
    by (simp add: transportable_def demo_manager_def demo_http_def fits_def named_status_def named_task_def
        zero_status_def zero_task_def stage_of_text_def cleanup_of_text_def known_stages_def)
  from remote_update_transparent [OF c t v] show ?thesis by (simp add: demo_manager_def)
qed

end
