(* ===== verification/Encodings.thy ===== *)
theory Encodings
  imports GoStrings
begin

text \<open>
  The text encodings of Go's standard library that the program uses: \<^verbatim>\<open>encoding/base64\<close> without
  padding, over either alphabet, \<^verbatim>\<open>encoding/hex\<close>, and \<^verbatim>\<open>strings.Split\<close> at one byte.  The decoder
  follows \<^verbatim>\<open>Encoding.DecodeString\<close>: it skips line breaks, refuses a last group of one digit and
  drops the unused bits of a last group of two or three digits.
\<close>

section \<open>Base64\<close>

definition base64_common :: string where
  "base64_common = ''ABCDEFGHIJKLMNOPQRSTUVWXYZabcdefghijklmnopqrstuvwxyz0123456789''"

definition url_alphabet :: string where
  "url_alphabet = base64_common @ ''-_''"

definition std_alphabet :: string where
  "std_alphabet = base64_common @ ''+/''"

definition alphabet :: "string \<Rightarrow> bool" where
  "alphabet al \<longleftrightarrow> length al = 64 \<and> distinct al \<and> CHR 0x0A \<notin> set al \<and> CHR 0x0D \<notin> set al"

lemma alphabets: "alphabet url_alphabet" "alphabet std_alphabet"
  by (simp_all add: alphabet_def url_alphabet_def std_alphabet_def base64_common_def)

fun base64_encode :: "string \<Rightarrow> string \<Rightarrow> string" where
  "base64_encode al [] = []"
| "base64_encode al [a] = [al ! (byte a div 4), al ! (byte a mod 4 * 16)]"
| "base64_encode al [a, b] =
     [al ! (byte a div 4), al ! (byte a mod 4 * 16 + byte b div 16), al ! (byte b mod 16 * 4)]"
| "base64_encode al (a # b # c # s) =
     [al ! (byte a div 4), al ! (byte a mod 4 * 16 + byte b div 16),
      al ! (byte b mod 16 * 4 + byte c div 64), al ! (byte c mod 64)] @ base64_encode al s"

definition digit_value :: "string \<Rightarrow> char \<Rightarrow> nat option" where
  "digit_value al c = (let i = length (takeWhile (\<lambda>d. d \<noteq> c) al) in if i < length al then Some i else None)"

fun digit_values :: "string \<Rightarrow> string \<Rightarrow> nat list option" where
  "digit_values al [] = Some []"
| "digit_values al (c # s) =
     (case digit_value al c of
        None \<Rightarrow> None
      | Some v \<Rightarrow> (case digit_values al s of None \<Rightarrow> None | Some vs \<Rightarrow> Some (v # vs)))"

fun join_digits :: "nat list \<Rightarrow> string option" where
  "join_digits [] = Some []"
| "join_digits [u] = None"
| "join_digits [u, v] = Some [char_of (u * 4 + v div 16)]"
| "join_digits [u, v, w] = Some [char_of (u * 4 + v div 16), char_of (v mod 16 * 16 + w div 4)]"
| "join_digits (u # v # w # x # vs) =
     (case join_digits vs of
        None \<Rightarrow> None
      | Some s \<Rightarrow> Some (char_of (u * 4 + v div 16) # char_of (v mod 16 * 16 + w div 4) # char_of (w mod 4 * 64 + x) # s))"

definition line_break :: "char \<Rightarrow> bool" where
  "line_break c \<longleftrightarrow> c = CHR 0x0A \<or> c = CHR 0x0D"

definition base64_decode :: "string \<Rightarrow> string \<Rightarrow> string option" where
  "base64_decode al s =
     (case digit_values al (filter (\<lambda>c. \<not> line_break c) s) of None \<Rightarrow> None | Some vs \<Rightarrow> join_digits vs)"

lemma byte_less [simp]: "byte c < 256"
  by (simp add: byte_def)

lemma char_of_byte [simp]: "char_of (byte c) = c"
  by (simp add: byte_def)

lemma digit_value_nth:
  assumes "alphabet al" and "i < 64"
  shows "digit_value al (al ! i) = Some i"
proof -
  have len: "length al = 64" and dist: "distinct al" using assms(1) by (simp_all add: alphabet_def)
  have "takeWhile (\<lambda>d. d \<noteq> al ! i) al = take i al"
    by (rule takeWhile_eq_take_P_nth)
      (use assms(2) len dist in \<open>auto simp: nth_eq_iff_index_eq\<close>)
  then show ?thesis using assms(2) len by (simp add: digit_value_def)
qed

fun digits_of :: "string \<Rightarrow> nat list" where
  "digits_of [] = []"
| "digits_of [a] = [byte a div 4, byte a mod 4 * 16]"
| "digits_of [a, b] = [byte a div 4, byte a mod 4 * 16 + byte b div 16, byte b mod 16 * 4]"
| "digits_of (a # b # c # s) =
     [byte a div 4, byte a mod 4 * 16 + byte b div 16, byte b mod 16 * 4 + byte c div 64, byte c mod 64] @ digits_of s"

lemma small_digits:
  "byte a div 4 < 64" "byte a mod 4 * 16 + byte b div 16 < 64" "byte a mod 16 * 4 + byte b div 64 < 64"
  "byte a mod 64 < 64" "byte a mod 4 * 16 < 64" "byte a mod 16 * 4 < 64"
proof -
  have "byte a div 4 < 64" "byte b div 16 < 16" "byte b div 64 < 4" "byte a mod 4 < 4" "byte a mod 16 < 16" "byte a mod 64 < 64"
    using byte_less [of a] byte_less [of b] by (simp_all add: less_mult_imp_div_less)
  then show "byte a div 4 < 64" "byte a mod 4 * 16 + byte b div 16 < 64" "byte a mod 16 * 4 + byte b div 64 < 64"
    "byte a mod 64 < 64" "byte a mod 4 * 16 < 64" "byte a mod 16 * 4 < 64"
    by linarith+
qed

lemma digits_of_small: "v \<in> set (digits_of s) \<Longrightarrow> v < 64"
  by (induction s rule: digits_of.induct) (auto simp: small_digits)

lemma base64_encode_digits: "base64_encode al s = map ((!) al) (digits_of s)"
  by (induction al s rule: base64_encode.induct) simp_all

lemma digit_values_nth:
  "alphabet al \<Longrightarrow> \<forall>v\<in>set vs. v < 64 \<Longrightarrow> digit_values al (map ((!) al) vs) = Some vs"
  by (induction vs) (simp_all add: digit_value_nth)

lemma byte_parts [simp]:
  "byte b div 16 div 16 = 0" "byte b div 16 mod 16 = byte b div 16"
  "byte c div 64 div 4 = 0" "byte c div 64 mod 4 = byte c div 64"
  using byte_less [of b] byte_less [of c]
  by (simp_all add: div_mult2_eq [symmetric] less_mult_imp_div_less)

lemma join_digits_of: "join_digits (digits_of s) = Some s"
  by (induction s rule: digits_of.induct) (simp_all add: byte_def [symmetric] del: byte_inj)

lemma base64_roundtrip:
  assumes "alphabet al"
  shows "base64_decode al (base64_encode al s) = Some s"
proof -
  have "c \<in> set al" if "c \<in> set (base64_encode al s)" for c
    using that assms digits_of_small by (auto simp: base64_encode_digits alphabet_def)
  then have "filter (\<lambda>c. \<not> line_break c) (base64_encode al s) = base64_encode al s"
    using assms by (auto simp: filter_id_conv line_break_def alphabet_def)
  then show ?thesis using digit_values_nth [OF assms, of "digits_of s"] digits_of_small
    by (auto simp: base64_decode_def base64_encode_digits join_digits_of)
qed

lemma set_base64_encode: "alphabet al \<Longrightarrow> set (base64_encode al s) \<subseteq> set al"
  using digits_of_small by (auto simp: base64_encode_digits alphabet_def)

section \<open>Hex\<close>

definition hex_digit :: "nat \<Rightarrow> char" where
  "hex_digit n = char_of (if n < 10 then 48 + n else 87 + n)"

definition hex_encode :: "string \<Rightarrow> string" where
  "hex_encode s = concat (map (\<lambda>c. [hex_digit (byte c div 16), hex_digit (byte c mod 16)]) s)"

lemma length_hex_encode [simp]: "length (hex_encode s) = 2 * length s"
  by (induction s) (simp_all add: hex_encode_def)

lemma hex_digit_lower: "n < 16 \<Longrightarrow> is_lower_hex (hex_digit n)"
  by (auto simp: hex_digit_def is_lower_hex_def is_digit_def byte_def)

lemma hex_encode_lower: "list_all is_lower_hex (hex_encode s)"
  by (induction s) (auto simp: hex_encode_def hex_digit_lower less_mult_imp_div_less)

section \<open>Splitting\<close>

fun split_at :: "char \<Rightarrow> string \<Rightarrow> string list" where
  "split_at c [] = [[]]"
| "split_at c (d # s) =
     (if d = c then [] # split_at c s
      else case split_at c s of [] \<Rightarrow> [[d]] | p # ps \<Rightarrow> (d # p) # ps)"

lemma split_at_plain: "c \<notin> set p \<Longrightarrow> split_at c p = [p]"
  by (induction p) auto

lemma split_at_append: "c \<notin> set p \<Longrightarrow> split_at c (p @ c # s) = p # split_at c s"
  by (induction p) auto

end
