(* ===== verification/Security.thy ===== *)
theory Security
  imports Encodings
begin

text \<open>
  \<^verbatim>\<open>internal/security\<close>: password hashes and opaque tokens.  Argon2, SHA-256 and the system's
  random bytes are the parameters \<open>crypto\<close> and \<open>random\<close>; \<open>crypto_laws\<close> is their documented
  output length.
\<close>

record crypto =
  cy_argon :: "string \<Rightarrow> string \<Rightarrow> string"
  cy_sha256 :: "string \<Rightarrow> string"

definition crypto_laws :: "crypto \<Rightarrow> bool" where
  "crypto_laws cy \<longleftrightarrow> (\<forall>p s. length (cy_argon cy p s) = 32) \<and> (\<forall>s. length (cy_sha256 cy s) = 32)"

section \<open>Passwords (password.go)\<close>

abbreviation min_password_length :: nat where "min_password_length \<equiv> 15"

definition argon_parameters :: string where
  "argon_parameters = ''m=65536,t=3,p=2''"

definition hash_password :: "crypto \<Rightarrow> string res \<Rightarrow> string \<Rightarrow> string res" where
  "hash_password cy salt password =
     (if rune_count password < min_password_length
      then Inl (Message ''password must be at least 15 characters'')
      else case salt of
          Inl e \<Rightarrow> Inl (Wrapped ''generate password salt'' e)
        | Inr bytes \<Rightarrow> Inr (''$argon2id$v=19$'' @ argon_parameters @ ''$'' @ base64_encode std_alphabet bytes @ ''$'' @
                          base64_encode std_alphabet (cy_argon cy password bytes)))"

definition verify_password :: "crypto \<Rightarrow> string \<Rightarrow> string \<Rightarrow> bool" where
  "verify_password cy encoded password =
     (case split_at (CHR ''$'') encoded of
        [p0, p1, p2, p3, p4, p5] \<Rightarrow>
          p1 = ''argon2id'' \<and> p2 = ''v=19'' \<and> p3 = argon_parameters \<and>
          (case base64_decode std_alphabet p4 of
             None \<Rightarrow> False
           | Some salt \<Rightarrow>
             (case base64_decode std_alphabet p5 of
                None \<Rightarrow> False
              | Some want \<Rightarrow> length want = 32 \<and> cy_argon cy password salt = want))
      | _ \<Rightarrow> False)"

section \<open>Tokens (token.go)\<close>

definition hash_token :: "crypto \<Rightarrow> string \<Rightarrow> string" where
  "hash_token cy token = hex_encode (cy_sha256 cy token)"

definition new_opaque_token :: "crypto \<Rightarrow> string res \<Rightarrow> (string \<times> string) res" where
  "new_opaque_token cy random =
     (case random of
        Inl e \<Rightarrow> Inl (Wrapped ''generate secure token'' e)
      | Inr raw \<Rightarrow> let plain = base64_encode url_alphabet raw in Inr (plain, hash_token cy plain))"

section \<open>A stored password hash accepts exactly its password\<close>

lemma no_dollar: "CHR ''$'' \<notin> set (base64_encode std_alphabet s)"
  using set_base64_encode [OF alphabets(2), of s]
  by (auto simp: std_alphabet_def base64_common_def)

lemma split_hash:
  "split_at (CHR ''$'') (''$argon2id$v=19$m=65536,t=3,p=2$'' @ base64_encode std_alphabet a @ ''$'' @ base64_encode std_alphabet b) =
     [[], ''argon2id'', ''v=19'', ''m=65536,t=3,p=2'', base64_encode std_alphabet a, base64_encode std_alphabet b]"
  using split_at_append [OF no_dollar, of a "base64_encode std_alphabet b"] split_at_plain [OF no_dollar, of b]
  by simp

text \<open>A stored password hash is read back exactly: verification accepts the password it was made from,
and accepts another password only if Argon2 gives both the same key under the stored salt.\<close>

theorem password_roundtrip:
  assumes "crypto_laws cy" and "hash_password cy (Inr salt) p = Inr encoded"
  shows "verify_password cy encoded q \<longleftrightarrow> cy_argon cy q salt = cy_argon cy p salt"
proof -
  have encoded: "encoded = ''$argon2id$v=19$m=65536,t=3,p=2$'' @ base64_encode std_alphabet salt @ ''$'' @
      base64_encode std_alphabet (cy_argon cy p salt)"
    using assms(2) by (simp add: hash_password_def argon_parameters_def split: if_splits)
  have "length (cy_argon cy p salt) = 32" using assms(1) by (simp add: crypto_laws_def)
  then show ?thesis unfolding encoded verify_password_def split_hash
    by (simp add: argon_parameters_def base64_roundtrip alphabets)
qed

definition demo_crypto :: crypto where
  "demo_crypto = \<lparr>cy_argon = (\<lambda>p s. replicate 32 (if p = [] then CHR ''0'' else hd p)), cy_sha256 = (\<lambda>s. replicate 32 (CHR ''h''))\<rparr>"

theorem password_roundtrip_witness:
  "\<exists>encoded. hash_password demo_crypto (Inr ''salt'') ''abcdefghijklmnop'' = Inr encoded \<and>
     verify_password demo_crypto encoded ''abcdefghijklmnop'' \<and> \<not> verify_password demo_crypto encoded ''wrong''"
proof -
  have "rune_count ''abcdefghijklmnop'' = 16" by code_simp
  then obtain encoded where e: "hash_password demo_crypto (Inr ''salt'') ''abcdefghijklmnop'' = Inr encoded"
    by (simp add: hash_password_def)
  have laws: "crypto_laws demo_crypto" by (simp add: crypto_laws_def demo_crypto_def)
  from password_roundtrip [OF laws e] e show ?thesis
    by (simp add: demo_crypto_def)
qed

end
