(* ===== verification/GoTime.thy ===== *)
theory GoTime
  imports GoStrings
begin

text \<open>
  The calendar: a time falls into a day of the proleptic Gregorian calendar, which starts with
  1 January of the year 1, the zero time.  Calendar days as Go's \<^verbatim>\<open>time\<close> package reads and writes them with the layout \<^verbatim>\<open>2006-01-02\<close>.
\<close>

definition leap_year :: "nat \<Rightarrow> bool" where
  "leap_year y \<longleftrightarrow> y mod 4 = 0 \<and> (y mod 100 \<noteq> 0 \<or> y mod 400 = 0)"

definition days_in :: "nat \<Rightarrow> nat \<Rightarrow> nat" where
  "days_in y m = (if m = 2 then (if leap_year y then 29 else 28) else if m \<in> {4, 6, 9, 11} then 30 else 31)"

definition digit_number :: "string \<Rightarrow> nat" where
  "digit_number s = foldl (\<lambda>n c. 10 * n + (byte c - 48)) 0 s"

text \<open>\<open>time.Parse("2006-01-02", s)\<close> succeeds and formatting the result gives \<open>s\<close> back.\<close>

definition valid_day :: "string \<Rightarrow> bool" where
  "valid_day s \<longleftrightarrow> length s = 10 \<and> s ! 4 = CHR ''-'' \<and> s ! 7 = CHR ''-'' \<and>
     list_all is_digit (take 4 s @ take 2 (drop 5 s) @ drop 8 s) \<and>
     (let y = digit_number (take 4 s); m = digit_number (take 2 (drop 5 s)); d = digit_number (drop 8 s)
      in 1 \<le> m \<and> m \<le> 12 \<and> 1 \<le> d \<and> d \<le> days_in y m)"

section \<open>Dates of times\<close>

definition year_days :: "nat \<Rightarrow> nat" where
  "year_days y = (if leap_year y then 366 else 365)"

text \<open>The year of a day counted from 1 January of \<open>y\<close>, and the day in it.\<close>

function find_year :: "nat \<Rightarrow> nat \<Rightarrow> nat \<times> nat" where
  "find_year y d = (if d < year_days y then (y, d) else find_year (y + 1) (d - year_days y))"
  by auto
termination by (relation "measure snd") (auto simp: year_days_def)

function find_month :: "nat \<Rightarrow> nat \<Rightarrow> nat \<Rightarrow> nat \<times> nat" where
  "find_month y m d = (if d < days_in y m then (m, d + 1) else find_month y (m + 1) (d - days_in y m))"
  by auto
termination by (relation "measure (\<lambda>(y, m, d). d)") (auto simp: days_in_def)

declare find_year.simps [simp del] find_month.simps [simp del]

definition civil_date :: "nat \<Rightarrow> nat \<times> nat \<times> nat" where
  "civil_date d = (let (y, yd) = find_year 1 d in (y, find_month y 1 yd))"

text \<open>The days of a time in a zone that is a fixed duration ahead of UTC.\<close>

definition local_day :: "duration \<Rightarrow> time \<Rightarrow> nat" where
  "local_day ahead t = nat ((t + ahead) div (24 * hour))"

definition two_digits :: "nat \<Rightarrow> string" where
  "two_digits n = [char_of (48 + n div 10 mod 10), char_of (48 + n mod 10)]"

definition four_digits :: "nat \<Rightarrow> string" where
  "four_digits n = two_digits (n div 100) @ two_digits (n mod 100)"

definition format_month :: "nat \<Rightarrow> string" where
  "format_month d = (let (y, m, md) = civil_date d in four_digits y @ ''-'' @ two_digits m)"

definition format_day :: "nat \<Rightarrow> string" where
  "format_day d = (let (y, m, md) = civil_date d in four_digits y @ ''-'' @ two_digits m @ ''-'' @ two_digits md)"

lemma find_year_bound: "snd (find_year y d) < year_days (fst (find_year y d))"
  by (induction y d rule: find_year.induct) (subst (1 2) find_year.simps, simp)

definition rest_of_year :: "nat \<Rightarrow> nat \<Rightarrow> nat" where
  "rest_of_year y m = sum_list (map (days_in y) [m..<13])"

lemma rest_of_year_step: "m \<le> 12 \<Longrightarrow> rest_of_year y m = days_in y m + rest_of_year y (m + 1)"
  by (simp add: rest_of_year_def upt_conv_Cons)

lemma rest_of_year_full: "rest_of_year y 1 = year_days y"
  by (simp add: rest_of_year_def upt_rec days_in_def year_days_def)

lemma find_month_bound:
  assumes "d < rest_of_year y m" and "1 \<le> m"
  shows "1 \<le> fst (find_month y m d) \<and> fst (find_month y m d) \<le> 12 \<and>
    1 \<le> snd (find_month y m d) \<and> snd (find_month y m d) \<le> days_in y (fst (find_month y m d))"
  using assms
proof (induction y m d rule: find_month.induct)
  case (1 y m d)
  have m: "m \<le> 12" using "1.prems"(1) by (cases "m \<le> 12") (simp_all add: rest_of_year_def)
  show ?case
  proof (cases "d < days_in y m")
    case True
    then show ?thesis using m "1.prems"(2) by (subst (1 2 3 4 5) find_month.simps) simp
  next
    case False
    then have "d - days_in y m < rest_of_year y (m + 1)" using "1.prems"(1) rest_of_year_step [OF m, of y] by simp
    with False "1.IH" show ?thesis by (subst (1 2 3 4 5) find_month.simps) simp
  qed
qed

lemma byte_digit: "n < 10 \<Longrightarrow> byte (char_of (48 + n)) = 48 + n"
  by (simp add: byte_def)

lemma two_digits_number: "n < 100 \<Longrightarrow> digit_number (two_digits n) = n \<and> list_all is_digit (two_digits n)"
proof -
  assume n: "n < 100"
  then have "n div 10 < 10" by simp
  with n show ?thesis
    by (simp add: two_digits_def digit_number_def byte_digit is_digit_def)
qed

lemma four_digits_number: "n < 10000 \<Longrightarrow> digit_number (four_digits n) = n \<and> list_all is_digit (four_digits n)"
proof -
  assume n: "n < 10000"
  then have "n div 100 < 100" "n mod 100 < 100" by simp_all
  note parts = this [THEN two_digits_number]
  have "foldl (\<lambda>n c. 10 * n + (byte c - 48)) a (two_digits k) = 100 * a + k" if "k < 100" for a k
    using that by (simp add: two_digits_def byte_digit)
  then have "digit_number (four_digits n) = 100 * (n div 100) + n mod 100"
    using n by (simp add: digit_number_def four_digits_def)
  then show ?thesis using parts by (simp add: four_digits_def)
qed

text \<open>What the program writes as a day, it accepts as a day.\<close>

lemma valid_format_day:
  assumes "fst (civil_date d) < 10000"
  shows "valid_day (format_day d)"
proof -
  obtain y yd where y: "find_year 1 d = (y, yd)" by fastforce
  obtain m md where m: "find_month y 1 yd = (m, md)" by fastforce
  have "yd < rest_of_year y 1" using find_year_bound [of 1 d] y by (simp add: rest_of_year_full [unfolded One_nat_def])
  from find_month_bound [OF this] m have b: "1 \<le> m" "m \<le> 12" "1 \<le> md" "md \<le> days_in y m" by simp_all
  have small: "md < 100" "m < 100" using b by (auto simp: days_in_def split: if_splits)
  have len: "length (four_digits y) = 4" "length (two_digits k) = 2" for k by (simp_all add: four_digits_def two_digits_def)
  have shape: "format_day d = four_digits y @ CHR ''-'' # two_digits m @ CHR ''-'' # two_digits md"
    using y m by (simp add: format_day_def civil_date_def)
  have year: "y < 10000" using assms y m by (simp add: civil_date_def)
  have parts: "take 4 (format_day d) = four_digits y" "take 2 (drop 5 (format_day d)) = two_digits m"
    "drop 8 (format_day d) = two_digits md" "format_day d ! 4 = CHR ''-''" "format_day d ! 7 = CHR ''-''"
    "length (format_day d) = 10"
    unfolding shape by (simp_all add: len nth_append nth_Cons')
  show ?thesis unfolding valid_day_def parts
    using year small b by (simp add: two_digits_number four_digits_number)
qed

end
