(* ===== verification/GoErrors.thy ===== *)
theory GoErrors
  imports GoStrings
begin

text \<open>
  The text of an error, \<^verbatim>\<open>err.Error()\<close>: the messages of the sentinels, \<open>%w\<close> behind its prefix, and
  the lines of \<^verbatim>\<open>errors.Join\<close>.
\<close>

fun sentinel_text :: "sentinel \<Rightarrow> string" where
  "sentinel_text ErrNotFound = ''not found''"
| "sentinel_text ErrConflict = ''conflict''"
| "sentinel_text ErrUnauthorized = ''unauthorized''"
| "sentinel_text ErrEnrollmentExpired = ''enrollment expired''"
| "sentinel_text ErrPairingExpired = ''pairing expired''"
| "sentinel_text ErrRateLimited = ''rate limited''"
| "sentinel_text ErrUpdateTaskActive = ''system update task is already active''"
| "sentinel_text ErrUpdateCheckExpired = ''system update check has expired''"
| "sentinel_text ErrUpdateUnavailable = ''system update is not available''"
| "sentinel_text ErrUpdateTargetMismatch = ''system update target does not match the last check''"
| "sentinel_text ErrNoUpdateAvailable = ''no update available''"
| "sentinel_text ErrPairingRejected = ''pairing rejected''"
| "sentinel_text ErrCommandLeaseRejected = ''command lease rejected''"
| "sentinel_text ErrNotExist = ''file does not exist''"
| "sentinel_text ContextCanceled = ''context canceled''"
| "sentinel_text ContextDeadlineExceeded = ''context deadline exceeded''"

fun error_text :: "go_error \<Rightarrow> string" where
  "error_text (Sentinel t) = sentinel_text t"
| "error_text (Message m) = m"
| "error_text (Wrapped p e) = p @ '': '' @ error_text e"
| "error_text (Joined es) = join (map error_text es) [CHR 0x0A]"

end
