(* ===== verification/ApiServer.thy ===== *)
theory ApiServer
  imports Registry CommandQueue ApiJson SuHttp Security GoTime GoErrors "HOL-Library.AList"
begin

text \<open>
  The HTTP API of the control plane, \<^verbatim>\<open>internal/api\<close>: the server's state and environment, what the
  handlers share, and the checks of their requests.

  A handler makes several calls to the repository, and other requests run in between.  The record
  \<open>api_env\<close> therefore gives, for the k-th call of a request, the behaviour of the database server, the
  time, the random bytes and identifiers drawn, and the changes that other requests made before it.
\<close>

section \<open>Changes of the database\<close>

datatype db_change = StoreChange server store_op | QueueChange server command_op

fun run_change :: "db_change \<Rightarrow> database \<Rightarrow> database" where
  "run_change (StoreChange sv op) db = run_store sv db op"
| "run_change (QueueChange sv op) db = run_op sv db op"

definition run_changes :: "db_change list \<Rightarrow> database \<Rightarrow> database" where
  "run_changes cs db = fold run_change cs db"

fun api_change :: "db_change \<Rightarrow> bool" where
  "api_change (StoreChange sv op) = api_store_op op"
| "api_change (QueueChange sv op) = True"

section \<open>The limiter of pairing requests\<close>

abbreviation pairing_rate_limit :: nat where "pairing_rate_limit \<equiv> 10"
abbreviation pairing_window :: duration where "pairing_window \<equiv> minute"
abbreviation max_windows :: nat where "max_windows \<equiv> 4096"

record rate_window =
  rw_started_at :: time
  rw_count :: nat

type_synonym limiter = "(string \<times> rate_window) list"

definition evict_expired :: "time \<Rightarrow> limiter \<Rightarrow> limiter" where
  "evict_expired now l = filter (\<lambda>(k, w). now < rw_started_at w + pairing_window) l"

definition remote_key :: "string \<Rightarrow> string" where "remote_key a = ''remote:'' @ a"
definition machine_key :: "string \<Rightarrow> string" where "machine_key m = ''machine:'' @ m"

definition window_of :: "limiter \<Rightarrow> string \<Rightarrow> time \<Rightarrow> rate_window" where
  "window_of l k now =
     (case map_of l k of Some w \<Rightarrow> w | None \<Rightarrow> \<lparr>rw_started_at = now, rw_count = 0\<rparr>)"

definition count_up :: "rate_window \<Rightarrow> rate_window" where
  "count_up w = w\<lparr>rw_count := rw_count w + 1\<rparr>"

definition allow :: "string \<Rightarrow> string \<Rightarrow> time \<Rightarrow> limiter \<Rightarrow> bool \<times> limiter" where
  "allow remote machine now l0 =
     (let l = evict_expired now l0; r = remote_key remote; m = machine_key machine;
          rw = window_of l r now; mw = window_of l m now;
          new = (if map_of l r = None then 1 else 0) + (if map_of l m = None then 1 else 0)
      in if pairing_rate_limit \<le> rw_count rw \<or> pairing_rate_limit \<le> rw_count mw then (False, l)
         else if max_windows < length l + new then (False, l)
         else (True, AList.update m (count_up mw) (AList.update r (count_up rw) l)))"

section \<open>State and environment\<close>

record 'u system_updater =
  sy_status :: "'u \<Rightarrow> (client_error + status_view) \<times> 'u"
  sy_check :: "'u \<Rightarrow> (client_error + status_view) \<times> 'u"
  sy_start :: "'u \<Rightarrow> string \<Rightarrow> (client_error + task_view) \<times> 'u"

record 'u api_env =
  ae_server :: "nat \<Rightarrow> server"
  ae_other :: "nat \<Rightarrow> db_change list"
  ae_now :: "nat \<Rightarrow> time"
  ae_uuid :: "nat \<Rightarrow> string"
  ae_random :: "nat \<Rightarrow> string res"
  ae_crypto :: crypto
  ae_aggregates :: aggregates
  ae_semver :: semver
  ae_commands :: bool
  ae_updater :: "'u system_updater option"
  ae_ticks :: nat
  ae_gone :: bool

record 'u api_state =
  as_db :: database
  as_limiter :: limiter
  as_updater :: 'u
  as_log :: "string list"

text \<open>The k-th call to the repository.\<close>

definition repo ::
    "'u api_env \<Rightarrow> nat \<Rightarrow> (server \<Rightarrow> database \<Rightarrow> 'a res \<times> database) \<Rightarrow> 'u api_state \<Rightarrow> 'a res \<times> 'u api_state" where
  "repo env k op s =
     (let (r, db) = op (ae_server env k) (run_changes (ae_other env k) (as_db s)) in (r, s\<lparr>as_db := db\<rparr>))"

definition repo_read ::
    "'u api_env \<Rightarrow> nat \<Rightarrow> (server \<Rightarrow> database \<Rightarrow> 'a res) \<Rightarrow> 'u api_state \<Rightarrow> 'a res \<times> 'u api_state" where
  "repo_read env k q = repo env k (\<lambda>sv db. (q sv db, db))"

section \<open>Responses\<close>

definition write_error :: "go_error \<Rightarrow> http_response" where
  "write_error e =
     (if err_is ErrNotFound e then fixed_response 404 (error_json ''resource not found'')
      else if err_is ErrPairingExpired e then fixed_response 410 (error_json ''pairing expired'')
      else if err_is ErrRateLimited e then fixed_response 429 (error_json ''pairing request rate limit exceeded'')
      else if err_is ErrConflict e then fixed_response 409 (error_json ''resource already exists'')
      else if err_is ErrUnauthorized e \<or> err_is ErrEnrollmentExpired e
      then fixed_response 401 (error_json ''unauthorized'')
      else fixed_response 500 (error_json ''internal server error''))"

definition bad_request :: "string \<Rightarrow> http_response" where
  "bad_request text = fixed_response 400 (error_json text)"

definition unauthorized :: http_response where
  "unauthorized = write_error (Sentinel ErrUnauthorized)"

text \<open>The usual end of a handler: an error is written, a value becomes the response.\<close>

definition reply :: "'a res \<times> 's \<Rightarrow> ('a \<Rightarrow> http_response) \<Rightarrow> http_response \<times> 's" where
  "reply rs f = (case rs of (Inl e, s) \<Rightarrow> (write_error e, s) | (Inr v, s) \<Rightarrow> (f v, s))"

definition items_json :: "('a \<Rightarrow> json) \<Rightarrow> 'a list \<Rightarrow> json" where
  "items_json f xs = JObj [(''items'', JArr (map f xs))]"

section \<open>Reading requests\<close>

text \<open>\<open>ShouldBindJSON\<close>: the first value of the body, under \<^verbatim>\<open>MaxBytesReader\<close> only within its limit.\<close>

definition bind_json :: "nat option \<Rightarrow> 'r field list \<Rightarrow> 'r \<Rightarrow> http_request \<Rightarrow> 'r option" where
  "bind_json limit fs zero rq =
     (case bd_docs (rq_body rq) of
        Some j # _ \<Rightarrow>
          (if (case limit of None \<Rightarrow> True | Some n \<Rightarrow> bd_need (rq_body rq) \<le> n) then read_struct False fs j zero else None)
      | _ \<Rightarrow> None)"

definition bearer_credential :: "http_request \<Rightarrow> string option" where
  "bearer_credential rq =
     (if \<not> has_prefix (rq_authorization rq) bearer \<or> length (rq_authorization rq) = length bearer then None
      else Some (trim_prefix (rq_authorization rq) bearer))"

definition is_pairing_credential :: "string \<Rightarrow> bool" where
  "is_pairing_credential v \<longleftrightarrow> (case base64_decode url_alphabet v of None \<Rightarrow> False | Some raw \<Rightarrow> length raw = 32)"

text \<open>\<open>net.SplitHostPort\<close>: the host in front of the last colon, in brackets when it contains colons.\<close>

definition split_host_port :: "string \<Rightarrow> string option" where
  "split_host_port a =
     (let before = rev (tl (dropWhile (\<lambda>c. c \<noteq> CHR '':'') (rev a)))
      in if CHR '':'' \<notin> set a then None
         else if prefix ''['' a
         then (let host = takeWhile (\<lambda>c. c \<noteq> CHR '']'') (tl a)
               in if CHR '']'' \<in> set (tl a) \<and> before = ''['' @ host @ '']'' \<and>
                     CHR ''['' \<notin> set host \<and> \<not> contains_any (drop (length before) a) ''[]''
                  then Some host else None)
         else if CHR '':'' \<in> set before \<or> contains_any a ''[]'' then None
         else Some before)"

definition pairing_remote_address :: "string \<Rightarrow> string" where
  "pairing_remote_address a = (case split_host_port a of None \<Rightarrow> a | Some host \<Rightarrow> host)"

section \<open>Checks\<close>

definition network_range :: "time \<Rightarrow> string \<Rightarrow> (time \<times> duration) option" where
  "network_range now v =
     (if v = ''24h'' then Some (now - 24 * hour, 5 * minute)
      else if v = ''7d'' then Some (now - 168 * hour, 30 * minute)
      else if v = ''30d'' then Some (now - 720 * hour, 2 * hour)
      else if v = ''90d'' then Some (now - 2160 * hour, 6 * hour)
      else None)"

definition validate_network_usage :: "heartbeat \<Rightarrow> bool" where
  "validate_network_usage h =
     (if \<not> hb_usage_available h
      then hb_usage_day h = [] \<and> hb_today_upload h = 0 \<and> hb_today_download h = 0 \<and>
           hb_month_upload h = 0 \<and> hb_month_download h = 0
      else hb_usage_day h \<noteq> [] \<and> valid_day (hb_usage_day h))"

fun normalize_network_rate :: "go_float \<Rightarrow> go_float" where
  "normalize_network_rate (Finite r) = Finite (if r < 0 then 0 else r)"
| "normalize_network_rate _ = Finite 0"

abbreviation max_agent_log_bytes :: nat where "max_agent_log_bytes \<equiv> 65536"
abbreviation max_command_error_bytes :: nat where "max_command_error_bytes \<equiv> 512"

definition valid_agent_log :: "string \<Rightarrow> bool" where
  "valid_agent_log v \<longleftrightarrow> valid_utf8 v \<and> length v \<le> max_agent_log_bytes"

fun validate_node_ids_from :: "string list \<Rightarrow> string set \<Rightarrow> go_error option" where
  "validate_node_ids_from [] seen = None"
| "validate_node_ids_from (i # ids) seen =
     (if trim_space i = [] then Some (Message ''node_ids contains an empty value'')
      else if i \<in> seen then Some (Message ''node_ids contains a duplicate value'')
      else validate_node_ids_from ids (insert i seen))"

definition validate_command_node_ids :: "string list \<Rightarrow> go_error option" where
  "validate_command_node_ids ids =
     (if ids = [] then Some (Message ''node_ids is required'') else validate_node_ids_from ids {})"

definition valid_completion_payload :: "command_completion \<Rightarrow> bool" where
  "valid_completion_payload c \<longleftrightarrow>
     cc_execution_id c \<noteq> [] \<and> cc_lease_token c \<noteq> [] \<and> status_terminal (cc_status c) \<and>
     0 \<le> cc_duration_ms c \<and> valid_utf8 (cc_output c) \<and> length (cc_output c) \<le> max_command_output_bytes \<and>
     valid_utf8 (cc_error_message c) \<and> length (cc_error_message c) \<le> max_command_error_bytes"

end
