(* ===== verification/ApiHandlers.thy ===== *)
theory ApiHandlers
  imports ApiServer
begin

text \<open>
  The handlers of \<^verbatim>\<open>router.go\<close> and \<^verbatim>\<open>system_update.go\<close>, one definition each, and the routing table.
  Call 0 to the repository is the session check of the owner's routes, the handlers number their own
  calls from 1.
\<close>

section \<open>Accounts\<close>

definition handle_health :: "'u api_env \<Rightarrow> 'u api_state \<Rightarrow> http_response \<times> 'u api_state" where
  "handle_health env s =
     (case repo_read env 1 is_setup s of
        (Inl e, s1) \<Rightarrow> (fixed_response 503 (JObj [(''status'', JStr ''unavailable'')]), s1)
      | (Inr ready, s1) \<Rightarrow> (fixed_response 200 (JObj [(''status'', JStr ''ok'')]), s1))"

definition handle_auth_status :: "'u api_env \<Rightarrow> 'u api_state \<Rightarrow> http_response \<times> 'u api_state" where
  "handle_auth_status env s =
     reply (repo_read env 1 is_setup s) (\<lambda>ready. fixed_response 200 (JObj [(''setup'', JBool ready)]))"

definition session_seconds :: int where "session_seconds = 43200"

definition issue_session ::
    "'u api_env \<Rightarrow> nat \<Rightarrow> owner \<Rightarrow> time \<Rightarrow> 'u api_state \<Rightarrow> string res \<times> 'u api_state" where
  "issue_session env k ow now s =
     (case new_opaque_token (ae_crypto env) (ae_random env k) of
        Inl e \<Rightarrow> (Inl e, s)
      | Inr (plain, hash) \<Rightarrow>
        (case repo env k (\<lambda>sv db. create_session sv db
             \<lparr>se_id = ae_uuid env k, se_owner_id = ow_id ow, se_token_hash = hash,
              se_expires_at = now + 12 * hour, se_created_at = now\<rparr>) s of
           (Inl e, s1) \<Rightarrow> (Inl e, s1)
         | (Inr u, s1) \<Rightarrow> (Inr plain, s1)))"

definition owner_response :: "nat \<Rightarrow> owner \<Rightarrow> http_response" where
  "owner_response code ow = fixed_response code (JObj [(''owner'', write_owner ow)])"

definition session_response :: "nat \<Rightarrow> owner \<Rightarrow> string \<Rightarrow> http_response" where
  "session_response code ow plain = (owner_response code ow)\<lparr>rs_cookie := Some (plain, session_seconds)\<rparr>"

definition handle_setup :: "'u api_env \<Rightarrow> http_request \<Rightarrow> 'u api_state \<Rightarrow> http_response \<times> 'u api_state" where
  "handle_setup env rq s =
     (case repo_read env 1 is_setup s of
        (Inl e, s1) \<Rightarrow> (write_error e, s1)
      | (Inr ready, s1) \<Rightarrow>
        if ready then (write_error (Sentinel ErrConflict), s1)
        else case bind_json None login_fields zero_login rq of
            None \<Rightarrow> (bad_request ''invalid request body'', s1)
          | Some q \<Rightarrow>
            let name = trim_space (lq_username q)
            in if name = [] then (bad_request ''username is required'', s1)
               else case hash_password (ae_crypto env) (ae_random env 1) (lq_password q) of
                   Inl e \<Rightarrow> (bad_request (error_text e), s1)
                 | Inr hash \<Rightarrow>
                   let now = ae_now env 1;
                       ow = \<lparr>ow_id = ae_uuid env 1, ow_username = name, ow_password_hash = hash, ow_created_at = now\<rparr>
                   in case repo env 2 (\<lambda>sv db. create_owner sv db ow) s1 of
                        (Inl e, s2) \<Rightarrow> (write_error e, s2)
                      | (Inr u, s2) \<Rightarrow> reply (issue_session env 3 ow now s2) (session_response 201 ow))"

definition handle_login :: "'u api_env \<Rightarrow> http_request \<Rightarrow> 'u api_state \<Rightarrow> http_response \<times> 'u api_state" where
  "handle_login env rq s =
     (case bind_json None login_fields zero_login rq of
        None \<Rightarrow> (bad_request ''invalid request body'', s)
      | Some q \<Rightarrow>
        (case repo_read env 1 (\<lambda>sv db. owner_by_username sv db (trim_space (lq_username q))) s of
           (Inl e, s1) \<Rightarrow> (unauthorized, s1)
         | (Inr ow, s1) \<Rightarrow>
           if \<not> verify_password (ae_crypto env) (ow_password_hash ow) (lq_password q) then (unauthorized, s1)
           else reply (issue_session env 2 ow (ae_now env 2) s1) (session_response 200 ow)))"

definition handle_me :: "owner \<Rightarrow> 'u api_state \<Rightarrow> http_response \<times> 'u api_state" where
  "handle_me ow s = (owner_response 200 ow, s)"

definition cookie_text :: "http_request \<Rightarrow> string" where
  "cookie_text rq = (case rq_cookie rq of None \<Rightarrow> [] | Some c \<Rightarrow> c)"

definition handle_logout :: "'u api_env \<Rightarrow> http_request \<Rightarrow> 'u api_state \<Rightarrow> http_response \<times> 'u api_state" where
  "handle_logout env rq s =
     reply (repo env 1 (\<lambda>sv db. delete_session sv db (hash_token (ae_crypto env) (cookie_text rq))) s)
       (\<lambda>u. (bare_response 204)\<lparr>rs_cookie := Some ([], -1)\<rparr>)"

definition require_owner :: "'u api_env \<Rightarrow> http_request \<Rightarrow> 'u api_state \<Rightarrow> owner option \<times> 'u api_state" where
  "require_owner env rq s =
     (if cookie_text rq = [] then (None, s)
      else case repo_read env 0 (\<lambda>sv db. owner_by_session_hash sv db
               (hash_token (ae_crypto env) (cookie_text rq)) (ae_now env 0)) s of
          (Inl e, s1) \<Rightarrow> (None, s1)
        | (Inr ow, s1) \<Rightarrow> (Some ow, s1))"

section \<open>Organizations, sites, groups and nodes\<close>

definition handle_list_organizations :: "'u api_env \<Rightarrow> 'u api_state \<Rightarrow> http_response \<times> 'u api_state" where
  "handle_list_organizations env s =
     reply (repo_read env 1 list_organizations s) (\<lambda>xs. fixed_response 200 (items_json write_organization xs))"

definition handle_create_organization :: "'u api_env \<Rightarrow> http_request \<Rightarrow> 'u api_state \<Rightarrow> http_response \<times> 'u api_state" where
  "handle_create_organization env rq s =
     (case bind_json None (text_fields ''name'') [] rq of
        None \<Rightarrow> (bad_request ''invalid request body'', s)
      | Some q \<Rightarrow>
        let name = trim_space q
        in if name = [] then (bad_request ''organization name is required'', s)
           else let x = \<lparr>og_id = ae_uuid env 1, og_name = name, og_created_at = ae_now env 1\<rparr>
             in reply (repo env 1 (\<lambda>sv db. create_organization sv db x) s) (\<lambda>u. fixed_response 201 (write_organization x)))"

definition handle_list_sites :: "'u api_env \<Rightarrow> 'u api_state \<Rightarrow> http_response \<times> 'u api_state" where
  "handle_list_sites env s = reply (repo_read env 1 list_sites s) (\<lambda>xs. fixed_response 200 (items_json write_site xs))"

definition handle_create_site :: "'u api_env \<Rightarrow> http_request \<Rightarrow> 'u api_state \<Rightarrow> http_response \<times> 'u api_state" where
  "handle_create_site env rq s =
     (case bind_json None site_request_fields zero_site_request rq of
        None \<Rightarrow> (bad_request ''invalid request body'', s)
      | Some q \<Rightarrow>
        let name = trim_space (sq_name q)
        in if sq_organization_id q = [] \<or> name = [] then (bad_request ''organization_id and name are required'', s)
           else let x = \<lparr>si_id = ae_uuid env 1, si_organization_id = sq_organization_id q, si_name = name,
                         si_created_at = ae_now env 1\<rparr>
             in reply (repo env 1 (\<lambda>sv db. create_site sv db x) s) (\<lambda>u. fixed_response 201 (write_site x)))"

definition handle_list_groups :: "'u api_env \<Rightarrow> 'u api_state \<Rightarrow> http_response \<times> 'u api_state" where
  "handle_list_groups env s = reply (repo_read env 1 list_groups s) (\<lambda>xs. fixed_response 200 (items_json write_group xs))"

definition handle_create_group :: "'u api_env \<Rightarrow> http_request \<Rightarrow> 'u api_state \<Rightarrow> http_response \<times> 'u api_state" where
  "handle_create_group env rq s =
     (case bind_json None (text_fields ''name'') [] rq of
        None \<Rightarrow> (bad_request ''invalid request body'', s)
      | Some q \<Rightarrow>
        let name = trim_space q
        in if name = [] then (bad_request ''group name is required'', s)
           else let x = \<lparr>ng_id = ae_uuid env 1, ng_site_id = [], ng_name = name, ng_created_at = ae_now env 1\<rparr>
             in reply (repo env 1 (\<lambda>sv db. create_group sv db x) s) (\<lambda>u. fixed_response 201 (write_group x)))"

definition handle_list_nodes :: "'u api_env \<Rightarrow> 'u api_state \<Rightarrow> http_response \<times> 'u api_state" where
  "handle_list_nodes env s =
     reply (repo_read env 1 list_nodes s)
       (\<lambda>xs. fixed_response 200 (JObj [(''items'', JArr (map write_node xs)), (''server_time'', JTime (ae_now env 1))]))"

definition node_response :: "nat \<Rightarrow> node \<Rightarrow> http_response" where
  "node_response code n = fixed_response code (JObj [(''node'', write_node n)])"

definition handle_update_remark ::
    "'u api_env \<Rightarrow> string \<Rightarrow> http_request \<Rightarrow> 'u api_state \<Rightarrow> http_response \<times> 'u api_state" where
  "handle_update_remark env i rq s =
     (case bind_json None (text_fields ''remark'') [] rq of
        None \<Rightarrow> (bad_request ''invalid request body'', s)
      | Some q \<Rightarrow>
        let remark = trim_space q
        in if 500 < rune_count remark then (bad_request ''remark must not exceed 500 characters'', s)
           else reply (repo env 1 (\<lambda>sv db. update_node_remark sv db i remark) s) (node_response 200))"

definition handle_agent_logs :: "'u api_env \<Rightarrow> string \<Rightarrow> 'u api_state \<Rightarrow> http_response \<times> 'u api_state" where
  "handle_agent_logs env i s =
     reply (repo_read env 1 (\<lambda>sv db. get_agent_logs sv db i) s) (\<lambda>x. fixed_response 200 (write_logs x))"

definition handle_network_history ::
    "'u api_env \<Rightarrow> string \<Rightarrow> http_request \<Rightarrow> 'u api_state \<Rightarrow> http_response \<times> 'u api_state" where
  "handle_network_history env i rq s =
     (case network_range (ae_now env 1) (rq_range rq) of
        None \<Rightarrow> (bad_request ''invalid range'', s)
      | Some (since, bucket) \<Rightarrow>
        reply (repo_read env 1 (\<lambda>sv db. list_network_history sv (ae_aggregates env) db i since bucket) s)
          (\<lambda>xs. fixed_response 200 (JObj
             [(''node_id'', JStr i), (''range'', JStr (rq_range rq)), (''unit'', JStr ''MB/s''),
              (''points'', JArr (map write_history xs))])))"

definition handle_network_summary ::
    "'u api_env \<Rightarrow> http_request \<Rightarrow> 'u api_state \<Rightarrow> http_response \<times> 'u api_state" where
  "handle_network_summary env rq s =
     (case network_range (ae_now env 1) (rq_range rq) of
        None \<Rightarrow> (bad_request ''invalid range'', s)
      | Some (since, bucket) \<Rightarrow>
        reply (repo_read env 1 (\<lambda>sv db. list_network_summary sv (ae_aggregates env) db since) s)
          (\<lambda>xs. fixed_response 200 (JObj
             [(''range'', JStr (rq_range rq)), (''unit'', JStr ''MB/s''), (''items'', JArr (map write_summary xs))])))"

section \<open>Enrolment and pairing\<close>

definition handle_create_enrollment :: "'u api_env \<Rightarrow> http_request \<Rightarrow> 'u api_state \<Rightarrow> http_response \<times> 'u api_state" where
  "handle_create_enrollment env rq s =
     (case bind_json None enrollment_request_fields zero_enrollment_request rq of
        None \<Rightarrow> (bad_request ''invalid request body'', s)
      | Some q \<Rightarrow>
        if eq_group_id q = [] \<or> eq_expires_minutes q < 1 \<or> 10080 < eq_expires_minutes q \<or>
           eq_max_uses q < 1 \<or> 100 < eq_max_uses q
        then (bad_request ''invalid enrollment limits'', s)
        else case new_opaque_token (ae_crypto env) (ae_random env 1) of
            Inl e \<Rightarrow> (write_error e, s)
          | Inr (plain, hash) \<Rightarrow>
            let now = ae_now env 1;
                x = \<lparr>en_id = ae_uuid env 1, en_group_id = eq_group_id q, en_token_hash = hash,
                     en_expires_at = now + eq_expires_minutes q * minute, en_max_uses = eq_max_uses q,
                     en_uses = 0, en_created_at = now\<rparr>
            in reply (repo env 1 (\<lambda>sv db. create_enrollment sv db x) s)
                 (\<lambda>u. fixed_response 201 (JObj [(''enrollment'', write_enrollment x), (''token'', JStr plain)])))"

definition handle_enroll_agent :: "'u api_env \<Rightarrow> http_request \<Rightarrow> 'u api_state \<Rightarrow> http_response \<times> 'u api_state" where
  "handle_enroll_agent env rq s =
     (case bind_json None enroll_fields zero_enroll rq of
        None \<Rightarrow> (bad_request ''invalid request body'', s)
      | Some q0 \<Rightarrow>
        let q = q0\<lparr>er_hostname := trim_space (er_hostname q0)\<rparr>
        in if er_token q = [] \<or> er_hostname q = [] \<or> er_version q = []
           then (bad_request ''token, hostname and version are required'', s)
           else case validate_node_type (er_type q) of
               Some e \<Rightarrow> (bad_request (error_text e), s)
             | None \<Rightarrow>
               (case new_opaque_token (ae_crypto env) (ae_random env 1) of
                  Inl e \<Rightarrow> (write_error e, s)
                | Inr (plain, hash) \<Rightarrow>
                  reply (repo env 1 (\<lambda>sv db. enroll_node sv db (hash_token (ae_crypto env) (er_token q)) hash q (ae_now env 1)) s)
                    (\<lambda>n. fixed_response 201 (JObj [(''node'', write_node n), (''credential'', JStr plain)]))))"

text \<open>The log line of a pairing: the machine identifier appears only as the head of its hash.\<close>

definition log_pairing :: "crypto \<Rightarrow> string \<Rightarrow> string \<Rightarrow> pairing_state \<Rightarrow> string" where
  "log_pairing cy i machine st =
     ''pairing id='' @ i @ '' machine_hash='' @ (if machine = [] then [] else take 12 (hash_token cy machine)) @
     '' state='' @ pairing_text st"

definition logged :: "string \<Rightarrow> 'u api_state \<Rightarrow> 'u api_state" where
  "logged line s = s\<lparr>as_log := as_log s @ [line]\<rparr>"

definition handle_create_pairing :: "'u api_env \<Rightarrow> http_request \<Rightarrow> 'u api_state \<Rightarrow> http_response \<times> 'u api_state" where
  "handle_create_pairing env rq s =
     (case bind_json None pairing_create_fields zero_pairing_create rq of
        None \<Rightarrow> (bad_request ''invalid request body'', s)
      | Some q \<Rightarrow>
        let host = trim_space (pc_hostname q); machine = trim_space (pc_machine_id q); version = trim_space (pc_agent_version q)
        in if host = [] \<or> machine = [] \<or> version = [] \<or> pc_pairing_credential q = []
           then (bad_request ''hostname, machine_id, agent_version and pairing_credential are required'', s)
           else if \<not> is_pairing_credential (pc_pairing_credential q)
           then (bad_request ''pairing_credential must be a 32-byte base64url value'', s)
           else case validate_node_type (pc_type q) of
               Some e \<Rightarrow> (bad_request (error_text e), s)
             | None \<Rightarrow>
               let (ok, l) = allow (pairing_remote_address (rq_remote rq)) machine (ae_now env 1) (as_limiter s);
                   s1 = s\<lparr>as_limiter := l\<rparr>
               in if \<not> ok then (write_error (Sentinel ErrRateLimited), s1)
                  else case repo env 1 (\<lambda>sv db. create_pairing_request sv db
                         \<lparr>pr_id = ae_uuid env 1, pr_machine_id = machine, pr_hostname = host, pr_type = pc_type q,
                          pr_agent_version = version,
                          pr_credential_hash = hash_token (ae_crypto env) (pc_pairing_credential q),
                          pr_state = PairingPending, pr_existing_node = None, pr_group_id = [], pr_created_at = 0,
                          pr_expires_at = 0, pr_decided_at = None\<rparr> (ae_now env 1)) s1 of
                      (Inl e, s2) \<Rightarrow> (write_error e, s2)
                    | (Inr p, s2) \<Rightarrow>
                      (fixed_response 201 (JObj
                         [(''pairing_id'', JStr (pr_id p)), (''state'', JStr (pairing_text (pr_state p))),
                          (''expires_at'', JTime (pr_expires_at p)), (''poll_after_seconds'', JInt 5)]),
                       logged (log_pairing (ae_crypto env) (pr_id p) (pr_machine_id p) (pr_state p)) s2))"

definition handle_poll_pairing ::
    "'u api_env \<Rightarrow> string \<Rightarrow> http_request \<Rightarrow> 'u api_state \<Rightarrow> http_response \<times> 'u api_state" where
  "handle_poll_pairing env i rq s =
     (case bearer_credential rq of
        None \<Rightarrow> (unauthorized, s)
      | Some credential \<Rightarrow>
        (case repo env 1 (\<lambda>sv db. get_pairing_request sv db i (hash_token (ae_crypto env) credential) (ae_now env 1)) s of
           (Inl e, s1) \<Rightarrow> (write_error e, s1)
         | (Inr p, s1) \<Rightarrow>
           let answer = \<lparr>pp_id = pr_id p, pp_state = pr_state p,
                         pp_node = (if pr_state p = PairingApproved then pr_existing_node p else None),
                         pp_expires_at = pr_expires_at p\<rparr>;
               code = (if pr_state p = PairingRejected \<or> pr_state p = PairingExpired then 410 else 200)
           in (fixed_response code (write_poll answer),
               logged (log_pairing (ae_crypto env) (pr_id p) (pr_machine_id p) (pr_state p)) s1)))"

definition handle_list_pairings :: "'u api_env \<Rightarrow> 'u api_state \<Rightarrow> http_response \<times> 'u api_state" where
  "handle_list_pairings env s =
     reply (repo env 1 (\<lambda>sv db. list_pending_pairing_requests sv db (ae_now env 1)) s)
       (\<lambda>xs. fixed_response 200 (items_json write_pairing xs))"

definition handle_approve_pairing ::
    "'u api_env \<Rightarrow> string \<Rightarrow> http_request \<Rightarrow> 'u api_state \<Rightarrow> http_response \<times> 'u api_state" where
  "handle_approve_pairing env i rq s =
     (case bind_json None approval_fields zero_approval rq of
        None \<Rightarrow> (bad_request ''invalid request body'', s)
      | Some q \<Rightarrow>
        let gid = trim_space (aq_group_id q); remark = trim_space (aq_remark q)
        in if gid = [] then (bad_request ''group_id is required'', s)
           else case repo env 1 (\<lambda>sv db. approve_pairing_request sv db i gid remark (ae_now env 1)) s of
               (Inl e, s1) \<Rightarrow> (write_error e, s1)
             | (Inr n, s1) \<Rightarrow>
               (fixed_response 200 (JObj
                  [(''node'', write_node n),
                   (''pairing'', JObj [(''id'', JStr i), (''state'', JStr (pairing_text PairingApproved)),
                      (''group_id'', JStr gid), (''remark'', JStr remark)])]),
                logged (log_pairing (ae_crypto env) i [] PairingApproved) s1))"

definition handle_reject_pairing :: "'u api_env \<Rightarrow> string \<Rightarrow> 'u api_state \<Rightarrow> http_response \<times> 'u api_state" where
  "handle_reject_pairing env i s =
     (case repo env 1 (\<lambda>sv db. reject_pairing_request sv db i (ae_now env 1)) s of
        (Inl e, s1) \<Rightarrow> (write_error e, s1)
      | (Inr u, s1) \<Rightarrow> (bare_response 204, logged (log_pairing (ae_crypto env) i [] PairingRejected) s1))"

section \<open>Reports of the Agents\<close>

definition handle_heartbeat :: "'u api_env \<Rightarrow> http_request \<Rightarrow> 'u api_state \<Rightarrow> http_response \<times> 'u api_state" where
  "handle_heartbeat env rq s =
     (case bearer_credential rq of
        None \<Rightarrow> (unauthorized, s)
      | Some credential \<Rightarrow>
        (case bind_json None heartbeat_fields zero_heartbeat rq of
           None \<Rightarrow> (bad_request ''invalid request body'', s)
         | Some h0 \<Rightarrow>
           if \<not> validate_network_usage h0 then (bad_request ''invalid network usage'', s)
           else let h = h0\<lparr>hb_upload_rate := normalize_network_rate (hb_upload_rate h0),
                           hb_download_rate := normalize_network_rate (hb_download_rate h0)\<rparr>
             in reply (repo env 1 (\<lambda>sv db. record_heartbeat sv db (hash_token (ae_crypto env) credential) h (ae_now env 1)) s)
                  (node_response 200)))"

definition handle_record_logs :: "'u api_env \<Rightarrow> http_request \<Rightarrow> 'u api_state \<Rightarrow> http_response \<times> 'u api_state" where
  "handle_record_logs env rq s =
     (case bearer_credential rq of
        None \<Rightarrow> (unauthorized, s)
      | Some credential \<Rightarrow>
        (case bind_json (Some 163840) log_fields zero_logs rq of
           None \<Rightarrow> (bad_request ''invalid log upload'', s)
         | Some logs \<Rightarrow>
           if \<not> valid_agent_log (lu_agent_log logs) \<or> \<not> valid_agent_log (lu_update_log logs)
           then (bad_request ''log entries must be valid UTF-8 and not exceed 64 KiB'', s)
           else reply (repo env 1 (\<lambda>sv db. record_agent_logs sv db (hash_token (ae_crypto env) credential) logs (ae_now env 1)) s)
             (\<lambda>x. fixed_response 200 (JObj [(''accepted'', JBool True), (''captured_at'', JTime (ls_captured_at x))]))))"

end
