(* ===== verification/ApiCommands.thy ===== *)
theory ApiCommands
  imports ApiHandlers
begin

text \<open>
  The handlers of remote commands and of the system update, and the routing table of
  \<^verbatim>\<open>NewRouterWithOptions\<close>.  The long poll of an Agent makes \<open>ae_ticks\<close> further attempts before its timer
  fires or, with \<open>ae_gone\<close>, its request ends; then nothing is written.
\<close>

section \<open>Remote commands\<close>

definition no_commands :: http_response where
  "no_commands = write_error (Message ''command repository unavailable'')"

definition accepted :: json where
  "accepted = JObj [(''accepted'', JBool True)]"

definition handle_create_command ::
    "'u api_env \<Rightarrow> owner \<Rightarrow> http_request \<Rightarrow> 'u api_state \<Rightarrow> http_response \<times> 'u api_state" where
  "handle_create_command env ow rq s =
     (if \<not> ae_commands env then (no_commands, s)
      else case bind_json (Some 65536) command_request_fields zero_command_request rq of
          None \<Rightarrow> (bad_request ''invalid command request'', s)
        | Some q \<Rightarrow>
          (case validate_command_node_ids (cq_node_ids q) of
             Some e \<Rightarrow> (bad_request (error_text e), s)
           | None \<Rightarrow>
             (case validate_command (cq_shell q) (cq_command q) (cq_timeout q) of
                Some e \<Rightarrow> (bad_request (error_text e), s)
              | None \<Rightarrow>
                reply (repo env 1 (\<lambda>sv db. create_command sv db
                    \<lparr>ct_id = ae_uuid env 1, ct_shell = cq_shell q, ct_command = cq_command q,
                     ct_timeout = cq_timeout q, ct_created_by = ow_id ow, ct_retried_from = None,
                     ct_created_at = ae_now env 1, ct_target_count = 0, ct_counts = \<lparr>cn_queued = 0, cn_leased = 0,
                       cn_running = 0, cn_succeeded = 0, cn_failed = 0, cn_timed_out = 0\<rparr>\<rparr> (cq_node_ids q)) s)
                  (\<lambda>d. fixed_response 201 (write_detail d)))))"

definition handle_list_commands :: "'u api_env \<Rightarrow> 'u api_state \<Rightarrow> http_response \<times> 'u api_state" where
  "handle_list_commands env s =
     (if \<not> ae_commands env then (no_commands, s)
      else reply (repo_read env 1 (\<lambda>sv db. list_commands sv db 100) s)
        (\<lambda>xs. fixed_response 200 (items_json write_command_task xs)))"

definition handle_get_command :: "'u api_env \<Rightarrow> string \<Rightarrow> 'u api_state \<Rightarrow> http_response \<times> 'u api_state" where
  "handle_get_command env i s =
     (if \<not> ae_commands env then (no_commands, s)
      else reply (repo_read env 1 (\<lambda>sv db. get_command sv db i) s) (\<lambda>d. fixed_response 200 (write_detail d)))"

definition handle_retry_command ::
    "'u api_env \<Rightarrow> owner \<Rightarrow> string \<Rightarrow> 'u api_state \<Rightarrow> http_response \<times> 'u api_state" where
  "handle_retry_command env ow i s =
     (if \<not> ae_commands env then (no_commands, s)
      else reply (repo env 1 (\<lambda>sv db. retry_command sv db
          \<lparr>ct_id = ae_uuid env 1, ct_shell = OtherShell [], ct_command = [], ct_timeout = 0, ct_created_by = ow_id ow,
           ct_retried_from = None, ct_created_at = ae_now env 1, ct_target_count = 0, ct_counts = \<lparr>cn_queued = 0,
             cn_leased = 0, cn_running = 0, cn_succeeded = 0, cn_failed = 0, cn_timed_out = 0\<rparr>\<rparr> i) s)
        (\<lambda>d. fixed_response 201 (write_detail d)))"

definition command_lease :: duration where "command_lease = 35 * minute"

text \<open>One attempt of the long poll: call \<open>k\<close>.\<close>

definition claim_attempt ::
    "'u api_env \<Rightarrow> string \<Rightarrow> nat \<Rightarrow> 'u api_state \<Rightarrow> command_claim option res \<times> 'u api_state" where
  "claim_attempt env credential k s =
     (case new_opaque_token (ae_crypto env) (ae_random env k) of
        Inl e \<Rightarrow> (Inl e, s)
      | Inr (plain, hash) \<Rightarrow>
        (case repo env k (\<lambda>sv db. claim_command sv db (hash_token (ae_crypto env) credential) hash (ae_now env k) command_lease) s of
           (Inl e, s1) \<Rightarrow> (Inl e, s1)
         | (Inr None, s1) \<Rightarrow> (Inr None, s1)
         | (Inr (Some c), s1) \<Rightarrow> (Inr (Some (c\<lparr>cl_lease_token := plain\<rparr>)), s1)))"

fun poll_claim ::
    "'u api_env \<Rightarrow> string \<Rightarrow> nat \<Rightarrow> nat \<Rightarrow> 'u api_state \<Rightarrow> http_response option \<times> 'u api_state" where
  "poll_claim env credential k ticks s =
     (case claim_attempt env credential k s of
        (Inl e, s1) \<Rightarrow> (Some (write_error e), s1)
      | (Inr (Some c), s1) \<Rightarrow> (Some (fixed_response 200 (write_claim c)), s1)
      | (Inr None, s1) \<Rightarrow>
        (case ticks of
           0 \<Rightarrow> (if ae_gone env then None else Some (bare_response 204), s1)
         | Suc n \<Rightarrow> poll_claim env credential (k + 1) n s1))"

declare poll_claim.simps [simp del]

definition handle_claim_command ::
    "'u api_env \<Rightarrow> http_request \<Rightarrow> 'u api_state \<Rightarrow> http_response option \<times> 'u api_state" where
  "handle_claim_command env rq s =
     (if \<not> ae_commands env then (Some no_commands, s)
      else case bearer_credential rq of
          None \<Rightarrow> (Some unauthorized, s)
        | Some credential \<Rightarrow> poll_claim env credential 1 (ae_ticks env) s)"

definition handle_start_command ::
    "'u api_env \<Rightarrow> string \<Rightarrow> http_request \<Rightarrow> 'u api_state \<Rightarrow> http_response \<times> 'u api_state" where
  "handle_start_command env i rq s =
     (if \<not> ae_commands env then (no_commands, s)
      else case bearer_credential rq of
          None \<Rightarrow> (unauthorized, s)
        | Some credential \<Rightarrow>
          (case bind_json (Some 4096) (text_fields ''lease_token'') [] rq of
             None \<Rightarrow> (bad_request ''lease_token is required'', s)
           | Some token \<Rightarrow>
             if token = [] then (bad_request ''lease_token is required'', s)
             else reply (repo env 1 (\<lambda>sv db. start_command sv db (hash_token (ae_crypto env) credential) i
                    (hash_token (ae_crypto env) token) (ae_now env 1)) s)
                  (\<lambda>u. fixed_response 200 accepted)))"

definition handle_complete_command ::
    "'u api_env \<Rightarrow> string \<Rightarrow> http_request \<Rightarrow> 'u api_state \<Rightarrow> http_response \<times> 'u api_state" where
  "handle_complete_command env i rq s =
     (if \<not> ae_commands env then (no_commands, s)
      else case bearer_credential rq of
          None \<Rightarrow> (unauthorized, s)
        | Some credential \<Rightarrow>
          (case bind_json (Some 307200) completion_fields zero_completion rq of
             None \<Rightarrow> (bad_request ''invalid command completion'', s)
           | Some c0 \<Rightarrow>
             let c = c0\<lparr>cc_execution_id := i\<rparr>
             in if \<not> valid_completion_payload c then (bad_request ''invalid command completion'', s)
                else reply (repo env 1 (\<lambda>sv db. complete_command sv db (hash_token (ae_crypto env) credential)
                       (hash_token (ae_crypto env) (cc_lease_token c)) (c\<lparr>cc_lease_token := []\<rparr>) (ae_now env 1)) s)
                     (\<lambda>u. fixed_response 200 accepted)))"

section \<open>System update (system_update.go)\<close>

definition update_unavailable :: http_response where
  "update_unavailable = fixed_response 503 (error_json ''update service unavailable'')"

definition invalid_update :: http_response where
  "invalid_update = fixed_response 400 (error_json ''invalid update request'')"

definition write_update_error :: "client_error \<Rightarrow> http_response" where
  "write_update_error e =
     (if client_error_is ErrConflictResponse e then fixed_response 409 (error_json ''update cannot be started'')
      else update_unavailable)"

definition has_update_body :: "body \<Rightarrow> bool" where
  "has_update_body b \<longleftrightarrow> bd_failed b \<or> bd_size b \<noteq> 0"

definition invalid_check_body :: "body \<Rightarrow> bool" where
  "invalid_check_body b \<longleftrightarrow> bd_failed b \<or> 1024 < bd_size b \<or> bd_size b \<noteq> 0 \<and> bd_docs b \<noteq> [Some (JObj [])]"

text \<open>A call to the updater and its answer.\<close>

definition call_updater ::
    "'u api_env \<Rightarrow> ('u system_updater \<Rightarrow> 'u \<Rightarrow> (client_error + 'v) \<times> 'u) \<Rightarrow> nat \<Rightarrow> ('v \<Rightarrow> json) \<Rightarrow> 'u api_state \<Rightarrow>
     http_response \<times> 'u api_state" where
  "call_updater env op code write s =
     (case ae_updater env of
        None \<Rightarrow> (update_unavailable, s)
      | Some u \<Rightarrow>
        let (r, t) = op u (as_updater s); s1 = s\<lparr>as_updater := t\<rparr>
        in (case r of Inl e \<Rightarrow> write_update_error e | Inr v \<Rightarrow> fixed_response code (write v), s1))"

definition handle_update_status :: "'u api_env \<Rightarrow> http_request \<Rightarrow> 'u api_state \<Rightarrow> http_response \<times> 'u api_state" where
  "handle_update_status env rq s =
     (if has_update_body (rq_body rq) then (invalid_update, s) else call_updater env sy_status 200 write_status s)"

definition handle_check_update :: "'u api_env \<Rightarrow> http_request \<Rightarrow> 'u api_state \<Rightarrow> http_response \<times> 'u api_state" where
  "handle_check_update env rq s =
     (if invalid_check_body (rq_body rq) then (invalid_update, s) else call_updater env sy_check 200 write_status s)"

definition decode_update_request :: "body \<Rightarrow> string option" where
  "decode_update_request b =
     (case read_single 1024 b of
        None \<Rightarrow> None | Some j \<Rightarrow> read_struct True start_request_fields j [])"

definition handle_start_update :: "'u api_env \<Rightarrow> http_request \<Rightarrow> 'u api_state \<Rightarrow> http_response \<times> 'u api_state" where
  "handle_start_update env rq s =
     (case decode_update_request (rq_body rq) of
        None \<Rightarrow> (invalid_update, s)
      | Some target \<Rightarrow>
        if validate_version (ae_semver env) target \<noteq> None then (invalid_update, s)
        else call_updater env (\<lambda>u t. sy_start u t target) 202 write_task s)"

section \<open>The router\<close>

datatype owner_route =
    RMe | RLogout | RListOrganizations | RCreateOrganization | RListSites | RCreateSite | RListGroups | RCreateGroup
  | RListNodes | RUpdateRemark string | RAgentLogs string | RNetworkHistory string | RNetworkSummary
  | RCreateEnrollment | RListPairings | RApprovePairing string | RRejectPairing string
  | RCreateCommand | RListCommands | RGetCommand string | RRetryCommand string
  | RUpdateStatus | RCheckUpdate | RStartUpdate

datatype api_route =
    RHealth | RAuthStatus | RSetup | RLogin | ROwner owner_route
  | REnroll | RCreatePairing | RPollPairing string | RHeartbeat | RRecordLogs
  | RClaimCommand | RStartCommand string | RCompleteCommand string

text \<open>The paths below \<^verbatim>\<open>/api/v1\<close>; a parameter is a segment that is not empty.\<close>

definition with_id :: "string \<Rightarrow> (string \<Rightarrow> 'r) \<Rightarrow> 'r option" where
  "with_id i r = (if i = [] then None else Some (r i))"

definition get_route :: "string list \<Rightarrow> api_route option" where
  "get_route p =
     (if p = [''health''] then Some RHealth
      else if p = [''auth'', ''status''] then Some RAuthStatus
      else if p = [''auth'', ''me''] then Some (ROwner RMe)
      else if p = [''organizations''] then Some (ROwner RListOrganizations)
      else if p = [''sites''] then Some (ROwner RListSites)
      else if p = [''groups''] then Some (ROwner RListGroups)
      else if p = [''nodes''] then Some (ROwner RListNodes)
      else if p = [''network'', ''summary''] then Some (ROwner RNetworkSummary)
      else if p = [''pairings''] then Some (ROwner RListPairings)
      else if p = [''commands''] then Some (ROwner RListCommands)
      else if p = [''system'', ''update''] then Some (ROwner RUpdateStatus)
      else case p of
          [a, i] \<Rightarrow> if a = ''commands'' then with_id i (\<lambda>i. ROwner (RGetCommand i)) else None
        | [a, i, b] \<Rightarrow>
            if a = ''nodes'' \<and> b = ''logs'' then with_id i (\<lambda>i. ROwner (RAgentLogs i))
            else if a = ''nodes'' \<and> b = ''network-history'' then with_id i (\<lambda>i. ROwner (RNetworkHistory i))
            else if a = ''agent'' \<and> i = ''pairings'' then with_id b RPollPairing else None
        | _ \<Rightarrow> None)"

definition post_route :: "string list \<Rightarrow> api_route option" where
  "post_route p =
     (if p = [''auth'', ''setup''] then Some RSetup
      else if p = [''auth'', ''login''] then Some RLogin
      else if p = [''auth'', ''logout''] then Some (ROwner RLogout)
      else if p = [''organizations''] then Some (ROwner RCreateOrganization)
      else if p = [''sites''] then Some (ROwner RCreateSite)
      else if p = [''groups''] then Some (ROwner RCreateGroup)
      else if p = [''enrollments''] then Some (ROwner RCreateEnrollment)
      else if p = [''commands''] then Some (ROwner RCreateCommand)
      else if p = [''system'', ''update'', ''check''] then Some (ROwner RCheckUpdate)
      else if p = [''system'', ''update''] then Some (ROwner RStartUpdate)
      else if p = [''agent'', ''enroll''] then Some REnroll
      else if p = [''agent'', ''pairings''] then Some RCreatePairing
      else if p = [''agent'', ''heartbeat''] then Some RHeartbeat
      else if p = [''agent'', ''logs''] then Some RRecordLogs
      else if p = [''agent'', ''commands'', ''claim''] then Some RClaimCommand
      else case p of
          [a, i, b] \<Rightarrow>
            if a = ''pairings'' \<and> b = ''approve'' then with_id i (\<lambda>i. ROwner (RApprovePairing i))
            else if a = ''pairings'' \<and> b = ''reject'' then with_id i (\<lambda>i. ROwner (RRejectPairing i))
            else if a = ''commands'' \<and> b = ''retry'' then with_id i (\<lambda>i. ROwner (RRetryCommand i))
            else None
        | [a, b, i, c] \<Rightarrow>
            if a = ''agent'' \<and> b = ''commands'' \<and> c = ''start'' then with_id i RStartCommand
            else if a = ''agent'' \<and> b = ''commands'' \<and> c = ''complete'' then with_id i RCompleteCommand
            else None
        | _ \<Rightarrow> None)"

definition route :: "string \<Rightarrow> string \<Rightarrow> api_route option" where
  "route method path =
     (case split_at (CHR ''/'') path of
        e # a # v # p \<Rightarrow>
          if e \<noteq> [] \<or> a \<noteq> ''api'' \<or> v \<noteq> ''v1'' then None
          else if method = ''GET'' then get_route p
          else if method = ''POST'' then post_route p
          else if method = ''PATCH''
          then (case p of [n, i] \<Rightarrow> if n = ''nodes'' then with_id i (\<lambda>i. ROwner (RUpdateRemark i)) else None | _ \<Rightarrow> None)
          else None
      | _ \<Rightarrow> None)"

fun serve_owner ::
    "'u api_env \<Rightarrow> http_request \<Rightarrow> owner \<Rightarrow> owner_route \<Rightarrow> 'u api_state \<Rightarrow> http_response \<times> 'u api_state" where
  "serve_owner env rq ow RMe s = handle_me ow s"
| "serve_owner env rq ow RLogout s = handle_logout env rq s"
| "serve_owner env rq ow RListOrganizations s = handle_list_organizations env s"
| "serve_owner env rq ow RCreateOrganization s = handle_create_organization env rq s"
| "serve_owner env rq ow RListSites s = handle_list_sites env s"
| "serve_owner env rq ow RCreateSite s = handle_create_site env rq s"
| "serve_owner env rq ow RListGroups s = handle_list_groups env s"
| "serve_owner env rq ow RCreateGroup s = handle_create_group env rq s"
| "serve_owner env rq ow RListNodes s = handle_list_nodes env s"
| "serve_owner env rq ow (RUpdateRemark i) s = handle_update_remark env i rq s"
| "serve_owner env rq ow (RAgentLogs i) s = handle_agent_logs env i s"
| "serve_owner env rq ow (RNetworkHistory i) s = handle_network_history env i rq s"
| "serve_owner env rq ow RNetworkSummary s = handle_network_summary env rq s"
| "serve_owner env rq ow RCreateEnrollment s = handle_create_enrollment env rq s"
| "serve_owner env rq ow RListPairings s = handle_list_pairings env s"
| "serve_owner env rq ow (RApprovePairing i) s = handle_approve_pairing env i rq s"
| "serve_owner env rq ow (RRejectPairing i) s = handle_reject_pairing env i s"
| "serve_owner env rq ow RCreateCommand s = handle_create_command env ow rq s"
| "serve_owner env rq ow RListCommands s = handle_list_commands env s"
| "serve_owner env rq ow (RGetCommand i) s = handle_get_command env i s"
| "serve_owner env rq ow (RRetryCommand i) s = handle_retry_command env ow i s"
| "serve_owner env rq ow RUpdateStatus s = handle_update_status env rq s"
| "serve_owner env rq ow RCheckUpdate s = handle_check_update env rq s"
| "serve_owner env rq ow RStartUpdate s = handle_start_update env rq s"

definition answered_by :: "http_response \<times> 's \<Rightarrow> http_response option \<times> 's" where
  "answered_by x = map_prod Some id x"

fun serve_route ::
    "'u api_env \<Rightarrow> http_request \<Rightarrow> api_route \<Rightarrow> 'u api_state \<Rightarrow> http_response option \<times> 'u api_state" where
  "serve_route env rq RHealth s = answered_by (handle_health env s)"
| "serve_route env rq RAuthStatus s = answered_by (handle_auth_status env s)"
| "serve_route env rq RSetup s = answered_by (handle_setup env rq s)"
| "serve_route env rq RLogin s = answered_by (handle_login env rq s)"
| "serve_route env rq (ROwner r) s =
     (case require_owner env rq s of
        (None, s1) \<Rightarrow> (Some unauthorized, s1)
      | (Some ow, s1) \<Rightarrow> answered_by (serve_owner env rq ow r s1))"
| "serve_route env rq REnroll s = answered_by (handle_enroll_agent env rq s)"
| "serve_route env rq RCreatePairing s = answered_by (handle_create_pairing env rq s)"
| "serve_route env rq (RPollPairing i) s = answered_by (handle_poll_pairing env i rq s)"
| "serve_route env rq RHeartbeat s = answered_by (handle_heartbeat env rq s)"
| "serve_route env rq RRecordLogs s = answered_by (handle_record_logs env rq s)"
| "serve_route env rq RClaimCommand s = handle_claim_command env rq s"
| "serve_route env rq (RStartCommand i) s = answered_by (handle_start_command env i rq s)"
| "serve_route env rq (RCompleteCommand i) s = answered_by (handle_complete_command env i rq s)"

definition serve_api :: "'u api_env \<Rightarrow> http_request \<Rightarrow> 'u api_state \<Rightarrow> http_response option \<times> 'u api_state" where
  "serve_api env rq s =
     (case route (rq_method rq) (rq_path rq) of
        None \<Rightarrow> (Some (bare_response 404), s)
      | Some r \<Rightarrow> serve_route env rq r s)"

end
