(* ===== verification/RegistryTheorems.thy ===== *)
theory RegistryTheorems
  imports Registry
begin

text \<open>
  The properties of pairing, enrolment and heartbeats: how a device becomes a node, that a
  decision about it is taken once, and that a credential speaks for one node only.
\<close>

section \<open>A concrete registry\<close>

definition calm :: server where
  "calm = \<lparr>sv_fault = (\<lambda>l. None), sv_text_le = (\<lambda>a b. True), sv_locked = (\<lambda>i. False),
     sv_uuid = (\<lambda>i. if i = 0 then ''n'' else ''v'')\<rparr>"

definition office :: database where
  "office = empty_database\<lparr>db_groups := [\<lparr>ng_id = ''g'', ng_site_id = [], ng_name = ''pcs'', ng_created_at = 1\<rparr>],
     db_enrollments := [\<lparr>en_id = ''e'', en_group_id = ''g'', en_token_hash = ''tok'', en_expires_at = 50,
        en_max_uses = 1, en_uses = 0, en_created_at = 1\<rparr>]\<rparr>"

definition request_row :: pairing_row where
  "request_row = \<lparr>pw_id = ''r'', pw_machine_id = ''m'', pw_hostname = ''pc'', pw_type = ''windows'',
     pw_agent_version = ''1'', pw_credential_hash = ''h'', pw_state = PairingPending, pw_node_id = None,
     pw_group_id = None, pw_remark = [], pw_created_at = 10, pw_expires_at = 10 + 10 * minute,
     pw_decided_at = None\<rparr>"

definition asked :: database where
  "asked = office\<lparr>db_pairings := [request_row]\<rparr>"

lemma office_inv: "registry_inv office"
  by (simp add: registry_inv_def accounts_inv_def groups_inv_def nodes_inv_def credentials_inv_def
      enrollments_inv_def pairings_inv_def telemetry_inv_def office_def empty_database_def)

lemma asked_inv: "registry_inv asked"
  using office_inv
  by (simp add: registry_inv_def accounts_inv_def groups_inv_def nodes_inv_def credentials_inv_def
      enrollments_inv_def pairings_inv_def telemetry_inv_def asked_def request_row_def pairing_ok_def
      office_def empty_database_def)

section \<open>The invariant\<close>

inductive registry_reach :: "database \<Rightarrow> database \<Rightarrow> bool" for db0 where
  registry_start: "registry_reach db0 db0"
| registry_op: "registry_reach db0 db \<Longrightarrow> api_store_op op \<Longrightarrow> registry_reach db0 (run_store sv db op)"
| registry_other: "registry_reach db0 db \<Longrightarrow>
     registry_reach db0 (db\<lparr>db_tasks := ts, db_executions := es\<rparr>)"

lemma registry_inv_commands: "registry_inv (db\<lparr>db_tasks := ts, db_executions := es\<rparr>) = registry_inv db"
  by (simp add: registry_inv_def accounts_inv_def groups_inv_def nodes_inv_def credentials_inv_def
      enrollments_inv_def pairings_inv_def telemetry_inv_def)

lemma registry_reach_inv: "registry_reach db0 db \<Longrightarrow> registry_inv db0 \<Longrightarrow> registry_inv db"
proof (induction rule: registry_reach.induct)
  case (registry_op db op sv)
  show ?case using registry_op.IH [OF registry_op.prems] registry_op.hyps(2) by (rule run_store_inv)
next
  case (registry_other db ts es)
  show ?case unfolding registry_inv_commands using registry_other.IH [OF registry_other.prems] .
qed simp

lemma registry_inv_empty: "registry_inv empty_database"
  by (simp add: registry_inv_def accounts_inv_def groups_inv_def nodes_inv_def credentials_inv_def
      enrollments_inv_def pairings_inv_def telemetry_inv_def empty_database_def)

text \<open>The registry stays well-formed under every operation the API runs, with any failures of
the server: one node per machine, one credential per node and one node per credential, enrolments
within their limit, groups, nodes, credentials and pairings that refer to existing rows, a date
exactly on the decided pairing requests and a node exactly on the approved ones.\<close>

theorem registry_well_formed:
  assumes "registry_reach empty_database db"
  shows "registry_inv db"
  using assms registry_inv_empty by (rule registry_reach_inv)

theorem registry_well_formed_witness:
  "registry_inv (run_store calm empty_database (SGroup \<lparr>ng_id = ''g'', ng_site_id = [], ng_name = ''pcs'', ng_created_at = 1\<rparr>))"
  by (intro registry_well_formed registry_op registry_start) simp

section \<open>Decisions about pairing requests\<close>

lemma pairing_origin:
  assumes "w' \<in> set (db_pairings (run_store sv db op))" and "pw_id w' = i"
    and "\<And>r t. op = SPair r t \<Longrightarrow> pr_id r \<noteq> i" and "registry_inv db"
  shows "\<exists>w\<in>set (db_pairings db). pairing_step\<^sup>*\<^sup>* w w'"
proof -
  have step: "\<exists>w\<in>set rows. pairing_step\<^sup>*\<^sup>* w w'"
    if "w' \<in> set (sql_update P f rows)" "\<And>w. w \<in> set rows \<Longrightarrow> P w \<Longrightarrow> pairing_step w (f w)" for P f rows
  proof -
    from that(1) obtain w where "w \<in> set rows" "w' = (if P w then f w else w)"
      by (auto simp: in_sql_update)
    then show ?thesis using that(2) by (intro bexI [of _ w]) auto
  qed
  have same: "\<exists>w\<in>set (db_pairings db). pairing_step\<^sup>*\<^sup>* w w'" if "w' \<in> set (db_pairings db)"
    using that by blast
  show ?thesis
  proof (cases op)
    case (SPair r t)
    then show ?thesis using assms(1,2,3) same
      by (auto simp: create_pairing_request_def Let_def snd_statement snd_checked split: if_splits)
  next
    case (SPoll j h t)
    have "\<exists>w\<in>set (db_pairings db). pairing_step\<^sup>*\<^sup>* w w'"
      if "w' \<in> set (sql_update (\<lambda>w. pw_id w = j \<and> pairing_due t w) (expire_row t) (db_pairings db))"
      by (rule step [OF that]) (simp add: pairing_expires)
    then show ?thesis using assms(1) SPoll same
      by (auto simp: get_pairing_request_def Let_def snd_statement split: if_splits option.splits sum.splits)
  next
    case (SPending t)
    have "\<exists>w\<in>set (db_pairings db). pairing_step\<^sup>*\<^sup>* w w'"
      if "w' \<in> set (sql_update (pairing_due t) (expire_row t) (db_pairings db))"
      by (rule step [OF that]) (rule pairing_expires)
    then show ?thesis using assms(1) SPending same
      by (auto simp: list_pending_pairing_requests_def Let_def snd_statement split: if_splits)
  next
    case (SReject j t)
    have "\<exists>w\<in>set (db_pairings db). pairing_step\<^sup>*\<^sup>* w w'"
      if "w' \<in> set (sql_update (\<lambda>w. pw_id w = j \<and> pw_state w = PairingPending \<and> t < pw_expires_at w)
          (rejected_row t) (db_pairings db))"
      by (rule step [OF that]) (auto intro: pairing_rejected)
    then show ?thesis using assms(1) SReject same
      by (auto simp: reject_pairing_request_def Let_def snd_statement split: if_splits option.splits)
  next
    case (SPrunePairings t)
    then show ?thesis using assms(1) same
      by (auto simp: prune_pairing_requests_def Let_def snd_statement split: if_splits)
  next
    case (SApprove j gid r t)
    show ?thesis
    proof (cases rule: approve_cases [of sv db j gid r t])
      case (approved w n db1)
      have rows: "db_pairings db1 = db_pairings db" using pair_node_cases [OF approved(4)] by auto
      have only: "v = w" if "v \<in> set (db_pairings db)" "pw_id v = j" for v
        using that assms(4) find_Some_conv [OF approved(1)]
          distinct_map_eq [of pw_id "db_pairings db" v w]
        by (simp add: registry_inv_def pairings_inv_def)
      have "w' \<in> set (sql_update (\<lambda>w. pw_id w = j) (approved_row (nd_id n) gid r t) (db_pairings db))"
        using assms(1) SApprove approved(6) rows by simp
      then show ?thesis
      proof (rule step)
        fix v assume "v \<in> set (db_pairings db)" "pw_id v = j"
        then have "v = w" by (rule only)
        then show "pairing_step v (approved_row (nd_id n) gid r t v)"
          using approved(2,3) by (simp add: pairing_approved)
      qed
    qed (use assms(1) SApprove same in simp)
  next
    case (SEnroll h d r t)
    then have "db_pairings (run_store sv db op) = db_pairings db"
      by (cases rule: enroll_cases [of sv db h d r t]) simp_all
    then show ?thesis using assms(1) same by simp
  qed (use assms(1) same in \<open>auto simp: store_op_defs snd_statement snd_checked
      split: if_splits option.splits\<close>)
qed

text \<open>Everything that can happen except that the identifier is used for another request.\<close>

inductive pairing_until :: "string \<Rightarrow> database \<Rightarrow> database \<Rightarrow> bool" for i db0 where
  pairing_until_start: "pairing_until i db0 db0"
| pairing_until_op: "pairing_until i db0 db \<Longrightarrow> api_store_op op \<Longrightarrow>
     (\<And>r t. op = SPair r t \<Longrightarrow> pr_id r \<noteq> i) \<Longrightarrow> pairing_until i db0 (run_store sv db op)"

lemma pairing_until_inv: "pairing_until i db0 db \<Longrightarrow> registry_inv db0 \<Longrightarrow> registry_inv db"
proof (induction rule: pairing_until.induct)
  case (pairing_until_op db op sv)
  show ?case using pairing_until_op.IH [OF pairing_until_op.prems] pairing_until_op.hyps(2)
    by (rule run_store_inv)
qed simp

lemma pairing_until_final:
  assumes "pairing_until i db0 db" and "registry_inv db0"
    and "\<forall>v\<in>set (db_pairings db0). pw_id v = i \<longrightarrow> v = w" and "pw_state w \<noteq> PairingPending" and "pw_id w = i"
  shows "\<forall>v\<in>set (db_pairings db). pw_id v = i \<longrightarrow> v = w"
  using assms(1)
proof (induction rule: pairing_until.induct)
  case (pairing_until_op db op sv)
  show ?case
  proof (intro ballI impI)
    fix v assume v: "v \<in> set (db_pairings (run_store sv db op))" "pw_id v = i"
    have "\<exists>u\<in>set (db_pairings db). pairing_step\<^sup>*\<^sup>* u v"
    proof (rule pairing_origin [OF v])
      show "registry_inv db" using pairing_until_op.hyps(1) assms(2) by (rule pairing_until_inv)
    qed (rule pairing_until_op.hyps(3))
    then obtain u where u: "u \<in> set (db_pairings db)" "pairing_step\<^sup>*\<^sup>* u v" by blast
    have "pw_id u = i" using pairing.steps_key [OF u(2)] v(2) by simp
    then have "u = w" using pairing_until_op.IH u(1) by blast
    then show "v = w" using pairing.steps_final [OF u(2)] assms(4) by (simp add: pairing_final_def)
  qed
qed (use assms(3) in blast)

text \<open>C6: A pairing request is decided once: after it was approved, rejected or has expired, no
operation changes its row (it can only be pruned), and approving it again is refused.\<close>

theorem pairing_decided_once:
  assumes "registry_inv db" and "w \<in> set (db_pairings db)" and "pw_state w \<noteq> PairingPending"
    and "pairing_until (pw_id w) db db'" and "healthy sv"
  shows "(\<forall>v\<in>set (db_pairings db'). pw_id v = pw_id w \<longrightarrow> v = w) \<and>
    (\<exists>e. approve_pairing_request sv db' (pw_id w) gid remark now = (Inl (Sentinel e), db') \<and>
       e \<in> {ErrNotFound, ErrPairingExpired, ErrConflict})"
proof -
  have "\<forall>v\<in>set (db_pairings db). pw_id v = pw_id w \<longrightarrow> v = w"
    using assms(1,2) distinct_map_eq [of pw_id "db_pairings db" _ w]
    by (auto simp: registry_inv_def pairings_inv_def)
  from pairing_until_final [OF assms(4,1) this assms(3)]
  have final: "\<forall>v\<in>set (db_pairings db'). pw_id v = pw_id w \<longrightarrow> v = w" by simp
  moreover have "pw_state v \<noteq> PairingPending" if "find (\<lambda>v. pw_id v = pw_id w) (db_pairings db') = Some v" for v
    using find_Some_conv [OF that] final assms(3) by auto
  ultimately show ?thesis using assms(5)
    by (auto simp: approve_pairing_request_def split: option.split)
qed

lemma calm_healthy: "healthy calm"
  by (simp add: healthy_def calm_def)

definition rejected :: database where
  "rejected = asked\<lparr>db_pairings := [rejected_row 20 request_row]\<rparr>"

lemma rejects: "reject_pairing_request calm asked ''r'' 20 = (Inr (), rejected)"
  by (simp add: reject_pairing_request_def asked_def rejected_def request_row_def rejected_row_def
      calm_def sql_update_def sql_count_def Let_def)

theorem pairing_decided_once_witness:
  "\<exists>e. approve_pairing_request calm rejected ''r'' ''g'' [] 30 = (Inl (Sentinel e), rejected)"
proof -
  have "registry_inv rejected"
    using run_store_inv [OF asked_inv, of "SReject ''r'' 20" calm] by (simp add: rejects)
  moreover have "rejected_row 20 request_row \<in> set (db_pairings rejected)"
      "pw_state (rejected_row 20 request_row) \<noteq> PairingPending" "pw_id (rejected_row 20 request_row) = ''r''"
    by (simp_all add: rejected_def rejected_row_def request_row_def)
  ultimately show ?thesis
    using pairing_decided_once [OF _ _ _ pairing_until_start calm_healthy, of rejected "rejected_row 20 request_row"]
    by metis
qed

section \<open>How a device gets a credential\<close>

text \<open>C7: Only an admission creates a credential: a credential row that an operation adds or replaces
carries the hash presented with a live, not exhausted enrolment token, or the hash stored in a
pairing request that an owner approves while it is pending and not yet expired.\<close>

theorem credentials_only_by_admission:
  assumes "c \<in> set (db_credentials (run_store sv db op))" and "c \<notin> set (db_credentials db)"
  shows "(\<exists>h request now. \<exists>x\<in>set (db_enrollments db). op = SEnroll h (cr_token_hash c) request now \<and>
       en_token_hash x = h \<and> now < en_expires_at x \<and> en_uses x < en_max_uses x) \<or>
    (\<exists>gid remark now. \<exists>w\<in>set (db_pairings db). op = SApprove (pw_id w) gid remark now \<and>
       pw_state w = PairingPending \<and> now < pw_expires_at w \<and> cr_token_hash c = pw_credential_hash w)"
proof (cases op)
  case (SEnroll h d r t)
  show ?thesis
  proof (cases rule: enroll_cases [of sv db h d r t])
    case (enrolled x v)
    with find_Some_conv [OF enrolled(1)] assms SEnroll show ?thesis by auto
  qed (use assms SEnroll in simp)
next
  case (SApprove i gid r t)
  show ?thesis
  proof (cases rule: approve_cases [of sv db i gid r t])
    case (approved w n db1)
    have "db_credentials db1 = db_credentials db" using pair_node_cases [OF approved(4)] by auto
    then have "cr_token_hash c = pw_credential_hash w"
      using assms SApprove approved(6) by (auto simp: set_upsert)
    with find_Some_conv [OF approved(1)] approved(2,3) SApprove show ?thesis by blast
  qed (use assms SApprove in simp)
qed (use assms in \<open>auto simp: store_op_defs snd_statement snd_checked
    split: if_splits option.splits sum.splits\<close>)

definition enrolling :: enroll_request where
  "enrolling = \<lparr>er_token = ''secret'', er_hostname = ''pc'', er_type = ''windows'', er_version = ''1'',
     er_machine_id = ''m''\<rparr>"

definition enrolled_office :: database where
  "enrolled_office = snd (enroll_node calm office ''tok'' ''dev'' enrolling 20)"

lemma enrolls:
  "\<exists>n. fst (enroll_node calm office ''tok'' ''dev'' enrolling 20) = Inr n"
  "db_credentials enrolled_office =
     [\<lparr>cr_node_id = ''n'', cr_token_hash = ''dev'', cr_created_at = 20, cr_revoked_at = None\<rparr>]"
  by (simp_all add: enrolled_office_def enroll_node_def office_def empty_database_def calm_def enrolling_def int4_def
      node_insertable_def credential_insertable_def inserted_node_def storable_text_def
      Let_def)

theorem credentials_only_by_admission_witness:
  "\<exists>x\<in>set (db_enrollments office). en_token_hash x = ''tok'' \<and> en_uses x < en_max_uses x"
proof -
  have "run_store calm office (SEnroll ''tok'' ''dev'' enrolling 20) = enrolled_office"
    by (simp add: enrolled_office_def)
  with enrolls(2) credentials_only_by_admission
    [of "\<lparr>cr_node_id = ''n'', cr_token_hash = ''dev'', cr_created_at = 20, cr_revoked_at = None\<rparr>" calm office
      "SEnroll ''tok'' ''dev'' enrolling 20"]
  show ?thesis by (auto simp: office_def empty_database_def)
qed

text \<open>The enrolments a run of operations grants with one token.\<close>

fun grants :: "string \<Rightarrow> server \<Rightarrow> database \<Rightarrow> store_op \<Rightarrow> bool" where
  "grants h sv db (SEnroll k d r t) = (k = h \<and> \<not> isl (fst (enroll_node sv db k d r t)))"
| "grants h sv db _ = False"

fun run_stores :: "(server \<times> store_op) list \<Rightarrow> database \<Rightarrow> database" where
  "run_stores [] db = db"
| "run_stores ((sv, op) # ops) db = run_stores ops (run_store sv db op)"

fun granted :: "string \<Rightarrow> (server \<times> store_op) list \<Rightarrow> database \<Rightarrow> nat" where
  "granted h [] db = 0"
| "granted h ((sv, op) # ops) db =
     (if grants h sv db op then 1 else 0) + granted h ops (run_store sv db op)"

definition uses_left :: "database \<Rightarrow> string \<Rightarrow> int" where
  "uses_left db h = (case find (\<lambda>x. en_token_hash x = h) (db_enrollments db) of
     None \<Rightarrow> 0 | Some x \<Rightarrow> en_max_uses x - en_uses x)"

lemma find_append: "find P (xs @ ys) = (case find P xs of None \<Rightarrow> find P ys | Some x \<Rightarrow> Some x)"
  by (induction xs) auto

lemma find_use_enrollment:
  "find (\<lambda>x. en_token_hash x = k) (use_enrollment h xs) =
     map_option (\<lambda>x. if en_token_hash x = h then x\<lparr>en_uses := en_uses x + 1\<rparr> else x)
       (find (\<lambda>x. en_token_hash x = k) xs)"
  unfolding use_enrollment_def by (rule find_sql_update) simp

lemma enrollments_unchanged:
  assumes "\<And>x. op \<noteq> SEnrollment x" and "\<And>h d r t. op \<noteq> SEnroll h d r t"
  shows "db_enrollments (run_store sv db op) = db_enrollments db"
proof (cases op)
  case (SApprove i gid r t)
  show ?thesis
  proof (cases rule: approve_cases [of sv db i gid r t])
    case (approved w n db1)
    then show ?thesis using SApprove pair_node_cases [OF approved(4)] by auto
  qed (use SApprove in simp)
qed (use assms in \<open>simp_all add: store_op_defs snd_statement snd_checked split: option.split sum.split\<close>)

lemma uses_left_op:
  assumes "find (\<lambda>x. en_token_hash x = h) (db_enrollments db) = Some x"
  shows "\<exists>y. find (\<lambda>x. en_token_hash x = h) (db_enrollments (run_store sv db op)) = Some y \<and>
     uses_left db h = uses_left (run_store sv db op) h + (if grants h sv db op then 1 else 0) \<and>
     (grants h sv db op \<longrightarrow> 0 < uses_left db h)"
proof (cases "(\<exists>y. op = SEnrollment y) \<or> (\<exists>k d r t. op = SEnroll k d r t)")
  case False
  then have "db_enrollments (run_store sv db op) = db_enrollments db"
    by (intro enrollments_unchanged) blast+
  moreover have "\<not> grants h sv db op" using False by (cases op) auto
  ultimately show ?thesis using assms by (simp add: uses_left_def)
next
  case True
  then consider y where "op = SEnrollment y" | k d r t where "op = SEnroll k d r t" by blast
  then show ?thesis
  proof cases
    case 1
    then show ?thesis using assms
      by (simp add: create_enrollment_def insert_row_def snd_statement snd_checked uses_left_def find_append)
  next
    case 2
    show ?thesis
    proof (cases rule: enroll_cases [of sv db k d r t])
      case (refused e)
      then show ?thesis using 2 assms by simp
    next
      case (enrolled y v)
      have "db_enrollments (run_store sv db op) = use_enrollment k (db_enrollments db)"
        using 2 enrolled by simp
      moreover have "grants h sv db op \<longleftrightarrow> k = h" using 2 enrolled by simp
      moreover have "en_token_hash x = h" using find_Some_conv [OF assms] by simp
      ultimately show ?thesis using assms enrolled(1,3) by (auto simp: uses_left_def find_use_enrollment)
    qed
  qed
qed

text \<open>An enrolment token admits at most as many devices as it was issued for: however the
operations are interleaved, the successful enrolments with a token are exactly the uses it lost,
and they never exceed what was left.\<close>

theorem enrollment_limit:
  assumes "find (\<lambda>x. en_token_hash x = h) (db_enrollments db) = Some x" and "en_uses x \<le> en_max_uses x"
  shows "int (granted h ops db) = uses_left db h - uses_left (run_stores ops db) h \<and>
    int (granted h ops db) \<le> en_max_uses x - en_uses x"
  using assms
proof (induction ops arbitrary: db x)
  case (Cons so ops)
  obtain sv op where so: "so = (sv, op)" by (cases so)
  from uses_left_op [OF Cons.prems(1), of sv op] obtain y where
    y: "find (\<lambda>x. en_token_hash x = h) (db_enrollments (run_store sv db op)) = Some y"
    "uses_left db h = uses_left (run_store sv db op) h + (if grants h sv db op then 1 else 0)"
    "grants h sv db op \<longrightarrow> 0 < uses_left db h" by blast
  have left: "uses_left db h = en_max_uses x - en_uses x"
    "uses_left (run_store sv db op) h = en_max_uses y - en_uses y"
    using Cons.prems(1) y(1) by (simp_all add: uses_left_def)
  then have "en_uses y \<le> en_max_uses y" using y(2,3) Cons.prems(2) by (simp split: if_splits)
  from Cons.IH [OF y(1) this] left y(2) so show ?case by auto
qed simp

theorem enrollment_limit_witness:
  "granted ''tok'' [(calm, SEnroll ''tok'' ''dev'' enrolling 20), (calm, SEnroll ''tok'' ''dev2'' enrolling 21)] office \<le> 1"
proof -
  have "find (\<lambda>x. en_token_hash x = ''tok'') (db_enrollments office) = Some (hd (db_enrollments office))"
    "en_uses (hd (db_enrollments office)) \<le> en_max_uses (hd (db_enrollments office))"
    "en_max_uses (hd (db_enrollments office)) - en_uses (hd (db_enrollments office)) = 1"
    by (simp_all add: office_def)
  with enrollment_limit [OF this(1,2), of "[(calm, SEnroll ''tok'' ''dev'' enrolling 20),
      (calm, SEnroll ''tok'' ''dev2'' enrolling 21)]"] show ?thesis by linarith
qed

section \<open>What an approval and a heartbeat do\<close>

lemma credential_node_iff:
  assumes "credentials_inv db"
  shows "credential_node db h = Some i \<longleftrightarrow>
    (\<exists>c\<in>set (db_credentials db). cr_token_hash c = h \<and> cr_revoked_at c = None \<and> cr_node_id c = i)"
proof
  assume "credential_node db h = Some i"
  then obtain c where "find (\<lambda>c. cr_token_hash c = h \<and> cr_revoked_at c = None) (db_credentials db) = Some c"
    "cr_node_id c = i" by (auto simp: credential_node_def)
  with find_Some_conv [OF this(1)] show
    "\<exists>c\<in>set (db_credentials db). cr_token_hash c = h \<and> cr_revoked_at c = None \<and> cr_node_id c = i" by blast
next
  assume "\<exists>c\<in>set (db_credentials db). cr_token_hash c = h \<and> cr_revoked_at c = None \<and> cr_node_id c = i"
  then obtain c where c: "c \<in> set (db_credentials db)" "cr_token_hash c = h" "cr_revoked_at c = None"
    "cr_node_id c = i" by blast
  obtain b where b: "find (\<lambda>c. cr_token_hash c = h \<and> cr_revoked_at c = None) (db_credentials db) = Some b"
    using c by (cases "find (\<lambda>c. cr_token_hash c = h \<and> cr_revoked_at c = None) (db_credentials db)")
      (auto simp: find_None_conv)
  have "b = c" using find_Some_conv [OF b] c(1,2) assms
      distinct_map_eq [of cr_token_hash "db_credentials db" b c]
    by (simp add: credentials_inv_def)
  with b c(4) show "credential_node db h = Some i" by (simp add: credential_node_def)
qed

lemma machine_unique:
  assumes "nodes_inv db" and "m \<in> set (db_nodes db)" and "n \<in> set (db_nodes db)"
    and "nw_machine_id m = nw_machine_id n" and "nw_machine_id n \<noteq> []"
  shows "m = n"
proof -
  have "distinct (map nw_machine_id (filter (\<lambda>n. nw_machine_id n \<noteq> []) (db_nodes db)))"
    using assms(1) by (simp add: nodes_inv_def filter_map comp_def)
  then show ?thesis using assms(2-5)
      distinct_map_eq [of nw_machine_id "filter (\<lambda>n. nw_machine_id n \<noteq> []) (db_nodes db)" m n] by simp
qed

lemma approve_Inr:
  assumes "approve_pairing_request sv db i gid remark now = (Inr n, db')"
  obtains w r db1 where
    "find (\<lambda>w. pw_id w = i) (db_pairings db) = Some w" "pw_state w = PairingPending"
    "now < pw_expires_at w" "pair_node sv db w gid remark now = (Inr r, db1)" "n = scan_node r"
    "\<forall>q\<in>set (db_credentials db1). cr_token_hash q = pw_credential_hash w \<longrightarrow> cr_node_id q = nd_id r"
    "db' = db1\<lparr>db_credentials := sql_upsert cr_node_id
         \<lparr>cr_node_id = nd_id r, cr_token_hash = pw_credential_hash w, cr_created_at = now,
          cr_revoked_at = None\<rparr> (db_credentials db1),
       db_pairings := sql_update (\<lambda>w. pw_id w = i) (approved_row (nd_id r) gid remark now) (db_pairings db1)\<rparr>"
proof -
  from assms obtain w where w: "find (\<lambda>w. pw_id w = i) (db_pairings db) = Some w"
      "pw_state w = PairingPending" "now < pw_expires_at w"
    by (auto simp: approve_pairing_request_def statement_Inr split: option.splits if_splits)
  obtain p db1 where p: "pair_node sv db w gid remark now = (p, db1)" by fastforce
  with assms w obtain r where "p = Inr r"
    by (cases p) (auto simp: approve_pairing_request_def statement_Inr)
  with assms w p show ?thesis
    by (intro that [of w r db1])
      (simp_all add: approve_pairing_request_def Let_def statement_Inr checked_Inr)
qed

lemma pair_node_row:
  assumes "nodes_inv db" and "pair_node sv db w gid remark now = (Inr r, db1)"
  shows "nd_group_id r = gid \<and> nd_remark r = remark \<and> nd_name r = pw_hostname w \<and>
    nw_machine_id r = pw_machine_id w \<and>
    (\<forall>m\<in>set (db_nodes db). nw_machine_id m = pw_machine_id w \<and> pw_machine_id w \<noteq> [] \<longrightarrow> nd_id m = nd_id r)"
  using pair_node_cases [OF assms(2)]
proof (elim disjE exE conjE)
  fix m assume m: "find (\<lambda>n. nw_machine_id n = pw_machine_id w) (db_nodes db) = Some m" "r = paired_row gid remark w m"
  have "k = m" if "k \<in> set (db_nodes db)" "nw_machine_id k = pw_machine_id w" "pw_machine_id w \<noteq> []" for k
    using machine_unique [OF assms(1) that(1), of m] that(2,3) find_Some_conv [OF m(1)] by simp
  then show ?thesis using m(2) find_Some_conv [OF m(1)] by (auto simp: paired_row_def)
qed (auto simp: inserted_node_def find_None_conv)

text \<open>An approval admits the machine that asked: its node (the one it had before, if any) gets
the name, group and remark, is the only node of that machine, and the hash from the request becomes
its only credential; the credentials of all other nodes keep their meaning.\<close>

theorem approval_admits_machine:
  assumes "registry_inv db" and "approve_pairing_request sv db i gid remark now = (Inr n, db')"
  shows "\<exists>w\<in>set (db_pairings db). pw_id w = i \<and> pw_state w = PairingPending \<and> now < pw_expires_at w \<and>
    nd_group_id n = gid \<and> nd_remark n = remark \<and> nd_name n = pw_hostname w \<and>
    (pw_machine_id w \<noteq> [] \<longrightarrow>
       (\<exists>r\<in>set (db_nodes db'). scan_node r = n \<and> (\<forall>m\<in>set (db_nodes db'). nw_machine_id m = pw_machine_id w \<longleftrightarrow> m = r)) \<and>
       (\<forall>m\<in>set (db_nodes db). nw_machine_id m = pw_machine_id w \<longrightarrow> nd_id m = nd_id n)) \<and>
    (\<forall>h. credential_node db' h = Some (nd_id n) \<longleftrightarrow> h = pw_credential_hash w) \<and>
    (\<forall>h j. j \<noteq> nd_id n \<longrightarrow> (credential_node db' h = Some j \<longleftrightarrow> credential_node db h = Some j))"
proof -
  have inv: "nodes_inv db" "credentials_inv db" using assms(1) by (simp_all add: registry_inv_def)
  from assms(2) obtain w r db1 where *: "find (\<lambda>w. pw_id w = i) (db_pairings db) = Some w"
    "pw_state w = PairingPending" "now < pw_expires_at w"
    and pn: "pair_node sv db w gid remark now = (Inr r, db1)" and n: "n = scan_node r"
    and db': "db' = db1\<lparr>db_credentials := sql_upsert cr_node_id
         \<lparr>cr_node_id = nd_id r, cr_token_hash = pw_credential_hash w, cr_created_at = now,
          cr_revoked_at = None\<rparr> (db_credentials db1),
       db_pairings := sql_update (\<lambda>w. pw_id w = i) (approved_row (nd_id r) gid remark now) (db_pairings db1)\<rparr>"
    by (rule approve_Inr)
  note node = pair_node_nodes [OF inv(1) pn] pair_node_row [OF inv(1) pn]
  have creds: "db_credentials db1 = db_credentials db" using pair_node_cases [OF pn] by auto
  have inv': "credentials_inv db'" "nodes_inv db'"
    using credentials_op [OF inv, of sv "SApprove i gid remark now"]
      nodes_op [OF inv(1), of sv "SApprove i gid remark now"] assms(2) by simp_all
  have set_creds: "set (db_credentials db') = insert \<lparr>cr_node_id = nd_id r, cr_token_hash = pw_credential_hash w,
      cr_created_at = now, cr_revoked_at = None\<rparr> {q \<in> set (db_credentials db). cr_node_id q \<noteq> nd_id r}"
    unfolding db' creds by (simp add: set_upsert)
  have id: "nd_id n = nd_id r" by (simp add: n scan_node_def node.truncate_def)
  have "credential_node db' h = Some (nd_id n) \<longleftrightarrow> h = pw_credential_hash w" for h
    unfolding credential_node_iff [OF inv'(1)] set_creds id by auto
  moreover have "credential_node db' h = Some j \<longleftrightarrow> credential_node db h = Some j" if "j \<noteq> nd_id n" for h j
    using that unfolding credential_node_iff [OF inv'(1)] credential_node_iff [OF inv(2)] set_creds id by auto
  moreover have "r \<in> set (db_nodes db')" using node db' by simp
  moreover have "nw_machine_id m = pw_machine_id w \<longleftrightarrow> m = r" if "pw_machine_id w \<noteq> []" "m \<in> set (db_nodes db')" for m
    using machine_unique [OF inv'(2) that(2) \<open>r \<in> set (db_nodes db')\<close>] node that(1) by auto
  moreover have "nd_group_id n = gid \<and> nd_remark n = remark \<and> nd_name n = pw_hostname w"
    using node by (simp add: n scan_node_def node.truncate_def)
  ultimately show ?thesis using * find_Some_conv [OF *(1)] node n id by (intro bexI [of _ w]) auto
qed

lemma asked_approves: "\<exists>n db'. approve_pairing_request calm asked ''r'' ''g'' ''desk'' 20 = (Inr n, db')"
  by (simp add: approve_pairing_request_def pair_node_def asked_def office_def empty_database_def
      request_row_def calm_def node_insertable_def inserted_node_def storable_text_def Let_def)

theorem approval_admits_machine_witness:
  "\<exists>n db'. approve_pairing_request calm asked ''r'' ''g'' ''desk'' 20 = (Inr n, db') \<and>
     credential_node db' ''h'' = Some (nd_id n) \<and> nd_remark n = ''desk''"
proof -
  from asked_approves obtain n db' where
    run: "approve_pairing_request calm asked ''r'' ''g'' ''desk'' 20 = (Inr n, db')" by blast
  have "db_pairings asked = [request_row]" "pw_credential_hash request_row = ''h''"
    by (simp_all add: asked_def request_row_def)
  with approval_admits_machine [OF asked_inv run]
  have "credential_node db' ''h'' = Some (nd_id n)" "nd_remark n = ''desk''" by auto
  with run show ?thesis by blast
qed

text \<open>An approval that comes too late is refused with the expiry error and leaves no trace: the
update that marks the request expired is part of the transaction that the refusal rolls back, so
the request is still stored as pending.\<close>

theorem late_approval_leaves_pending:
  assumes "healthy sv" and "find (\<lambda>w. pw_id w = i) (db_pairings db) = Some w"
    and "pw_state w = PairingPending" and "pw_expires_at w \<le> now"
  shows "approve_pairing_request sv db i gid remark now = (Inl (Sentinel ErrPairingExpired), db)"
  using assms by (simp add: approve_pairing_request_def)

theorem late_approval_leaves_pending_witness:
  "approve_pairing_request calm asked ''r'' ''g'' [] (11 * minute) = (Inl (Sentinel ErrPairingExpired), asked) \<and>
   map pw_state (db_pairings asked) = [PairingPending]"
  using late_approval_leaves_pending [OF calm_healthy, of "''r''" asked request_row "11 * minute"]
  by (simp add: asked_def request_row_def)

text \<open>A heartbeat speaks for the node of its credential and for no other: it is refused without
effect when the credential is unknown or revoked or a value does not fit its column; otherwise it
replaces the state of that node (an empty host name keeps the known one), marks it seen now,
stores one traffic sample for that node and instant, and changes nothing else.\<close>

theorem heartbeat_effect:
  assumes "record_heartbeat sv db h b now = (result, db')"
  shows "case result of
      Inl e \<Rightarrow> db' = db
    | Inr n \<Rightarrow>
        (\<exists>m\<in>set (db_nodes db). credential_node db h = Some (nd_id m) \<and> n = scan_node (heartbeat_row b now m)) \<and>
        nd_last_seen_at n = Some now \<and>
        db' = db\<lparr>db_nodes := map (\<lambda>q. if nd_id q = nd_id n then heartbeat_row b now q else q) (db_nodes db),
                 db_samples := db_samples db'\<rparr> \<and>
        (\<forall>s. s \<in> set (db_samples db') \<longleftrightarrow>
           (if sample_key s = (nd_id n, now) then sm_upload s = hb_upload_rate b \<and> sm_download s = hb_download_rate b
            else s \<in> set (db_samples db)))"
proof (cases result)
  case (Inl e)
  have "keeps_on_error db (record_heartbeat sv db h b now)"
    by (simp add: record_heartbeat_def Let_def keeps_on_error_rules split: option.split)
  then show ?thesis using Inl assms by (simp add: keeps_on_error_def)
next
  case (Inr n)
  let ?hit = "\<lambda>n. credential_node db h = Some (nd_id n)"
  let ?nodes = "sql_update ?hit (heartbeat_row b now) (db_nodes db)"
  from assms Inr obtain r where r: "find ?hit ?nodes = Some r" "n = scan_node r"
    and db': "db' = db\<lparr>db_nodes := ?nodes, db_samples := sql_upsert sample_key
        \<lparr>sm_node_id = nd_id r, sm_captured_at = now, sm_upload = hb_upload_rate b,
         sm_download = hb_download_rate b\<rparr> (db_samples db)\<rparr>"
    by (auto simp: record_heartbeat_def Let_def statement_Inr checked_Inr split: option.splits)
  from find_Some_conv [OF r(1)] obtain m where m: "m \<in> set (db_nodes db)" "?hit m" "r = heartbeat_row b now m"
    by (auto simp: in_sql_update heartbeat_row_def split: if_splits)
  have id: "nd_id n = nd_id m" "nd_id r = nd_id m" and seen: "nd_last_seen_at n = Some now"
    by (simp_all add: r(2) m(3) scan_node_def node.truncate_def heartbeat_row_def)
  have nodes: "?nodes = map (\<lambda>q. if nd_id q = nd_id n then heartbeat_row b now q else q) (db_nodes db)"
    using m(2) id by (auto simp: sql_update_def)
  have "s \<in> set (db_samples db') \<longleftrightarrow>
      (if sample_key s = (nd_id n, now) then sm_upload s = hb_upload_rate b \<and> sm_download s = hb_download_rate b
       else s \<in> set (db_samples db))" for s
    unfolding db' using id by (cases s) (auto simp: set_upsert sample_key_def)
  moreover have "db' = db\<lparr>db_nodes := map (\<lambda>q. if nd_id q = nd_id n then heartbeat_row b now q else q) (db_nodes db),
      db_samples := db_samples db'\<rparr>"
    unfolding db' nodes by simp
  ultimately show ?thesis using Inr m r(2) seen by auto
qed

definition beat :: heartbeat where
  "beat = \<lparr>hb_hostname = [], hb_agent_version = ''2'', hb_os_name = [], hb_os_version = [], hb_ip_address = [],
     hb_cpu_percent = Finite 1, hb_memory_percent = Finite 1, hb_disk_percent = Finite 1,
     hb_metrics_available = True, hb_upload_rate = Finite 1, hb_download_rate = Finite 2,
     hb_usage_available = False, hb_usage_day = [], hb_today_upload = 0, hb_today_download = 0,
     hb_month_upload = 0, hb_month_download = 0\<rparr>"

theorem heartbeat_effect_witness:
  "snd (record_heartbeat calm office ''unknown'' beat 30) = office"
proof -
  have run: "record_heartbeat calm office ''unknown'' beat 30 = (Inl (Sentinel ErrUnauthorized), office)"
    by (simp add: record_heartbeat_def heartbeat_storable_def storable_text_def beat_def calm_def
        credential_node_def office_def empty_database_def sql_update_def Let_def)
  from heartbeat_effect [OF this] run show ?thesis by simp
qed

section \<open>Network history\<close>

lemma bucket_start_bounds:
  assumes "0 < bucket"
  shows "bucket_start bucket t \<le> t \<and> t < bucket_start bucket t + bucket"
proof -
  have "(t - unix_epoch) div bucket * bucket + (t - unix_epoch) mod bucket = t - unix_epoch" by simp
  moreover have "0 \<le> (t - unix_epoch) mod bucket" "(t - unix_epoch) mod bucket < bucket"
    using assms by simp_all
  ultimately show ?thesis unfolding bucket_start_def by linarith
qed

text \<open>Buckets do not overlap: an instant of a bucket determines its start.\<close>

lemma bucket_start_unique:
  assumes "0 < bucket" and "bucket_start bucket s \<le> t" and "t < bucket_start bucket s + bucket"
  shows "bucket_start bucket t = bucket_start bucket s"
proof -
  let ?q = "(s - unix_epoch) div bucket"
  have "t - unix_epoch = ?q * bucket + (t - bucket_start bucket s)"
    by (simp add: bucket_start_def)
  moreover have "0 \<le> t - bucket_start bucket s" "t - bucket_start bucket s < bucket" using assms by simp_all
  ultimately have "(t - unix_epoch) div bucket = ?q"
    by (metis add.commute div_mult_self3 div_pos_pos_trivial add_0 less_irrefl assms(1))
  then show ?thesis by (simp add: bucket_start_def)
qed

lemma sorted_strict: "sorted_wrt (\<le>) xs \<Longrightarrow> distinct xs \<Longrightarrow> sorted_wrt (<) (xs :: int list)"
  by (induction xs) (auto simp: order.strict_iff_order)

text \<open>The traffic history of a node is a partition: its points are in strictly ascending order,
every sample of the node in the window falls into the interval of exactly one point, and each
point is the average and peak of exactly the samples in its interval.\<close>

theorem history_partitions_samples:
  assumes "list_network_history sv ag db nid since bucket = Inr ps"
  shows "sorted_wrt (<) (map hp_captured_at ps) \<and>
    (\<forall>p\<in>set ps. p = history_point ag (hp_captured_at p) (filter (\<lambda>s. sm_node_id s = nid \<and> since \<le> sm_captured_at s \<and>
        hp_captured_at p \<le> sm_captured_at s \<and> sm_captured_at s < hp_captured_at p + bucket) (db_samples db))) \<and>
    (\<forall>s\<in>set (db_samples db). sm_node_id s = nid \<and> since \<le> sm_captured_at s \<longrightarrow>
       (\<exists>!p. p \<in> set ps \<and> hp_captured_at p \<le> sm_captured_at s \<and> sm_captured_at s < hp_captured_at p + bucket))"
proof -
  let ?ss = "filter (\<lambda>s. sm_node_id s = nid \<and> since \<le> sm_captured_at s) (db_samples db)"
  let ?starts = "sql_sort (\<le>) (remdups (map (\<lambda>s. bucket_start bucket (sm_captured_at s)) ?ss))"
  let ?point = "\<lambda>t. history_point ag t (filter (\<lambda>s. bucket_start bucket (sm_captured_at s) = t) ?ss)"
  have pos: "0 < bucket" and ps: "ps = map ?point ?starts"
    using assms by (auto simp: list_network_history_def query_def Let_def split: if_splits sum.splits option.splits)
  have times: "map hp_captured_at ps = ?starts" unfolding ps by (simp add: history_point_def comp_def)
  have "sorted_wrt (\<le>) ?starts"
  proof -
    have "sorted_wrt (\<le>) (sql_insert_sorted (\<le>) r qs)" if "sorted_wrt (\<le>) qs" for r and qs :: "int list"
      using that by (induction qs) auto
    then have "sorted_wrt (\<le>) (sql_sort (\<le>) xs)" for xs :: "int list" by (induction xs) auto
    then show ?thesis .
  qed
  then have sorted: "sorted_wrt (<) (map hp_captured_at ps)" unfolding times by (intro sorted_strict) simp_all
  have start: "\<exists>s\<in>set ?ss. hp_captured_at p = bucket_start bucket (sm_captured_at s)" if "p \<in> set ps" for p
    using that unfolding ps by (auto simp: history_point_def)
  have in_bucket: "bucket_start bucket (sm_captured_at s) = hp_captured_at p \<longleftrightarrow>
      hp_captured_at p \<le> sm_captured_at s \<and> sm_captured_at s < hp_captured_at p + bucket" if "p \<in> set ps" for p s
    using start [OF that] bucket_start_bounds [OF pos] bucket_start_unique [OF pos] by metis
  have point: "p = ?point (hp_captured_at p)" if "p \<in> set ps" for p
    using that unfolding ps by (auto simp: history_point_def)
  have each: "p = history_point ag (hp_captured_at p) (filter (\<lambda>s. sm_node_id s = nid \<and> since \<le> sm_captured_at s \<and>
        hp_captured_at p \<le> sm_captured_at s \<and> sm_captured_at s < hp_captured_at p + bucket) (db_samples db))"
    if p: "p \<in> set ps" for p
  proof -
    have "filter (\<lambda>s. bucket_start bucket (sm_captured_at s) = hp_captured_at p) ?ss =
        filter (\<lambda>s. sm_node_id s = nid \<and> since \<le> sm_captured_at s \<and>
        hp_captured_at p \<le> sm_captured_at s \<and> sm_captured_at s < hp_captured_at p + bucket) (db_samples db)"
      unfolding filter_filter using in_bucket [OF p] by (intro filter_cong) auto
    then show ?thesis using point [OF p] by simp
  qed
  have unique: "\<exists>!p. p \<in> set ps \<and> hp_captured_at p \<le> sm_captured_at s \<and> sm_captured_at s < hp_captured_at p + bucket"
    if s: "s \<in> set ?ss" for s
  proof -
    let ?p = "?point (bucket_start bucket (sm_captured_at s))"
    have p: "?p \<in> set ps" "hp_captured_at ?p = bucket_start bucket (sm_captured_at s)"
      using s unfolding ps by (auto simp: history_point_def)
    show ?thesis
    proof (rule ex1I [of _ ?p])
      show "?p \<in> set ps \<and> hp_captured_at ?p \<le> sm_captured_at s \<and> sm_captured_at s < hp_captured_at ?p + bucket"
        using p(1) in_bucket [OF p(1), of s] p(2) by simp
      fix q assume q: "q \<in> set ps \<and> hp_captured_at q \<le> sm_captured_at s \<and> sm_captured_at s < hp_captured_at q + bucket"
      then have "bucket_start bucket (sm_captured_at s) = hp_captured_at q" using in_bucket [of q s] by simp
      with q point [of q] show "q = ?p" by simp
    qed
  qed
  show ?thesis using sorted each unique by auto
qed

definition measured :: database where
  "measured = empty_database\<lparr>db_nodes := [inserted_node ''n'' ''g'' [] ''pc'' ''windows'' [] [] None 1],
     db_samples := [\<lparr>sm_node_id = ''n'', sm_captured_at = unix_epoch + 3, sm_upload = Finite 1, sm_download = Finite 2\<rparr>,
       \<lparr>sm_node_id = ''n'', sm_captured_at = unix_epoch + 12, sm_upload = Finite 1, sm_download = Finite 2\<rparr>]\<rparr>"

definition plain_aggregates :: aggregates where
  "plain_aggregates = \<lparr>ag_avg = hd, ag_max = hd\<rparr>"

theorem history_partitions_samples_witness:
  "\<exists>ps. list_network_history calm plain_aggregates measured ''n'' 0 10 = Inr ps \<and>
     (\<exists>!p. p \<in> set ps \<and> hp_captured_at p \<le> unix_epoch + 12 \<and> unix_epoch + 12 < hp_captured_at p + 10)"
proof -
  obtain ps where run: "list_network_history calm plain_aggregates measured ''n'' 0 10 = Inr ps"
    by (simp add: list_network_history_def require_node_def query_def calm_def measured_def inserted_node_def Let_def)
  have "\<lparr>sm_node_id = ''n'', sm_captured_at = unix_epoch + 12, sm_upload = Finite 1, sm_download = Finite 2\<rparr>
      \<in> set (db_samples measured)" "0 \<le> unix_epoch + 12"
    by (simp_all add: measured_def unix_epoch_def)
  with history_partitions_samples [OF run] run show ?thesis by fastforce
qed

end
