(* ===== verification/CommandTheorems.thy ===== *)
theory CommandTheorems
  imports CommandQueue
begin

text \<open>
  The properties of the command queue that the rest of the program relies on, with a concrete
  database for their witnesses: one owner, one Windows node with an active credential, one task
  and its execution.
\<close>

section \<open>Taking operations apart\<close>

lemma claim_command_Some:
  assumes "claim_command sv db c l now d = (Inr (Some cl), db')"
  obtains nid e t es where
    "command_credential_node sv db c = Inr nid"
    "es = recover_leased nid now (expire_running nid now (db_executions db))"
    "sql_first (claim_order sv) (claimable sv db nid es) = Some (e, t)"
    "db' = db\<lparr>db_executions := sql_update (lease_target (xr_id e) nid) (lease_row l (now + d)) es\<rparr>"
    "cl = \<lparr>cl_execution_id = xr_id e, cl_task_id = tr_id t, cl_shell = tr_shell t,
           cl_command = tr_command t, cl_timeout = tr_timeout t, cl_lease_token = [],
           cl_lease_expires_at = now + d\<rparr>"
    "0 < d" "c \<noteq> []" "l \<noteq> []"
  using assms
  by (auto simp: claim_command_def Let_def statement_Inr checked_Inr
      split: if_splits sum.splits option.splits)

lemma claimable_iff:
  "(e, t) \<in> set (claimable sv db nid es) \<longleftrightarrow>
     e \<in> set es \<and> t \<in> set (db_tasks db) \<and> xr_node_id e = nid \<and> xr_status e = Queued \<and>
     \<not> sv_locked sv (xr_id e) \<and> tr_id t = xr_task_id e"
  by (auto simp: claimable_def)

lemma claimed_row:
  assumes "claim_command sv db c l now d = (Inr (Some cl), db')"
  obtains e nid where "e \<in> set (recover_leased nid now (expire_running nid now (db_executions db)))"
    "xr_id e = cl_execution_id cl" "xr_status e = Queued" "xr_node_id e = nid"
    "command_credential_node sv db c = Inr nid"
    "lease_row l (now + d) e \<in> set (db_executions db')"
proof -
  from assms obtain nid e t es where *: "command_credential_node sv db c = Inr nid"
    "es = recover_leased nid now (expire_running nid now (db_executions db))"
    "sql_first (claim_order sv) (claimable sv db nid es) = Some (e, t)"
    "db' = db\<lparr>db_executions := sql_update (lease_target (xr_id e) nid) (lease_row l (now + d)) es\<rparr>"
    "cl_execution_id cl = xr_id e"
    by (rule claim_command_Some) auto
  have "e \<in> set es" "xr_status e = Queued" "xr_node_id e = nid"
    using sql_first_in [OF *(3)] by (simp_all add: claimable_iff)
  then show ?thesis using * by (intro that [of e nid]) (auto simp: in_sql_update lease_target_def)
qed

lemma valid_completion_final:
  "valid_command_completion c \<Longrightarrow> execution_final (complete_row c now e)"
  by (simp add: valid_command_completion_def execution_final_def complete_row_def)

lemma final_not_held: "execution_final e \<Longrightarrow> \<not> held_by i nid l now e"
  by (auto simp: execution_final_def held_by_def)

text \<open>The two recovery statements of a claim, as one function on rows.\<close>

definition reset_row :: "string \<Rightarrow> time \<Rightarrow> execution_row \<Rightarrow> execution_row" where
  "reset_row nid now e =
     (if xr_node_id e = nid \<and> lease_expired now e then
        (if xr_status e = Running
         then e\<lparr>xr_status := Failed, xr_finished_at := Some now, xr_error := stopped_message\<rparr>
         else if xr_status e = Leased
         then e\<lparr>xr_status := Queued, xr_lease_hash := None, xr_lease_expires := None\<rparr> else e)
      else e)"

lemma recovered_map:
  "recover_leased nid now (expire_running nid now es) = map (reset_row nid now) es"
  by (simp add: recover_leased_def expire_running_def sql_update_def reset_row_def)

lemma reset_row_simps:
  "xr_id (reset_row nid now e) = xr_id e" "xr_node_id (reset_row nid now e) = xr_node_id e"
  "xr_task_id (reset_row nid now e) = xr_task_id e"
  "xr_attempt (reset_row nid now e) = xr_attempt e"
  "xr_status (reset_row nid now e) =
     (if xr_node_id e = nid \<and> lease_expired now e then
        (if xr_status e = Running then Failed else if xr_status e = Leased then Queued else xr_status e)
      else xr_status e)"
  by (simp_all add: reset_row_def)

section \<open>A concrete database\<close>

definition demo_server :: server where
  "demo_server = \<lparr>sv_fault = (\<lambda>l. None), sv_text_le = (\<lambda>a b. True), sv_locked = (\<lambda>i. False),
     sv_uuid = (\<lambda>i. ''e'')\<rparr>"

definition demo_node :: node_row where
  "demo_node =
     \<lparr>nd_id = ''n'', nd_group_id = ''g'', nd_remark = [], nd_name = ''pc'', nd_type = ''windows'',
      nd_agent_version = ''1'', nd_os_name = [], nd_os_version = [], nd_ip_address = [],
      nd_cpu_percent = Finite 0, nd_memory_percent = Finite 0, nd_disk_percent = Finite 0,
      nd_metrics_available = False, nd_upload_rate = Finite 0, nd_download_rate = Finite 0,
      nd_usage_available = False, nd_usage_day = [], nd_today_upload = 0, nd_today_download = 0,
      nd_month_upload = 0, nd_month_download = 0, nd_last_seen_at = None, nd_created_at = 1,
      nw_machine_id = ''m''\<rparr>"

definition demo_task :: task_row where
  "demo_task = \<lparr>tr_id = ''t'', tr_shell = Cmd, tr_command = ''dir'', tr_timeout = 60,
     tr_created_by = ''o'', tr_retried_from = None, tr_created_at = 5\<rparr>"

definition demo_db :: database where
  "demo_db = empty_database
     \<lparr>db_owners := [\<lparr>ow_id = ''o'', ow_username = ''u'', ow_password_hash = [], ow_created_at = 1\<rparr>],
      db_nodes := [demo_node],
      db_credentials := [\<lparr>cr_node_id = ''n'', cr_token_hash = ''h'', cr_created_at = 1, cr_revoked_at = None\<rparr>],
      db_tasks := [demo_task],
      db_executions := [new_execution ''e'' ''t'' ''n'']\<rparr>"

lemma demo_text: "valid_utf8 ''dir''" "trim_space ''dir'' \<noteq> []"
  by code_simp+

lemma demo_task_valid: "task_valid demo_task"
  by (simp add: task_valid_def validate_command_None demo_task_def demo_text del: valid_utf8.simps)

lemma demo_inv: "queue_inv demo_db"
  using demo_task_valid
  by (simp add: queue_inv_def demo_db_def empty_database_def new_execution_def execution_ok_def)
    (simp add: demo_task_def)

definition demo_claimed :: database where
  "demo_claimed = demo_db\<lparr>db_executions := [lease_row ''l'' 30 (new_execution ''e'' ''t'' ''n'')]\<rparr>"

definition demo_claim :: command_claim where
  "demo_claim = \<lparr>cl_execution_id = ''e'', cl_task_id = ''t'', cl_shell = Cmd, cl_command = ''dir'',
     cl_timeout = 60, cl_lease_token = [], cl_lease_expires_at = 30\<rparr>"

lemmas demo_defs = demo_server_def demo_db_def demo_task_def demo_node_def empty_database_def
  new_execution_def demo_claimed_def demo_claim_def

lemma demo_claims:
  "claim_command demo_server demo_db ''h'' ''l'' 10 20 = (Inr (Some demo_claim), demo_claimed)"
  by (simp add: demo_defs claim_command_def command_credential_node_def credential_active_def
      recover_leased_def expire_running_def sql_update_def claimable_def claim_order_def int4_def
      sql_count_def lease_target_def lease_row_def Let_def)

section \<open>The state of the queue\<close>

text \<open>Whatever operations run against an initially empty database, under any failures of the
database server, the two command tables stay well-formed: identifiers are unique, a task has at
most one execution per node, every execution belongs to a task that passed the validation, and
the lease, start and finish columns of a row agree with its status.\<close>

theorem command_queue_invariant:
  assumes "queue_reach empty_database db"
  shows "queue_inv db"
  using assms queue_inv_empty by (rule queue_reach_inv)

definition demo_setup :: database where
  "demo_setup = demo_db\<lparr>db_tasks := [], db_executions := []\<rparr>"

lemma demo_setup_reach: "queue_reach empty_database (run_op sv demo_setup op)"
  by (intro reach_op reach_other [OF reach_start])
    (simp add: other_change_def demo_setup_def empty_database_def)

theorem command_queue_invariant_witness:
  "queue_inv (run_op demo_server demo_setup
     (OpCreate (scan_command_task demo_task []) [''n'']))"
  by (rule command_queue_invariant) (rule demo_setup_reach)

text \<open>C3: A result is final: once an execution has succeeded, failed or timed out, every later
database holds exactly that row under its identifier, with no column changed.\<close>

theorem command_results_final:
  assumes "queue_inv db" and "queue_reach db db'"
    and "e \<in> set (db_executions db)" and "status_terminal (xr_status e)"
  shows "e \<in> set (db_executions db') \<and>
    (\<forall>f. f \<in> set (db_executions db') \<and> xr_id f = xr_id e \<longrightarrow> f = e)"
proof -
  have "e \<in> set (db_executions db')"
    using queue_reach_evolves [OF assms(2)] assms(3,4)
    by (rule exec.evolves_final [unfolded execution_final_def])
  then show ?thesis using queue_inv_unique [OF queue_reach_inv [OF assms(2,1)]] by blast
qed

lemma started_stays:
  assumes "queue_inv db" and "queue_reach db db'"
    and "e \<in> set (db_executions db)" and "xr_status e = Running \<or> status_terminal (xr_status e)"
    and "f \<in> set (db_executions db')" and "xr_id f = xr_id e"
  shows "xr_status f = Running \<or> status_terminal (xr_status f)"
proof -
  have "distinct (map xr_id (db_executions db'))"
    using queue_reach_inv [OF assms(2,1)] by (simp add: queue_inv_def)
  note steps = exec.evolves_lookup [OF queue_reach_evolves [OF assms(2)] this assms(3,5,6)]
  show ?thesis
    by (rule exec.steps_inv [where I = "\<lambda>e. xr_status e = Running \<or> status_terminal (xr_status e)",
          OF steps assms(4)]) (rule execution_step_running [unfolded execution_final_def])
qed

lemma claim_started:
  assumes "claim_command sv db c l now d = (Inr (Some cl), db')" and "e \<in> set (db_executions db)"
    and "queue_inv db" and "xr_status e = Running \<or> status_terminal (xr_status e)"
  shows "cl_execution_id cl \<noteq> xr_id e"
proof
  assume eq: "cl_execution_id cl = xr_id e"
  from assms(1) obtain q nid where q:
    "q \<in> set (recover_leased nid now (expire_running nid now (db_executions db)))"
    "xr_id q = cl_execution_id cl" "xr_status q = Queued" by (rule claimed_row) auto
  from q(1) obtain p where p: "p \<in> set (db_executions db)" "q = reset_row nid now p"
    by (auto simp: recovered_map)
  then have p': "xr_id p = xr_id q" "xr_status p = Queued \<or> xr_status p = Leased"
    using q(3) by (auto simp: reset_row_simps split: if_splits)
  have "xr_id p = xr_id e" using p'(1) q(2) eq by (rule trans [OF _ trans])
  then have "p = e" by (rule queue_inv_unique [OF assms(3) p(1) assms(2)])
  with p'(2) assms(4) show False by auto
qed

text \<open>C4: A command that an Agent reported as started is never handed out again, however its
lease ends and whatever happens in between: no later claim of any device returns it.\<close>

theorem started_never_claimed_again:
  assumes "queue_inv db" and "e \<in> set (db_executions db)" and "xr_status e = Running"
    and "queue_reach db db'" and "claim_command sv db' c l now d = (Inr (Some cl), db'')"
  shows "cl_execution_id cl \<noteq> xr_id e"
proof -
  obtain f where "f \<in> set (db_executions db')" "xr_id f = xr_id e"
    using queue_reach_evolves [OF assms(4)] assms(2) by (rule exec.evolves_row)
  moreover from this have "xr_status f = Running \<or> status_terminal (xr_status f)"
    using started_stays assms(1-4) by blast
  moreover have "queue_inv db'" using assms(4,1) by (rule queue_reach_inv)
  ultimately show ?thesis using claim_started [OF assms(5)] by metis
qed

text \<open>The witnesses start from the demonstration database with its command started.\<close>

definition demo_started :: database where
  "demo_started = demo_db\<lparr>db_executions := [start_row 12 (lease_row ''l'' 30 (new_execution ''e'' ''t'' ''n''))]\<rparr>"

lemma demo_starts:
  "start_command demo_server demo_claimed ''h'' ''e'' ''l'' 12 = (Inr (), demo_started)"
  by (simp add: demo_defs demo_started_def start_command_def command_credential_node_def
      credential_active_def held_by_def lease_valid_def sql_update_def sql_count_def start_row_def
      lease_row_def Let_def)

definition demo_result :: command_completion where
  "demo_result = \<lparr>cc_execution_id = ''e'', cc_lease_token = ''l'', cc_status = Succeeded,
     cc_exit_code = Some 0, cc_output = [], cc_output_truncated = False, cc_error_message = [],
     cc_duration_ms = 7\<rparr>"

definition demo_done :: database where
  "demo_done = demo_db\<lparr>db_executions :=
     [complete_row demo_result 14 (start_row 12 (lease_row ''l'' 30 (new_execution ''e'' ''t'' ''n'')))]\<rparr>"

lemma demo_completes:
  "complete_command demo_server demo_started ''h'' ''l'' demo_result 14 = (Inr (), demo_done)"
  by (simp add: demo_defs demo_started_def demo_result_def demo_done_def complete_command_def
      valid_command_completion_def completion_storable_def storable_text_def int4_def
      command_credential_node_def credential_active_def held_by_def lease_valid_def sql_update_def
      sql_count_def row_defs Let_def)

lemma demo_claimed_inv: "queue_inv demo_claimed"
  using run_op_inv [OF demo_inv, of demo_server "OpClaim ''h'' ''l'' 10 20"]
  by (simp add: demo_claims)

lemma demo_started_inv: "queue_inv demo_started"
  using run_op_inv [OF demo_claimed_inv, of demo_server "OpStart ''h'' ''e'' ''l'' 12"]
  by (simp add: demo_starts)

lemma demo_done_inv: "queue_inv demo_done"
  using run_op_inv [OF demo_started_inv, of demo_server "OpComplete ''h'' ''l'' demo_result 14"]
  by (simp add: demo_completes)

theorem command_results_final_witness:
  "hd (db_executions demo_done) \<in>
     set (db_executions (run_op demo_server demo_done (OpClaim ''h'' ''l2'' 99 20)))"
proof -
  have "hd (db_executions demo_done) \<in> set (db_executions demo_done)"
      "status_terminal (xr_status (hd (db_executions demo_done)))"
    by (simp_all add: demo_done_def demo_db_def complete_row_def demo_result_def)
  with command_results_final [OF demo_done_inv reach_op [OF reach_start]] show ?thesis by blast
qed

text \<open>A second execution, so that a claim after the start has something to return.\<close>

definition demo_task2 :: task_row where
  "demo_task2 = demo_task\<lparr>tr_id := ''t2'', tr_created_at := 6\<rparr>"

definition demo_busy :: database where
  "demo_busy = demo_started\<lparr>db_tasks := [demo_task, demo_task2],
     db_executions := db_executions demo_started @ [new_execution ''e2'' ''t2'' ''n'']\<rparr>"

lemma demo_busy_inv: "queue_inv demo_busy"
proof -
  have "task_valid demo_task2"
    using demo_task_valid by (simp add: task_valid_def demo_task2_def)
  then show ?thesis using demo_task_valid
    by (simp add: queue_inv_def demo_busy_def demo_started_def demo_db_def empty_database_def
        new_execution_def execution_ok_def row_defs) (simp add: demo_task_def demo_task2_def)
qed

lemma demo_busy_claims:
  "\<exists>db'. claim_command demo_server demo_busy ''h'' ''l2'' 20 5 =
     (Inr (Some (demo_claim\<lparr>cl_execution_id := ''e2'', cl_task_id := ''t2'', cl_lease_expires_at := 25\<rparr>)), db')"
  by (simp add: demo_defs demo_busy_def demo_started_def demo_task2_def claim_command_def
      command_credential_node_def credential_active_def recovered_map reset_row_def lease_expired_def
      claimable_def claim_order_def int4_def sql_count_def lease_target_def row_defs Let_def)

theorem started_never_claimed_again_witness: "''e2'' \<noteq> xr_id (hd (db_executions demo_started))"
proof -
  from demo_busy_claims obtain db' where "claim_command demo_server demo_busy ''h'' ''l2'' 20 5 =
     (Inr (Some (demo_claim\<lparr>cl_execution_id := ''e2'', cl_task_id := ''t2'', cl_lease_expires_at := 25\<rparr>)), db')"
    by blast
  from started_never_claimed_again
      [OF demo_busy_inv _ _ reach_start this, of "hd (db_executions demo_started)"]
  show ?thesis
    by (simp add: demo_busy_def demo_started_def demo_db_def new_execution_def demo_claim_def row_defs)
qed

section \<open>Leases\<close>

text \<open>The databases reachable from one another while every claim's clock is before \<open>T\<close>.\<close>

fun op_before :: "time \<Rightarrow> command_op \<Rightarrow> bool" where
  "op_before T (OpClaim c l now d) = (now < T)"
| "op_before T _ = True"

inductive queue_until :: "time \<Rightarrow> database \<Rightarrow> database \<Rightarrow> bool" for T db0 where
  until_start: "queue_until T db0 db0"
| until_op: "queue_until T db0 db \<Longrightarrow> op_before T op \<Longrightarrow> queue_until T db0 (run_op sv db op)"
| until_other: "queue_until T db0 db \<Longrightarrow> other_change db db' \<Longrightarrow> queue_until T db0 db'"

lemma queue_until_reach: "queue_until T db0 db \<Longrightarrow> queue_reach db0 db"
  by (induction rule: queue_until.induct) (auto intro: queue_reach.intros)

text \<open>Execution \<open>i\<close> is not free to be claimed: started, finished, or leased until \<open>T\<close>.\<close>

definition lease_kept :: "string \<Rightarrow> time \<Rightarrow> execution_row \<Rightarrow> bool" where
  "lease_kept i T e \<longleftrightarrow> xr_id e = i \<longrightarrow>
     xr_status e \<noteq> Queued \<and> (xr_status e = Leased \<longrightarrow> xr_lease_expires e = Some T)"

definition leased_until :: "string \<Rightarrow> time \<Rightarrow> execution_row list \<Rightarrow> bool" where
  "leased_until i T es \<longleftrightarrow> i \<in> xr_id ` set es \<and> (\<forall>e\<in>set es. lease_kept i T e)"

lemma leased_until_update:
  assumes "leased_until i T es"
    and "\<And>e. P e \<Longrightarrow> lease_kept i T e \<Longrightarrow> lease_kept i T (f e)" and "\<And>e. xr_id (f e) = xr_id e"
  shows "leased_until i T (sql_update P f es)"
proof -
  have "map xr_id (sql_update P f es) = map xr_id es" using assms(3) by (rule map_sql_update_key)
  then have "xr_id ` set (sql_update P f es) = xr_id ` set es" by (metis list.set_map)
  then show ?thesis using assms(1,2) by (auto simp: leased_until_def in_sql_update)
qed

lemma leased_until_insert:
  assumes "leased_until i T (db_executions db)" and "executions_insertable (db\<lparr>db_tasks := ts\<rparr>) new"
  shows "leased_until i T (db_executions db @ new)"
  using assms by (auto simp: leased_until_def executions_insertable_def lease_kept_def)

lemma leased_until_insert_command:
  "leased_until i T (db_executions db) \<Longrightarrow>
   leased_until i T (db_executions (snd (insert_command sv db db task ids)))"
  by (simp add: insert_command_def Let_def snd_exits leased_until_insert)

lemma leased_until_recover:
  assumes "leased_until i T es" and "now < T"
  shows "leased_until i T (recover_leased nid now (expire_running nid now es))"
  unfolding recover_leased_def expire_running_def
  by (intro leased_until_update assms(1))
    (use assms(2) in \<open>auto simp: lease_kept_def lease_expired_def\<close>)

lemma leased_until_lease:
  "leased_until i T es \<Longrightarrow> leased_until i T (sql_update (lease_target j nid) (lease_row l t) es)"
  by (rule leased_until_update) (auto simp: lease_kept_def lease_target_def lease_row_def)

lemma leased_until_start:
  "leased_until i T es \<Longrightarrow> leased_until i T (sql_update (held_by j nid h now) (start_row now) es)"
  by (rule leased_until_update) (auto simp: lease_kept_def start_row_def)

lemma leased_until_complete:
  "leased_until i T es \<Longrightarrow> valid_command_completion c \<Longrightarrow>
   leased_until i T (sql_update (held_by j nid h now) (complete_row c now) es)"
  by (rule leased_until_update)
    (auto simp: lease_kept_def complete_row_def valid_command_completion_def)

lemma leased_until_op:
  assumes "leased_until i T (db_executions db)" and "op_before T op"
  shows "leased_until i T (db_executions (run_op sv db op))"
  using assms
  by (cases op)
    (simp_all add: create_command_def retry_command_def claim_command_def start_command_def
      complete_command_def Let_def snd_exits leased_until_insert_command leased_until_recover
      leased_until_lease leased_until_start leased_until_complete
      split: option.split prod.split sum.split)

lemma leased_until_reach:
  "queue_until T db db' \<Longrightarrow> leased_until i T (db_executions db) \<Longrightarrow> leased_until i T (db_executions db')"
  by (induction rule: queue_until.induct) (auto simp: other_change_def leased_until_op)

lemma claim_leases:
  assumes "claim_command sv db c l now d = (Inr (Some cl), db')" and "queue_inv db"
  shows "leased_until (cl_execution_id cl) (cl_lease_expires_at cl) (db_executions db')"
proof -
  from assms(1) obtain nid e t es where *:
    "es = recover_leased nid now (expire_running nid now (db_executions db))"
    "sql_first (claim_order sv) (claimable sv db nid es) = Some (e, t)"
    "db' = db\<lparr>db_executions := sql_update (lease_target (xr_id e) nid) (lease_row l (now + d)) es\<rparr>"
    "cl_execution_id cl = xr_id e" "cl_lease_expires_at cl = now + d"
    by (rule claim_command_Some) auto
  have e: "e \<in> set es" "xr_node_id e = nid" "xr_status e = Queued"
    using sql_first_in [OF *(2)] by (simp_all add: claimable_iff)
  have "distinct (map xr_id es)"
    using assms(2) unfolding *(1) keys_recovered by (simp add: queue_inv_def)
  then have only: "\<forall>f\<in>set es. xr_id f = xr_id e \<longrightarrow> f = e"
    using distinct_map_eq [of xr_id es _ e] e(1) by blast
  let ?es = "sql_update (lease_target (xr_id e) nid) (lease_row l (now + d)) es"
  have "xr_id ` set ?es = xr_id ` set es"
    using keys_row_update(1) by (metis list.set_map)
  then have "xr_id e \<in> xr_id ` set ?es" using e(1) by blast
  moreover have "lease_kept (xr_id e) (now + d)
      (if lease_target (xr_id e) nid q then lease_row l (now + d) q else q)" if "q \<in> set es" for q
    using only that e
    by (cases "xr_id q = xr_id e") (auto simp: lease_kept_def lease_target_def lease_row_def)
  then have "\<forall>f\<in>set ?es. lease_kept (xr_id e) (now + d) f" by (auto simp: in_sql_update)
  moreover have "db_executions db' = ?es" using *(3) by simp
  ultimately show ?thesis unfolding leased_until_def *(4,5) by simp
qed

text \<open>C5: A lease is exclusive: after a device claimed a command, no device can claim the same
execution before the lease expires, whatever operations run in between with whatever failures, as
long as their claims too happen before the expiry.\<close>

theorem command_lease_exclusive:
  assumes "queue_inv db" and "claim_command sv db c l now d = (Inr (Some cl), db1)"
    and "queue_until (cl_lease_expires_at cl) db1 db2"
    and "claim_command sv2 db2 c2 l2 now2 d2 = (Inr (Some cl2), db3)"
    and "now2 < cl_lease_expires_at cl"
  shows "cl_execution_id cl2 \<noteq> cl_execution_id cl"
proof -
  from assms(4) obtain q nid where q:
    "q \<in> set (recover_leased nid now2 (expire_running nid now2 (db_executions db2)))"
    "xr_id q = cl_execution_id cl2" "xr_status q = Queued" by (rule claimed_row) auto
  have "leased_until (cl_execution_id cl) (cl_lease_expires_at cl)
      (recover_leased nid now2 (expire_running nid now2 (db_executions db2)))"
    by (intro leased_until_recover leased_until_reach [OF assms(3)] claim_leases [OF assms(2,1)] assms(5))
  with q show ?thesis by (auto simp: leased_until_def lease_kept_def)
qed

definition demo_pair :: database where
  "demo_pair = demo_db\<lparr>db_tasks := [demo_task, demo_task2],
     db_executions := [new_execution ''e'' ''t'' ''n'', new_execution ''e2'' ''t2'' ''n'']\<rparr>"

lemma demo_pair_inv: "queue_inv demo_pair"
proof -
  have "task_valid demo_task2"
    using demo_task_valid by (simp add: task_valid_def demo_task2_def)
  then show ?thesis using demo_task_valid
    by (simp add: queue_inv_def demo_pair_def demo_db_def empty_database_def
        new_execution_def execution_ok_def) (simp add: demo_task_def demo_task2_def)
qed

lemma demo_pair_claims:
  "claim_command demo_server demo_pair ''h'' ''l'' 10 20 = (Inr (Some demo_claim),
     demo_pair\<lparr>db_executions := [lease_row ''l'' 30 (new_execution ''e'' ''t'' ''n''),
       new_execution ''e2'' ''t2'' ''n'']\<rparr>)"
  "claim_command demo_server (demo_pair\<lparr>db_executions := [lease_row ''l'' 30 (new_execution ''e'' ''t'' ''n''),
       new_execution ''e2'' ''t2'' ''n'']\<rparr>) ''h'' ''l2'' 20 5 =
     (Inr (Some (demo_claim\<lparr>cl_execution_id := ''e2'', cl_task_id := ''t2'', cl_lease_expires_at := 25\<rparr>)),
      demo_pair\<lparr>db_executions := [lease_row ''l'' 30 (new_execution ''e'' ''t'' ''n''),
       lease_row ''l2'' 25 (new_execution ''e2'' ''t2'' ''n'')]\<rparr>)"
  by (simp_all add: demo_defs demo_pair_def demo_task2_def claim_command_def sql_update_def
      command_credential_node_def credential_active_def recovered_map reset_row_def lease_expired_def
      claimable_def claim_order_def int4_def sql_count_def lease_target_def lease_row_def Let_def)

theorem command_lease_exclusive_witness: "cl_execution_id demo_claim \<noteq> ''e2''"
  using command_lease_exclusive
    [OF demo_pair_inv demo_pair_claims(1) until_start demo_pair_claims(2)]
  by (simp add: demo_claim_def)

section \<open>Reporting\<close>

lemma held_unique:
  assumes "queue_inv db"
  shows "sql_count (held_by i nid l now) (db_executions db) = 1 \<longleftrightarrow>
    (\<exists>e\<in>set (db_executions db). held_by i nid l now e)"
  by (rule sql_count_key(1) [of xr_id _ _ i])
    (use assms in \<open>auto simp: queue_inv_def held_by_def\<close>)

text \<open>A successful completion leaves a row with exactly its result.\<close>

definition recorded :: "command_completion \<Rightarrow> string \<Rightarrow> string \<Rightarrow> execution_row \<Rightarrow> bool" where
  "recorded c nid l e \<longleftrightarrow> xr_id e = cc_execution_id c \<and> xr_node_id e = nid \<and>
     xr_lease_hash e = Some l \<and> status_terminal (xr_status e) \<and> same_command_completion c e"

lemma complete_records:
  assumes "queue_inv db" and "complete_command sv db cred l c now = (Inr (), db')"
  obtains nid e where "command_credential_node sv db cred = Inr nid"
    "e \<in> set (db_executions db')" "recorded c nid l e"
    "valid_command_completion c" "completion_storable c" "cred \<noteq> []" "l \<noteq> []"
proof -
  let ?held = "\<lambda>nid. held_by (cc_execution_id c) nid l now"
  let ?es = "\<lambda>nid. sql_update (?held nid) (complete_row c now) (db_executions db)"
  let ?find = "\<lambda>nid e. xr_id e = cc_execution_id c \<and> xr_node_id e = nid \<and> xr_lease_hash e = Some l"
  from assms(2) obtain nid where *: "command_credential_node sv db cred = Inr nid"
      "valid_command_completion c" "completion_storable c" "cred \<noteq> []" "l \<noteq> []"
      "db' = db\<lparr>db_executions := ?es nid\<rparr>"
      "sql_count (?held nid) (db_executions db) = 1 \<or>
       (\<exists>e. find (?find nid) (?es nid) = Some e \<and> same_command_completion c e)"
    by (auto simp: complete_command_def Let_def statement_Inr checked_Inr
        split: if_splits sum.splits option.splits)
  have final: "status_terminal (cc_status c)" using *(2) by (simp add: valid_command_completion_def)
  have "\<exists>e\<in>set (?es nid). recorded c nid l e"
    using *(7)
  proof
    assume "sql_count (?held nid) (db_executions db) = 1"
    then obtain e where e: "e \<in> set (db_executions db)" "?held nid e"
      using held_unique [OF assms(1)] by blast
    then have "complete_row c now e \<in> set (?es nid)" by (auto simp: in_sql_update)
    moreover have "recorded c nid l (complete_row c now e)"
      using e(2) final
      by (auto simp: recorded_def held_by_def complete_row_def same_command_completion_def
          split: option.split)
    ultimately show ?thesis by blast
  next
    assume "\<exists>e. find (?find nid) (?es nid) = Some e \<and> same_command_completion c e"
    then obtain e where e: "find (?find nid) (?es nid) = Some e" "same_command_completion c e"
      by blast
    then have "xr_status e = cc_status c" by (simp add: same_command_completion_def split: if_splits)
    then have "recorded c nid l e"
      using find_Some_conv [OF e(1)] e(2) final by (simp add: recorded_def)
    then show ?thesis using find_Some_conv [OF e(1)] by blast
  qed
  with * that show ?thesis by auto
qed

lemma not_held_update:
  "\<forall>e\<in>set es. \<not> held_by i nid l now e \<Longrightarrow>
     sql_update (held_by i nid l now) f es = es \<and> sql_count (held_by i nid l now) es = 0"
  by (simp add: sql_update_none sql_count_zero)

text \<open>A completion of a row that is not held and has another result or another lease.\<close>

lemma complete_not_held:
  assumes "healthy sv" and "valid_command_completion c" and "completion_storable c"
    and "cred \<noteq> []" and "l \<noteq> []" and "now \<noteq> 0" and "command_credential_node sv db cred = Inr nid"
    and "\<forall>e\<in>set (db_executions db). \<not> held_by (cc_execution_id c) nid l now e"
  shows "complete_command sv db cred l c now =
    ((case find (\<lambda>e. xr_id e = cc_execution_id c \<and> xr_node_id e = nid \<and> xr_lease_hash e = Some l)
              (db_executions db) of
        None \<Rightarrow> Inl (Sentinel ErrConflict)
      | Some e \<Rightarrow> if same_command_completion c e then Inr () else Inl (Sentinel ErrConflict)), db)"
  using assms not_held_update [OF assms(8)]
  by (simp add: complete_command_def Let_def split: option.split)

lemma complete_recorded:
  assumes "queue_inv db" and "e \<in> set (db_executions db)" and "recorded c nid l e"
    and "healthy sv" and "valid_command_completion c'" and "completion_storable c'"
    and "cc_execution_id c' = cc_execution_id c"
    and "cred \<noteq> []" and "l \<noteq> []" and "now \<noteq> 0" and "command_credential_node sv db cred = Inr nid"
  shows "complete_command sv db cred l c' now =
    (if same_command_completion c' e then Inr () else Inl (Sentinel ErrConflict), db)"
proof -
  have rec: "xr_id e = cc_execution_id c" "xr_node_id e = nid" "xr_lease_hash e = Some l"
      "execution_final e"
    using assms(3) by (simp_all add: recorded_def execution_final_def)
  have "\<not> held_by (cc_execution_id c') nid l now f" if "f \<in> set (db_executions db)" for f
    using queue_inv_unique [OF assms(1) that assms(2)] final_not_held [OF rec(4)] rec(1) assms(7)
    by (auto simp: held_by_def)
  then have "complete_command sv db cred l c' now =
    ((case find (\<lambda>e. xr_id e = cc_execution_id c' \<and> xr_node_id e = nid \<and> xr_lease_hash e = Some l)
              (db_executions db) of
        None \<Rightarrow> Inl (Sentinel ErrConflict)
      | Some e \<Rightarrow> if same_command_completion c' e then Inr () else Inl (Sentinel ErrConflict)), db)"
    by (intro complete_not_held assms) blast
  moreover have "find (\<lambda>e. xr_id e = cc_execution_id c' \<and> xr_node_id e = nid \<and> xr_lease_hash e = Some l)
      (db_executions db) = Some e"
    by (rule queue_inv_find [OF assms(1,2)]) (use rec assms(7) in auto)
  ultimately show ?thesis by simp
qed

lemma same_completion_eq:
  assumes "same_command_completion c e" and "same_command_completion c' e"
    and "cc_execution_id c' = cc_execution_id c" and "cc_lease_token c' = cc_lease_token c"
  shows "c' = c"
proof -
  have "cc_status c' = cc_status c \<and> cc_output c' = cc_output c \<and>
      cc_output_truncated c' = cc_output_truncated c \<and> cc_error_message c' = cc_error_message c \<and>
      cc_duration_ms c' = cc_duration_ms c \<and> cc_exit_code c' = cc_exit_code c"
    using assms(1,2) by (auto simp: same_command_completion_def split: if_splits option.splits)
  with assms(3,4) show ?thesis by (simp add: command_completion.equality)
qed

lemma recorded_reach:
  assumes "queue_inv db" and "queue_reach db db'" and "e \<in> set (db_executions db)" and "recorded c nid l e"
  shows "e \<in> set (db_executions db')"
  using queue_reach_evolves [OF assms(2)] assms(3)
  by (rule exec.evolves_final) (use assms(4) in \<open>simp add: recorded_def execution_final_def\<close>)

text \<open>C10: Reporting a result is idempotent and decides the result once: after an accepted
completion, whatever happened since, the same completion under the same lease is accepted again
and a different one is refused with a conflict, and neither changes the database.\<close>

theorem completion_decided_once:
  assumes "queue_inv db" and "complete_command sv db cred l c now = (Inr (), db1)"
    and "queue_reach db1 db2" and "healthy sv2" and "now2 \<noteq> 0"
    and "command_credential_node sv2 db2 cred = command_credential_node sv db cred"
    and "valid_command_completion c'" and "completion_storable c'"
    and "cc_execution_id c' = cc_execution_id c" and "cc_lease_token c' = cc_lease_token c"
  shows "complete_command sv2 db2 cred l c' now2 =
    (if c' = c then Inr () else Inl (Sentinel ErrConflict), db2)"
proof -
  have inv1: "queue_inv db1" using run_op_inv [OF assms(1), of sv "OpComplete cred l c now"] assms(2)
    by simp
  from assms(1,2) obtain nid e where e: "command_credential_node sv db cred = Inr nid"
    "e \<in> set (db_executions db1)" "recorded c nid l e" "cred \<noteq> []" "l \<noteq> []"
    by (rule complete_records)
  have "e \<in> set (db_executions db2)" using inv1 assms(3) e(2,3) by (rule recorded_reach)
  then have "complete_command sv2 db2 cred l c' now2 =
      (if same_command_completion c' e then Inr () else Inl (Sentinel ErrConflict), db2)"
    by (rule complete_recorded [OF queue_reach_inv [OF assms(3) inv1]]) (use assms e in simp_all)
  moreover have "same_command_completion c' e \<longleftrightarrow> c' = c"
    using same_completion_eq [of c e c'] e(3) assms(9,10) by (auto simp: recorded_def)
  ultimately show ?thesis by simp
qed

lemma demo_result_ok: "valid_command_completion (demo_result\<lparr>cc_exit_code := x\<rparr>)"
  "completion_storable demo_result" "completion_storable (demo_result\<lparr>cc_exit_code := Some 1\<rparr>)"
  by (simp_all add: demo_result_def valid_command_completion_def completion_storable_def
      storable_text_def int4_def)

lemma demo_healthy: "healthy demo_server"
  by (simp add: healthy_def demo_server_def)

lemma demo_node_of:
  "command_credential_node demo_server demo_started ''h'' = Inr ''n''"
  "command_credential_node demo_server demo_done ''h'' = Inr ''n''"
  by (simp_all add: command_credential_node_def credential_active_def demo_defs demo_started_def
      demo_done_def)

theorem completion_decided_once_witness:
  "complete_command demo_server demo_done ''h'' ''l'' (demo_result\<lparr>cc_exit_code := Some 1\<rparr>) 99 =
     (Inl (Sentinel ErrConflict), demo_done)"
  using completion_decided_once
    [OF demo_started_inv demo_completes reach_start demo_healthy, of 99 "demo_result\<lparr>cc_exit_code := Some 1\<rparr>"]
  by (simp add: demo_node_of demo_result_ok) (simp add: demo_result_def)

text \<open>Nobody but the holder of an unexpired lease reports: a start or a result that comes with
another node's credential, another lease token or after the lease ended is refused with a conflict
and changes nothing (a result that was already recorded under that lease aside).\<close>

theorem only_the_holder_reports:
  assumes "healthy sv" and "cred \<noteq> []" and "l \<noteq> []" and "now \<noteq> 0"
    and "command_credential_node sv db cred = Inr nid"
    and "\<forall>e\<in>set (db_executions db). xr_id e = i \<and> xr_node_id e = nid \<and> xr_lease_hash e = Some l \<longrightarrow>
           \<not> lease_valid now e \<and> \<not> status_terminal (xr_status e)"
    and "valid_command_completion c" and "completion_storable c" and "cc_execution_id c = i"
  shows "start_command sv db cred i l now = (Inl (Sentinel ErrConflict), db) \<and>
    complete_command sv db cred l c now = (Inl (Sentinel ErrConflict), db)"
proof
  have i: "i \<noteq> []" using assms(7,9) by (simp add: valid_command_completion_def)
  have none: "\<forall>e\<in>set (db_executions db). \<not> held_by i nid l now e"
    using assms(6) by (auto simp: held_by_def)
  show "start_command sv db cred i l now = (Inl (Sentinel ErrConflict), db)"
    using assms i not_held_update [OF none] by (simp add: start_command_def Let_def)
  have "\<not> same_command_completion c e"
    if "find (\<lambda>e. xr_id e = cc_execution_id c \<and> xr_node_id e = nid \<and> xr_lease_hash e = Some l)
        (db_executions db) = Some e" for e
    using find_Some_conv [OF that] assms(6,7,9)
    by (auto simp: same_command_completion_def valid_command_completion_def)
  then show "complete_command sv db cred l c now = (Inl (Sentinel ErrConflict), db)"
    using none assms by (subst complete_not_held) (auto split: option.split)
qed

theorem only_the_holder_reports_witness:
  "start_command demo_server demo_started ''h'' ''e'' ''forged'' 20 = (Inl (Sentinel ErrConflict), demo_started)
   \<and> complete_command demo_server demo_started ''h'' ''l'' demo_result 30 =
       (Inl (Sentinel ErrConflict), demo_started)"
proof
  note facts = demo_healthy demo_node_of(1) demo_result_ok(1) [of "Some 0"] demo_result_ok(2)
  have *: "demo_result\<lparr>cc_exit_code := Some 0\<rparr> = demo_result" by (simp add: demo_result_def)
  show "start_command demo_server demo_started ''h'' ''e'' ''forged'' 20 =
      (Inl (Sentinel ErrConflict), demo_started)"
    by (rule only_the_holder_reports [where c = demo_result and nid = "''n''", THEN conjunct1])
      (use facts * in \<open>simp_all add: demo_started_def demo_db_def row_defs demo_result_def new_execution_def\<close>)
  show "complete_command demo_server demo_started ''h'' ''l'' demo_result 30 =
      (Inl (Sentinel ErrConflict), demo_started)"
    by (rule only_the_holder_reports [where i = "''e''" and nid = "''n''", THEN conjunct2])
      (use facts * in \<open>simp_all add: demo_started_def demo_db_def row_defs new_execution_def lease_valid_def
         demo_result_def\<close>)
qed

section \<open>Which command a claim hands out\<close>

definition collation :: "server \<Rightarrow> bool" where
  "collation sv \<longleftrightarrow> (\<forall>a b. sv_text_le sv a b \<or> sv_text_le sv b a) \<and>
     (\<forall>a b c. sv_text_le sv a b \<longrightarrow> sv_text_le sv b c \<longrightarrow> sv_text_le sv a c)"

lemma collation_total: "collation sv \<Longrightarrow> sv_text_le sv a b \<or> sv_text_le sv b a"
  unfolding collation_def by blast

lemma claim_order_least:
  assumes "collation sv" and "sql_first (claim_order sv) ps = Some p" and "q \<in> set ps"
  shows "claim_order sv p q"
proof (rule sql_first_least [OF _ _ assms(2,3)])
  fix a b :: "execution_row \<times> task_row"
  show "claim_order sv a b \<or> claim_order sv b a"
    using collation_total [OF assms(1), of "xr_id (fst a)" "xr_id (fst b)"]
    by (auto simp: claim_order_def)
next
  fix a b c :: "execution_row \<times> task_row"
  assume *: "claim_order sv a b" "claim_order sv b c"
  have "sv_text_le sv (xr_id (fst a)) (xr_id (fst c))"
    if "sv_text_le sv (xr_id (fst a)) (xr_id (fst b))" "sv_text_le sv (xr_id (fst b)) (xr_id (fst c))"
    using assms(1) that unfolding collation_def by blast
  with * show "claim_order sv a c" by (auto simp: claim_order_def)
qed

text \<open>The row that a claim returns, before the recovery statements of that same claim.\<close>

definition available :: "server \<Rightarrow> string \<Rightarrow> time \<Rightarrow> execution_row \<Rightarrow> bool" where
  "available sv nid now e \<longleftrightarrow> xr_node_id e = nid \<and> \<not> sv_locked sv (xr_id e) \<and>
     (xr_status e = Queued \<or> xr_status e = Leased \<and> lease_expired now e)"

lemma available_reset:
  "available sv nid now e \<longleftrightarrow> xr_node_id e = nid \<and> xr_status (reset_row nid now e) = Queued \<and>
     \<not> sv_locked sv (xr_id e)"
  by (auto simp: available_def reset_row_simps)

text \<open>A claim hands the device the oldest work it may run: the claimed execution belongs to
the device's node, was queued or held under an expired lease, belongs to the task created first
among all such executions, and carries that task's shell, command and timeout, which pass the
validation the Agent applies before it runs anything.\<close>

theorem claim_returns_oldest:
  assumes "queue_inv db" and "collation sv"
    and "claim_command sv db c l now d = (Inr (Some cl), db')"
    and "command_credential_node sv db c = Inr nid"
  shows "\<exists>e\<in>set (db_executions db). \<exists>t\<in>set (db_tasks db).
    available sv nid now e \<and> xr_id e = cl_execution_id cl \<and> tr_id t = xr_task_id e \<and>
    tr_id t = cl_task_id cl \<and> tr_shell t = cl_shell cl \<and> tr_command t = cl_command cl \<and>
    tr_timeout t = cl_timeout cl \<and>
    validate_command (cl_shell cl) (cl_command cl) (cl_timeout cl) = None \<and>
    (\<forall>f\<in>set (db_executions db). \<forall>u\<in>set (db_tasks db).
       available sv nid now f \<and> tr_id u = xr_task_id f \<longrightarrow> tr_created_at t \<le> tr_created_at u)"
proof -
  let ?es = "map (reset_row nid now) (db_executions db)"
  from assms(3,4) obtain e t where *: "sql_first (claim_order sv) (claimable sv db nid ?es) = Some (e, t)"
    "cl = \<lparr>cl_execution_id = xr_id e, cl_task_id = tr_id t, cl_shell = tr_shell t,
       cl_command = tr_command t, cl_timeout = tr_timeout t, cl_lease_token = [],
       cl_lease_expires_at = now + d\<rparr>"
    by (auto elim!: claim_command_Some simp: recovered_map)
  from sql_first_in [OF *(1)] obtain e0 where e0: "e0 \<in> set (db_executions db)" "e = reset_row nid now e0"
    and t: "t \<in> set (db_tasks db)" "tr_id t = xr_task_id e" "available sv nid now e0"
    by (auto simp: claimable_iff available_reset reset_row_simps(1,2))
  have "tr_created_at t \<le> tr_created_at u"
    if "f \<in> set (db_executions db)" "u \<in> set (db_tasks db)" "available sv nid now f" "tr_id u = xr_task_id f"
    for f u
  proof -
    have "(reset_row nid now f, u) \<in> set (claimable sv db nid ?es)"
      using that by (simp add: claimable_iff available_reset reset_row_simps(1-3))
    with assms(2) *(1) have "claim_order sv (e, t) (reset_row nid now f, u)" by (rule claim_order_least)
    then show ?thesis by (auto simp: claim_order_def)
  qed
  moreover have "validate_command (tr_shell t) (tr_command t) (tr_timeout t) = None"
    using assms(1) t(1) by (simp add: queue_inv_def task_valid_def)
  ultimately show ?thesis
    using e0 t *(2) by (intro bexI [of _ e0] bexI [of _ t]) (simp_all add: reset_row_simps(1-3))
qed

lemma demo_collation: "collation demo_server"
  by (simp add: collation_def demo_server_def)

lemma demo_pair_node: "command_credential_node demo_server demo_pair ''h'' = Inr ''n''"
  by (simp add: command_credential_node_def credential_active_def demo_defs demo_pair_def)

theorem claim_returns_oldest_witness:
  "\<exists>t\<in>set (db_tasks demo_pair). tr_id t = ''t'' \<and> tr_created_at t \<le> tr_created_at demo_task2"
proof -
  have "new_execution ''e2'' ''t2'' ''n'' \<in> set (db_executions demo_pair)" "demo_task2 \<in> set (db_tasks demo_pair)"
    "available demo_server ''n'' 10 (new_execution ''e2'' ''t2'' ''n'')"
    "tr_id demo_task2 = xr_task_id (new_execution ''e2'' ''t2'' ''n'')"
    by (simp_all add: demo_pair_def available_def demo_server_def new_execution_def demo_task2_def)
  with claim_returns_oldest [OF demo_pair_inv demo_collation demo_pair_claims(1) demo_pair_node]
  show ?thesis by (auto simp: demo_claim_def)
qed

text \<open>C36: Work is not forgotten: as long as the server works, a device whose node has an execution
that is queued, or leased to someone whose lease ran out, gets one from its claim, and after the
claim nothing of the node is left running or leased past its expiry.\<close>

theorem claim_progress:
  assumes "queue_inv db" and "healthy sv" and "c \<noteq> []" and "l \<noteq> []" and "now \<noteq> 0" and "0 < d"
    and "command_credential_node sv db c = Inr nid"
    and "e \<in> set (db_executions db)" and "available sv nid now e"
    and "\<forall>f\<in>set (db_executions db). xr_attempt f < 2 ^ 31 - 1"
  shows "\<exists>cl db'. claim_command sv db c l now d = (Inr (Some cl), db') \<and>
    (\<forall>f\<in>set (db_executions db'). xr_node_id f = nid \<and> (xr_status f = Running \<or> xr_status f = Leased) \<longrightarrow>
       \<not> lease_expired now f)"
proof -
  let ?es = "map (reset_row nid now) (db_executions db)"
  obtain t where t: "t \<in> set (db_tasks db)" "tr_id t = xr_task_id e"
    using assms(1,8) by (auto simp: queue_inv_def)
  have "(reset_row nid now e, t) \<in> set (claimable sv db nid ?es)"
    using assms(8,9) t by (simp add: claimable_iff available_reset reset_row_simps(1-3))
  then obtain q u where first: "sql_first (claim_order sv) (claimable sv db nid ?es) = Some (q, u)"
    by (cases "sql_first (claim_order sv) (claimable sv db nid ?es)") auto
  then have q: "q \<in> set ?es" "xr_node_id q = nid" "xr_status q = Queued"
    using sql_first_in [OF first] by (simp_all add: claimable_iff)
  have attempt: "int4 (xr_attempt q + 1)"
  proof -
    obtain p where "p \<in> set (db_executions db)" "xr_attempt q = xr_attempt p"
      using q(1) by (auto simp: reset_row_simps)
    moreover from this have "0 \<le> xr_attempt p" "xr_attempt p < 2 ^ 31 - 1"
      using assms(1,10) by (auto simp: queue_inv_def execution_ok_def)
    ultimately show ?thesis by (simp add: int4_def)
  qed
  have ids: "distinct (map xr_id ?es)"
    using assms(1) by (simp add: queue_inv_def comp_def reset_row_simps)
  have "sql_count (lease_target (xr_id q) nid) ?es = 1"
    using q by (subst sql_count_key(1) [OF ids, of _ "xr_id q"])
      (simp_all add: lease_target_def bexI [of _ q] del: set_map)
  then have "\<exists>cl. claim_command sv db c l now d = (Inr (Some cl),
      db\<lparr>db_executions := sql_update (lease_target (xr_id q) nid) (lease_row l (now + d)) ?es\<rparr>)"
    using assms(2-7) first attempt by (simp add: claim_command_def recovered_map Let_def)
  moreover have "\<not> lease_expired now f"
    if "f \<in> set (sql_update (lease_target (xr_id q) nid) (lease_row l (now + d)) ?es)"
      "xr_node_id f = nid" "xr_status f = Running \<or> xr_status f = Leased" for f
  proof -
    from that(1) obtain p where p: "f = (if lease_target (xr_id q) nid (reset_row nid now p)
        then lease_row l (now + d) (reset_row nid now p) else reset_row nid now p)"
      by (auto simp: in_sql_update)
    show ?thesis
    proof (cases "lease_target (xr_id q) nid (reset_row nid now p)")
      case True
      then show ?thesis using p assms(6) by (simp add: lease_expired_def lease_row_def)
    next
      case False
      then show ?thesis using p that(2,3) by (auto simp: reset_row_def split: if_splits)
    qed
  qed
  ultimately show ?thesis by auto
qed

theorem claim_progress_witness:
  "\<exists>cl db'. claim_command demo_server demo_db ''h'' ''l'' 10 20 = (Inr (Some cl), db')"
proof -
  have node: "command_credential_node demo_server demo_db ''h'' = Inr ''n''"
    by (simp add: command_credential_node_def credential_active_def demo_defs)
  have "new_execution ''e'' ''t'' ''n'' \<in> set (db_executions demo_db)"
    "available demo_server ''n'' 10 (new_execution ''e'' ''t'' ''n'')"
    "\<forall>f\<in>set (db_executions demo_db). xr_attempt f < 2 ^ 31 - 1"
    by (simp_all add: demo_db_def available_def demo_server_def new_execution_def)
  from claim_progress [OF demo_inv demo_healthy _ _ _ _ node this, of "''l''" 20]
  show ?thesis by auto
qed

section \<open>Limits of the schema and separation of the devices\<close>


definition access_violation :: command_completion where
  "access_violation = demo_result\<lparr>cc_status := Failed, cc_exit_code := Some 3221225477\<rparr>"


definition other_rows :: "string \<Rightarrow> execution_row list \<Rightarrow> execution_row list" where
  "other_rows nid es = filter (\<lambda>e. xr_node_id e \<noteq> nid) es"

lemma other_rows_update:
  assumes "\<And>e. P e \<Longrightarrow> xr_node_id e = nid" and "\<And>e. xr_node_id (f e) = xr_node_id e"
  shows "other_rows nid (sql_update P f es) = other_rows nid es"
  unfolding other_rows_def sql_update_def
  using assms by (induction es) auto

lemma other_rows_ops:
  "other_rows nid (recover_leased nid now (expire_running nid now es)) = other_rows nid es"
  "other_rows nid (sql_update (lease_target i nid) (lease_row l t) es) = other_rows nid es"
  "other_rows nid (sql_update (held_by i nid l now) (start_row now) es) = other_rows nid es"
  "other_rows nid (sql_update (held_by i nid l now) (complete_row c now) es) = other_rows nid es"
  unfolding recover_leased_def expire_running_def
  by (rule trans [OF other_rows_update other_rows_update]; simp)
    (rule other_rows_update; simp add: lease_target_def held_by_def row_defs)+

fun device_op :: "string \<Rightarrow> command_op \<Rightarrow> bool" where
  "device_op cred (OpClaim c l now d) = (c = cred)"
| "device_op cred (OpStart c e l now) = (c = cred)"
| "device_op cred (OpComplete c l r now) = (c = cred)"
| "device_op cred _ = False"

text \<open>A device credential reaches only its own node: claiming, starting and completing with it
leave every execution of every other node, and all tasks, unchanged; a credential that is unknown,
revoked or belongs to a node that does not run Windows changes nothing at all.\<close>

theorem device_isolation:
  assumes "device_op cred op"
  shows "db_tasks (run_op sv db op) = db_tasks db \<and>
    (case command_credential_node sv db cred of
       Inl e \<Rightarrow> run_op sv db op = db
     | Inr nid \<Rightarrow> other_rows nid (db_executions (run_op sv db op)) = other_rows nid (db_executions db))"
  using assms
  by (cases op)
    (simp_all add: claim_command_def start_command_def complete_command_def Let_def snd_exits
      other_rows_ops split: sum.split option.split)

theorem device_isolation_witness:
  "run_op demo_server demo_db (OpClaim ''stolen'' ''l'' 10 20) = demo_db"
  using device_isolation [of "''stolen''" "OpClaim ''stolen'' ''l'' 10 20" demo_server demo_db]
  by (simp add: command_credential_node_def credential_active_def demo_defs)

section \<open>Retrying and counting\<close>

lemma insert_nodes: "map xr_node_id (command_execution_insert sv tid ids) = ids"
  by (simp add: command_execution_insert_def new_execution_def comp_def split_def)

lemma insert_row: "n \<in> set (command_execution_insert sv tid ids) \<Longrightarrow>
    n = new_execution (xr_id n) tid (xr_node_id n)"
  by (auto simp: command_execution_insert_def new_execution_def)

lemma insert_targets:
  "map target_key (command_execution_insert sv tid ids) = map (Pair tid) ids"
proof -
  have "map target_key (command_execution_insert sv tid ids) =
      map (Pair tid) (map xr_node_id (command_execution_insert sv tid ids))"
    by (auto simp: command_execution_insert_def new_execution_def)
  then show ?thesis by (simp only: insert_nodes)
qed

definition retryable :: "database \<Rightarrow> string \<Rightarrow> string set" where
  "retryable db source = xr_node_id `
     {e \<in> set (db_executions db). xr_task_id e = source \<and> (xr_status e = Failed \<or> xr_status e = TimedOut)}"

lemma set_retry_targets: "set (retry_targets sv db source) = retryable db source"
  by (auto simp: retry_targets_def retryable_def)

lemma insert_command_Inr:
  assumes "insert_command sv db0 db task ids = (Inr d, db')"
  shows "db_executions db' = db_executions db @ command_execution_insert sv (ct_id task) ids"
    and "db_tasks db' = db_tasks db @ [\<lparr>tr_id = ct_id task, tr_shell = ct_shell task,
       tr_command = ct_command task, tr_timeout = ct_timeout task, tr_created_by = ct_created_by task,
       tr_retried_from = ct_retried_from task, tr_created_at = ct_created_at task\<rparr>]"
    and "distinct ids"
proof -
  from assms have *: "executions_insertable (db\<lparr>db_tasks := db_tasks db'\<rparr>) (command_execution_insert sv (ct_id task) ids)"
    "db' = db\<lparr>db_tasks := db_tasks db', db_executions := db_executions db @ command_execution_insert sv (ct_id task) ids\<rparr>"
    "db_tasks db' = db_tasks db @ [\<lparr>tr_id = ct_id task, tr_shell = ct_shell task,
       tr_command = ct_command task, tr_timeout = ct_timeout task, tr_created_by = ct_created_by task,
       tr_retried_from = ct_retried_from task, tr_created_at = ct_created_at task\<rparr>]"
    by (auto simp: insert_command_def Let_def statement_Inr checked_Inr)
  show "db_executions db' = db_executions db @ command_execution_insert sv (ct_id task) ids"
    by (subst *(2)) simp
  show "db_tasks db' = db_tasks db @ [\<lparr>tr_id = ct_id task, tr_shell = ct_shell task,
       tr_command = ct_command task, tr_timeout = ct_timeout task, tr_created_by = ct_created_by task,
       tr_retried_from = ct_retried_from task, tr_created_at = ct_created_at task\<rparr>]"
    by (rule *(3))
  have "distinct (map target_key (command_execution_insert sv (ct_id task) ids))"
    using *(1) by (simp add: executions_insertable_def)
  moreover have "map target_key (command_execution_insert sv (ct_id task) ids) = map (Pair (ct_id task)) ids"
    using insert_targets [of sv "ct_id task" ids] .
  ultimately show "distinct ids" by (simp add: distinct_map)
qed

lemma commit_Inr: "commit sv l b r = (Inr a, d) \<Longrightarrow> r = (Inr a, d)"
  by (cases r; cases "fst r") (auto simp: commit_def statement_Inr)

text \<open>A retry runs the same command again exactly where it failed: it adds one task with the
shell, command and timeout of the source and a link to it, and one queued execution for each node
where the source failed or timed out and for no other; everything that existed is unchanged.\<close>

theorem retry_targets_failures:
  assumes "retry_command sv db task source = (Inr detail, db')"
  shows "\<exists>s t new. s \<in> set (db_tasks db) \<and> tr_id s = source \<and>
    db_tasks db' = db_tasks db @ [t] \<and> tr_id t = ct_id task \<and> tr_retried_from t = Some source \<and>
    tr_shell t = tr_shell s \<and> tr_command t = tr_command s \<and> tr_timeout t = tr_timeout s \<and>
    db_executions db' = db_executions db @ new \<and>
    (\<forall>n\<in>set new. n = new_execution (xr_id n) (ct_id task) (xr_node_id n)) \<and>
    xr_node_id ` set new = retryable db source \<and> length new = card (retryable db source)"
proof -
  let ?ids = "retry_targets sv db source"
  from assms obtain s where s: "find (\<lambda>t. tr_id t = source) (db_tasks db) = Some s"
    and ins: "insert_command sv db db (task\<lparr>ct_shell := tr_shell s, ct_command := tr_command s,
        ct_timeout := tr_timeout s, ct_retried_from := Some source\<rparr>) ?ids = (Inr detail, db')"
    by (auto simp: retry_command_def Let_def statement_Inr dest!: commit_Inr
        split: if_splits option.splits)
  let ?new = "command_execution_insert sv (ct_id task) ?ids"
  note new = insert_command_Inr [OF ins]
  have "xr_node_id ` set ?new = retryable db source"
    by (metis insert_nodes list.set_map set_retry_targets)
  moreover have "length ?new = card (retryable db source)"
    using new(3) by (metis distinct_card insert_nodes length_map set_retry_targets)
  moreover have "\<forall>n\<in>set ?new. n = new_execution (xr_id n) (ct_id task) (xr_node_id n)"
    using insert_row by blast
  ultimately show ?thesis using new(1,2) find_Some_conv [OF s] by auto
qed

definition demo_failed :: database where
  "demo_failed = demo_db\<lparr>db_executions := [(new_execution ''e'' ''t'' ''n'')\<lparr>xr_status := Failed\<rparr>]\<rparr>"

definition demo_retry :: command_task where
  "demo_retry = scan_command_task (demo_task\<lparr>tr_id := ''t3''\<rparr>) []"

definition fresh_server :: server where
  "fresh_server = demo_server\<lparr>sv_uuid := (\<lambda>i. ''e3'')\<rparr>"

lemma demo_retries:
  "\<exists>d db'. retry_command fresh_server demo_failed demo_retry ''t'' = (Inr d, db')"
  by (simp add: retry_command_def demo_retry_def scan_command_task_def fresh_server_def demo_failed_def
      demo_defs retry_targets_def commit_def insert_command_def task_insertable_def storable_text_def
      executions_insertable_def command_execution_insert_def Let_def)

theorem retry_targets_failures_witness:
  "\<exists>d db' new. retry_command fresh_server demo_failed demo_retry ''t'' = (Inr d, db') \<and>
     db_executions db' = db_executions demo_failed @ new \<and> length new = 1"
proof -
  from demo_retries obtain d db' where run: "retry_command fresh_server demo_failed demo_retry ''t'' = (Inr d, db')"
    by blast
  from retry_targets_failures [OF run]
  obtain new where new: "db_executions db' = db_executions demo_failed @ new"
      "length new = card (retryable demo_failed ''t'')" by blast
  have "retryable demo_failed ''t'' = {''n''}"
    by (subst set_retry_targets [of demo_server, symmetric])
      (simp add: retry_targets_def demo_failed_def new_execution_def)
  then have "length new = 1" using new(2) by simp
  with run new(1) show ?thesis by (intro exI conjI)
qed

definition counted :: "command_status_counts \<Rightarrow> int" where
  "counted k = cn_queued k + cn_leased k + cn_running k + cn_succeeded k + cn_failed k + cn_timed_out k"

lemma counted_summary:
  "\<forall>e\<in>set es. execution_ok e \<Longrightarrow> counted (summary_counts es) = int (length es)"
proof (induction es)
  case (Cons e es)
  then have "\<And>s. xr_status e \<noteq> OtherStatus s" by (auto simp: execution_ok_def split: command_status.splits)
  with Cons show ?case
    by (cases "xr_status e") (auto simp: counted_def summary_counts_def sql_count_def)
qed (simp add: counted_def summary_counts_def sql_count_def)

lemma sorted_sql_sort:
  assumes "\<And>a b. le a b \<or> le b a" and "\<And>a b c. le a b \<Longrightarrow> le b c \<Longrightarrow> le a c"
  shows "sorted_wrt le (sql_sort le rs)"
proof (induction rs)
  case (Cons r rs)
  have "sorted_wrt le (sql_insert_sorted le r qs)" if "sorted_wrt le qs" for qs
    using that
  proof (induction qs)
    case (Cons q qs)
    then show ?case using assms(1) [of q r] assms(2) by auto
  qed simp
  with Cons show ?case by simp
qed simp

lemma sorted_wrt_take: "sorted_wrt P xs \<Longrightarrow> sorted_wrt P (take n xs)"
  by (metis append_take_drop_id sorted_wrt_append)

text \<open>The history shows what happened: it lists at most a hundred tasks, the newest first, and
of each task the six counts are the numbers of its executions in each state and add up to the
number of its targets.\<close>

theorem history_counts_add_up:
  assumes "queue_inv db" and "list_commands sv db limit = Inr ts"
  shows "length ts \<le> 100 \<and> sorted_wrt (\<lambda>a b. ct_created_at b \<le> ct_created_at a) ts \<and>
    (\<forall>t\<in>set ts. ct_counts t = summary_counts (executions_of db (ct_id t)) \<and>
       counted (ct_counts t) = ct_target_count t \<and>
       ct_target_count t = int (length (executions_of db (ct_id t))))"
proof -
  let ?le = "\<lambda>a b. tr_created_at b \<le> tr_created_at a"
  obtain n where ts: "ts = map (\<lambda>t. scan_command_task t (executions_of db (tr_id t)))
      (take n (sql_sort ?le (db_tasks db)))" and n: "n \<le> 100"
    using assms(2) that [of "nat (if limit \<le> 0 \<or> 100 < limit then 100 else limit)"]
    by (auto simp: list_commands_def Let_def split: option.splits if_splits)
  have "sorted_wrt ?le (sql_sort ?le (db_tasks db))" by (rule sorted_sql_sort) auto
  then have "sorted_wrt (\<lambda>a b. ct_created_at b \<le> ct_created_at a) ts"
    unfolding ts sorted_wrt_map by (simp add: scan_command_task_def sorted_wrt_take)
  moreover have "counted (summary_counts (executions_of db i)) = int (length (executions_of db i))" for i
    using assms(1) by (intro counted_summary) (auto simp: queue_inv_def executions_of_def)
  ultimately show ?thesis using n by (auto simp: ts scan_command_task_def)
qed

theorem history_counts_add_up_witness:
  "counted (ct_counts (scan_command_task demo_task [new_execution ''e'' ''t'' ''n''])) = 1"
proof -
  have "list_commands demo_server demo_db 0 = Inr [scan_command_task demo_task [new_execution ''e'' ''t'' ''n'']]"
    by (simp add: list_commands_def demo_defs executions_of_def)
  from history_counts_add_up [OF demo_inv this]
  have "counted (ct_counts (scan_command_task demo_task [new_execution ''e'' ''t'' ''n''])) =
      ct_target_count (scan_command_task demo_task [new_execution ''e'' ''t'' ''n''])"
    by (meson list.set_intros(1))
  moreover have "ct_target_count (scan_command_task demo_task [new_execution ''e'' ''t'' ''n'']) = 1"
    by (simp add: scan_command_task_def)
  ultimately show ?thesis by (rule trans)
qed

end
