(* ===== verification/ApiInvariant.thy ===== *)
theory ApiInvariant
  imports ApiCommands RegistryTheorems CommandTheorems
begin

text \<open>
  Every request of the API changes the database only by the operations of the store, in the forms
  whose invariants \<^verbatim>\<open>Registry\<close> and \<^verbatim>\<open>CommandQueue\<close> prove.  So the whole database stays well-formed under any
  sequence of requests, with other requests interleaved between the calls of each.
\<close>

section \<open>Steps of the database\<close>

definition db_steps :: "database \<Rightarrow> database \<Rightarrow> bool" where
  "db_steps db db' \<longleftrightarrow> (\<exists>cs. list_all api_change cs \<and> db' = run_changes cs db)"

lemma db_steps_refl [simp]: "db_steps db db"
  unfolding db_steps_def by (intro exI [of _ "[]"]) (simp add: run_changes_def)

lemma db_steps_trans [trans]: "db_steps a b \<Longrightarrow> db_steps b c \<Longrightarrow> db_steps a c"
  unfolding db_steps_def by (metis comp_apply fold_append list_all_append run_changes_def)

lemma db_steps_changes: "list_all api_change cs \<Longrightarrow> db_steps db (run_changes cs db)"
  unfolding db_steps_def by blast

lemma db_steps_one: "api_change c \<Longrightarrow> db_steps db (run_change c db)"
  using db_steps_changes [of "[c]" db] by (simp add: run_changes_def)

lemma store_step: "api_store_op op \<Longrightarrow> db_steps db (run_store sv db op)"
  using db_steps_one [of "StoreChange sv op" db] by simp

lemma queue_step: "db_steps db (run_op sv db op)"
  using db_steps_one [of "QueueChange sv op" db] by simp

lemma operation_steps [simp]:
  "db_steps db (snd (create_owner sv db ow))" "db_steps db (snd (create_session sv db se))"
  "db_steps db (snd (delete_session sv db h))" "db_steps db (snd (create_organization sv db og))"
  "db_steps db (snd (create_site sv db si))" "db_steps db (snd (create_group sv db g))"
  "db_steps db (snd (update_node_remark sv db i t))" "db_steps db (snd (enroll_node sv db h d q now))"
  "db_steps db (snd (record_heartbeat sv db h b now))" "db_steps db (snd (record_agent_logs sv db h l now))"
  "db_steps db (snd (get_pairing_request sv db i h now))" "db_steps db (snd (list_pending_pairing_requests sv db now))"
  "db_steps db (snd (approve_pairing_request sv db i g' t now))" "db_steps db (snd (reject_pairing_request sv db i now))"
  "db_steps db (snd (create_command sv db t' ids))" "db_steps db (snd (retry_command sv db t' i))"
  "db_steps db (snd (claim_command sv db h l' now d'))" "db_steps db (snd (start_command sv db h i l' now))"
  "db_steps db (snd (complete_command sv db h l' r now))"
  using store_step [of "SOwner ow" db sv] store_step [of "SSession se" db sv] store_step [of "SLogout h" db sv]
    store_step [of "SOrganization og" db sv] store_step [of "SSite si" db sv] store_step [of "SGroup g" db sv]
    store_step [of "SRemark i t" db sv] store_step [of "SEnroll h d q now" db sv] store_step [of "SHeartbeat h b now" db sv]
    store_step [of "SLogs h l now" db sv] store_step [of "SPoll i h now" db sv] store_step [of "SPending now" db sv]
    store_step [of "SApprove i g' t now" db sv] store_step [of "SReject i now" db sv]
    queue_step [of db sv "OpCreate t' ids"] queue_step [of db sv "OpRetry t' i"] queue_step [of db sv "OpClaim h l' now d'"]
    queue_step [of db sv "OpStart h i l' now"] queue_step [of db sv "OpComplete h l' r now"]
  by simp_all

lemma form_steps [simp]:
  "en_uses x = 0 \<Longrightarrow> db_steps db (snd (create_enrollment sv db x))"
  "pr_state p = PairingPending \<Longrightarrow> db_steps db (snd (create_pairing_request sv db p now))"
  using store_step [of "SEnrollment x" db sv] store_step [of "SPair p now" db sv] by simp_all

section \<open>Steps of a request\<close>

definition orderly :: "'u api_env \<Rightarrow> bool" where
  "orderly env \<longleftrightarrow> (\<forall>k. list_all api_change (ae_other env k))"

abbreviation api_steps :: "'u api_state \<Rightarrow> 'u api_state \<Rightarrow> bool" where
  "api_steps s t \<equiv> db_steps (as_db s) (as_db t)"

lemma repo_steps:
  assumes "repo env k op s = (r, t)" and "orderly env" and "\<And>sv db. db_steps db (snd (op sv db))"
  shows "api_steps s t"
proof -
  have "db_steps (as_db s) (run_changes (ae_other env k) (as_db s))"
    using assms(2) by (simp add: orderly_def db_steps_changes)
  also have "db_steps \<dots> (snd (op (ae_server env k) (run_changes (ae_other env k) (as_db s))))" by (rule assms(3))
  finally show ?thesis using assms(1) by (auto simp: repo_def split: prod.splits)
qed

lemma repo_steps_snd:
  "orderly env \<Longrightarrow> (\<And>sv db. db_steps db (snd (op sv db))) \<Longrightarrow> api_steps s (snd (repo env k op s))"
  by (cases "repo env k op s") (simp add: repo_steps)

lemma repo_read_steps: "repo_read env k q s = (r, t) \<Longrightarrow> orderly env \<Longrightarrow> api_steps s t"
  unfolding repo_read_def by (erule repo_steps) simp_all

lemma repo_read_steps_snd: "orderly env \<Longrightarrow> api_steps s (snd (repo_read env k q s))"
  by (cases "repo_read env k q s") (simp add: repo_read_steps)

lemma snd_reply [simp]: "snd (reply rs f) = snd rs"
  by (simp add: reply_def split: prod.split sum.split)

lemma snd_answered_by [simp]: "snd (answered_by x) = snd x"
  by (simp add: answered_by_def)

lemma logged_db [simp]: "as_db (logged line s) = as_db s"
  by (simp add: logged_def)

text \<open>The rules by which the proofs follow a handler, from its start to each of its ends.\<close>

lemma steps_case:
  assumes "api_steps s (snd rs)"
    and "\<And>e t. api_steps s t \<Longrightarrow> api_steps s (snd (f e t))" and "\<And>v t. api_steps s t \<Longrightarrow> api_steps s (snd (g v t))"
  shows "api_steps s (snd (case rs of (Inl e, t) \<Rightarrow> f e t | (Inr v, t) \<Rightarrow> g v t))"
  using assms by (auto split: prod.split sum.split)

lemma steps_repo:
  "orderly env \<Longrightarrow> (\<And>sv db. db_steps db (snd (op sv db))) \<Longrightarrow> api_steps s t \<Longrightarrow> api_steps s (snd (repo env k op t))"
  by (rule db_steps_trans [OF _ repo_steps_snd])

lemma steps_read: "orderly env \<Longrightarrow> api_steps s t \<Longrightarrow> api_steps s (snd (repo_read env k q t))"
  by (rule db_steps_trans [OF _ repo_read_steps_snd])

lemma steps_option:
  "(opt = None \<Longrightarrow> api_steps s (snd a)) \<Longrightarrow> (\<And>x. opt = Some x \<Longrightarrow> api_steps s (snd (b x))) \<Longrightarrow>
   api_steps s (snd (case opt of None \<Rightarrow> a | Some x \<Rightarrow> b x))"
  by (cases opt) simp_all

lemma steps_sum:
  "(\<And>e. r = Inl e \<Longrightarrow> api_steps s (snd (a e))) \<Longrightarrow> (\<And>x. r = Inr x \<Longrightarrow> api_steps s (snd (b x))) \<Longrightarrow>
   api_steps s (snd (case r of Inl e \<Rightarrow> a e | Inr x \<Rightarrow> b x))"
  by (cases r) simp_all

lemma steps_if:
  "(P \<Longrightarrow> api_steps s (snd a)) \<Longrightarrow> (\<not> P \<Longrightarrow> api_steps s (snd b)) \<Longrightarrow> api_steps s (snd (if P then a else b))"
  by simp

lemma steps_option_pair:
  "(opt = None \<Longrightarrow> api_steps s (snd a)) \<Longrightarrow> (\<And>x y. opt = Some (x, y) \<Longrightarrow> api_steps s (snd (b x y))) \<Longrightarrow>
   api_steps s (snd (case opt of None \<Rightarrow> a | Some (x, y) \<Rightarrow> b x y))"
  by (cases opt) auto

lemma steps_token:
  "(\<And>e. r = Inl e \<Longrightarrow> api_steps s (snd (a e))) \<Longrightarrow> (\<And>x y. r = Inr (x, y) \<Longrightarrow> api_steps s (snd (b x y))) \<Longrightarrow>
   api_steps s (snd (case r of Inl e \<Rightarrow> a e | Inr (x, y) \<Rightarrow> b x y))"
  by (cases r) auto

lemma steps_session: "orderly env \<Longrightarrow> api_steps s t \<Longrightarrow> api_steps s (snd (issue_session env k ow now t))"
  unfolding issue_session_def by (intro steps_token steps_case steps_repo) simp_all

lemma steps_reply: "api_steps s (snd rs) \<Longrightarrow> api_steps s (snd (reply rs f))"
  by simp

lemmas steps_rules = steps_reply steps_case steps_token steps_option_pair steps_repo steps_read steps_session steps_option steps_sum steps_if

named_theorems handler_steps

lemma require_owner_steps: "orderly env \<Longrightarrow> api_steps s (snd (require_owner env rq s))"
  unfolding require_owner_def by (intro steps_rules) simp_all

lemma setup_steps [handler_steps]: "orderly env \<Longrightarrow> api_steps s (snd (handle_setup env rq s))"
  unfolding handle_setup_def Let_def by (intro steps_rules) simp_all

lemma login_steps [handler_steps]: "orderly env \<Longrightarrow> api_steps s (snd (handle_login env rq s))"
  unfolding handle_login_def Let_def by (intro steps_rules) simp_all

lemma logout_steps [handler_steps]: "orderly env \<Longrightarrow> api_steps s (snd (handle_logout env rq s))"
  unfolding handle_logout_def Let_def by (intro steps_rules) simp_all

lemma health_steps [handler_steps]: "orderly env \<Longrightarrow> api_steps s (snd (handle_health env s))"
  unfolding handle_health_def Let_def by (intro steps_rules) simp_all

lemma auth_status_steps [handler_steps]: "orderly env \<Longrightarrow> api_steps s (snd (handle_auth_status env s))"
  unfolding handle_auth_status_def Let_def by (intro steps_rules) simp_all

lemma me_steps [handler_steps]: "orderly env \<Longrightarrow> api_steps s (snd (handle_me ow s))"
  by (simp add: handle_me_def)

lemma list_organizations_steps [handler_steps]: "orderly env \<Longrightarrow> api_steps s (snd (handle_list_organizations env s))"
  unfolding handle_list_organizations_def Let_def by (intro steps_rules) simp_all

lemma list_sites_steps [handler_steps]: "orderly env \<Longrightarrow> api_steps s (snd (handle_list_sites env s))"
  unfolding handle_list_sites_def Let_def by (intro steps_rules) simp_all

lemma list_groups_steps [handler_steps]: "orderly env \<Longrightarrow> api_steps s (snd (handle_list_groups env s))"
  unfolding handle_list_groups_def Let_def by (intro steps_rules) simp_all

lemma list_nodes_steps [handler_steps]: "orderly env \<Longrightarrow> api_steps s (snd (handle_list_nodes env s))"
  unfolding handle_list_nodes_def Let_def by (intro steps_rules) simp_all

lemma agent_logs_steps [handler_steps]: "orderly env \<Longrightarrow> api_steps s (snd (handle_agent_logs env i s))"
  unfolding handle_agent_logs_def Let_def by (intro steps_rules) simp_all

lemma network_history_steps [handler_steps]: "orderly env \<Longrightarrow> api_steps s (snd (handle_network_history env i rq s))"
  unfolding handle_network_history_def Let_def by (intro steps_rules) simp_all

lemma network_summary_steps [handler_steps]: "orderly env \<Longrightarrow> api_steps s (snd (handle_network_summary env rq s))"
  unfolding handle_network_summary_def Let_def by (intro steps_rules) simp_all

lemma list_pairings_steps [handler_steps]: "orderly env \<Longrightarrow> api_steps s (snd (handle_list_pairings env s))"
  unfolding handle_list_pairings_def Let_def by (intro steps_rules) simp_all

lemma list_commands_steps [handler_steps]: "orderly env \<Longrightarrow> api_steps s (snd (handle_list_commands env s))"
  unfolding handle_list_commands_def Let_def by (intro steps_rules) simp_all

lemma get_command_steps [handler_steps]: "orderly env \<Longrightarrow> api_steps s (snd (handle_get_command env i s))"
  unfolding handle_get_command_def Let_def by (intro steps_rules) simp_all

lemma create_organization_steps [handler_steps]: "orderly env \<Longrightarrow> api_steps s (snd (handle_create_organization env rq s))"
  unfolding handle_create_organization_def Let_def by (intro steps_rules) simp_all

lemma create_site_steps [handler_steps]: "orderly env \<Longrightarrow> api_steps s (snd (handle_create_site env rq s))"
  unfolding handle_create_site_def Let_def by (intro steps_rules) simp_all

lemma create_group_steps [handler_steps]: "orderly env \<Longrightarrow> api_steps s (snd (handle_create_group env rq s))"
  unfolding handle_create_group_def Let_def by (intro steps_rules) simp_all

lemma update_remark_steps [handler_steps]: "orderly env \<Longrightarrow> api_steps s (snd (handle_update_remark env i rq s))"
  unfolding handle_update_remark_def Let_def by (intro steps_rules) simp_all

lemma create_enrollment_steps [handler_steps]: "orderly env \<Longrightarrow> api_steps s (snd (handle_create_enrollment env rq s))"
  unfolding handle_create_enrollment_def Let_def by (intro steps_rules) simp_all

lemma approve_pairing_steps [handler_steps]: "orderly env \<Longrightarrow> api_steps s (snd (handle_approve_pairing env i rq s))"
  unfolding handle_approve_pairing_def Let_def by (intro steps_rules) simp_all

lemma reject_pairing_steps [handler_steps]: "orderly env \<Longrightarrow> api_steps s (snd (handle_reject_pairing env i s))"
  unfolding handle_reject_pairing_def Let_def by (intro steps_rules) simp_all

lemma create_command_steps [handler_steps]: "orderly env \<Longrightarrow> api_steps s (snd (handle_create_command env ow rq s))"
  unfolding handle_create_command_def Let_def by (intro steps_rules) simp_all

lemma retry_command_steps [handler_steps]: "orderly env \<Longrightarrow> api_steps s (snd (handle_retry_command env ow i s))"
  unfolding handle_retry_command_def Let_def by (intro steps_rules) simp_all

lemma enroll_agent_steps [handler_steps]: "orderly env \<Longrightarrow> api_steps s (snd (handle_enroll_agent env rq s))"
  unfolding handle_enroll_agent_def Let_def by (intro steps_rules) simp_all

lemma poll_pairing_steps [handler_steps]: "orderly env \<Longrightarrow> api_steps s (snd (handle_poll_pairing env i rq s))"
  unfolding handle_poll_pairing_def Let_def by (intro steps_rules) simp_all

lemma heartbeat_steps [handler_steps]: "orderly env \<Longrightarrow> api_steps s (snd (handle_heartbeat env rq s))"
  unfolding handle_heartbeat_def Let_def by (intro steps_rules) simp_all

lemma record_logs_steps [handler_steps]: "orderly env \<Longrightarrow> api_steps s (snd (handle_record_logs env rq s))"
  unfolding handle_record_logs_def Let_def by (intro steps_rules) simp_all

lemma start_command_steps [handler_steps]: "orderly env \<Longrightarrow> api_steps s (snd (handle_start_command env i rq s))"
  unfolding handle_start_command_def Let_def by (intro steps_rules) simp_all

lemma complete_command_steps [handler_steps]: "orderly env \<Longrightarrow> api_steps s (snd (handle_complete_command env i rq s))"
  unfolding handle_complete_command_def Let_def by (intro steps_rules) simp_all

lemma call_updater_db [simp]: "as_db (snd (call_updater env op code write s)) = as_db s"
  by (simp add: call_updater_def Let_def split: option.split prod.split)

lemma update_status_steps [handler_steps]: "orderly env \<Longrightarrow> api_steps s (snd (handle_update_status env rq s))"
  unfolding handle_update_status_def Let_def by (intro steps_rules) simp_all

lemma check_update_steps [handler_steps]: "orderly env \<Longrightarrow> api_steps s (snd (handle_check_update env rq s))"
  unfolding handle_check_update_def Let_def by (intro steps_rules) simp_all

lemma start_update_steps [handler_steps]: "orderly env \<Longrightarrow> api_steps s (snd (handle_start_update env rq s))"
  unfolding handle_start_update_def Let_def by (intro steps_rules) simp_all

lemma steps_pair:
  "(\<And>x y. p = (x, y) \<Longrightarrow> api_steps s (snd (b x y))) \<Longrightarrow> api_steps s (snd (case p of (x, y) \<Rightarrow> b x y))"
  by (cases p) simp

lemma create_pairing_steps [handler_steps]: "orderly env \<Longrightarrow> api_steps s (snd (handle_create_pairing env rq s))"
  unfolding handle_create_pairing_def Let_def by (intro steps_rules steps_pair) simp_all

lemma claim_attempt_steps: "orderly env \<Longrightarrow> api_steps s (snd (claim_attempt env c k s))"
  unfolding claim_attempt_def
  by (auto split: sum.split prod.split option.split dest: repo_steps)

lemma poll_claim_steps: "orderly env \<Longrightarrow> api_steps s (snd (poll_claim env c k ticks s))"
proof (induction ticks arbitrary: k s)
  case 0
  then show ?case using claim_attempt_steps [OF 0, of s c k]
    by (subst poll_claim.simps) (auto split: sum.split prod.split option.split)
next
  case (Suc n)
  then show ?case using claim_attempt_steps [OF Suc.prems, of s c k]
    by (subst poll_claim.simps) (auto split: sum.split prod.split option.split intro: db_steps_trans)
qed

lemma claim_command_steps [handler_steps]: "orderly env \<Longrightarrow> api_steps s (snd (handle_claim_command env rq s))"
  by (simp add: handle_claim_command_def poll_claim_steps split: option.split)

lemma serve_owner_steps: "orderly env \<Longrightarrow> api_steps s (snd (serve_owner env rq ow r s))"
  by (cases r) (simp_all add: handler_steps)

lemma serve_route_steps: "orderly env \<Longrightarrow> api_steps s (snd (serve_route env rq r s))"
proof (cases r)
  case (ROwner r')
  assume env: "orderly env"
  obtain o' s1 where auth: "require_owner env rq s = (o', s1)" by fastforce
  have "api_steps s s1" using require_owner_steps [OF env, of s rq] auth by simp
  with auth ROwner show ?thesis
    by (cases o') (auto intro: db_steps_trans serve_owner_steps [OF env])
qed (simp_all add: handler_steps)

lemma serve_api_steps: "orderly env \<Longrightarrow> api_steps s (snd (serve_api env rq s))"
  by (simp add: serve_api_def serve_route_steps split: option.split)

section \<open>The invariant of the whole database\<close>

definition system_inv :: "database \<Rightarrow> bool" where
  "system_inv db \<longleftrightarrow> registry_inv db \<and> queue_inv db"

lemma run_store_queue: "other_change db (run_store sv db op)"
proof (cases op)
  case (SApprove i gid r t)
  then show ?thesis
    by (cases rule: approve_cases [of sv db i gid r t]) (auto simp: other_change_def dest!: pair_node_cases)
qed (auto simp: other_change_def store_op_defs snd_statement snd_checked split: option.split sum.split)

definition only_queue :: "database \<Rightarrow> database \<Rightarrow> bool" where
  "only_queue db db' \<longleftrightarrow> (\<exists>ts es. db' = db\<lparr>db_tasks := ts, db_executions := es\<rparr>)"

lemma only_queue_simps [simp]:
  "only_queue db db" "only_queue db (db\<lparr>db_executions := es\<rparr>)" "only_queue db (db\<lparr>db_tasks := ts, db_executions := es\<rparr>)"
  unfolding only_queue_def
  by (intro exI [of _ "db_tasks db"] exI [of _ "db_executions db"], simp,
      intro exI [of _ "db_tasks db"] exI [of _ es], simp, intro exI [of _ ts] exI [of _ es], simp)

lemma run_op_registry: "only_queue db (run_op sv db op)"
  by (cases op)
    (simp_all add: create_command_def retry_command_def insert_command_def claim_command_def start_command_def
      complete_command_def Let_def snd_exits split: option.split prod.split sum.split)

lemma run_change_inv: "system_inv db \<Longrightarrow> api_change c \<Longrightarrow> system_inv (run_change c db)"
proof (cases c)
  case (StoreChange sv op)
  assume "system_inv db" "api_change c"
  with StoreChange show ?thesis
    using run_store_inv [of db op sv] run_store_queue [of db sv op]
    by (auto simp: system_inv_def queue_inv_def other_change_def)
next
  case (QueueChange sv op)
  assume "system_inv db"
  then show ?thesis
    using run_op_inv [of db sv op] run_op_registry [of db sv op] registry_inv_commands QueueChange
    by (auto simp: system_inv_def only_queue_def)
qed

lemma run_changes_inv: "system_inv db \<Longrightarrow> list_all api_change cs \<Longrightarrow> system_inv (run_changes cs db)"
  by (induction cs arbitrary: db) (simp_all add: run_changes_def run_change_inv)

lemma db_steps_inv: "db_steps db db' \<Longrightarrow> system_inv db \<Longrightarrow> system_inv db'"
  by (auto simp: db_steps_def run_changes_inv)

text \<open>The states of the server: requests in any order, and the pruning that maintenance does.\<close>

inductive api_reach :: "'u api_state \<Rightarrow> bool" where
  api_begin: "as_db s = empty_database \<Longrightarrow> as_limiter s = [] \<Longrightarrow> api_reach s"
| api_request: "api_reach s \<Longrightarrow> orderly env \<Longrightarrow> api_reach (snd (serve_api env rq s))"
| api_maintenance: "api_reach s \<Longrightarrow> list_all api_change cs \<Longrightarrow> api_reach (s\<lparr>as_db := run_changes cs (as_db s)\<rparr>)"

lemma api_reach_inv: "api_reach s \<Longrightarrow> system_inv (as_db s)"
proof (induction rule: api_reach.induct)
  case (api_request s env rq)
  show ?case using serve_api_steps [OF api_request.hyps(2)] api_request.IH by (rule db_steps_inv)
qed (simp_all add: system_inv_def registry_inv_empty queue_inv_empty run_changes_inv [unfolded system_inv_def])

end
