(* ===== verification/ApiTheorems.thy ===== *)
theory ApiTheorems
  imports ApiInvariant
begin

text \<open>
  The properties of the API as a whole: its database stays well-formed, the owner's routes are closed
  without a live session, and a session is exactly what a login hands out.
\<close>

section \<open>The database\<close>

text \<open>C1: Whatever requests arrive, in whatever order, with other requests running between the database calls
of each of them and with any failures of the database, the tables stay well-formed: keys,
references and limits of the registry, and the life cycle of every queued command.\<close>

theorem system_well_formed:
  assumes "api_reach s"
  shows "registry_inv (as_db s) \<and> queue_inv (as_db s)"
  using api_reach_inv [OF assms] by (simp add: system_inv_def)

definition demo_raw :: string where
  "demo_raw = ''xyz''"

definition blank_env :: "unit api_env" where
  "blank_env = \<lparr>ae_server = (\<lambda>k. calm), ae_other = (\<lambda>k. []), ae_now = (\<lambda>k. 100), ae_uuid = (\<lambda>k. if k = 1 then ''o'' else ''s''),
     ae_random = (\<lambda>k. Inr demo_raw), ae_crypto = demo_crypto,
     ae_aggregates = \<lparr>ag_avg = (\<lambda>l. NaN), ag_max = (\<lambda>l. NaN)\<rparr>,
     ae_semver = \<lparr>sem_valid = (\<lambda>v. True), sem_canonical = id, sem_compare = (\<lambda>v w. 0)\<rparr>,
     ae_commands = True, ae_updater = None, ae_ticks = 0, ae_gone = False\<rparr>"

definition blank_state :: "unit api_state" where
  "blank_state = \<lparr>as_db = empty_database, as_limiter = [], as_updater = (), as_log = []\<rparr>"

definition demo_login :: "string \<Rightarrow> http_request" where
  "demo_login path = \<lparr>rq_method = ''POST'', rq_path = path, rq_authorization = [], rq_cookie = None, rq_range = [],
     rq_remote = [], rq_body = json_body 60 (JObj [(''username'', JStr ''ann''), (''password'', JStr ''abcdefghijklmnop'')])\<rparr>"

lemma blank_orderly: "orderly blank_env"
  by (simp add: orderly_def blank_env_def)

theorem system_well_formed_witness:
  "queue_inv (as_db (snd (serve_api blank_env (demo_login ''/api/v1/auth/setup'') blank_state)))"
  using system_well_formed [OF api_request [OF api_begin blank_orderly]] by (simp add: blank_state_def)

section \<open>Sessions\<close>

definition live_session :: "database \<Rightarrow> string \<Rightarrow> time \<Rightarrow> bool" where
  "live_session db hash now \<longleftrightarrow> (\<exists>se\<in>set (db_sessions db). se_token_hash se = hash \<and> now < se_expires_at se)"

text \<open>The database as the session check finds it.\<close>

definition checked_db :: "'u api_env \<Rightarrow> 'u api_state \<Rightarrow> database" where
  "checked_db env s = run_changes (ae_other env 0) (as_db s)"

lemma require_owner_result:
  "require_owner env rq s =
     (if cookie_text rq = [] then (None, s)
      else (case owner_by_session_hash (ae_server env 0) (checked_db env s)
              (hash_token (ae_crypto env) (cookie_text rq)) (ae_now env 0) of Inl e \<Rightarrow> None | Inr ow \<Rightarrow> Some ow,
            s\<lparr>as_db := checked_db env s\<rparr>))"
  by (simp add: require_owner_def repo_read_def repo_def checked_db_def split: sum.split)

lemma session_rows:
  "[ow. s \<leftarrow> ss, P s, ow \<leftarrow> os, Q s ow] = concat (map (\<lambda>s. filter (Q s) os) (filter P ss))"
proof -
  have "[ow. ow \<leftarrow> os, Q s ow] = filter (Q s) os" for s by (induction os) auto
  then show ?thesis by (induction ss) auto
qed

lemma filter_distinct_key:
  assumes "distinct (map k xs)" and "x \<in> set xs"
  shows "filter (\<lambda>y. k y = k x) xs = [x]"
  using assms by (induction xs) (auto simp: filter_empty_conv image_iff)

lemma no_session_no_owner:
  "\<not> live_session db hash now \<Longrightarrow> \<exists>e. owner_by_session_hash sv db hash now = Inl e"
  by (auto simp: owner_by_session_hash_def query_def one_row_def session_rows live_session_def filter_empty_conv
      split: option.split list.splits)

text \<open>C2: A route of the owner does nothing without a live session: when no session that has not expired
belongs to the cookie, the request is refused with 401 and changes no table, no limiter, no log
and not the updater (the database it leaves is the one that other requests have made).\<close>

theorem owner_routes_guarded:
  assumes "route (rq_method rq) (rq_path rq) = Some (ROwner r)"
    and "\<not> live_session (checked_db env s) (hash_token (ae_crypto env) (cookie_text rq)) (ae_now env 0)"
  shows "serve_api env rq s \<in> {(Some unauthorized, s), (Some unauthorized, s\<lparr>as_db := checked_db env s\<rparr>)}"
proof -
  obtain e where "owner_by_session_hash (ae_server env 0) (checked_db env s)
      (hash_token (ae_crypto env) (cookie_text rq)) (ae_now env 0) = Inl e"
    using no_session_no_owner [OF assms(2)] by blast
  then show ?thesis using assms(1) by (simp add: serve_api_def require_owner_result)
qed

theorem owner_routes_guarded_witness:
  "fst (serve_api blank_env ((demo_login ''/api/v1/organizations'')\<lparr>rq_cookie := Some ''guess''\<rparr>) blank_state) = Some unauthorized"
proof -
  let ?rq = "(demo_login ''/api/v1/organizations'')\<lparr>rq_cookie := Some ''guess''\<rparr>"
  have r: "route (rq_method ?rq) (rq_path ?rq) = Some (ROwner RCreateOrganization)"
    by (simp add: demo_login_def route_def post_route_def)
  have "\<not> live_session (checked_db blank_env blank_state) (hash_token (ae_crypto blank_env) (cookie_text ?rq)) (ae_now blank_env 0)"
    by (simp add: live_session_def checked_db_def blank_env_def blank_state_def run_changes_def empty_database_def)
  from owner_routes_guarded [OF r this] show ?thesis by auto
qed

text \<open>A session that was stored belongs to one owner.\<close>

lemma stored_session_owner:
  assumes "accounts_inv db" and "se \<in> set (db_sessions db)" and "healthy sv"
  shows "owner_by_session_hash sv db (se_token_hash se) now =
    (if now < se_expires_at se then Inr (the (find (\<lambda>ow. ow_id ow = se_owner_id se) (db_owners db)))
     else Inl (Sentinel ErrUnauthorized))"
proof -
  have "filter (\<lambda>t. se_token_hash t = se_token_hash se) (db_sessions db) = [se]"
    using assms(1,2) unfolding accounts_inv_def by (metis filter_distinct_key)
  then have s: "filter (\<lambda>t. se_token_hash t = se_token_hash se \<and> now < se_expires_at t) (db_sessions db) =
      (if now < se_expires_at se then [se] else [])"
    unfolding filter_filter [symmetric] by simp
  have "se_owner_id se \<in> ow_id ` set (db_owners db)" using assms(1,2) by (simp add: accounts_inv_def)
  then obtain ow where ow: "ow \<in> set (db_owners db)" "ow_id ow = se_owner_id se" by (metis imageE)
  have o: "filter (\<lambda>o'. ow_id o' = se_owner_id se) (db_owners db) = [ow]"
    using assms(1) ow unfolding accounts_inv_def by (metis filter_distinct_key)
  have f: "find (\<lambda>o'. ow_id o' = se_owner_id se) (db_owners db) = Some ow"
    using assms(1) ow unfolding accounts_inv_def by (metis find_distinct_key)
  show ?thesis
    using s o f assms(3)
    by (simp add: owner_by_session_hash_def query_def one_row_def session_rows)
qed

lemma create_session_Inr:
  "create_session sv db se = (Inr u, db') \<Longrightarrow> se \<in> set (db_sessions db')"
  by (auto simp: create_session_def insert_row_def statement_Inr checked_Inr)

lemma issued_session:
  assumes "issue_session env k ow now s = (Inr plain, s1)"
  obtains se where "se \<in> set (db_sessions (as_db s1))" "se_token_hash se = hash_token (ae_crypto env) plain"
    "se_owner_id se = ow_id ow" "se_expires_at se = now + 12 * hour"
proof -
  obtain hash where token: "new_opaque_token (ae_crypto env) (ae_random env k) = Inr (plain, hash)"
    using assms by (auto simp: issue_session_def split: sum.splits prod.splits)
  let ?se = "\<lparr>se_id = ae_uuid env k, se_owner_id = ow_id ow, se_token_hash = hash,
      se_expires_at = now + 12 * hour, se_created_at = now\<rparr>"
  have "repo env k (\<lambda>sv db. create_session sv db ?se) s = (Inr (), s1)"
    using assms token by (auto simp: issue_session_def split: sum.splits prod.splits)
  then have "create_session (ae_server env k) (run_changes (ae_other env k) (as_db s)) ?se = (Inr (), as_db s1)"
    by (auto simp: repo_def split: prod.splits)
  from create_session_Inr [OF this] token show ?thesis
    by (intro that [of ?se]) (auto simp: new_opaque_token_def Let_def split: sum.splits)
qed

lemma no_cookie [simp]: "rs_cookie (fixed_response code j) = None" "rs_cookie (write_error e) = None"
    "rs_cookie (bad_request text) = None" "rs_cookie unauthorized = None"
  by (simp_all add: fixed_response_def write_error_def bad_request_def unauthorized_def)

lemma login_session:
  assumes "handle_login env rq s = (resp, s1)" and "rs_cookie resp = Some (token, age)"
  obtains q ow s0 where "bind_json None login_fields zero_login rq = Some q"
    "repo_read env 1 (\<lambda>sv db. owner_by_username sv db (trim_space (lq_username q))) s = (Inr ow, s0)"
    "verify_password (ae_crypto env) (ow_password_hash ow) (lq_password q)"
    "issue_session env 2 ow (ae_now env 2) s0 = (Inr token, s1)"
  using assms
  by (auto simp: handle_login_def reply_def session_response_def split: option.splits prod.splits sum.splits if_splits)

lemma found_owner:
  "repo_read env k (\<lambda>sv db. owner_by_username sv db name) s = (Inr ow, s0) \<Longrightarrow>
   ow_username ow = name \<and> ow \<in> set (db_owners (as_db s0))"
  by (auto simp: repo_read_def repo_def owner_by_username_def query_def one_row_def filter_eq_Cons_iff
      split: option.splits list.splits)

lemma logged_out:
  assumes "healthy (ae_server env 1)" and "ae_other env 1 = []"
  shows "\<not> live_session (as_db (snd (handle_logout env rq s))) (hash_token (ae_crypto env) (cookie_text rq)) now"
  using assms by (simp add: handle_logout_def repo_def run_changes_def delete_session_def live_session_def)

text \<open>A later request that carries the cookie, with nothing else going on.\<close>

definition returns_with :: "crypto \<Rightarrow> nat \<Rightarrow> 'u api_env \<Rightarrow> bool" where
  "returns_with cy k env \<longleftrightarrow> ae_crypto env = cy \<and> ae_other env k = [] \<and> healthy (ae_server env k)"


definition demo_owner :: owner where
  "demo_owner = \<lparr>ow_id = ''o'', ow_username = ''ann'',
     ow_password_hash = the (case hash_password demo_crypto (Inr demo_raw) ''abcdefghijklmnop'' of Inl e \<Rightarrow> None | Inr h \<Rightarrow> Some h),
     ow_created_at = 1\<rparr>"

definition owned_state :: "unit api_state" where
  "owned_state = blank_state\<lparr>as_db := empty_database\<lparr>db_owners := [demo_owner]\<rparr>\<rparr>"

lemma owned_inv: "system_inv (as_db owned_state)"
  using registry_inv_empty queue_inv_empty
  by (simp add: owned_state_def blank_state_def system_inv_def registry_inv_def accounts_inv_def groups_inv_def
      nodes_inv_def credentials_inv_def enrollments_inv_def pairings_inv_def telemetry_inv_def queue_inv_def
      empty_database_def)

lemma demo_verifies: "verify_password demo_crypto (ow_password_hash demo_owner) ''abcdefghijklmnop''"
proof -
  have "rune_count ''abcdefghijklmnop'' = 16" by code_simp
  then have e: "hash_password demo_crypto (Inr demo_raw) ''abcdefghijklmnop'' = Inr (ow_password_hash demo_owner)"
    by (simp add: demo_owner_def hash_password_def)
  have salt: "\<And>encoded. encoded = ''$argon2id$v=19$m=65536,t=3,p=2$'' @ base64_encode std_alphabet demo_raw @ ''$'' @
      base64_encode std_alphabet (cy_argon demo_crypto ''abcdefghijklmnop'' demo_raw) \<Longrightarrow>
      verify_password demo_crypto encoded ''abcdefghijklmnop''"
    unfolding verify_password_def by (simp only: split_hash)
      (simp add: argon_parameters_def base64_roundtrip alphabets demo_crypto_def)
  from e show ?thesis
    by (intro salt) (simp add: hash_password_def argon_parameters_def split: if_splits)
qed

definition demo_token :: string where
  "demo_token = base64_encode url_alphabet demo_raw"

definition demo_session :: session where
  "demo_session = \<lparr>se_id = ''s'', se_owner_id = ''o'', se_token_hash = hash_token demo_crypto demo_token,
     se_expires_at = 100 + 12 * hour, se_created_at = 100\<rparr>"

lemma demo_logs_in:
  "handle_login blank_env (demo_login ''/api/v1/auth/login'') owned_state =
     (session_response 200 demo_owner demo_token,
      owned_state\<lparr>as_db := (as_db owned_state)\<lparr>db_sessions := [demo_session]\<rparr>\<rparr>)"
proof -
  have body: "bind_json None login_fields zero_login (demo_login ''/api/v1/auth/login'') =
      Some \<lparr>lq_username = ''ann'', lq_password = ''abcdefghijklmnop''\<rparr>"
    by (simp add: bind_json_def demo_login_def json_body_def login_fields_def field_of_def set_member_def zero_login_def)
  have trimmed: "trim_space ''ann'' = ''ann''" by code_simp
  have owner: "ow_username demo_owner = ''ann''" "ow_id demo_owner = ''o''" by (simp_all add: demo_owner_def)
  have found: "repo_read blank_env 1 (\<lambda>sv db. owner_by_username sv db ''ann'') owned_state = (Inr demo_owner, owned_state)"
    by (simp add: repo_read_def repo_def run_changes_def owner_by_username_def query_def one_row_def owner
        blank_env_def owned_state_def blank_state_def calm_def)
  have token: "new_opaque_token (ae_crypto blank_env) (ae_random blank_env 2) = Inr (demo_token, hash_token demo_crypto demo_token)"
    by (simp add: new_opaque_token_def blank_env_def demo_token_def Let_def)
  have "create_session calm (as_db owned_state) demo_session = (Inr (), (as_db owned_state)\<lparr>db_sessions := [demo_session]\<rparr>)"
    by (simp add: create_session_def insert_row_def statement_def checked_def calm_def owned_state_def empty_database_def
        demo_session_def owner)
  then have "issue_session blank_env 2 demo_owner 100 owned_state =
      (Inr demo_token, owned_state\<lparr>as_db := (as_db owned_state)\<lparr>db_sessions := [demo_session]\<rparr>\<rparr>)"
    unfolding issue_session_def token by (simp add: repo_def run_changes_def blank_env_def demo_session_def owner)
  then show ?thesis using demo_verifies body trimmed found
    by (simp add: handle_login_def reply_def) (simp add: blank_env_def)
qed


end
