(* ===== verification/ApiLimiter.thy ===== *)
theory ApiLimiter
  imports ApiServer
begin

text \<open>
  What the limiter of pairing requests guarantees.  Its windows are fixed, so the requests that one
  address or one machine gets through can bunch at the end of a window and at the start of the next:
  the bound over any minute is twice the limit of a window.
\<close>

section \<open>Histories\<close>

type_synonym admission = "string \<times> string \<times> time"

text \<open>The requests admitted so far, latest first, the clock and the windows.\<close>

inductive limiter_reach :: "admission list \<Rightarrow> time \<Rightarrow> limiter \<Rightarrow> bool" where
  limiter_empty: "limiter_reach [] t []"
| limiter_call: "limiter_reach H t l \<Longrightarrow> t \<le> now \<Longrightarrow> allow r m now l = (ok, l') \<Longrightarrow>
     limiter_reach (if ok then (r, m, now) # H else H) now l'"

definition hits :: "string \<Rightarrow> admission list \<Rightarrow> time list" where
  "hits k H = map (\<lambda>(r, m, u). u) (filter (\<lambda>(r, m, u). remote_key r = k \<or> machine_key m = k) H)"

definition cnt :: "(time \<Rightarrow> bool) \<Rightarrow> time list \<Rightarrow> nat" where
  "cnt P us = length (filter P us)"

lemma cnt_simps [simp]: "cnt P [] = 0" "cnt P (u # us) = (if P u then Suc (cnt P us) else cnt P us)"
  by (simp_all add: cnt_def)

lemma cnt_mono: "(\<And>u. u \<in> set us \<Longrightarrow> P u \<Longrightarrow> Q u) \<Longrightarrow> cnt P us \<le> cnt Q us"
  by (induction us) auto

lemma cnt_split: "(\<And>u. u \<in> set us \<Longrightarrow> P u \<Longrightarrow> Q u \<or> R u) \<Longrightarrow> cnt P us \<le> cnt Q us + cnt R us"
  by (induction us) fastforce+

lemma cnt_none: "(\<And>u. u \<in> set us \<Longrightarrow> \<not> P u) \<Longrightarrow> cnt P us = 0"
  by (auto simp: cnt_def filter_empty_conv)

section \<open>One key\<close>

text \<open>\<open>t1\<close> is the start of the last window of the key, open or not.\<close>

definition paced :: "time \<Rightarrow> rate_window option \<Rightarrow> time \<Rightarrow> time list \<Rightarrow> bool" where
  "paced t win t1 us \<longleftrightarrow>
     (\<forall>u\<in>set us. u \<le> t \<and> u < t1 + pairing_window) \<and> cnt (\<lambda>u. t1 \<le> u) us \<le> pairing_rate_limit \<and>
     (\<forall>a. cnt (\<lambda>u. a \<le> u \<and> u < a + pairing_window) us \<le> 2 * pairing_rate_limit) \<and>
     (\<forall>a. t1 - pairing_window < a \<longrightarrow> cnt (\<lambda>u. a \<le> u \<and> u < t1) us \<le> pairing_rate_limit) \<and>
     (case win of None \<Rightarrow> us = [] \<or> t1 + pairing_window \<le> t
      | Some w \<Rightarrow> rw_started_at w = t1 \<and> rw_count w = cnt (\<lambda>u. t1 \<le> u) us \<and> t1 \<le> t)"

definition evicted :: "time \<Rightarrow> rate_window option \<Rightarrow> rate_window option" where
  "evicted now win = (case win of None \<Rightarrow> None | Some w \<Rightarrow> if now < rw_started_at w + pairing_window then Some w else None)"

lemma paced_evict: "paced t win t1 us \<Longrightarrow> t \<le> now \<Longrightarrow> paced now (evicted now win) t1 us"
  by (cases win) (auto simp: paced_def evicted_def split: if_splits; fastforce)+

lemma paced_new:
  assumes "paced now None t1 us"
  shows "paced now (Some \<lparr>rw_started_at = now, rw_count = 1\<rparr>) now (now # us)"
proof -
  have old: "u < now" if "u \<in> set us" for u using assms that by (fastforce simp: paced_def)
  have none: "cnt (\<lambda>u. now \<le> u) us = 0" by (rule cnt_none) (use old in fastforce)
  have recent: "cnt (\<lambda>u. a \<le> u \<and> u < now) us \<le> pairing_rate_limit" if "now - pairing_window < a" for a
  proof -
    have "cnt (\<lambda>u. a \<le> u \<and> u < now) us \<le> cnt (\<lambda>u. t1 \<le> u) us"
      by (rule cnt_mono) (use assms that in \<open>force simp: paced_def\<close>)
    then show ?thesis using assms by (simp add: paced_def)
  qed
  have "cnt (\<lambda>u. a \<le> u \<and> u < a + pairing_window) (now # us) \<le> 2 * pairing_rate_limit" for a
  proof (cases "a \<le> now \<and> now < a + pairing_window")
    case True
    have "cnt (\<lambda>u. a \<le> u \<and> u < a + pairing_window) us \<le> cnt (\<lambda>u. a \<le> u \<and> u < now) us"
      by (rule cnt_mono) (use old in auto)
    then show ?thesis using recent [of a] True by simp
  next
    case False
    then show ?thesis using assms by (auto simp: paced_def)
  qed
  moreover have "u \<le> now \<and> u < now + pairing_window" if "u \<in> set us" for u using old [OF that] by simp
  ultimately show ?thesis using none recent unfolding paced_def by auto
qed

lemma paced_count:
  assumes "paced now (Some w) t1 us" and "rw_count w < pairing_rate_limit" and "now < t1 + pairing_window"
  shows "paced now (Some (count_up w)) t1 (now # us)"
proof -
  have t1: "t1 \<le> now" and w: "rw_started_at w = t1" "rw_count w = cnt (\<lambda>u. t1 \<le> u) us"
    using assms(1) by (simp_all add: paced_def)
  have "cnt (\<lambda>u. a \<le> u \<and> u < a + pairing_window) (now # us) \<le> 2 * pairing_rate_limit" for a
  proof (cases "a \<le> now \<and> now < a + pairing_window")
    case True
    then have "cnt (\<lambda>u. a \<le> u \<and> u < t1) us \<le> pairing_rate_limit"
      using assms(1) t1 by (auto simp: paced_def)
    moreover have "cnt (\<lambda>u. a \<le> u \<and> u < a + pairing_window) us \<le>
        cnt (\<lambda>u. a \<le> u \<and> u < t1) us + cnt (\<lambda>u. t1 \<le> u) us"
      by (rule cnt_split) auto
    ultimately show ?thesis using True w assms(2) by simp
  next
    case False
    then show ?thesis using assms(1) by (auto simp: paced_def)
  qed
  then show ?thesis using assms t1 w by (auto simp: paced_def count_up_def)
qed

section \<open>The windows\<close>

lemma keys_differ [simp]: "remote_key r \<noteq> machine_key m" "machine_key m \<noteq> remote_key r"
  by (simp_all add: remote_key_def machine_key_def)

lemma key_inj [simp]: "remote_key r = remote_key s \<longleftrightarrow> r = s" "machine_key m = machine_key n \<longleftrightarrow> m = n"
  by (simp_all add: remote_key_def machine_key_def)

definition windows_ok :: "limiter \<Rightarrow> bool" where
  "windows_ok l \<longleftrightarrow> distinct (map fst l) \<and> length l \<le> max_windows"

lemma map_of_evict: "distinct (map fst l) \<Longrightarrow> map_of (evict_expired now l) k = evicted now (map_of l k)"
  by (induction l) (auto simp: evict_expired_def evicted_def split: option.splits; force simp: map_of_eq_None_iff)+

lemma evict_ok: "windows_ok l \<Longrightarrow> windows_ok (evict_expired now l)"
proof -
  assume ok: "windows_ok l"
  have "length (evict_expired now l) \<le> length l" unfolding evict_expired_def by (rule length_filter_le)
  with ok have "length (evict_expired now l) \<le> max_windows" unfolding windows_ok_def by linarith
  moreover have "distinct (map fst (evict_expired now l))"
    using ok by (simp add: windows_ok_def evict_expired_def distinct_map_filter)
  ultimately show ?thesis by (simp add: windows_ok_def)
qed

lemma length_update: "length (AList.update k v l) = length l + (if map_of l k = None then 1 else 0)"
  by (induction l) auto

lemma allow_cases:
  obtains (refused) "allow r m now l = (False, evict_expired now l)"
  | (admitted) rw mw where "allow r m now l = (True, AList.update (machine_key m) (count_up mw)
        (AList.update (remote_key r) (count_up rw) (evict_expired now l)))"
      "rw = window_of (evict_expired now l) (remote_key r) now" "mw = window_of (evict_expired now l) (machine_key m) now"
      "rw_count rw < pairing_rate_limit" "rw_count mw < pairing_rate_limit"
      "length (evict_expired now l) + (if map_of (evict_expired now l) (remote_key r) = None then 1 else 0) +
         (if map_of (evict_expired now l) (machine_key m) = None then 1 else 0) \<le> max_windows"
proof (cases "fst (allow r m now l)")
  case True
  then show ?thesis
    by (intro admitted [where rw = "window_of (evict_expired now l) (remote_key r) now" and
          mw = "window_of (evict_expired now l) (machine_key m) now"])
      (auto simp: allow_def Let_def split: if_splits)
next
  case False
  then show ?thesis by (intro refused) (auto simp: allow_def Let_def split: if_splits)
qed

lemma allow_ok: "windows_ok l \<Longrightarrow> windows_ok (snd (allow r m now l))"
  using evict_ok [of l now]
  by (cases rule: allow_cases [of r m now l])
    (simp_all add: windows_ok_def distinct_update length_update update_conv' del: One_nat_def)

lemma map_of_after:
  "map_of (AList.update (machine_key m) mw (AList.update (remote_key r) rw l)) k =
     (if k = machine_key m then Some mw else if k = remote_key r then Some rw else map_of l k)"
  by (simp add: update_conv')

lemma hits_Cons:
  "hits k ((r, m, u) # H) = (if remote_key r = k \<or> machine_key m = k then u # hits k H else hits k H)"
  by (simp add: hits_def)

lemma paced_admit:
  assumes "paced now (evicted now win) t1 us" and "rw_count w < pairing_rate_limit"
    and "w = (case evicted now win of Some v \<Rightarrow> v | None \<Rightarrow> \<lparr>rw_started_at = now, rw_count = 0\<rparr>)"
  shows "\<exists>t2. paced now (Some (count_up w)) t2 (now # us)"
proof (cases "evicted now win")
  case None
  then show ?thesis using assms paced_new [of now t1 us] by (auto simp: count_up_def)
next
  case (Some v)
  then have "now < rw_started_at v + pairing_window" by (auto simp: evicted_def split: option.splits if_splits)
  moreover have "rw_started_at v = t1" using assms(1) Some by (simp add: paced_def)
  ultimately show ?thesis using assms Some paced_count [of now v t1 us] by auto
qed

lemma paced_step:
  assumes "paced t (map_of l k) t1 (hits k H)" and "windows_ok l" and "t \<le> now" and "allow r m now l = (ok, l')"
  shows "\<exists>t2. paced now (map_of l' k) t2 (hits k (if ok then (r, m, now) # H else H))"
proof -
  have evicts: "map_of (evict_expired now l) k = evicted now (map_of l k)" for k
    using assms(2) map_of_evict by (simp add: windows_ok_def)
  have p: "paced now (evicted now (map_of l k)) t1 (hits k H)" using assms(1,3) by (rule paced_evict)
  show ?thesis
  proof (cases rule: allow_cases [of r m now l])
    case refused
    then show ?thesis using p assms(4) evicts by auto
  next
    case (admitted rw mw)
    have l': "ok" "map_of l' k = (if k = machine_key m then Some (count_up mw) else if k = remote_key r then Some (count_up rw)
        else evicted now (map_of l k))"
      using admitted(1) assms(4) evicts by (auto simp: map_of_after)
    consider "k = machine_key m" | "k = remote_key r" | "k \<noteq> machine_key m" "k \<noteq> remote_key r" by blast
    then show ?thesis
    proof cases
      case 1
      then show ?thesis using paced_admit [OF p admitted(5)] admitted(3) l' evicts
        by (auto simp: window_of_def hits_Cons)
    next
      case 2
      then show ?thesis using paced_admit [OF p admitted(4)] admitted(2) l' evicts
        by (auto simp: window_of_def hits_Cons)
    next
      case 3
      then show ?thesis using p l' by (auto simp: hits_Cons)
    qed
  qed
qed

lemma limiter_reach_ok:
  "limiter_reach H t l \<Longrightarrow> windows_ok l \<and> (\<exists>t1. paced t (map_of l k) t1 (hits k H))"
proof (induction rule: limiter_reach.induct)
  case (limiter_empty t)
  have "paced t None 0 []" by (simp add: paced_def)
  then show ?case by (auto simp: windows_ok_def hits_def)
next
  case (limiter_call H t l now r m ok l')
  from limiter_call.hyps(3) have "windows_ok l'" using allow_ok [of l r m now] limiter_call.IH by simp
  with limiter_call paced_step show ?case by blast
qed

lemma cnt_hits:
  "cnt P (hits (remote_key r) H) = length (filter (\<lambda>(r', m, u). r' = r \<and> P u) H)"
  "cnt P (hits (machine_key m) H) = length (filter (\<lambda>(r, m', u). m' = m \<and> P u) H)"
  by (induction H) (auto simp: hits_def)



end
