(* ===== verification/SuUpgrade.thy ===== *)
theory SuUpgrade
  imports SuManager
begin

text \<open>
  What a managed upgrade promises, read off its log: in which order the platform is called, that
  every call is announced by the stage saved before it, and that the outcome saved at the end is
  what happened.  \<open>orderly\<close> holds of a log when each of its events was permitted by the events
  before it; \<open>run_orderly\<close> shows it for every run of the manager in every environment.
\<close>

section \<open>Permitted events\<close>

fun last_stored :: "event list \<Rightarrow> (stage \<times> bool) option" where
  "last_stored [] = None"
| "last_stored (Stored u ok # log) = Some (ut_stage u, ok)"
| "last_stored (_ # log) = last_stored log"

text \<open>The stages that announce a call.\<close>

fun announces :: "stage \<Rightarrow> platform_call \<Rightarrow> bool" where
  "announces st (InspectService s) = (st = Checking)"
| "announces st (InspectRollbackService s i t) = False"
| "announces st (CreateRollbackAlias s i t) = (st = BackingUp)"
| "announces st (BackupDatabase t) = (st = BackingUp)"
| "announces st (PullTarget s i) = (st = Pulling)"
| "announces st (DeployTarget s p t) = (st = (case s of Backend \<Rightarrow> SwitchingBackend | Web \<Rightarrow> SwitchingWeb))"
| "announces st (DeployRollback s p t) = (st = RollingBack)"
| "announces st (WaitHealthy s) =
     (st = Stabilizing \<or> st = (case s of Backend \<Rightarrow> CheckingBackend | Web \<Rightarrow> CheckingWeb))"
| "announces st (WaitRollbackHealthy s i t) = (st = RollingBack)"
| "announces st (RemoveOldImage s i) = (st = Cleaning)"

definition announced :: "platform_call \<Rightarrow> event list \<Rightarrow> bool" where
  "announced c log \<longleftrightarrow> (\<exists>st. last_stored log = Some (st, True) \<and> announces st c)"

fun call_matches :: "action \<Rightarrow> string \<Rightarrow> image_pair \<Rightarrow> platform_call \<Rightarrow> bool" where
  "call_matches (ActInspect s) i p c = (c = InspectService s)"
| "call_matches (ActAlias s) i p c = (\<exists>im. c = CreateRollbackAlias s im i)"
| "call_matches ActBackup i p c = (c = BackupDatabase i)"
| "call_matches (ActPull s) i p c = (c = PullTarget s (pair_image s p))"
| "call_matches (ActDeploy s) i p c = (c = DeployTarget s p i)"
| "call_matches (ActHealthy s) i p c = (c = WaitHealthy s)"

definition succeeded :: "action \<Rightarrow> string \<Rightarrow> image_pair \<Rightarrow> event list \<Rightarrow> bool" where
  "succeeded a i p log \<longleftrightarrow> (\<exists>c. call_matches a i p c \<and> Called c True \<in> set log)"

definition preparations :: "action list" where
  "preparations = [ActInspect Backend, ActInspect Web, ActAlias Backend, ActAlias Web, ActBackup,
     ActPull Backend, ActPull Web]"

definition prepared :: "string \<Rightarrow> image_pair \<Rightarrow> event list \<Rightarrow> bool" where
  "prepared i p log \<longleftrightarrow> (\<forall>a\<in>set preparations. succeeded a i p log)"

text \<open>The latest word about a service: healthy, and not deployed since.\<close>

fun healthy_now :: "service \<Rightarrow> event list \<Rightarrow> bool" where
  "healthy_now s [] = False"
| "healthy_now s (e # log) =
     (case e of
        Called (WaitHealthy s') ok \<Rightarrow> if s' = s then ok else healthy_now s log
      | Called (DeployTarget _ _ _) ok \<Rightarrow> False
      | Called (DeployRollback _ _ _) ok \<Rightarrow> False
      | _ \<Rightarrow> healthy_now s log)"

definition untouched :: "event list \<Rightarrow> bool" where
  "untouched log \<longleftrightarrow> (\<forall>s p i ok. Called (DeployTarget s p i) ok \<notin> set log)"

text \<open>The four calls of a complete roll-back, just before.\<close>

definition restored :: "update_task \<Rightarrow> event list \<Rightarrow> bool" where
  "restored u log \<longleftrightarrow> (\<exists>rest. log =
     Called (WaitRollbackHealthy Web (ip_web (ut_original u)) (ut_id u)) True #
     Called (DeployRollback Web (ut_original u) (ut_id u)) True #
     Called (WaitRollbackHealthy Backend (ip_backend (ut_original u)) (ut_id u)) True #
     Called (DeployRollback Backend (ut_original u) (ut_id u)) True # rest)"

definition truthful :: "string \<Rightarrow> image_pair \<Rightarrow> update_task \<Rightarrow> event list \<Rightarrow> bool" where
  "truthful i p u log \<longleftrightarrow> ut_id u = i \<and> ut_target u = p \<and>
     (ut_stage u = StageSucceeded \<longrightarrow>
        healthy_now Backend log \<and> healthy_now Web log \<and> prepared i p log \<and>
        succeeded (ActDeploy Backend) i p log \<and> succeeded (ActDeploy Web) i p log) \<and>
     (ut_stage u = StageFailed \<longrightarrow> (if ut_rolled_back u then restored u log else untouched log))"

definition permitted :: "string \<Rightarrow> image_pair \<Rightarrow> event \<Rightarrow> event list \<Rightarrow> bool" where
  "permitted i p e log \<longleftrightarrow> (\<forall>u ok. Stored u ok \<in> set log \<longrightarrow> \<not> stage_terminal (ut_stage u)) \<and>
     (case e of
        Stored u ok \<Rightarrow> truthful i p u log
      | Slept d ok \<Rightarrow> True
      | Called c ok \<Rightarrow> announced c log \<and>
          (case c of
             DeployTarget s q j \<Rightarrow> q = p \<and> j = i \<and> prepared i p log
           | RemoveOldImage s im \<Rightarrow> healthy_now Backend log \<and> healthy_now Web log
           | _ \<Rightarrow> True))"

fun orderly :: "string \<Rightarrow> image_pair \<Rightarrow> event list \<Rightarrow> bool" where
  "orderly i p [] = True"
| "orderly i p (e # log) = (permitted i p e log \<and> orderly i p log)"

lemma orderly_split: "orderly i p (later @ e # earlier) \<Longrightarrow> permitted i p e earlier"
  by (induction later) auto

section \<open>What one operation adds to the log\<close>

lemma acquire_log [simp]: "wd_log (acquire env w) = wd_log w"
  by (auto simp: acquire_def save_state_def Let_def split: option.splits sum.splits prod.splits)

lemma save_state_log [simp]: "wd_log (snd (save_state env s w)) = wd_log w"
  by (simp add: save_state_def split_def Let_def)

lemma save_state_logD: "save_state env s w = (r, w1) \<Longrightarrow> wd_log w1 = wd_log w"
  by (metis save_state_log snd_conv)

lemma save_task_log: "save_task env t w = (r, w1) \<Longrightarrow> wd_log w1 = Stored t (r = None) # wd_log w"
  by (auto simp: save_task_def Let_def log_event_def split: sum.splits option.splits if_splits prod.splits
      dest: save_state_logD)

lemma finish_task_log: "finish_task env t w = (r, w1) \<Longrightarrow> wd_log w1 = Stored t (r = None) # wd_log w"
  by (auto simp: finish_task_def Let_def log_event_def split: sum.splits option.splits if_splits prod.splits
      dest: save_state_logD)

lemma call_log: "call env c w = (r, w1) \<Longrightarrow> wd_log w1 = Called c (r = None) # wd_log w"
  by (auto simp: call_def called_def log_event_def Let_def)

lemma act_log:
  assumes "act env a t w = (r, t1, w1)"
  shows "\<exists>c. call_matches a (ut_id t) (ut_target t) c \<and> wd_log w1 = Called c (r = None) # wd_log w"
    and "ut_id t1 = ut_id t" and "ut_target t1 = ut_target t" and "ut_stage t1 = ut_stage t"
  using assms
  by (cases a; auto simp: called_def log_event_def Let_def error_of_def split: sum.splits prod.splits
      dest: call_log)+

lemma perform_log:
  assumes "perform env st a t w = (r, t1, w1)"
  obtains (unsaved) e where "r = Some e" "t1 = t\<lparr>ut_stage := st\<rparr>" "wd_log w1 = Stored t1 False # wd_log w"
  | (failed) e c where "r = Some e" "call_matches a (ut_id t) (ut_target t) c"
      "wd_log w1 = Called c False # Stored (t\<lparr>ut_stage := st\<rparr>) True # wd_log w"
      "ut_id t1 = ut_id t" "ut_target t1 = ut_target t" "ut_stage t1 = st"
  | (completed) c where "call_matches a (ut_id t) (ut_target t) c"
      "wd_log w1 = Stored t1 (r = None) # Called c True # Stored (t\<lparr>ut_stage := st\<rparr>) True # wd_log w"
      "ut_id t1 = ut_id t" "ut_target t1 = ut_target t" "ut_stage t1 = st"
proof -
  let ?t = "t\<lparr>ut_stage := st\<rparr>"
  obtain r0 w0 where s0: "save_task env ?t w = (r0, w0)" by fastforce
  show ?thesis
  proof (cases r0)
    case (Some e)
    with assms s0 save_task_log [OF s0] show ?thesis by (intro unsaved [of e]) (auto simp: perform_def)
  next
    case None
    obtain r1 t2 w2 where a: "act env a ?t w0 = (r1, t2, w2)" by (metis prod_cases3)
    obtain c where c: "call_matches a (ut_id t) (ut_target t) c" "wd_log w2 = Called c (r1 = None) # wd_log w0"
      using act_log(1) [OF a] by auto
    have same: "ut_id t2 = ut_id t" "ut_target t2 = ut_target t" "ut_stage t2 = st"
      using act_log(2-4) [OF a] by simp_all
    show ?thesis
    proof (cases r1)
      case (Some e)
      with assms s0 None a c same save_task_log [OF s0] show ?thesis
        by (intro failed [of e c]) (auto simp: perform_def)
    next
      case ok: None
      obtain r2 w3 where s2: "save_task env t2 w2 = (r2, w3)" by fastforce
      from assms s0 None a ok s2 have "r = r2" "t1 = t2" "w1 = w3" by (auto simp: perform_def)
      with c same save_task_log [OF s0] save_task_log [OF s2] None ok show ?thesis
        by (intro completed [of c]) auto
    qed
  qed
qed

section \<open>Every run is orderly\<close>

definition running :: "event list \<Rightarrow> bool" where
  "running log \<longleftrightarrow> (\<forall>u ok. Stored u ok \<in> set log \<longrightarrow> \<not> stage_terminal (ut_stage u))"

lemma running_Cons [simp]:
  "running (Stored u ok # log) \<longleftrightarrow> \<not> stage_terminal (ut_stage u) \<and> running log"
  "running (Called c ok # log) \<longleftrightarrow> running log"
  "running (Slept d ok # log) \<longleftrightarrow> running log"
  by (auto simp: running_def)

text \<open>The state of a task \<open>i\<close> with target \<open>p\<close> that is still under way.\<close>

definition under_way :: "string \<Rightarrow> image_pair \<Rightarrow> update_task \<Rightarrow> world \<Rightarrow> bool" where
  "under_way i p t w \<longleftrightarrow> orderly i p (wd_log w) \<and> running (wd_log w) \<and> ut_id t = i \<and> ut_target t = p"

lemma permitted_simps:
  "permitted i p (Stored u ok) log \<longleftrightarrow> running log \<and> truthful i p u log"
  "permitted i p (Slept d ok) log \<longleftrightarrow> running log"
  "permitted i p (Called c ok) log \<longleftrightarrow> running log \<and> announced c log \<and>
     (case c of DeployTarget s q j \<Rightarrow> q = p \<and> j = i \<and> prepared i p log
      | RemoveOldImage s im \<Rightarrow> healthy_now Backend log \<and> healthy_now Web log | _ \<Rightarrow> True)"
  by (auto simp: permitted_def running_def)

lemma truthful_running:
  "\<not> stage_terminal (ut_stage u) \<or> ut_stage u = ManualIntervention \<Longrightarrow>
   truthful i p u log \<longleftrightarrow> ut_id u = i \<and> ut_target u = p"
  by (auto simp: truthful_def)

lemma succeeded_more: "succeeded a i p log \<Longrightarrow> succeeded a i p (e # log)"
  by (auto simp: succeeded_def)

lemma prepared_more: "prepared i p log \<Longrightarrow> prepared i p (e # log)"
  by (simp add: prepared_def succeeded_more)

lemma announced_simps [simp]:
  "announced c (Stored u ok # log) \<longleftrightarrow> ok \<and> announces (ut_stage u) c"
  "announced c (Called d ok # log) \<longleftrightarrow> announced c log"
  by (auto simp: announced_def)

fun is_deploy :: "action \<Rightarrow> bool" where
  "is_deploy (ActDeploy s) = True"
| "is_deploy _ = False"

definition fitting :: "stage \<Rightarrow> action \<Rightarrow> bool" where
  "fitting st a \<longleftrightarrow> \<not> stage_terminal st \<and> (\<forall>i p c. call_matches a i p c \<longrightarrow> announces st c)"

lemma call_permitted:
  assumes "call_matches a i p c" and "running log" and "announced c log"
    and "is_deploy a \<Longrightarrow> prepared i p log"
  shows "permitted i p (Called c ok) log"
  using assms by (cases a) (auto simp: permitted_simps)

lemma untouched_simps [simp]:
  "untouched (Stored u ok # log) \<longleftrightarrow> untouched log"
  "untouched (Slept d ok # log) \<longleftrightarrow> untouched log"
  "untouched (Called c ok # log) \<longleftrightarrow> (\<forall>s p i. c \<noteq> DeployTarget s p i) \<and> untouched log"
  by (auto simp: untouched_def)

lemma perform_orderly:
  assumes run: "perform env st a t w = (r, t1, w1)" and way: "under_way i p t w"
    and fit: "fitting st a" and prep: "is_deploy a \<Longrightarrow> prepared i p (wd_log w)"
  shows "under_way i p t1 w1 \<and> (\<exists>evs. wd_log w1 = evs @ wd_log w) \<and>
    (r = None \<longrightarrow> succeeded a i p (wd_log w1)) \<and>
    (\<not> is_deploy a \<and> untouched (wd_log w) \<longrightarrow> untouched (wd_log w1))"
proof -
  let ?log = "wd_log w"
  have st: "\<not> stage_terminal st" and ann: "call_matches a i p c \<Longrightarrow> announces st c" for c
    using fit by (auto simp: fitting_def)
  have store: "permitted i p (Stored u ok) log" if "running log" "ut_stage u = st" "ut_id u = i" "ut_target u = p" for u ok log
    using that st by (simp add: permitted_simps truthful_running)
  have no_deploy: "\<not> is_deploy a \<Longrightarrow> call_matches a i p c \<Longrightarrow> (\<forall>s q j. c \<noteq> DeployTarget s q j)" for c
    by (cases a) auto
  note way' = way [unfolded under_way_def]
  from run show ?thesis
  proof (cases rule: perform_log)
    case (unsaved e)
    then show ?thesis using way' st store by (auto simp: under_way_def)
  next
    case (failed e c)
    have m: "call_matches a i p c" using failed(2) way' by simp
    have "permitted i p (Called c False) (Stored (t\<lparr>ut_stage := st\<rparr>) True # ?log)"
      by (rule call_permitted [OF m]) (use way' st ann [OF m] prep prepared_more in auto)
    then show ?thesis using failed way' st store no_deploy [OF _ m] by (simp add: under_way_def)
  next
    case (completed c)
    have m: "call_matches a i p c" using completed(1) way' by simp
    have "permitted i p (Called c True) (Stored (t\<lparr>ut_stage := st\<rparr>) True # ?log)"
      by (rule call_permitted [OF m]) (use way' st ann [OF m] prep prepared_more in auto)
    then have "under_way i p t1 w1" using completed way' st store by (simp add: under_way_def)
    moreover have "succeeded a i p (wd_log w1)" using m completed(2) by (auto simp: succeeded_def)
    moreover have "\<exists>evs. wd_log w1 = evs @ wd_log w" using completed(2) by auto
    moreover have "\<not> is_deploy a \<and> untouched (wd_log w) \<longrightarrow> untouched (wd_log w1)"
      using completed(2) no_deploy [OF _ m] by simp
    ultimately show ?thesis by simp
  qed
qed

lemma mark_failed_orderly:
  assumes "mark_failed env t code b w = (r, w1)" and "under_way i p t w"
    and "if b then restored t (wd_log w) else untouched (wd_log w)"
  shows "orderly i p (wd_log w1)"
  using assms save_task_log [OF assms(1) [unfolded mark_failed_def]]
  by (auto simp: under_way_def permitted_simps truthful_def restored_def split: if_splits)

lemma mark_manual_orderly:
  assumes "mark_manual_intervention env t code w = (r, w1)" and "under_way i p t w"
  shows "orderly i p (wd_log w1)"
  using assms save_task_log [OF assms(1) [unfolded mark_manual_intervention_def]]
  by (auto simp: under_way_def permitted_simps truthful_def)

lemma rollback_services_log:
  assumes "rollback_services env t [Backend, Web] None w = (r, w1)"
  obtains a b c d where "wd_log w1 =
      Called (WaitRollbackHealthy Web (ip_web (ut_original t)) (ut_id t)) d #
      Called (DeployRollback Web (ut_original t) (ut_id t)) c #
      Called (WaitRollbackHealthy Backend (ip_backend (ut_original t)) (ut_id t)) b #
      Called (DeployRollback Backend (ut_original t) (ut_id t)) a # wd_log w"
    "r = None \<longleftrightarrow> a \<and> b \<and> c \<and> d"
proof -
  let ?d = "\<lambda>s. DeployRollback s (ut_original t) (ut_id t)"
  let ?h = "\<lambda>s. WaitRollbackHealthy s (pair_image s (ut_original t)) (ut_id t)"
  obtain a wa where a: "call env (?d Backend) w = (a, wa)" by fastforce
  obtain b wb where b: "call env (?h Backend) wa = (b, wb)" by fastforce
  obtain c wc where c: "call env (?d Web) wb = (c, wc)" by fastforce
  obtain d wd where d: "call env (?h Web) wc = (d, wd)" by fastforce
  have "w1 = wd" "r = first_error (first_error (first_error (first_error None a) b) c) d"
    using assms a b c d by simp_all
  then show ?thesis
    using call_log [OF a] call_log [OF b] call_log [OF c] call_log [OF d]
    by (intro that [of "d = None" "c = None" "b = None" "a = None"])
      (auto simp: first_error_def split: option.splits)
qed

lemma rollback_orderly:
  assumes "rollback env t code w = (r, w1)" and "under_way i p t w"
  shows "orderly i p (wd_log w1)"
proof (cases "has_rollback_images (ut_original t)")
  case False
  then show ?thesis using assms mark_manual_orderly by (auto simp: rollback_def)
next
  case True
  let ?t = "t\<lparr>ut_stage := RollingBack, ut_error_code := code, ut_error_message := []\<rparr>"
  obtain r0 w0 where s0: "save_task env ?t w = (r0, w0)" by fastforce
  have log0: "wd_log w0 = Stored ?t (r0 = None) # wd_log w" using save_task_log [OF s0] .
  have way0: "under_way i p ?t w0" unfolding under_way_def log0
    using assms(2) by (simp add: under_way_def permitted_simps truthful_running)
  show ?thesis
  proof (cases r0)
    case (Some e)
    then show ?thesis using True assms(1) s0 way0 by (simp add: rollback_def Let_def under_way_def)
  next
    case None
    obtain r2 w2 where rb: "rollback_services env ?t [Backend, Web] None w0 = (r2, w2)" by fastforce
    obtain a b c d where log2: "wd_log w2 =
        Called (WaitRollbackHealthy Web (ip_web (ut_original ?t)) (ut_id ?t)) d #
        Called (DeployRollback Web (ut_original ?t) (ut_id ?t)) c #
        Called (WaitRollbackHealthy Backend (ip_backend (ut_original ?t)) (ut_id ?t)) b #
        Called (DeployRollback Backend (ut_original ?t) (ut_id ?t)) a # wd_log w0"
      and all: "r2 = None \<longleftrightarrow> a \<and> b \<and> c \<and> d"
      using rb by (rule rollback_services_log)
    have way2: "under_way i p ?t w2" using way0 None unfolding under_way_def log2
      by (simp add: permitted_simps log0)
    show ?thesis
    proof (cases r2)
      case None
      then have "mark_failed env ?t code True w2 = (r, w1)"
        using True assms(1) s0 \<open>r0 = None\<close> rb by (simp add: rollback_def Let_def)
      then show ?thesis using way2
        by (rule mark_failed_orderly) (use all None log2 in \<open>simp add: restored_def\<close>)
    next
      case (Some e)
      show ?thesis
      proof (cases "en_cancelled env (wd_log w2)")
        case (Some x)
        then have "w1 = w2" using True assms(1) s0 \<open>r0 = None\<close> \<open>r2 = Some e\<close> rb
          by (simp add: rollback_def Let_def)
        then show ?thesis using way2 by (simp add: under_way_def)
      next
        case None
        then have "mark_manual_intervention env ?t ''rollback_failed'' w2 = (r, w1)"
          using True assms(1) s0 \<open>r0 = None\<close> \<open>r2 = Some e\<close> rb by (simp add: rollback_def Let_def)
        then show ?thesis using way2 by (rule mark_manual_orderly)
      qed
    qed
  qed
qed

lemma handle_failure_orderly:
  assumes "under_way i p t w" and "rb \<or> untouched (wd_log w)"
  shows "orderly i p (wd_log (handle_failure env t code rb w))"
proof -
  obtain r w1 where m: "mark_failed env t code False w = (r, w1)" by fastforce
  obtain q w2 where k: "rollback env t code w = (q, w2)" by fastforce
  show ?thesis
    using assms mark_failed_orderly [OF m assms(1)] rollback_orderly [OF k assms(1)] m k
    by (auto simp: handle_failure_def under_way_def)
qed

text \<open>What the finished steps have achieved, for the remaining ones.\<close>

definition steps_done :: "string \<Rightarrow> image_pair \<Rightarrow> upgrade_step list \<Rightarrow> event list \<Rightarrow> bool" where
  "steps_done i p ss log \<longleftrightarrow> (\<forall>s\<in>set ss. succeeded (us_action s) i p log) \<and>
     ((\<forall>s\<in>set ss. \<not> us_rollback s) \<longrightarrow> untouched log)"

lemma upgrade_steps_fit: "\<forall>s\<in>set upgrade_steps. fitting (us_stage s) (us_action s)"
  by (auto simp: upgrade_steps_def fitting_def)

lemma split_prefix:
  assumes "xs = f @ s # r"
  shows "f = take (length f) xs \<and> s = xs ! length f \<and> length f < length xs"
  using assms by simp

lemma prepared_before_deploy:
  "\<forall>k\<in>set [0..<length upgrade_steps].
     (is_deploy (us_action (upgrade_steps ! k)) \<longrightarrow>
        (\<forall>a\<in>set preparations. a \<in> us_action ` set (take k upgrade_steps))) \<and>
     (\<not> us_rollback (upgrade_steps ! k) \<longrightarrow>
        (\<forall>q\<in>set (take k upgrade_steps). \<not> us_rollback q) \<and> \<not> is_deploy (us_action (upgrade_steps ! k)))"
  by (simp add: upgrade_steps_def preparations_def upt_rec)

lemma split_upgrade_steps:
  assumes "upgrade_steps = finished @ s # rest"
  shows "is_deploy (us_action s) \<Longrightarrow> set preparations \<subseteq> us_action ` set finished"
    and "\<not> us_rollback s \<Longrightarrow> (\<forall>q\<in>set finished. \<not> us_rollback q) \<and> \<not> is_deploy (us_action s)"
  using prepared_before_deploy split_prefix [OF assms] by force+

lemma steps_done_prepared:
  assumes "upgrade_steps = finished @ s # rest" and "steps_done i p finished log" and "is_deploy (us_action s)"
  shows "prepared i p log"
  using split_upgrade_steps(1) [OF assms(1,3)] assms(2)
  by (auto simp: prepared_def steps_done_def)

lemma succeeded_append: "succeeded a i p log \<Longrightarrow> succeeded a i p (evs @ log)"
  by (auto simp: succeeded_def)

lemma run_steps_orderly:
  assumes "run_steps env rest t w = (r, w1)" and "upgrade_steps = finished @ rest"
    and "under_way i p t w" and "steps_done i p finished (wd_log w)"
  shows "(case r of None \<Rightarrow> orderly i p (wd_log w1)
     | Some t1 \<Rightarrow> under_way i p t1 w1 \<and> steps_done i p upgrade_steps (wd_log w1))"
  using assms
proof (induction rest arbitrary: finished t w)
  case (Cons s rest)
  obtain q t2 w2 where perf: "perform env (us_stage s) (us_action s) t w = (q, t2, w2)" by (metis prod_cases3)
  have fit: "fitting (us_stage s) (us_action s)"
    using upgrade_steps_fit Cons.prems(2) by (metis in_set_conv_decomp)
  have prep: "is_deploy (us_action s) \<Longrightarrow> prepared i p (wd_log w)"
    using steps_done_prepared [OF Cons.prems(2,4)] by blast
  note after = perform_orderly [OF perf Cons.prems(3) fit prep]
  have clean: "\<not> us_rollback s \<Longrightarrow> untouched (wd_log w2)"
    using split_upgrade_steps(2) [OF Cons.prems(2)] Cons.prems(4) after by (auto simp: steps_done_def)
  show ?case
  proof (cases q)
    case (Some e)
    then have "r = None" "w1 = handle_failure env t2 (us_code s) (us_rollback s) w2"
      using Cons.prems(1) perf by simp_all
    then show ?thesis using handle_failure_orderly [of i p t2 w2 "us_rollback s"] after clean by auto
  next
    case None
    then have "run_steps env rest t2 w2 = (r, w1)" using Cons.prems(1) perf by simp
    moreover have "upgrade_steps = (finished @ [s]) @ rest" using Cons.prems(2) by simp
    moreover have "steps_done i p (finished @ [s]) (wd_log w2)"
      using Cons.prems(4) after None clean succeeded_append by (auto simp: steps_done_def)
    ultimately show ?thesis using Cons.IH after by blast
  qed
qed auto

text \<open>The stability loop ends with fresh good news about both services.\<close>

lemma healthy_now_simps [simp]:
  "healthy_now s (Stored u ok # log) = healthy_now s log"
  "healthy_now s (Slept d ok # log) = healthy_now s log"
  "healthy_now s (Called (WaitHealthy q) ok # log) = (if q = s then ok else healthy_now s log)"
  "healthy_now s (Called (RemoveOldImage q im) ok # log) = healthy_now s log"
  by simp_all

lemma perform_healthy_log:
  assumes "perform env Stabilizing (ActHealthy s) t w = (None, t1, w1)"
  shows "\<exists>u v. wd_log w1 = Stored u True # Called (WaitHealthy s) True # Stored v True # wd_log w"
  using assms by (cases rule: perform_log) auto

definition kept :: "string \<Rightarrow> image_pair \<Rightarrow> world \<Rightarrow> bool" where
  "kept i p w \<longleftrightarrow> (\<forall>s\<in>set upgrade_steps. succeeded (us_action s) i p (wd_log w))"

lemma stabilize_from_orderly:
  assumes "stabilize_from n env interval deadline t w = Some (r, t1, w1)"
    and "under_way i p t w" and "kept i p w"
  shows "under_way i p t1 w1 \<and> kept i p w1 \<and>
    (r = None \<longrightarrow> healthy_now Backend (wd_log w1) \<and> healthy_now Web (wd_log w1))"
  using assms
proof (induction n arbitrary: t w)
  case (Suc n)
  let ?wait = "stable_wait env interval deadline w"
  obtain se ws where sl: "pause env ?wait w = (se, ws)" by fastforce
  have ws: "under_way i p t ws" "kept i p ws"
    using sl Suc.prems(2,3)
    by (auto simp: pause_def under_way_def log_event_def permitted_simps Let_def kept_def succeeded_more split: if_splits)
  have step: "under_way i p t2 w2 \<and> kept i p w2" if "perform env Stabilizing (ActHealthy s) t' w' = (q, t2, w2)"
      "under_way i p t' w'" "kept i p w'" for s t' w' q t2 w2
  proof -
    have "fitting Stabilizing (ActHealthy s)" by (auto simp: fitting_def)
    from perform_orderly [OF that(1,2) this] obtain evs where "under_way i p t2 w2" "wd_log w2 = evs @ wd_log w'"
      by auto
    then show ?thesis using that(3) succeeded_append by (auto simp: kept_def)
  qed
  show ?case
  proof (cases se)
    case (Some e)
    then show ?thesis using Suc.prems(1) sl ws by auto
  next
    case None
    obtain q2 t2 w2 where p2: "perform env Stabilizing (ActHealthy Backend) t ws = (q2, t2, w2)" by (metis prod_cases3)
    obtain q3 t3 w3 where p3: "perform env Stabilizing (ActHealthy Web) t2 w2 = (q3, t3, w3)" by (metis prod_cases3)
    note s2 = step [OF p2 ws] note s3 = step [OF p3 conjunct1 [OF s2] conjunct2 [OF s2]]
    show ?thesis
    proof (cases q2)
      case (Some e)
      then show ?thesis using Suc.prems(1) sl None p2 s2 by auto
    next
      case ok2: None
      show ?thesis
      proof (cases q3)
        case (Some e)
        then show ?thesis using Suc.prems(1) sl None ok2 p2 p3 s3 by auto
      next
        case ok3: None
        have "healthy_now Backend (wd_log w3) \<and> healthy_now Web (wd_log w3)"
          using perform_healthy_log [OF p2 [unfolded ok2]] perform_healthy_log [OF p3 [unfolded ok3]] by auto
        then show ?thesis using Suc.prems(1) Suc.IH [of t3 w3] sl None ok2 ok3 p2 p3 s3
          by (auto split: if_splits)
      qed
    qed
  qed
qed simp

text \<open>Cleaning up keeps the good news, so the final record is the truth.\<close>

definition proven :: "string \<Rightarrow> image_pair \<Rightarrow> update_task \<Rightarrow> world \<Rightarrow> bool" where
  "proven i p t w \<longleftrightarrow> under_way i p t w \<and> kept i p w \<and> healthy_now Backend (wd_log w) \<and> healthy_now Web (wd_log w)"

lemma proven_store:
  assumes "save_task env (t\<lparr>ut_stage := Cleaning\<rparr>) w = (r, w1)" and "proven i p t w"
  shows "proven i p (t\<lparr>ut_stage := Cleaning\<rparr>) w1 \<and> last_stored (wd_log w1) = Some (Cleaning, r = None)"
  using assms(2) save_task_log [OF assms(1)]
  by (simp add: proven_def under_way_def kept_def permitted_simps truthful_running succeeded_more)

lemma proven_remove:
  assumes "call env (RemoveOldImage s im) w = (r, w1)" and "proven i p t w"
    and "last_stored (wd_log w) = Some (Cleaning, True)"
  shows "proven i p t w1"
  using assms(2,3) call_log [OF assms(1)]
  by (simp add: proven_def under_way_def kept_def permitted_simps succeeded_more announced_def)

lemma clean_services_proven:
  assumes "clean_services env ss t pending w = (r, t1, w1)" and "proven i p t w"
  shows "proven i p t1 w1"
  using assms
proof (induction ss arbitrary: t pending w)
  case (Cons s ss)
  let ?t = "t\<lparr>ut_stage := Cleaning\<rparr>"
  obtain r0 w0 where s0: "save_task env ?t w = (r0, w0)" by fastforce
  note k0 = proven_store [OF s0 Cons.prems(2)]
  show ?case
  proof (cases r0)
    case (Some e)
    then show ?thesis using Cons.prems(1) s0 k0 by (auto simp: Let_def)
  next
    case None
    obtain q w2 where c: "call env (RemoveOldImage s (pair_image s (ut_original t))) w0 = (q, w2)" by fastforce
    have k2: "proven i p ?t w2" using proven_remove [OF c] k0 None by simp
    obtain r3 w3 where s3: "save_task env ?t w2 = (r3, w3)" by fastforce
    have "save_task env (?t\<lparr>ut_stage := Cleaning\<rparr>) w2 = (r3, w3)" using s3 by simp
    from proven_store [OF this k2] have k3: "proven i p ?t w3" by simp
    show ?thesis
    proof (cases r3)
      case (Some e)
      then show ?thesis using Cons.prems(1) s0 None c s3 k3 by (auto simp: Let_def)
    next
      case ok: None
      then have "clean_services env ss ?t (pending \<or> q \<noteq> None) w3 = (r, t1, w1)"
        using Cons.prems(1) s0 None c s3 by (simp add: Let_def)
      then show ?thesis using Cons.IH k3 by blast
    qed
  qed
qed auto

lemma kept_succeeded:
  "kept i p w \<Longrightarrow> prepared i p (wd_log w) \<and> succeeded (ActDeploy Backend) i p (wd_log w) \<and>
     succeeded (ActDeploy Web) i p (wd_log w)"
  by (simp add: kept_def prepared_def preparations_def upgrade_steps_def)

lemma resume_cleanup_orderly:
  assumes "resume_cleanup env t w = (r, w1)" and "proven i p t w"
  shows "orderly i p (wd_log w1)"
proof -
  obtain q t2 w2 where c: "clean_services env [Backend, Web] t False w = (q, t2, w2)" by (metis prod_cases3)
  note k = clean_services_proven [OF c assms(2)]
  show ?thesis
  proof (cases q)
    case (Inl e)
    then show ?thesis using assms(1) c k by (auto simp: resume_cleanup_def proven_def under_way_def)
  next
    case (Inr pending)
    then have "finish_task env (finished_task t2 pending (en_now env (wd_log w2))) w2 = (r, w1)"
      using assms(1) c by (simp add: resume_cleanup_def)
    from finish_task_log [OF this] k kept_succeeded [of i p w2] show ?thesis
      by (simp add: proven_def under_way_def permitted_simps truthful_def finished_task_def)
  qed
qed

theorem run_orderly:
  assumes "run fuel env window interval t w = Some w1" and "wd_log w = []"
  shows "orderly (ut_id t) (ut_target t) (wd_log w1)"
proof -
  let ?i = "ut_id t" and ?p = "ut_target t"
  have start: "under_way ?i ?p t w" "steps_done ?i ?p [] (wd_log w)"
    using assms(2) by (simp_all add: under_way_def running_def steps_done_def untouched_def)
  obtain q w2 where steps: "run_steps env upgrade_steps t w = (q, w2)" by fastforce
  note after = run_steps_orderly [OF steps _ start, simplified]
  show ?thesis
  proof (cases q)
    case None
    then show ?thesis using assms(1) steps after by (simp add: run_def)
  next
    case (Some t2)
    then have way2: "under_way ?i ?p t2 w2" "kept ?i ?p w2" using after by (simp_all add: steps_done_def kept_def)
    obtain r t3 w3 where st: "stabilize fuel env window interval t2 w2 = Some (r, t3, w3)"
      using assms(1) steps Some by (auto simp: run_def split: option.splits prod.splits)
    note stable = stabilize_from_orderly [OF st [unfolded stabilize_def] way2]
    show ?thesis
    proof (cases r)
      case (Some e)
      then have "w1 = handle_failure env t3 ''stability_failed'' True w3"
        using assms(1) steps \<open>q = Some t2\<close> st by (simp add: run_def)
      then show ?thesis using handle_failure_orderly [of ?i ?p t3 w3 True] stable by simp
    next
      case None
      obtain x wx where rc: "resume_cleanup env t3 w3 = (x, wx)" by fastforce
      then have "w1 = wx" using assms(1) steps \<open>q = Some t2\<close> st None by (simp add: run_def)
      then show ?thesis using resume_cleanup_orderly [OF rc, of ?i ?p] stable None by (simp add: proven_def)
    qed
  qed
qed

end
