(* ===== verification/SuTheorems.thy ===== *)
theory SuTheorems
  imports SuUpgrade
begin

text \<open>The properties of the upgrade manager, with a concrete upgrade for their witnesses.\<close>

section \<open>A concrete upgrade\<close>

definition img :: "string \<Rightarrow> image" where
  "img n = \<lparr>im_repository = n, im_version = ''v1'', im_digest = ''sha'' @ n, im_id = n, im_alias = ''old'',
     im_published = None\<rparr>"

definition demo_pair_of :: "string \<Rightarrow> image_pair" where
  "demo_pair_of v = \<lparr>ip_backend = (img ''b'')\<lparr>im_version := v\<rparr>, ip_web = (img ''w'')\<lparr>im_version := v\<rparr>\<rparr>"

definition demo_checked :: check_result where
  "demo_checked = \<lparr>ck_current = demo_pair_of ''v1'', ck_target = demo_pair_of ''v2'', ck_available = True, ck_checked_at = 100\<rparr>"

definition demo_update :: update_task where
  "demo_update = new_task ''id'' demo_checked 105"

definition demo_world :: world where
  "demo_world = \<lparr>wd_file = Some \<lparr>sf_size = 0, sf_documents =
     [Inr \<lparr>ps_last_check = Some demo_checked, ps_task = Some demo_update\<rparr>]\<rparr>, wd_log = []\<rparr>"

definition demo_semver :: semver where
  "demo_semver = \<lparr>sem_valid = (\<lambda>v. True), sem_canonical = (\<lambda>v. v),
     sem_compare = (\<lambda>v w. if v = w then 0 else if v = ''v2'' then 1 else - 1)\<rparr>"

definition demo_env :: "(platform_call \<Rightarrow> go_error option) \<Rightarrow> env" where
  "demo_env answer = \<lparr>en_inspect = (\<lambda>l s. Inr (img (case s of Backend \<Rightarrow> ''b'' | Web \<Rightarrow> ''w''))),
     en_inspect_rollback = (\<lambda>l s i t. Inr i), en_alias = (\<lambda>l s i t. (img (case s of Backend \<Rightarrow> ''b'' | Web \<Rightarrow> ''w''), None)),
     en_backup = (\<lambda>l t. (''dump'', None)), en_call = (\<lambda>l. answer), en_fs = (\<lambda>l. no_faults), en_size = (\<lambda>s. 0),
     en_now = (\<lambda>l. 105), en_clock = (\<lambda>l. 0), en_sleep = (\<lambda>l. None), en_cancelled = (\<lambda>l. None),
     en_other = (\<lambda>l. None), en_semver = demo_semver\<rparr>"

lemma demo_save:
  "save_task (demo_env f) t \<lparr>wd_file = Some \<lparr>sf_size = 0, sf_documents = [Inr \<lparr>ps_last_check = Some c, ps_task = Some old\<rparr>]\<rparr>,
      wd_log = log\<rparr> =
    (if ut_id old = ut_id t then
       (None, \<lparr>wd_file = Some \<lparr>sf_size = 0, sf_documents = [Inr \<lparr>ps_last_check = Some c, ps_task = Some t\<rparr>]\<rparr>,
          wd_log = Stored t True # log\<rparr>)
     else (Some state_invalid_error, \<lparr>wd_file = Some \<lparr>sf_size = 0, sf_documents = [Inr \<lparr>ps_last_check = Some c, ps_task = Some old\<rparr>]\<rparr>,
          wd_log = Stored t False # log\<rparr>))"
  by (simp add: demo_env_def save_task_def load_state_def save_state_def acquire_def store_load_def
      store_save_def save_calls_def sync_state_directory_def no_faults_def log_event_def)

lemma demo_finish:
  "finish_task (demo_env f) t \<lparr>wd_file = Some \<lparr>sf_size = 0, sf_documents = [Inr \<lparr>ps_last_check = Some c, ps_task = Some old\<rparr>]\<rparr>,
      wd_log = log\<rparr> =
    (if ut_id old = ut_id t then
       (None, \<lparr>wd_file = Some \<lparr>sf_size = 0, sf_documents = [Inr \<lparr>ps_last_check = Some (c\<lparr>ck_current := ut_target t,
          ck_available := 0 < sem_compare demo_semver (im_version (ip_backend (ck_target c)))
             (im_version (ip_backend (ut_target t)))\<rparr>), ps_task = Some t\<rparr>]\<rparr>,
          wd_log = Stored t True # log\<rparr>)
     else (Some state_invalid_error, \<lparr>wd_file = Some \<lparr>sf_size = 0, sf_documents = [Inr \<lparr>ps_last_check = Some c, ps_task = Some old\<rparr>]\<rparr>,
          wd_log = Stored t False # log\<rparr>))"
  by (simp add: demo_env_def finish_task_def load_state_def save_state_def acquire_def store_load_def
      store_save_def save_calls_def sync_state_directory_def no_faults_def log_event_def)

lemma demo_env_simps:
  "en_inspect (demo_env f) l s = Inr (img (case s of Backend \<Rightarrow> ''b'' | Web \<Rightarrow> ''w''))"
  "en_alias (demo_env f) l s i t = (img (case s of Backend \<Rightarrow> ''b'' | Web \<Rightarrow> ''w''), None)"
  "en_backup (demo_env f) l t = (''dump'', None)" "en_call (demo_env f) l = f" "en_now (demo_env f) l = 105"
  "en_clock (demo_env f) l = 0" "en_sleep (demo_env f) l = None" "en_cancelled (demo_env f) l = None"
  by (simp_all add: demo_env_def)

lemma good_run:
  "\<exists>w1. run 1 (demo_env (\<lambda>c. None)) 0 2 demo_update demo_world = Some w1 \<and>
     (\<exists>u. Stored u True \<in> set (wd_log w1) \<and> ut_stage u = StageSucceeded) \<and>
     Called (DeployTarget Backend (ck_target demo_checked) ''id'') True \<in> set (wd_log w1) \<and>
     (\<exists>i. Called (RemoveOldImage Backend i) True \<in> set (wd_log w1))"
  by (simp add: demo_world_def run_def upgrade_steps_def perform_def demo_save demo_finish demo_env_simps called_def
   call_def log_event_def error_of_def stabilize_def pause_def stable_wait_def resume_cleanup_def finished_task_def
   numeral_2_eq_2 Let_def demo_update_def new_task_def ex_disj_distrib conj_disj_distribR)

section \<open>Order of the upgrade\<close>

text \<open>C15: Nothing is switched before it can be undone: in every run, in every environment, a service
is deployed only with the task's own target and only after both running images were inspected,
both have a rollback alias, the database backup exists and both target images are pulled.\<close>

theorem prepared_before_switch:
  assumes "run fuel env window interval t w = Some w1" and "wd_log w = []"
    and "wd_log w1 = later @ Called (DeployTarget s p i) ok # earlier"
  shows "p = ut_target t \<and> i = ut_id t \<and> prepared i p earlier"
proof -
  have "orderly (ut_id t) (ut_target t) (later @ Called (DeployTarget s p i) ok # earlier)"
    using run_orderly [OF assms(1,2)] assms(3) by simp
  from orderly_split [OF this] show ?thesis by (auto simp: permitted_def)
qed

lemma demo_world_log: "wd_log demo_world = []"
  by (simp add: demo_world_def)

theorem prepared_before_switch_witness:
  "\<exists>earlier. prepared ''id'' (ck_target demo_checked) earlier \<and>
     (\<exists>w1 later. run 1 (demo_env (\<lambda>c. None)) 0 2 demo_update demo_world = Some w1 \<and>
        wd_log w1 = later @ Called (DeployTarget Backend (ck_target demo_checked) ''id'') True # earlier)"
proof -
  from good_run obtain w1 where run: "run 1 (demo_env (\<lambda>c. None)) 0 2 demo_update demo_world = Some w1"
    and "Called (DeployTarget Backend (ck_target demo_checked) ''id'') True \<in> set (wd_log w1)" by blast
  then obtain later earlier where
    split: "wd_log w1 = later @ Called (DeployTarget Backend (ck_target demo_checked) ''id'') True # earlier"
    by (meson split_list)
  from prepared_before_switch [OF run demo_world_log split] run split show ?thesis by blast
qed

text \<open>The old image outlives every doubt: it is removed only when the latest health check of both
services, with no deployment since, was positive, and only after the cleaning stage was saved.\<close>

theorem old_image_removed_last:
  assumes "run fuel env window interval t w = Some w1" and "wd_log w = []"
    and "wd_log w1 = later @ Called (RemoveOldImage s im) ok # earlier"
  shows "healthy_now Backend earlier \<and> healthy_now Web earlier \<and> last_stored earlier = Some (Cleaning, True)"
proof -
  have "orderly (ut_id t) (ut_target t) (later @ Called (RemoveOldImage s im) ok # earlier)"
    using run_orderly [OF assms(1,2)] assms(3) by simp
  from orderly_split [OF this] show ?thesis by (auto simp: permitted_def announced_def)
qed

theorem old_image_removed_last_witness:
  "\<exists>earlier i w1 later. healthy_now Backend earlier \<and> healthy_now Web earlier \<and>
     run 1 (demo_env (\<lambda>c. None)) 0 2 demo_update demo_world = Some w1 \<and>
     wd_log w1 = later @ Called (RemoveOldImage Backend i) True # earlier"
proof -
  from good_run obtain w1 i where run: "run 1 (demo_env (\<lambda>c. None)) 0 2 demo_update demo_world = Some w1"
    and "Called (RemoveOldImage Backend i) True \<in> set (wd_log w1)" by blast
  then obtain later earlier where split: "wd_log w1 = later @ Called (RemoveOldImage Backend i) True # earlier"
    by (meson split_list)
  from old_image_removed_last [OF run demo_world_log split] run split show ?thesis by blast
qed

text \<open>Write-ahead: whenever the manager calls the platform, the last thing it did to the state
file was to save, successfully, a stage that announces this call; a crash at any moment therefore
leaves a stage on disk from which the recovery knows what may have been done.\<close>

theorem stage_saved_before_call:
  assumes "run fuel env window interval t w = Some w1" and "wd_log w = []"
    and "wd_log w1 = later @ Called c ok # earlier"
  shows "\<exists>st. last_stored earlier = Some (st, True) \<and> announces st c"
proof -
  have "orderly (ut_id t) (ut_target t) (later @ Called c ok # earlier)"
    using run_orderly [OF assms(1,2)] assms(3) by simp
  from orderly_split [OF this] show ?thesis by (auto simp: permitted_def announced_def)
qed

theorem stage_saved_before_call_witness:
  "\<exists>earlier. last_stored earlier = Some (SwitchingBackend, True)"
proof -
  from good_run obtain w1 where run: "run 1 (demo_env (\<lambda>c. None)) 0 2 demo_update demo_world = Some w1"
    and "Called (DeployTarget Backend (ck_target demo_checked) ''id'') True \<in> set (wd_log w1)" by blast
  then obtain later earlier where
    split: "wd_log w1 = later @ Called (DeployTarget Backend (ck_target demo_checked) ''id'') True # earlier"
    by (meson split_list)
  from stage_saved_before_call [OF run demo_world_log split] show ?thesis by auto
qed

text \<open>C17: The recorded outcome is the truth and the last word: a run that records success has
prepared, deployed and found healthy both services; one that records a rolled-back failure has just
redeployed the original images and found both healthy; one that records a plain failure has not
deployed anything; and after a final record nothing is called or saved any more.\<close>

theorem outcome_truthful:
  assumes "run fuel env window interval t w = Some w1" and "wd_log w = []"
    and "wd_log w1 = later @ Stored u ok # earlier" and "stage_terminal (ut_stage u)"
  shows "later = [] \<and>
    (ut_stage u = StageSucceeded \<longrightarrow> healthy_now Backend earlier \<and> healthy_now Web earlier \<and>
       prepared (ut_id t) (ut_target t) earlier \<and>
       succeeded (ActDeploy Backend) (ut_id t) (ut_target t) earlier \<and>
       succeeded (ActDeploy Web) (ut_id t) (ut_target t) earlier) \<and>
    (ut_stage u = StageFailed \<longrightarrow> (if ut_rolled_back u then restored u earlier else untouched earlier))"
proof -
  have ord: "orderly (ut_id t) (ut_target t) (wd_log w1)" using run_orderly [OF assms(1,2)] .
  have "later = []"
  proof (cases later)
    case (Cons e more)
    then have "permitted (ut_id t) (ut_target t) e (more @ Stored u ok # earlier)"
      using ord assms(3) by simp
    then have "\<forall>v b. Stored v b \<in> set (more @ Stored u ok # earlier) \<longrightarrow> \<not> stage_terminal (ut_stage v)"
      unfolding permitted_def by (rule conjunct1)
    then show ?thesis using assms(4) by auto
  qed
  moreover have "permitted (ut_id t) (ut_target t) (Stored u ok) earlier"
    using orderly_split [of _ _ later] ord assms(3) by simp
  ultimately show ?thesis by (simp add: permitted_def truthful_def)
qed

theorem outcome_truthful_witness:
  "\<exists>u earlier w1. run 1 (demo_env (\<lambda>c. None)) 0 2 demo_update demo_world = Some w1 \<and>
     wd_log w1 = Stored u True # earlier \<and> ut_stage u = StageSucceeded \<and> healthy_now Web earlier"
proof -
  from good_run obtain w1 u where run: "run 1 (demo_env (\<lambda>c. None)) 0 2 demo_update demo_world = Some w1"
    and u: "Stored u True \<in> set (wd_log w1)" "ut_stage u = StageSucceeded" by blast
  then obtain later earlier where split: "wd_log w1 = later @ Stored u True # earlier" by (meson split_list)
  have "stage_terminal (ut_stage u)" using u(2) by simp
  from outcome_truthful [OF run demo_world_log split this] u(2) run split show ?thesis by auto
qed

section \<open>The stability loop\<close>

text \<open>A clock that never runs backwards and that a completed sleep moves on.\<close>

definition steady :: "env \<Rightarrow> bool" where
  "steady env \<longleftrightarrow> (\<forall>log e. en_clock env log \<le> en_clock env (e # log)) \<and>
     (\<forall>log d. en_clock env log + d \<le> en_clock env (Slept d True # log))"

lemma clock_mono: "steady env \<Longrightarrow> en_clock env log \<le> en_clock env (evs @ log)"
proof (induction evs)
  case (Cons e evs)
  have "en_clock env (evs @ log) \<le> en_clock env (e # evs @ log)"
    using Cons.prems unfolding steady_def by blast
  with Cons show ?case by simp
qed simp

lemma perform_grows:
  assumes "perform env st a t w = (r, t1, w1)"
  shows "\<exists>evs. wd_log w1 = evs @ wd_log w"
  using assms by (cases rule: perform_log) auto

lemma pause_clock:
  assumes "steady env" and "pause env d w = (None, w1)"
  shows "en_clock env (wd_log w) + max 0 d \<le> en_clock env (wd_log w1)"
proof (cases "0 < d")
  case True
  then have "wd_log w1 = Slept d True # wd_log w"
    using assms(2) by (auto simp: pause_def log_event_def Let_def)
  then show ?thesis using assms(1) True by (simp add: steady_def)
next
  case False
  then show ?thesis using assms(2) by (simp add: pause_def)
qed

lemma stabilize_from_terminates:
  assumes "steady env" and "0 < interval"
    and "nat ((deadline - en_clock env (wd_log w)) div interval) < n"
  shows "\<exists>r. stabilize_from n env interval deadline t w = Some r"
  using assms(3)
proof (induction n arbitrary: t w)
  case (Suc n)
  let ?rem = "deadline - en_clock env (wd_log w)"
  obtain r1 w1 where p1: "pause env (stable_wait env interval deadline w) w = (r1, w1)" by fastforce
  obtain r2 t2 w2 where p2: "perform env Stabilizing (ActHealthy Backend) t w1 = (r2, t2, w2)" by (metis prod_cases3)
  obtain r3 t3 w3 where p3: "perform env Stabilizing (ActHealthy Web) t2 w2 = (r3, t3, w3)" by (metis prod_cases3)
  have later: "en_clock env (wd_log w1) \<le> en_clock env (wd_log w3)"
    using perform_grows [OF p2] perform_grows [OF p3] clock_mono [OF assms(1)] by (metis append_assoc)
  show ?case
  proof (cases "r1 = None \<and> r2 = None \<and> r3 = None \<and> \<not> deadline \<le> en_clock env (wd_log w3)")
    case True
    have wait: "en_clock env (wd_log w) + max 0 (min ?rem interval) \<le> en_clock env (wd_log w1)"
      using pause_clock [OF assms(1)] p1 True by (simp add: stable_wait_def Let_def min_def split: if_splits)
    have "interval \<le> ?rem" using wait later True by (simp add: min_def split: if_splits)
    then have "deadline - en_clock env (wd_log w3) \<le> ?rem - interval"
      using wait later assms(2) by (simp add: min_def split: if_splits)
    then have "(deadline - en_clock env (wd_log w3)) div interval \<le> (?rem - interval) div interval"
      using assms(2) by (intro zdiv_mono1) simp_all
    also have "(?rem - interval) div interval = ?rem div interval - 1"
      using assms(2) div_mult_self1 [of interval ?rem "-1"] by simp
    finally have less: "(deadline - en_clock env (wd_log w3)) div interval \<le> ?rem div interval - 1" .
    have "interval div interval \<le> ?rem div interval"
      using \<open>interval \<le> ?rem\<close> assms(2) by (intro zdiv_mono1) simp_all
    then have "1 \<le> ?rem div interval" using assms(2) by simp
    then have "nat ((deadline - en_clock env (wd_log w3)) div interval) < n"
      using Suc.prems less by linarith
    then show ?thesis using Suc.IH [of w3 t3] p1 p2 p3 True by simp
  next
    case False
    then show ?thesis using p1 p2 p3 by (auto split: option.split)
  qed
qed simp

lemma stabilize_from_window:
  assumes "stabilize_from n env interval deadline t w = Some (None, t1, w1)"
  shows "deadline \<le> en_clock env (wd_log w1)"
  using assms
proof (induction n arbitrary: t w)
  case (Suc n)
  then show ?case by (auto split: prod.splits option.splits if_splits)
qed simp

text \<open>The stability loop ends: with a clock that a sleep moves forward and a positive interval,
window divided by interval, plus two, rounds are always enough, so the upgrade itself returns; and
when the loop ends well, the clock has passed the whole window.\<close>

theorem stability_loop_terminates:
  assumes "steady env" and "0 < interval" and "nat (window div interval) + 2 \<le> fuel"
  shows "(\<exists>w1. run fuel env window interval t w = Some w1) \<and>
    (\<forall>u v t1 v1. stabilize fuel env window interval u v = Some (None, t1, v1) \<longrightarrow>
      en_clock env (wd_log v) + window \<le> en_clock env (wd_log v1))"
proof (intro conjI allI impI)
  have ends: "\<exists>r. stabilize fuel env window interval t w = Some r" for t w
    unfolding stabilize_def using assms(3) by (intro stabilize_from_terminates [OF assms(1,2)]) simp
  obtain q w2 where steps: "run_steps env upgrade_steps t w = (q, w2)" by fastforce
  show "\<exists>w1. run fuel env window interval t w = Some w1"
  proof (cases q)
    case (Some t2)
    obtain r where "stabilize fuel env window interval t2 w2 = Some r" using ends by blast
    then show ?thesis using steps Some by (cases r) (auto simp: run_def split: option.split)
  qed (use steps in \<open>simp add: run_def\<close>)
next
  fix u v t1 v1 assume "stabilize fuel env window interval u v = Some (None, t1, v1)"
  then show "en_clock env (wd_log v) + window \<le> en_clock env (wd_log v1)"
    unfolding stabilize_def by (rule stabilize_from_window)
qed

text \<open>The real clock of a run: it shows how long the manager has slept.\<close>

fun slept :: "event list \<Rightarrow> time" where
  "slept [] = 0"
| "slept (Slept d ok # log) = max 0 d + slept log"
| "slept (_ # log) = slept log"

theorem stability_loop_terminates_witness:
  "\<exists>w1. run 17 ((demo_env (\<lambda>c. None))\<lparr>en_clock := slept\<rparr>) (30 * second) (2 * second) demo_update demo_world = Some w1"
proof -
  have "slept log \<le> slept (e # log)" for e log by (cases e) simp_all
  then have "steady ((demo_env (\<lambda>c. None))\<lparr>en_clock := slept\<rparr>)" by (simp add: steady_def)
  from stability_loop_terminates [OF this, of "2 * second" "30 * second" 17] show ?thesis by simp
qed

lemma terminal_is_last:
  assumes "orderly i p log" and "Stored u ok \<in> set log" and "stage_terminal (ut_stage u)"
  shows "\<exists>rest. log = Stored u ok # rest"
proof -
  from assms(2) obtain later earlier where split: "log = later @ Stored u ok # earlier" by (meson split_list)
  show ?thesis
  proof (cases later)
    case (Cons e rest)
    then have "permitted i p e (rest @ Stored u ok # earlier)" using assms(1) split by simp
    then have "\<forall>v b. Stored v b \<in> set (rest @ Stored u ok # earlier) \<longrightarrow> \<not> stage_terminal (ut_stage v)"
      unfolding permitted_def by (rule conjunct1)
    then show ?thesis using assms(3) by auto
  qed (use split in simp)
qed

section \<open>The file says what the log says\<close>

text \<open>Assumptions about the file system: a state always fits the limit, and opening an existing
file does not claim that there is none.\<close>

definition fits :: "env \<Rightarrow> bool" where
  "fits env \<longleftrightarrow> (\<forall>s. en_size env s \<le> max_state_bytes)"

definition honest :: "env \<Rightarrow> bool" where
  "honest env \<longleftrightarrow> (\<forall>log e. en_fs env log ''open'' = Some e \<longrightarrow> \<not> err_is ErrNotExist e)"

lemma load_state_read:
  assumes "honest env" and "load_state env w = Inr s"
  shows "read_state (wd_file w) = Some s"
  using assms unfolding honest_def load_state_def read_state_def store_load_def no_faults_def
  by (auto split: option.splits if_splits list.splits sum.splits)

lemma save_state_read:
  assumes "fits env" and "save_state env s w = (None, w1)"
  shows "read_state (wd_file w1) = Some s"
proof -
  obtain g where g: "store_save (en_size env) (en_fs env (wd_log w)) (wd_file w) s = (None, g)" "wd_file w1 = g"
    using assms(2) by (auto simp: save_state_def split: prod.splits)
  have "en_size env s \<le> max_state_bytes" using assms(1) by (simp add: fits_def)
  from file_store.load_saved [OF g(1) this] g(2) show ?thesis by simp
qed

lemma save_task_read:
  assumes "fits env" and "save_task env t w = (None, w1)"
  shows "\<exists>s. read_state (wd_file w1) = Some s \<and> ps_task s = Some t"
proof -
  from assms(2) obtain s w2 where s: "save_state env (s\<lparr>ps_task := Some t\<rparr>) (acquire env w) = (None, w2)"
    "w1 = log_event (Stored t True) w2"
    by (auto simp: save_task_def Let_def split: sum.splits option.splits if_splits prod.splits)
  from save_state_read [OF assms(1) s(1)] s(2) show ?thesis by (simp add: log_event_def)
qed

lemma finish_task_read:
  assumes "fits env" and "finish_task env t w = (None, w1)"
  shows "\<exists>s c. read_state (wd_file w1) = Some s \<and> ps_task s = Some t \<and> ps_last_check s = Some c \<and>
    ck_current c = ut_target t \<and> ck_available c = (0 < sem_compare (en_semver env)
      (im_version (ip_backend (ck_target c))) (im_version (ip_backend (ut_target t))))"
proof -
  from assms(2) obtain s c w2 where s: "save_state env (s\<lparr>ps_task := Some t, ps_last_check := Some (c\<lparr>ck_current := ut_target t,
       ck_available := 0 < sem_compare (en_semver env) (im_version (ip_backend (ck_target c)))
         (im_version (ip_backend (ut_target t)))\<rparr>)\<rparr>) (acquire env w) = (None, w2)"
    "w1 = log_event (Stored t True) w2"
    by (auto simp: finish_task_def Let_def split: sum.splits option.splits if_splits prod.splits)
  from save_state_read [OF assms(1) s(1)] s(2) show ?thesis by (auto simp: log_event_def)
qed

definition filed :: "env \<Rightarrow> world \<Rightarrow> bool" where
  "filed env w \<longleftrightarrow> (\<forall>u log. wd_log w = Stored u True # log \<longrightarrow>
     (\<exists>s. read_state (wd_file w) = Some s \<and> ps_task s = Some u \<and>
        (ut_stage u = StageSucceeded \<longrightarrow> (\<exists>c. ps_last_check s = Some c \<and> ck_current c = ut_target u \<and>
           ck_available c = (0 < sem_compare (en_semver env) (im_version (ip_backend (ck_target c)))
             (im_version (ip_backend (ut_target u))))))))"

lemma filed_called: "wd_log w = Called c ok # log \<Longrightarrow> filed env w"
  by (simp add: filed_def)

lemma filed_slept: "wd_log w = Slept d ok # log \<Longrightarrow> filed env w"
  by (simp add: filed_def)

lemma filed_save:
  assumes "fits env" and "save_task env t w = (r, w1)" and "ut_stage t \<noteq> StageSucceeded"
  shows "filed env w1"
  using save_task_read [OF assms(1), of t w w1] save_task_log [OF assms(2)] assms(2,3)
  by (auto simp: filed_def)

lemma filed_finish:
  assumes "fits env" and "finish_task env t w = (r, w1)"
  shows "filed env w1"
  using finish_task_read [OF assms(1), of t w w1] finish_task_log [OF assms(2)] assms(2)
  by (auto simp: filed_def)

lemma filed_perform:
  assumes "fits env" and "perform env st a t w = (r, t1, w1)" and "st \<noteq> StageSucceeded"
  shows "filed env w1"
proof -
  obtain r0 w0 where s0: "save_task env (t\<lparr>ut_stage := st\<rparr>) w = (r0, w0)" by fastforce
  obtain r1 t2 w2 where a: "act env a (t\<lparr>ut_stage := st\<rparr>) w0 = (r1, t2, w2)" by (metis prod_cases3)
  obtain r2 w3 where s2: "save_task env t2 w2 = (r2, w3)" by fastforce
  have "filed env w0" using filed_save [OF assms(1) s0] assms(3) by simp
  moreover have "filed env w2" using act_log(1) [OF a] filed_called by blast
  moreover have "filed env w3" using filed_save [OF assms(1) s2] act_log(4) [OF a] assms(3) by simp
  ultimately show ?thesis using assms(2) s0 a s2 by (auto simp: perform_def Let_def split: option.splits)
qed

lemma filed_mark:
  "fits env \<Longrightarrow> filed env (snd (mark_failed env t code b w))"
  "fits env \<Longrightarrow> filed env (snd (mark_manual_intervention env t code w))"
  using filed_save [of env _ w _ _]
  by (simp_all add: mark_failed_def mark_manual_intervention_def filed_save prod_eq_iff)

lemma filed_rollback:
  assumes "fits env"
  shows "filed env (snd (rollback env t code w))"
proof -
  let ?t = "t\<lparr>ut_stage := RollingBack, ut_error_code := code, ut_error_message := []\<rparr>"
  obtain r0 w0 where s0: "save_task env ?t w = (r0, w0)" by fastforce
  obtain r2 w2 where rb: "rollback_services env ?t [Backend, Web] None w0 = (r2, w2)" by fastforce
  have "filed env w0" using filed_save [OF assms s0] by simp
  moreover have "filed env w2" using rb by (rule rollback_services_log) (auto intro: filed_called)
  ultimately show ?thesis using s0 rb filed_mark [OF assms]
    by (auto simp: rollback_def Let_def split: option.splits)
qed

lemma filed_handle:
  assumes "fits env" and "filed env w"
  shows "filed env (handle_failure env t code rb w)"
  using assms filed_mark filed_rollback by (simp add: handle_failure_def)

lemma filed_run_steps:
  assumes "fits env" and "run_steps env ss t w = (r, w1)" and "filed env w" and "set ss \<subseteq> set upgrade_steps"
  shows "filed env w1"
  using assms(2-4)
proof (induction ss arbitrary: t w)
  case (Cons s ss)
  obtain q t2 w2 where p: "perform env (us_stage s) (us_action s) t w = (q, t2, w2)" by (metis prod_cases3)
  have "us_stage s \<noteq> StageSucceeded" using Cons.prems(3) by (auto simp: upgrade_steps_def)
  from filed_perform [OF assms(1) p this] have "filed env w2" .
  then show ?case using Cons p filed_handle [OF assms(1)] by (auto split: option.splits)
qed simp

lemma filed_stabilize:
  assumes "fits env" and "stabilize_from n env interval deadline t w = Some (r, t1, w1)" and "filed env w"
  shows "filed env w1"
  using assms(2,3)
proof (induction n arbitrary: t w)
  case (Suc n)
  obtain r1 wp where p1: "pause env (stable_wait env interval deadline w) w = (r1, wp)" by fastforce
  obtain r2 t2 w2 where p2: "perform env Stabilizing (ActHealthy Backend) t wp = (r2, t2, w2)" by (metis prod_cases3)
  obtain r3 t3 w3 where p3: "perform env Stabilizing (ActHealthy Web) t2 w2 = (r3, t3, w3)" by (metis prod_cases3)
  have "filed env wp" using p1 Suc.prems(2)
    by (auto simp: pause_def log_event_def Let_def filed_def split: if_splits)
  moreover have "filed env w2" using filed_perform [OF assms(1) p2] by simp
  moreover have "filed env w3" using filed_perform [OF assms(1) p3] by simp
  ultimately show ?case using Suc p1 p2 p3 by (auto split: option.splits if_splits)
qed simp

lemma filed_clean:
  assumes "fits env" and "clean_services env ss t pending w = (r, t1, w1)" and "filed env w"
  shows "filed env w1"
  using assms(2,3)
proof (induction ss arbitrary: t pending w)
  case (Cons s ss)
  let ?t = "t\<lparr>ut_stage := Cleaning\<rparr>"
  obtain r0 w0 where s0: "save_task env ?t w = (r0, w0)" by fastforce
  obtain q w2 where c: "call env (RemoveOldImage s (pair_image s (ut_original t))) w0 = (q, w2)" by fastforce
  obtain r3 w3 where s3: "save_task env ?t w2 = (r3, w3)" by fastforce
  have "filed env w0" "filed env w3" using filed_save [OF assms(1) s0] filed_save [OF assms(1) s3] by simp_all
  then show ?case using Cons s0 c s3 by (auto simp: Let_def split: option.splits)
qed simp

lemma filed_resume_cleanup:
  assumes "fits env" and "filed env w"
  shows "filed env (snd (resume_cleanup env t w))"
proof -
  obtain q t2 w2 where c: "clean_services env [Backend, Web] t False w = (q, t2, w2)" by (metis prod_cases3)
  have "filed env w2" using filed_clean [OF assms(1) c assms(2)] .
  moreover have "filed env (snd (finish_task env u v))" for u v
    using filed_finish [OF assms(1), of u v] by (simp add: prod_eq_iff)
  ultimately show ?thesis using c
    by (cases q) (simp_all add: resume_cleanup_def del: clean_services.simps)
qed

text \<open>What the log records as saved last is what a reader finds in the state file when the run is
over: the final task, and after a success also a last check whose current images are the target
and which offers an update only if the published version is newer than the one just installed.\<close>

theorem final_state_persisted:
  assumes "run fuel env window interval t w = Some w1" and "wd_log w = []" and "fits env"
    and "wd_log w1 = Stored u True # log"
  shows "\<exists>s. read_state (wd_file w1) = Some s \<and> ps_task s = Some u \<and>
    (ut_stage u = StageSucceeded \<longrightarrow> (\<exists>c. ps_last_check s = Some c \<and> ck_current c = ut_target u \<and>
       ck_available c = (0 < sem_compare (en_semver env) (im_version (ip_backend (ck_target c)))
         (im_version (ip_backend (ut_target u))))))"
proof -
  have start: "filed env w" using assms(2) by (simp add: filed_def)
  obtain q w2 where steps: "run_steps env upgrade_steps t w = (q, w2)" by fastforce
  have f2: "filed env w2" using filed_run_steps [OF assms(3) steps start] by simp
  have "filed env w1"
  proof (cases q)
    case None
    then show ?thesis using assms(1) steps f2 by (simp add: run_def)
  next
    case (Some t2)
    then obtain r t3 w3 where st: "stabilize fuel env window interval t2 w2 = Some (r, t3, w3)"
      using assms(1) steps by (auto simp: run_def split: option.splits prod.splits)
    have f3: "filed env w3" using filed_stabilize [OF assms(3) st [unfolded stabilize_def] f2] .
    then show ?thesis using assms(1,3) steps Some st filed_handle filed_resume_cleanup
      by (auto simp: run_def split: option.splits)
  qed
  then show ?thesis using assms(4) by (simp add: filed_def)
qed

lemma demo_fits: "fits (demo_env f)"
  by (simp add: fits_def demo_env_def)

theorem final_state_persisted_witness:
  "\<exists>w1 s u. run 1 (demo_env (\<lambda>c. None)) 0 2 demo_update demo_world = Some w1 \<and>
     read_state (wd_file w1) = Some s \<and> ps_task s = Some u \<and> ut_stage u = StageSucceeded"
proof -
  from good_run obtain w1 u where run: "run 1 (demo_env (\<lambda>c. None)) 0 2 demo_update demo_world = Some w1"
    and u: "Stored u True \<in> set (wd_log w1)" "ut_stage u = StageSucceeded" by blast
  have "stage_terminal (ut_stage u)" using u(2) by simp
  with terminal_is_last [OF run_orderly [OF run demo_world_log] u(1)] obtain log where "wd_log w1 = Stored u True # log" by blast
  from final_state_persisted [OF run demo_world_log demo_fits this] run u(2) show ?thesis by blast
qed

end
