(* ===== verification/SuRecovery.thy ===== *)
theory SuRecovery
  imports SuTheorems
begin

text \<open>
  The properties of starting, reporting and recovering upgrades: one task at a time, started only
  on a fresh check; a public view that shows fixed messages only; and a restart that settles
  whatever the previous process left behind.
\<close>

section \<open>Starting\<close>

lemma acquire_file:
  assumes "fits env" and "honest env" and "load_state env w = Inr s"
  shows "\<exists>s'. read_state (wd_file (acquire env w)) = Some s' \<and> ps_task s' = ps_task s"
proof (cases "en_other env (wd_log w)")
  case None
  then show ?thesis using load_state_read [OF assms(2,3)] by (simp add: acquire_def)
next
  case (Some c)
  obtain r g where g: "store_save (en_size env) (en_fs env (wd_log w)) (wd_file w) (s\<lparr>ps_last_check := Some c\<rparr>) = (r, g)"
    by fastforce
  have "wd_file (acquire env w) = g" using Some assms(3) g by (simp add: acquire_def save_state_def)
  moreover have "en_size env (s\<lparr>ps_last_check := Some c\<rparr>) \<le> max_state_bytes" using assms(1) by (simp add: fits_def)
  ultimately show ?thesis
    using file_store.save_either [OF g] load_state_read [OF assms(2,3)] by fastforce
qed

text \<open>An upgrade starts only when it may: if Start accepts, no task was running or waiting for
attention, the last check is not from the future and younger than its time to live, it found a
newer version, both target images have the requested version, and the new task with exactly the
checked images is what the file now holds.\<close>

theorem start_only_when_allowed:
  assumes "start_task env ttl new_id target w = (Inr t, w1)" and "fits env"
  shows "\<exists>s c. load_state env (acquire env w) = Inr s \<and> ps_last_check s = Some c \<and>
    (\<forall>old. ps_task s = Some old \<longrightarrow> \<not> blocking old) \<and> validate_version (en_semver env) target = None \<and>
    ck_checked_at c \<le> en_now env (wd_log w) \<and> en_now env (wd_log w) - ck_checked_at c < ttl \<and>
    ck_available c \<and> im_version (ip_backend (ck_target c)) = target \<and> im_version (ip_web (ck_target c)) = target \<and>
    t = new_task new_id c (en_now env (wd_log w)) \<and> read_state (wd_file w1) = Some (s\<lparr>ps_task := Some t\<rparr>)"
proof -
  from assms(1) obtain s c w2 where *: "load_state env (acquire env w) = Inr s" "ps_last_check s = Some c"
    "\<forall>old. ps_task s = Some old \<longrightarrow> \<not> blocking old" "validate_version (en_semver env) target = None"
    "ck_checked_at c \<le> en_now env (wd_log w)" "en_now env (wd_log w) - ck_checked_at c < ttl"
    "ck_available c" "im_version (ip_backend (ck_target c)) = target" "im_version (ip_web (ck_target c)) = target"
    "t = new_task new_id c (en_now env (wd_log w))"
    and save: "save_state env (s\<lparr>ps_task := Some t\<rparr>) (acquire env w) = (None, w2)" "w1 = log_event (Stored t True) w2"
    by (auto simp: start_task_def Let_def not_less not_le
        split: option.splits sum.splits if_splits prod.splits)
  have "read_state (wd_file w1) = Some (s\<lparr>ps_task := Some t\<rparr>)"
    using save_state_read [OF assms(2) save(1)] save(2) by (simp add: log_event_def)
  with * show ?thesis by blast
qed

definition idle_world :: world where
  "idle_world = \<lparr>wd_file = Some \<lparr>sf_size = 0, sf_documents =
     [Inr \<lparr>ps_last_check = Some demo_checked, ps_task = None\<rparr>]\<rparr>, wd_log = []\<rparr>"

lemma demo_starts_update:
  "\<exists>w1. start_task (demo_env f) 10 ''id'' ''v2'' idle_world = (Inr demo_update, w1)"
  by (simp add: start_task_def demo_env_def demo_semver_def validate_version_def acquire_def load_state_def
      store_load_def no_faults_def idle_world_def demo_checked_def demo_pair_of_def save_state_def store_save_def
      save_calls_def sync_state_directory_def demo_update_def Let_def)

theorem start_only_when_allowed_witness:
  "\<exists>w1 s. start_task (demo_env (\<lambda>c. None)) 10 ''id'' ''v2'' idle_world = (Inr demo_update, w1) \<and>
     read_state (wd_file w1) = Some s \<and> ps_task s = Some demo_update"
proof -
  from demo_starts_update obtain w1 where
    run: "start_task (demo_env (\<lambda>c. None)) 10 ''id'' ''v2'' idle_world = (Inr demo_update, w1)" by blast
  from start_only_when_allowed [OF run demo_fits] run show ?thesis by fastforce
qed

text \<open>C18: One upgrade at a time: while the stored task is not finished, or is waiting for manual
intervention, every attempt to start another one is refused as active (or fails to read the
state) and leaves the task as it is.\<close>

theorem single_active_task:
  assumes "load_state env w = Inr s" and "ps_task s = Some t" and "blocking t" and "fits env" and "honest env"
    and "validate_version (en_semver env) target = None"
  shows "(\<exists>e. fst (start_task env ttl new_id target w) = Inl e) \<and>
    (\<exists>s'. read_state (wd_file (snd (start_task env ttl new_id target w))) = Some s' \<and> ps_task s' = Some t) \<and>
    (\<forall>s'. load_state env (acquire env w) = Inr s' \<longrightarrow>
       fst (start_task env ttl new_id target w) = Inl (Sentinel ErrUpdateTaskActive))"
proof -
  obtain s' where s': "read_state (wd_file (acquire env w)) = Some s'" "ps_task s' = Some t"
    using acquire_file [OF assms(4,5,1)] assms(2) by auto
  show ?thesis
  proof (cases "load_state env (acquire env w)")
    case (Inl e)
    then show ?thesis using s' assms(6) by (simp add: start_task_def)
  next
    case (Inr s2)
    then have "s2 = s'" using load_state_read [OF assms(5) Inr] s'(1) by simp
    then show ?thesis using s' Inr assms(3,6) by (simp add: start_task_def)
  qed
qed

lemma demo_honest: "honest (demo_env f)"
  by (simp add: honest_def demo_env_def no_faults_def)

theorem single_active_task_witness:
  "\<exists>e. fst (start_task (demo_env (\<lambda>c. None)) 10 ''id2'' ''v2'' demo_world) = Inl e"
proof -
  have "load_state (demo_env (\<lambda>c. None)) demo_world = Inr \<lparr>ps_last_check = Some demo_checked, ps_task = Some demo_update\<rparr>"
    by (simp add: load_state_def store_load_def no_faults_def demo_env_def demo_world_def)
  moreover have "blocking demo_update" by (simp add: blocking_def demo_update_def new_task_def)
  moreover have "validate_version (en_semver (demo_env (\<lambda>c. None))) ''v2'' = None"
    by (simp add: validate_version_def demo_env_def demo_semver_def)
  ultimately show ?thesis using single_active_task [OF _ _ _ demo_fits demo_honest] by fastforce
qed

section \<open>The public view\<close>

text \<open>The public view tells nothing but versions and fixed messages: whatever the stored state,
an error code it shows is one of the twelve known ones with the message that belongs to it, and
an update is offered only when no task is running or waiting for attention.\<close>

theorem public_view_safe:
  "(\<forall>v. sw_task (status_of s) = Some v \<longrightarrow>
      tv_error_code v = [] \<and> tv_error_message v = [] \<or>
      tv_error_code v \<in> set public_error_codes \<and>
        (public_error_message (tv_error_code v) = Some (tv_error_message v) \<or>
         tv_error_code v = ''cleanup_pending'' \<and> tv_error_message v = cleanup_pending_message)) \<and>
   (sw_available (status_of s) \<longrightarrow> (\<forall>t. ps_task s = Some t \<longrightarrow> \<not> blocking t))"
proof -
  have view: "tv_error_code (task_to_view t) = [] \<and> tv_error_message (task_to_view t) = [] \<or>
      tv_error_code (task_to_view t) \<in> set public_error_codes \<and>
      public_error_message (tv_error_code (task_to_view t)) = Some (tv_error_message (task_to_view t))" for t
    by (simp add: task_to_view_def public_error_message_def public_error_codes_def Let_def)
  have public: "tv_error_code (public_task_view t) = [] \<and> tv_error_message (public_task_view t) = [] \<or>
      tv_error_code (public_task_view t) \<in> set public_error_codes \<and>
      (public_error_message (tv_error_code (public_task_view t)) = Some (tv_error_message (public_task_view t)) \<or>
       tv_error_code (public_task_view t) = ''cleanup_pending'' \<and>
       tv_error_message (public_task_view t) = cleanup_pending_message)" for t
    using view [of t] by (auto simp: public_task_view_def public_error_codes_def)
  show ?thesis
    using public by (auto simp: status_of_def Let_def split: option.split)
qed

theorem public_view_safe_witness:
  "sw_available (status_of \<lparr>ps_last_check = Some demo_checked, ps_task = Some demo_update\<rparr>) = False"
  using public_view_safe [of "\<lparr>ps_last_check = Some demo_checked, ps_task = Some demo_update\<rparr>"]
  by (auto simp: blocking_def demo_update_def new_task_def)

section \<open>Recovery\<close>

definition settled_file :: "world \<Rightarrow> bool" where
  "settled_file w \<longleftrightarrow> (\<exists>s. read_state (wd_file w) = Some s \<and>
     (\<forall>t. ps_task s = Some t \<longrightarrow> stage_terminal (ut_stage t)))"

lemma settled_mark:
  "fits env \<Longrightarrow> mark_failed env t code b w = (None, w1) \<Longrightarrow> settled_file w1"
  "fits env \<Longrightarrow> mark_manual_intervention env t code w = (None, w1) \<Longrightarrow> settled_file w1"
  unfolding mark_failed_def mark_manual_intervention_def settled_file_def
  by (drule (1) save_task_read; auto)+

lemma settled_rollback:
  assumes "fits env" and "rollback env t code w = (None, w1)"
  shows "settled_file w1"
  using assms(2) settled_mark [OF assms(1)]
  by (auto simp: rollback_def Let_def simp del: rollback_services.simps split: if_splits option.splits prod.splits)

lemma settled_cleanup:
  assumes "fits env" and "resume_cleanup env t w = (None, w1)"
  shows "settled_file w1"
proof -
  from assms(2) obtain t2 p w2 where "finish_task env (finished_task t2 p (en_now env (wd_log w2))) w2 = (None, w1)"
    by (auto simp: resume_cleanup_def simp del: clean_services.simps split: sum.splits prod.splits)
  from finish_task_read [OF assms(1) this] show ?thesis
    by (auto simp: settled_file_def finished_task_def)
qed

lemma settled_stage:
  assumes "fits env" and "recover_stage env t b v w = (None, w1)"
  shows "settled_file w1"
  using assms(2) settled_mark [OF assms(1)] settled_rollback [OF assms(1)] settled_cleanup [OF assms(1)]
  by (cases "ut_stage t") (auto simp: recover_stage_def simp del: wait_services.simps split: if_splits prod.splits option.splits)

lemma settled_failed:
  "fits env \<Longrightarrow> recovery_failed env t w = (None, w1) \<Longrightarrow> settled_file w1"
  using settled_mark(2) by (auto simp: recovery_failed_def split: option.splits)

text \<open>A restart settles every upgrade: when the recovery reports success, no task on disk is left in
the middle, whatever stage the previous process was in and whatever the platform answers.\<close>

lemma recovery_settled:
  assumes "recover env w = (None, w1)" and "fits env" and "honest env"
  shows "\<exists>s. read_state (wd_file w1) = Some s \<and> (\<forall>t. ps_task s = Some t \<longrightarrow> stage_terminal (ut_stage t))"
proof -
  from assms(1) obtain s where s: "load_state env (acquire env w) = Inr s"
    by (auto simp: recover_def Let_def split: sum.splits)
  show ?thesis
  proof (cases "\<forall>t. ps_task s = Some t \<longrightarrow> stage_terminal (ut_stage t)")
    case True
    then have "w1 = acquire env w" using assms(1) s by (auto simp: recover_def Let_def split: option.splits)
    then show ?thesis using load_state_read [OF assms(3) s] True by blast
  next
    case False
    then obtain t where t: "ps_task s = Some t" "\<not> stage_terminal (ut_stage t)" by blast
    obtain rb wb where b: "inspect_recovery env Backend t (acquire env w) = (rb, wb)" by fastforce
    obtain rv wv where v: "inspect_recovery env Web t wb = (rv, wv)" by fastforce
    from assms(1) s t b v have "recovery_failed env t wb = (None, w1) \<or> recovery_failed env t wv = (None, w1) \<or>
        (\<exists>x y. recover_stage env t x y wv = (None, w1))"
      by (auto simp: recover_def Let_def split: sum.splits)
    then have "settled_file w1" using settled_failed [OF assms(2)] settled_stage [OF assms(2)] by blast
    then show ?thesis unfolding settled_file_def .
  qed
qed

definition crashed_world :: world where
  "crashed_world = \<lparr>wd_file = Some \<lparr>sf_size = 0, sf_documents =
     [Inr \<lparr>ps_last_check = Some demo_checked, ps_task = Some (demo_update\<lparr>ut_stage := SwitchingWeb\<rparr>)\<rparr>]\<rparr>, wd_log = []\<rparr>"

lemma crash_recovers:
  "\<exists>w1 u log. recover (demo_env (\<lambda>c. None)) crashed_world = (None, w1) \<and> wd_log w1 = Stored u True # log \<and>
     ut_stage u = StageFailed \<and> ut_rolled_back u"
  by (simp add: recover_def crashed_world_def demo_update_def new_task_def demo_checked_def demo_pair_of_def img_def
      acquire_def load_state_def store_load_def demo_env_def no_faults_def inspect_recovery_def error_of_def called_def
      log_event_def recover_stage_def rollback_def has_rollback_images_def save_task_def save_state_def store_save_def
      save_calls_def sync_state_directory_def call_def first_error_def mark_failed_def Let_def)

text \<open>What the final record of a recovery may say, given the calls before it.\<close>

definition no_rollback :: "event list \<Rightarrow> bool" where
  "no_rollback log \<longleftrightarrow> (\<forall>s p i ok. Called (DeployRollback s p i) ok \<notin> set log)"

definition recovered :: "update_task \<Rightarrow> event list \<Rightarrow> bool" where
  "recovered u log \<longleftrightarrow> untouched log \<and>
     (ut_stage u = StageFailed \<longrightarrow> (if ut_rolled_back u then restored u log else no_rollback log)) \<and>
     (ut_stage u = StageSucceeded \<longrightarrow> healthy_now Backend log \<and> healthy_now Web log)"

definition final_record :: "world \<Rightarrow> update_task \<Rightarrow> event list \<Rightarrow> bool" where
  "final_record w u log \<longleftrightarrow> (\<exists>ok. wd_log w = Stored u ok # log) \<and> stage_terminal (ut_stage u)"

lemma recovered_mark_failed:
  assumes "mark_failed env t code b w = (r, w1)" and "untouched (wd_log w)" and "final_record w1 u log"
    and "if b then restored t (wd_log w) else no_rollback (wd_log w)"
  shows "recovered u log"
  using assms save_task_log [OF assms(1) [unfolded mark_failed_def]]
  by (auto simp: final_record_def recovered_def restored_def split: if_splits)

lemma recovered_mark_manual:
  assumes "mark_manual_intervention env t code w = (r, w1)" and "untouched (wd_log w)" and "final_record w1 u log"
  shows "recovered u log"
  using assms save_task_log [OF assms(1) [unfolded mark_manual_intervention_def]]
  by (auto simp: final_record_def recovered_def)

lemma recovered_rollback:
  assumes "rollback env t code w = (r, w1)" and "untouched (wd_log w)" and "final_record w1 u log"
  shows "recovered u log"
proof (cases "has_rollback_images (ut_original t)")
  case False
  then show ?thesis using assms recovered_mark_manual by (auto simp: rollback_def)
next
  case True
  let ?t = "t\<lparr>ut_stage := RollingBack, ut_error_code := code, ut_error_message := []\<rparr>"
  obtain r0 w0 where s0: "save_task env ?t w = (r0, w0)" by fastforce
  obtain r2 w2 where rb: "rollback_services env ?t [Backend, Web] None w0 = (r2, w2)" by fastforce
  obtain q3 w3 where m3: "mark_failed env ?t code True w2 = (q3, w3)" by fastforce
  obtain q4 w4 where m4: "mark_manual_intervention env ?t ''rollback_failed'' w2 = (q4, w4)" by fastforce
  note log0 = save_task_log [OF s0]
  from rb obtain a b c d where log2: "wd_log w2 =
      Called (WaitRollbackHealthy Web (ip_web (ut_original ?t)) (ut_id ?t)) d #
      Called (DeployRollback Web (ut_original ?t) (ut_id ?t)) c #
      Called (WaitRollbackHealthy Backend (ip_backend (ut_original ?t)) (ut_id ?t)) b #
      Called (DeployRollback Backend (ut_original ?t) (ut_id ?t)) a # wd_log w0"
    "r2 = None \<longleftrightarrow> a \<and> b \<and> c \<and> d" by (rule rollback_services_log)
  have u2: "untouched (wd_log w2)" using assms(2) log0 log2(1) by simp
  have ends: "\<not> final_record w0 u log" "\<not> final_record w2 u log"
    using log0 log2(1) by (auto simp: final_record_def)
  have "r2 = None \<Longrightarrow> restored ?t (wd_log w2)" using log2 by (simp add: restored_def)
  then show ?thesis
    using assms(1,3) True s0 rb m3 m4 ends recovered_mark_failed [OF m3 u2, of u log] recovered_mark_manual [OF m4 u2, of u log]
    by (auto simp: rollback_def Let_def simp del: rollback_services.simps split: option.splits)
qed

lemma clean_services_healthy:
  assumes "clean_services env ss t pending w = (r, t1, w1)" and "untouched (wd_log w)"
    and "healthy_now Backend (wd_log w)" and "healthy_now Web (wd_log w)"
  shows "untouched (wd_log w1) \<and> healthy_now Backend (wd_log w1) \<and> healthy_now Web (wd_log w1) \<and>
    (isl r \<longrightarrow> (\<exists>u log. wd_log w1 = Stored u False # log \<and> ut_stage u = Cleaning))"
  using assms
proof (induction ss arbitrary: t pending w)
  case (Cons s ss)
  let ?t = "t\<lparr>ut_stage := Cleaning\<rparr>"
  obtain r0 w0 where s0: "save_task env ?t w = (r0, w0)" by fastforce
  obtain q w2 where c: "call env (RemoveOldImage s (pair_image s (ut_original t))) w0 = (q, w2)" by fastforce
  obtain r3 w3 where s3: "save_task env ?t w2 = (r3, w3)" by fastforce
  note logs = save_task_log [OF s0] call_log [OF c] save_task_log [OF s3]
  show ?case
  proof (cases "r0 = None \<and> r3 = None")
    case True
    then have "clean_services env ss ?t (pending \<or> q \<noteq> None) w3 = (r, t1, w1)"
      using Cons.prems(1) s0 c s3 by (simp add: Let_def)
    then show ?thesis using Cons.IH Cons.prems(2-4) logs by simp
  next
    case False
    then show ?thesis using Cons.prems s0 c s3 logs by (auto simp: Let_def split: option.splits)
  qed
qed auto

lemma recovered_cleanup:
  assumes "resume_cleanup env t w = (r, w1)" and "untouched (wd_log w)"
    and "healthy_now Backend (wd_log w)" and "healthy_now Web (wd_log w)" and "final_record w1 u log"
  shows "recovered u log"
proof -
  obtain q t2 w2 where c: "clean_services env [Backend, Web] t False w = (q, t2, w2)" by (metis prod_cases3)
  note k = clean_services_healthy [OF c assms(2-4)]
  show ?thesis
  proof (cases q)
    case (Inl e)
    then have "w1 = w2" using assms(1) c by (simp add: resume_cleanup_def del: clean_services.simps)
    then show ?thesis using k Inl assms(5) by (auto simp: final_record_def)
  next
    case (Inr pending)
    then have "finish_task env (finished_task t2 pending (en_now env (wd_log w2))) w2 = (r, w1)"
      using assms(1) c by (simp add: resume_cleanup_def del: clean_services.simps)
    from finish_task_log [OF this] k assms(5) show ?thesis
      by (auto simp: final_record_def recovered_def finished_task_def)
  qed
qed

lemma inspect_recovery_log:
  assumes "inspect_recovery env s t w = (r, w1)" and "untouched (wd_log w) \<and> no_rollback (wd_log w)"
  shows "untouched (wd_log w1) \<and> no_rollback (wd_log w1) \<and> (\<forall>u log. \<not> final_record w1 u log)"
  using assms
  by (auto simp: inspect_recovery_def Let_def called_def log_event_def no_rollback_def final_record_def
      split: sum.splits if_splits)

lemma recovered_stage:
  assumes "recover_stage env t b v w = (r, w1)" and "untouched (wd_log w)" and "no_rollback (wd_log w)"
    and "final_record w1 u log"
  shows "recovered u log"
proof -
  obtain q wq where wq: "wait_services env [Backend, Web] w = (q, wq)" by fastforce
  obtain x1 y1 where x1: "call env (WaitHealthy Backend) w = (x1, y1)" by fastforce
  obtain x2 y2 where x2: "call env (WaitHealthy Web) y1 = (x2, y2)" by fastforce
  have q: "untouched (wd_log wq) \<and> (q = None \<longrightarrow> healthy_now Backend (wd_log wq) \<and> healthy_now Web (wd_log wq))"
    using wq x1 x2 call_log [OF x1] call_log [OF x2] assms(2) by (auto split: option.splits)
  show ?thesis
    using assms(1) recovered_mark_failed [of env t _ False w r w1 u log] recovered_mark_manual [of env t _ w r w1 u log]
      recovered_rollback [of env t _ w r w1 u log] recovered_rollback [of env t _ wq r w1 u log]
      recovered_cleanup [of env t wq r w1 u log] q wq assms(2-4)
    by (cases "ut_stage t")
      (auto simp: recover_stage_def simp del: wait_services.simps split: if_splits prod.splits option.splits)
qed

text \<open>C16: The recovery's verdict is the truth: it never deploys a target; what it records as rolled back
was just redeployed from the aliases and found healthy; what it records as failed without roll-back
was not touched at all; what it records as success was found healthy on both services.\<close>

theorem recovery_truthful:
  assumes "recover env w = (r, w1)" and "wd_log w = []" and "wd_log w1 = Stored u ok # log"
    and "stage_terminal (ut_stage u)"
  shows "untouched log \<and>
    (ut_stage u = StageFailed \<longrightarrow> (if ut_rolled_back u then restored u log else no_rollback log)) \<and>
    (ut_stage u = StageSucceeded \<longrightarrow> healthy_now Backend log \<and> healthy_now Web log)"
proof -
  have final: "final_record w1 u log" using assms(3,4) by (simp add: final_record_def)
  have quiet: "untouched (wd_log (acquire env w)) \<and> no_rollback (wd_log (acquire env w))"
    using assms(2) by (simp add: untouched_def no_rollback_def)
  have "w1 \<noteq> acquire env w" using assms(2,3) by (metis acquire_log list.distinct(1))
  then obtain s t where t: "load_state env (acquire env w) = Inr s" "ps_task s = Some t" "\<not> stage_terminal (ut_stage t)"
    using assms(1) by (auto simp: recover_def Let_def split: sum.splits option.splits if_splits)
  obtain rb wb where b: "inspect_recovery env Backend t (acquire env w) = (rb, wb)" by fastforce
  obtain rv wv where v: "inspect_recovery env Web t wb = (rv, wv)" by fastforce
  note qb = inspect_recovery_log [OF b quiet]
  then have qv: "untouched (wd_log wv) \<and> no_rollback (wd_log wv) \<and> (\<forall>u log. \<not> final_record wv u log)"
    by (intro inspect_recovery_log [OF v]) simp
  have failed: "recovered u log" if "recovery_failed env t x = (r, w1)" "untouched (wd_log x)"
      "\<not> final_record x u log" for x
    using that final recovered_mark_manual [of env t _ x r w1 u log]
    by (auto simp: recovery_failed_def split: option.splits)
  from assms(1) t b v have "recovery_failed env t wb = (r, w1) \<or> recovery_failed env t wv = (r, w1) \<or>
      (\<exists>x y. recover_stage env t x y wv = (r, w1))"
    by (auto simp: recover_def Let_def split: sum.splits)
  then have "recovered u log"
    using failed recovered_stage [OF _ _ _ final] qb qv by blast
  then show ?thesis by (simp add: recovered_def)
qed

theorem recovery_truthful_witness:
  "\<exists>w1 u log. recover (demo_env (\<lambda>c. None)) crashed_world = (None, w1) \<and> wd_log w1 = Stored u True # log \<and> restored u log"
proof -
  from crash_recovers obtain w1 u log where run: "recover (demo_env (\<lambda>c. None)) crashed_world = (None, w1)"
    and log: "wd_log w1 = Stored u True # log" and u: "ut_stage u = StageFailed" "ut_rolled_back u" by blast
  have "wd_log crashed_world = []" by (simp add: crashed_world_def)
  from recovery_truthful [OF run this log] u run log show ?thesis by auto
qed

end
