(* ===== verification/SuPlatform.thy ===== *)
theory SuPlatform
  imports SuTypes RegexMatch
begin

text \<open>
  \<^verbatim>\<open>internal/systemupdate/platform.go\<close>: the platform calls of the upgrade manager as commands to
  docker, docker compose and pg_dump.  A call appends what it does to a log, latest first.  The
  command runner (an interface of the source), the answers of docker and of the services' health
  pages, the YAML and UUID packages and the directory operations are the parameter \<open>machine\<close>; its
  answers may depend on the log.  Docker's JSON is seen through its decoder: the fields that the
  structs \<^verbatim>\<open>containerInspect\<close> and \<^verbatim>\<open>imageInspect\<close> select.
\<close>

section \<open>Commands, configuration, environment\<close>

record command =
  cmd_env :: "string list"
  cmd_name :: string
  cmd_args :: "string list"

datatype pevent = Ran command bool | Renamed string string | Probed string bool | Waited bool

record platform_config =
  pf_project :: string
  pf_compose_file :: string
  pf_env_file :: string
  pf_state_dir :: string
  pf_backup_dir :: string
  pf_backend_repo :: string
  pf_web_repo :: string
  pf_backend_health :: string
  pf_web_health :: string
  pf_health_timeout :: duration
  pf_has_client :: bool
  pf_pg_host :: string
  pf_pg_port :: string
  pf_pg_database :: string
  pf_pg_user :: string
  pf_pg_password :: string

record container_inspect =
  ct_image :: string
  ct_config_image :: string
  ct_labels :: "string \<Rightarrow> string"
  ct_health :: "string option"

record image_inspect =
  ii_id :: string
  ii_tags :: "string list"
  ii_digests :: "string list"
  ii_labels :: "string \<Rightarrow> string"

record compose_service =
  cs_image :: string
  cs_pull_policy :: string

record compose_override =
  co_backend :: compose_service
  co_web :: compose_service

record machine =
  mx_run :: "pevent list \<Rightarrow> command \<Rightarrow> string option"
  mx_file :: "pevent list \<Rightarrow> string \<Rightarrow> bool"
  mx_temp :: "pevent list \<Rightarrow> string"
  mx_size :: "pevent list \<Rightarrow> string \<Rightarrow> nat option"
  mx_stamp :: "pevent list \<Rightarrow> string"
  mx_join :: "string \<Rightarrow> string \<Rightarrow> string"
  mx_yaml :: "compose_override \<Rightarrow> string option"
  mx_containers :: "string \<Rightarrow> container_inspect list option"
  mx_images :: "string \<Rightarrow> image_inspect list option"
  mx_uuid :: "string \<Rightarrow> string option"
  mx_probe :: "pevent list \<Rightarrow> string \<Rightarrow> bool"
  mx_sleep :: "pevent list \<Rightarrow> bool"
  mx_semver :: semver

definition fixed_project_name :: string where "fixed_project_name = ''ace-it-center''"
definition fixed_backend_repository :: string where
  "fixed_backend_repository = ''ghcr.io/s450586793/ace-it-center-backend''"
definition fixed_web_repository :: string where
  "fixed_web_repository = ''ghcr.io/s450586793/ace-it-center-web''"
definition fixed_backend_health_url :: string where
  "fixed_backend_health_url = ''http://backend:8080/api/v1/health''"
definition fixed_web_health_url :: string where "fixed_web_health_url = ''http://web/api/v1/health''"

definition sha256_pattern :: regex where
  "sha256_pattern = RSeq (rlit ''sha256:'') (rtimes 64 (RChar is_lower_hex))"

definition is_sha256 :: "string \<Rightarrow> bool" where
  "is_sha256 s = matches sha256_pattern s"

lemma is_sha256_iff:
  "is_sha256 s \<longleftrightarrow> (\<exists>h. s = ''sha256:'' @ h \<and> length h = 64 \<and> list_all is_lower_hex h)"
proof -
  have "s \<in> language sha256_pattern \<longleftrightarrow>
      (\<exists>h. s = ''sha256:'' @ h \<and> h \<in> language (rtimes 64 (RChar is_lower_hex)))"
    unfolding sha256_pattern_def language.simps(5) language_rlit by blast
  then show ?thesis unfolding is_sha256_def matches_iff in_rtimes_char_iff by simp
qed

fun service_name :: "service \<Rightarrow> string" where
  "service_name Backend = ''backend''"
| "service_name Web = ''web''"

definition is_abs :: "string \<Rightarrow> bool" where
  "is_abs p = has_prefix p ''/''"

definition new_cli_platform :: "platform_config \<Rightarrow> platform_config res" where
  "new_cli_platform c =
     (if pf_project c \<noteq> fixed_project_name \<or> pf_backend_repo c \<noteq> fixed_backend_repository \<or>
         pf_web_repo c \<noteq> fixed_web_repository \<or> pf_backend_health c \<noteq> fixed_backend_health_url \<or>
         pf_web_health c \<noteq> fixed_web_health_url
      then Inl (Message ''platform configuration is not allowlisted'')
      else if \<not> list_all is_abs [pf_compose_file c, pf_env_file c, pf_state_dir c, pf_backup_dir c]
      then Inl (Message ''platform paths must be absolute'')
      else if pf_health_timeout c \<le> 0 \<or> \<not> pf_has_client c
      then Inl (Message ''platform health configuration is required'')
      else Inr c)"

fun repository_for :: "platform_config \<Rightarrow> service \<Rightarrow> string" where
  "repository_for c Backend = pf_backend_repo c"
| "repository_for c Web = pf_web_repo c"

definition reference_uses_repository :: "string \<Rightarrow> string \<Rightarrow> bool" where
  "reference_uses_repository ref repo \<longleftrightarrow> has_prefix ref (repo @ '':'') \<or> has_prefix ref (repo @ ''@'')"

definition version_label :: string where
  "version_label = ''org.opencontainers.image.version''"

definition docker :: "string list \<Rightarrow> command" where
  "docker args = \<lparr>cmd_env = [], cmd_name = ''docker'', cmd_args = args\<rparr>"

text \<open>The command lines of docker that the platform builds.\<close>

definition find_container_command :: "service \<Rightarrow> command" where
  "find_container_command s = docker [''ps'', ''-q'',
     ''--filter'', ''label=com.docker.compose.project='' @ fixed_project_name,
     ''--filter'', ''label=com.docker.compose.service='' @ service_name s]"

definition inspect_container_command :: "string \<Rightarrow> command" where
  "inspect_container_command cid = docker [''inspect'', cid]"

definition inspect_image_command :: "string \<Rightarrow> command" where
  "inspect_image_command ref = docker [''image'', ''inspect'', ref]"

definition pull_command :: "string \<Rightarrow> command" where
  "pull_command ref = docker [''pull'', ref]"

definition tag_command :: "string \<Rightarrow> string \<Rightarrow> command" where
  "tag_command i tag = docker [''image'', ''tag'', i, tag]"

definition find_users_command :: "string \<Rightarrow> command" where
  "find_users_command i = docker [''ps'', ''-aq'', ''--filter'', ''ancestor='' @ i]"

definition remove_command :: "string \<Rightarrow> command" where
  "remove_command ref = docker [''image'', ''rm'', ref]"

definition compose_command :: "platform_config \<Rightarrow> service \<Rightarrow> string \<Rightarrow> command" where
  "compose_command c s path = docker
     [''compose'', ''--project-name'', fixed_project_name,
      ''--env-file'', pf_env_file c, ''-f'', pf_compose_file c, ''-f'', path,
      ''up'', ''-d'', ''--no-deps'', ''--force-recreate'', service_name s]"

definition dump_command :: "platform_config \<Rightarrow> string \<Rightarrow> command" where
  "dump_command c temp =
     \<lparr>cmd_env = [''PGPASSWORD='' @ pf_pg_password c], cmd_name = ''pg_dump'',
      cmd_args = [''--format=custom'', ''--file'', temp, ''--host'', pf_pg_host c,
        ''--port'', pf_pg_port c, ''--username'', pf_pg_user c, ''--dbname'', pf_pg_database c]\<rparr>"

definition pin :: "string \<Rightarrow> string \<Rightarrow> string" where
  "pin repo digest = repo @ ''@'' @ digest"

definition run_command :: "machine \<Rightarrow> command \<Rightarrow> pevent list \<Rightarrow> string option \<times> pevent list" where
  "run_command m c log = (let r = mx_run m log c in (r, Ran c (r \<noteq> None) # log))"

section \<open>Validation\<close>

definition valid_version :: "machine \<Rightarrow> string \<Rightarrow> bool" where
  "valid_version m v \<longleftrightarrow> validate_version (mx_semver m) v = None"

definition validate_target_image :: "machine \<Rightarrow> image \<Rightarrow> string \<Rightarrow> go_error option" where
  "validate_target_image m i repo =
     (if im_repository i \<noteq> repo \<or> \<not> is_sha256 (im_digest i) \<or> \<not> valid_version m (im_version i)
      then Some (Message ''target image metadata is invalid'')
      else if im_id i \<noteq> [] \<and> \<not> is_sha256 (im_id i) then Some (Message ''target image ID is invalid'')
      else None)"

definition validate_target_pair :: "machine \<Rightarrow> image_pair \<Rightarrow> string \<Rightarrow> string \<Rightarrow> go_error option" where
  "validate_target_pair m p backend web =
     (case validate_target_image m (ip_backend p) backend of
        Some e \<Rightarrow> Some e
      | None \<Rightarrow>
        (case validate_target_image m (ip_web p) web of
           Some e \<Rightarrow> Some e
         | None \<Rightarrow> if im_version (ip_backend p) \<noteq> im_version (ip_web p)
                   then Some (Message ''target image versions do not match'') else None))"

definition rollback_alias :: "service \<Rightarrow> string \<Rightarrow> string" where
  "rollback_alias s task = fixed_project_name @ ''-rollback-'' @ service_name s @ '':'' @ task"

definition validate_rollback_identity ::
    "machine \<Rightarrow> platform_config \<Rightarrow> service \<Rightarrow> image \<Rightarrow> string \<Rightarrow> go_error option" where
  "validate_rollback_identity m c s expected task =
     (if mx_uuid m task \<noteq> Some task then Some (Message ''rollback task identity is invalid'')
      else if im_repository expected \<noteq> repository_for c s \<or> im_alias expected \<noteq> rollback_alias s task \<or>
              \<not> is_sha256 (im_id expected) \<or> \<not> is_sha256 (im_digest expected) \<or>
              \<not> valid_version m (im_version expected)
      then Some (Message ''rollback image identity is invalid'') else None)"

definition validate_cleanup_image :: "machine \<Rightarrow> image \<Rightarrow> service \<Rightarrow> string \<Rightarrow> go_error option" where
  "validate_cleanup_image m i s repo =
     (if im_repository i \<noteq> repo \<or> \<not> is_sha256 (im_id i) \<or> \<not> is_sha256 (im_digest i) \<or>
         \<not> valid_version m (im_version i)
      then Some (Message ''cleanup image metadata is invalid'')
      else let prefix = rollback_alias s []; task = trim_prefix (im_alias i) prefix
        in if \<not> has_prefix (im_alias i) prefix \<or> mx_uuid m task \<noteq> Some task
           then Some (Message ''cleanup rollback alias is invalid'') else None)"

section \<open>Reading docker's answers\<close>

fun image_digest :: "string \<Rightarrow> string list \<Rightarrow> string \<Rightarrow> string res" where
  "image_digest repo [] digest = Inr digest"
| "image_digest repo (ref # refs) digest =
     (let prefix = repo @ ''@'' in
      if \<not> has_prefix ref prefix then Inl (Message ''service image repository is unexpected'')
      else let candidate = trim_prefix ref prefix in
        if \<not> is_sha256 candidate \<or> digest \<noteq> [] \<and> digest \<noteq> candidate
        then Inl (Message ''service image digest is invalid'')
        else image_digest repo refs candidate)"

definition single :: "'a list option \<Rightarrow> 'a option" where
  "single xs = (case xs of Some [x] \<Rightarrow> Some x | _ \<Rightarrow> None)"

definition parse_image_inspect :: "machine \<Rightarrow> string \<Rightarrow> string \<Rightarrow> string \<Rightarrow> image res" where
  "parse_image_inspect m out repo expected_id =
     (case single (mx_images m out) of
        None \<Rightarrow> Inl (Message ''invalid service image metadata'')
      | Some i \<Rightarrow>
        if \<not> is_sha256 (ii_id i) \<or> expected_id \<noteq> [] \<and> ii_id i \<noteq> expected_id
        then Inl (Message ''service image ID is invalid'')
        else if \<not> list_all (\<lambda>tag. reference_uses_repository tag repo) (ii_tags i)
        then Inl (Message ''service image repository is unexpected'')
        else case image_digest repo (ii_digests i) [] of
            Inl e \<Rightarrow> Inl e
          | Inr digest \<Rightarrow>
            let version = ii_labels i version_label
            in if digest = [] \<or> \<not> valid_version m version
               then Inl (Message ''service image metadata is incomplete'')
               else Inr \<lparr>im_repository = repo, im_version = version, im_digest = digest, im_id = ii_id i,
                         im_alias = [], im_published = None\<rparr>)"

definition trusted_digest :: "string \<Rightarrow> string \<Rightarrow> bool" where
  "trusted_digest repo ref \<longleftrightarrow> has_prefix ref (repo @ ''@'') \<and> is_sha256 (trim_prefix ref (repo @ ''@''))"

definition parse_rollback_image_inspect :: "machine \<Rightarrow> string \<Rightarrow> image \<Rightarrow> string \<Rightarrow> image res" where
  "parse_rollback_image_inspect m out expected expected_id =
     (case single (mx_images m out) of
        None \<Rightarrow> Inl (Message ''invalid rollback image metadata'')
      | Some i \<Rightarrow>
        if expected_id \<noteq> im_id expected \<or> ii_id i \<noteq> im_id expected \<or> \<not> is_sha256 (ii_id i)
        then Inl (Message ''rollback image ID is invalid'')
        else if \<not> list_all (\<lambda>tag. tag = im_alias expected \<or> reference_uses_repository tag (im_repository expected)) (ii_tags i)
        then Inl (Message ''rollback image tag is unexpected'')
        else if im_alias expected \<notin> set (ii_tags i) then Inl (Message ''rollback image alias is missing'')
        else if \<not> list_all (trusted_digest (im_repository expected)) (ii_digests i)
        then Inl (Message ''rollback image digest is unexpected'')
        else if pin (im_repository expected) (im_digest expected) \<notin> set (ii_digests i) \<or>
                ii_labels i version_label \<noteq> im_version expected
        then Inl (Message ''rollback image metadata does not match persisted identity'')
        else Inr expected)"

text \<open>\<open>inspectServiceWith\<close>: the one container of the service, its reference and its image.\<close>

definition inspect_service_with ::
    "machine \<Rightarrow> service \<Rightarrow> (string \<Rightarrow> bool) \<Rightarrow> (string \<Rightarrow> string \<Rightarrow> image res) \<Rightarrow> pevent list \<Rightarrow>
     (image \<times> string) res \<times> pevent list" where
  "inspect_service_with m s valid_reference parse_image log =
     (case run_command m (find_container_command s) log of
        (None, log1) \<Rightarrow> (Inl (Message ''discover compose service''), log1)
      | (Some out, log1) \<Rightarrow>
        (case str_fields out of
           [cid] \<Rightarrow>
             (case run_command m (inspect_container_command cid) log1 of
                (None, log2) \<Rightarrow> (Inl (Message ''inspect compose container''), log2)
              | (Some out2, log2) \<Rightarrow>
                (case single (mx_containers m out2) of
                   None \<Rightarrow> (Inl (Message ''invalid compose container metadata''), log2)
                 | Some container \<Rightarrow>
                   if \<not> is_sha256 (ct_image container) \<or>
                      ct_labels container ''com.docker.compose.project'' \<noteq> fixed_project_name \<or>
                      ct_labels container ''com.docker.compose.service'' \<noteq> service_name s \<or>
                      \<not> valid_reference (ct_config_image container)
                   then (Inl (Message ''untrusted compose container metadata''), log2)
                   else case run_command m (inspect_image_command (ct_image container)) log2 of
                       (None, log3) \<Rightarrow> (Inl (Message ''inspect service image''), log3)
                     | (Some out3, log3) \<Rightarrow>
                       (case parse_image out3 (ct_image container) of
                          Inl e \<Rightarrow> (Inl e, log3)
                        | Inr i \<Rightarrow> (Inr (i, (case ct_health container of None \<Rightarrow> [] | Some h \<Rightarrow> h)), log3))))
         | _ \<Rightarrow> (Inl (Message ''compose service must have exactly one container''), log1)))"

definition inspect_service ::
    "machine \<Rightarrow> platform_config \<Rightarrow> service \<Rightarrow> pevent list \<Rightarrow> (image \<times> string) res \<times> pevent list" where
  "inspect_service m c s =
     (let repo = repository_for c s
      in inspect_service_with m s (\<lambda>ref. reference_uses_repository ref repo)
           (\<lambda>out expected. parse_image_inspect m out repo expected))"

definition inspect_rollback_service ::
    "machine \<Rightarrow> platform_config \<Rightarrow> service \<Rightarrow> image \<Rightarrow> string \<Rightarrow> pevent list \<Rightarrow> (image \<times> string) res \<times> pevent list" where
  "inspect_rollback_service m c s expected task log =
     (case validate_rollback_identity m c s expected task of
        Some e \<Rightarrow> (Inl e, log)
      | None \<Rightarrow> inspect_service_with m s (\<lambda>ref. ref = im_alias expected)
                  (\<lambda>out eid. parse_rollback_image_inspect m out expected eid) log)"

section \<open>The platform calls\<close>

definition create_rollback_alias ::
    "machine \<Rightarrow> platform_config \<Rightarrow> service \<Rightarrow> image \<Rightarrow> string \<Rightarrow> pevent list \<Rightarrow> image res \<times> pevent list" where
  "create_rollback_alias m c s old task log =
     (case mx_uuid m task of
        None \<Rightarrow> (Inl (Message ''rollback image metadata is invalid''), log)
      | Some parsed \<Rightarrow>
        if im_repository old \<noteq> repository_for c s \<or> \<not> is_sha256 (im_id old) \<or> \<not> is_sha256 (im_digest old) \<or>
           \<not> valid_version m (im_version old)
        then (Inl (Message ''rollback image metadata is invalid''), log)
        else let tag = rollback_alias s parsed
          in case run_command m (tag_command (im_id old) tag) log of
               (None, log1) \<Rightarrow> (Inl (Message ''create rollback image alias''), log1)
             | (Some out, log1) \<Rightarrow> (Inr (old\<lparr>im_alias := tag\<rparr>), log1))"

text \<open>A sequence of file operations, each named by the error it would cause.\<close>

fun file_steps :: "machine \<Rightarrow> string list \<Rightarrow> pevent list \<Rightarrow> go_error option" where
  "file_steps m [] log = None"
| "file_steps m (step # steps) log = (if mx_file m log step then file_steps m steps log else Some (Message step))"

definition backup_database ::
    "machine \<Rightarrow> platform_config \<Rightarrow> string \<Rightarrow> pevent list \<Rightarrow> string res \<times> pevent list" where
  "backup_database m c task log =
     (case mx_uuid m task of
        None \<Rightarrow> (Inl (Message ''database backup task ID is invalid''), log)
      | Some parsed \<Rightarrow>
        (case file_steps m [''create database backup directory'', ''secure database backup directory'',
              ''create temporary database backup'', ''secure temporary database backup'',
              ''close temporary database backup''] log of
           Some e \<Rightarrow> (Inl e, log)
         | None \<Rightarrow>
           let temp = mx_temp m log
           in case run_command m (dump_command c temp) log of
                (None, log1) \<Rightarrow> (Inl (Message ''database backup command failed''), log1)
              | (Some out, log1) \<Rightarrow>
                if (case mx_size m log1 temp of None \<Rightarrow> True | Some n \<Rightarrow> n = 0)
                then (Inl (Message ''database backup is empty''), log1)
                else let final = mx_join m (pf_backup_dir c)
                           (''upgrade-'' @ mx_stamp m log1 @ ''-'' @ parsed @ ''.dump'')
                  in if \<not> mx_file m log1 ''finalize database backup''
                     then (Inl (Message ''finalize database backup''), log1)
                     else (Inr final, Renamed temp final # log1)))"

definition pull_target ::
    "machine \<Rightarrow> platform_config \<Rightarrow> service \<Rightarrow> image \<Rightarrow> pevent list \<Rightarrow> unit res \<times> pevent list" where
  "pull_target m c s target log =
     (let repo = repository_for c s
      in case validate_target_image m target repo of
           Some e \<Rightarrow> (Inl e, log)
         | None \<Rightarrow>
           let ref = pin repo (im_digest target)
           in case run_command m (pull_command ref) log of
                (None, log1) \<Rightarrow> (Inl (Message ''pull target image''), log1)
              | (Some out, log1) \<Rightarrow>
                (case run_command m (inspect_image_command ref) log1 of
                   (None, log2) \<Rightarrow> (Inl (Message ''inspect pulled target image''), log2)
                 | (Some out2, log2) \<Rightarrow>
                   (case parse_image_inspect m out2 repo [] of
                      Inl e \<Rightarrow> (Inl (Message ''pulled target image metadata does not match''), log2)
                    | Inr i \<Rightarrow>
                      if im_version i \<noteq> im_version target \<or> im_digest i \<noteq> im_digest target \<or>
                         im_id target \<noteq> [] \<and> im_id i \<noteq> im_id target
                      then (Inl (Message ''pulled target image metadata does not match''), log2)
                      else (Inr (), log2))))"

definition write_override ::
    "machine \<Rightarrow> platform_config \<Rightarrow> string \<Rightarrow> compose_override \<Rightarrow> pevent list \<Rightarrow> string res \<times> pevent list" where
  "write_override m c name override log =
     (case mx_yaml m override of
        None \<Rightarrow> (Inl (Message ''marshal compose override''), log)
      | Some contents \<Rightarrow>
        (case file_steps m [''create compose override directory'', ''secure compose override directory'',
              ''create temporary compose override'', ''secure temporary compose override'',
              ''write temporary compose override'', ''sync temporary compose override'',
              ''close temporary compose override'', ''replace compose override''] log of
           Some e \<Rightarrow> (Inl e, log)
         | None \<Rightarrow>
           let path = mx_join m (mx_join m (pf_state_dir c) ''overrides'') name
           in (Inr path, Renamed contents path # log)))"

definition compose_up ::
    "machine \<Rightarrow> platform_config \<Rightarrow> service \<Rightarrow> string \<Rightarrow> pevent list \<Rightarrow> unit res \<times> pevent list" where
  "compose_up m c s path log =
     (case run_command m (compose_command c s path) log of
        (None, log1) \<Rightarrow> (Inl (Message ''deploy compose service''), log1)
      | (Some out, log1) \<Rightarrow> (Inr (), log1))"

definition pinned :: "string \<Rightarrow> string \<Rightarrow> compose_override" where
  "pinned backend web = \<lparr>co_backend = \<lparr>cs_image = backend, cs_pull_policy = ''never''\<rparr>,
                         co_web = \<lparr>cs_image = web, cs_pull_policy = ''never''\<rparr>\<rparr>"

definition image_reference :: "image \<Rightarrow> string" where
  "image_reference i = pin (im_repository i) (im_digest i)"

definition deploy_target ::
    "machine \<Rightarrow> platform_config \<Rightarrow> service \<Rightarrow> image_pair \<Rightarrow> string \<Rightarrow> pevent list \<Rightarrow> unit res \<times> pevent list" where
  "deploy_target m c s p task log =
     (case mx_uuid m task of
        None \<Rightarrow> (Inl (Message ''target deployment task ID is invalid''), log)
      | Some parsed \<Rightarrow>
        (case validate_target_pair m p (pf_backend_repo c) (pf_web_repo c) of
           Some e \<Rightarrow> (Inl e, log)
         | None \<Rightarrow>
           (case write_override m c (parsed @ ''-target.yaml'')
                (pinned (image_reference (ip_backend p)) (image_reference (ip_web p))) log of
              (Inl e, log1) \<Rightarrow> (Inl e, log1)
            | (Inr path, log1) \<Rightarrow> compose_up m c s path log1)))"

definition deploy_rollback ::
    "machine \<Rightarrow> platform_config \<Rightarrow> service \<Rightarrow> image_pair \<Rightarrow> string \<Rightarrow> pevent list \<Rightarrow> unit res \<times> pevent list" where
  "deploy_rollback m c s p task log =
     (if mx_uuid m task \<noteq> Some task then (Inl (Message ''rollback deployment task ID is invalid''), log)
      else let b = rollback_alias Backend task; v = rollback_alias Web task
        in if im_alias (ip_backend p) \<noteq> b \<or> im_alias (ip_web p) \<noteq> v
           then (Inl (Message ''rollback image aliases are invalid''), log)
           else case write_override m c (task @ ''-rollback.yaml'') (pinned b v) log of
                  (Inl e, log1) \<Rightarrow> (Inl e, log1)
                | (Inr path, log1) \<Rightarrow> compose_up m c s path log1)"

definition probe :: "machine \<Rightarrow> string \<Rightarrow> pevent list \<Rightarrow> bool \<times> pevent list" where
  "probe m url log = (let ok = mx_probe m log url in (ok, Probed url ok # log))"

definition health_round ::
    "machine \<Rightarrow> string \<Rightarrow> (pevent list \<Rightarrow> (image \<times> string) res \<times> pevent list) \<Rightarrow> pevent list \<Rightarrow>
     bool \<times> pevent list" where
  "health_round m url inspect log =
     (let (r, log1) = inspect log
      in case r of
           Inl e \<Rightarrow> (False, log1)
         | Inr (i, health) \<Rightarrow> if health = ''healthy'' then probe m url log1 else (False, log1))"

text \<open>
  The loop runs under a context with the health timeout, and a sleep that succeeds takes at least
  the health interval: the number of sleeps that can succeed is the quotient, the first argument.
  A sleep may fail earlier (\<open>mx_sleep\<close>), since the commands of a round take time too.
\<close>

definition health_interval :: duration where
  "health_interval = 2 * second"

fun wait_healthy_loop ::
    "nat \<Rightarrow> machine \<Rightarrow> string \<Rightarrow> (pevent list \<Rightarrow> (image \<times> string) res \<times> pevent list) \<Rightarrow> pevent list \<Rightarrow>
     unit res \<times> pevent list" where
  "wait_healthy_loop 0 m url inspect log =
     (case health_round m url inspect log of
        (True, log1) \<Rightarrow> (Inr (), log1)
      | (False, log1) \<Rightarrow> (Inl (Message ''service health check failed''), Waited False # log1))"
| "wait_healthy_loop (Suc n) m url inspect log =
     (case health_round m url inspect log of
        (True, log1) \<Rightarrow> (Inr (), log1)
      | (False, log1) \<Rightarrow>
        if mx_sleep m log1 then wait_healthy_loop n m url inspect (Waited True # log1)
        else (Inl (Message ''service health check failed''), Waited False # log1))"

fun health_url :: "platform_config \<Rightarrow> service \<Rightarrow> string" where
  "health_url c Backend = pf_backend_health c"
| "health_url c Web = pf_web_health c"

definition max_waits :: "platform_config \<Rightarrow> nat" where
  "max_waits c = nat (pf_health_timeout c div health_interval)"

definition wait_healthy ::
    "machine \<Rightarrow> platform_config \<Rightarrow> service \<Rightarrow> pevent list \<Rightarrow> unit res \<times> pevent list" where
  "wait_healthy m c s log = wait_healthy_loop (max_waits c) m (health_url c s) (inspect_service m c s) log"

definition wait_rollback_healthy ::
    "machine \<Rightarrow> platform_config \<Rightarrow> service \<Rightarrow> image \<Rightarrow> string \<Rightarrow> pevent list \<Rightarrow> unit res \<times> pevent list" where
  "wait_rollback_healthy m c s expected task log =
     (case validate_rollback_identity m c s expected task of
        Some e \<Rightarrow> (Inl e, log)
      | None \<Rightarrow> wait_healthy_loop (max_waits c) m (health_url c s) (inspect_rollback_service m c s expected task) log)"

section \<open>Removing the old image\<close>

fun remove_references :: "machine \<Rightarrow> string list \<Rightarrow> pevent list \<Rightarrow> bool \<times> pevent list" where
  "remove_references m [] log = (True, log)"
| "remove_references m (ref # refs) log =
     (case run_command m (remove_command ref) log of
        (None, log1) \<Rightarrow> (False, log1)
      | (Some out, log1) \<Rightarrow> remove_references m refs log1)"

text \<open>Byte order, as \<^verbatim>\<open>sort.Strings\<close> compares.\<close>

fun string_le :: "string \<Rightarrow> string \<Rightarrow> bool" where
  "string_le [] t = True"
| "string_le (c # s) [] = False"
| "string_le (c # s) (d # t) = (byte c < byte d \<or> c = d \<and> string_le s t)"

fun insert_string :: "string \<Rightarrow> string list \<Rightarrow> string list" where
  "insert_string s [] = [s]"
| "insert_string s (t # ts) = (if string_le s t then s # t # ts else t # insert_string s ts)"

definition sorted_references :: "string list \<Rightarrow> string list" where
  "sorted_references tags = fold insert_string (remdups tags) []"

definition removable :: "image \<Rightarrow> string \<Rightarrow> image_inspect \<Rightarrow> bool" where
  "removable old repo i \<longleftrightarrow>
     ii_id i = im_id old \<and> is_sha256 (ii_id i) \<and> ii_labels i version_label = im_version old \<and>
     list_all (\<lambda>tag. tag = im_alias old \<or> reference_uses_repository tag repo) (ii_tags i) \<and>
     im_alias old \<in> set (ii_tags i) \<and> list_all (trusted_digest repo) (ii_digests i) \<and>
     pin repo (im_digest old) \<in> set (ii_digests i)"

definition cleanup_pending_error :: go_error where
  "cleanup_pending_error = Message ''cleanup pending''"

definition remove_old_image ::
    "machine \<Rightarrow> platform_config \<Rightarrow> service \<Rightarrow> image \<Rightarrow> pevent list \<Rightarrow> unit res \<times> pevent list" where
  "remove_old_image m c s old log =
     (let repo = repository_for c s
      in case validate_cleanup_image m old s repo of
           Some e \<Rightarrow> (Inl e, log)
         | None \<Rightarrow>
           (case run_command m (find_users_command (im_id old)) log of
              (None, log1) \<Rightarrow> (Inl cleanup_pending_error, log1)
            | (Some out, log1) \<Rightarrow>
              if str_fields out \<noteq> [] then (Inl cleanup_pending_error, log1)
              else (case run_command m (inspect_image_command (im_id old)) log1 of
                  (None, log2) \<Rightarrow> (Inl cleanup_pending_error, log2)
                | (Some out2, log2) \<Rightarrow>
                  (case single (mx_images m out2) of
                     None \<Rightarrow> (Inl cleanup_pending_error, log2)
                   | Some i \<Rightarrow>
                     if \<not> removable old repo i then (Inl cleanup_pending_error, log2)
                     else (case remove_references m (sorted_references (ii_tags i) @ [im_id old]) log2 of
                         (False, log3) \<Rightarrow> (Inl cleanup_pending_error, log3)
                       | (True, log3) \<Rightarrow> (Inr (), log3))))))"

end
