(* ===== verification/SuCli.thy ===== *)
theory SuCli
  imports SuUpgrade SuPlatform
begin

text \<open>
  The upgrade manager over the docker platform: the \<open>Platform\<close> interface of
  \<^verbatim>\<open>internal/systemupdate/platform.go\<close>, and the environment of the manager in which every platform
  answer is what the CLI platform computes.  \<open>replay\<close> is the log of commands behind a log of the
  manager, so an order the manager keeps between platform calls becomes an order of commands.
\<close>

section \<open>The platform interface\<close>

datatype answer = GotImage image | GotPath string | Completed

definition image_answer :: "(image \<times> string) res \<times> pevent list \<Rightarrow> answer res \<times> pevent list" where
  "image_answer r = (map_sum id (GotImage \<circ> fst) (fst r), snd r)"

definition unit_answer :: "unit res \<times> pevent list \<Rightarrow> answer res \<times> pevent list" where
  "unit_answer r = (map_sum id (\<lambda>_. Completed) (fst r), snd r)"

fun cli_call :: "machine \<Rightarrow> platform_config \<Rightarrow> platform_call \<Rightarrow> pevent list \<Rightarrow> answer res \<times> pevent list" where
  "cli_call m c (InspectService s) log = image_answer (inspect_service m c s log)"
| "cli_call m c (InspectRollbackService s i t) log = image_answer (inspect_rollback_service m c s i t log)"
| "cli_call m c (CreateRollbackAlias s i t) log =
     (let (r, log1) = create_rollback_alias m c s i t log in (map_sum id GotImage r, log1))"
| "cli_call m c (BackupDatabase t) log = (let (r, log1) = backup_database m c t log in (map_sum id GotPath r, log1))"
| "cli_call m c (PullTarget s i) log = unit_answer (pull_target m c s i log)"
| "cli_call m c (DeployTarget s p t) log = unit_answer (deploy_target m c s p t log)"
| "cli_call m c (DeployRollback s p t) log = unit_answer (deploy_rollback m c s p t log)"
| "cli_call m c (WaitHealthy s) log = unit_answer (wait_healthy m c s log)"
| "cli_call m c (WaitRollbackHealthy s i t) log = unit_answer (wait_rollback_healthy m c s i t log)"
| "cli_call m c (RemoveOldImage s i) log = unit_answer (remove_old_image m c s i log)"

section \<open>What a call may run\<close>

text \<open>The commands a call may run; \<open>k\<close> says whether the call is a deployment.\<close>

fun fixed_repository :: "service \<Rightarrow> string" where
  "fixed_repository Backend = fixed_backend_repository"
| "fixed_repository Web = fixed_web_repository"

inductive allowed :: "machine \<Rightarrow> platform_config \<Rightarrow> bool \<Rightarrow> command \<Rightarrow> bool" for m c k where
  find_container: "allowed m c k (find_container_command s)"
| inspect_container: "allowed m c k (inspect_container_command cid)"
| inspect_image: "is_sha256 i \<Longrightarrow> allowed m c k (inspect_image_command i)"
| inspect_pulled: "is_sha256 d \<Longrightarrow> allowed m c k (inspect_image_command (pin (fixed_repository s) d))"
| pull_pinned: "is_sha256 d \<Longrightarrow> allowed m c k (pull_command (pin (fixed_repository s) d))"
| tag_alias: "is_sha256 i \<Longrightarrow> mx_uuid m t = Some u \<Longrightarrow> allowed m c k (tag_command i (rollback_alias s u))"
| dump: "allowed m c k (dump_command c temp)"
| compose: "k \<Longrightarrow> allowed m c k (compose_command c s (mx_join m (mx_join m (pf_state_dir c) ''overrides'') name))"
| find_users: "is_sha256 i \<Longrightarrow> allowed m c k (find_users_command i)"
| remove_image: "is_sha256 i \<Longrightarrow> allowed m c k (remove_command i)"
| remove_tag: "reference_uses_repository r (fixed_repository s) \<Longrightarrow> allowed m c k (remove_command r)"
| remove_alias: "mx_uuid m t = Some t \<Longrightarrow> allowed m c k (remove_command (rollback_alias s t))"

text \<open>A log that grew by events of which each command satisfies \<open>P\<close>.\<close>

definition grown :: "(command \<Rightarrow> bool) \<Rightarrow> pevent list \<Rightarrow> pevent list \<Rightarrow> bool" where
  "grown P log log1 \<longleftrightarrow> (\<exists>evs. log1 = evs @ log \<and> (\<forall>cmd ok. Ran cmd ok \<in> set evs \<longrightarrow> P cmd))"

named_theorems grown_rules \<open>how a step of the platform extends the log\<close>

lemma grown_refl [grown_rules]: "grown P log log"
  by (simp add: grown_def)

lemma grown_trans: "grown P a b \<Longrightarrow> grown P b d \<Longrightarrow> grown P a d"
  unfolding grown_def by (metis Un_iff append.assoc set_append)

lemma grown_Cons:
  "grown P a b \<Longrightarrow> (case e of Ran cmd ok \<Rightarrow> P cmd | _ \<Rightarrow> True) \<Longrightarrow> grown P a (e # b)"
  unfolding grown_def by (auto split: pevent.splits intro!: exI [of _ "e # _"])

lemma grown_more [grown_rules]:
  "grown P a b \<Longrightarrow> P cmd \<Longrightarrow> grown P a (Ran cmd ok # b)"
  "grown P a b \<Longrightarrow> grown P a (Renamed x y # b)"
  "grown P a b \<Longrightarrow> grown P a (Probed u ok # b)"
  "grown P a b \<Longrightarrow> grown P a (Waited ok # b)"
  by (simp_all add: grown_Cons)

lemma run_command_log: "run_command m c log = (r, log1) \<Longrightarrow> log1 = Ran c (r \<noteq> None) # log"
  by (auto simp: run_command_def Let_def)

lemma valid_config:
  assumes "new_cli_platform c = Inr c1"
  shows "c1 = c" and "repository_for c s = fixed_repository s"
    and "health_url c Backend = fixed_backend_health_url" and "health_url c Web = fixed_web_health_url"
  using assms by (cases s; auto simp: new_cli_platform_def split: if_splits)+

section \<open>Each operation runs allowed commands only\<close>

definition trusted :: "platform_config \<Rightarrow> bool" where
  "trusted c \<longleftrightarrow> (\<forall>s. repository_for c s = fixed_repository s)"

lemma trusted_repositories:
  "trusted c \<Longrightarrow> pf_backend_repo c = fixed_backend_repository \<and> pf_web_repo c = fixed_web_repository"
  by (metis fixed_repository.simps repository_for.simps trusted_def)

lemma validate_target_imageD:
  "validate_target_image m i repo = None \<Longrightarrow> im_repository i = repo \<and> is_sha256 (im_digest i)"
  by (auto simp: validate_target_image_def split: if_splits)

lemma inspect_service_with_grown:
  assumes "inspect_service_with m s valid parse log = (r, log1)"
  shows "grown (allowed m c k) log log1"
  using assms unfolding inspect_service_with_def run_command_def
  by (auto simp: Let_def intro!: grown_rules allowed.intros split: option.splits list.splits if_splits sum.splits)

lemma health_round_grown:
  assumes "health_round m url inspect log = (r, log1)"
    and "\<And>log r log1. inspect log = (r, log1) \<Longrightarrow> grown P log log1"
  shows "grown P log log1"
  using assms(1) assms(2) [of log]
  by (auto simp: health_round_def probe_def Let_def intro: grown_rules split: sum.splits prod.splits if_splits)

lemma wait_healthy_loop_grown:
  assumes "wait_healthy_loop n m url inspect log = (r, log1)"
    and "\<And>log r log1. inspect log = (r, log1) \<Longrightarrow> grown P log log1"
  shows "grown P log log1"
  using assms(1)
proof (induction n arbitrary: log)
  case 0
  obtain ok log2 where h: "health_round m url inspect log = (ok, log2)" by fastforce
  then have "grown P log log2" using assms(2) by (rule health_round_grown)
  then show ?case using 0 h by (auto simp: grown_more split: bool.splits)
next
  case (Suc n)
  obtain ok log2 where h: "health_round m url inspect log = (ok, log2)" by fastforce
  then have g: "grown P log log2" using assms(2) by (rule health_round_grown)
  show ?case
  proof (cases "ok \<or> \<not> mx_sleep m log2")
    case True
    then show ?thesis using Suc.prems h g by (auto simp: grown_more split: bool.splits)
  next
    case False
    then have "wait_healthy_loop n m url inspect (Waited True # log2) = (r, log1)" using Suc.prems h by simp
    from Suc.IH [OF this] show ?thesis using grown_trans grown_more(4) [OF g] by blast
  qed
qed

lemma inspect_service_grown:
  "inspect_service m c s log = (r, log1) \<Longrightarrow> grown (allowed m d k) log log1"
  by (simp add: inspect_service_def Let_def inspect_service_with_grown)

lemma inspect_rollback_service_grown:
  "inspect_rollback_service m c s i t log = (r, log1) \<Longrightarrow> grown (allowed m d k) log log1"
  by (auto simp: inspect_rollback_service_def grown_refl inspect_service_with_grown split: option.splits)

lemma create_rollback_alias_grown:
  "create_rollback_alias m c s i t log = (r, log1) \<Longrightarrow> grown (allowed m d k) log log1"
  unfolding create_rollback_alias_def run_command_def
  by (auto simp: Let_def intro!: grown_rules tag_alias split: option.splits if_splits)

lemma backup_database_grown:
  "backup_database m c t log = (r, log1) \<Longrightarrow> grown (allowed m c k) log log1"
  unfolding backup_database_def run_command_def
  by (auto simp: Let_def intro!: grown_rules dump simp del: file_steps.simps split: option.splits if_splits)

lemma pull_target_grown:
  assumes "trusted c" and "pull_target m c s i log = (r, log1)"
  shows "grown (allowed m c k) log log1"
  using assms unfolding pull_target_def run_command_def trusted_def
  by (auto simp: Let_def intro!: grown_rules pull_pinned inspect_pulled dest: validate_target_imageD
      split: option.splits if_splits sum.splits)

lemma write_override_grown:
  "write_override m c name ov log = (r, log1) \<Longrightarrow> grown P log log1 \<and>
     (\<forall>path. r = Inr path \<longrightarrow> path = mx_join m (mx_join m (pf_state_dir c) ''overrides'') name)"
  unfolding write_override_def
  by (auto simp: Let_def intro!: grown_rules simp del: file_steps.simps split: option.splits)

lemma compose_up_grown:
  "compose_up m c s (mx_join m (mx_join m (pf_state_dir c) ''overrides'') name) log = (r, log1) \<Longrightarrow>
   grown (allowed m c True) log log1"
  unfolding compose_up_def run_command_def
  by (auto simp: Let_def intro!: grown_rules compose split: option.splits)

lemma override_compose_grown:
  assumes "(case write_override m c name ov log of (Inl e, log1) \<Rightarrow> (Inl e, log1)
      | (Inr path, log1) \<Rightarrow> compose_up m c s path log1) = (r, log1)"
  shows "grown (allowed m c True) log log1"
proof -
  obtain q log2 where w: "write_override m c name ov log = (q, log2)" by fastforce
  show ?thesis
  proof (cases q)
    case (Inr path)
    then show ?thesis
      using assms w write_override_grown [OF w, of "allowed m c True"] compose_up_grown grown_trans by fastforce
  qed (use assms w write_override_grown [OF w] in auto)
qed

lemma deploy_target_grown:
  "deploy_target m c s p t log = (r, log1) \<Longrightarrow> grown (allowed m c True) log log1"
  unfolding deploy_target_def by (auto simp: grown_refl override_compose_grown split: option.splits)

lemma deploy_rollback_grown:
  "deploy_rollback m c s p t log = (r, log1) \<Longrightarrow> grown (allowed m c True) log log1"
  unfolding deploy_rollback_def by (auto simp: grown_refl override_compose_grown Let_def split: if_splits)

lemma remove_references_grown:
  assumes "remove_references m refs log = (r, log1)"
    and "\<forall>ref\<in>set refs. allowed m c k (remove_command ref)"
  shows "grown (allowed m c k) log log1"
  using assms
proof (induction refs arbitrary: log)
  case (Cons ref refs)
  obtain q log2 where q: "run_command m (remove_command ref) log = (q, log2)" by fastforce
  have g: "grown (allowed m c k) log log2"
    using run_command_log [OF q] Cons.prems(2) by (simp add: grown_rules)
  show ?case
  proof (cases q)
    case (Some out)
    then show ?thesis using Cons q grown_trans [OF g] by auto
  qed (use Cons.prems q g in auto)
qed (simp add: grown_refl)

lemma set_insert_string [simp]: "set (insert_string s ts) = insert s (set ts)"
  by (induction ts) auto

lemma set_sorted_references [simp]: "set (sorted_references tags) = set tags"
proof -
  have "set (fold insert_string xs ys) = set xs \<union> set ys" for xs ys by (induction xs arbitrary: ys) auto
  then show ?thesis by (simp add: sorted_references_def)
qed

lemma validate_cleanup_imageD:
  assumes "validate_cleanup_image m i s repo = None"
  obtains t where "im_alias i = rollback_alias s t" "mx_uuid m t = Some t"
    "is_sha256 (im_id i)" "is_sha256 (im_digest i)" "im_repository i = repo"
  using assms has_prefixE [of "im_alias i" "rollback_alias s []"]
  by (auto simp: validate_cleanup_image_def Let_def rollback_alias_def split: if_splits)

lemma remove_old_image_grown:
  assumes "trusted c" and "remove_old_image m c s i log = (r, log1)"
  shows "grown (allowed m c k) log log1"
proof (cases "validate_cleanup_image m i s (repository_for c s)")
  case None
  then obtain t where t: "im_alias i = rollback_alias s t" "mx_uuid m t = Some t" "is_sha256 (im_id i)"
    by (rule validate_cleanup_imageD)
  let ?users = "find_users_command (im_id i)" and ?inspect = "inspect_image_command (im_id i)"
  obtain a log2 where a: "run_command m ?users log = (a, log2)" by fastforce
  obtain b log3 where b: "run_command m ?inspect log2 = (b, log3)" by fastforce
  have g2: "grown (allowed m c k) log log2"
    unfolding run_command_log [OF a] using t by (intro grown_rules find_users)
  have g3: "grown (allowed m c k) log log3"
    unfolding run_command_log [OF b] using t g2 by (intro grown_rules inspect_image)
  show ?thesis
  proof (cases "\<exists>i'. (\<exists>out out2. a = Some out \<and> str_fields out = [] \<and> b = Some out2 \<and> single (mx_images m out2) = Some i')
      \<and> removable i (repository_for c s) i'")
    case True
    then obtain out out2 i' where i': "a = Some out" "str_fields out = []" "b = Some out2"
      "single (mx_images m out2) = Some i'" "removable i (repository_for c s) i'" by blast
    obtain q log4 where q: "remove_references m (sorted_references (ii_tags i') @ [im_id i]) log3 = (q, log4)" by fastforce
    have "allowed m c k (remove_command ref)" if "ref \<in> set (sorted_references (ii_tags i') @ [im_id i])" for ref
    proof -
      have "ref = im_id i \<or> ref = im_alias i \<or> reference_uses_repository ref (repository_for c s)"
        using that i'(5) by (auto simp: removable_def list_all_iff)
      then show ?thesis using t assms(1) remove_image [of "im_id i"] remove_alias remove_tag
        by (auto simp: trusted_def)
    qed
    then have "grown (allowed m c k) log3 log4" using remove_references_grown [OF q] by blast
    with g3 have "grown (allowed m c k) log log4" by (rule grown_trans)
    then show ?thesis using assms(2) None a b i' q by (cases q) (auto simp: remove_old_image_def Let_def)
  next
    case False
    then have "log1 = log2 \<or> log1 = log3"
      using assms(2) None a b by (auto simp: remove_old_image_def Let_def split: option.splits if_splits prod.splits)
    then show ?thesis using g2 g3 by auto
  qed
next
  case (Some e)
  then show ?thesis using assms(2) by (simp add: remove_old_image_def Let_def grown_refl)
qed

lemma wait_healthy_grown:
  "wait_healthy m c s log = (r, log1) \<Longrightarrow> grown (allowed m d k) log log1"
  unfolding wait_healthy_def by (erule wait_healthy_loop_grown) (rule inspect_service_grown)

lemma wait_rollback_healthy_grown:
  "wait_rollback_healthy m c s i t log = (r, log1) \<Longrightarrow> grown (allowed m d k) log log1"
  using wait_healthy_loop_grown [OF _ inspect_rollback_service_grown]
  by (fastforce simp: wait_rollback_healthy_def grown_refl split: option.splits)

lemmas platform_grown = inspect_service_grown inspect_rollback_service_grown create_rollback_alias_grown
  backup_database_grown pull_target_grown deploy_target_grown deploy_rollback_grown wait_healthy_grown
  wait_rollback_healthy_grown remove_old_image_grown

lemma answer_eqs:
  "image_answer x = (r, log1) \<longleftrightarrow> (\<exists>q. x = (q, log1) \<and> r = map_sum id (GotImage \<circ> fst) q)"
  "unit_answer y = (r, log1) \<longleftrightarrow> (\<exists>q. y = (q, log1) \<and> r = map_sum id (\<lambda>_. Completed) q)"
  by (cases x; auto simp: image_answer_def)(cases y; auto simp: unit_answer_def)

fun deploying :: "platform_call \<Rightarrow> bool" where
  "deploying (DeployTarget s p t) = True"
| "deploying (DeployRollback s p t) = True"
| "deploying _ = False"

lemma cli_call_grown:
  assumes "trusted c" and "cli_call m c pc log = (r, log1)"
  shows "grown (allowed m c (deploying pc)) log log1"
  using assms
  by (cases pc) (auto simp: answer_eqs split: prod.splits dest: platform_grown)


section \<open>What a successful call has run\<close>

lemma inspect_image_ok:
  "parse_image_inspect m out repo eid = Inr i \<Longrightarrow> is_sha256 (im_digest i) \<and> im_repository i = repo"
proof -
  have digest: "image_digest repo refs d = Inr e \<Longrightarrow> d = [] \<or> is_sha256 d \<Longrightarrow> e = [] \<or> is_sha256 e" for refs d e
    by (induction refs arbitrary: d) (auto simp: Let_def split: if_splits)
  show "parse_image_inspect m out repo eid = Inr i \<Longrightarrow> ?thesis"
    by (auto simp: parse_image_inspect_def Let_def dest: digest split: option.splits sum.splits if_splits)
qed

lemma pull_target_ok:
  "pull_target m c s i log = (Inr x, log1) \<Longrightarrow>
   Ran (pull_command (pin (repository_for c s) (im_digest i))) True \<in> set log1"
  unfolding pull_target_def run_command_def
  by (auto simp: Let_def split: option.splits if_splits sum.splits)

lemma create_rollback_alias_ok:
  "create_rollback_alias m c s i t log = (Inr j, log1) \<Longrightarrow>
   \<exists>u. mx_uuid m t = Some u \<and> Ran (tag_command (im_id i) (rollback_alias s u)) True \<in> set log1"
  unfolding create_rollback_alias_def run_command_def
  by (auto simp: Let_def split: option.splits if_splits)

lemma backup_database_ok:
  "backup_database m c t log = (Inr path, log1) \<Longrightarrow>
   \<exists>temp. Ran (dump_command c temp) True \<in> set log1 \<and> Renamed temp path \<in> set log1"
  unfolding backup_database_def run_command_def
  by (auto simp: Let_def simp del: file_steps.simps split: option.splits if_splits)

lemma health_round_ok:
  "health_round m url inspect log = (True, log1) \<Longrightarrow> \<exists>rest. log1 = Probed url True # rest"
  by (auto simp: health_round_def probe_def Let_def split: sum.splits prod.splits if_splits)

lemma wait_healthy_loop_ok:
  "wait_healthy_loop n m url inspect log = (Inr x, log1) \<Longrightarrow> \<exists>rest. log1 = Probed url True # rest"
  by (induction n arbitrary: log) (auto dest: health_round_ok split: prod.splits bool.splits if_splits)


section \<open>The environment of the manager\<close>

fun replay :: "machine \<Rightarrow> platform_config \<Rightarrow> event list \<Rightarrow> pevent list" where
  "replay m c [] = []"
| "replay m c (Called pc ok # log) = snd (cli_call m c pc (replay m c log))"
| "replay m c (Stored u ok # log) = replay m c log"
| "replay m c (Slept d ok # log) = replay m c log"

definition image_result :: "answer res \<Rightarrow> image res" where
  "image_result r = (case r of Inl e \<Rightarrow> Inl e | Inr (GotImage i) \<Rightarrow> Inr i | Inr _ \<Rightarrow> Inr empty_image)"

definition path_result :: "answer res \<Rightarrow> string res" where
  "path_result r = (case r of Inl e \<Rightarrow> Inl e | Inr (GotPath p) \<Rightarrow> Inr p | Inr _ \<Rightarrow> Inr [])"

text \<open>A Go function returns its zero value with an error.\<close>

definition with_error :: "'a \<Rightarrow> 'a res \<Rightarrow> 'a \<times> go_error option" where
  "with_error zero r = (case r of Inl e \<Rightarrow> (zero, Some e) | Inr x \<Rightarrow> (x, None))"

definition cli_answer :: "machine \<Rightarrow> platform_config \<Rightarrow> event list \<Rightarrow> platform_call \<Rightarrow> answer res" where
  "cli_answer m c log pc = fst (cli_call m c pc (replay m c log))"

definition cli_env :: "machine \<Rightarrow> platform_config \<Rightarrow> env \<Rightarrow> env" where
  "cli_env m c env = env\<lparr>
     en_inspect := (\<lambda>log s. image_result (cli_answer m c log (InspectService s))),
     en_inspect_rollback := (\<lambda>log s i t. image_result (cli_answer m c log (InspectRollbackService s i t))),
     en_alias := (\<lambda>log s i t. with_error empty_image (image_result (cli_answer m c log (CreateRollbackAlias s i t)))),
     en_backup := (\<lambda>log t. with_error [] (path_result (cli_answer m c log (BackupDatabase t)))),
     en_call := (\<lambda>log pc. error_of (cli_answer m c log pc))\<rparr>"

lemma cli_env_simps [simp]:
  "en_inspect (cli_env m c env) log s = image_result (cli_answer m c log (InspectService s))"
  "en_alias (cli_env m c env) log s i t = with_error empty_image (image_result (cli_answer m c log (CreateRollbackAlias s i t)))"
  "en_backup (cli_env m c env) log t = with_error [] (path_result (cli_answer m c log (BackupDatabase t)))"
  "en_call (cli_env m c env) log pc = error_of (cli_answer m c log pc)"
  by (simp_all add: cli_env_def)

section \<open>The log of a run tells what the platform answered\<close>

fun answered :: "machine \<Rightarrow> platform_config \<Rightarrow> event list \<Rightarrow> bool" where
  "answered m c [] = True"
| "answered m c (Called pc ok # log) = ((ok \<longleftrightarrow> error_of (cli_answer m c log pc) = None) \<and> answered m c log)"
| "answered m c (Stored u ok # log) = answered m c log"
| "answered m c (Slept d ok # log) = answered m c log"

lemma answered_split:
  "answered m c (later @ Called pc ok # earlier) \<Longrightarrow>
   (ok \<longleftrightarrow> error_of (cli_answer m c earlier pc) = None) \<and> answered m c earlier"
  by (induction later rule: answered.induct) auto

lemma result_errors [simp]:
  "error_of (image_result r) = error_of r"
  "snd (with_error z q) = error_of q"
  "error_of (path_result r) = error_of r"
  by (auto simp: image_result_def path_result_def error_of_def with_error_def split: sum.splits answer.splits)

lemma error_of_simps [simp]: "error_of (Inl e) = Some e" "error_of (Inr x) = None"
  by (simp_all add: error_of_def)

lemma image_resultD: "image_result r = q \<Longrightarrow> error_of r = error_of q"
  by (metis result_errors(1))

lemma save_task_answered:
  "save_task env t w = (r, w1) \<Longrightarrow> answered m c (wd_log w1) = answered m c (wd_log w)"
  by (simp add: save_task_log)

lemma finish_task_answered:
  "finish_task env t w = (r, w1) \<Longrightarrow> answered m c (wd_log w1) = answered m c (wd_log w)"
  by (simp add: finish_task_log)

lemma call_answered:
  "call (cli_env m c env) pc w = (r, w1) \<Longrightarrow> answered m c (wd_log w1) = answered m c (wd_log w)"
  by (auto simp: call_def called_def log_event_def Let_def)

lemma act_answered:
  assumes "act (cli_env m c env) a t w = (r, t1, w1)"
  shows "answered m c (wd_log w1) = answered m c (wd_log w)"
proof (cases a)
  case (ActAlias s)
  then show ?thesis using assms
    by (auto simp: called_def log_event_def Let_def split: prod.splits dest: arg_cong [of _ _ snd])
next
  case ActBackup
  then show ?thesis using assms
    by (auto simp: called_def log_event_def Let_def split: prod.splits dest: arg_cong [of _ _ snd])
qed (use assms in \<open>auto simp: called_def log_event_def Let_def split: sum.splits prod.splits dest: call_answered image_resultD\<close>)

lemma perform_answered:
  "perform (cli_env m c env) st a t w = (r, t1, w1) \<Longrightarrow> answered m c (wd_log w1) = answered m c (wd_log w)"
  by (auto simp: perform_def Let_def split: prod.splits option.splits dest!: act_answered save_task_answered)

text \<open>An operation that logs only honest answers; the operations of the manager on the CLI platform are.\<close>

definition honest :: "machine \<Rightarrow> platform_config \<Rightarrow> world \<Rightarrow> world \<Rightarrow> bool" where
  "honest m c w w1 \<longleftrightarrow> (answered m c (wd_log w) \<longrightarrow> answered m c (wd_log w1))"

lemma honest_refl [simp]: "honest m c w w" and honest_trans: "honest m c w w1 \<Longrightarrow> honest m c w1 w2 \<Longrightarrow> honest m c w w2"
  by (simp_all add: honest_def)

lemma honest_steps:
  "save_task env t w = (r, w1) \<Longrightarrow> honest m c w w1"
  "finish_task env t w = (r, w1) \<Longrightarrow> honest m c w w1"
  "call (cli_env m c env) pc w = (r, w1) \<Longrightarrow> honest m c w w1"
  "perform (cli_env m c env) st a t w = (q, t1, w1) \<Longrightarrow> honest m c w w1"
  "mark_failed env t code b w = (r, w1) \<Longrightarrow> honest m c w w1"
  "mark_manual_intervention env t code w = (r, w1) \<Longrightarrow> honest m c w w1"
  by (auto simp: honest_def save_task_answered finish_task_answered call_answered perform_answered
      mark_failed_def mark_manual_intervention_def)

lemma rollback_services_honest:
  "rollback_services (cli_env m c env) t ss r w = (q, w1) \<Longrightarrow> honest m c w w1"
proof (induction ss arbitrary: r w)
  case (Cons s ss)
  obtain d wa where a: "call (cli_env m c env) (DeployRollback s (ut_original t) (ut_id t)) w = (d, wa)" by fastforce
  obtain h wb where b: "call (cli_env m c env) (WaitRollbackHealthy s (pair_image s (ut_original t)) (ut_id t)) wa = (h, wb)"
    by fastforce
  have "honest m c w wb" using honest_steps(3) [OF a] honest_steps(3) [OF b] by (rule honest_trans)
  moreover have "honest m c wb w1" using Cons a b by (auto simp: Let_def)
  ultimately show ?case by (rule honest_trans)
qed simp

lemma rollback_honest:
  assumes "rollback (cli_env m c env) t code w = (q, w1)"
  shows "honest m c w w1"
proof (cases "has_rollback_images (ut_original t)")
  case True
  let ?t = "t\<lparr>ut_stage := RollingBack, ut_error_code := code, ut_error_message := []\<rparr>"
  obtain a wa where a: "save_task (cli_env m c env) ?t w = (a, wa)" by fastforce
  obtain b wb where b: "rollback_services (cli_env m c env) ?t [Backend, Web] None wa = (b, wb)" by fastforce
  have wb: "honest m c w wb" using honest_steps(1) [OF a] rollback_services_honest [OF b] by (rule honest_trans)
  show ?thesis using assms True a b wb honest_steps(1) [OF a] honest_steps(5,6) honest_trans [OF wb]
    by (auto simp: rollback_def Let_def simp del: rollback_services.simps split: option.splits)
next
  case False
  then show ?thesis using assms honest_steps(6) by (simp add: rollback_def)
qed

lemma handle_failure_honest: "honest m c w (handle_failure (cli_env m c env) t code b w)"
proof -
  obtain q w1 where "rollback (cli_env m c env) t code w = (q, w1)" by fastforce
  moreover obtain r w2 where "mark_failed (cli_env m c env) t code False w = (r, w2)" by fastforce
  ultimately show ?thesis using rollback_honest honest_steps(5) by (auto simp: handle_failure_def)
qed

lemma run_steps_honest:
  "run_steps (cli_env m c env) ss t w = (q, w1) \<Longrightarrow> honest m c w w1"
proof (induction ss arbitrary: t w)
  case (Cons s ss)
  obtain r t2 w2 where p: "perform (cli_env m c env) (us_stage s) (us_action s) t w = (r, t2, w2)" by (metis prod_cases3)
  note h = honest_steps(4) [OF p]
  show ?case using Cons p handle_failure_honest [of m c w2] honest_trans [OF h]
    by (cases r) auto
qed simp

lemma stabilize_from_honest:
  "stabilize_from n (cli_env m c env) interval deadline t w = Some (q, t1, w1) \<Longrightarrow> honest m c w w1"
proof (induction n arbitrary: t w)
  case (Suc n)
  let ?env = "cli_env m c env"
  obtain a wa where a: "pause ?env (stable_wait ?env interval deadline w) w = (a, wa)" by fastforce
  have ha: "honest m c w wa" using a by (auto simp: pause_def honest_def log_event_def Let_def split: if_splits)
  obtain b tb wb where b: "perform ?env Stabilizing (ActHealthy Backend) t wa = (b, tb, wb)" by (metis prod_cases3)
  obtain d td wd where d: "perform ?env Stabilizing (ActHealthy Web) tb wb = (d, td, wd)" by (metis prod_cases3)
  have hb: "honest m c w wb" using ha honest_steps(4) [OF b] by (rule honest_trans)
  have hd: "honest m c w wd" using hb honest_steps(4) [OF d] by (rule honest_trans)
  show ?case using Suc a b d ha hb hd honest_trans [OF hd] by (auto split: option.splits if_splits)
qed simp

lemma clean_services_honest:
  "clean_services (cli_env m c env) ss t pending w = (q, t1, w1) \<Longrightarrow> honest m c w w1"
proof (induction ss arbitrary: t pending w)
  case (Cons s ss)
  let ?env = "cli_env m c env" and ?t = "t\<lparr>ut_stage := Cleaning\<rparr>"
  obtain a wa where a: "save_task ?env ?t w = (a, wa)" by fastforce
  obtain b wb where b: "call ?env (RemoveOldImage s (pair_image s (ut_original t))) wa = (b, wb)" by fastforce
  obtain d wd where d: "save_task ?env ?t wb = (d, wd)" by fastforce
  note ha = honest_steps(1) [OF a, of m c]
  have hb: "honest m c w wb" using ha honest_steps(3) [OF b] by (rule honest_trans)
  have hd: "honest m c w wd" using hb honest_steps(1) [OF d] by (rule honest_trans)
  show ?case using Cons a b d ha hd honest_trans [OF hd] by (auto simp: Let_def split: option.splits)
qed simp

lemma resume_cleanup_honest:
  assumes "resume_cleanup (cli_env m c env) t w = (q, w1)"
  shows "honest m c w w1"
proof -
  obtain r t2 w2 where a: "clean_services (cli_env m c env) [Backend, Web] t False w = (r, t2, w2)" by (metis prod_cases3)
  note h = clean_services_honest [OF a]
  show ?thesis using assms a h honest_steps(2) honest_trans [OF h]
    by (auto simp: resume_cleanup_def simp del: clean_services.simps split: sum.splits)
qed

lemma run_answered:
  assumes "run fuel (cli_env m c env) window interval t w = Some w1" and "wd_log w = []"
  shows "answered m c (wd_log w1)"
proof -
  let ?env = "cli_env m c env"
  obtain q w2 where steps: "run_steps ?env upgrade_steps t w = (q, w2)" by fastforce
  note h2 = run_steps_honest [OF steps]
  have "honest m c w w1"
  proof (cases q)
    case None
    then show ?thesis using assms(1) steps h2 by (simp add: run_def)
  next
    case (Some t2)
    obtain r t3 w3 where st: "stabilize fuel ?env window interval t2 w2 = Some (r, t3, w3)"
      using assms(1) steps Some by (auto simp: run_def split: option.splits prod.splits)
    have h3: "honest m c w w3" using h2 stabilize_from_honest [OF st [unfolded stabilize_def]] by (rule honest_trans)
    obtain x wx where rc: "resume_cleanup ?env t3 w3 = (x, wx)" by fastforce
    show ?thesis
      using assms(1) steps Some st rc h3 honest_trans [OF h3] handle_failure_honest [of m c w3] resume_cleanup_honest [OF rc]
      by (cases r) (auto simp: run_def)
  qed
  then show ?thesis using assms(2) by (simp add: honest_def)
qed

end
