(* ===== verification/SuPlatformTheorems.thy ===== *)
theory SuPlatformTheorems
  imports SuCli SuTheorems
begin

text \<open>
  The properties of the docker platform: which commands it can run at all, when it removes an
  image, that the images it reports are accepted by every later call, and what the order the
  manager keeps between platform calls means for the commands behind them.
\<close>

section \<open>Commands behind a log of the manager\<close>

lemma grown_subset: "grown P a b \<Longrightarrow> set a \<subseteq> set b"
  by (auto simp: grown_def)

lemma replay_grown:
  assumes "trusted c"
  shows "set (replay m c earlier) \<subseteq> set (replay m c (later @ earlier))"
proof (induction later)
  case (Cons e later)
  show ?case
  proof (cases e)
    case (Called pc ok)
    obtain r log1 where "cli_call m c pc (replay m c (later @ earlier)) = (r, log1)" by fastforce
    with Cons Called grown_subset [OF cli_call_grown [OF assms this]] show ?thesis by auto
  qed (use Cons in auto)
qed simp

lemma answered_call:
  assumes "answered m c log" and "Called pc True \<in> set log"
  obtains earlier later x where "log = later @ Called pc True # earlier"
    "cli_call m c pc (replay m c earlier) = (Inr x, replay m c (Called pc True # earlier))"
proof -
  from assms(2) obtain later earlier where split: "log = later @ Called pc True # earlier" by (meson split_list)
  with assms(1) answered_split have "error_of (cli_answer m c earlier pc) = None" by fastforce
  then obtain x where "fst (cli_call m c pc (replay m c earlier)) = Inr x"
    by (auto simp: cli_answer_def error_of_def split: sum.splits)
  with split show ?thesis by (intro that) (auto intro: prod_eqI)
qed

lemma called_ran:
  assumes "trusted c" and "answered m c log" and "Called pc True \<in> set log"
    and "\<And>x log0 log1. cli_call m c pc log0 = (Inr x, log1) \<Longrightarrow> e \<in> set log1"
  shows "e \<in> set (replay m c log)"
  using assms(2,3)
proof (rule answered_call)
  fix earlier later x
  assume "log = later @ Called pc True # earlier"
    and "cli_call m c pc (replay m c earlier) = (Inr x, replay m c (Called pc True # earlier))"
  then show ?thesis using assms(4) replay_grown [OF assms(1), of m "Called pc True # earlier" later] by auto
qed

definition pulled :: "machine \<Rightarrow> platform_config \<Rightarrow> service \<Rightarrow> image_pair \<Rightarrow> pevent list \<Rightarrow> bool" where
  "pulled m c s p cmds \<longleftrightarrow> Ran (pull_command (pin (fixed_repository s) (im_digest (pair_image s p)))) True \<in> set cmds"

definition tagged :: "machine \<Rightarrow> service \<Rightarrow> string \<Rightarrow> pevent list \<Rightarrow> bool" where
  "tagged m s task cmds \<longleftrightarrow>
     (\<exists>i u. mx_uuid m task = Some u \<and> Ran (tag_command i (rollback_alias s u)) True \<in> set cmds)"

definition dumped :: "platform_config \<Rightarrow> pevent list \<Rightarrow> bool" where
  "dumped c cmds \<longleftrightarrow> (\<exists>temp path. Ran (dump_command c temp) True \<in> set cmds \<and> Renamed temp path \<in> set cmds)"

lemma map_sum_Inr:
  "map_sum id f q = Inr y \<longleftrightarrow> (\<exists>x. q = Inr x \<and> y = f x)"
  "Inr y = map_sum id f q \<longleftrightarrow> (\<exists>x. q = Inr x \<and> y = f x)"
  by (cases q; auto)+

lemma prepared_commands:
  assumes "trusted c" and "answered m c log" and "prepared i p log"
  shows "pulled m c s p (replay m c log)" and "tagged m s i (replay m c log)" and "dumped c (replay m c log)"
proof -
  have ran: "\<exists>pc. call_matches a i p pc \<and> Called pc True \<in> set log" if "a \<in> set preparations" for a
    using assms(3) that by (auto simp: prepared_def succeeded_def)
  from ran [of "ActPull s"] have pull: "Called (PullTarget s (pair_image s p)) True \<in> set log"
    by (cases s) (auto simp: preparations_def)
  show "pulled m c s p (replay m c log)" unfolding pulled_def
    by (rule called_ran [OF assms(1,2) pull])
      (use assms(1) in \<open>auto simp: answer_eqs map_sum_Inr trusted_def dest: pull_target_ok\<close>)
  from ran [of "ActAlias s"] obtain im where tag: "Called (CreateRollbackAlias s im i) True \<in> set log"
    by (cases s) (auto simp: preparations_def)
  from assms(2) tag show "tagged m s i (replay m c log)"
  proof (rule answered_call)
    fix earlier later x
    assume log: "log = later @ Called (CreateRollbackAlias s im i) True # earlier"
      and "cli_call m c (CreateRollbackAlias s im i) (replay m c earlier) =
        (Inr x, replay m c (Called (CreateRollbackAlias s im i) True # earlier))"
    then show ?thesis
      using create_rollback_alias_ok replay_grown [OF assms(1), of m "Called (CreateRollbackAlias s im i) True # earlier" later]
      by (fastforce simp: tagged_def map_sum_Inr split: prod.splits)
  qed
  from ran [of ActBackup] have dump: "Called (BackupDatabase i) True \<in> set log"
    by (auto simp: preparations_def)
  from assms(2) dump show "dumped c (replay m c log)"
  proof (rule answered_call)
    fix earlier later x
    assume log: "log = later @ Called (BackupDatabase i) True # earlier"
      and "cli_call m c (BackupDatabase i) (replay m c earlier) =
        (Inr x, replay m c (Called (BackupDatabase i) True # earlier))"
    then show ?thesis
      using backup_database_ok replay_grown [OF assms(1), of m "Called (BackupDatabase i) True # earlier" later]
      by (fastforce simp: dumped_def map_sum_Inr split: prod.splits)
  qed
qed

text \<open>A positive answer of a health page since the last compose run.\<close>

definition is_compose :: "command \<Rightarrow> bool" where
  "is_compose cmd \<longleftrightarrow> take 1 (cmd_args cmd) = [''compose'']"

fun probed_since :: "string \<Rightarrow> pevent list \<Rightarrow> bool" where
  "probed_since url [] = False"
| "probed_since url (Probed u ok # cmds) = (u = url \<and> ok \<or> probed_since url cmds)"
| "probed_since url (Ran cmd ok # cmds) = (\<not> is_compose cmd \<and> probed_since url cmds)"
| "probed_since url (e # cmds) = probed_since url cmds"

lemma allowed_not_compose: "allowed m c False cmd \<Longrightarrow> \<not> is_compose cmd"
  by (erule allowed.cases)
    (auto simp: is_compose_def docker_def find_container_command_def inspect_container_command_def
      inspect_image_command_def pull_command_def tag_command_def find_users_command_def remove_command_def dump_command_def)

lemma probed_since_grown:
  "grown (allowed m c False) a b \<Longrightarrow> probed_since url a \<Longrightarrow> probed_since url b"
proof -
  have "\<forall>cmd ok. Ran cmd ok \<in> set evs \<longrightarrow> allowed m c False cmd \<Longrightarrow> probed_since url a \<Longrightarrow> probed_since url (evs @ a)" for evs
  proof (induction evs)
    case (Cons e evs)
    then show ?case by (cases e) (auto dest: allowed_not_compose)
  qed simp
  then show "grown (allowed m c False) a b \<Longrightarrow> probed_since url a \<Longrightarrow> probed_since url b"
    by (auto simp: grown_def)
qed

lemma healthy_probed:
  assumes "trusted c" and "answered m c log" and "healthy_now s log"
  shows "probed_since (health_url c s) (replay m c log)"
  using assms(2,3)
proof (induction log)
  case (Cons e log)
  show ?case
  proof (cases e)
    case (Called pc ok)
    obtain r log1 where call: "cli_call m c pc (replay m c log) = (r, log1)" by fastforce
    show ?thesis
    proof (cases "pc = WaitHealthy s")
      case True
      then have "ok" using Cons.prems Called by simp
      then have "\<exists>x. r = Inr x" using Cons.prems Called call
        by (auto simp: cli_answer_def error_of_def split: sum.splits)
      then have "\<exists>rest. log1 = Probed (health_url c s) True # rest"
        using call True by (auto simp: answer_eqs map_sum_Inr wait_healthy_def dest: wait_healthy_loop_ok)
      then show ?thesis using Called call by auto
    next
      case False
      then have "healthy_now s log" "\<not> deploying pc" using Cons.prems(2) Called by (cases pc; auto split: if_splits)+
      then show ?thesis
        using Cons Called call cli_call_grown [OF assms(1) call] probed_since_grown by auto
    qed
  qed (use Cons in auto)
qed simp


section \<open>A concrete machine\<close>

definition demo_hash :: "service \<Rightarrow> string" where
  "demo_hash s = ''sha256:'' @ replicate 64 (case s of Backend \<Rightarrow> CHR ''a'' | Web \<Rightarrow> CHR ''b'')"

lemma demo_hash_ok [simp]: "is_sha256 (demo_hash s)"
  by (cases s) (simp_all add: is_sha256_iff demo_hash_def is_lower_hex_def is_digit_def byte_def list_all_iff)

lemma demo_hash_nonempty [simp]: "demo_hash s \<noteq> []"
  by (simp add: demo_hash_def)

lemma demo_hash_eq [simp]: "demo_hash s = demo_hash t \<longleftrightarrow> s = t"
  by (cases s; cases t; simp add: demo_hash_def)

definition demo_config :: platform_config where
  "demo_config = \<lparr>pf_project = fixed_project_name, pf_compose_file = ''/c'', pf_env_file = ''/e'', pf_state_dir = ''/s'',
     pf_backup_dir = ''/b'', pf_backend_repo = fixed_backend_repository, pf_web_repo = fixed_web_repository,
     pf_backend_health = fixed_backend_health_url, pf_web_health = fixed_web_health_url, pf_health_timeout = 1,
     pf_has_client = True, pf_pg_host = [], pf_pg_port = [], pf_pg_database = [], pf_pg_user = [], pf_pg_password = []\<rparr>"

lemma demo_config_ok: "new_cli_platform demo_config = Inr demo_config"
  by (simp add: new_cli_platform_def demo_config_def is_abs_def has_prefix_def)

lemma demo_repository [simp]: "repository_for demo_config s = fixed_repository s"
  using valid_config(2) [OF demo_config_ok] .

text \<open>Docker answers a query with its last argument, which decodes to a healthy container or the image
  of the service it names; compose fails.\<close>

definition demo_container :: "service \<Rightarrow> container_inspect" where
  "demo_container s = \<lparr>ct_image = demo_hash s, ct_config_image = fixed_repository s @ '':stable'',
     ct_labels = (\<lambda>l. if l = ''com.docker.compose.project'' then fixed_project_name else service_name s),
     ct_health = Some ''healthy''\<rparr>"

definition demo_inspected :: "service \<Rightarrow> image_inspect" where
  "demo_inspected s = \<lparr>ii_id = demo_hash s, ii_tags = [], ii_digests = [pin (fixed_repository s) (demo_hash s)],
     ii_labels = (\<lambda>l. ''v1'')\<rparr>"

definition demo_label :: "service \<Rightarrow> string" where
  "demo_label s = ''label=com.docker.compose.service='' @ service_name s"

definition demo_machine :: machine where
  "demo_machine = \<lparr>mx_run = (\<lambda>log cmd. if is_compose cmd then None else Some (last (cmd_args cmd))),
     mx_file = (\<lambda>log step. True), mx_temp = (\<lambda>log. ''t''), mx_size = (\<lambda>log f. Some 1), mx_stamp = (\<lambda>log. []),
     mx_join = (\<lambda>d f. f), mx_yaml = (\<lambda>ov. Some []),
     mx_containers = (\<lambda>out. Some [demo_container (if out = demo_label Backend then Backend else Web)]),
     mx_images = (\<lambda>out. Some [demo_inspected (if out = demo_hash Backend \<or> out = pin fixed_backend_repository (demo_hash Backend)
        then Backend else Web)]),
     mx_uuid = Some, mx_probe = (\<lambda>log url. True), mx_sleep = (\<lambda>log. False), mx_semver = demo_semver\<rparr>"

lemma demo_machine_simps [simp]:
  "mx_run demo_machine log cmd = (if is_compose cmd then None else Some (last (cmd_args cmd)))"
  "mx_file demo_machine log step" "mx_temp demo_machine log = ''t''" "mx_size demo_machine log f = Some 1"
  "mx_stamp demo_machine log = []" "mx_join demo_machine d f = f" "mx_yaml demo_machine ov = Some []"
  "mx_uuid demo_machine = Some" "mx_semver demo_machine = demo_semver"
  by (simp_all add: demo_machine_def)

lemma demo_version [simp]: "valid_version demo_machine v"
  by (simp add: valid_version_def validate_version_def demo_semver_def)

lemma demo_decoded [simp]:
  "mx_containers demo_machine (demo_label s) = Some [demo_container s]"
  "mx_images demo_machine (demo_hash s) = Some [demo_inspected s]"
  "mx_images demo_machine (pin (fixed_repository s) (demo_hash s)) = Some [demo_inspected s]"
proof -
  have "pin fixed_web_repository (demo_hash Web) \<noteq> demo_hash Backend"
    by (simp add: pin_def fixed_web_repository_def demo_hash_def)
  moreover have "pin fixed_web_repository (demo_hash Web) \<noteq> pin fixed_backend_repository (demo_hash Backend)"
    by (simp add: pin_def fixed_web_repository_def fixed_backend_repository_def)
  moreover have "demo_hash Web \<noteq> pin fixed_backend_repository (demo_hash Backend)"
    by (simp add: pin_def fixed_backend_repository_def demo_hash_def)
  ultimately show "mx_images demo_machine (demo_hash s) = Some [demo_inspected s]"
    "mx_images demo_machine (pin (fixed_repository s) (demo_hash s)) = Some [demo_inspected s]"
    by (cases s; simp add: demo_machine_def)+
  show "mx_containers demo_machine (demo_label s) = Some [demo_container s]"
    by (cases s) (simp_all add: demo_machine_def demo_label_def)
qed

lemma demo_label_field [simp]: "str_fields (demo_label s) = [demo_label s]"
proof -
  have "str_fields (demo_label Backend) = [demo_label Backend]" by code_simp
  moreover have "str_fields (demo_label Web) = [demo_label Web]" by code_simp
  ultimately show ?thesis by (cases s) simp_all
qed

definition demo_image :: "service \<Rightarrow> image" where
  "demo_image s = \<lparr>im_repository = fixed_repository s, im_version = ''v1'', im_digest = demo_hash s, im_id = demo_hash s,
     im_alias = [], im_published = None\<rparr>"

lemma demo_last [simp]:
  "run_command demo_machine (find_container_command s) log = (Some (demo_label s), Ran (find_container_command s) True # log)"
  "run_command demo_machine (inspect_container_command cid) log = (Some cid, Ran (inspect_container_command cid) True # log)"
  "run_command demo_machine (inspect_image_command i) log = (Some i, Ran (inspect_image_command i) True # log)"
  "run_command demo_machine (pull_command i) log = (Some i, Ran (pull_command i) True # log)"
  "run_command demo_machine (tag_command i u) log = (Some u, Ran (tag_command i u) True # log)"
  "\<exists>out. run_command demo_machine (dump_command c f) log = (Some out, Ran (dump_command c f) True # log)"
  "run_command demo_machine (compose_command c s f) log = (None, Ran (compose_command c s f) False # log)"
  by (simp_all add: run_command_def is_compose_def docker_def find_container_command_def demo_label_def
      inspect_container_command_def inspect_image_command_def pull_command_def tag_command_def dump_command_def
      compose_command_def)

lemma demo_trim [simp]: "trim_prefix (pin r d) (r @ ''@'') = d" "has_prefix (pin r d) (r @ ''@'')"
  using trim_prefix_append [of "r @ ''@''" d] has_prefix_append [of "r @ ''@''" d] by (simp_all add: pin_def)

lemma demo_parse [simp]:
  "eid = [] \<or> eid = demo_hash s \<Longrightarrow> out = demo_hash s \<or> out = pin (fixed_repository s) (demo_hash s) \<Longrightarrow>
   parse_image_inspect demo_machine out (fixed_repository s) eid = Inr (demo_image s)"
  by (auto simp: parse_image_inspect_def single_def demo_inspected_def demo_image_def Let_def simp del: append_Cons append_Nil)


definition demo_images :: image_pair where
  "demo_images = \<lparr>ip_backend = demo_image Backend, ip_web = demo_image Web\<rparr>"

lemma demo_inspect:
  "inspect_service demo_machine demo_config s log = (Inr (demo_image s, ''healthy''),
     [Ran (inspect_image_command (demo_hash s)) True, Ran (inspect_container_command (demo_label s)) True,
      Ran (find_container_command s) True] @ log)"
  by (simp add: inspect_service_def inspect_service_with_def single_def demo_container_def
      reference_uses_repository_def has_prefix_def Let_def)

lemma demo_answers:
  "cli_answer demo_machine demo_config log (InspectService s) = Inr (GotImage (demo_image s))"
  "cli_answer demo_machine demo_config log (CreateRollbackAlias s (demo_image s) t) =
     Inr (GotImage ((demo_image s)\<lparr>im_alias := rollback_alias s t\<rparr>))"
  "\<exists>path. cli_answer demo_machine demo_config log (BackupDatabase t) = Inr (GotPath path)"
  "cli_answer demo_machine demo_config log (PullTarget s (demo_image s)) = Inr Completed"
  "cli_answer demo_machine demo_config log (DeployTarget Backend demo_images t) = Inl (Message ''deploy compose service'')"
proof -
  show "cli_answer demo_machine demo_config log (InspectService s) = Inr (GotImage (demo_image s))"
    by (simp add: cli_answer_def demo_inspect image_answer_def)
  show "cli_answer demo_machine demo_config log (CreateRollbackAlias s (demo_image s) t) =
     Inr (GotImage ((demo_image s)\<lparr>im_alias := rollback_alias s t\<rparr>))"
    by (simp add: cli_answer_def create_rollback_alias_def demo_image_def Let_def)
  show "\<exists>path. cli_answer demo_machine demo_config log (BackupDatabase t) = Inr (GotPath path)"
  proof -
    obtain out where "run_command demo_machine (dump_command demo_config ''t'') (replay demo_machine demo_config log) =
        (Some out, Ran (dump_command demo_config ''t'') True # replay demo_machine demo_config log)"
      using demo_last(6) by blast
    then show ?thesis by (simp add: cli_answer_def backup_database_def Let_def)
  qed
  show "cli_answer demo_machine demo_config log (PullTarget s (demo_image s)) = Inr Completed"
    by (simp add: cli_answer_def pull_target_def validate_target_image_def demo_image_def Let_def unit_answer_def
        demo_parse [unfolded demo_image_def])
  show "cli_answer demo_machine demo_config log (DeployTarget Backend demo_images t) = Inl (Message ''deploy compose service'')"
    using trusted_repositories [of demo_config]
    by (simp add: cli_answer_def deploy_target_def validate_target_pair_def validate_target_image_def demo_images_def
        demo_image_def write_override_def compose_up_def unit_answer_def trusted_def Let_def)
qed


text \<open>An upgrade on that machine: everything up to the first deployment succeeds, the deployment fails and
  the context is cancelled.\<close>

definition demo_cli :: env where
  "demo_cli = cli_env demo_machine demo_config ((demo_env (\<lambda>c. None))\<lparr>en_cancelled := (\<lambda>l. Some (Sentinel ContextCanceled))\<rparr>)"

definition demo_cli_update :: update_task where
  "demo_cli_update = demo_update\<lparr>ut_target := demo_images\<rparr>"

definition demo_state :: "update_task \<Rightarrow> event list \<Rightarrow> world" where
  "demo_state t log = \<lparr>wd_file = Some \<lparr>sf_size = 0, sf_documents =
     [Inr \<lparr>ps_last_check = Some demo_checked, ps_task = Some t\<rparr>]\<rparr>, wd_log = log\<rparr>"

lemma demo_state_log [simp]: "wd_log (demo_state t log) = log" "log_event e (demo_state t log) = demo_state t (e # log)"
  by (simp_all add: demo_state_def log_event_def)

lemma demo_cli_file:
  "load_state demo_cli = load_state (demo_env (\<lambda>c. None))" "save_state demo_cli = save_state (demo_env (\<lambda>c. None))"
  "en_other demo_cli = en_other (demo_env (\<lambda>c. None))"
  by (intro ext; simp add: demo_cli_def cli_env_def load_state_def save_state_def)+

lemma demo_cli_save:
  "ut_id old = ut_id t \<Longrightarrow> save_task demo_cli t (demo_state old log) = (None, demo_state t (Stored t True # log))"
proof -
  have "save_task demo_cli = save_task (demo_env (\<lambda>c. None))"
    by (intro ext) (simp only: save_task_def acquire_def demo_cli_file)
  then show "ut_id old = ut_id t \<Longrightarrow> ?thesis" by (simp add: demo_state_def demo_save)
qed

lemma demo_cli_simps:
  "en_inspect demo_cli log s = image_result (cli_answer demo_machine demo_config log (InspectService s))"
  "en_alias demo_cli log s i t = with_error empty_image (image_result (cli_answer demo_machine demo_config log (CreateRollbackAlias s i t)))"
  "en_backup demo_cli log t = with_error [] (path_result (cli_answer demo_machine demo_config log (BackupDatabase t)))"
  "en_call demo_cli log pc = error_of (cli_answer demo_machine demo_config log pc)"
  "en_cancelled demo_cli log = Some (Sentinel ContextCanceled)"
  by (simp_all add: demo_cli_def cli_env_def)

text \<open>One step of the upgrade, by what its call answers.\<close>

lemma demo_step:
  assumes "ut_id old = ut_id t"
  shows "perform demo_cli st (ActInspect s) t (demo_state old log) =
      (let t1 = t\<lparr>ut_stage := st\<rparr>; t2 = t1\<lparr>ut_original := set_pair_image s (demo_image s) (ut_original t1)\<rparr>
       in (None, t2, demo_state t2 (Stored t2 True # Called (InspectService s) True # Stored t1 True # log)))"
    and "pair_image s (ut_original t) = demo_image s \<Longrightarrow> perform demo_cli st (ActAlias s) t (demo_state old log) =
      (let t1 = t\<lparr>ut_stage := st\<rparr>;
           t2 = t1\<lparr>ut_original := set_pair_image s ((demo_image s)\<lparr>im_alias := rollback_alias s (ut_id t)\<rparr>) (ut_original t1)\<rparr>
       in (None, t2, demo_state t2 (Stored t2 True # Called (CreateRollbackAlias s (demo_image s) (ut_id t)) True # Stored t1 True # log)))"
    and "\<exists>path. perform demo_cli st ActBackup t (demo_state old log) =
      (let t1 = t\<lparr>ut_stage := st\<rparr>; t2 = t1\<lparr>ut_backup_path := path\<rparr>
       in (None, t2, demo_state t2 (Stored t2 True # Called (BackupDatabase (ut_id t)) True # Stored t1 True # log)))"
    and "ut_target t = demo_images \<Longrightarrow> perform demo_cli st (ActPull s) t (demo_state old log) =
      (let t1 = t\<lparr>ut_stage := st\<rparr>
       in (None, t1, demo_state t1 (Stored t1 True # Called (PullTarget s (demo_image s)) True # Stored t1 True # log)))"
    and "ut_target t = demo_images \<Longrightarrow> perform demo_cli st (ActDeploy Backend) t (demo_state old log) =
      (let t1 = t\<lparr>ut_stage := st\<rparr>
       in (Some (Message ''deploy compose service''), t1,
           demo_state t1 (Called (DeployTarget Backend demo_images (ut_id t)) False # Stored t1 True # log)))"
proof -
  obtain path where path: "cli_answer demo_machine demo_config (Stored (t\<lparr>ut_stage := st\<rparr>) True # log) (BackupDatabase (ut_id t)) =
      Inr (GotPath path)" using demo_answers(3) by blast
  show "perform demo_cli st (ActInspect s) t (demo_state old log) =
      (let t1 = t\<lparr>ut_stage := st\<rparr>; t2 = t1\<lparr>ut_original := set_pair_image s (demo_image s) (ut_original t1)\<rparr>
       in (None, t2, demo_state t2 (Stored t2 True # Called (InspectService s) True # Stored t1 True # log)))"
    using assms by (simp add: perform_def demo_cli_save demo_cli_simps demo_answers image_result_def called_def Let_def)
  show "pair_image s (ut_original t) = demo_image s \<Longrightarrow> perform demo_cli st (ActAlias s) t (demo_state old log) =
      (let t1 = t\<lparr>ut_stage := st\<rparr>;
           t2 = t1\<lparr>ut_original := set_pair_image s ((demo_image s)\<lparr>im_alias := rollback_alias s (ut_id t)\<rparr>) (ut_original t1)\<rparr>
       in (None, t2, demo_state t2 (Stored t2 True # Called (CreateRollbackAlias s (demo_image s) (ut_id t)) True # Stored t1 True # log)))"
    using assms by (simp add: perform_def demo_cli_save demo_cli_simps demo_answers image_result_def with_error_def called_def Let_def)
  show "\<exists>path. perform demo_cli st ActBackup t (demo_state old log) =
      (let t1 = t\<lparr>ut_stage := st\<rparr>; t2 = t1\<lparr>ut_backup_path := path\<rparr>
       in (None, t2, demo_state t2 (Stored t2 True # Called (BackupDatabase (ut_id t)) True # Stored t1 True # log)))"
    using assms path by (intro exI [of _ path])
      (simp add: perform_def demo_cli_save demo_cli_simps path_result_def with_error_def called_def Let_def)
  show "ut_target t = demo_images \<Longrightarrow> perform demo_cli st (ActPull s) t (demo_state old log) =
      (let t1 = t\<lparr>ut_stage := st\<rparr>
       in (None, t1, demo_state t1 (Stored t1 True # Called (PullTarget s (demo_image s)) True # Stored t1 True # log)))"
    using assms by (cases s) (simp_all add: perform_def demo_cli_save demo_cli_simps demo_answers call_def called_def Let_def demo_images_def)
  show "ut_target t = demo_images \<Longrightarrow> perform demo_cli st (ActDeploy Backend) t (demo_state old log) =
      (let t1 = t\<lparr>ut_stage := st\<rparr>
       in (Some (Message ''deploy compose service''), t1,
           demo_state t1 (Called (DeployTarget Backend demo_images (ut_id t)) False # Stored t1 True # log)))"
    using assms by (simp add: perform_def demo_cli_save demo_cli_simps demo_answers call_def called_def Let_def)
qed

lemma demo_cli_run:
  "\<exists>w1 earlier. run 0 demo_cli 0 0 demo_cli_update (demo_state demo_cli_update []) = Some w1 \<and>
     wd_log w1 = Called (DeployTarget Backend demo_images ''id'') False # earlier"
proof -
  have ids: "ut_id demo_cli_update = ''id''" "ut_target demo_cli_update = demo_images"
    by (simp_all add: demo_cli_update_def demo_update_def new_task_def)
  obtain path where "\<And>old t st log. ut_id old = ut_id t \<Longrightarrow> perform demo_cli st ActBackup t (demo_state old log) =
      (let t1 = t\<lparr>ut_stage := st\<rparr>; t2 = t1\<lparr>ut_backup_path := path old t st log\<rparr>
       in (None, t2, demo_state t2 (Stored t2 True # Called (BackupDatabase (ut_id t)) True # Stored t1 True # log)))"
    using demo_step(3) by metis
  then show ?thesis
    by (simp add: run_def upgrade_steps_def demo_step ids Let_def handle_failure_def demo_cli_simps)
qed


section \<open>Properties\<close>

lemma trusted_config: "new_cli_platform c = Inr c1 \<Longrightarrow> c1 = c \<and> trusted c"
  using valid_config by (auto simp: trusted_def)

text \<open>C20: Every command the platform runs is one of twelve fixed shapes with checked arguments: images are
pulled by digest and from the two fixed repositories, only images named by a content hash are
tagged or removed, only tags of these repositories and rollback aliases are removed, and
containers are recreated only by a deployment.  Earlier commands are never retracted.\<close>

theorem platform_commands_allowlisted:
  assumes "new_cli_platform c = Inr c1" and "cli_call m c1 pc log = (r, log1)"
  shows "\<exists>evs. log1 = evs @ log \<and> list_all (\<lambda>e. case e of Ran cmd ok \<Rightarrow> allowed m c1 (deploying pc) cmd | _ \<Rightarrow> True) evs"
proof -
  have "trusted c1" and "c1 = c" using trusted_config [OF assms(1)] by simp_all
  from cli_call_grown [OF this(1) assms(2)] obtain evs
    where evs: "log1 = evs @ log" "\<And>cmd ok. Ran cmd ok \<in> set evs \<Longrightarrow> allowed m c1 (deploying pc) cmd"
    by (auto simp: grown_def)
  then show ?thesis by (intro exI [of _ evs]) (auto simp: list_all_iff split: pevent.splits)
qed

theorem platform_commands_allowlisted_witness:
  "\<exists>evs. snd (cli_call demo_machine demo_config (InspectService Web) []) = evs @ [] \<and>
     list_all (\<lambda>e. case e of Ran cmd ok \<Rightarrow> allowed demo_machine demo_config False cmd | _ \<Rightarrow> True) evs \<and> length evs = 3"
  using platform_commands_allowlisted [OF demo_config_ok prod.collapse [symmetric], of demo_machine "InspectService Web" "[]"]
  by (auto simp: demo_inspect image_answer_def)

definition docker_ready :: "machine \<Rightarrow> platform_config \<Rightarrow> platform_call \<Rightarrow> pevent list \<Rightarrow> bool" where
  "docker_ready m c pc cmds =
     (case pc of
        DeployTarget s p i \<Rightarrow> pulled m c Backend p cmds \<and> pulled m c Web p cmds \<and>
          tagged m Backend i cmds \<and> tagged m Web i cmds \<and> dumped c cmds
      | RemoveOldImage s i \<Rightarrow> probed_since fixed_backend_health_url cmds \<and> probed_since fixed_web_health_url cmds
      | _ \<Rightarrow> True)"

text \<open>C21: The upgrade manager on docker: when a target is deployed, compose is reached only with both
images pulled by the task's own digests, both running images tagged for the way back and the
database dumped and put in place; and an old image is removed only if, since compose last ran,
the health pages of both services were answered.\<close>

theorem upgrade_on_docker:
  assumes "new_cli_platform c = Inr c1"
    and "run fuel (cli_env m c1 env) window interval t w = Some w1" and "wd_log w = []"
    and "wd_log w1 = later @ Called pc ok # earlier"
  shows "docker_ready m c1 pc (replay m c1 earlier)"
proof -
  have trusted: "trusted c1" and "c1 = c" using trusted_config [OF assms(1)] by simp_all
  then have urls: "health_url c1 Backend = fixed_backend_health_url" "health_url c1 Web = fixed_web_health_url"
    using valid_config [OF assms(1)] by simp_all
  have "answered m c1 (wd_log w1)" using run_answered assms(2,3) .
  then have answered: "answered m c1 earlier" unfolding assms(4) using answered_split by blast
  have "permitted (ut_id t) (ut_target t) (Called pc ok) earlier"
    using run_orderly [OF assms(2,3)] unfolding assms(4) by (rule orderly_split)
  then show ?thesis
    using prepared_commands [OF trusted answered] healthy_probed [OF trusted answered, of Backend, unfolded urls]
      healthy_probed [OF trusted answered, of Web, unfolded urls]
    by (cases pc) (auto simp: permitted_simps docker_ready_def simp del: health_url.simps)
qed

theorem upgrade_on_docker_witness:
  "\<exists>earlier w1. run 0 demo_cli 0 0 demo_cli_update (demo_state demo_cli_update []) = Some w1 \<and>
     wd_log w1 = [] @ Called (DeployTarget Backend demo_images ''id'') False # earlier \<and>
     docker_ready demo_machine demo_config (DeployTarget Backend demo_images ''id'') (replay demo_machine demo_config earlier)"
proof -
  obtain w1 earlier where run: "run 0 demo_cli 0 0 demo_cli_update (demo_state demo_cli_update []) = Some w1"
    and log: "wd_log w1 = [] @ Called (DeployTarget Backend demo_images ''id'') False # earlier"
    using demo_cli_run by auto
  from upgrade_on_docker [OF demo_config_ok run [unfolded demo_cli_def] demo_state_log(1) log] run log
  show ?thesis by blast
qed


lemma inspect_service_typed:
  assumes "inspect_service m c s log = (Inr (i, health), log1)"
  shows "im_repository i = repository_for c s \<and> is_sha256 (im_id i) \<and> is_sha256 (im_digest i) \<and>
    valid_version m (im_version i) \<and> im_alias i = []"
proof -
  obtain out eid where "parse_image_inspect m out (repository_for c s) eid = Inr i"
    using assms by (auto simp: inspect_service_def inspect_service_with_def Let_def
        split: option.splits list.splits if_splits sum.splits prod.splits)
  moreover from this have "is_sha256 (im_digest i)" using inspect_image_ok by blast
  ultimately show ?thesis
    by (auto simp: parse_image_inspect_def Let_def split: option.splits if_splits sum.splits)
qed

text \<open>C40: What the platform reports has the type its other calls expect: an inspected service image with
its rollback alias is accepted as rollback identity and as cleanup image of that service, so a
roll-back or a cleanup is never refused for the shape of the image that was recorded.\<close>

theorem inspected_image_typed:
  assumes "inspect_service m c s log = (Inr (i, health), log1)"
    and "mx_uuid m task = Some task" and "create_rollback_alias m c s i task log2 = (Inr j, log3)"
  shows "validate_rollback_identity m c s j task = None \<and> validate_cleanup_image m j s (repository_for c s) = None"
proof -
  have j: "j = i\<lparr>im_alias := rollback_alias s task\<rparr>"
    using assms(2,3) by (auto simp: create_rollback_alias_def Let_def split: if_splits option.splits prod.splits)
  have "rollback_alias s task = rollback_alias s [] @ task" by (simp add: rollback_alias_def)
  then show ?thesis using inspect_service_typed [OF assms(1)] assms(2) j
    by (simp add: validate_rollback_identity_def validate_cleanup_image_def Let_def)
qed

theorem inspected_image_typed_witness:
  "\<exists>j. validate_rollback_identity demo_machine demo_config Web j ''id'' = None \<and>
     validate_cleanup_image demo_machine j Web fixed_web_repository = None \<and> im_id j = demo_hash Web"
proof -
  have "create_rollback_alias demo_machine demo_config Web (demo_image Web) ''id'' [] =
      (Inr ((demo_image Web)\<lparr>im_alias := rollback_alias Web ''id''\<rparr>),
       [Ran (tag_command (demo_hash Web) (rollback_alias Web ''id'')) True])"
    by (simp add: create_rollback_alias_def demo_image_def Let_def del: repository_for.simps)
  from inspected_image_typed [OF demo_inspect _ this] show ?thesis
    by (intro exI [of _ "(demo_image Web)\<lparr>im_alias := rollback_alias Web ''id''\<rparr>"]) (simp add: demo_image_def del: repository_for.simps)
qed

end
