(* ===== verification/AgentConfig.thy ===== *)
theory AgentConfig
  imports Json GoErrors
begin

text \<open>
  \<^verbatim>\<open>agent/internal/agent/config.go\<close>: the configuration of an Agent, pending or enrolled, and how a file
  is replaced: written beside the old one, closed, and renamed over it.  A file is its JSON document or
  absent; \<open>fault\<close> gives the failure of each step by the text the program wraps it in.  Parsing a URL
  is a parameter, the scheme and the host it finds.
\<close>

section \<open>Replacing a file\<close>

type_synonym fault = "string \<Rightarrow> go_error option"

fun first_fault :: "fault \<Rightarrow> string list \<Rightarrow> go_error option" where
  "first_fault fault [] = None"
| "first_fault fault (l # ls) = (case fault l of Some e \<Rightarrow> Some (Wrapped l e) | None \<Rightarrow> first_fault fault ls)"

text \<open>The steps in front of the rename; the two on the existing file only when there is one.\<close>

definition replace_steps :: "string \<Rightarrow> string \<Rightarrow> string \<Rightarrow> bool \<Rightarrow> string list" where
  "replace_steps dir temp doc exists =
     [''create '' @ dir @ '' directory'', ''secure '' @ dir @ '' directory'', ''create temporary '' @ temp,
      ''secure temporary '' @ temp, ''encode '' @ doc, ''close temporary '' @ temp] @
     (if exists then [''open existing '' @ temp @ '' for replacement'', ''close existing '' @ temp @ '' for replacement''] else []) @
     [''replace '' @ doc]"

definition replace_file ::
    "string \<Rightarrow> string \<Rightarrow> string \<Rightarrow> fault \<Rightarrow> json \<Rightarrow> json option \<Rightarrow> go_error option \<times> json option" where
  "replace_file dir temp doc fault j file =
     (case first_fault fault (replace_steps dir temp doc (file \<noteq> None)) of
        Some e \<Rightarrow> (Some e, file)
      | None \<Rightarrow> (None, Some j))"

lemma replace_file_result:
  "replace_file dir temp doc fault j file = (None, file') \<Longrightarrow> file' = Some j"
  "replace_file dir temp doc fault j file = (Some e, file') \<Longrightarrow> file' = file"
  by (auto simp: replace_file_def split: option.splits)

section \<open>The configuration\<close>

record pending_pairing =
  pn_server_url :: string
  pn_pairing_id :: string
  pn_credential :: string
  pn_expires_at :: time

record agent_config =
  cg_server_url :: string
  cg_node_id :: string
  cg_credential :: string
  cg_pending :: "pending_pairing option"

record sanitized_config =
  sc_server_url :: string
  sc_node_id :: string
  sc_pairing_id :: string
  sc_expires_at :: time

definition sanitized :: "agent_config \<Rightarrow> sanitized_config" where
  "sanitized c =
     (case cg_pending c of
        None \<Rightarrow> \<lparr>sc_server_url = cg_server_url c, sc_node_id = cg_node_id c, sc_pairing_id = [], sc_expires_at = 0\<rparr>
      | Some p \<Rightarrow> \<lparr>sc_server_url = cg_server_url c, sc_node_id = cg_node_id c, sc_pairing_id = pn_pairing_id p,
                   sc_expires_at = pn_expires_at p\<rparr>)"

text \<open>\<open>url.Parse\<close>: scheme and host.\<close>

type_synonym url_parser = "string \<Rightarrow> (string \<times> string) option"

definition is_http_url :: "url_parser \<Rightarrow> string \<Rightarrow> bool" where
  "is_http_url url v =
     (case url v of
        None \<Rightarrow> False
      | Some (scheme, host) \<Rightarrow> host \<noteq> [] \<and> (scheme = ''http'' \<or> scheme = ''https''))"

definition is_enrolled :: "url_parser \<Rightarrow> agent_config \<Rightarrow> bool" where
  "is_enrolled url c \<longleftrightarrow> cg_pending c = None \<and> cg_server_url c \<noteq> [] \<and> cg_node_id c \<noteq> [] \<and> cg_credential c \<noteq> [] \<and>
     is_http_url url (cg_server_url c)"

definition is_pending :: "url_parser \<Rightarrow> agent_config \<Rightarrow> bool" where
  "is_pending url c \<longleftrightarrow>
     (case cg_pending c of
        None \<Rightarrow> False
      | Some p \<Rightarrow> cg_server_url c = [] \<and> cg_node_id c = [] \<and> cg_credential c = [] \<and> pn_server_url p \<noteq> [] \<and>
          pn_pairing_id p \<noteq> [] \<and> pn_credential p \<noteq> [] \<and> \<not> is_zero_time (pn_expires_at p) \<and>
          is_http_url url (pn_server_url p))"

section \<open>Saving and loading\<close>

definition write_pending :: "pending_pairing \<Rightarrow> json" where
  "write_pending p = JObj [(''server_url'', JStr (pn_server_url p)), (''pairing_id'', JStr (pn_pairing_id p)),
     (''pairing_credential'', JStr (pn_credential p)), (''expires_at'', JTime (pn_expires_at p))]"

definition write_config :: "agent_config \<Rightarrow> json" where
  "write_config c = JObj (omit_empty ''server_url'' (cg_server_url c) @ omit_empty ''node_id'' (cg_node_id c) @
     omit_empty ''credential'' (cg_credential c) @ omit_none ''pending_pairing'' write_pending (cg_pending c))"

definition zero_pending :: pending_pairing where
  "zero_pending = \<lparr>pn_server_url = [], pn_pairing_id = [], pn_credential = [], pn_expires_at = 0\<rparr>"

definition zero_config :: agent_config where
  "zero_config = \<lparr>cg_server_url = [], cg_node_id = [], cg_credential = [], cg_pending = None\<rparr>"

definition pending_fields :: "pending_pairing field list" where
  "pending_fields =
     [field_of ''server_url'' read_string pn_server_url pn_server_url_update,
      field_of ''pairing_id'' read_string pn_pairing_id pn_pairing_id_update,
      field_of ''pairing_credential'' read_string pn_credential pn_credential_update,
      field_of ''expires_at'' read_time pn_expires_at pn_expires_at_update]"

definition config_fields :: "agent_config field list" where
  "config_fields =
     [field_of ''server_url'' read_string cg_server_url cg_server_url_update,
      field_of ''node_id'' read_string cg_node_id cg_node_id_update,
      field_of ''credential'' read_string cg_credential cg_credential_update,
      field_of ''pending_pairing'' (read_pointer (read_struct False pending_fields) zero_pending) cg_pending cg_pending_update]"

definition save_config :: "fault \<Rightarrow> agent_config \<Rightarrow> json option \<Rightarrow> go_error option \<times> json option" where
  "save_config fault c = replace_file ''config'' ''config'' ''agent config'' fault (write_config c)"

definition load_config :: "url_parser \<Rightarrow> json option \<Rightarrow> agent_config res" where
  "load_config url file =
     (case file of
        None \<Rightarrow> Inl (Wrapped ''open agent config'' (Sentinel ErrNotExist))
      | Some j \<Rightarrow>
        (case read_struct False config_fields j zero_config of
           None \<Rightarrow> Inl (Message ''decode agent config'')
         | Some c \<Rightarrow> if \<not> is_enrolled url c \<and> \<not> is_pending url c then Inl (Message ''agent config is incomplete'') else Inr c))"

lemma read_pending: "read_struct False pending_fields (write_pending p) zero_pending = Some p"
  by (simp add: pending_fields_def write_pending_def field_of_def set_member_def zero_pending_def)

lemma read_config: "read_struct False config_fields (write_config c) zero_config = Some c"
proof -
  have "write_pending p \<noteq> JNull" for p by (simp add: write_pending_def)
  then have "read_pointer (read_struct False pending_fields) zero_pending (write_pending p) None = Some (Some p)" for p
    using read_pending [of p] by (cases "write_pending p") simp_all
  then show ?thesis
    by (cases "cg_server_url c = []"; cases "cg_node_id c = []"; cases "cg_credential c = []"; cases "cg_pending c")
      (simp_all add: config_fields_def write_config_def field_of_def set_member_def omit_none_def omit_empty_def zero_config_def)
qed

text \<open>A configuration that was saved is loaded back as it was when it is enrolled or pending, and refused
otherwise; a failed save leaves the file that was there, and what the sanitized view shows contains
neither of the two credentials.\<close>

theorem config_roundtrip:
  assumes "save_config fault c file = (r, file')"
  shows "(case r of
      None \<Rightarrow> load_config url file' = (if is_enrolled url c \<or> is_pending url c then Inr c else Inl (Message ''agent config is incomplete''))
    | Some e \<Rightarrow> file' = file) \<and>
    sanitized (c\<lparr>cg_credential := x, cg_pending := map_option (pn_credential_update (\<lambda>_. y)) (cg_pending c)\<rparr>) = sanitized c"
  using assms
  by (auto simp: save_config_def load_config_def read_config sanitized_def dest: replace_file_result split: option.split)

definition demo_config :: agent_config where
  "demo_config = \<lparr>cg_server_url = ''http://ace'', cg_node_id = ''n'', cg_credential = ''secret'', cg_pending = None\<rparr>"

theorem config_roundtrip_witness:
  "load_config (\<lambda>v. Some (''http'', ''ace'')) (snd (save_config (\<lambda>l. None) demo_config None)) = Inr demo_config"
proof -
  have run: "save_config (\<lambda>l. None) demo_config None = (None, Some (write_config demo_config))"
    by (simp add: save_config_def replace_file_def replace_steps_def)
  have "is_enrolled (\<lambda>v. Some (''http'', ''ace'')) demo_config"
    by (simp add: is_enrolled_def is_http_url_def demo_config_def)
  with config_roundtrip [OF run, of "\<lambda>v. Some (''http'', ''ace'')"] run show ?thesis by simp
qed

end
