(* ===== verification/NetUsage.thy ===== *)
theory NetUsage
  imports AgentConfig GoTime
begin

text \<open>
  \<^verbatim>\<open>agent/internal/agent/network_usage.go\<close> and \<^verbatim>\<open>network.go\<close>: the traffic of a host as totals per day and per
  month, in the calendar of UTC+8, kept over restarts in a file, and as rates between samples.  The
  counters are 64-bit words and the totals wrap around as in the source; a rate is the real number that
  the source rounds.
\<close>

section \<open>State\<close>

record net_counters =
  nc_sent :: u64
  nc_received :: u64

record usage_state =
  us_schema :: int
  us_day :: string
  us_month :: string
  us_today_up :: u64
  us_today_down :: u64
  us_month_up :: u64
  us_month_down :: u64
  us_prev_sent :: u64
  us_prev_received :: u64
  us_initialized :: bool

record net_snapshot =
  sn_metrics_available :: bool
  sn_upload_rate :: real
  sn_download_rate :: real
  sn_usage_available :: bool
  sn_usage_day :: string
  sn_today_up :: u64
  sn_today_down :: u64
  sn_month_up :: u64
  sn_month_down :: u64

record usage_sampler =
  sp_loaded :: bool
  sp_state :: usage_state
  sp_rate_ready :: bool
  sp_rate_previous :: net_counters
  sp_rate_sampled_at :: time

definition zero_usage :: usage_state where
  "zero_usage = \<lparr>us_schema = 0, us_day = [], us_month = [], us_today_up = 0, us_today_down = 0, us_month_up = 0,
     us_month_down = 0, us_prev_sent = 0, us_prev_received = 0, us_initialized = False\<rparr>"

definition new_sampler :: usage_sampler where
  "new_sampler = \<lparr>sp_loaded = False, sp_state = zero_usage, sp_rate_ready = False,
     sp_rate_previous = \<lparr>nc_sent = 0, nc_received = 0\<rparr>, sp_rate_sampled_at = 0\<rparr>"

definition no_snapshot :: net_snapshot where
  "no_snapshot = \<lparr>sn_metrics_available = False, sn_upload_rate = 0, sn_download_rate = 0, sn_usage_available = False,
     sn_usage_day = [], sn_today_up = 0, sn_today_down = 0, sn_month_up = 0, sn_month_down = 0\<rparr>"

section \<open>Sampling\<close>

definition beijing :: duration where "beijing = 8 * hour"

definition usage_day :: "time \<Rightarrow> string" where "usage_day t = format_day (local_day beijing t)"
definition usage_month :: "time \<Rightarrow> string" where "usage_month t = format_month (local_day beijing t)"

text \<open>What one sample meets: the counters, the clock, the stored state and the outcome of saving.\<close>

record reading =
  rd_counters :: "net_counters res"
  rd_time :: time
  rd_load :: "usage_state res"
  rd_save :: "go_error option"

definition load_state :: "usage_state res \<Rightarrow> usage_sampler \<Rightarrow> go_error list \<times> usage_sampler" where
  "load_state loaded s =
     (if sp_loaded s then ([], s)
      else case loaded of
          Inr st \<Rightarrow> ([], s\<lparr>sp_loaded := True, sp_state := st\<rparr>)
        | Inl e \<Rightarrow> (if err_is ErrNotExist e then [] else [Wrapped ''load network usage state'' e],
                   s\<lparr>sp_loaded := True, sp_state := zero_usage\<rparr>))"

definition roll_period :: "string \<Rightarrow> string \<Rightarrow> usage_state \<Rightarrow> usage_state" where
  "roll_period d m st =
     (let st1 = (if us_month st \<noteq> m then st\<lparr>us_month_up := 0, us_month_down := 0\<rparr> else st)
      in if us_day st \<noteq> d then st1\<lparr>us_today_up := 0, us_today_down := 0\<rparr> else st1)"

definition add_traffic :: "net_counters \<Rightarrow> usage_state \<Rightarrow> usage_state" where
  "add_traffic c st =
     (if us_initialized st \<and> us_prev_sent st \<le> nc_sent c \<and> us_prev_received st \<le> nc_received c
      then st\<lparr>us_today_up := us_today_up st + (nc_sent c - us_prev_sent st),
              us_today_down := us_today_down st + (nc_received c - us_prev_received st),
              us_month_up := us_month_up st + (nc_sent c - us_prev_sent st),
              us_month_down := us_month_down st + (nc_received c - us_prev_received st)\<rparr>
      else st)"

definition sampled_state :: "net_counters \<Rightarrow> time \<Rightarrow> usage_state \<Rightarrow> usage_state" where
  "sampled_state c t st =
     (add_traffic c (roll_period (usage_day t) (usage_month t) st))
       \<lparr>us_schema := 1, us_day := usage_day t, us_month := usage_month t, us_prev_sent := nc_sent c,
        us_prev_received := nc_received c, us_initialized := True\<rparr>"

definition rate :: "u64 \<Rightarrow> u64 \<Rightarrow> duration \<Rightarrow> real" where
  "rate now before elapsed = real (unat (now - before)) / (of_int elapsed / 1000000000) / 1000000"

definition sample_rate :: "net_counters \<Rightarrow> time \<Rightarrow> usage_sampler \<Rightarrow> real \<times> real \<times> usage_sampler" where
  "sample_rate c t s =
     (let s1 = s\<lparr>sp_rate_ready := True, sp_rate_previous := c, sp_rate_sampled_at := t\<rparr>
      in if \<not> sp_rate_ready s \<or> t \<le> sp_rate_sampled_at s \<or> nc_sent c < nc_sent (sp_rate_previous s) \<or>
            nc_received c < nc_received (sp_rate_previous s)
         then (0, 0, s1)
         else (rate (nc_sent c) (nc_sent (sp_rate_previous s)) (t - sp_rate_sampled_at s),
               rate (nc_received c) (nc_received (sp_rate_previous s)) (t - sp_rate_sampled_at s), s1))"

text \<open>\<open>Sample\<close>: the snapshot, the errors reported, the state handed to save and the sampler.\<close>

definition sample ::
    "reading \<Rightarrow> usage_sampler \<Rightarrow> net_snapshot \<times> go_error list \<times> usage_state option \<times> usage_sampler" where
  "sample rd s =
     (case rd_counters rd of
        Inl e \<Rightarrow> (no_snapshot, [Wrapped ''sample network usage'' e], None, s)
      | Inr c \<Rightarrow>
        let (es, s1) = load_state (rd_load rd) s;
            st = sampled_state c (rd_time rd) (sp_state s1);
            (up, down, s2) = sample_rate c (rd_time rd) (s1\<lparr>sp_state := st\<rparr>)
        in (\<lparr>sn_metrics_available = True, sn_upload_rate = up, sn_download_rate = down, sn_usage_available = True,
             sn_usage_day = us_day st, sn_today_up = us_today_up st, sn_today_down = us_today_down st,
             sn_month_up = us_month_up st, sn_month_down = us_month_down st\<rparr>,
            es @ (case rd_save rd of None \<Rightarrow> [] | Some e \<Rightarrow> [Wrapped ''save network usage state'' e]), Some st, s2))"

section \<open>The file\<close>

definition write_usage :: "usage_state \<Rightarrow> json" where
  "write_usage st = JObj
     [(''schema'', JInt (us_schema st)), (''day'', JStr (us_day st)), (''month'', JStr (us_month st)),
      (''today_upload_bytes'', JInt (uint (us_today_up st))), (''today_download_bytes'', JInt (uint (us_today_down st))),
      (''month_upload_bytes'', JInt (uint (us_month_up st))), (''month_download_bytes'', JInt (uint (us_month_down st))),
      (''previous_sent_bytes'', JInt (uint (us_prev_sent st))), (''previous_received_bytes'', JInt (uint (us_prev_received st))),
      (''initialized'', JBool (us_initialized st))]"

definition usage_fields :: "usage_state field list" where
  "usage_fields =
     [field_of ''schema'' read_int us_schema us_schema_update, field_of ''day'' read_string us_day us_day_update,
      field_of ''month'' read_string us_month us_month_update,
      field_of ''today_upload_bytes'' read_u64 us_today_up us_today_up_update,
      field_of ''today_download_bytes'' read_u64 us_today_down us_today_down_update,
      field_of ''month_upload_bytes'' read_u64 us_month_up us_month_up_update,
      field_of ''month_download_bytes'' read_u64 us_month_down us_month_down_update,
      field_of ''previous_sent_bytes'' read_u64 us_prev_sent us_prev_sent_update,
      field_of ''previous_received_bytes'' read_u64 us_prev_received us_prev_received_update,
      field_of ''initialized'' read_bool us_initialized us_initialized_update]"

text \<open>A file is what a decoder reads from it: values in a row, one of which may not parse.\<close>

definition load_usage_state :: "json option list option \<Rightarrow> usage_state res" where
  "load_usage_state file =
     (case file of
        None \<Rightarrow> Inl (Wrapped ''open network usage state'' (Sentinel ErrNotExist))
      | Some docs \<Rightarrow>
        (case docs of
           Some j # rest \<Rightarrow>
             (case read_struct False usage_fields j zero_usage of
                None \<Rightarrow> Inl (Message ''decode network usage state'')
              | Some st \<Rightarrow>
                if rest \<noteq> [] then Inl (Message ''decode network usage state: multiple JSON values'')
                else if us_schema st \<noteq> 1 then Inl (Message ''network usage state schema is unsupported'')
                else Inr st)
         | _ \<Rightarrow> Inl (Message ''decode network usage state'')))"

definition save_usage_state :: "fault \<Rightarrow> usage_state \<Rightarrow> json option \<Rightarrow> go_error option \<times> json option" where
  "save_usage_state fault st = replace_file ''network usage'' ''network usage state'' ''network usage state'' fault (write_usage st)"

section \<open>Totals as sums over the readings\<close>

text \<open>The traffic between two readings, none when a counter went back.\<close>

definition moved :: "(net_counters \<Rightarrow> u64) \<Rightarrow> net_counters \<Rightarrow> net_counters \<Rightarrow> u64" where
  "moved f a b = (if nc_sent a \<le> nc_sent b \<and> nc_received a \<le> nc_received b then f b - f a else 0)"

text \<open>Readings latest first: the traffic since the last reading before the current period.\<close>

fun traffic :: "(net_counters \<Rightarrow> u64) \<Rightarrow> (time \<Rightarrow> bool) \<Rightarrow> (time \<times> net_counters) list \<Rightarrow> u64" where
  "traffic f P [] = 0"
| "traffic f P [r] = 0"
| "traffic f P (r # q # rs) = (if P (fst r) then moved f (snd q) (snd r) + traffic f P (q # rs) else 0)"

text \<open>The sampler after good readings, earliest last, with no stored state.\<close>

fun sampled :: "(time \<times> net_counters) list \<Rightarrow> usage_state" where
  "sampled [] = zero_usage"
| "sampled (r # rs) = sampled_state (snd r) (fst r) (sampled rs)"

definition totals :: "(time \<times> net_counters) list \<Rightarrow> usage_state \<Rightarrow> bool" where
  "totals rs st \<longleftrightarrow> (case rs of [] \<Rightarrow> st = zero_usage
     | r # q \<Rightarrow> us_initialized st \<and> us_day st = usage_day (fst r) \<and> us_month st = usage_month (fst r) \<and>
         us_prev_sent st = nc_sent (snd r) \<and> us_prev_received st = nc_received (snd r) \<and>
         us_today_up st = traffic nc_sent (\<lambda>t. usage_day t = usage_day (fst r)) rs \<and>
         us_today_down st = traffic nc_received (\<lambda>t. usage_day t = usage_day (fst r)) rs \<and>
         us_month_up st = traffic nc_sent (\<lambda>t. usage_month t = usage_month (fst r)) rs \<and>
         us_month_down st = traffic nc_received (\<lambda>t. usage_month t = usage_month (fst r)) rs)"

lemma traffic_same: "P (fst r) \<Longrightarrow> traffic f P (r # rs) = (case rs of [] \<Rightarrow> 0 | q # qs \<Rightarrow> moved f (snd q) (snd r) + traffic f P rs)"
  by (cases rs) simp_all

lemma traffic_other: "\<not> P (fst r) \<Longrightarrow> traffic f P (r # rs) = 0"
  by (cases rs) simp_all

definition step_traffic :: "(net_counters \<Rightarrow> u64) \<Rightarrow> net_counters \<Rightarrow> usage_state \<Rightarrow> u64" where
  "step_traffic f c st = (if us_initialized st
     then moved f \<lparr>nc_sent = us_prev_sent st, nc_received = us_prev_received st\<rparr> c else 0)"

lemma sampled_state_totals:
  "us_today_up (sampled_state c t st) = (if us_day st = usage_day t then us_today_up st else 0) + step_traffic nc_sent c st"
  "us_today_down (sampled_state c t st) = (if us_day st = usage_day t then us_today_down st else 0) + step_traffic nc_received c st"
  "us_month_up (sampled_state c t st) = (if us_month st = usage_month t then us_month_up st else 0) + step_traffic nc_sent c st"
  "us_month_down (sampled_state c t st) = (if us_month st = usage_month t then us_month_down st else 0) + step_traffic nc_received c st"
  by (auto simp: sampled_state_def add_traffic_def roll_period_def Let_def step_traffic_def moved_def)

lemma sampled_state_marks:
  "us_initialized (sampled_state c t st)" "us_day (sampled_state c t st) = usage_day t"
  "us_month (sampled_state c t st) = usage_month t" "us_prev_sent (sampled_state c t st) = nc_sent c"
  "us_prev_received (sampled_state c t st) = nc_received c" "us_schema (sampled_state c t st) = 1"
  by (simp_all add: sampled_state_def)

lemma totals_step:
  assumes "totals (q # qs) st"
  shows "totals (r # q # qs) (sampled_state (snd r) (fst r) st)"
proof -
  have step: "step_traffic f (snd r) st = moved f (snd q) (snd r)" for f
    using assms by (cases "snd q") (simp add: totals_def step_traffic_def moved_def)
  have d: "us_day st = usage_day (fst q)" and m: "us_month st = usage_month (fst q)" using assms by (simp_all add: totals_def)
  have cut: "traffic f (\<lambda>t. usage_day t = usage_day (fst r)) (q # qs) =
        (if us_day st = usage_day (fst r) then traffic f (\<lambda>t. usage_day t = usage_day (fst q)) (q # qs) else 0)"
    "traffic f (\<lambda>t. usage_month t = usage_month (fst r)) (q # qs) =
        (if us_month st = usage_month (fst r) then traffic f (\<lambda>t. usage_month t = usage_month (fst q)) (q # qs) else 0)" for f
    unfolding d m by (simp_all add: traffic_other del: traffic.simps)
  have sums: "us_today_up st = traffic nc_sent (\<lambda>t. usage_day t = usage_day (fst q)) (q # qs)"
    "us_today_down st = traffic nc_received (\<lambda>t. usage_day t = usage_day (fst q)) (q # qs)"
    "us_month_up st = traffic nc_sent (\<lambda>t. usage_month t = usage_month (fst q)) (q # qs)"
    "us_month_down st = traffic nc_received (\<lambda>t. usage_month t = usage_month (fst q)) (q # qs)"
    using assms by (simp_all add: totals_def del: traffic.simps)
  have today: "traffic f (\<lambda>t. usage_day t = usage_day (fst r)) (r # q # qs) =
      moved f (snd q) (snd r) + traffic f (\<lambda>t. usage_day t = usage_day (fst r)) (q # qs)"
    "traffic f (\<lambda>t. usage_month t = usage_month (fst r)) (r # q # qs) =
      moved f (snd q) (snd r) + traffic f (\<lambda>t. usage_month t = usage_month (fst r)) (q # qs)" for f by simp_all
  show ?thesis
    unfolding totals_def list.case today cut
    by (simp add: sampled_state_totals sampled_state_marks step sums add.commute del: traffic.simps)
qed

lemma totals_sampled: "totals rs (sampled rs)"
proof (induction rs)
  case Nil
  then show ?case by (simp add: totals_def)
next
  case (Cons r rs)
  show ?case
  proof (cases rs)
    case Nil
    then show ?thesis
      by (simp add: totals_def sampled_state_totals sampled_state_marks step_traffic_def zero_usage_def)
  next
    case (Cons q qs)
    with Cons.IH totals_step show ?thesis by (metis sampled.simps(2))
  qed
qed

section \<open>The sampler over a run\<close>

fun after_samples :: "reading list \<Rightarrow> usage_sampler" where
  "after_samples [] = new_sampler"
| "after_samples (rd # rds) = snd (snd (snd (sample rd (after_samples rds))))"

definition good_readings :: "reading list \<Rightarrow> (time \<times> net_counters) list" where
  "good_readings rds = concat (map (\<lambda>rd. case rd_counters rd of Inl e \<Rightarrow> [] | Inr c \<Rightarrow> [(rd_time rd, c)]) rds)"

definition no_file :: "reading \<Rightarrow> bool" where
  "no_file rd \<longleftrightarrow> (case rd_load rd of Inl e \<Rightarrow> err_is ErrNotExist e | Inr st \<Rightarrow> False)"

definition snapshot_totals :: "net_snapshot \<Rightarrow> string \<times> u64 \<times> u64 \<times> u64 \<times> u64" where
  "snapshot_totals sn = (sn_usage_day sn, sn_today_up sn, sn_today_down sn, sn_month_up sn, sn_month_down sn)"

definition state_totals :: "usage_state \<Rightarrow> string \<times> u64 \<times> u64 \<times> u64 \<times> u64" where
  "state_totals st = (us_day st, us_today_up st, us_today_down st, us_month_up st, us_month_down st)"

lemma rate_keeps_state: "sample_rate c t s = (u, d, s2) \<Longrightarrow> sp_state s2 = sp_state s \<and> sp_loaded s2 = sp_loaded s"
  by (auto simp: sample_rate_def Let_def split: if_splits)

lemma sample_good:
  assumes "rd_counters rd = Inr c" and "load_state (rd_load rd) s = (es, s1)"
    and "sample rd s = (sn, es2, saved, s2)"
  shows "sp_state s2 = sampled_state c (rd_time rd) (sp_state s1)" and "saved = Some (sp_state s2)"
    and "snapshot_totals sn = state_totals (sp_state s2)" and "sp_loaded s2 = sp_loaded s1"
  using assms
  by (auto simp: sample_def Let_def snapshot_totals_def state_totals_def split: prod.splits dest!: rate_keeps_state)

lemma sample_bad: "rd_counters rd = Inl e \<Longrightarrow> snd (snd (snd (sample rd s))) = s"
  by (simp add: sample_def)

lemma load_no_file: "no_file rd \<Longrightarrow> \<not> sp_loaded s \<Longrightarrow> sp_state s = zero_usage \<Longrightarrow>
    sp_state (snd (load_state (rd_load rd) s)) = zero_usage \<and> sp_loaded (snd (load_state (rd_load rd) s))"
  by (auto simp: load_state_def no_file_def split: sum.splits)

lemma load_again: "sp_loaded s \<Longrightarrow> load_state l s = ([], s)"
  by (simp add: load_state_def)

lemma loaded_state: "sp_loaded (snd (load_state l s))"
  by (simp add: load_state_def split: sum.split)

lemma after_samples_state:
  assumes "\<forall>rd\<in>set rds. no_file rd"
  shows "sp_state (after_samples rds) = sampled (good_readings rds) \<and>
    (\<not> sp_loaded (after_samples rds) \<longrightarrow> good_readings rds = [])"
  using assms
proof (induction rds)
  case Nil
  then show ?case by (simp add: new_sampler_def good_readings_def)
next
  case (Cons rd rds)
  show ?case
  proof (cases "rd_counters rd")
    case (Inl e)
    then show ?thesis using Cons sample_bad [OF Inl] by (simp add: good_readings_def)
  next
    case (Inr c)
    obtain es s1 where load: "load_state (rd_load rd) (after_samples rds) = (es, s1)" by fastforce
    obtain sn es2 saved s2 where run: "sample rd (after_samples rds) = (sn, es2, saved, s2)" by (metis prod_cases4)
    have s1: "sp_state s1 = sampled (good_readings rds) \<and> sp_loaded s1"
      using Cons load load_no_file [of rd "after_samples rds"] load_again [of "after_samples rds" "rd_load rd"]
        loaded_state [of "rd_load rd" "after_samples rds"]
      by (cases "sp_loaded (after_samples rds)") auto
    have good: "good_readings (rd # rds) = (rd_time rd, c) # good_readings rds" by (simp add: good_readings_def Inr)
    show ?thesis using sample_good [OF Inr load run] s1 run by (simp add: good)
  qed
qed

lemma read_usage: "read_struct False usage_fields (write_usage st) zero_usage = (if int64 (us_schema st) then Some st else None)"
proof -
  have "0 \<le> uint x \<and> uint x < 2 ^ 64 \<and> word_of_int (uint x) = x" for x :: u64
    using uint_lt2p [of x] by simp
  then show ?thesis
    by (simp add: usage_fields_def write_usage_def field_of_def set_member_def zero_usage_def)
qed

lemma load_saved_state: "us_schema st = 1 \<Longrightarrow> load_usage_state (Some [Some (write_usage st)]) = Inr st"
  by (simp add: load_usage_state_def read_usage int64_def)

text \<open>C34: The totals an Agent reports are exactly the sums over the samples since it first ran: for the day and for
the month of the last sample, the growth of each counter over every step that ends in that period,
without the steps over which a counter went back, modulo 2^64.  The state it saves loads back, a sampler
that starts from it reports the same totals as one that was never restarted, and the server accepts
the day.\<close>

theorem usage_totals_exact:
  assumes "\<forall>rd\<in>set (rd # rds). no_file rd" and "rd_counters rd = Inr c"
    and "sample rd (after_samples rds) = (sn, es, saved, s)"
  shows "snapshot_totals sn =
      (usage_day (rd_time rd),
       traffic nc_sent (\<lambda>t. usage_day t = usage_day (rd_time rd)) (good_readings (rd # rds)),
       traffic nc_received (\<lambda>t. usage_day t = usage_day (rd_time rd)) (good_readings (rd # rds)),
       traffic nc_sent (\<lambda>t. usage_month t = usage_month (rd_time rd)) (good_readings (rd # rds)),
       traffic nc_received (\<lambda>t. usage_month t = usage_month (rd_time rd)) (good_readings (rd # rds))) \<and>
    (\<exists>st. saved = Some st \<and> load_usage_state (Some [Some (write_usage st)]) = Inr st \<and>
       (\<forall>rd2. snapshot_totals (fst (sample (rd2\<lparr>rd_load := Inr st\<rparr>) new_sampler)) = snapshot_totals (fst (sample rd2 s)))) \<and>
    (fst (civil_date (local_day beijing (rd_time rd))) < 10000 \<longrightarrow> valid_day (sn_usage_day sn))"
proof (intro conjI exI impI allI)
  have good: "good_readings (rd # rds) = (rd_time rd, c) # good_readings rds" by (simp add: good_readings_def assms(2))
  obtain es1 s1 where load: "load_state (rd_load rd) (after_samples rds) = (es1, s1)" by fastforce
  note s = sample_good [OF assms(2) load assms(3)]
  have state: "sp_state s = sampled (good_readings (rd # rds))" and loaded: "sp_loaded s"
    using after_samples_state [OF assms(1)] assms(3) good by auto
  have t: "totals (good_readings (rd # rds)) (sp_state s)" unfolding state by (rule totals_sampled)
  have sums: "snapshot_totals sn =
      (usage_day (rd_time rd),
       traffic nc_sent (\<lambda>t. usage_day t = usage_day (rd_time rd)) (good_readings (rd # rds)),
       traffic nc_received (\<lambda>t. usage_day t = usage_day (rd_time rd)) (good_readings (rd # rds)),
       traffic nc_sent (\<lambda>t. usage_month t = usage_month (rd_time rd)) (good_readings (rd # rds)),
       traffic nc_received (\<lambda>t. usage_month t = usage_month (rd_time rd)) (good_readings (rd # rds)))"
    using t unfolding s(3) state_totals_def totals_def good by simp
  then show "snapshot_totals sn = \<dots>" .
  show "saved = Some (sp_state s)" by (rule s(2))
  have "us_schema (sp_state s) = 1" unfolding s(1) by (rule sampled_state_marks)
  then show "load_usage_state (Some [Some (write_usage (sp_state s))]) = Inr (sp_state s)" by (rule load_saved_state)
  show "snapshot_totals (fst (sample (rd2\<lparr>rd_load := Inr (sp_state s)\<rparr>) new_sampler)) = snapshot_totals (fst (sample rd2 s))" for rd2
    using load_again [OF loaded]
    by (auto simp: sample_def load_state_def new_sampler_def Let_def snapshot_totals_def split: sum.split prod.split)
  assume "fst (civil_date (local_day beijing (rd_time rd))) < 10000"
  from valid_format_day [OF this] show "valid_day (sn_usage_day sn)"
    using sums by (simp add: snapshot_totals_def usage_day_def)
qed

definition demo_reading :: "time \<Rightarrow> u64 \<Rightarrow> reading" where
  "demo_reading t n = \<lparr>rd_counters = Inr \<lparr>nc_sent = n, nc_received = 1\<rparr>, rd_time = t,
     rd_load = Inl (Sentinel ErrNotExist), rd_save = None\<rparr>"

theorem usage_totals_exact_witness:
  "sn_today_up (fst (sample (demo_reading 20 500) (after_samples [demo_reading 10 300]))) = 200"
proof -
  obtain sn es saved s where run: "sample (demo_reading 20 500) (after_samples [demo_reading 10 300]) = (sn, es, saved, s)"
    by (metis prod_cases4)
  have d: "local_day beijing 20 = 0" "local_day beijing 10 = 0" by (simp_all add: local_day_def beijing_def)
  have files: "\<forall>rd\<in>set [demo_reading 20 500, demo_reading 10 300]. no_file rd"
    by (simp add: demo_reading_def no_file_def)
  have c: "rd_counters (demo_reading 20 500) = Inr \<lparr>nc_sent = 500, nc_received = 1\<rparr>" by (simp add: demo_reading_def)
  from usage_totals_exact [OF files c run] have "snd (snapshot_totals sn) = (200, 0, 200, 0)"
    by (simp add: good_readings_def demo_reading_def moved_def usage_day_def usage_month_def d)
  then show ?thesis unfolding run by (simp add: snapshot_totals_def)
qed

end
