(* ===== verification/AgentCollect.thy ===== *)
theory AgentCollect
  imports NetUsage ApiServer
begin

text \<open>
  \<^verbatim>\<open>agent/internal/agent/collector.go\<close>: an enrolment request and a heartbeat out of the facts of the
  host, which gopsutil and the operating system deliver.
\<close>

record ip_address =
  ia_text :: string
  ia_v4 :: bool
  ia_loopback :: bool
  ia_global :: bool

record host_facts =
  hf_hostname :: "string res"
  hf_info :: "(string \<times> string \<times> string) res"
  hf_memory :: "go_float res"
  hf_cpu :: "go_float list res"
  hf_disk :: "go_float res"
  hf_windows :: bool
  hf_addresses :: "ip_address option list res"

text \<open>Addresses that do not parse are \<open>None\<close>; the first IPv4 address wins, then the first IPv6 one.\<close>

definition usable :: "ip_address option \<Rightarrow> bool" where
  "usable a \<longleftrightarrow> (case a of None \<Rightarrow> False | Some ip \<Rightarrow> \<not> ia_loopback ip \<and> ia_global ip)"

fun primary_ip_from :: "ip_address option list \<Rightarrow> string \<Rightarrow> string" where
  "primary_ip_from [] fallback = fallback"
| "primary_ip_from (a # as) fallback =
     (case a of
        None \<Rightarrow> primary_ip_from as fallback
      | Some ip \<Rightarrow>
        if \<not> usable a then primary_ip_from as fallback
        else if ia_v4 ip then ia_text ip
        else primary_ip_from as (if fallback = [] then ia_text ip else fallback))"

definition primary_ip :: "ip_address option list res \<Rightarrow> string" where
  "primary_ip addresses = (case addresses of Inl e \<Rightarrow> [] | Inr as \<Rightarrow> primary_ip_from as [])"

fun clamp_percent :: "go_float \<Rightarrow> go_float" where
  "clamp_percent (Finite r) = Finite (if r < 0 then 0 else if 100 < r then 100 else r)"
| "clamp_percent PosInf = Finite 100"
| "clamp_percent NegInf = Finite 0"
| "clamp_percent NaN = NaN"

definition build_heartbeat ::
    "string \<Rightarrow> host_facts \<Rightarrow> string \<Rightarrow> string \<times> string \<times> string \<Rightarrow> go_float \<Rightarrow> go_float \<Rightarrow> go_float \<Rightarrow> net_snapshot \<Rightarrow> heartbeat" where
  "build_heartbeat version h name info memory cpu disk n =
     \<lparr>hb_hostname = name, hb_agent_version = version, hb_os_name = fst info, hb_os_version = fst (snd info),
      hb_ip_address = primary_ip (hf_addresses h), hb_cpu_percent = clamp_percent cpu,
      hb_memory_percent = clamp_percent memory, hb_disk_percent = clamp_percent disk,
      hb_metrics_available = sn_metrics_available n, hb_upload_rate = Finite (sn_upload_rate n),
      hb_download_rate = Finite (sn_download_rate n), hb_usage_available = sn_usage_available n,
      hb_usage_day = sn_usage_day n, hb_today_upload = sn_today_up n, hb_today_download = sn_today_down n,
      hb_month_upload = sn_month_up n, hb_month_download = sn_month_down n\<rparr>"

definition build_enroll :: "string \<Rightarrow> host_facts \<Rightarrow> string \<Rightarrow> string \<times> string \<times> string \<Rightarrow> enroll_request" where
  "build_enroll version h name info =
     \<lparr>er_token = [], er_hostname = name, er_type = (if hf_windows h then ''windows'' else ''linux''), er_version = version,
      er_machine_id = (if snd (snd info) = [] then name else snd (snd info))\<rparr>"

definition collect ::
    "string \<Rightarrow> host_facts \<Rightarrow> reading \<Rightarrow> usage_sampler \<Rightarrow> (enroll_request \<times> heartbeat) res \<times> usage_sampler" where
  "collect version h rd s =
     (case hf_hostname h of Inl e \<Rightarrow> (Inl (Wrapped ''read hostname'' e), s) | Inr name \<Rightarrow>
      (case hf_info h of Inl e \<Rightarrow> (Inl (Wrapped ''read host info'' e), s) | Inr info \<Rightarrow>
      (case hf_memory h of Inl e \<Rightarrow> (Inl (Wrapped ''read memory usage'' e), s) | Inr memory \<Rightarrow>
      (case hf_cpu h of Inl e \<Rightarrow> (Inl (Wrapped ''read CPU usage'' e), s) | Inr cpus \<Rightarrow>
      (case cpus of [] \<Rightarrow> (Inl (Message ''read CPU usage''), s) | cpu # _ \<Rightarrow>
      (case hf_disk h of Inl e \<Rightarrow> (Inl (Wrapped ''read disk usage'' e), s) | Inr disk \<Rightarrow>
        let (n, es, saved, s1) = sample rd s
        in (Inr (build_enroll version h name info, build_heartbeat version h name info memory cpu disk n), s1)))))))"

text \<open>The host never sends what the server's check of traffic totals refuses.\<close>

lemma sampled_usage_valid:
  assumes "fst (civil_date (local_day beijing (rd_time rd))) < 10000"
    and "collect version h rd s = (Inr (request, hb), s1)"
  shows "validate_network_usage hb"
proof -
  obtain sn es saved s2 where run: "sample rd s = (sn, es, saved, s2)" by (metis prod_cases4)
  have hb: "hb_usage_available hb = sn_usage_available sn" "hb_usage_day hb = sn_usage_day sn"
    "hb_today_upload hb = sn_today_up sn" "hb_today_download hb = sn_today_down sn"
    "hb_month_upload hb = sn_month_up sn" "hb_month_download hb = sn_month_down sn"
    using assms(2) run by (auto simp: collect_def build_heartbeat_def split: sum.splits list.splits)
  show ?thesis
  proof (cases "rd_counters rd")
    case (Inl e)
    then have "sn = no_snapshot" using run by (simp add: sample_def)
    then show ?thesis by (simp add: validate_network_usage_def hb no_snapshot_def)
  next
    case (Inr c)
    have "sn_usage_day sn = usage_day (rd_time rd)" "sn_usage_available sn"
      using run Inr by (auto simp: sample_def Let_def sampled_state_def split: prod.splits)
    moreover have "valid_day (usage_day (rd_time rd))"
      using valid_format_day [OF assms(1)] by (simp add: usage_day_def)
    moreover from this have "usage_day (rd_time rd) \<noteq> []" by (auto simp: valid_day_def)
    ultimately show ?thesis by (simp add: validate_network_usage_def hb)
  qed
qed

end
