(* ===== verification/AgentApp.thy ===== *)
theory AgentApp
  imports AgentConfig AgentCollect
begin

text \<open>
  \<^verbatim>\<open>agent/internal/app\<close>: the modes of the Agent (\<^verbatim>\<open>commands.go\<close>), the worker that sends heartbeats and
  uploads logs (\<^verbatim>\<open>worker.go\<close>) and the worker that claims, starts, executes and reports commands
  (\<^verbatim>\<open>command_worker.go\<close>).  What they call is a record of functions on the state \<open>'s\<close> of everything
  outside; the loops that only a cancelled context or a rejected lease ends are partial functions,
  so not returning is \<open>None\<close>.
\<close>

section \<open>Modes (commands.go)\<close>

datatype mode = ModeForeground | ModeService | ModeTray | ModeDiagnose | ModeVersion

definition parse_mode :: "string \<Rightarrow> string list \<Rightarrow> (mode \<times> string list) res" where
  "parse_mode goos args =
     (if goos \<noteq> ''windows'' then Inr (ModeForeground, args)
      else case args of
          [] \<Rightarrow> Inr (ModeTray, [])
        | a # rest \<Rightarrow>
          (if a = ''service'' then Inr (ModeService, rest) else if a = ''tray'' then Inr (ModeTray, rest)
           else if a = ''diagnose'' then Inr (ModeDiagnose, rest) else if a = ''version'' then Inr (ModeVersion, rest)
           else Inl (Message (''unknown Ace Agent mode '' @ a))))"

section \<open>What is shown of an error (worker.go)\<close>

definition redacted :: string where "redacted = ''[redacted]''"

abbreviation max_shown :: nat where "max_shown \<equiv> 512"

definition sanitize_error :: "go_error option \<Rightarrow> string \<Rightarrow> string" where
  "sanitize_error err credential =
     (case err of
        None \<Rightarrow> []
      | Some e \<Rightarrow>
        let message = join (str_fields (error_text e)) '' '';
            hidden = (if credential \<noteq> [] then replace_all credential redacted message else message)
        in if max_shown < length hidden then take max_shown hidden @ ''...'' else hidden)"

section \<open>The heartbeat worker (worker.go)\<close>

datatype agent_state = StateStarting | StateOnline | StateError | StateStopped

record status_snapshot =
  sn_state :: agent_state
  sn_node_id :: string
  sn_server_url :: string
  sn_version :: string
  sn_last_heartbeat :: time
  sn_error :: string

record 's worker_deps =
  wd_client :: "(string \<Rightarrow> heartbeat \<Rightarrow> 's \<Rightarrow> go_error option \<times> 's) option"
  wd_collect :: "(string \<Rightarrow> 's \<Rightarrow> heartbeat res \<times> 's) option"
  wd_version :: string
  wd_status :: "(status_snapshot \<Rightarrow> 's \<Rightarrow> 's) option"
  wd_upload :: "(agent_config \<Rightarrow> 's \<Rightarrow> go_error option \<times> 's) option"
  wd_log_sink :: "(string \<Rightarrow> 's \<Rightarrow> 's) option"
  wd_clock :: "'s \<Rightarrow> time"

definition worker_validate :: "'s worker_deps \<Rightarrow> agent_config \<Rightarrow> duration \<Rightarrow> go_error option" where
  "worker_validate d c interval =
     (if wd_client d = None then Some (Message ''worker heartbeat client is required'')
      else if wd_collect d = None then Some (Message ''worker collector is required'')
      else if wd_version d = [] then Some (Message ''worker version is required'')
      else if cg_server_url c = [] then Some (Message ''agent server URL is required'')
      else if cg_node_id c = [] then Some (Message ''agent node ID is required'')
      else if cg_credential c = [] then Some (Message ''agent credential is required'')
      else if interval \<le> 0 then Some (Message ''heartbeat interval must be positive'')
      else None)"

text \<open>The variables of \<^verbatim>\<open>Run\<close> that its closures share.\<close>

record worker_memory =
  wm_heartbeat :: time
  wm_upload :: time

definition log_upload_interval :: duration where "log_upload_interval = hour"

definition publish :: "'s worker_deps \<Rightarrow> agent_config \<Rightarrow> agent_state \<Rightarrow> go_error option \<Rightarrow> worker_memory \<Rightarrow> 's \<Rightarrow> 's" where
  "publish d c st err m s =
     (case wd_status d of
        None \<Rightarrow> s
      | Some sink \<Rightarrow>
        sink \<lparr>sn_state = st, sn_node_id = cg_node_id c, sn_server_url = cg_server_url c, sn_version = wd_version d,
          sn_last_heartbeat = wm_heartbeat m, sn_error = sanitize_error err (cg_credential c)\<rparr> s)"

definition collect_and_send :: "'s worker_deps \<Rightarrow> agent_config \<Rightarrow> 's \<Rightarrow> go_error option \<times> 's" where
  "collect_and_send d c s =
     (case the (wd_collect d) (wd_version d) s of
        (Inl e, s1) \<Rightarrow> (Some e, s1)
      | (Inr h, s1) \<Rightarrow> the (wd_client d) (cg_credential c) h s1)"

definition upload_due :: "time \<Rightarrow> worker_memory \<Rightarrow> bool" where
  "upload_due now m \<longleftrightarrow> is_zero_time (wm_upload m) \<or> wm_upload m + log_upload_interval \<le> now"

definition send_heartbeat :: "'s worker_deps \<Rightarrow> agent_config \<Rightarrow> worker_memory \<times> 's \<Rightarrow> worker_memory \<times> 's" where
  "send_heartbeat d c x =
     (let (m, s) = x in
      case collect_and_send d c s of
        (Some e, s1) \<Rightarrow> (m, publish d c StateError (Some e) m s1)
      | (None, s1) \<Rightarrow>
        let now = wd_clock d s1; m1 = m\<lparr>wm_heartbeat := now\<rparr>; s2 = publish d c StateOnline None m1 s1
        in (case wd_upload d of
              None \<Rightarrow> (m1, s2)
            | Some upload \<Rightarrow>
              if upload_due now m
              then let (err, s3) = upload c s2
                   in (m1\<lparr>wm_upload := now\<rparr>,
                       case (err, wd_log_sink d) of
                         (Some e, Some sink) \<Rightarrow> sink (sanitize_error (Some e) (cg_credential c)) s3
                       | _ \<Rightarrow> s3)
              else (m1, s2)))"

text \<open>What \<^verbatim>\<open>Run\<close> does before its context ends, after \<open>ticks\<close> ticks of its timer, and how it ends.\<close>

definition worker_run :: "'s worker_deps \<Rightarrow> agent_config \<Rightarrow> duration \<Rightarrow> nat \<Rightarrow> 's \<Rightarrow> go_error option \<times> 's" where
  "worker_run d c interval ticks s =
     (case worker_validate d c interval of
        Some e \<Rightarrow> (Some e, s)
      | None \<Rightarrow>
        let start = \<lparr>wm_heartbeat = 0, wm_upload = 0\<rparr>;
            (m, s1) = ((send_heartbeat d c) ^^ Suc ticks) (start, publish d c StateStarting None start s)
        in (None, publish d c StateStopped None m s1))"

section \<open>The command worker (command_worker.go)\<close>

record 's command_client =
  co_claim :: "string \<Rightarrow> 's \<Rightarrow> command_claim option res \<times> 's"
  co_start :: "string \<Rightarrow> string \<Rightarrow> string \<Rightarrow> 's \<Rightarrow> go_error option \<times> 's"
  co_complete :: "string \<Rightarrow> command_completion \<Rightarrow> 's \<Rightarrow> go_error option \<times> 's"

record 's command_options =
  cm_client :: "'s command_client option"
  cm_executor :: "(command_claim \<Rightarrow> 's \<Rightarrow> command_completion \<times> 's) option"
  cm_wait :: "duration \<Rightarrow> 's \<Rightarrow> bool \<times> 's"
  cm_clock :: "'s \<Rightarrow> time"
  cm_cancelled :: "'s \<Rightarrow> bool"
  cm_sink :: "(string \<Rightarrow> 's \<Rightarrow> 's) option"

definition claim_retry_delay :: duration where "claim_retry_delay = 5 * second"

definition result_retry_delays :: "duration list" where
  "result_retry_delays = [second, 2 * second, 4 * second, 8 * second, 15 * second]"

definition command_retry_delay :: "int \<Rightarrow> duration" where
  "command_retry_delay attempt0 =
     (let attempt = (if attempt0 < 0 then 0 else attempt0)
      in if int (length result_retry_delays) \<le> attempt then last result_retry_delays
         else result_retry_delays ! nat attempt)"

definition command_report :: "'s command_options \<Rightarrow> go_error \<Rightarrow> string \<Rightarrow> string \<Rightarrow> 's \<Rightarrow> 's" where
  "command_report w e credential token s =
     (case cm_sink w of
        None \<Rightarrow> s
      | Some sink \<Rightarrow>
        let message = sanitize_error (Some e) credential
        in sink (if token \<noteq> [] then replace_all token redacted message else message) s)"

text \<open>
  \<^verbatim>\<open>start\<close> and \<^verbatim>\<open>complete\<close> are the same loop around different calls: again after a pause, until the call
  succeeds, the lease is rejected or over, or the context ends.
\<close>

partial_function (option) report_until ::
    "'s command_options \<Rightarrow> ('s \<Rightarrow> go_error option \<times> 's) \<Rightarrow> string \<Rightarrow> command_claim \<Rightarrow> int \<Rightarrow> 's \<Rightarrow> (bool \<times> 's) option" where
  "report_until w action credential claim attempt s =
     (case action s of
        (None, s1) \<Rightarrow> Some (True, s1)
      | (Some e, s1) \<Rightarrow>
        let s2 = command_report w e credential (cl_lease_token claim) s1
        in if err_is ErrCommandLeaseRejected e \<or> cm_cancelled w s1 \<or> \<not> cm_clock w s1 < cl_lease_expires_at claim
           then Some (False, s2)
           else let (go_on, s3) = cm_wait w (command_retry_delay attempt) s2
                in if go_on then report_until w action credential claim (attempt + 1) s3 else Some (False, s3))"

definition worker_start :: "'s command_options \<Rightarrow> 's command_client \<Rightarrow> string \<Rightarrow> command_claim \<Rightarrow> 's \<Rightarrow> (bool \<times> 's) option" where
  "worker_start w client credential claim =
     report_until w (co_start client credential (cl_execution_id claim) (cl_lease_token claim)) credential claim 0"

definition worker_complete ::
    "'s command_options \<Rightarrow> 's command_client \<Rightarrow> string \<Rightarrow> command_claim \<Rightarrow> command_completion \<Rightarrow> 's \<Rightarrow> (bool \<times> 's) option" where
  "worker_complete w client credential claim result =
     report_until w (co_complete client credential result) credential claim 0"

text \<open>What is reported of an execution.\<close>

definition stamped :: "command_claim \<Rightarrow> command_completion \<Rightarrow> command_completion" where
  "stamped claim r =
     (let r1 = (if status_terminal (cc_status r) then r
                else r\<lparr>cc_status := Failed, cc_error_message := ''command executor returned an invalid status''\<rparr>)
      in r1\<lparr>cc_execution_id := cl_execution_id claim, cc_lease_token := cl_lease_token claim\<rparr>)"

text \<open>One round of the loop of \<^verbatim>\<open>Run\<close>: whether it goes on.\<close>

definition command_round ::
    "'s command_options \<Rightarrow> 's command_client \<Rightarrow> (command_claim \<Rightarrow> 's \<Rightarrow> command_completion \<times> 's) \<Rightarrow> string \<Rightarrow> 's \<Rightarrow> (bool \<times> 's) option" where
  "command_round w client executor credential s =
     (if cm_cancelled w s then Some (False, s)
      else case co_claim client credential s of
          (Inl e, s1) \<Rightarrow>
            if cm_cancelled w s1 then Some (False, s1)
            else Some (cm_wait w claim_retry_delay (command_report w e credential [] s1))
        | (Inr None, s1) \<Rightarrow> Some (True, s1)
        | (Inr (Some claim), s1) \<Rightarrow>
          (case worker_start w client credential claim s1 of
             None \<Rightarrow> None
           | Some (False, s2) \<Rightarrow> Some (True, s2)
           | Some (True, s2) \<Rightarrow>
             let (r, s3) = executor claim s2
             in (case worker_complete w client credential claim (stamped claim r) s3 of
                   None \<Rightarrow> None
                 | Some (b, s4) \<Rightarrow> Some (True, s4))))"

partial_function (option) command_loop ::
    "'s command_options \<Rightarrow> 's command_client \<Rightarrow> (command_claim \<Rightarrow> 's \<Rightarrow> command_completion \<times> 's) \<Rightarrow> string \<Rightarrow> 's \<Rightarrow> 's option" where
  "command_loop w client executor credential s =
     (case command_round w client executor credential s of
        None \<Rightarrow> None
      | Some (go_on, s1) \<Rightarrow> if go_on then command_loop w client executor credential s1 else Some s1)"

definition command_run :: "'s command_options \<Rightarrow> agent_config \<Rightarrow> 's \<Rightarrow> (go_error option \<times> 's) option" where
  "command_run w c s =
     (case cm_client w of
        None \<Rightarrow> Some (Some (Message ''command client is required''), s)
      | Some client \<Rightarrow>
        (case cm_executor w of
           None \<Rightarrow> Some (Some (Message ''command executor is required''), s)
         | Some executor \<Rightarrow>
           if cg_credential c = [] then Some (Some (Message ''agent credential is required''), s)
           else map_option (Pair None) (command_loop w client executor (cg_credential c) s)))"

end
