(* ===== verification/CmdExecutor.thy ===== *)
theory CmdExecutor
  imports CommandStore GoErrors GoTime
begin

text \<open>
  \<^verbatim>\<open>agent/internal/command/executor.go\<close>: the Agent runs a claimed command in a shell, keeps a bounded part of
  what it writes, and turns the outcome into a completion.  The process is a parameter: the pieces it
  writes, its exit code, its error, how its context ended and the milliseconds it took.

  The locale \<open>bounded_writer\<close> is the contract of a writer with a limit; the second writer of the
  Agent, the one of the updater's helper processes, is another interpretation of it.
\<close>

section \<open>Bounded writers\<close>

locale bounded_writer =
  fixes put :: "string \<Rightarrow> 's \<Rightarrow> 's" and contents :: "'s \<Rightarrow> string" and cut_off :: "'s \<Rightarrow> bool" and limit :: nat and empty :: 's
  assumes contents_empty: "contents empty = []" and cut_off_empty: "\<not> cut_off empty"
    and contents_put: "length (contents s) \<le> limit \<Longrightarrow> contents (put v s) = take limit (contents s @ v)"
    and cut_off_put: "length (contents s) \<le> limit \<Longrightarrow> cut_off (put v s) \<longleftrightarrow> cut_off s \<or> limit < length (contents s) + length v"
begin

lemma written:
  "length (contents s) \<le> limit \<Longrightarrow> contents (fold put vs s) = take limit (contents s @ concat vs) \<and>
     (cut_off (fold put vs s) \<longleftrightarrow> cut_off s \<or> limit < length (contents s) + length (concat vs))"
proof (induction vs arbitrary: s)
  case (Cons v vs)
  have small: "length (contents (put v s)) \<le> limit" using Cons.prems by (simp add: contents_put)
  show ?case
  proof (cases "limit < length (contents s) + length v")
    case True
    then show ?thesis using Cons.IH [OF small] Cons.prems by (simp add: contents_put cut_off_put)
  next
    case False
    then show ?thesis using Cons.IH [OF small] Cons.prems by (simp add: contents_put cut_off_put add.assoc)
  qed
qed simp

text \<open>The first bytes of everything written, and whether there was more.\<close>

lemma written_empty:
  "contents (fold put vs empty) = take limit (concat vs)" "cut_off (fold put vs empty) \<longleftrightarrow> limit < length (concat vs)"
  using written [of empty vs] by (simp_all add: contents_empty cut_off_empty)

end

record output_buffer =
  ob_buffer :: string
  ob_limit :: nat
  ob_truncated :: bool

definition new_output :: "nat \<Rightarrow> output_buffer" where
  "new_output limit = \<lparr>ob_buffer = [], ob_limit = limit, ob_truncated = False\<rparr>"

definition write_output :: "string \<Rightarrow> output_buffer \<Rightarrow> output_buffer" where
  "write_output v w =
     (let remaining = int (ob_limit w) - int (length (ob_buffer w))
      in if remaining \<le> 0 then (if 0 < length v then w\<lparr>ob_truncated := True\<rparr> else w)
         else if remaining < int (length v)
         then w\<lparr>ob_buffer := ob_buffer w @ take (nat remaining) v, ob_truncated := True\<rparr>
         else w\<lparr>ob_buffer := ob_buffer w @ v\<rparr>)"

lemma output_limit: "ob_limit (write_output v w) = ob_limit w"
  by (simp add: write_output_def Let_def)

text \<open>The writer with its limit fixed at that of a command's output.\<close>

definition put_output :: "string \<Rightarrow> output_buffer \<Rightarrow> output_buffer" where
  "put_output v w = write_output v (w\<lparr>ob_limit := max_command_output_bytes\<rparr>)"

interpretation cmd_out: bounded_writer put_output ob_buffer ob_truncated max_command_output_bytes "new_output max_command_output_bytes"
  by unfold_locales
    (auto simp: put_output_def write_output_def new_output_def Let_def nat_diff_distrib split: if_splits)

section \<open>Text\<close>

fun drop_to_valid :: "string \<Rightarrow> nat \<Rightarrow> string" where
  "drop_to_valid s 0 = []"
| "drop_to_valid s (Suc n) = (if valid_utf8 (take (Suc n) s) then take (Suc n) s else drop_to_valid s n)"

definition bounded_utf8 :: "string \<Rightarrow> nat \<Rightarrow> string" where
  "bounded_utf8 v0 limit =
     (let v = to_valid_utf8 replacement False v0
      in if length v \<le> limit then v else drop_to_valid v limit)"

lemma drop_to_valid_ok: "valid_utf8 (drop_to_valid s n) \<and> length (drop_to_valid s n) \<le> n"
proof (induction n)
  case (Suc n)
  then show ?case by (cases "valid_utf8 (take (Suc n) s)") (auto simp del: take_Suc)
qed simp

lemma bounded_utf8_ok: "valid_utf8 (bounded_utf8 v limit) \<and> length (bounded_utf8 v limit) \<le> limit"
  using drop_to_valid_ok valid_to_valid_utf8 [OF valid_replacement] by (simp add: bounded_utf8_def Let_def)

definition normalized_output :: "output_buffer \<Rightarrow> string \<times> bool" where
  "normalized_output w =
     (let v = to_valid_utf8 replacement False (ob_buffer w)
      in if max_command_output_bytes < length v then (bounded_utf8 v max_command_output_bytes, True)
         else (v, ob_truncated w))"

section \<open>Execution\<close>

record invocation =
  iv_program :: string
  iv_args :: "string list"

fun command_invocation :: "command_shell \<Rightarrow> string \<Rightarrow> invocation res" where
  "command_invocation PowerShell command = Inr \<lparr>iv_program = ''powershell.exe'',
     iv_args = [''-NoLogo'', ''-NoProfile'', ''-NonInteractive'', ''-ExecutionPolicy'', ''Bypass'', ''-Command'', command]\<rparr>"
| "command_invocation Cmd command = Inr \<lparr>iv_program = ''cmd.exe'', iv_args = [''/D'', ''/S'', ''/C'', command]\<rparr>"
| "command_invocation (OtherShell s) command = Inl (Message ''unsupported command shell'')"

datatype context_end = NotEnded | DeadlineExceeded | Canceled

record process_outcome =
  po_writes :: "string list"
  po_exit :: int
  po_error :: "go_error option"
  po_context :: context_end
  po_millis :: nat

type_synonym runner = "invocation \<Rightarrow> int \<Rightarrow> process_outcome"

definition int_text :: "int \<Rightarrow> string" where
  "int_text i = (if i < 0 then ''-'' @ nat_text (nat (- i)) else nat_text (nat i))"

definition failed_completion :: "string \<Rightarrow> command_completion" where
  "failed_completion text = \<lparr>cc_execution_id = [], cc_lease_token = [], cc_status = Failed, cc_exit_code = None,
     cc_output = [], cc_output_truncated = False, cc_error_message = text, cc_duration_ms = 0\<rparr>"

definition outcome_status :: "command_claim \<Rightarrow> process_outcome \<Rightarrow> command_status \<times> string" where
  "outcome_status claim p =
     (if po_context p = DeadlineExceeded
      then (TimedOut, ''command timed out after '' @ int_text (cl_timeout claim) @ '' seconds'')
      else if po_context p = Canceled then (Failed, ''command execution cancelled'')
      else if po_error p \<noteq> None \<or> po_exit p \<noteq> 0
      then (Failed,
            if 0 \<le> po_exit p then ''process exited with code '' @ int_text (po_exit p)
            else (case po_error p of Some e \<Rightarrow> bounded_utf8 (error_text e) 512 | None \<Rightarrow> ''command process failed''))
      else (Succeeded, []))"

text \<open>\<open>None\<close> is an executor without a runner, as on a platform that has none.\<close>

definition execute :: "runner option \<Rightarrow> command_claim \<Rightarrow> command_completion" where
  "execute runner claim =
     (case validate_command (cl_shell claim) (cl_command claim) (cl_timeout claim) of
        Some e \<Rightarrow> failed_completion (bounded_utf8 (error_text e) 512)
      | None \<Rightarrow>
        (case runner of
           None \<Rightarrow> failed_completion ''command executor is unavailable''
         | Some run_process \<Rightarrow>
           (case command_invocation (cl_shell claim) (cl_command claim) of
              Inl e \<Rightarrow> failed_completion (bounded_utf8 (error_text e) 512)
            | Inr iv \<Rightarrow>
              let p = run_process iv (cl_timeout claim);
                  (out, truncated) = normalized_output (fold put_output (po_writes p) (new_output max_command_output_bytes));
                  (st, text) = outcome_status claim p
              in \<lparr>cc_execution_id = [], cc_lease_token = [], cc_status = st,
                  cc_exit_code = (if 0 \<le> po_exit p then Some (po_exit p) else None), cc_output = out,
                  cc_output_truncated = truncated, cc_error_message = text, cc_duration_ms = int (po_millis p)\<rparr>)))"

section \<open>What the executor delivers\<close>

lemma normalized_output_ok:
  "valid_utf8 (fst (normalized_output w)) \<and> length (fst (normalized_output w)) \<le> max_command_output_bytes"
  using bounded_utf8_ok valid_to_valid_utf8 [OF valid_replacement]
  by (simp add: normalized_output_def Let_def)

definition ascii :: "string \<Rightarrow> bool" where
  "ascii s \<longleftrightarrow> list_all (\<lambda>c. byte c < 128) s"

lemma ascii_append [simp]: "ascii (s @ t) \<longleftrightarrow> ascii s \<and> ascii t" "ascii []" "ascii (c # s) \<longleftrightarrow> byte c < 128 \<and> ascii s"
  by (simp_all add: ascii_def)

lemma ascii_valid: "ascii s \<Longrightarrow> valid_utf8 s"
  by (induction s) (simp_all add: rune_width_def)

lemma nat_text_ascii: "ascii (nat_text n)"
proof (induction n rule: nat_text.induct)
  case (1 n)
  have "n mod 10 < 80" by (rule order.strict_trans [of _ 10]) simp_all
  then show ?case using 1 by (subst nat_text.simps) (simp add: byte_digit)
qed

lemma length_nat_text: "n < 10 ^ k \<Longrightarrow> 0 < k \<Longrightarrow> length (nat_text n) \<le> k"
proof (induction k arbitrary: n)
  case (Suc k)
  show ?case
  proof (cases "n < 10")
    case True
    then show ?thesis by (subst nat_text.simps) simp
  next
    case False
    then have "n div 10 < 10 ^ k" using Suc.prems(1) by (simp add: less_mult_imp_div_less mult.commute)
    moreover have "0 < k" using False Suc.prems(1) by (cases k) simp_all
    ultimately have "length (nat_text (n div 10)) \<le> k" by (rule Suc.IH)
    with False show ?thesis by (subst nat_text.simps) simp
  qed
qed simp

lemma int_text_ok:
  assumes "0 \<le> i" and "i < 10 ^ k" and "0 < k"
  shows "ascii (int_text i) \<and> length (int_text i) \<le> k"
proof -
  have "nat i < 10 ^ k" using assms(1,2) by (metis nat_less_numeral_power_cancel_iff nat_less_iff of_nat_numeral of_nat_power)
  from length_nat_text [OF this assms(3)] nat_text_ascii show ?thesis using assms(1) by (simp add: int_text_def)
qed

lemma outcome_text:
  assumes "0 \<le> cl_timeout claim" and "cl_timeout claim < 10 ^ 100" and "po_exit p < 10 ^ 100"
  shows "valid_utf8 (snd (outcome_status claim p)) \<and> length (snd (outcome_status claim p)) \<le> 512"
proof -
  have a: "ascii (''command timed out after '' @ int_text (cl_timeout claim) @ '' seconds'')"
      "length (''command timed out after '' @ int_text (cl_timeout claim) @ '' seconds'') \<le> 512"
    using int_text_ok [OF assms(1,2)] by (simp_all add: byte_def)
  have b: "ascii (''process exited with code '' @ int_text (po_exit p))"
      "length (''process exited with code '' @ int_text (po_exit p)) \<le> 512" if "0 \<le> po_exit p"
    using int_text_ok [OF that assms(3)] by (simp_all add: byte_def)
  have c: "ascii ''command execution cancelled''" "ascii ''command process failed''"
      "length ''command execution cancelled'' \<le> 512" "length ''command process failed'' \<le> 512"
    by (simp_all add: byte_def)
  consider "po_context p = DeadlineExceeded" | "po_context p = Canceled"
    | "po_context p = NotEnded" "po_error p \<noteq> None \<or> po_exit p \<noteq> 0" "0 \<le> po_exit p"
    | e where "po_context p = NotEnded" "po_exit p < 0" "po_error p = Some e"
    | "po_context p = NotEnded" "po_exit p < 0" "po_error p = None"
    | "po_context p = NotEnded" "po_error p = None" "po_exit p = 0"
    by (cases "po_context p"; cases "po_error p"; cases "po_exit p < 0") auto
  then show ?thesis
  proof cases
    case 1
    then show ?thesis using a ascii_valid by (simp add: outcome_status_def del: valid_utf8.simps append.simps ascii_append)
  next
    case 2
    then show ?thesis using c ascii_valid by (simp add: outcome_status_def del: valid_utf8.simps append.simps ascii_append)
  next
    case 3
    then show ?thesis using b ascii_valid by (auto simp: outcome_status_def simp del: valid_utf8.simps append.simps ascii_append)
  next
    case 4
    then show ?thesis using bounded_utf8_ok [of _ 512] by (simp add: outcome_status_def)
  next
    case 5
    then show ?thesis using c ascii_valid by (simp add: outcome_status_def del: valid_utf8.simps append.simps ascii_append)
  next
    case 6
    then show ?thesis by (simp add: outcome_status_def)
  qed
qed

lemma outcome_terminal: "status_terminal (fst (outcome_status claim p))"
  by (simp add: outcome_status_def)

lemma execute_run:
  assumes "validate_command (cl_shell claim) (cl_command claim) (cl_timeout claim) = None"
    and "command_invocation (cl_shell claim) (cl_command claim) = Inr iv" and "p = run_process iv (cl_timeout claim)"
    and "w = fold put_output (po_writes p) (new_output max_command_output_bytes)"
  shows "execute (Some run_process) claim =
    \<lparr>cc_execution_id = [], cc_lease_token = [], cc_status = fst (outcome_status claim p),
     cc_exit_code = (if 0 \<le> po_exit p then Some (po_exit p) else None), cc_output = fst (normalized_output w),
     cc_output_truncated = snd (normalized_output w), cc_error_message = snd (outcome_status claim p),
     cc_duration_ms = int (po_millis p)\<rparr>"
  using assms by (simp add: execute_def Let_def case_prod_beta)

lemma execute_terminal: "status_terminal (cc_status (execute r claim))"
proof (cases "validate_command (cl_shell claim) (cl_command claim) (cl_timeout claim)")
  case (Some e)
  then show ?thesis by (simp add: execute_def failed_completion_def)
next
  case None
  note valid = this
  show ?thesis
  proof (cases r)
    case None
    with valid show ?thesis by (simp add: execute_def failed_completion_def)
  next
    case (Some run_process)
    show ?thesis
    proof (cases "command_invocation (cl_shell claim) (cl_command claim)")
      case (Inl e)
      with valid Some show ?thesis by (simp add: execute_def failed_completion_def)
    next
      case (Inr iv)
      from execute_run [where run_process = run_process, OF valid this refl refl] Some show ?thesis by (simp add: outcome_terminal)
    qed
  qed
qed

lemma failed_ok:
  "valid_utf8 text \<Longrightarrow> length text \<le> 512 \<Longrightarrow> i \<noteq> [] \<Longrightarrow>
   valid_command_completion ((failed_completion text)\<lparr>cc_execution_id := i, cc_lease_token := t\<rparr>)"
  by (simp add: failed_completion_def valid_command_completion_def)

text \<open>Exit codes of Windows are unsigned 32-bit numbers, so the bound on them is generous.\<close>

lemma execute_valid:
  assumes "\<And>iv. po_exit (the runner iv (cl_timeout claim)) < 10 ^ 100" and "i \<noteq> []"
  shows "valid_command_completion ((execute runner claim)\<lparr>cc_execution_id := i, cc_lease_token := t\<rparr>)"
proof (cases "validate_command (cl_shell claim) (cl_command claim) (cl_timeout claim)")
  case (Some e)
  then show ?thesis using failed_ok bounded_utf8_ok assms(2) by (simp add: execute_def)
next
  case None
  then have v: "cl_shell claim = PowerShell \<or> cl_shell claim = Cmd" "0 \<le> cl_timeout claim" "cl_timeout claim < 10 ^ 100"
    by (auto simp: validate_command_None)
  show ?thesis
  proof (cases runner)
    case None': None
    have "ascii ''command executor is unavailable''" by (simp add: byte_def)
    from ascii_valid [OF this] failed_ok [of "''command executor is unavailable''" i t] assms(2)
    show ?thesis using None None' by (simp add: execute_def del: valid_utf8.simps)
  next
    case (Some run_process)
    obtain iv where iv: "command_invocation (cl_shell claim) (cl_command claim) = Inr iv" using v(1) by auto
    let ?p = "run_process iv (cl_timeout claim)"
    note exec = execute_run [where run_process = run_process, OF None iv refl refl]
    have "po_exit ?p < 10 ^ 100" using assms(1) [of iv] Some by simp
    from outcome_text [OF v(2,3) this] outcome_terminal [of claim ?p] normalized_output_ok
      [of "fold put_output (po_writes ?p) (new_output max_command_output_bytes)"] assms(2)
    show ?thesis unfolding Some exec by (simp add: valid_command_completion_def)
  qed
qed

lemma normalized_exact:
  assumes "valid_utf8 (ob_buffer w)" and "length (ob_buffer w) \<le> max_command_output_bytes"
  shows "normalized_output w = (ob_buffer w, ob_truncated w)"
  using assms by (simp add: normalized_output_def to_valid_utf8_id)

lemma normalized_cut: "ob_truncated w \<Longrightarrow> snd (normalized_output w)"
  by (simp add: normalized_output_def Let_def)

text \<open>C35: What the Agent reports about a command is what happened, in a form the server takes: the result passes
the server's validation whatever the process wrote; it says succeeded exactly for a process that ended
by itself with exit code zero and no error; the output is exactly what was written when that is valid
text within 256 KiB, and anything longer is marked as truncated.\<close>

theorem execution_reportable:
  assumes "validate_command (cl_shell claim) (cl_command claim) (cl_timeout claim) = None"
    and "command_invocation (cl_shell claim) (cl_command claim) = Inr iv" and "p = run_process iv (cl_timeout claim)"
    and "po_exit p < 2 ^ 32" and "i \<noteq> []"
  shows "valid_command_completion ((execute (Some run_process) claim)\<lparr>cc_execution_id := i, cc_lease_token := t\<rparr>) \<and>
    (cc_status (execute (Some run_process) claim) = Succeeded \<longleftrightarrow> po_context p = NotEnded \<and> po_error p = None \<and> po_exit p = 0) \<and>
    (max_command_output_bytes < length (concat (po_writes p)) \<longrightarrow> cc_output_truncated (execute (Some run_process) claim)) \<and>
    (valid_utf8 (concat (po_writes p)) \<and> length (concat (po_writes p)) \<le> max_command_output_bytes \<longrightarrow>
       cc_output (execute (Some run_process) claim) = concat (po_writes p) \<and> \<not> cc_output_truncated (execute (Some run_process) claim))"
proof -
  let ?w = "fold put_output (po_writes p) (new_output max_command_output_bytes)"
  let ?o = "normalized_output ?w"
  note exec = execute_run [where run_process = run_process, OF assms(1,2,3) refl]
  have v: "0 \<le> cl_timeout claim" "cl_timeout claim < 10 ^ 100" using assms(1) by (auto simp: validate_command_None)
  have "po_exit p < 10 ^ 100" using assms(4) by simp
  from outcome_text [OF v this] outcome_terminal [of claim p] normalized_output_ok [of ?w] assms(5)
  have valid: "valid_command_completion ((execute (Some run_process) claim)\<lparr>cc_execution_id := i, cc_lease_token := t\<rparr>)"
    unfolding exec by (simp add: valid_command_completion_def)
  have succeeded: "fst (outcome_status claim p) = Succeeded \<longleftrightarrow> po_context p = NotEnded \<and> po_error p = None \<and> po_exit p = 0"
    by (cases "po_context p") (auto simp: outcome_status_def)
  have cut: "snd ?o" if "max_command_output_bytes < length (concat (po_writes p))"
    using that cmd_out.written_empty(2) [of "po_writes p"] normalized_cut by blast
  have exact: "?o = (concat (po_writes p), False)"
    if "valid_utf8 (concat (po_writes p))" "length (concat (po_writes p)) \<le> max_command_output_bytes"
    using that cmd_out.written_empty [of "po_writes p"] normalized_exact [of ?w] by simp
  show ?thesis using valid succeeded cut exact unfolding exec by simp
qed

definition demo_run :: "invocation \<Rightarrow> int \<Rightarrow> process_outcome" where
  "demo_run iv seconds = \<lparr>po_writes = [''C:'', ''ok''], po_exit = 0, po_error = None, po_context = NotEnded, po_millis = 12\<rparr>"

definition demo_job :: command_claim where
  "demo_job = \<lparr>cl_execution_id = ''e'', cl_task_id = ''t'', cl_shell = Cmd, cl_command = ''dir'', cl_timeout = 60,
     cl_lease_token = ''lt'', cl_lease_expires_at = 2000\<rparr>"

theorem execution_reportable_witness:
  "cc_output (execute (Some demo_run) demo_job) = ''C:ok'' \<and> cc_status (execute (Some demo_run) demo_job) = Succeeded"
proof -
  have texts: "valid_utf8 ''dir''" "trim_space ''dir'' \<noteq> []" "valid_utf8 ''C:ok''" by code_simp+
  have v: "validate_command (cl_shell demo_job) (cl_command demo_job) (cl_timeout demo_job) = None"
    using texts(1,2) by (simp add: validate_command_None demo_job_def del: valid_utf8.simps)
  have iv: "command_invocation (cl_shell demo_job) (cl_command demo_job) =
      Inr \<lparr>iv_program = ''cmd.exe'', iv_args = [''/D'', ''/S'', ''/C'', ''dir'']\<rparr>" by (simp add: demo_job_def)
  from execution_reportable [OF v iv refl, of demo_run "''e''" "[]"] texts(3) show ?thesis
    by (simp add: demo_run_def del: valid_utf8.simps)
qed

end
