(* ===== verification/AgentClient.thy ===== *)
theory AgentClient
  imports AgentCollect CmdExecutor ApiTheorems
begin

text \<open>
  \<^verbatim>\<open>agent/internal/agent/client.go\<close>: the requests an Agent sends and how it reads the answers.  The
  transport is a parameter; \<open>None\<close> is a request that failed.  A request carries the decoded path, so
  \<^verbatim>\<open>url.PathEscape\<close> of a segment does not show.  The length of an encoding, or its failure, is the
  parameter \<open>marshal\<close>.
\<close>

section \<open>Requests and responses as JSON\<close>

definition write_pairing_create :: "pairing_create_request \<Rightarrow> json" where
  "write_pairing_create q = JObj [(''hostname'', JStr (pc_hostname q)), (''type'', JStr (pc_type q)),
     (''agent_version'', JStr (pc_agent_version q)), (''machine_id'', JStr (pc_machine_id q)),
     (''pairing_credential'', JStr (pc_pairing_credential q))]"

definition write_enroll :: "enroll_request \<Rightarrow> json" where
  "write_enroll q = JObj [(''token'', JStr (er_token q)), (''hostname'', JStr (er_hostname q)), (''type'', JStr (er_type q)),
     (''version'', JStr (er_version q)), (''machine_id'', JStr (er_machine_id q))]"

definition write_heartbeat :: "heartbeat \<Rightarrow> json" where
  "write_heartbeat h = JObj
     [(''hostname'', JStr (hb_hostname h)), (''agent_version'', JStr (hb_agent_version h)), (''os_name'', JStr (hb_os_name h)),
      (''os_version'', JStr (hb_os_version h)), (''ip_address'', JStr (hb_ip_address h)), (''cpu_percent'', JFloat (hb_cpu_percent h)),
      (''memory_percent'', JFloat (hb_memory_percent h)), (''disk_percent'', JFloat (hb_disk_percent h)),
      (''network_metrics_available'', JBool (hb_metrics_available h)), (''network_upload_mb_s'', JFloat (hb_upload_rate h)),
      (''network_download_mb_s'', JFloat (hb_download_rate h)), (''network_usage_available'', JBool (hb_usage_available h)),
      (''network_usage_day'', JStr (hb_usage_day h)), (''network_today_upload_bytes'', JInt (uint (hb_today_upload h))),
      (''network_today_download_bytes'', JInt (uint (hb_today_download h))),
      (''network_month_upload_bytes'', JInt (uint (hb_month_upload h))),
      (''network_month_download_bytes'', JInt (uint (hb_month_download h)))]"

definition write_log_upload :: "string \<Rightarrow> string \<Rightarrow> json" where
  "write_log_upload agent_log update_log = JObj [(''agent_log'', JStr agent_log), (''update_log'', JStr update_log)]"

definition write_completion :: "command_completion \<Rightarrow> json" where
  "write_completion c = JObj
     [(''lease_token'', JStr (cc_lease_token c)), (''status'', JStr (status_text (cc_status c))),
      (''exit_code'', json_option JInt (cc_exit_code c)), (''output'', JStr (cc_output c)),
      (''output_truncated'', JBool (cc_output_truncated c)), (''error_message'', JStr (cc_error_message c)),
      (''duration_ms'', JInt (cc_duration_ms c))]"

definition write_lease :: "string \<Rightarrow> json" where
  "write_lease token = JObj [(''lease_token'', JStr token)]"

definition zero_claim :: command_claim where
  "zero_claim = \<lparr>cl_execution_id = [], cl_task_id = [], cl_shell = OtherShell [], cl_command = [], cl_timeout = 0,
     cl_lease_token = [], cl_lease_expires_at = 0\<rparr>"

definition claim_fields :: "command_claim field list" where
  "claim_fields =
     [field_of ''execution_id'' read_string cl_execution_id cl_execution_id_update,
      field_of ''task_id'' read_string cl_task_id cl_task_id_update,
      field_of ''shell'' read_shell cl_shell cl_shell_update,
      field_of ''command'' read_string cl_command cl_command_update,
      field_of ''timeout_seconds'' read_int cl_timeout cl_timeout_update,
      field_of ''lease_token'' read_string cl_lease_token cl_lease_token_update,
      field_of ''lease_expires_at'' read_time cl_lease_expires_at cl_lease_expires_at_update]"

definition pairing_of_text :: "string \<Rightarrow> pairing_state" where
  "pairing_of_text s =
     (case find (\<lambda>t. pairing_text t = s) [PairingPending, PairingApproved, PairingRejected, PairingExpired] of
        Some t \<Rightarrow> t | None \<Rightarrow> OtherPairing s)"

definition read_pairing_state :: "json \<Rightarrow> pairing_state \<Rightarrow> pairing_state option" where
  "read_pairing_state j old = map_option pairing_of_text (read_string j (pairing_text old))"

definition zero_node :: node where
  "zero_node = \<lparr>nd_id = [], nd_group_id = [], nd_remark = [], nd_name = [], nd_type = [], nd_agent_version = [], nd_os_name = [],
     nd_os_version = [], nd_ip_address = [], nd_cpu_percent = Finite 0, nd_memory_percent = Finite 0, nd_disk_percent = Finite 0,
     nd_metrics_available = False, nd_upload_rate = Finite 0, nd_download_rate = Finite 0, nd_usage_available = False,
     nd_usage_day = [], nd_today_upload = 0, nd_today_download = 0, nd_month_upload = 0, nd_month_download = 0,
     nd_last_seen_at = None, nd_created_at = 0\<rparr>"

definition node_fields :: "node field list" where
  "node_fields =
     [field_of ''id'' read_string nd_id nd_id_update, field_of ''group_id'' read_string nd_group_id nd_group_id_update,
      field_of ''remark'' read_string nd_remark nd_remark_update, field_of ''name'' read_string nd_name nd_name_update,
      field_of ''type'' read_string nd_type nd_type_update, field_of ''agent_version'' read_string nd_agent_version nd_agent_version_update,
      field_of ''os_name'' read_string nd_os_name nd_os_name_update, field_of ''os_version'' read_string nd_os_version nd_os_version_update,
      field_of ''ip_address'' read_string nd_ip_address nd_ip_address_update,
      field_of ''cpu_percent'' read_float nd_cpu_percent nd_cpu_percent_update,
      field_of ''memory_percent'' read_float nd_memory_percent nd_memory_percent_update,
      field_of ''disk_percent'' read_float nd_disk_percent nd_disk_percent_update,
      field_of ''network_metrics_available'' read_bool nd_metrics_available nd_metrics_available_update,
      field_of ''network_upload_mb_s'' read_float nd_upload_rate nd_upload_rate_update,
      field_of ''network_download_mb_s'' read_float nd_download_rate nd_download_rate_update,
      field_of ''network_usage_available'' read_bool nd_usage_available nd_usage_available_update,
      field_of ''network_usage_day'' read_string nd_usage_day nd_usage_day_update,
      field_of ''network_today_upload_bytes'' read_u64 nd_today_upload nd_today_upload_update,
      field_of ''network_today_download_bytes'' read_u64 nd_today_download nd_today_download_update,
      field_of ''network_month_upload_bytes'' read_u64 nd_month_upload nd_month_upload_update,
      field_of ''network_month_download_bytes'' read_u64 nd_month_download nd_month_download_update,
      field_of ''last_seen_at'' (read_pointer read_time 0) nd_last_seen_at nd_last_seen_at_update,
      field_of ''created_at'' read_time nd_created_at nd_created_at_update]"

definition zero_poll :: pairing_poll_result where
  "zero_poll = \<lparr>pp_id = [], pp_state = OtherPairing [], pp_node = None, pp_expires_at = 0\<rparr>"

definition poll_fields :: "pairing_poll_result field list" where
  "poll_fields =
     [field_of ''pairing_id'' read_string pp_id pp_id_update, field_of ''state'' read_pairing_state pp_state pp_state_update,
      field_of ''node'' (read_pointer (read_struct False node_fields) zero_node) pp_node pp_node_update,
      field_of ''expires_at'' read_time pp_expires_at pp_expires_at_update]"

record enroll_result =
  rs_node :: node
  rs_credential :: string

definition enroll_result_fields :: "enroll_result field list" where
  "enroll_result_fields =
     [field_of ''node'' (read_struct False node_fields) rs_node rs_node_update,
      field_of ''credential'' read_string rs_credential rs_credential_update]"

section \<open>The client\<close>

record agent_client =
  ac_path :: string

text \<open>\<open>path_of\<close> is the path of a server URL.\<close>

definition new_agent_client :: "url_parser \<Rightarrow> (string \<Rightarrow> string) \<Rightarrow> string \<Rightarrow> agent_client res" where
  "new_agent_client url path_of server_url =
     (if \<not> is_http_url url server_url then Inl (Message ''server URL must use HTTP or HTTPS'')
      else Inr \<lparr>ac_path = path_of (trim_right (CHR ''/'') server_url)\<rparr>)"

type_synonym 's http_transport = "http_request \<Rightarrow> 's \<Rightarrow> http_response option \<times> 's"
type_synonym marshal = "json \<Rightarrow> nat option"

definition send_json ::
    "'s http_transport \<Rightarrow> marshal \<Rightarrow> agent_client \<Rightarrow> string \<Rightarrow> string \<Rightarrow> string \<Rightarrow> json option \<Rightarrow> 's \<Rightarrow> http_response res \<times> 's" where
  "send_json transport marshal c method path credential input s =
     (case (case input of None \<Rightarrow> Some empty_body | Some j \<Rightarrow> map_option (\<lambda>n. json_body n j) (marshal j)) of
        None \<Rightarrow> (Inl (Message ''encode request''), s)
      | Some b \<Rightarrow>
        (case transport \<lparr>rq_method = method, rq_path = ac_path c @ path,
               rq_authorization = (if credential = [] then [] else bearer @ credential), rq_cookie = None, rq_range = [],
               rq_remote = [], rq_body = b\<rparr> s of
           (None, s1) \<Rightarrow> (Inl (Message ''send request''), s1)
         | (Some response, s1) \<Rightarrow> (Inr response, s1)))"

abbreviation max_response :: nat where "max_response \<equiv> 1048576"

definition decode_body :: "'r field list \<Rightarrow> 'r \<Rightarrow> http_response \<Rightarrow> 'r res" where
  "decode_body fs zero response =
     (case bd_docs (rs_body response) of
        Some j # _ \<Rightarrow>
          (if bd_need (rs_body response) \<le> max_response
           then (case read_struct False fs j zero of None \<Rightarrow> Inl (Message ''decode response'') | Some v \<Rightarrow> Inr v)
           else Inl (Message ''decode response''))
      | _ \<Rightarrow> Inl (Message ''decode response''))"

definition request_failed :: "nat \<Rightarrow> go_error" where
  "request_failed code = Message (''request failed ('' @ nat_text code @ '')'')"

definition successful :: "nat \<Rightarrow> bool" where
  "successful code \<longleftrightarrow> 200 \<le> code \<and> code < 300"

definition do_json ::
    "'s http_transport \<Rightarrow> marshal \<Rightarrow> agent_client \<Rightarrow> string \<Rightarrow> string \<Rightarrow> string \<Rightarrow> json option \<Rightarrow> 'r field list \<Rightarrow> 'r \<Rightarrow> 's \<Rightarrow> 'r res \<times> 's" where
  "do_json transport marshal c method path credential input fs zero s =
     (case send_json transport marshal c method path credential input s of
        (Inl e, s1) \<Rightarrow> (Inl e, s1)
      | (Inr response, s1) \<Rightarrow>
        (if \<not> successful (rs_status response) then Inl (request_failed (rs_status response))
         else decode_body fs zero response, s1))"

text \<open>64-bit arithmetic of durations wraps around.\<close>

definition wrap64 :: "int \<Rightarrow> int" where
  "wrap64 i = (i + 2 ^ 63) mod 2 ^ 64 - 2 ^ 63"

text \<open>The embedded result has its fields promoted beside \<^verbatim>\<open>poll_after_seconds\<close>.\<close>

record pairing_answer =
  pa_result :: pairing_poll_result
  pa_poll_after :: int

definition promote :: "pairing_poll_result field \<Rightarrow> pairing_answer field" where
  "promote f = (fst f, \<lambda>j r. map_option (\<lambda>x. r\<lparr>pa_result := x\<rparr>) (snd f j (pa_result r)))"

definition pairing_answer_fields :: "pairing_answer field list" where
  "pairing_answer_fields = map promote poll_fields @
     [field_of ''poll_after_seconds'' read_int pa_poll_after pa_poll_after_update]"

definition client_start_pairing ::
    "'s http_transport \<Rightarrow> marshal \<Rightarrow> agent_client \<Rightarrow> pairing_create_request \<Rightarrow> time \<Rightarrow> 's \<Rightarrow> (pairing_poll_result \<times> duration) res \<times> 's" where
  "client_start_pairing transport marshal c request now s =
     (case do_json transport marshal c ''POST'' ''/api/v1/agent/pairings'' [] (Some (write_pairing_create request))
            pairing_answer_fields \<lparr>pa_result = zero_poll, pa_poll_after = 0\<rparr> s of
        (Inl e, s1) \<Rightarrow> (Inl e, s1)
      | (Inr a, s1) \<Rightarrow>
        let r = pa_result a; after = wrap64 (pa_poll_after a * second)
        in if pp_id r = [] \<or> is_zero_time (pp_expires_at r) \<or> pp_expires_at r \<le> now
           then (Inl (Message ''pairing response is incomplete''), s1)
           else (Inr (r, if after \<le> 0 then 5 * second else after), s1))"

text \<open>A poll can return a result together with an error.\<close>

definition client_poll_pairing ::
    "'s http_transport \<Rightarrow> marshal \<Rightarrow> agent_client \<Rightarrow> string \<Rightarrow> string \<Rightarrow> 's \<Rightarrow> (pairing_poll_result \<times> go_error option) \<times> 's" where
  "client_poll_pairing transport marshal c i credential s =
     (case send_json transport marshal c ''GET'' (''/api/v1/agent/pairings/'' @ i) credential None s of
        (Inl e, s1) \<Rightarrow> ((zero_poll, Some e), s1)
      | (Inr response, s1) \<Rightarrow>
        ((if rs_status response = 410
          then (case decode_body poll_fields zero_poll response of
                  Inl e \<Rightarrow> (zero_poll, Some e)
                | Inr r \<Rightarrow>
                  if pp_state r = PairingRejected then (r, Some (Sentinel ErrPairingRejected))
                  else if pp_state r = PairingExpired then (r, Some (Sentinel ErrPairingExpired))
                  else (zero_poll, Some (request_failed 410)))
          else if \<not> successful (rs_status response) then (zero_poll, Some (request_failed (rs_status response)))
          else (case decode_body poll_fields zero_poll response of Inl e \<Rightarrow> (zero_poll, Some e) | Inr r \<Rightarrow> (r, None))), s1))"

definition client_enroll ::
    "'s http_transport \<Rightarrow> marshal \<Rightarrow> agent_client \<Rightarrow> enroll_request \<Rightarrow> 's \<Rightarrow> enroll_result res \<times> 's" where
  "client_enroll transport marshal c request s =
     (case do_json transport marshal c ''POST'' ''/api/v1/agent/enroll'' [] (Some (write_enroll request)) enroll_result_fields
            \<lparr>rs_node = zero_node, rs_credential = []\<rparr> s of
        (Inl e, s1) \<Rightarrow> (Inl e, s1)
      | (Inr r, s1) \<Rightarrow>
        (if nd_id (rs_node r) = [] \<or> rs_credential r = [] then Inl (Message ''enrollment response is incomplete'') else Inr r, s1))"

definition client_heartbeat ::
    "'s http_transport \<Rightarrow> marshal \<Rightarrow> agent_client \<Rightarrow> string \<Rightarrow> heartbeat \<Rightarrow> 's \<Rightarrow> go_error option \<times> 's" where
  "client_heartbeat transport marshal c credential h s =
     (let (r, s1) = do_json transport marshal c ''POST'' ''/api/v1/agent/heartbeat'' credential (Some (write_heartbeat h))
            [field_of ''node'' (read_struct False node_fields) (\<lambda>n. n) (\<lambda>f. f)] zero_node s
      in (case r of Inl e \<Rightarrow> Some e | Inr n \<Rightarrow> None, s1))"

definition client_upload_logs ::
    "'s http_transport \<Rightarrow> marshal \<Rightarrow> agent_client \<Rightarrow> string \<Rightarrow> string \<Rightarrow> string \<Rightarrow> 's \<Rightarrow> go_error option \<times> 's" where
  "client_upload_logs transport marshal c credential agent_log update_log s =
     (let (r, s1) = do_json transport marshal c ''POST'' ''/api/v1/agent/logs'' credential
            (Some (write_log_upload agent_log update_log)) [] () s
      in (case r of Inl e \<Rightarrow> Some e | Inr n \<Rightarrow> None, s1))"

definition decode_command_response :: "http_response \<Rightarrow> bool \<Rightarrow> go_error option" where
  "decode_command_response response decode =
     (if rs_status response = 409 then Some (Sentinel ErrCommandLeaseRejected)
      else if \<not> successful (rs_status response) then Some (request_failed (rs_status response))
      else if \<not> decode then None
      else case decode_body [] () response of Inl e \<Rightarrow> Some e | Inr u \<Rightarrow> None)"

definition client_claim ::
    "'s http_transport \<Rightarrow> marshal \<Rightarrow> agent_client \<Rightarrow> string \<Rightarrow> time \<Rightarrow> 's \<Rightarrow> command_claim option res \<times> 's" where
  "client_claim transport marshal c credential now s =
     (case send_json transport marshal c ''POST'' ''/api/v1/agent/commands/claim'' credential None s of
        (Inl e, s1) \<Rightarrow> (Inl e, s1)
      | (Inr response, s1) \<Rightarrow>
        if rs_status response = 204 then (Inr None, s1)
        else case decode_command_response response False of
            Some e \<Rightarrow> (Inl e, s1)
          | None \<Rightarrow>
            (case decode_body claim_fields zero_claim response of
               Inl e \<Rightarrow> (Inl e, s1)
             | Inr cl \<Rightarrow>
               if cl_execution_id cl = [] \<or> cl_task_id cl = [] \<or> cl_lease_token cl = [] \<or> is_zero_time (cl_lease_expires_at cl) \<or>
                  cl_lease_expires_at cl \<le> now \<or> validate_command (cl_shell cl) (cl_command cl) (cl_timeout cl) \<noteq> None
               then (Inl (Message ''command claim is invalid''), s1) else (Inr (Some cl), s1)))"

definition report_json ::
    "'s http_transport \<Rightarrow> marshal \<Rightarrow> agent_client \<Rightarrow> string \<Rightarrow> string \<Rightarrow> json \<Rightarrow> 's \<Rightarrow> go_error option \<times> 's" where
  "report_json transport marshal c path credential j s =
     (case send_json transport marshal c ''POST'' path credential (Some j) s of
        (Inl e, s1) \<Rightarrow> (Some e, s1)
      | (Inr response, s1) \<Rightarrow> (decode_command_response response True, s1))"

definition client_start_command ::
    "'s http_transport \<Rightarrow> marshal \<Rightarrow> agent_client \<Rightarrow> string \<Rightarrow> string \<Rightarrow> string \<Rightarrow> 's \<Rightarrow> go_error option \<times> 's" where
  "client_start_command transport marshal c credential i token =
     report_json transport marshal c (''/api/v1/agent/commands/'' @ i @ ''/start'') credential (write_lease token)"

definition client_complete_command ::
    "'s http_transport \<Rightarrow> marshal \<Rightarrow> agent_client \<Rightarrow> string \<Rightarrow> command_completion \<Rightarrow> 's \<Rightarrow> go_error option \<times> 's" where
  "client_complete_command transport marshal c credential r =
     report_json transport marshal c (''/api/v1/agent/commands/'' @ cc_execution_id r @ ''/complete'') credential (write_completion r)"

end
