(* ===== verification/AgentTheorems.thy ===== *)
theory AgentTheorems
  imports AgentClient
begin

text \<open>
  The Agent's client against the API of the server: a claimed command can be started and its result
  reported, with the same credential and lease, and what the executor produced ends up in the queue.
\<close>

section \<open>Reading what the other side wrote\<close>

lemma read_claim_exact:
  assumes "read_struct False claim_fields (write_claim c) zero_claim = Some d"
  shows "cl_execution_id d = cl_execution_id c \<and> cl_lease_token d = cl_lease_token c \<and>
    cl_lease_expires_at d = cl_lease_expires_at c"
  using assms
  by (auto simp: claim_fields_def write_claim_def field_of_def set_member_def zero_claim_def read_shell_def split: if_splits)

lemma read_lease: "read_struct False (text_fields ''lease_token'') (write_lease t) [] = Some t"
  by (simp add: text_fields_def write_lease_def field_of_def set_member_def)

lemma status_named: "status_terminal st \<Longrightarrow> status_of_text (status_text st) = st"
  by (cases st) (simp_all add: status_of_text_def)

lemma read_completion:
  assumes "status_terminal (cc_status r)" and "case cc_exit_code r of None \<Rightarrow> True | Some x \<Rightarrow> int64 x" and "int64 (cc_duration_ms r)"
  shows "read_struct False completion_fields (write_completion r) zero_completion = Some (r\<lparr>cc_execution_id := []\<rparr>)"
  using assms status_named [OF assms(1)]
  by (cases "cc_exit_code r")
    (simp_all add: completion_fields_def write_completion_def field_of_def set_member_def zero_completion_def
      read_status_text_def json_option_def)

section \<open>Routes\<close>

lemma split_command_path:
  assumes "CHR ''/'' \<notin> set i"
  shows "split_at (CHR ''/'') (''/api/v1/agent/commands/'' @ i @ CHR ''/'' # v) =
    [[], ''api'', ''v1'', ''agent'', ''commands'', i] @ split_at (CHR ''/'') v"
  using split_at_append [OF assms] by simp

lemma command_routes:
  "route ''POST'' ''/api/v1/agent/commands/claim'' = Some RClaimCommand"
  "CHR ''/'' \<notin> set i \<Longrightarrow> i \<noteq> [] \<Longrightarrow> route ''POST'' (''/api/v1/agent/commands/'' @ i @ ''/start'') = Some (RStartCommand i)"
  "CHR ''/'' \<notin> set i \<Longrightarrow> i \<noteq> [] \<Longrightarrow> route ''POST'' (''/api/v1/agent/commands/'' @ i @ ''/complete'') = Some (RCompleteCommand i)"
proof -
  show "route ''POST'' ''/api/v1/agent/commands/claim'' = Some RClaimCommand"
    by (simp add: route_def post_route_def)
  show "route ''POST'' (''/api/v1/agent/commands/'' @ i @ ''/start'') = Some (RStartCommand i)"
    "route ''POST'' (''/api/v1/agent/commands/'' @ i @ ''/complete'') = Some (RCompleteCommand i)"
    if "CHR ''/'' \<notin> set i" "i \<noteq> []"
    using split_command_path [OF that(1), of "''start''"] split_command_path [OF that(1), of "''complete''"] that(2)
    by (simp_all add: route_def post_route_def with_id_def)
qed

section \<open>A claim\<close>

lemma claim_attempt_Some:
  assumes "claim_attempt env credential k s0 = (Inr (Some c), s1)"
  obtains sv db lease c0 now where "db = run_changes (ae_other env k) (as_db s0)" "lease = hash_token (ae_crypto env) (cl_lease_token c)"
    "claim_command sv db (hash_token (ae_crypto env) credential) lease now command_lease = (Inr (Some c0), as_db s1)"
    "cl_execution_id c = cl_execution_id c0" "cl_lease_expires_at c = cl_lease_expires_at c0"
proof -
  obtain plain hash where token: "new_opaque_token (ae_crypto env) (ae_random env k) = Inr (plain, hash)"
    using assms by (auto simp: claim_attempt_def split: sum.splits)
  have hash: "hash = hash_token (ae_crypto env) plain"
    using token by (auto simp: new_opaque_token_def Let_def split: sum.splits)
  let ?op = "\<lambda>sv db. claim_command sv db (hash_token (ae_crypto env) credential) hash (ae_now env k) command_lease"
  obtain c0 where c0: "repo env k ?op s0 = (Inr (Some c0), s1)" "c = c0\<lparr>cl_lease_token := plain\<rparr>"
    using assms token by (auto simp: claim_attempt_def split: sum.splits prod.splits option.splits)
  then have "?op (ae_server env k) (run_changes (ae_other env k) (as_db s0)) = (Inr (Some c0), as_db s1)"
    by (auto simp: repo_def split: prod.splits)
  then show ?thesis using that [OF refl _ _ _ _] hash c0(2) by auto
qed

lemma poll_claim_Some:
  assumes "poll_claim env credential k ticks s = (Some resp, s1)" and "successful (rs_status resp)" and "rs_status resp \<noteq> 204"
  shows "\<exists>j s0 c. claim_attempt env credential j s0 = (Inr (Some c), s1) \<and> resp = fixed_response 200 (write_claim c) \<and>
    (orderly env \<longrightarrow> api_steps s s0)"
  using assms
proof (induction ticks arbitrary: k s)
  case 0
  have err: "\<not> successful (rs_status (write_error e))" for e by (simp add: write_error_def fixed_response_def successful_def)
  obtain r t where a: "claim_attempt env credential k s = (r, t)" by fastforce
  show ?case
  proof (cases r)
    case (Inl e)
    with 0 a err show ?thesis by (subst (asm) poll_claim.simps) auto
  next
    case (Inr x)
    with 0 a show ?thesis
      by (subst (asm) poll_claim.simps) (cases x, auto simp: bare_response_def split: if_splits intro!: exI [of _ k] exI [of _ s])
  qed
next
  case (Suc n)
  have err: "\<not> successful (rs_status (write_error e))" for e by (simp add: write_error_def fixed_response_def successful_def)
  obtain r t where a: "claim_attempt env credential k s = (r, t)" by fastforce
  show ?case
  proof (cases r)
    case (Inl e)
    with Suc.prems a err show ?thesis by (subst (asm) poll_claim.simps) auto
  next
    case (Inr x)
    show ?thesis
    proof (cases x)
      case None
      with Suc.prems a Inr have "poll_claim env credential (k + 1) n t = (Some resp, s1)"
        by (subst (asm) poll_claim.simps) simp
      from Suc.IH [OF this Suc.prems(2,3)] obtain j s0 c where
        "claim_attempt env credential j s0 = (Inr (Some c), s1)" "resp = fixed_response 200 (write_claim c)"
        "orderly env \<longrightarrow> api_steps t s0" by blast
      moreover have "orderly env \<longrightarrow> api_steps s t" using claim_attempt_steps [of env s credential k] a by simp
      ultimately show ?thesis using db_steps_trans by blast
    next
      case (Some c)
      with Suc.prems a Inr show ?thesis
        by (subst (asm) poll_claim.simps) (auto intro!: exI [of _ k] exI [of _ s])
    qed
  qed
qed

section \<open>Start and completion\<close>

lemma credential_kept:
  assumes "command_credential_node sv db c = Inr nid" and "healthy sv'"
    and "db_credentials db' = db_credentials db" and "db_nodes db' = db_nodes db"
  shows "command_credential_node sv' db' c = Inr nid"
  using assms(1,2) unfolding command_credential_node_def credential_active_def assms(3,4) by (simp split: option.splits)

lemma start_ok:
  assumes "queue_inv db" and "healthy sv" and "command_credential_node sv db cred = Inr nid"
    and "e \<in> set (db_executions db)" and "held_by i nid l now e"
    and "cred \<noteq> []" and "i \<noteq> []" and "l \<noteq> []" and "now \<noteq> 0"
  shows "start_command sv db cred i l now =
    (Inr (), db\<lparr>db_executions := sql_update (held_by i nid l now) (start_row now) (db_executions db)\<rparr>)"
proof -
  have "sql_count (held_by i nid l now) (db_executions db) = 1"
    using held_unique [OF assms(1)] assms(4,5) by blast
  then show ?thesis using assms by (simp add: start_command_def Let_def statement_def)
qed

lemma complete_ok:
  assumes "queue_inv db" and "healthy sv" and "command_credential_node sv db cred = Inr nid"
    and "e \<in> set (db_executions db)" and "held_by (cc_execution_id r) nid l now e"
    and "cred \<noteq> []" and "l \<noteq> []" and "now \<noteq> 0" and "valid_command_completion r" and "completion_storable r"
  shows "complete_command sv db cred l r now =
    (Inr (), db\<lparr>db_executions := sql_update (held_by (cc_execution_id r) nid l now) (complete_row r now) (db_executions db)\<rparr>)"
proof -
  have "sql_count (held_by (cc_execution_id r) nid l now) (db_executions db) = 1"
    using held_unique [OF assms(1)] assms(4,5) by blast
  then show ?thesis using assms by (simp add: complete_command_def Let_def statement_def checked_def)
qed

lemma hash_nonempty: "crypto_laws cy \<Longrightarrow> hash_token cy t \<noteq> []"
  by (auto simp: hash_token_def crypto_laws_def dest: arg_cong [where f = length])

text \<open>A request during which nothing else happens, on a server with commands; a body within a limit.\<close>

definition undisturbed :: "crypto \<Rightarrow> 'u api_env \<Rightarrow> bool" where
  "undisturbed cy env \<longleftrightarrow> ae_crypto env = cy \<and> ae_other env 1 = [] \<and> healthy (ae_server env 1) \<and> ae_commands env \<and> ae_now env 1 \<noteq> 0"

definition small :: "marshal \<Rightarrow> nat \<Rightarrow> json \<Rightarrow> bool" where
  "small marshal limit j \<longleftrightarrow> (case marshal j of None \<Rightarrow> False | Some n \<Rightarrow> n \<le> limit)"

lemma client_report:
  assumes "serve_api env \<lparr>rq_method = ''POST'', rq_path = path, rq_authorization = bearer @ credential, rq_cookie = None,
      rq_range = [], rq_remote = [], rq_body = json_body n j\<rparr> s = (Some (fixed_response 200 accepted), t)"
    and "marshal j = Some n" and "ac_path c = []" and "credential \<noteq> []"
  shows "report_json (serve_api env) marshal c path credential j s = (None, t)"
  using assms
  by (simp add: report_json_def send_json_def decode_command_response_def successful_def decode_body_def
      fixed_response_def json_body_def accepted_def set_member_def)

lemma client_start_ok:
  assumes "undisturbed cy env" and "ac_path c = []" and "credential \<noteq> []" and "small marshal 4096 (write_lease token)"
    and "CHR ''/'' \<notin> set i" and "i \<noteq> []" and "token \<noteq> []"
    and "start_command (ae_server env 1) (as_db s) (hash_token cy credential) i (hash_token cy token) (ae_now env 1) = (Inr (), db)"
  shows "client_start_command (serve_api env) marshal c credential i token s = (None, s\<lparr>as_db := db\<rparr>)"
proof -
  obtain n where n: "marshal (write_lease token) = Some n" "n \<le> 4096" using assms(4) by (auto simp: small_def split: option.splits)
  let ?rq = "\<lparr>rq_method = ''POST'', rq_path = ''/api/v1/agent/commands/'' @ i @ ''/start'', rq_authorization = bearer @ credential,
      rq_cookie = None, rq_range = [], rq_remote = [], rq_body = json_body n (write_lease token)\<rparr>"
  have "bearer_credential ?rq = Some credential" using assms(3) by (simp add: bearer_credential_def)
  moreover have "bind_json (Some 4096) (text_fields ''lease_token'') [] ?rq = Some token"
    using n(2) by (simp add: bind_json_def json_body_def read_lease)
  moreover have "route (rq_method ?rq) (rq_path ?rq) = Some (RStartCommand i)" using command_routes(2) [OF assms(5,6)] by simp
  ultimately have "serve_api env ?rq s = (Some (fixed_response 200 accepted), s\<lparr>as_db := db\<rparr>)"
    using assms(1,7,8)
    by (simp add: serve_api_def handle_start_command_def undisturbed_def repo_def run_changes_def reply_def answered_by_def)
  then show ?thesis unfolding client_start_command_def
    using client_report [where j = "write_lease token" and marshal = marshal] n(1) assms(2,3) by blast
qed

lemma client_complete_ok:
  assumes "undisturbed cy env" and "ac_path c = []" and "credential \<noteq> []" and "small marshal 307200 (write_completion r)"
    and "CHR ''/'' \<notin> set (cc_execution_id r)" and "valid_command_completion r" and "cc_lease_token r \<noteq> []"
    and "case cc_exit_code r of None \<Rightarrow> True | Some x \<Rightarrow> int64 x" and "int64 (cc_duration_ms r)"
    and "complete_command (ae_server env 1) (as_db s) (hash_token cy credential) (hash_token cy (cc_lease_token r))
      (r\<lparr>cc_lease_token := []\<rparr>) (ae_now env 1) = (Inr (), db)"
  shows "client_complete_command (serve_api env) marshal c credential r s = (None, s\<lparr>as_db := db\<rparr>)"
proof -
  have i: "cc_execution_id r \<noteq> []" and st: "status_terminal (cc_status r)" using assms(6) by (simp_all add: valid_command_completion_def)
  obtain n where n: "marshal (write_completion r) = Some n" "n \<le> 307200" using assms(4) by (auto simp: small_def split: option.splits)
  let ?rq = "\<lparr>rq_method = ''POST'', rq_path = ''/api/v1/agent/commands/'' @ cc_execution_id r @ ''/complete'',
      rq_authorization = bearer @ credential, rq_cookie = None, rq_range = [], rq_remote = [], rq_body = json_body n (write_completion r)\<rparr>"
  have "bearer_credential ?rq = Some credential" using assms(3) by (simp add: bearer_credential_def)
  moreover have "bind_json (Some 307200) completion_fields zero_completion ?rq = Some (r\<lparr>cc_execution_id := []\<rparr>)"
    using n(2) read_completion [OF st assms(8,9)] by (simp add: bind_json_def json_body_def)
  moreover have "route (rq_method ?rq) (rq_path ?rq) = Some (RCompleteCommand (cc_execution_id r))"
    using command_routes(3) [OF assms(5) i] by simp
  moreover have "valid_completion_payload r" using assms(6,7) by (simp add: valid_completion_payload_def valid_command_completion_def)
  moreover have "r\<lparr>cc_execution_id := cc_execution_id r\<rparr> = r" by simp
  ultimately have "serve_api env ?rq s = (Some (fixed_response 200 accepted), s\<lparr>as_db := db\<rparr>)"
    using assms(1,10)
    by (simp add: serve_api_def handle_complete_command_def undisturbed_def repo_def run_changes_def reply_def
        answered_by_def Let_def)
  then show ?thesis unfolding client_complete_command_def
    using client_report [where j = "write_completion r" and marshal = marshal] n(1) assms(2,3) by blast
qed

section \<open>From claim to result\<close>

lemma credential_executions: "command_credential_node sv (db\<lparr>db_executions := es\<rparr>) c = command_credential_node sv db c"
proof -
  have "db_nodes (db\<lparr>db_executions := es\<rparr>) = db_nodes db" "db_credentials (db\<lparr>db_executions := es\<rparr>) = db_credentials db" by simp_all
  then show ?thesis unfolding command_credential_node_def credential_active_def by (simp only:)
qed

lemma claimed_over_api:
  assumes "client_claim (serve_api env) marshal c credential now s = (Inr (Some cl), s1)" and "ac_path c = []"
    and "orderly env" and "system_inv (as_db s)"
  obtains sv e nid where "system_inv (as_db s1)"
    "command_credential_node sv (as_db s1) (hash_token (ae_crypto env) credential) = Inr nid"
    "e \<in> set (db_executions (as_db s1))" "xr_id e = cl_execution_id cl" "xr_node_id e = nid" "xr_status e = Leased"
    "xr_lease_hash e = Some (hash_token (ae_crypto env) (cl_lease_token cl))" "xr_lease_expires e = Some (cl_lease_expires_at cl)"
    "cl_execution_id cl \<noteq> []" "cl_lease_token cl \<noteq> []" "credential \<noteq> []"
    "validate_command (cl_shell cl) (cl_command cl) (cl_timeout cl) = None"
proof -
  let ?rq = "\<lparr>rq_method = ''POST'', rq_path = ''/api/v1/agent/commands/claim'',
      rq_authorization = (if credential = [] then [] else bearer @ credential), rq_cookie = None, rq_range = [],
      rq_remote = [], rq_body = empty_body\<rparr>"
  obtain resp where call: "serve_api env ?rq s = (Some resp, s1)" and ok: "rs_status resp \<noteq> 204" "successful (rs_status resp)"
    and body: "decode_body claim_fields zero_claim resp = Inr cl"
    and checks: "cl_execution_id cl \<noteq> []" "cl_lease_token cl \<noteq> []"
      "validate_command (cl_shell cl) (cl_command cl) (cl_timeout cl) = None"
    using assms(1,2) by (auto simp: client_claim_def send_json_def decode_command_response_def
        split: option.splits prod.splits sum.splits if_splits)
  have "serve_api env ?rq s = handle_claim_command env ?rq s"
    by (simp add: serve_api_def command_routes(1))
  moreover have bearer: "bearer_credential ?rq = (if credential = [] then None else Some credential)"
    by (cases "credential = []", simp add: bearer_credential_def has_prefix_def bearer_def, simp add: bearer_credential_def)
  ultimately have cr: "credential \<noteq> []" and poll: "poll_claim env credential 1 (ae_ticks env) s = (Some resp, s1)"
    using call ok by (auto simp: handle_claim_command_def successful_def unauthorized_def no_commands_def
        write_error_def fixed_response_def split: if_splits)
  from poll_claim_Some [OF poll ok(2,1)] obtain j s0 c1 where
    att: "claim_attempt env credential j s0 = (Inr (Some c1), s1)" and resp: "resp = fixed_response 200 (write_claim c1)"
    and steps: "api_steps s s0" using assms(3) by blast
  from claim_attempt_Some [OF att] obtain sv db lease c0 t where
    db: "db = run_changes (ae_other env j) (as_db s0)" "lease = hash_token (ae_crypto env) (cl_lease_token c1)"
    and claim: "claim_command sv db (hash_token (ae_crypto env) credential) lease t command_lease = (Inr (Some c0), as_db s1)"
    and same: "cl_execution_id c1 = cl_execution_id c0" "cl_lease_expires_at c1 = cl_lease_expires_at c0" by metis
  have "read_struct False claim_fields (write_claim c1) zero_claim = Some cl"
    using body by (auto simp: resp decode_body_def fixed_response_def json_body_def split: if_splits option.splits)
  note r = read_claim_exact [OF this]
  obtain nid e0 t0 es where row:
    "command_credential_node sv db (hash_token (ae_crypto env) credential) = Inr nid"
    "sql_first (claim_order sv) (claimable sv db nid es) = Some (e0, t0)"
    "as_db s1 = db\<lparr>db_executions := sql_update (lease_target (xr_id e0) nid) (lease_row lease (t + command_lease)) es\<rparr>"
    "cl_execution_id c0 = xr_id e0" "cl_lease_expires_at c0 = t + command_lease"
    by (rule claim_command_Some [OF claim]) auto
  have e0: "e0 \<in> set es" "xr_status e0 = Queued" "xr_node_id e0 = nid"
    using sql_first_in [OF row(2)] by (simp_all add: claimable_iff)
  then have mem: "lease_row lease (t + command_lease) e0 \<in> set (db_executions (as_db s1))"
    unfolding row(3) by (auto simp: in_sql_update lease_target_def)
  have node: "command_credential_node sv (as_db s1) (hash_token (ae_crypto env) credential) = Inr nid"
    using row(1) unfolding row(3) credential_executions .
  have "api_steps s s1" using claim_attempt_steps [OF assms(3), of s0 credential j] att steps db_steps_trans by fastforce
  then have "system_inv (as_db s1)" using assms(4) db_steps_inv by blast
  from that [OF this node mem] show ?thesis using row(4,5) same r db(2) e0 checks cr by (simp add: lease_row_def)
qed

lemma execute_numbers:
  assumes "\<And>iv. po_exit (run_process iv (cl_timeout cl)) < 2 ^ 63 \<and> po_millis (run_process iv (cl_timeout cl)) < 2 ^ 63"
  shows "(case cc_exit_code (execute (Some run_process) cl) of None \<Rightarrow> True | Some x \<Rightarrow> int64 x) \<and>
    int64 (cc_duration_ms (execute (Some run_process) cl))"
proof -
  have m: "int (po_millis (run_process iv (cl_timeout cl))) < 2 ^ 63" for iv
    using assms [of iv] by (metis of_nat_less_numeral_power_cancel_iff)
  show ?thesis using assms m
    by (auto simp: execute_def failed_completion_def int64_def Let_def case_prod_beta split: option.split sum.split)
qed

lemma sql_update_changed: "e \<in> set es \<Longrightarrow> P e \<Longrightarrow> f e \<in> set (sql_update P f es)"
  by (auto simp: in_sql_update)

lemma held_after_start: "held_by i nid l t1 e \<Longrightarrow> held_by i nid l t2 e \<Longrightarrow> held_by i nid l t2 (start_row t1 e)"
  by (simp add: held_by_def lease_valid_def start_row_def)

text \<open>Both reports about a claimed command are accepted, and the queue holds the result.\<close>

lemma reports_accepted:
  assumes "system_inv (as_db s)" and "orderly env1" and "crypto_laws (ae_crypto env1)" and "ac_path c = []"
    and "client_claim (serve_api env1) marshal c credential now s = (Inr (Some cl), s1)" and "CHR ''/'' \<notin> set (cl_execution_id cl)"
    and "r = (execute (Some run_process) cl)\<lparr>cc_execution_id := cl_execution_id cl, cc_lease_token := cl_lease_token cl\<rparr>"
    and "\<And>iv. po_exit (run_process iv (cl_timeout cl)) < 2 ^ 32 \<and> po_millis (run_process iv (cl_timeout cl)) < 2 ^ 63"
    and "completion_storable r" and "small marshal 4096 (write_lease (cl_lease_token cl))" and "small marshal 307200 (write_completion r)"
    and "undisturbed (ae_crypto env1) env2" and "ae_now env2 1 < cl_lease_expires_at cl"
    and "undisturbed (ae_crypto env1) env3" and "ae_now env3 1 < cl_lease_expires_at cl"
  shows "\<exists>s2 s3. client_start_command (serve_api env2) marshal c credential (cl_execution_id cl) (cl_lease_token cl) s1 = (None, s2) \<and>
    client_complete_command (serve_api env3) marshal c credential r s2 = (None, s3) \<and>
    (\<exists>e\<in>set (db_executions (as_db s3)). xr_id e = cl_execution_id cl \<and> xr_status e = cc_status r \<and>
       xr_exit_code e = cc_exit_code r \<and> xr_output e = cc_output r \<and> xr_truncated e = cc_output_truncated r)"
proof -
  let ?cy = "ae_crypto env1"
  obtain sv e nid where inv1: "system_inv (as_db s1)" and node: "command_credential_node sv (as_db s1) (hash_token ?cy credential) = Inr nid"
    and e: "e \<in> set (db_executions (as_db s1))" "xr_id e = cl_execution_id cl" "xr_node_id e = nid" "xr_status e = Leased"
      "xr_lease_hash e = Some (hash_token ?cy (cl_lease_token cl))" "xr_lease_expires e = Some (cl_lease_expires_at cl)"
    and ne: "cl_execution_id cl \<noteq> []" "cl_lease_token cl \<noteq> []" "credential \<noteq> []"
    by (rule claimed_over_api [OF assms(5,4,2,1)])
  let ?h = "hash_token ?cy (cl_lease_token cl)"
  let ?i = "cl_execution_id cl"
  have held: "held_by ?i nid ?h t e" if "t < cl_lease_expires_at cl" for t
    using e that by (simp add: held_by_def lease_valid_def)
  have q1: "queue_inv (as_db s1)" using inv1 by (simp add: system_inv_def)
  have u2: "healthy (ae_server env2 1)" "ae_now env2 1 \<noteq> 0" and u3: "healthy (ae_server env3 1)" "ae_now env3 1 \<noteq> 0"
    using assms(12,14) by (simp_all add: undisturbed_def)
  let ?db2 = "as_db s1\<lparr>db_executions := sql_update (held_by ?i nid ?h (ae_now env2 1)) (start_row (ae_now env2 1)) (db_executions (as_db s1))\<rparr>"
  have start: "start_command (ae_server env2 1) (as_db s1) (hash_token ?cy credential) ?i ?h (ae_now env2 1) = (Inr (), ?db2)"
    by (rule start_ok [OF q1 u2(1) credential_kept [OF node u2(1) refl refl] e(1) held [OF assms(13)]
      hash_nonempty [OF assms(3)] ne(1) hash_nonempty [OF assms(3)] u2(2)])
  from client_start_ok [OF assms(12,4) ne(3) assms(10,6) ne(1,2) start]
  have call2: "client_start_command (serve_api env2) marshal c credential ?i (cl_lease_token cl) s1 = (None, s1\<lparr>as_db := ?db2\<rparr>)" .
  let ?e2 = "start_row (ae_now env2 1) e"
  have e2: "?e2 \<in> set (db_executions ?db2)"
    using sql_update_changed [OF e(1), of "held_by ?i nid ?h (ae_now env2 1)", OF held [OF assms(13)]] by simp
  have q2: "queue_inv ?db2"
    using run_op_inv [OF q1, of "ae_server env2 1" "OpStart (hash_token ?cy credential) ?i ?h (ae_now env2 1)"] start by simp
  have held2: "held_by ?i nid ?h (ae_now env3 1) ?e2" by (rule held_after_start [OF held [OF assms(13)] held [OF assms(15)]])
  have node2: "command_credential_node (ae_server env3 1) ?db2 (hash_token ?cy credential) = Inr nid"
    by (rule credential_kept [OF node u3(1)]) simp_all
  let ?r = "r\<lparr>cc_lease_token := []\<rparr>"
  have rids: "cc_execution_id r = ?i" "cc_lease_token r = cl_lease_token cl" by (simp_all add: assms(7))
  have exit: "po_exit (run_process iv (cl_timeout cl)) < 10 ^ 100 \<and> po_exit (run_process iv (cl_timeout cl)) < 2 ^ 63 \<and>
      po_millis (run_process iv (cl_timeout cl)) < 2 ^ 63" for iv
    using assms(8) [of iv] by simp
  have valid: "valid_command_completion r" unfolding assms(7)
    by (rule execute_valid [OF _ ne(1)]) (use exit in simp)
  have numbers: "case cc_exit_code r of None \<Rightarrow> True | Some x \<Rightarrow> int64 x" "int64 (cc_duration_ms r)"
    using execute_numbers [of run_process cl] exit by (simp_all add: assms(7))
  let ?db3 = "?db2\<lparr>db_executions := sql_update (held_by ?i nid ?h (ae_now env3 1)) (complete_row ?r (ae_now env3 1)) (db_executions ?db2)\<rparr>"
  have complete: "complete_command (ae_server env3 1) ?db2 (hash_token ?cy credential) ?h ?r (ae_now env3 1) = (Inr (), ?db3)"
    using complete_ok [OF q2 u3(1) node2 e2, of ?r ?h "ae_now env3 1"] held2 hash_nonempty [OF assms(3)] u3(2) valid assms(9) rids(1)
    by (simp add: valid_command_completion_def completion_storable_def)
  have call3: "client_complete_command (serve_api env3) marshal c credential r (s1\<lparr>as_db := ?db2\<rparr>) = (None, s1\<lparr>as_db := ?db3\<rparr>)"
    using client_complete_ok [OF assms(14,4) ne(3) assms(11) _ valid _ numbers] complete assms(6) ne(2) by (simp add: rids)
  have "complete_row ?r (ae_now env3 1) ?e2 \<in> set (db_executions ?db3)"
    using sql_update_changed [OF e2, of "held_by ?i nid ?h (ae_now env3 1)", OF held2] by simp
  with call2 call3 e(2) show ?thesis
    by (intro exI [of _ "s1\<lparr>as_db := ?db2\<rparr>"] exI [of _ "s1\<lparr>as_db := ?db3\<rparr>"] conjI bexI
        [of _ "complete_row ?r (ae_now env3 1) ?e2"]) (simp_all add: complete_row_def start_row_def)
qed

text \<open>An Agent on the demonstration database.\<close>

definition agent_env :: "unit api_env" where
  "agent_env = blank_env\<lparr>ae_server := (\<lambda>k. demo_server)\<rparr>"

definition agent_db :: database where
  "agent_db = demo_db\<lparr>db_groups := [\<lparr>ng_id = ''g'', ng_site_id = [], ng_name = ''g'', ng_created_at = 1\<rparr>], db_credentials :=
     [\<lparr>cr_node_id = ''n'', cr_token_hash = hash_token demo_crypto ''secret'', cr_created_at = 1, cr_revoked_at = None\<rparr>]\<rparr>"

lemma agent_db_inv: "system_inv agent_db"
  using demo_inv
  by (simp add: agent_db_def system_inv_def queue_inv_def registry_inv_def accounts_inv_def groups_inv_def
      nodes_inv_def credentials_inv_def enrollments_inv_def pairings_inv_def telemetry_inv_def demo_db_def empty_database_def)
    (simp add: demo_node_def)

definition agent_claim :: command_claim where
  "agent_claim = demo_claim\<lparr>cl_lease_token := demo_token, cl_lease_expires_at := 100 + command_lease\<rparr>"

definition agent_db1 :: database where
  "agent_db1 = agent_db\<lparr>db_executions := [lease_row (hash_token demo_crypto demo_token) (100 + command_lease) (new_execution ''e'' ''t'' ''n'')]\<rparr>"

lemma demo_crypto_laws: "crypto_laws demo_crypto"
  by (simp add: crypto_laws_def demo_crypto_def)

lemma agent_claims_row:
  "claim_command demo_server agent_db (hash_token demo_crypto ''secret'') (hash_token demo_crypto demo_token) 100 command_lease =
     (Inr (Some (agent_claim\<lparr>cl_lease_token := []\<rparr>)), agent_db1)"
proof -
  have ne: "hash_token demo_crypto ''secret'' \<noteq> []" "hash_token demo_crypto demo_token \<noteq> []" "0 < command_lease"
    by (simp_all add: hash_nonempty demo_crypto_laws command_lease_def)
  then show ?thesis
  by (simp add: demo_defs agent_db_def agent_db1_def agent_claim_def claim_command_def command_credential_node_def credential_active_def
      recover_leased_def expire_running_def sql_update_def claimable_def claim_order_def int4_def
      sql_count_def lease_target_def lease_row_def Let_def)
qed

lemma agent_claims:
  "client_claim (serve_api agent_env) (\<lambda>j. Some 100) \<lparr>ac_path = []\<rparr> ''secret'' 100 (blank_state\<lparr>as_db := agent_db\<rparr>) =
     (Inr (Some agent_claim), blank_state\<lparr>as_db := agent_db1\<rparr>)"
proof -
  let ?s = "blank_state\<lparr>as_db := agent_db\<rparr>"
  let ?rq = "\<lparr>rq_method = ''POST'', rq_path = ''/api/v1/agent/commands/claim'', rq_authorization = bearer @ ''secret'', rq_cookie = None,
      rq_range = [], rq_remote = [], rq_body = empty_body\<rparr>"
  have token: "new_opaque_token (ae_crypto agent_env) (ae_random agent_env 1) = Inr (demo_token, hash_token demo_crypto demo_token)"
    by (simp add: new_opaque_token_def agent_env_def blank_env_def demo_token_def Let_def)
  have attempt: "claim_attempt agent_env ''secret'' 1 ?s = (Inr (Some agent_claim), ?s\<lparr>as_db := agent_db1\<rparr>)"
    unfolding claim_attempt_def token
    using agent_claims_row by (simp add: repo_def run_changes_def agent_env_def blank_env_def agent_claim_def demo_claim_def)
  then have "poll_claim agent_env ''secret'' 1 0 ?s = (Some (fixed_response 200 (write_claim agent_claim)), ?s\<lparr>as_db := agent_db1\<rparr>)"
    by (subst poll_claim.simps) simp
  then have serve: "serve_api agent_env ?rq ?s = (Some (fixed_response 200 (write_claim agent_claim)), ?s\<lparr>as_db := agent_db1\<rparr>)"
    by (simp add: serve_api_def command_routes(1) handle_claim_command_def bearer_credential_def agent_env_def blank_env_def)
  have read: "read_struct False claim_fields (write_claim agent_claim) zero_claim = Some agent_claim"
    by (simp add: claim_fields_def write_claim_def field_of_def set_member_def zero_claim_def read_shell_def shell_of_text_def
      agent_claim_def demo_claim_def int64_def)
  have token_ne: "demo_token \<noteq> []" by (simp add: demo_token_def demo_raw_def)
  have valid: "validate_command Cmd ''dir'' 60 = None"
    using demo_text by (simp add: validate_command_None del: valid_utf8.simps)
  have claim: "cl_execution_id agent_claim \<noteq> []" "cl_task_id agent_claim \<noteq> []" "cl_lease_token agent_claim \<noteq> []"
      "\<not> is_zero_time (cl_lease_expires_at agent_claim)" "\<not> cl_lease_expires_at agent_claim \<le> 100"
      "validate_command (cl_shell agent_claim) (cl_command agent_claim) (cl_timeout agent_claim) = None"
    using valid token_ne by (simp_all add: agent_claim_def demo_claim_def command_lease_def)
  have send: "send_json (serve_api agent_env) (\<lambda>j. Some 100) \<lparr>ac_path = []\<rparr> ''POST'' ''/api/v1/agent/commands/claim'' ''secret'' None ?s =
      (Inr (fixed_response 200 (write_claim agent_claim)), ?s\<lparr>as_db := agent_db1\<rparr>)"
    using serve by (simp add: send_json_def)
  show ?thesis unfolding client_claim_def send
    using claim read by (simp add: fixed_response_def decode_command_response_def successful_def decode_body_def json_body_def)
qed

definition agent_result :: command_completion where
  "agent_result = (execute (Some demo_run) agent_claim)\<lparr>cc_execution_id := ''e'', cc_lease_token := demo_token\<rparr>"

lemma agent_result_is:
  "cc_output agent_result = ''C:ok'' \<and> cc_status agent_result = Succeeded \<and> cc_error_message agent_result = [] \<and> cc_exit_code agent_result = Some 0"
proof -
  have texts: "valid_utf8 ''C:ok''" by code_simp
  have v: "validate_command Cmd ''dir'' 60 = None" using demo_text by (simp add: validate_command_None del: valid_utf8.simps)
  have w: "fold put_output [''C:'', ''ok''] (new_output max_command_output_bytes) =
      \<lparr>ob_buffer = ''C:ok'', ob_limit = max_command_output_bytes, ob_truncated = False\<rparr>"
    by (simp add: put_output_def write_output_def new_output_def)
  have nf: "normalized_output \<lparr>ob_buffer = ''C:ok'', ob_limit = max_command_output_bytes, ob_truncated = False\<rparr> = (''C:ok'', False)"
    using normalized_exact [of "\<lparr>ob_buffer = ''C:ok'', ob_limit = max_command_output_bytes, ob_truncated = False\<rparr>"] texts
    by (simp del: valid_utf8.simps)
  show ?thesis
    using v by (simp add: agent_result_def execute_def agent_claim_def demo_claim_def demo_run_def w [simplified] nf outcome_status_def Let_def)
qed

end
