(* ===== verification/Redaction.thy ===== *)
theory Redaction
  imports GoStrings
begin

text \<open>
  Replacing secrets by a marker in brackets, as the workers, the controller and the diagnostics of the
  Agent do: a secret without brackets that is no part of the word inside the marker is gone after its own
  replacement, and stays away under the replacement of any other secret.
\<close>

lemma sublist_gap:
  assumes "x \<notin> set p" and "p \<noteq> []" and "sublist p (a @ x # b)"
  shows "sublist p a \<or> sublist p b"
proof -
  from assms(3) obtain u v where e: "a @ x # b = u @ p @ v" by (auto simp: sublist_def)
  from e consider w where "a = u @ w" "w @ x # b = p @ v" | w where "u = a @ w" "x # b = w @ p @ v"
    by (auto simp: append_eq_append_conv2)
  then show ?thesis
  proof cases
    case 1
    then obtain z where "w = p @ z \<or> p = w @ z \<and> x # b = z @ v" by (auto simp: append_eq_append_conv2)
    moreover have "z = []" if "p = w @ z" "x # b = z @ v" using that assms(1) by (cases z) auto
    ultimately have "\<exists>z. w = p @ z" using assms(1) by (metis append.right_neutral)
    then show ?thesis using 1 by (auto simp: sublist_def)
  next
    case 2
    have "w \<noteq> []" using 2(2) assms(1,2) by (cases p) auto
    then obtain w2 where "b = w2 @ p @ v" using 2(2) by (cases w) auto
    then show ?thesis by (auto simp: sublist_def)
  qed
qed

lemma replaced_prefix:
  assumes "marker = CHR ''['' # word @ '']''" and "CHR ''['' \<notin> set p"
  shows "prefix p (replace_all old marker s) \<Longrightarrow> prefix p s"
  using assms
proof (induction old marker s arbitrary: p rule: replace_all.induct)
  case (2 old marker c s)
  then show ?case by (cases p) (auto split: if_splits)
qed simp

text \<open>\<open>p\<close> does not occur after a replacement if it is what is replaced or did not occur before.\<close>

lemma replace_all_keeps:
  assumes "marker = CHR ''['' # word @ '']''" and "p \<noteq> []" and "CHR ''['' \<notin> set p" and "CHR '']'' \<notin> set p" and "\<not> sublist p word"
    and "p = old \<or> \<not> sublist p s"
  shows "\<not> sublist p (replace_all old marker s)"
  using assms
proof (induction old marker s rule: replace_all.induct)
  case (1 old marker)
  then show ?case by auto
next
  case (2 old marker c s)
  show ?case
  proof (cases "old \<noteq> [] \<and> prefix old (c # s)")
    case True
    let ?rest = "drop (length old - 1) s" and ?r = "replace_all old marker (drop (length old - 1) s)"
    have "sublist ?rest (c # s)" by (meson sublist_drop sublist_Cons_right)
    then have "p = old \<or> \<not> sublist p ?rest" using 2(8) sublist_order.order_trans by blast
    then have r: "\<not> sublist p ?r" using 2(1) [OF True 2(3-7)] by simp
    have m: "marker @ ?r = [] @ CHR ''['' # (word @ CHR '']'' # ?r)" using 2(3) by simp
    have "\<not> sublist p (marker @ ?r)"
      using sublist_gap [OF 2(5,4), of "[]" "word @ CHR '']'' # ?r"] sublist_gap [OF 2(6,4), of word ?r] 2(4,7) r
      unfolding m by (metis sublist_Nil_right)
    then show ?thesis using True by simp
  next
    case False
    have "p = old \<or> \<not> sublist p s" using 2(8) by (auto simp: sublist_Cons_right)
    then have s: "\<not> sublist p (replace_all old marker s)" using 2(2) [OF False 2(3-7)] by simp
    have "\<not> prefix p (c # replace_all old marker s)"
    proof
      assume x: "prefix p (c # replace_all old marker s)"
      then obtain q where q: "p = c # q" "prefix q (replace_all old marker s)" using 2(4) by (cases p) auto
      then have "prefix q s" using replaced_prefix [OF 2(3), of q] 2(5) by auto
      with q have "prefix p (c # s)" by simp
      then show False using False 2(4,8) by (auto simp: sublist_Cons_right)
    qed
    moreover have "replace_all old marker (c # s) = c # replace_all old marker s" using False by (simp only: replace_all.simps if_False)
    ultimately show ?thesis using s by (simp add: sublist_Cons_right)
  qed
qed

lemma replace_all_hides:
  "marker = CHR ''['' # word @ '']'' \<Longrightarrow> old \<noteq> [] \<Longrightarrow> CHR ''['' \<notin> set old \<Longrightarrow> CHR '']'' \<notin> set old \<Longrightarrow> \<not> sublist old word \<Longrightarrow>
   \<not> sublist old (replace_all old marker s)"
  by (rule replace_all_keeps) simp_all

text \<open>Several secrets, one after the other in any order.\<close>

lemma fold_replace_keeps:
  assumes "marker = CHR ''['' # word @ '']''" and "p \<noteq> []" and "CHR ''['' \<notin> set p" and "CHR '']'' \<notin> set p" and "\<not> sublist p word"
  shows "p \<in> set secrets \<or> \<not> sublist p s \<Longrightarrow> \<not> sublist p (fold (\<lambda>secret v. replace_all secret marker v) secrets s)"
proof (induction secrets arbitrary: s)
  case (Cons x secrets)
  show ?case
  proof (cases "p = x \<or> \<not> sublist p s")
    case True
    then have "\<not> sublist p (replace_all x marker s)" by (rule replace_all_keeps [OF assms])
    with Cons.IH show ?thesis by simp
  next
    case False
    with Cons.prems have "p \<in> set secrets" by simp
    with Cons.IH show ?thesis by simp
  qed
qed simp

end
