(* ===== verification/AgentAppTheorems.thy ===== *)
theory AgentAppTheorems
  imports AgentApp AgentTheorems Redaction
begin

text \<open>
  The workers of the Agent: what they show hides the credential, their reporting ends, the command
  worker keeps to its protocol, and over the API a round of it brings the result of a command into
  the queue.
\<close>

section \<open>Hiding\<close>

lemma redacted_marker: "redacted = CHR ''['' # ''redacted'' @ '']''"
  by (simp add: redacted_def)

text \<open>No error text that the Agent shows or logs contains its credential: whatever an error says, the text
made of it does not contain the credential, for credentials without white space or brackets or dots as
the server issues them; and it is at most 515 bytes long.\<close>

theorem shown_errors_hide_credential:
  assumes "credential \<noteq> []" and "CHR ''['' \<notin> set credential" and "CHR '']'' \<notin> set credential" and "CHR ''.'' \<notin> set credential"
    and "\<not> sublist credential ''redacted''"
  shows "\<not> sublist credential (sanitize_error err credential) \<and> length (sanitize_error err credential) \<le> max_shown + 3"
proof (cases err)
  case None
  then show ?thesis using assms(1) by (simp add: sanitize_error_def)
next
  case (Some e)
  let ?h = "replace_all credential redacted (join (str_fields (error_text e)) '' '')"
  have h: "\<not> sublist credential ?h" by (rule replace_all_hides [OF redacted_marker assms(1,2,3,5)])
  have t: "\<not> sublist credential (take max_shown ?h)" using h sublist_order.order_trans sublist_take by blast
  have "\<not> sublist credential (take max_shown ?h @ ''...'')"
    using sublist_gap [OF assms(4,1), of "take max_shown ?h" "''..''"] sublist_gap [OF assms(4,1), of "[]" "''.''"]
      sublist_gap [OF assms(4,1), of "[]" "[]"] t assms(1) by auto
  then show ?thesis using h Some assms(1) by (simp add: sanitize_error_def Let_def)
qed

theorem shown_errors_hide_credential_witness:
  "\<not> sublist ''s3cret'' (sanitize_error (Some (Message ''token s3cret refused'')) ''s3cret'')"
  using shown_errors_hide_credential [of "''s3cret''" "Some (Message ''token s3cret refused'')"] by (simp add: sublist_code)

section \<open>Reporting ends\<close>

lemma retry_delay_positive: "second \<le> command_retry_delay attempt"
proof -
  have "\<forall>d\<in>set result_retry_delays. second \<le> d" by (simp add: result_retry_delays_def)
  moreover have "result_retry_delays \<noteq> []" by (simp add: result_retry_delays_def)
  ultimately show ?thesis by (simp add: command_retry_delay_def Let_def)
qed

text \<open>A world whose clock does not run backwards and moves on while the worker waits.\<close>

definition clock_moves :: "'s command_options \<Rightarrow> ('s \<Rightarrow> go_error option \<times> 's) \<Rightarrow> bool" where
  "clock_moves w action \<longleftrightarrow>
     (\<forall>s. cm_clock w s \<le> cm_clock w (snd (action s))) \<and>
     (\<forall>e c t s. cm_clock w s \<le> cm_clock w (command_report w e c t s)) \<and>
     (\<forall>d s. fst (cm_wait w d s) \<longrightarrow> cm_clock w s + d \<le> cm_clock w (snd (cm_wait w d s)))"

text \<open>C37: Reporting to the server ends: on a clock that moves on while the worker waits, the loops around starting
and completing a command return, at the latest when the lease is over.\<close>

theorem reporting_ends:
  assumes "clock_moves w action"
  shows "\<exists>accepted s1. report_until w action credential claim attempt s = Some (accepted, s1)"
proof (induction "nat (cl_lease_expires_at claim - cm_clock w s)" arbitrary: attempt s rule: less_induct)
  case less
  obtain r s1 where a: "action s = (r, s1)" by fastforce
  show ?case
  proof (cases r)
    case None
    with a show ?thesis by (subst report_until.simps) auto
  next
    case (Some e)
    let ?s2 = "command_report w e credential (cl_lease_token claim) s1"
    obtain go s3 where wt: "cm_wait w (command_retry_delay attempt) ?s2 = (go, s3)" by fastforce
    show ?thesis
    proof (cases "cm_clock w s1 < cl_lease_expires_at claim \<and> go")
      case False
      with a Some wt show ?thesis by (subst report_until.simps) (auto simp: Let_def)
    next
      case True
      have "cm_clock w s \<le> cm_clock w s1" using assms a by (auto simp: clock_moves_def dest: spec [of _ s])
      moreover have "cm_clock w s1 \<le> cm_clock w ?s2" using assms by (simp add: clock_moves_def)
      moreover have "cm_clock w ?s2 + command_retry_delay attempt \<le> cm_clock w s3"
        using assms wt True unfolding clock_moves_def by (metis fst_conv snd_conv)
      moreover have "second \<le> command_retry_delay attempt" by (rule retry_delay_positive)
      ultimately have "nat (cl_lease_expires_at claim - cm_clock w s3) < nat (cl_lease_expires_at claim - cm_clock w s)"
        using True by simp
      from less [OF this, of "attempt + 1"] a Some wt True show ?thesis
        by (subst report_until.simps) (auto simp: Let_def)
    qed
  qed
qed

definition waiting_world :: "time command_options" where
  "waiting_world = \<lparr>cm_client = None, cm_executor = None, cm_wait = (\<lambda>d t. (True, t + d)), cm_clock = id,
     cm_cancelled = (\<lambda>t. False), cm_sink = None\<rparr>"

theorem reporting_ends_witness:
  "\<exists>accepted s1. report_until waiting_world (\<lambda>t. (Some (Message ''send request''), t + second)) ''secret'' demo_job 0 0 = Some (accepted, s1)"
proof -
  have "clock_moves waiting_world (\<lambda>t. (Some (Message ''send request''), t + second))"
    by (simp add: clock_moves_def waiting_world_def command_report_def)
  from reporting_ends [OF this] show ?thesis .
qed

section \<open>The order of a command\<close>

datatype command_event =
    EClaimed command_claim
  | EStart string string bool
  | EExecuted command_claim command_completion
  | EComplete command_completion bool

text \<open>Any client and executor, recorded.\<close>

definition recorded_client :: "'s command_client \<Rightarrow> ('s \<times> command_event list) command_client" where
  "recorded_client c = \<lparr>
     co_claim = (\<lambda>cred (s, es). let (r, s1) = co_claim c cred s
       in (r, s1, es @ (case r of Inr (Some cl) \<Rightarrow> [EClaimed cl] | _ \<Rightarrow> []))),
     co_start = (\<lambda>cred i t (s, es). let (r, s1) = co_start c cred i t s in (r, s1, es @ [EStart i t (r = None)])),
     co_complete = (\<lambda>cred r (s, es). let (e, s1) = co_complete c cred r s in (e, s1, es @ [EComplete r (e = None)]))\<rparr>"

definition recorded_executor ::
    "(command_claim \<Rightarrow> 's \<Rightarrow> command_completion \<times> 's) \<Rightarrow> command_claim \<Rightarrow> 's \<times> command_event list \<Rightarrow> command_completion \<times> 's \<times> command_event list" where
  "recorded_executor x cl = (\<lambda>(s, es). let (r, s1) = x cl s in (r, s1, es @ [EExecuted cl r]))"

text \<open>The worker's own functions do not touch the record.\<close>

definition records :: "('s \<times> command_event list) command_options \<Rightarrow> bool" where
  "records w \<longleftrightarrow> (\<forall>d x. snd (snd (cm_wait w d x)) = snd x) \<and> (\<forall>e c t x. snd (command_report w e c t x) = snd x)"

lemma recordsD:
  assumes "records w"
  shows "snd (command_report w e c t x) = snd x" "snd (snd (cm_wait w d x)) = snd x"
  using assms unfolding records_def by blast+

text \<open>The protocol of one command.\<close>

datatype phase = Idle | Holding command_claim | Ready command_claim | Reporting command_claim command_completion

fun next_phase :: "phase \<Rightarrow> command_event \<Rightarrow> phase option" where
  "next_phase Idle (EClaimed c) = Some (Holding c)"
| "next_phase (Holding c) (EStart i t ok) =
     (if i = cl_execution_id c \<and> t = cl_lease_token c then Some (if ok then Ready c else Holding c) else None)"
| "next_phase (Holding c) (EClaimed d) = Some (Holding d)"
| "next_phase (Ready c) (EExecuted d r) = (if d = c then Some (Reporting c r) else None)"
| "next_phase (Reporting c r) (EComplete q ok) =
     (if q = stamped c r then Some (if ok then Idle else Reporting c r) else None)"
| "next_phase (Reporting c r) (EClaimed d) = Some (Holding d)"
| "next_phase p e = None"

fun follow :: "phase \<Rightarrow> command_event list \<Rightarrow> phase option" where
  "follow p [] = Some p"
| "follow p (e # es) = (case next_phase p e of None \<Rightarrow> None | Some q \<Rightarrow> follow q es)"

lemma follow_append: "follow p (es @ fs) = (case follow p es of None \<Rightarrow> None | Some q \<Rightarrow> follow q fs)"
  by (induction es arbitrary: p) (auto split: option.split)

text \<open>Between two rounds nothing is under way.\<close>

definition resting :: "command_event list \<Rightarrow> bool" where
  "resting es \<longleftrightarrow> (\<exists>p. follow Idle es = Some p \<and> (\<forall>c. p \<noteq> Ready c))"

lemma after_failure:
  assumes "(case action x of (None, s1) \<Rightarrow> Some (True, s1)
        | (Some e, s1) \<Rightarrow>
          let s2 = command_report w e c (cl_lease_token l) s1
          in if err_is ErrCommandLeaseRejected e \<or> cm_cancelled w s1 \<or> \<not> cm_clock w s1 < cl_lease_expires_at l
             then Some (False, s2)
             else let (go_on, s3) = cm_wait w (command_retry_delay n) s2
                  in if go_on then g w action c l (n + 1) s3 else Some (False, s3)) = Some r"
    and "action x = (Some e, s1)" and "cm_wait w (command_retry_delay n) (command_report w e c (cl_lease_token l) s1) = (go, s3)"
  shows "r = (False, command_report w e c (cl_lease_token l) s1) \<or> g w action c l (n + 1) s3 = Some r \<or> r = (False, s3)"
proof (cases "err_is ErrCommandLeaseRejected e \<or> cm_cancelled w s1 \<or> \<not> cm_clock w s1 < cl_lease_expires_at l")
  case True
  with assms(1,2) show ?thesis by simp
next
  case False
  with assms show ?thesis by (cases go) simp_all
qed

lemma report_until_events:
  assumes rec: "records w"
    and act: "\<And>x r y. action x = (r, y) \<Longrightarrow> snd y = snd x @ [f (r = None)]"
    and q: "next_phase p (f False) = Some p" "next_phase p (f True) = Some q"
    and ret: "report_until w action cred cl n x = Some (ok, y)" and p: "follow Idle (snd x) = Some p"
  shows "follow Idle (snd y) = Some (if ok then q else p)"
proof -
  have "w = w \<and> action = action \<longrightarrow> follow Idle (snd x) = Some p \<longrightarrow>
      follow Idle (snd (snd (ok, y))) = Some (if fst (ok, y) then q else p)"
  proof (rule report_until.raw_induct
      [where P = "\<lambda>w' a' c' l' n' x r. w' = w \<and> a' = action \<longrightarrow> follow Idle (snd x) = Some p \<longrightarrow>
         follow Idle (snd (snd r)) = Some (if fst r then q else p)", OF _ ret])
    fix g w' a' c' l' n' x' r
    assume IH: "\<And>w' a' c' l' n' x r. g w' a' c' l' n' x = Some r \<Longrightarrow> w' = w \<and> a' = action \<longrightarrow>
        follow Idle (snd x) = Some p \<longrightarrow> follow Idle (snd (snd r)) = Some (if fst r then q else p)"
      and step: "(case a' x' of (None, s1) \<Rightarrow> Some (True, s1)
        | (Some e, s1) \<Rightarrow>
          let s2 = command_report w' e c' (cl_lease_token l') s1
          in if err_is ErrCommandLeaseRejected e \<or> cm_cancelled w' s1 \<or> \<not> cm_clock w' s1 < cl_lease_expires_at l'
             then Some (False, s2)
             else let (go_on, s3) = cm_wait w' (command_retry_delay n') s2
                  in if go_on then g w' a' c' l' (n' + 1) s3 else Some (False, s3)) = Some r"
    show "w' = w \<and> a' = action \<longrightarrow> follow Idle (snd x') = Some p \<longrightarrow> follow Idle (snd (snd r)) = Some (if fst r then q else p)"
    proof (intro impI)
      assume same: "w' = w \<and> a' = action" and start: "follow Idle (snd x') = Some p"
      obtain res s1 where a: "action x' = (res, s1)" by (cases "action x'")
      have after: "follow Idle (snd s1) = Some (if res = None then q else p)"
        using act [OF a] start q by (cases res) (simp_all add: follow_append)
      show "follow Idle (snd (snd r)) = Some (if fst r then q else p)"
      proof (cases res)
        case None
        with a same step after show ?thesis by auto
      next
        case (Some e)
        obtain go s3 where wt: "cm_wait w (command_retry_delay n') (command_report w e c' (cl_lease_token l') s1) = (go, s3)"
          by (cases "cm_wait w (command_retry_delay n') (command_report w e c' (cl_lease_token l') s1)")
        let ?s2 = "command_report w e c' (cl_lease_token l') s1"
        have same2: "snd ?s2 = snd s1" by (rule recordsD [OF rec])
        have "snd (snd (cm_wait w (command_retry_delay n') ?s2)) = snd ?s2" by (rule recordsD [OF rec])
        with wt same2 have same3: "snd s3 = snd s1" by simp
        from same have same1: "w' = w" "a' = action" by simp_all
        have "r = (False, ?s2) \<or> g w action c' l' (n' + 1) s3 = Some r \<or> r = (False, s3)"
          by (rule after_failure [where g = g and action = action, OF step [unfolded same1] a [unfolded Some] wt])
        then consider "r = (False, ?s2)" | "g w action c' l' (n' + 1) s3 = Some r" | "r = (False, s3)" by blast
        then show ?thesis
        proof cases
          case 2
          from IH [OF 2] after Some same3 show ?thesis by simp
        qed (use after Some same2 same3 in simp_all)
      qed
    qed
  qed
  then show ?thesis using p by simp
qed


lemma start_events:
  assumes "records w" and "worker_start w (recorded_client c) cred cl x = Some (ok, y)" and "follow Idle (snd x) = Some (Holding cl)"
  shows "follow Idle (snd y) = Some (if ok then Ready cl else Holding cl)"
  using assms(2) unfolding worker_start_def
  by (rule report_until_events [OF assms(1), where f = "EStart (cl_execution_id cl) (cl_lease_token cl)", rotated 3])
    (auto simp: assms(3) recorded_client_def split: prod.splits)

lemma complete_events:
  assumes "records w" and "worker_complete w (recorded_client c) cred cl (stamped cl r) x = Some (ok, y)"
    and "follow Idle (snd x) = Some (Reporting cl r)"
  shows "follow Idle (snd y) = Some (if ok then Idle else Reporting cl r)"
  using assms(2) unfolding worker_complete_def
  by (rule report_until_events [OF assms(1), where f = "EComplete (stamped cl r)", rotated 3])
    (auto simp: assms(3) recorded_client_def split: prod.splits)

lemma round_rests:
  assumes w: "records w" and rest: "resting (snd x)"
    and run: "command_round w (recorded_client c) (recorded_executor e) cred x = Some (b, y)"
  shows "resting (snd y)"
proof (cases "cm_cancelled w x")
  case True
  with run rest show ?thesis by (simp add: command_round_def)
next
  case False
  have report: "snd (command_report w err cr t x) = snd x" and wait: "snd (snd (cm_wait w d x)) = snd x" for err cr t d x
    by (rule recordsD [OF w])+
  obtain r x1 where claim: "co_claim (recorded_client c) cred x = (r, x1)" by (cases "co_claim (recorded_client c) cred x")
  have ev: "snd x1 = snd x @ (case r of Inr (Some cl) \<Rightarrow> [EClaimed cl] | _ \<Rightarrow> [])"
    using claim by (auto simp: recorded_client_def split: prod.splits)
  show ?thesis
  proof (cases r)
    case (Inl err)
    let ?z = "cm_wait w claim_retry_delay (command_report w err cred [] x1)"
    have "y = x1 \<or> y = snd ?z" using run False claim Inl by (auto simp: command_round_def split: if_splits)
    moreover have "snd (snd ?z) = snd x1" using report wait by simp
    ultimately have "snd y = snd x" using ev Inl by auto
    with rest show ?thesis by simp
  next
    case (Inr found)
    show ?thesis
    proof (cases found)
      case None
      with run False claim Inr ev rest show ?thesis by (simp add: command_round_def)
    next
      case (Some cl)
      obtain p where p: "follow Idle (snd x) = Some p" "\<forall>c. p \<noteq> Ready c" using rest by (auto simp: resting_def)
      have held: "follow Idle (snd x1) = Some (Holding cl)"
        using p ev Inr Some by (cases p) (simp_all add: follow_append)
      from run False claim Inr Some obtain ok x2 where start: "worker_start w (recorded_client c) cred cl x1 = Some (ok, x2)"
        by (auto simp: command_round_def split: option.splits)
      note started = start_events [OF w start held]
      show ?thesis
      proof (cases ok)
        case False
        with run \<open>\<not> cm_cancelled w x\<close> claim Inr Some start started show ?thesis
          by (auto simp: command_round_def resting_def)
      next
        case True
        obtain res x3 where exec: "recorded_executor e cl x2 = (res, x3)" by (cases "recorded_executor e cl x2")
        have "snd x3 = snd x2 @ [EExecuted cl res]" using exec by (auto simp: recorded_executor_def split: prod.splits)
        then have rep: "follow Idle (snd x3) = Some (Reporting cl res)" using started True by (simp add: follow_append)
        from run False claim Inr Some start True exec obtain b2 where
          reported: "worker_complete w (recorded_client c) cred cl (stamped cl res) x3 = Some (b2, y)"
          by (auto simp: command_round_def split: option.splits)
        from complete_events [OF w this rep] show ?thesis by (auto simp: resting_def)
      qed
    qed
  qed
qed

text \<open>The states between the rounds of the loop.\<close>

inductive worker_reach ::
    "'s command_options \<Rightarrow> 's command_client \<Rightarrow> (command_claim \<Rightarrow> 's \<Rightarrow> command_completion \<times> 's) \<Rightarrow> string \<Rightarrow> 's \<Rightarrow> 's \<Rightarrow> bool"
  for w client executor credential s0 where
  worker_begin: "worker_reach w client executor credential s0 s0"
| worker_round: "worker_reach w client executor credential s0 s \<Longrightarrow>
    command_round w client executor credential s = Some (go_on, s1) \<Longrightarrow> worker_reach w client executor credential s0 s1"



text \<open>A server that hands out one command for ever.\<close>

definition eager_client :: "unit command_client" where
  "eager_client = \<lparr>co_claim = (\<lambda>cred u. (Inr (Some demo_job), u)), co_start = (\<lambda>cred i t u. (None, u)), co_complete = (\<lambda>cred r u. (None, u))\<rparr>"

definition eager_options :: "(unit \<times> command_event list) command_options" where
  "eager_options = \<lparr>cm_client = None, cm_executor = None, cm_wait = (\<lambda>d x. (True, x)), cm_clock = (\<lambda>x. 0),
     cm_cancelled = (\<lambda>x. False), cm_sink = None\<rparr>"

definition eager_executor :: "command_claim \<Rightarrow> unit \<Rightarrow> command_completion \<times> unit" where
  "eager_executor cl u = (failed_completion ''no shell'', u)"

definition eager_events :: "command_event list" where
  "eager_events = [EClaimed demo_job, EStart ''e'' ''lt'' True, EExecuted demo_job (failed_completion ''no shell''),
     EComplete (stamped demo_job (failed_completion ''no shell'')) True]"


text \<open>What the loop ends with is one of these states.\<close>

lemma loop_reaches:
  assumes "command_loop w client executor credential s0 = Some t"
  shows "worker_reach w client executor credential s0 t"
proof -
  have "\<forall>u. w = w \<and> client = client \<and> executor = executor \<and> credential = credential \<longrightarrow>
      worker_reach w client executor credential u s0 \<longrightarrow> worker_reach w client executor credential u t"
  proof (rule command_loop.raw_induct [where P = "\<lambda>w' c' e' cr' s r. \<forall>u. w' = w \<and> c' = client \<and> e' = executor \<and> cr' = credential \<longrightarrow>
        worker_reach w client executor credential u s \<longrightarrow> worker_reach w client executor credential u r", OF _ assms])
    fix g w' c' e' cr' s r
    assume IH: "\<And>w' c' e' cr' s r. g w' c' e' cr' s = Some r \<Longrightarrow> \<forall>u. w' = w \<and> c' = client \<and> e' = executor \<and> cr' = credential \<longrightarrow>
        worker_reach w client executor credential u s \<longrightarrow> worker_reach w client executor credential u r"
      and step: "(case command_round w' c' e' cr' s of None \<Rightarrow> None
        | Some (go_on, s1) \<Rightarrow> if go_on then g w' c' e' cr' s1 else Some s1) = Some r"
    show "\<forall>u. w' = w \<and> c' = client \<and> e' = executor \<and> cr' = credential \<longrightarrow>
        worker_reach w client executor credential u s \<longrightarrow> worker_reach w client executor credential u r"
    proof (intro allI impI)
      fix u
      assume same: "w' = w \<and> c' = client \<and> e' = executor \<and> cr' = credential" and reach: "worker_reach w client executor credential u s"
      from step obtain b s1 where rd: "command_round w client executor credential s = Some (b, s1)"
        using same by (auto split: option.splits)
      from worker_round [OF reach rd] have "worker_reach w client executor credential u s1" .
      show "worker_reach w client executor credential u r"
      proof (cases b)
        case True
        with step rd same have "g w client executor credential s1 = Some r" by simp
        from IH [OF this] \<open>worker_reach w client executor credential u s1\<close> show ?thesis by blast
      next
        case False
        with step rd same have "r = s1" by simp
        with \<open>worker_reach w client executor credential u s1\<close> show ?thesis by simp
      qed
    qed
  qed
  then have "worker_reach w client executor credential s0 s0 \<longrightarrow> worker_reach w client executor credential s0 t" by simp
  then show ?thesis by (rule mp) (rule worker_begin)
qed

section \<open>The worker over the API\<close>

text \<open>The Agent's client on a server, as the worker's: request \<open>k\<close> finds the server in the environment \<open>envs k\<close>.\<close>

definition on_request :: "(nat \<Rightarrow> 'u api_state \<Rightarrow> 'r \<times> 'u api_state) \<Rightarrow> 'u api_state \<times> nat \<Rightarrow> 'r \<times> 'u api_state \<times> nat" where
  "on_request f x = (let (r, s) = f (snd x) (fst x) in (r, s, snd x + 1))"

definition api_client :: "(nat \<Rightarrow> 'u api_env) \<Rightarrow> (nat \<Rightarrow> time) \<Rightarrow> marshal \<Rightarrow> agent_client \<Rightarrow> ('u api_state \<times> nat) command_client" where
  "api_client envs clock marshal c = \<lparr>
     co_claim = (\<lambda>cred. on_request (\<lambda>k. client_claim (serve_api (envs k)) marshal c cred (clock k))),
     co_start = (\<lambda>cred i t. on_request (\<lambda>k. client_start_command (serve_api (envs k)) marshal c cred i t)),
     co_complete = (\<lambda>cred r. on_request (\<lambda>k. client_complete_command (serve_api (envs k)) marshal c cred r))\<rparr>"

definition api_executor :: "runner \<Rightarrow> command_claim \<Rightarrow> 'x \<Rightarrow> command_completion \<times> 'x" where
  "api_executor run_process cl x = (execute (Some run_process) cl, x)"

lemma report_until_ok: "action s = (None, s1) \<Longrightarrow> report_until w action cred cl n s = Some (True, s1)"
  by (subst report_until.simps) simp

lemma execute_stamped:
  "stamped cl (execute r cl) = (execute r cl)\<lparr>cc_execution_id := cl_execution_id cl, cc_lease_token := cl_lease_token cl\<rparr>"
  by (simp add: stamped_def execute_terminal Let_def)

text \<open>C11: From claim to result.  When the claim that a round of the command worker makes through the API returns a command,
whatever other requests did meanwhile, the round starts, executes and reports it, the server accepts
both reports if it is undisturbed then and the lease not over, and the queue holds the status, exit code
and output that the executor produced: worker, client, JSON, routes, handlers and queue fit together.
The conditions on the result are real ones: no NUL and an exit code of 32 bits for the database, and the
request limit of 300 KiB, which the JSON form of 256 KiB of output can exceed.\<close>

theorem command_round_over_api:
  assumes "system_inv (as_db s)" and "orderly (envs k)" and "crypto_laws (ae_crypto (envs k))" and "ac_path c = []"
    and "client_claim (serve_api (envs k)) marshal c credential (clock k) s = (Inr (Some cl), s1)"
    and "CHR ''/'' \<notin> set (cl_execution_id cl)" and "r = stamped cl (execute (Some run_process) cl)"
    and "\<And>iv. po_exit (run_process iv (cl_timeout cl)) < 2 ^ 32 \<and> po_millis (run_process iv (cl_timeout cl)) < 2 ^ 63"
    and "completion_storable r" and "small marshal 4096 (write_lease (cl_lease_token cl))" and "small marshal 307200 (write_completion r)"
    and "undisturbed (ae_crypto (envs k)) (envs (k + 1))" and "ae_now (envs (k + 1)) 1 < cl_lease_expires_at cl"
    and "undisturbed (ae_crypto (envs k)) (envs (k + 2))" and "ae_now (envs (k + 2)) 1 < cl_lease_expires_at cl"
    and "\<not> cm_cancelled w (s, k)"
  shows "\<exists>t. command_round w (api_client envs clock marshal c) (api_executor run_process) credential (s, k) = Some (True, t, k + 3) \<and>
    (\<exists>e\<in>set (db_executions (as_db t)). xr_id e = cl_execution_id cl \<and> xr_status e = cc_status r \<and>
       xr_exit_code e = cc_exit_code r \<and> xr_output e = cc_output r \<and> xr_truncated e = cc_output_truncated r)"
proof -
  let ?cl = "api_client envs clock marshal c"
  obtain s2 s3 where start: "client_start_command (serve_api (envs (k + 1))) marshal c credential (cl_execution_id cl) (cl_lease_token cl) s1 = (None, s2)"
    and complete: "client_complete_command (serve_api (envs (k + 2))) marshal c credential r s2 = (None, s3)"
    and row: "\<exists>e\<in>set (db_executions (as_db s3)). xr_id e = cl_execution_id cl \<and> xr_status e = cc_status r \<and>
       xr_exit_code e = cc_exit_code r \<and> xr_output e = cc_output r \<and> xr_truncated e = cc_output_truncated r"
    using reports_accepted [OF assms(1-6) assms(7) [unfolded execute_stamped] assms(8-15)] by blast
  have "co_claim ?cl credential (s, k) = (Inr (Some cl), s1, k + 1)" using assms(5) by (simp add: api_client_def on_request_def)
  moreover have "worker_start w ?cl credential cl (s1, k + 1) = Some (True, s2, k + 2)"
    unfolding worker_start_def by (rule report_until_ok) (use start in \<open>simp add: api_client_def on_request_def\<close>)
  moreover have "worker_complete w ?cl credential cl r (s2, k + 2) = Some (True, s3, k + 3)"
    unfolding worker_complete_def by (rule report_until_ok) (use complete in \<open>simp add: api_client_def on_request_def\<close>)
  ultimately have "command_round w ?cl (api_executor run_process) credential (s, k) = Some (True, s3, k + 3)"
    using assms(16) by (simp add: command_round_def api_executor_def assms(7) [symmetric])
  with row show ?thesis by blast
qed

definition quiet_options :: "(unit api_state \<times> nat) command_options" where
  "quiet_options = \<lparr>cm_client = None, cm_executor = None, cm_wait = (\<lambda>d x. (True, x)), cm_clock = (\<lambda>x. 0),
     cm_cancelled = (\<lambda>x. False), cm_sink = None\<rparr>"

theorem command_round_over_api_witness:
  "\<exists>t. command_round quiet_options (api_client (\<lambda>k. agent_env) (\<lambda>k. 100) (\<lambda>j. Some 100) \<lparr>ac_path = []\<rparr>) (api_executor demo_run) ''secret''
       (blank_state\<lparr>as_db := agent_db\<rparr>, 0) = Some (True, t, 3) \<and>
     (\<exists>e\<in>set (db_executions (as_db t)). xr_id e = ''e'' \<and> xr_status e = Succeeded \<and> xr_output e = ''C:ok'')"
proof -
  have inv: "system_inv (as_db (blank_state\<lparr>as_db := agent_db\<rparr>))" using agent_db_inv by simp
  have ord: "orderly agent_env" by (simp add: orderly_def agent_env_def blank_env_def)
  have cy: "ae_crypto agent_env = demo_crypto" by (simp add: agent_env_def blank_env_def)
  have ids: "cl_execution_id agent_claim = ''e''" "cl_lease_token agent_claim = demo_token" by (simp_all add: agent_claim_def demo_claim_def)
  have calm: "undisturbed (ae_crypto agent_env) agent_env" using demo_healthy by (simp add: undisturbed_def agent_env_def blank_env_def)
  have soon: "ae_now agent_env 1 < cl_lease_expires_at agent_claim" by (simp add: agent_env_def blank_env_def agent_claim_def command_lease_def)
  have small: "small (\<lambda>j. Some 100) 4096 j" "small (\<lambda>j. Some 100) 307200 j" for j by (simp_all add: small_def)
  have r: "agent_result = stamped agent_claim (execute (Some demo_run) agent_claim)" unfolding execute_stamped
    by (simp add: agent_result_def ids)
  have laws: "crypto_laws (ae_crypto agent_env)" by (simp add: cy demo_crypto_laws)
  have noslash: "CHR ''/'' \<notin> set (cl_execution_id agent_claim)" by (simp add: ids)
  have run: "po_exit (demo_run iv (cl_timeout agent_claim)) < 2 ^ 32 \<and> po_millis (demo_run iv (cl_timeout agent_claim)) < 2 ^ 63" for iv
    by (simp add: demo_run_def)
  have st: "completion_storable agent_result" using agent_result_is by (simp add: completion_storable_def storable_text_def int4_def)
  have path: "ac_path \<lparr>ac_path = []\<rparr> = []" by simp
  have on: "\<not> cm_cancelled quiet_options (blank_state\<lparr>as_db := agent_db\<rparr>, 0)" by (simp add: quiet_options_def)
  from command_round_over_api [where envs = "\<lambda>k. agent_env" and k = 0 and clock = "\<lambda>k. 100" and w = quiet_options,
      OF inv ord laws path agent_claims noslash r run st small(1,2) calm soon calm soon on] agent_result_is
  show ?thesis unfolding ids by auto
qed

end
