(* ===== verification/Release.thy ===== *)
theory Release
  imports SuTypes Encodings RegexMatch Json GoErrors
begin

text \<open>
  \<^verbatim>\<open>internal/release/manifest.go\<close>: the manifest of an Agent release, how it is validated, signed and
  verified, and when it is a candidate for an installed Agent.  Parameters: Ed25519 (\<open>ed25519\<close>), the
  JSON encoder (\<open>encoder\<close>), the URL functions of \<^verbatim>\<open>net/url\<close> (\<open>url_tools\<close>) and semantic versions
  (\<open>semver\<close>).  A time carries whether its location is UTC.
\<close>

section \<open>Padded base64\<close>

definition padding :: "nat \<Rightarrow> nat" where
  "padding n = (3 - n mod 3) mod 3"

definition std_encode :: "string \<Rightarrow> string" where
  "std_encode s = base64_encode std_alphabet s @ replicate (padding (length s)) (CHR ''='')"

definition std_decode :: "string \<Rightarrow> string option" where
  "std_decode e =
     (let pads = length (takeWhile (\<lambda>c. c = CHR ''='') (rev e))
      in if length e mod 4 \<noteq> 0 \<or> 2 < pads then None else base64_decode std_alphabet (take (length e - pads) e))"

lemma length_base64_encode: "length (base64_encode al s) + padding (length s) = 4 * ((length s + 2) div 3)"
proof (induction al s rule: base64_encode.induct)
  case (4 al a b c s)
  have "(5 + length s) div 3 = (length s + 2) div 3 + 1" by presburger
  with 4 show ?case by (simp add: padding_def)
qed (simp_all add: padding_def)

lemma padding_small: "padding n \<le> 2"
  by (simp add: padding_def)

lemma takeWhile_pads: "CHR ''='' \<notin> set e \<Longrightarrow> takeWhile (\<lambda>c. c = CHR ''='') (rev (e @ replicate n (CHR ''=''))) = replicate n (CHR ''='')"
proof -
  assume a: "CHR ''='' \<notin> set e"
  have "takeWhile (\<lambda>c. c = CHR ''='') (rev e) = []" using a by (cases e rule: rev_cases) auto
  then show ?thesis by (simp add: takeWhile_append)
qed

lemma std_roundtrip: "std_decode (std_encode s) = Some s"
proof -
  have "set (base64_encode std_alphabet s) \<subseteq> set std_alphabet" by (rule set_base64_encode [OF alphabets(2)])
  moreover have "CHR ''='' \<notin> set std_alphabet" by (simp add: std_alphabet_def base64_common_def)
  ultimately have no: "CHR ''='' \<notin> set (base64_encode std_alphabet s)" by blast
  then show ?thesis
    using length_base64_encode [of std_alphabet s] padding_small [of "length s"]
    by (simp add: std_decode_def std_encode_def takeWhile_pads Let_def base64_roundtrip alphabets del: rev_append)
qed

section \<open>The manifest\<close>

record manifest =
  mf_schema :: int
  mf_channel :: string
  mf_version :: string
  mf_published_at :: time
  mf_published_utc :: bool
  mf_minimum_os :: string
  mf_url :: string
  mf_size :: int
  mf_sha256 :: string
  mf_signature :: string

abbreviation manifest_schema :: int where "manifest_schema \<equiv> 1"
definition manifest_channel :: string where "manifest_channel = ''stable''"
abbreviation max_manifest_bytes :: nat where "max_manifest_bytes \<equiv> 65536"
abbreviation max_artifact_bytes :: int where "max_artifact_bytes \<equiv> 268435456"

section \<open>Versions\<close>

text \<open>The pattern \<^verbatim>\<open>strictSemverPattern\<close>.\<close>

definition alnum :: "char \<Rightarrow> bool" where
  "alnum c \<longleftrightarrow> is_digit c \<or> is_letter c \<or> c = CHR ''-''"

definition semver_number :: regex where
  "semver_number = RAlt (rlit ''0'') (RSeq (RChar (\<lambda>c. is_digit c \<and> c \<noteq> CHR ''0'')) (RStar (RChar is_digit)))"

definition semver_pre :: regex where
  "semver_pre = RAlt semver_number
     (RSeq (RStar (RChar is_digit)) (RSeq (RChar (\<lambda>c. is_letter c \<or> c = CHR ''-'')) (RStar (RChar alnum))))"

definition dotted :: "regex \<Rightarrow> regex" where
  "dotted r = RSeq r (RStar (RSeq (rlit ''.'') r))"

definition strict_semver :: regex where
  "strict_semver = RSeq semver_number (RSeq (rlit ''.'') (RSeq semver_number (RSeq (rlit ''.'') (RSeq semver_number
     (RSeq (ropt (RSeq (rlit ''-'') (dotted semver_pre))) (ropt (RSeq (rlit ''+'') (dotted (rplus (RChar alnum))))))))))"

definition valid_semver :: "semver \<Rightarrow> string \<Rightarrow> bool" where
  "valid_semver sem v \<longleftrightarrow> matches strict_semver v \<and> sem_valid sem (''v'' @ v)"

definition compare_versions :: "semver \<Rightarrow> string \<Rightarrow> string \<Rightarrow> int res" where
  "compare_versions sem candidate current =
     (if \<not> valid_semver sem candidate \<or> \<not> valid_semver sem current
      then Inl (Message ''versions must use valid semantic versioning'')
      else Inr (sem_compare sem (''v'' @ candidate) (''v'' @ current)))"

text \<open>Windows versions: \<^verbatim>\<open>[4]uint32\<close>.\<close>

type_synonym u32 = "32 word"

datatype windows_version = WindowsVersion (wv_major: u32) (wv_minor: u32) (wv_build: u32) (wv_revision: u32)

definition wv_parts :: "windows_version \<Rightarrow> u32 list" where
  "wv_parts v = [wv_major v, wv_minor v, wv_build v, wv_revision v]"

definition parse_u32 :: "string \<Rightarrow> u32 option" where
  "parse_u32 s =
     (if s = [] \<or> \<not> list_all is_digit s then None
      else let n = foldl (\<lambda>n c. 10 * n + (byte c - 48)) 0 s in if n < 2 ^ 32 then Some (of_nat n) else None)"

definition parse_component :: "string \<Rightarrow> u32 option" where
  "parse_component part =
     (if part = [] \<or> 1 < length part \<and> hd part = CHR ''0'' then None else parse_u32 part)"

definition parse_windows_version :: "string \<Rightarrow> windows_version res" where
  "parse_windows_version v =
     (let parts = split_at (CHR ''.'') v
      in if length parts < 3 \<or> 4 < length parts
         then Inl (Message ''minimum_os must contain three or four numeric components'')
         else case those (map parse_component parts) of
             None \<Rightarrow> Inl (Message ''minimum_os contains an invalid numeric component'')
           | Some ws \<Rightarrow> Inr (WindowsVersion (ws ! 0) (ws ! 1) (ws ! 2) (if length ws = 4 then ws ! 3 else 0)))"

fun compare_parts :: "u32 list \<Rightarrow> u32 list \<Rightarrow> int" where
  "compare_parts (a # as) (b # bs) = (if a < b then -1 else if b < a then 1 else compare_parts as bs)"
| "compare_parts as bs = 0"

definition compare_windows_versions :: "windows_version \<Rightarrow> windows_version \<Rightarrow> int" where
  "compare_windows_versions v w = compare_parts (wv_parts v) (wv_parts w)"

text \<open>The order that the comparison decides.\<close>

fun lex_less :: "u32 list \<Rightarrow> u32 list \<Rightarrow> bool" where
  "lex_less (a # as) (b # bs) \<longleftrightarrow> a < b \<or> a = b \<and> lex_less as bs"
| "lex_less as bs \<longleftrightarrow> False"

lemma lex_less_irrefl: "\<not> lex_less as as"
  by (induction as) simp_all

lemma lex_less_trans: "lex_less as bs \<Longrightarrow> lex_less bs cs \<Longrightarrow> lex_less as cs"
proof (induction as bs arbitrary: cs rule: lex_less.induct)
  case (1 a as b bs)
  then obtain c cs' where cs: "cs = c # cs'" by (cases cs) simp_all
  consider "a < b" | "a = b" "lex_less as bs" using 1 by auto
  then show ?case
  proof cases
    case 1
    then show ?thesis using \<open>lex_less (b # bs) cs\<close> cs by (auto intro: less_trans)
  next
    case 2
    then show ?thesis using 1 cs by auto
  qed
qed simp_all

lemma lex_less_total: "length as = length bs \<Longrightarrow> lex_less as bs \<or> lex_less bs as \<or> as = bs"
  by (induction as bs rule: lex_less.induct) auto

lemma compare_parts_sign:
  "length as = length bs \<Longrightarrow> compare_parts as bs = (if lex_less as bs then -1 else if lex_less bs as then 1 else 0)"
  by (induction as bs rule: compare_parts.induct) auto

lemma length_wv_parts: "length (wv_parts v) = 4"
  by (simp add: wv_parts_def)

lemma wv_parts_inject: "wv_parts v = wv_parts w \<longleftrightarrow> v = w"
  by (cases v; cases w) (simp add: wv_parts_def)

instantiation windows_version :: linorder
begin

definition less_windows_version :: "windows_version \<Rightarrow> windows_version \<Rightarrow> bool" where
  "v < w \<longleftrightarrow> lex_less (wv_parts v) (wv_parts w)"

definition less_eq_windows_version :: "windows_version \<Rightarrow> windows_version \<Rightarrow> bool" where
  "v \<le> w \<longleftrightarrow> v < w \<or> v = (w :: windows_version)"

instance
proof
  fix u v w :: windows_version
  show "(v < w) = (v \<le> w \<and> \<not> w \<le> v)"
    using lex_less_irrefl lex_less_trans by (auto simp: less_windows_version_def less_eq_windows_version_def)
  show "v \<le> v" by (simp add: less_eq_windows_version_def)
  show "u \<le> v \<Longrightarrow> v \<le> w \<Longrightarrow> u \<le> w"
    using lex_less_trans by (auto simp: less_windows_version_def less_eq_windows_version_def)
  show "v \<le> w \<Longrightarrow> w \<le> v \<Longrightarrow> v = w"
    using lex_less_irrefl lex_less_trans by (auto simp: less_windows_version_def less_eq_windows_version_def)
  show "v \<le> w \<or> w \<le> v"
    using lex_less_total [of "wv_parts v" "wv_parts w"] length_wv_parts
    by (auto simp: less_windows_version_def less_eq_windows_version_def wv_parts_inject)
qed

end

lemma compare_windows_versions_sign:
  "compare_windows_versions v w = (if v < w then -1 else if w < v then 1 else 0)"
  unfolding compare_windows_versions_def less_windows_version_def by (rule compare_parts_sign) (simp add: length_wv_parts)

section \<open>URLs\<close>

text \<open>What \<^verbatim>\<open>url.Parse\<close> finds; \<open>Hostname()\<close> and \<open>Port()\<close> as fields.\<close>

record parsed_url =
  pu_scheme :: string
  pu_opaque :: string
  pu_user :: bool
  pu_host :: string
  pu_hostname :: string
  pu_port :: string
  pu_path :: string
  pu_query :: string
  pu_force_query :: bool
  pu_fragment :: string

record url_tools =
  ut_parse :: "string \<Rightarrow> parsed_url option"
  ut_lower :: "string \<Rightarrow> string"
  ut_resolve :: "parsed_url \<Rightarrow> parsed_url \<Rightarrow> parsed_url"
  ut_text :: "parsed_url \<Rightarrow> string"

definition is_abs :: "parsed_url \<Rightarrow> bool" where
  "is_abs u \<longleftrightarrow> pu_scheme u \<noteq> []"

definition http_scheme :: "parsed_url \<Rightarrow> bool" where
  "http_scheme u \<longleftrightarrow> pu_scheme u = ''http'' \<or> pu_scheme u = ''https''"

definition join_host_port :: "string \<Rightarrow> string \<Rightarrow> string" where
  "join_host_port h p = (if CHR '':'' \<in> set h then ''['' @ h @ '']:'' @ p else h @ '':'' @ p)"

definition origin_identity :: "url_tools \<Rightarrow> parsed_url \<Rightarrow> string" where
  "origin_identity ut u =
     (let port = (if pu_port u \<noteq> [] then pu_port u
                  else if pu_scheme u = ''https'' then ''443'' else if pu_scheme u = ''http'' then ''80'' else [])
      in ut_lower ut (pu_scheme u) @ ''://'' @ join_host_port (ut_lower ut (pu_hostname u)) port)"

definition bare_url :: "parsed_url \<Rightarrow> bool" where
  "bare_url u \<longleftrightarrow> \<not> pu_user u \<and> pu_query u = [] \<and> \<not> pu_force_query u \<and> pu_fragment u = []"

definition parse_origin :: "url_tools \<Rightarrow> string \<Rightarrow> parsed_url res" where
  "parse_origin ut v =
     (case ut_parse ut v of
        None \<Rightarrow> Inl (Message ''server origin must be an absolute HTTP or HTTPS URL'')
      | Some u \<Rightarrow>
        if \<not> is_abs u \<or> \<not> http_scheme u \<or> pu_host u = [] \<or> \<not> bare_url u
        then Inl (Message ''server origin must be an absolute HTTP or HTTPS URL'') else Inr u)"

definition not_same_origin :: go_error where
  "not_same_origin = Message ''manifest URL must be same-origin absolute or origin-relative''"

definition validate_artifact_url :: "url_tools \<Rightarrow> string \<Rightarrow> parsed_url option \<Rightarrow> go_error option" where
  "validate_artifact_url ut v origin =
     (if v = [] \<or> CHR 0x5C \<in> set v \<or> has_prefix v ''//'' then Some not_same_origin
      else case ut_parse ut v of
          None \<Rightarrow> Some (Message ''manifest URL must not contain userinfo, query, or fragment'')
        | Some u \<Rightarrow>
          if pu_opaque u \<noteq> [] \<or> \<not> bare_url u
          then Some (Message ''manifest URL must not contain userinfo, query, or fragment'')
          else if is_abs u
          then (if \<not> http_scheme u \<or> pu_host u = [] \<or> pu_path u = []
                then Some (Message ''manifest URL must use HTTP or HTTPS and include a path'')
                else case origin of
                    None \<Rightarrow> None
                  | Some w \<Rightarrow>
                    if origin_identity ut u \<noteq> origin_identity ut w
                    then Some (Message ''manifest URL must use the configured server origin'') else None)
          else if pu_host u \<noteq> [] \<or> \<not> has_prefix (pu_path u) ''/'' \<or> has_prefix (pu_path u) ''//'' \<or>
            CHR 0x5C \<in> set (pu_path u) \<or> pu_path u = ''/''
          then Some not_same_origin else None)"

section \<open>Validation\<close>

definition is_hex :: "char \<Rightarrow> bool" where
  "is_hex c \<longleftrightarrow> is_digit c \<or> 97 \<le> byte c \<and> byte c \<le> 102 \<or> 65 \<le> byte c \<and> byte c \<le> 70"

definition bad_sha256 :: go_error where
  "bad_sha256 = Message ''manifest sha256 must be 64 lowercase hexadecimal characters''"

definition validate_manifest :: "semver \<Rightarrow> url_tools \<Rightarrow> manifest \<Rightarrow> go_error option" where
  "validate_manifest sem ut m =
     (if mf_schema m \<noteq> manifest_schema then Some (Message ''manifest schema must be 1'')
      else if mf_channel m \<noteq> manifest_channel then Some (Message ''manifest channel must be stable'')
      else if \<not> valid_semver sem (mf_version m) then Some (Message ''manifest version is not valid semantic versioning'')
      else if is_zero_time (mf_published_at m) \<or> \<not> mf_published_utc m \<or> mf_published_at m mod second \<noteq> 0
      then Some (Message ''manifest published_at must be a whole-second UTC timestamp'')
      else case parse_windows_version (mf_minimum_os m) of
          Inl e \<Rightarrow> Some e
        | Inr v \<Rightarrow>
          (case validate_artifact_url ut (mf_url m) None of
             Some e \<Rightarrow> Some e
           | None \<Rightarrow>
             if mf_size m \<le> 0 \<or> max_artifact_bytes < mf_size m
             then Some (Message ''manifest size must be between 1 and 268435456 bytes'')
             else if length (mf_sha256 m) \<noteq> 64 \<or> map ascii_lower (mf_sha256 m) \<noteq> mf_sha256 m then Some bad_sha256
             else if \<not> list_all is_hex (mf_sha256 m) then Some bad_sha256
             else None))"

definition validate_manifest_origin :: "semver \<Rightarrow> url_tools \<Rightarrow> manifest \<Rightarrow> string \<Rightarrow> go_error option" where
  "validate_manifest_origin sem ut m origin =
     (case validate_manifest sem ut m of
        Some e \<Rightarrow> Some e
      | None \<Rightarrow>
        (case parse_origin ut origin of
           Inl e \<Rightarrow> Some e
         | Inr base \<Rightarrow> validate_artifact_url ut (mf_url m) (Some base)))"

definition validate_candidate :: "semver \<Rightarrow> url_tools \<Rightarrow> manifest \<Rightarrow> string \<Rightarrow> string \<Rightarrow> string \<Rightarrow> go_error option" where
  "validate_candidate sem ut m current_version current_os origin =
     (case validate_manifest sem ut m of
        Some e \<Rightarrow> Some e
      | None \<Rightarrow>
        (case compare_versions sem (mf_version m) current_version of
           Inl e \<Rightarrow> Some e
         | Inr comparison \<Rightarrow>
           if comparison \<le> 0 then Some (Message ''candidate version must be newer than the installed version'')
           else case parse_windows_version (mf_minimum_os m) of
               Inl e \<Rightarrow> Some e
             | Inr minimum \<Rightarrow>
               (case parse_windows_version current_os of
                  Inl e \<Rightarrow> Some (Message ''current Windows version is invalid'')
                | Inr installed \<Rightarrow>
                  if compare_windows_versions installed minimum < 0
                  then Some (Message ''candidate requires a newer Windows version'')
                  else case parse_origin ut origin of
                      Inl e \<Rightarrow> Some e
                    | Inr base \<Rightarrow> validate_artifact_url ut (mf_url m) (Some base))))"

section \<open>Signatures\<close>

text \<open>A private key is its seed and the public key that belongs to it.\<close>

record ed25519 =
  ed_public :: "string \<Rightarrow> string"
  ed_sign :: "string \<Rightarrow> string \<Rightarrow> string"
  ed_verify :: "string \<Rightarrow> string \<Rightarrow> string \<Rightarrow> bool"

definition ed25519_laws :: "ed25519 \<Rightarrow> bool" where
  "ed25519_laws ed \<longleftrightarrow> (\<forall>seed. length (ed_public ed seed) = 32) \<and> (\<forall>seed p. length (ed_sign ed seed p) = 64) \<and>
     (\<forall>seed p. ed_verify ed (ed_public ed seed) p (ed_sign ed seed p))"

type_synonym encoder = "json \<Rightarrow> string option"

definition canonical_json :: "manifest \<Rightarrow> json" where
  "canonical_json m = JObj
     [(''schema'', JInt (mf_schema m)), (''channel'', JStr (mf_channel m)), (''version'', JStr (mf_version m)),
      (''published_at'', JTime (mf_published_at m)), (''minimum_os'', JStr (mf_minimum_os m)), (''url'', JStr (mf_url m)),
      (''size'', JInt (mf_size m)), (''sha256'', JStr (mf_sha256 m))]"

definition canonical_payload :: "semver \<Rightarrow> url_tools \<Rightarrow> encoder \<Rightarrow> manifest \<Rightarrow> string res" where
  "canonical_payload sem ut enc m =
     (case validate_manifest sem ut m of
        Some e \<Rightarrow> Inl e
      | None \<Rightarrow>
        (case enc (canonical_json m) of
           None \<Rightarrow> Inl (Message ''encode canonical manifest'')
         | Some payload \<Rightarrow> Inr payload))"

definition sign_manifest :: "semver \<Rightarrow> url_tools \<Rightarrow> encoder \<Rightarrow> ed25519 \<Rightarrow> manifest \<Rightarrow> string \<Rightarrow> manifest res" where
  "sign_manifest sem ut enc ed m key =
     (if length key \<noteq> 64 then Inl (Message ''invalid Ed25519 private key length'')
      else let derived = take 32 key @ ed_public ed (take 32 key)
           in if key \<noteq> derived then Inl (Message ''invalid Ed25519 private key material'')
              else case canonical_payload sem ut enc m of
                  Inl e \<Rightarrow> Inl e
                | Inr payload \<Rightarrow> Inr (m\<lparr>mf_signature := std_encode (ed_sign ed (take 32 derived) payload)\<rparr>))"

definition white :: string where
  "white = [CHR '' '', CHR 0x09, CHR 0x0D, CHR 0x0A]"

definition decode_exact :: "nat \<Rightarrow> string \<Rightarrow> string option" where
  "decode_exact n e =
     (case std_decode e of
        None \<Rightarrow> None
      | Some s \<Rightarrow> if length s \<noteq> n \<or> std_encode s \<noteq> e then None else Some s)"

definition verify_manifest :: "semver \<Rightarrow> url_tools \<Rightarrow> encoder \<Rightarrow> ed25519 \<Rightarrow> manifest \<Rightarrow> string \<Rightarrow> go_error option" where
  "verify_manifest sem ut enc ed m key =
     (if length key \<noteq> 32 then Some (Message ''invalid Ed25519 public key length'')
      else case canonical_payload sem ut enc m of
          Inl e \<Rightarrow> Some e
        | Inr payload \<Rightarrow>
          if contains_any (mf_signature m) white then Some (Message ''invalid Ed25519 signature encoding'')
          else case decode_exact 64 (mf_signature m) of
              None \<Rightarrow> Some (Message ''invalid Ed25519 signature encoding'')
            | Some signature \<Rightarrow>
              if \<not> ed_verify ed key payload signature then Some (Message ''manifest signature verification failed'')
              else None)"

section \<open>What a signature covers\<close>

lemma unsigned_fields:
  "mf_schema (m\<lparr>mf_signature := x\<rparr>) = mf_schema m" "mf_channel (m\<lparr>mf_signature := x\<rparr>) = mf_channel m"
  "mf_version (m\<lparr>mf_signature := x\<rparr>) = mf_version m" "mf_published_at (m\<lparr>mf_signature := x\<rparr>) = mf_published_at m"
  "mf_published_utc (m\<lparr>mf_signature := x\<rparr>) = mf_published_utc m" "mf_minimum_os (m\<lparr>mf_signature := x\<rparr>) = mf_minimum_os m"
  "mf_url (m\<lparr>mf_signature := x\<rparr>) = mf_url m" "mf_size (m\<lparr>mf_signature := x\<rparr>) = mf_size m"
  "mf_sha256 (m\<lparr>mf_signature := x\<rparr>) = mf_sha256 m"
  by simp_all

lemma unsigned [simp]:
  "validate_manifest sem ut (m\<lparr>mf_signature := x\<rparr>) = validate_manifest sem ut m"
  "canonical_json (m\<lparr>mf_signature := x\<rparr>) = canonical_json m"
  "canonical_payload sem ut enc (m\<lparr>mf_signature := x\<rparr>) = canonical_payload sem ut enc m"
  unfolding validate_manifest_def canonical_json_def canonical_payload_def unsigned_fields by (rule refl)+

lemma std_encode_chars: "c \<in> set (std_encode s) \<Longrightarrow> c \<notin> set white"
proof -
  assume c: "c \<in> set (std_encode s)"
  have "set (base64_encode std_alphabet s) \<subseteq> set std_alphabet" by (rule set_base64_encode [OF alphabets(2)])
  moreover have "set std_alphabet \<inter> set white = {}" by (simp add: std_alphabet_def base64_common_def white_def)
  moreover have "CHR ''='' \<notin> set white" by (simp add: white_def)
  ultimately show ?thesis using c by (auto simp: std_encode_def)
qed

lemma decode_exact_encode: "length s = n \<Longrightarrow> decode_exact n (std_encode s) = Some s"
  by (simp add: decode_exact_def std_roundtrip)

lemma decode_exact_Some: "decode_exact n e = Some s \<Longrightarrow> e = std_encode s \<and> length s = n"
  by (auto simp: decode_exact_def split: option.splits if_splits)

lemma verify_manifest_None:
  "verify_manifest sem ut enc ed m key = None \<longleftrightarrow> length key = 32 \<and>
     (\<exists>payload signature. canonical_payload sem ut enc m = Inr payload \<and> mf_signature m = std_encode signature \<and>
        length signature = 64 \<and> ed_verify ed key payload signature)"
proof
  assume "verify_manifest sem ut enc ed m key = None"
  then show "length key = 32 \<and> (\<exists>payload signature. canonical_payload sem ut enc m = Inr payload \<and>
      mf_signature m = std_encode signature \<and> length signature = 64 \<and> ed_verify ed key payload signature)"
    by (auto simp: verify_manifest_def dest: decode_exact_Some split: if_splits sum.splits option.splits)
next
  have "\<not> contains_any (std_encode s) white" for s
    using std_encode_chars by (auto simp: contains_any_def list_ex_iff)
  moreover assume "length key = 32 \<and> (\<exists>payload signature. canonical_payload sem ut enc m = Inr payload \<and>
      mf_signature m = std_encode signature \<and> length signature = 64 \<and> ed_verify ed key payload signature)"
  ultimately show "verify_manifest sem ut enc ed m key = None"
    by (auto simp: verify_manifest_def decode_exact_encode)
qed

lemma signed_verifies:
  assumes "ed25519_laws ed" and "sign_manifest sem ut enc ed m key = Inr sealed" and "public = ed_public ed (take 32 key)"
  shows "verify_manifest sem ut enc ed sealed public = None" and "sealed\<lparr>mf_signature := mf_signature m\<rparr> = m"
proof -
  obtain payload where payload: "canonical_payload sem ut enc m = Inr payload"
      and sealed: "sealed = m\<lparr>mf_signature := std_encode (ed_sign ed (take 32 key) payload)\<rparr>" and key: "length key = 64"
    using assms(2) by (auto simp: sign_manifest_def Let_def split: if_splits sum.splits)
  have laws: "length public = 32" "length (ed_sign ed (take 32 key) payload) = 64"
      "ed_verify ed public payload (ed_sign ed (take 32 key) payload)"
    using assms(1) by (simp_all add: ed25519_laws_def assms(3))
  show "verify_manifest sem ut enc ed sealed public = None"
    unfolding verify_manifest_None using payload laws by (auto simp: sealed)
  show "sealed\<lparr>mf_signature := mf_signature m\<rparr> = m" by (simp add: sealed)
qed

text \<open>A signed manifest verifies under the public key of the signing key, and signing changes nothing but the
signature; and every manifest that carries the same signature and verifies has, when that signature is
good for no other bytes, the same canonical payload byte for byte: schema, channel, version, time,
minimum system, address, size and hash that an updater acts on are the signed ones.\<close>

theorem release_signature_roundtrip:
  assumes "ed25519_laws ed" and "sign_manifest sem ut enc ed m key = Inr sealed" and "public = ed_public ed (take 32 key)"
    and "canonical_payload sem ut enc m = Inr payload"
  shows "verify_manifest sem ut enc ed sealed public = None \<and> sealed\<lparr>mf_signature := mf_signature m\<rparr> = m \<and>
    (\<forall>other. (\<forall>p signature. std_encode signature = mf_signature sealed \<and> ed_verify ed public p signature \<longrightarrow> p = payload) \<longrightarrow>
       mf_signature other = mf_signature sealed \<longrightarrow> verify_manifest sem ut enc ed other public = None \<longrightarrow>
       enc (canonical_json other) = Some payload)"
proof -
  note ok = signed_verifies [OF assms(1-3)]
  have same: "enc (canonical_json other) = Some payload"
    if "\<forall>p signature. std_encode signature = mf_signature sealed \<and> ed_verify ed public p signature \<longrightarrow> p = payload"
      and "mf_signature other = mf_signature sealed" "verify_manifest sem ut enc ed other public = None" for other
  proof -
    from that(2,3) obtain q sg where q: "canonical_payload sem ut enc other = Inr q" "mf_signature sealed = std_encode sg"
      "ed_verify ed public q sg" unfolding verify_manifest_None by metis
    with that(1) have "q = payload" by metis
    with q(1) show ?thesis by (auto simp: canonical_payload_def split: option.splits)
  qed
  show ?thesis using ok same by blast
qed

definition demo_semver :: semver where
  "demo_semver = \<lparr>sem_valid = (\<lambda>v. True), sem_canonical = id, sem_compare = (\<lambda>v w. if v = w then 0 else 1)\<rparr>"

definition demo_url :: parsed_url where
  "demo_url = \<lparr>pu_scheme = [], pu_opaque = [], pu_user = False, pu_host = [], pu_hostname = [], pu_port = [], pu_path = ''/a.exe'',
     pu_query = [], pu_force_query = False, pu_fragment = []\<rparr>"

definition demo_origin :: parsed_url where
  "demo_origin = demo_url\<lparr>pu_scheme := ''https'', pu_host := ''ace'', pu_hostname := ''ace'', pu_path := []\<rparr>"

definition demo_urls :: url_tools where
  "demo_urls = \<lparr>ut_parse = (\<lambda>v. if v = ''/a.exe'' then Some demo_url else if v = ''https://ace'' then Some demo_origin
       else if v = ''https://ace/a.exe'' then Some (demo_origin\<lparr>pu_path := ''/a.exe''\<rparr>) else None),
     ut_lower = id, ut_resolve = (\<lambda>base u. base\<lparr>pu_path := pu_path u\<rparr>), ut_text = (\<lambda>u. ''https://ace'' @ pu_path u)\<rparr>"

definition demo_manifest :: manifest where
  "demo_manifest = \<lparr>mf_schema = 1, mf_channel = ''stable'', mf_version = ''1.0.1'', mf_published_at = second, mf_published_utc = True,
     mf_minimum_os = ''10.0.1'', mf_url = ''/a.exe'', mf_size = 3, mf_sha256 = replicate 64 (CHR ''0''), mf_signature = []\<rparr>"

definition demo_ed25519 :: ed25519 where
  "demo_ed25519 = \<lparr>ed_public = (\<lambda>s. replicate 32 (CHR ''k'')), ed_sign = (\<lambda>s p. replicate 64 (CHR ''s'')), ed_verify = (\<lambda>k p s. True)\<rparr>"

lemma demo_ed25519_laws: "ed25519_laws demo_ed25519"
  by (simp add: ed25519_laws_def demo_ed25519_def)

lemma demo_chars: "is_digit (CHR ''1'')" "is_digit (CHR ''0'')" "\<not> is_digit (CHR ''.'')" "\<not> is_letter (CHR ''.'')"
  by (simp_all add: is_digit_def is_letter_def byte_def)

lemma demo_versions: "matches strict_semver ''1.0.1''" "matches strict_semver ''1.0.0''"
  by (simp_all add: strict_semver_def semver_number_def semver_pre_def dotted_def ropt_def rplus_def alnum_def demo_chars)

lemma demo_system: "parse_windows_version ''10.0.1'' = Inr (WindowsVersion 10 0 1 0)"
  by (simp add: parse_windows_version_def parse_component_def parse_u32_def is_digit_def byte_def)

lemma demo_manifest_valid: "validate_manifest demo_semver demo_urls demo_manifest = None"
proof -
  have "valid_semver demo_semver ''1.0.1''" using demo_versions by (simp add: valid_semver_def demo_semver_def)
  moreover have "validate_artifact_url demo_urls ''/a.exe'' None = None"
    by (simp add: validate_artifact_url_def demo_urls_def demo_url_def is_abs_def bare_url_def has_prefix_def)
  moreover have "list_all is_hex (replicate 64 (CHR ''0''))" "map ascii_lower (replicate 64 (CHR ''0'')) = replicate 64 (CHR ''0'')"
    by (simp_all add: list_all_iff is_hex_def demo_chars ascii_lower_def byte_def)
  ultimately show ?thesis
    by (simp add: validate_manifest_def demo_manifest_def manifest_channel_def demo_system)
qed

theorem release_signature_roundtrip_witness:
  "\<exists>sealed. verify_manifest demo_semver demo_urls (\<lambda>j. Some ''payload'') demo_ed25519 sealed (replicate 32 (CHR ''k'')) = None \<and>
     mf_version sealed = ''1.0.1''"
proof -
  let ?key = "replicate 32 (CHR ''p'') @ replicate 32 (CHR ''k'')"
  have payload: "canonical_payload demo_semver demo_urls (\<lambda>j. Some ''payload'') demo_manifest = Inr ''payload''"
    by (simp add: canonical_payload_def demo_manifest_valid)
  have key: "take 32 ?key = replicate 32 (CHR ''p'')" "length ?key = 64" by simp_all
  obtain sealed where "sign_manifest demo_semver demo_urls (\<lambda>j. Some ''payload'') demo_ed25519 demo_manifest ?key = Inr sealed"
    unfolding sign_manifest_def key using payload by (simp add: Let_def demo_ed25519_def)
  from release_signature_roundtrip [OF demo_ed25519_laws this refl payload]
  show ?thesis by (intro exI [of _ sealed]) (metis demo_ed25519_def demo_manifest_def ed25519.select_convs(1) manifest.select_convs(3) unsigned_fields(3))
qed

end
