(* ===== verification/UpdateCheck.thy ===== *)
theory UpdateCheck
  imports Release AgentConfig CmdExecutor
begin

text \<open>
  How the updater of the Agent finds and stages a release: \<^verbatim>\<open>agent/internal/update/checker.go\<close>, the
  result it hands to the Agent (\<^verbatim>\<open>protocol.go\<close>) and \<^verbatim>\<open>manifest.go\<close>, which only passes on to
  \<open>Release\<close>.  Downloads, SHA-256, paths and the failures of the file system are the parameter
  \<open>update_env\<close>; the files are a map from paths to contents.  A time in a JSON document is in UTC, as
  every manifest writes it.
\<close>

section \<open>The result of a check (protocol.go)\<close>

abbreviation max_result_bytes :: nat where "max_result_bytes \<equiv> 65536"

record check_result =
  kr_available :: bool
  kr_version :: string
  kr_url :: string
  kr_installer_path :: string

definition no_update :: check_result where
  "no_update = \<lparr>kr_available = False, kr_version = [], kr_url = [], kr_installer_path = []\<rparr>"

text \<open>The pattern \<^verbatim>\<open>^[A-Za-z]:[\\/].+\<close>, which need not match to the end.\<close>

definition windows_absolute :: "string \<Rightarrow> bool" where
  "windows_absolute p =
     (case p of
        a # b # c # d # rest \<Rightarrow> is_letter a \<and> b = CHR '':'' \<and> (c = CHR 0x5C \<or> c = CHR ''/'') \<and> d \<noteq> CHR 0x0A
      | _ \<Rightarrow> False)"

definition public_url :: "url_tools \<Rightarrow> string \<Rightarrow> bool" where
  "public_url ut v \<longleftrightarrow>
     (case ut_parse ut v of
        None \<Rightarrow> False
      | Some u \<Rightarrow> is_abs u \<and> http_scheme u \<and> pu_host u \<noteq> [] \<and> pu_path u \<noteq> [] \<and> pu_opaque u = [] \<and> bare_url u)"

definition validate_result :: "semver \<Rightarrow> url_tools \<Rightarrow> (string \<Rightarrow> bool) \<Rightarrow> check_result \<Rightarrow> go_error option" where
  "validate_result sem ut file_abs r =
     (if \<not> kr_available r
      then (if kr_version r \<noteq> [] \<or> kr_url r \<noteq> [] \<or> kr_installer_path r \<noteq> []
            then Some (Message ''unavailable update result must not contain release fields'') else None)
      else case compare_versions sem (kr_version r) (kr_version r) of
          Inl e \<Rightarrow> Some (Message ''available update result must contain a valid semantic version'')
        | Inr i \<Rightarrow>
          if \<not> public_url ut (kr_url r) then Some (Message ''available update result must contain a public HTTP or HTTPS URL'')
          else if \<not> file_abs (kr_installer_path r) \<and> \<not> windows_absolute (kr_installer_path r)
          then Some (Message ''available update result must contain an absolute installer path'') else None)"

definition write_result :: "check_result \<Rightarrow> json" where
  "write_result r = JObj ((''available'', JBool (kr_available r)) # omit_empty ''version'' (kr_version r) @
     omit_empty ''url'' (kr_url r) @ omit_empty ''installer_path'' (kr_installer_path r))"

definition result_fields :: "check_result field list" where
  "result_fields =
     [field_of ''available'' read_bool kr_available kr_available_update, field_of ''version'' read_string kr_version kr_version_update,
      field_of ''url'' read_string kr_url kr_url_update,
      field_of ''installer_path'' read_string kr_installer_path kr_installer_path_update]"

text \<open>What is written, a line break behind the document.\<close>

definition encode_check_result :: "semver \<Rightarrow> url_tools \<Rightarrow> (string \<Rightarrow> bool) \<Rightarrow> encoder \<Rightarrow> check_result \<Rightarrow> body res" where
  "encode_check_result sem ut file_abs enc r =
     (case validate_result sem ut file_abs r of
        Some e \<Rightarrow> Inl e
      | None \<Rightarrow>
        (case enc (write_result r) of
           None \<Rightarrow> Inl (Message ''encode check result'')
         | Some v \<Rightarrow>
           if max_result_bytes < length v + 1 then Inl (Message ''check result exceeds 65536 bytes'')
           else Inr (json_body (length v + 1) (write_result r))))"

definition decode_check_result :: "semver \<Rightarrow> url_tools \<Rightarrow> (string \<Rightarrow> bool) \<Rightarrow> body \<Rightarrow> check_result res" where
  "decode_check_result sem ut file_abs b =
     (if bd_failed b then Inl (Message ''read check result'')
      else if max_result_bytes < bd_size b then Inl (Message ''check result exceeds 65536 bytes'')
      else case bd_docs b of
          Some j # rest \<Rightarrow>
            (case read_struct True result_fields j no_update of
               None \<Rightarrow> Inl (Message ''decode check result'')
             | Some r \<Rightarrow>
               if rest \<noteq> [] then Inl (Message ''decode check result: multiple JSON values'')
               else case validate_result sem ut file_abs r of Some e \<Rightarrow> Inl e | None \<Rightarrow> Inr r)
        | _ \<Rightarrow> Inl (Message ''decode check result''))"

section \<open>The checker (checker.go)\<close>

definition stable_manifest_path :: string where
  "stable_manifest_path = ''/downloads/windows/stable/latest.json''"

record candidate =
  cd_manifest :: manifest
  cd_installer_url :: string

record staged_update =
  sg_version :: string
  sg_installer_path :: string
  sg_manifest :: manifest

record checker =
  kc_origin :: string
  kc_version :: string
  kc_os :: string
  kc_public_key :: string
  kc_staging_dir :: string

text \<open>A response that came, its redirects followed, and the URL it came from in the end.\<close>

record 'b fetched =
  fe_final :: string
  fe_status :: nat
  fe_length :: int
  fe_content :: 'b

text \<open>
  The client of \<^verbatim>\<open>httpClient\<close>: it asks its first argument whether it may follow a redirect.  An
  installer is the bytes that arrive and the error that breaks them off.
\<close>

record update_env =
  ue_semver :: semver
  ue_urls :: url_tools
  ue_encoder :: encoder
  ue_ed25519 :: ed25519
  ue_sha256 :: "string \<Rightarrow> string"
  ue_manifest :: "(parsed_url \<Rightarrow> bool) \<Rightarrow> string \<Rightarrow> body fetched res"
  ue_installer :: "(parsed_url \<Rightarrow> bool) \<Rightarrow> string \<Rightarrow> (string \<times> go_error option) fetched res"
  ue_join :: "string \<Rightarrow> string \<Rightarrow> string"
  ue_fault :: fault

definition parse_checker_origin :: "url_tools \<Rightarrow> string \<Rightarrow> parsed_url res" where
  "parse_checker_origin ut v =
     (case parse_origin ut v of
        Inl e \<Rightarrow> Inl (Message ''update origin must be an absolute HTTP or HTTPS URL without credentials, query, or fragment'')
      | Inr u \<Rightarrow> Inr u)"

definition parse_public_key :: "string \<Rightarrow> string res" where
  "parse_public_key encoded =
     (if encoded = [] \<or> contains_any encoded white then Inl (Message ''embedded update public key is unavailable'')
      else case decode_exact 32 encoded of
          None \<Rightarrow> Inl (Message ''embedded update public key is invalid'')
        | Some key \<Rightarrow> Inr key)"

definition checker_origin_identity :: "url_tools \<Rightarrow> parsed_url \<Rightarrow> string" where
  "checker_origin_identity ut u =
     (if \<not> http_scheme u \<or> pu_host u = [] then []
      else let port = (if pu_port u \<noteq> [] then pu_port u else if pu_scheme u = ''https'' then ''443'' else ''80'')
           in ut_lower ut (pu_scheme u) @ ''://'' @ join_host_port (ut_lower ut (pu_hostname u)) port)"

definition redirect_allowed :: "url_tools \<Rightarrow> parsed_url \<Rightarrow> parsed_url \<Rightarrow> bool" where
  "redirect_allowed ut origin u \<longleftrightarrow> \<not> pu_user u \<and> checker_origin_identity ut u = checker_origin_identity ut origin"

definition resolve_installer_url :: "url_tools \<Rightarrow> parsed_url \<Rightarrow> string \<Rightarrow> string res" where
  "resolve_installer_url ut origin v =
     (case ut_parse ut v of
        None \<Rightarrow> Inl (Message ''parse installer URL'')
      | Some u \<Rightarrow>
        let resolved = ut_resolve ut origin u
        in if pu_user resolved \<or> checker_origin_identity ut resolved \<noteq> checker_origin_identity ut origin
           then Inl (Message ''installer URL changed update origin'') else Inr (ut_text ut resolved))"

definition unexpected_status :: "nat \<Rightarrow> go_error" where
  "unexpected_status n = Message (''unexpected HTTP status '' @ nat_text n)"

definition too_long :: "nat \<Rightarrow> go_error" where
  "too_long maximum = Message (''response exceeds '' @ nat_text maximum @ '' bytes'')"

definition fetch_bounded :: "update_env \<Rightarrow> parsed_url \<Rightarrow> string \<Rightarrow> nat \<Rightarrow> body res" where
  "fetch_bounded env origin target maximum =
     (case ue_manifest env (redirect_allowed (ue_urls env) origin) target of
        Inl e \<Rightarrow> Inl e
      | Inr r \<Rightarrow>
        if fe_status r \<noteq> 200 then Inl (unexpected_status (fe_status r))
        else if int maximum < fe_length r then Inl (too_long maximum)
        else if bd_failed (fe_content r) then Inl (Message ''read response'')
        else if maximum < bd_size (fe_content r) then Inl (too_long maximum)
        else Inr (fe_content r))"

definition read_published :: "json \<Rightarrow> manifest \<Rightarrow> manifest option" where
  "read_published j m =
     map_option (\<lambda>t. m\<lparr>mf_published_at := t, mf_published_utc := True\<rparr>) (read_time j (mf_published_at m))"

definition manifest_fields :: "manifest field list" where
  "manifest_fields =
     [field_of ''schema'' read_int mf_schema mf_schema_update, field_of ''channel'' read_string mf_channel mf_channel_update,
      field_of ''version'' read_string mf_version mf_version_update, (''published_at'', read_published),
      field_of ''minimum_os'' read_string mf_minimum_os mf_minimum_os_update, field_of ''url'' read_string mf_url mf_url_update,
      field_of ''size'' read_int mf_size mf_size_update, field_of ''sha256'' read_string mf_sha256 mf_sha256_update,
      field_of ''signature'' read_string mf_signature mf_signature_update]"

definition zero_manifest :: manifest where
  "zero_manifest = \<lparr>mf_schema = 0, mf_channel = [], mf_version = [], mf_published_at = 0, mf_published_utc = True,
     mf_minimum_os = [], mf_url = [], mf_size = 0, mf_sha256 = [], mf_signature = []\<rparr>"

definition decode_manifest :: "body \<Rightarrow> manifest res" where
  "decode_manifest b =
     (case bd_docs b of
        Some j # rest \<Rightarrow>
          (case read_struct True manifest_fields j zero_manifest of
             None \<Rightarrow> Inl (Message ''decode update manifest'')
           | Some m \<Rightarrow> if rest \<noteq> [] then Inl (Message ''decode update manifest: manifest contains multiple JSON values'') else Inr m)
      | _ \<Rightarrow> Inl (Message ''decode update manifest''))"

definition env_verify :: "update_env \<Rightarrow> manifest \<Rightarrow> string \<Rightarrow> go_error option" where
  "env_verify env m key = verify_manifest (ue_semver env) (ue_urls env) (ue_encoder env) (ue_ed25519 env) m key"

definition check_candidate :: "update_env \<Rightarrow> checker \<Rightarrow> manifest \<Rightarrow> go_error option" where
  "check_candidate env c m = validate_candidate (ue_semver env) (ue_urls env) m (kc_version c) (kc_os c) (kc_origin c)"

definition check_release :: "update_env \<Rightarrow> checker \<Rightarrow> candidate res" where
  "check_release env c =
     (case parse_checker_origin (ue_urls env) (kc_origin c) of
        Inl e \<Rightarrow> Inl e
      | Inr origin \<Rightarrow>
     (case parse_public_key (kc_public_key c) of
        Inl e \<Rightarrow> Inl e
      | Inr key \<Rightarrow>
     (case fetch_bounded env origin
         (ut_text (ue_urls env) (origin\<lparr>pu_path := stable_manifest_path, pu_query := [], pu_fragment := []\<rparr>)) max_manifest_bytes of
        Inl e \<Rightarrow> Inl (Wrapped ''fetch update manifest'' e)
      | Inr contents \<Rightarrow>
     (case decode_manifest contents of
        Inl e \<Rightarrow> Inl e
      | Inr m \<Rightarrow>
     (case env_verify env m key of
        Some e \<Rightarrow> Inl (Wrapped ''authenticate update manifest'' e)
      | None \<Rightarrow>
     (case compare_versions (ue_semver env) (mf_version m) (kc_version c) of
        Inl e \<Rightarrow> Inl (Wrapped ''compare update versions'' e)
      | Inr comparison \<Rightarrow>
     if comparison \<le> 0 then Inl (Sentinel ErrNoUpdateAvailable)
     else (case check_candidate env c m of
        Some e \<Rightarrow> Inl (Wrapped ''validate update candidate'' e)
      | None \<Rightarrow>
     (case resolve_installer_url (ue_urls env) origin (mf_url m) of
        Inl e \<Rightarrow> Inl e
      | Inr url \<Rightarrow> Inr \<lparr>cd_manifest = m, cd_installer_url = url\<rparr>))))))))"

type_synonym files = "string \<Rightarrow> string option"

definition installer_name :: "string \<Rightarrow> string" where
  "installer_name version = ''AceAgentSetup-windows-amd64-V'' @ version @ ''.exe''"

definition faulty :: "update_env \<Rightarrow> string \<Rightarrow> go_error option" where
  "faulty env l = map_option (Wrapped l) (ue_fault env l)"

definition wrong_size :: "int \<Rightarrow> int \<Rightarrow> go_error" where
  "wrong_size got want = Message (''installer size = '' @ int_text got @ '', want '' @ int_text want)"

text \<open>Writing what arrives beside the installer, checking it, and publishing it under its name.\<close>

definition publish_installer :: "update_env \<Rightarrow> string \<Rightarrow> string \<Rightarrow> string \<Rightarrow> files \<Rightarrow> go_error option \<times> files" where
  "publish_installer env data partial final fs =
     (case faulty env ''sync partial installer'' of
        Some e \<Rightarrow> (Some e, fs)
      | None \<Rightarrow>
     (case faulty env ''close partial installer'' of
        Some e \<Rightarrow> (Some e, fs)
      | None \<Rightarrow>
     (case faulty env ''publish staged installer'' of
        Some e \<Rightarrow> (Some e, fs)
      | None \<Rightarrow> (faulty env ''sync update staging directory'', fs(partial := None, final \<mapsto> data)))))"

definition store_installer ::
    "update_env \<Rightarrow> manifest \<Rightarrow> string \<times> go_error option \<Rightarrow> string \<Rightarrow> string \<Rightarrow> files \<Rightarrow> go_error option \<times> files" where
  "store_installer env m content partial final fs =
     (case faulty env ''create partial installer'' of
        Some e \<Rightarrow> (Some e, fs)
      | None \<Rightarrow>
     (case faulty env ''secure partial installer'' of
        Some e \<Rightarrow> (Some e, fs(partial \<mapsto> []))
      | None \<Rightarrow>
     let limit = nat (mf_size m + 1); data = take limit (fst content); fs2 = fs(partial \<mapsto> data)
     in (case (if length (fst content) < limit then snd content else None) of
        Some e \<Rightarrow> (Some (Wrapped ''write partial installer'' e), fs2)
      | None \<Rightarrow>
     (case faulty env ''write partial installer'' of
        Some e \<Rightarrow> (Some e, fs2)
      | None \<Rightarrow>
     if int (length data) \<noteq> mf_size m then (Some (wrong_size (int (length data)) (mf_size m)), fs2)
     else if hex_encode (ue_sha256 env data) \<noteq> mf_sha256 m then (Some (Message ''installer SHA-256 does not match manifest''), fs2)
     else publish_installer env data partial final fs2))))"

definition download_installer ::
    "update_env \<Rightarrow> parsed_url \<Rightarrow> manifest \<Rightarrow> string \<Rightarrow> string \<Rightarrow> string \<Rightarrow> files \<Rightarrow> go_error option \<times> files" where
  "download_installer env origin m url partial final fs =
     (case faulty env ''create installer request'' of
        Some e \<Rightarrow> (Some e, fs)
      | None \<Rightarrow>
     (case ue_installer env (redirect_allowed (ue_urls env) origin) url of
        Inl e \<Rightarrow> (Some (Wrapped ''download installer'' e), fs)
      | Inr r \<Rightarrow>
     if fe_status r \<noteq> 200 then (Some (Wrapped ''download installer'' (unexpected_status (fe_status r))), fs)
     else if 0 \<le> fe_length r \<and> fe_length r \<noteq> mf_size m then (Some (wrong_size (fe_length r) (mf_size m)), fs)
     else store_installer env m (fe_content r) partial final fs))"

text \<open>The deferred removal, whose own failure is ignored.\<close>

definition discard_partial :: "update_env \<Rightarrow> string \<Rightarrow> files \<Rightarrow> files" where
  "discard_partial env partial fs = (if ue_fault env ''discard partial installer'' = None then fs(partial := None) else fs)"

definition stage_files ::
    "update_env \<Rightarrow> checker \<Rightarrow> parsed_url \<Rightarrow> manifest \<Rightarrow> string \<Rightarrow> files \<Rightarrow> staged_update res \<times> files" where
  "stage_files env c origin m url fs =
     (case faulty env ''create update staging directory'' of
        Some e \<Rightarrow> (Inl e, fs)
      | None \<Rightarrow>
     (case faulty env ''secure update staging directory'' of
        Some e \<Rightarrow> (Inl e, fs)
      | None \<Rightarrow>
     let final = ue_join env (kc_staging_dir c) (installer_name (mf_version m)); partial = final @ ''.partial''
     in (case (if fs partial = None then None else faulty env ''remove previous partial installer'') of
        Some e \<Rightarrow> (Inl e, fs)
      | None \<Rightarrow>
     (case download_installer env origin m url partial final (fs(partial := None)) of
        (Some e, fs1) \<Rightarrow> (Inl e, discard_partial env partial fs1)
      | (None, fs1) \<Rightarrow> (Inr \<lparr>sg_version = mf_version m, sg_installer_path = final, sg_manifest = m\<rparr>, fs1)))))"

definition stage_candidate :: "update_env \<Rightarrow> checker \<Rightarrow> candidate \<Rightarrow> files \<Rightarrow> staged_update res \<times> files" where
  "stage_candidate env c cand fs =
     (case parse_checker_origin (ue_urls env) (kc_origin c) of
        Inl e \<Rightarrow> (Inl e, fs)
      | Inr origin \<Rightarrow>
     (case parse_public_key (kc_public_key c) of
        Inl e \<Rightarrow> (Inl e, fs)
      | Inr key \<Rightarrow>
     (case env_verify env (cd_manifest cand) key of
        Some e \<Rightarrow> (Inl (Wrapped ''authenticate staged manifest'' e), fs)
      | None \<Rightarrow>
     (case check_candidate env c (cd_manifest cand) of
        Some e \<Rightarrow> (Inl (Wrapped ''validate staged candidate'' e), fs)
      | None \<Rightarrow>
     if mf_size (cd_manifest cand) \<le> 0 \<or> max_artifact_bytes < mf_size (cd_manifest cand)
     then (Inl (Message ''installer size is outside the allowed range''), fs)
     else (case resolve_installer_url (ue_urls env) origin (mf_url (cd_manifest cand)) of
        Inl e \<Rightarrow> (Inl e, fs)
      | Inr url \<Rightarrow>
     if cd_installer_url cand \<noteq> url then (Inl (Message ''candidate installer URL does not match its manifest''), fs)
     else if kc_staging_dir c = [] then (Inl (Message ''update staging directory is required''), fs)
     else stage_files env c origin (cd_manifest cand) url fs)))))"

end
