(* ===== verification/UpdateTheorems.thy ===== *)
theory UpdateTheorems
  imports UpdateCheck
begin

text \<open>
  What the staging of a release guarantees: only bytes of the signed size and hash, out of a manifest
  that the embedded key verifies and that is newer, come under the name of an installer.
\<close>

section \<open>Round trip of a result\<close>

lemma read_result: "read_struct True result_fields (write_result r) no_update = Some r"
  by (cases "kr_version r = []"; cases "kr_url r = []"; cases "kr_installer_path r = []")
    (simp_all add: result_fields_def write_result_def field_of_def set_member_def omit_empty_def no_update_def)

lemma result_roundtrip:
  "encode_check_result sem ut fa enc r = Inr b \<Longrightarrow> decode_check_result sem ut fa b = Inr r"
  using read_result [of r]
  by (auto simp: encode_check_result_def decode_check_result_def json_body_def split: option.splits if_splits)

section \<open>Characters of a version\<close>

primrec only :: "(char \<Rightarrow> bool) \<Rightarrow> regex \<Rightarrow> bool" where
  "only P RNone \<longleftrightarrow> True"
| "only P REmpty \<longleftrightarrow> True"
| "only P (RChar p) \<longleftrightarrow> (\<forall>c. p c \<longrightarrow> P c)"
| "only P (RAlt r q) \<longleftrightarrow> only P r \<and> only P q"
| "only P (RSeq r q) \<longleftrightarrow> only P r \<and> only P q"
| "only P (RStar r) \<longleftrightarrow> only P r"

lemma only_star: "s \<in> star_lang L \<Longrightarrow> \<forall>u\<in>L. list_all P u \<Longrightarrow> list_all P s"
  by (induction rule: star_lang.induct) auto

lemma only_language: "only P r \<Longrightarrow> s \<in> language r \<Longrightarrow> list_all P s"
  by (induction r arbitrary: s) (auto intro: only_star)

definition version_char :: "char \<Rightarrow> bool" where
  "version_char c \<longleftrightarrow> alnum c \<or> c = CHR ''.'' \<or> c = CHR ''+''"

lemma version_chars:
  "version_char (CHR ''0'')" "version_char (CHR ''.'')" "version_char (CHR ''-'')" "version_char (CHR ''+'')"
  "is_digit c \<Longrightarrow> version_char c" "is_letter c \<Longrightarrow> version_char c" "alnum c \<Longrightarrow> version_char c"
  by (simp_all add: version_char_def alnum_def is_digit_def byte_def)

lemma only_blocks: "only version_char semver_number" "only version_char semver_pre" "only version_char (rplus (RChar alnum))"
    "only P r \<Longrightarrow> P (CHR ''.'') \<Longrightarrow> only P (dotted r)" "only P r \<Longrightarrow> only P (ropt r)"
    "only version_char (rlit ''.'')" "only version_char (rlit ''-'')" "only version_char (rlit ''+'')"
  by (simp_all add: semver_number_def semver_pre_def rplus_def dotted_def ropt_def version_chars)

lemma semver_chars: "matches strict_semver v \<Longrightarrow> list_all version_char v"
  unfolding matches_iff
  by (rule only_language [of version_char strict_semver])
    (simp_all add: strict_semver_def only_blocks version_chars del: rlit.simps)

section \<open>Downloads\<close>

definition intact :: "update_env \<Rightarrow> manifest \<Rightarrow> string \<Rightarrow> bool" where
  "intact env m data \<longleftrightarrow> int (length data) = mf_size m \<and> hex_encode (ue_sha256 env data) = mf_sha256 m"

text \<open>Only intact bytes come under the final name, and only the two names change.\<close>

definition landed :: "update_env \<Rightarrow> manifest \<Rightarrow> string \<Rightarrow> string \<Rightarrow> files \<Rightarrow> go_error option \<Rightarrow> files \<Rightarrow> bool" where
  "landed env m partial final fs r fs1 \<longleftrightarrow> (\<forall>p. p \<noteq> partial \<longrightarrow> p \<noteq> final \<longrightarrow> fs1 p = fs p) \<and>
     (fs1 final = fs final \<or> (\<exists>data. fs1 final = Some data \<and> intact env m data)) \<and>
     (r = None \<longrightarrow> fs1 partial = None \<and> (\<exists>data. fs1 final = Some data \<and> intact env m data))"

lemma landed_same:
  "Some e = r \<Longrightarrow> landed env m partial final fs r fs" "landed env m partial final fs (Some e) fs"
  "partial \<noteq> final \<Longrightarrow> Some e = r \<Longrightarrow> landed env m partial final fs r (fs(partial := x))"
  "partial \<noteq> final \<Longrightarrow> landed env m partial final fs (Some e) (fs(partial := x))"
  by (auto simp: landed_def)

lemma publish_lands:
  "partial \<noteq> final \<Longrightarrow> intact env m data \<Longrightarrow>
   (case publish_installer env data partial final (fs(partial := x)) of (r, fs1) \<Rightarrow> landed env m partial final fs r fs1)"
  by (auto simp: publish_installer_def landed_def split: option.split)

lemma store_lands:
  assumes "partial \<noteq> final" and "store_installer env m content partial final fs = (r, fs1)"
  shows "landed env m partial final fs r fs1"
proof -
  define data where "data = take (nat (mf_size m + 1)) (fst content)"
  show ?thesis
  proof (cases "intact env m data")
    case True
    with publish_lands [OF assms(1) this, of fs "Some data"] assms show ?thesis
      by (auto simp: store_installer_def Let_def data_def [symmetric] intact_def intro: landed_same split: option.splits if_splits)
  next
    case False
    with assms show ?thesis
      by (auto simp: store_installer_def Let_def data_def [symmetric] intact_def intro: landed_same split: option.splits if_splits)
  qed
qed

lemma download_lands:
  assumes "partial \<noteq> final" and "download_installer env origin m url partial final fs = (r, fs1)"
  shows "landed env m partial final fs r fs1"
proof -
  from assms(2) store_lands [OF assms(1)] show ?thesis
    by (auto simp: download_installer_def intro: landed_same split: option.splits sum.splits if_splits)
qed

section \<open>What is staged\<close>

text \<open>What the updater may install for this Agent.\<close>

definition authentic :: "update_env \<Rightarrow> checker \<Rightarrow> manifest \<Rightarrow> string \<Rightarrow> bool" where
  "authentic env c m data \<longleftrightarrow> intact env m data \<and>
     (\<exists>key. parse_public_key (kc_public_key c) = Inr key \<and> env_verify env m key = None) \<and>
     0 < sem_compare (ue_semver env) (''v'' @ mf_version m) (''v'' @ kc_version c) \<and>
     (\<exists>minimum installed. parse_windows_version (mf_minimum_os m) = Inr minimum \<and>
        parse_windows_version (kc_os c) = Inr installed \<and> minimum \<le> installed) \<and>
     list_all version_char (mf_version m)"

lemma validate_candidate_None:
  assumes "validate_candidate sem ut m v w origin = None"
  shows "matches strict_semver (mf_version m)" "0 < sem_compare sem (''v'' @ mf_version m) (''v'' @ v)"
    "\<exists>minimum installed. parse_windows_version (mf_minimum_os m) = Inr minimum \<and> parse_windows_version w = Inr installed \<and>
       minimum \<le> installed"
  using assms
  by (auto simp: validate_candidate_def compare_versions_def valid_semver_def compare_windows_versions_sign not_less
      split: option.splits sum.splits if_splits)

lemma stage_candidate_cases:
  assumes "stage_candidate env c cand fs = (r, fs1)"
  obtains e where "r = Inl e" "fs1 = fs"
  | key origin where "parse_public_key (kc_public_key c) = Inr key" "env_verify env (cd_manifest cand) key = None"
    "check_candidate env c (cd_manifest cand) = None"
    "stage_files env c origin (cd_manifest cand) (cd_installer_url cand) fs = (r, fs1)"
  using assms by (auto simp: stage_candidate_def split: option.splits sum.splits if_splits)

lemma stage_files_result:
  assumes "stage_files env c origin m url fs = (r, fs1)" and "final = ue_join env (kc_staging_dir c) (installer_name (mf_version m))"
  shows "(\<forall>p. p \<noteq> final @ ''.partial'' \<longrightarrow> p \<noteq> final \<longrightarrow> fs1 p = fs p) \<and>
    (case r of Inr st \<Rightarrow> st = \<lparr>sg_version = mf_version m, sg_installer_path = final, sg_manifest = m\<rparr> \<and>
        (\<exists>data. fs1 final = Some data \<and> fs1 (final @ ''.partial'') = None \<and> intact env m data)
     | Inl e \<Rightarrow> fs1 final = fs final \<or> (\<exists>data. fs1 final = Some data \<and> intact env m data))"
proof -
  let ?partial = "final @ ''.partial''"
  obtain e fs2 where d: "download_installer env origin m url ?partial final (fs(?partial := None)) = (e, fs2)" by fastforce
  note got = download_lands [OF _ d, simplified, unfolded landed_def]
  consider "\<exists>e. r = Inl e" "fs1 = fs" | e' where "e = Some e'" "r = Inl e'" "fs1 = discard_partial env ?partial fs2"
    | "e = None" "r = Inr \<lparr>sg_version = mf_version m, sg_installer_path = final, sg_manifest = m\<rparr>" "fs1 = fs2"
    using assms d by (auto simp: stage_files_def Let_def split: option.splits if_splits)
  then show ?thesis
  proof cases
    case 1
    then show ?thesis by auto
  next
    case 2
    then show ?thesis using got by (auto simp: discard_partial_def)
  next
    case 3
    then show ?thesis using got by auto
  qed
qed

lemma accepted_authentic:
  assumes "parse_public_key (kc_public_key c) = Inr key" and "env_verify env m key = None" and "check_candidate env c m = None"
    and "intact env m data"
  shows "authentic env c m data"
proof -
  have cand: "validate_candidate (ue_semver env) (ue_urls env) m (kc_version c) (kc_os c) (kc_origin c) = None"
    using assms(3) by (simp add: check_candidate_def)
  show ?thesis
    using assms(1,2,4) validate_candidate_None [OF cand] semver_chars unfolding authentic_def by blast
qed

text \<open>An installer that the updater stages is the signed one: under the name of the installer there is afterwards
what was there before or bytes with the size and the SHA-256 of a manifest that verifies under the
embedded key, is newer than the installed version and fits the installed Windows; a success always
means the latter; the name carries a version of harmless characters, and no other file but the partial
one has changed, whatever the network delivers and whichever file operation fails.\<close>

theorem staged_installer_authentic:
  assumes "stage_candidate env c cand fs = (r, fs1)"
    and "final = ue_join env (kc_staging_dir c) (installer_name (mf_version (cd_manifest cand)))"
  shows "(\<forall>p. p \<noteq> final @ ''.partial'' \<longrightarrow> p \<noteq> final \<longrightarrow> fs1 p = fs p) \<and>
    (fs1 final = fs final \<or> (\<exists>data. fs1 final = Some data \<and> authentic env c (cd_manifest cand) data)) \<and>
    (\<forall>st. r = Inr st \<longrightarrow> sg_installer_path st = final \<and> sg_version st = mf_version (cd_manifest cand) \<and>
       (\<exists>data. fs1 final = Some data \<and> authentic env c (cd_manifest cand) data))"
  using assms(1)
proof (cases rule: stage_candidate_cases)
  case (1 e)
  then show ?thesis by simp
next
  case (2 key origin)
  let ?m = "cd_manifest cand"
  have auth: "authentic env c ?m data" if "intact env ?m data" for data
    by (rule accepted_authentic [OF 2(1-3) that])
  from stage_files_result [OF 2(4) assms(2)] show ?thesis
    using auth by (cases r) auto
qed

section \<open>A release that is staged\<close>

definition demo_document :: json where
  "demo_document = JObj
     [(''schema'', JInt 1), (''channel'', JStr ''stable''), (''version'', JStr ''1.0.1''), (''published_at'', JTime second),
      (''minimum_os'', JStr ''10.0.1''), (''url'', JStr ''/a.exe''), (''size'', JInt 3), (''sha256'', JStr (replicate 64 (CHR ''0''))),
      (''signature'', JStr (std_encode (replicate 64 (CHR ''s''))))]"

definition demo_update :: update_env where
  "demo_update = \<lparr>ue_semver = demo_semver, ue_urls = demo_urls, ue_encoder = (\<lambda>j. Some ''payload''), ue_ed25519 = demo_ed25519,
     ue_sha256 = (\<lambda>s. replicate 32 (CHR 0x00)),
     ue_manifest = (\<lambda>allowed url. Inr \<lparr>fe_final = url, fe_status = 200, fe_length = 10, fe_content = json_body 10 demo_document\<rparr>),
     ue_installer = (\<lambda>allowed url. Inr \<lparr>fe_final = url, fe_status = 200, fe_length = 3, fe_content = (''abc'', None)\<rparr>),
     ue_join = (\<lambda>d f. d @ ''/'' @ f), ue_fault = (\<lambda>l. None)\<rparr>"

definition demo_checker :: checker where
  "demo_checker = \<lparr>kc_origin = ''https://ace'', kc_version = ''1.0.0'', kc_os = ''10.0.1'',
     kc_public_key = std_encode (replicate 32 (CHR ''k'')), kc_staging_dir = ''/s''\<rparr>"

definition demo_candidate :: candidate where
  "demo_candidate = \<lparr>cd_manifest = demo_manifest\<lparr>mf_signature := std_encode (replicate 64 (CHR ''s''))\<rparr>,
     cd_installer_url = ''https://ace/a.exe''\<rparr>"

lemmas demo_parts = demo_update_def demo_checker_def demo_candidate_def

lemma demo_key: "parse_public_key (kc_public_key demo_checker) = Inr (replicate 32 (CHR ''k''))"
proof -
  have "std_encode (replicate 32 (CHR ''k'')) \<noteq> []" using std_roundtrip [of "replicate 32 (CHR ''k'')"] by (auto simp: std_decode_def Let_def base64_decode_def)
  moreover have "\<not> contains_any (std_encode (replicate 32 (CHR ''k''))) white"
    using std_encode_chars by (auto simp: contains_any_def list_ex_iff)
  ultimately show ?thesis by (simp add: demo_checker_def parse_public_key_def decode_exact_encode)
qed

lemma demo_authentic: "env_verify demo_update (cd_manifest demo_candidate) (replicate 32 (CHR ''k'')) = None"
proof -
  have "canonical_payload demo_semver demo_urls (\<lambda>j. Some ''payload'') demo_manifest = Inr ''payload''"
    by (simp add: canonical_payload_def demo_manifest_valid)
  then have "verify_manifest demo_semver demo_urls (\<lambda>j. Some ''payload'') demo_ed25519
      (demo_manifest\<lparr>mf_signature := std_encode (replicate 64 (CHR ''s''))\<rparr>) (replicate 32 (CHR ''k'')) = None"
    unfolding verify_manifest_None by (intro conjI exI [of _ "''payload''"] exI [of _ "replicate 64 (CHR ''s'')"])
      (simp_all add: demo_ed25519_def)
  then show ?thesis by (simp add: env_verify_def demo_parts)
qed

lemma demo_fitting: "check_candidate demo_update demo_checker (cd_manifest demo_candidate) = None"
proof -
  have c: "compare_versions demo_semver ''1.0.1'' ''1.0.0'' = Inr 1"
    using demo_versions by (simp add: compare_versions_def valid_semver_def demo_semver_def)
  have u: "parse_origin demo_urls ''https://ace'' = Inr demo_origin"
    by (simp add: parse_origin_def demo_urls_def demo_origin_def demo_url_def is_abs_def http_scheme_def bare_url_def)
  have a: "validate_artifact_url demo_urls ''/a.exe'' (Some demo_origin) = None"
    by (simp add: validate_artifact_url_def demo_urls_def demo_url_def is_abs_def bare_url_def has_prefix_def)
  show ?thesis
    using c u a by (simp add: check_candidate_def validate_candidate_def demo_parts demo_manifest_valid unsigned_fields) (simp add: demo_manifest_def demo_system compare_windows_versions_sign demo_semver_def)
qed

lemma demo_origin_parsed: "parse_checker_origin demo_urls ''https://ace'' = Inr demo_origin"
  by (simp add: parse_checker_origin_def parse_origin_def demo_urls_def demo_origin_def demo_url_def is_abs_def http_scheme_def bare_url_def)

lemma demo_installer_url: "resolve_installer_url demo_urls demo_origin ''/a.exe'' = Inr ''https://ace/a.exe''"
  by (simp add: resolve_installer_url_def demo_urls_def demo_origin_def demo_url_def Let_def checker_origin_identity_def http_scheme_def)

lemma demo_sel:
  "kc_origin demo_checker = ''https://ace''" "ue_urls demo_update = demo_urls" "kc_staging_dir demo_checker = ''/s''"
  "cd_installer_url demo_candidate = ''https://ace/a.exe''" "mf_size (cd_manifest demo_candidate) = 3"
  "mf_url (cd_manifest demo_candidate) = ''/a.exe''" "mf_sha256 (cd_manifest demo_candidate) = replicate 64 (CHR ''0'')"
  "faulty demo_update l = None" "ue_sha256 demo_update s = replicate 32 (CHR 0x00)" "mf_version (cd_manifest demo_candidate) = ''1.0.1''"
  "ue_installer demo_update w x = Inr \<lparr>fe_final = x, fe_status = 200, fe_length = 3, fe_content = (''abc'', None)\<rparr>"
  "ue_manifest demo_update w x = Inr \<lparr>fe_final = x, fe_status = 200, fe_length = 10, fe_content = json_body 10 demo_document\<rparr>"
  "ue_semver demo_update = demo_semver" "kc_version demo_checker = ''1.0.0''"
  by (simp_all add: demo_parts demo_manifest_def faulty_def)

lemma demo_hash: "hex_encode (replicate 32 (CHR 0x00)) = replicate 64 (CHR ''0'')"
proof -
  have zero: "(char_of (48::nat)) = CHR ''0''" by code_simp
  have "hex_encode (replicate n (CHR 0x00)) = replicate (2 * n) (CHR ''0'')" for n
    by (induction n) (simp_all add: hex_encode_def hex_digit_def byte_def zero)
  from this [of 32] show ?thesis by simp
qed

lemma demo_stages:
  "\<exists>fs1. stage_candidate demo_update demo_checker demo_candidate (\<lambda>p. None) =
     (Inr \<lparr>sg_version = ''1.0.1'', sg_installer_path = ue_join demo_update ''/s'' (installer_name ''1.0.1''),
        sg_manifest = cd_manifest demo_candidate\<rparr>, fs1)"
  using demo_key demo_authentic demo_fitting demo_origin_parsed demo_installer_url
  by (simp add: stage_candidate_def stage_files_def download_installer_def store_installer_def publish_installer_def demo_sel Let_def demo_hash)

theorem staged_installer_authentic_witness:
  "\<exists>st fs1. stage_candidate demo_update demo_checker demo_candidate (\<lambda>p. None) = (Inr st, fs1) \<and> fs1 (sg_installer_path st) \<noteq> None"
proof -
  obtain st fs1 where st: "stage_candidate demo_update demo_checker demo_candidate (\<lambda>p. None) = (Inr st, fs1)"
    using demo_stages by blast
  from staged_installer_authentic [OF st refl] st show ?thesis by auto
qed

lemma demo_checks: "check_release demo_update demo_checker = Inr demo_candidate"
proof -
  have "read_struct True manifest_fields demo_document zero_manifest = Some (cd_manifest demo_candidate)"
    by (simp add: demo_document_def manifest_fields_def zero_manifest_def set_member_def field_of_def read_published_def int64_def
        demo_candidate_def demo_manifest_def)
  then have d: "decode_manifest (json_body 10 demo_document) = Inr (cd_manifest demo_candidate)"
    by (simp add: decode_manifest_def json_body_def)
  have f: "fetch_bounded demo_update origin target max_manifest_bytes = Inr (json_body 10 demo_document)" for origin target
    by (simp add: fetch_bounded_def demo_sel) (simp add: json_body_def)
  have c: "compare_versions demo_semver ''1.0.1'' ''1.0.0'' = Inr 1"
    using demo_versions by (simp add: compare_versions_def valid_semver_def demo_semver_def)
  show ?thesis
    using d c demo_key demo_authentic demo_fitting demo_origin_parsed demo_installer_url
    by (simp add: check_release_def demo_sel f)
qed

end
