(* ===== verification/UpdateHelper.thy ===== *)
theory UpdateHelper
  imports UpdateCheck
begin

text \<open>
  The helper that installs a staged update, \<^verbatim>\<open>agent/internal/update/helper.go\<close>: it stops the Service and
  the tray, keeps the installed Agent, runs the installer, and goes back to the kept Agent when the
  new one cannot be configured, started or found healthy.  The interface \<^verbatim>\<open>HelperOperations\<close> is the
  record \<open>helper_ops\<close> over an abstract state; the locale \<open>update_machine\<close> holds what its operations
  promise about the two executables and what the helper achieves with them.
\<close>

section \<open>Errors\<close>

text \<open>\<^verbatim>\<open>errors.Join\<close> and \<^verbatim>\<open>wrapOptional\<close>.\<close>

definition join_errors :: "go_error option list \<Rightarrow> go_error option" where
  "join_errors es = (let present = concat (map (\<lambda>e. case e of None \<Rightarrow> [] | Some x \<Rightarrow> [x]) es)
     in if present = [] then None else Some (Joined present))"

definition wrap_optional :: "string \<Rightarrow> go_error option \<Rightarrow> go_error option" where
  "wrap_optional operation = map_option (Wrapped operation)"

text \<open>That an error carries a step that failed.\<close>

fun names :: "string \<Rightarrow> go_error \<Rightarrow> bool" where
  "names l (Wrapped p e) \<longleftrightarrow> p = l \<or> names l e"
| "names l (Joined es) \<longleftrightarrow> list_ex (names l) es"
| "names l e \<longleftrightarrow> False"

lemma join_names: "join_errors es = Some e \<Longrightarrow> Some x \<in> set es \<Longrightarrow> names l x \<Longrightarrow> names l e"
  by (auto simp: join_errors_def Let_def list_ex_iff split: if_splits intro!: bexI [of _ "Some x"])

lemma join_None: "join_errors es = None \<longleftrightarrow> (\<forall>e\<in>set es. e = None)"
  by (auto simp: join_errors_def Let_def split: option.splits)

lemma wrap_optional_simps [simp]:
  "wrap_optional l None = None" "wrap_optional l (Some e) = Some (Wrapped l e)"
  by (simp_all add: wrap_optional_def)

section \<open>The operations\<close>

abbreviation maximum_health_timeout :: duration where "maximum_health_timeout \<equiv> 60 * second"
abbreviation maximum_installer_timeout :: duration where "maximum_installer_timeout \<equiv> 10 * minute"
abbreviation default_restore_timeout :: duration where "default_restore_timeout \<equiv> 5 * second"
abbreviation default_restore_interval :: duration where "default_restore_interval \<equiv> 250000000"

definition silent_installer_arguments :: "string list" where
  "silent_installer_arguments =
     [''/VERYSILENT'', ''/SUPPRESSMSGBOXES'', ''/NORESTART'', ''/FORCECLOSEAPPLICATIONS'', ''/UPDATEHELPER'']"

text \<open>
  \<^verbatim>\<open>HelperOperations\<close> and, where they are there, \<^verbatim>\<open>trayLifecycleOperations\<close>.  The context is part of the
  state: \<open>ho_cancelled\<close> is \<^verbatim>\<open>ctx.Err()\<close>, and \<open>ho_ticks\<close> is how often a timer of the second duration fires
  before a deadline at the first.
\<close>

type_synonym 'w op = "'w \<Rightarrow> go_error option \<times> 'w"

record 'w tray_ops =
  ty_stop :: "'w \<Rightarrow> (bool \<times> go_error option) \<times> 'w"
  ty_start :: "string \<Rightarrow> 'w op"

record 'w helper_ops =
  ho_stop_service :: "'w op"
  ho_tray :: "'w tray_ops option"
  ho_backup :: "string \<Rightarrow> string \<Rightarrow> 'w op"
  ho_run_installer :: "duration \<Rightarrow> string \<Rightarrow> string list \<Rightarrow> 'w op"
  ho_start_service :: "'w op"
  ho_wait_healthy :: "duration \<Rightarrow> 'w op"
  ho_restore :: "string \<Rightarrow> string \<Rightarrow> 'w op"
  ho_configure :: "string \<Rightarrow> 'w op"
  ho_cleanup :: "string list \<Rightarrow> 'w op"
  ho_warn :: "string \<Rightarrow> go_error \<Rightarrow> 'w \<Rightarrow> 'w"
  ho_cancelled :: "'w \<Rightarrow> go_error option"
  ho_ticks :: "duration \<Rightarrow> duration \<Rightarrow> 'w \<Rightarrow> nat"

record helper_options =
  hp_installer :: string
  hp_executable :: string
  hp_backup :: string
  hp_staging :: string
  hp_version :: string
  hp_installer_timeout :: duration
  hp_health_timeout :: duration
  hp_restore_timeout :: duration
  hp_restore_interval :: duration

definition bounded_by :: "duration \<Rightarrow> duration \<Rightarrow> duration" where
  "bounded_by maximum t = (if t \<le> 0 \<or> maximum < t then maximum else t)"

definition health_timeout :: "helper_options \<Rightarrow> duration" where
  "health_timeout opts = bounded_by maximum_health_timeout (hp_health_timeout opts)"

definition installer_timeout :: "helper_options \<Rightarrow> duration" where
  "installer_timeout opts = bounded_by maximum_installer_timeout (hp_installer_timeout opts)"

definition validate_helper_options :: "(string \<Rightarrow> bool) \<Rightarrow> (string \<Rightarrow> string) \<Rightarrow> helper_options \<Rightarrow> go_error option" where
  "validate_helper_options is_absolute clean opts =
     (if hp_installer opts = [] \<or> hp_executable opts = [] \<or> hp_backup opts = [] \<or> hp_staging opts = [] \<or> hp_version opts = []
      then Some (Message ''update helper requires installer, executable, backup, staging directory, and version'')
      else if \<not> is_absolute (hp_installer opts) \<or> \<not> is_absolute (hp_executable opts) \<or> \<not> is_absolute (hp_backup opts) \<or>
        \<not> is_absolute (hp_staging opts)
      then Some (Message ''update helper paths must be absolute'')
      else if \<not> distinct [clean (hp_installer opts), clean (hp_executable opts), clean (hp_backup opts)]
      then Some (Message ''update helper paths must be distinct'') else None)"

section \<open>Going back\<close>

text \<open>\<^verbatim>\<open>restoreLastKnownGood\<close>; the number is how often the timer still fires before the deadline.\<close>

primrec restore_loop :: "'w helper_ops \<Rightarrow> helper_options \<Rightarrow> nat \<Rightarrow> 'w op" where
  "restore_loop ops opts 0 w =
     (case ho_restore ops (hp_backup opts) (hp_executable opts) w of
        (None, w1) \<Rightarrow> (None, w1)
      | (Some e, w1) \<Rightarrow> (case ho_cancelled ops w1 of Some c \<Rightarrow> (Some (Joined [e, c]), w1) | None \<Rightarrow> (Some e, w1)))"
| "restore_loop ops opts (Suc n) w =
     (case ho_restore ops (hp_backup opts) (hp_executable opts) w of
        (None, w1) \<Rightarrow> (None, w1)
      | (Some e, w1) \<Rightarrow> restore_loop ops opts n w1)"

definition restore_last_known_good :: "'w helper_ops \<Rightarrow> helper_options \<Rightarrow> 'w op" where
  "restore_last_known_good ops opts w =
     (let timeout = (if hp_restore_timeout opts \<le> 0 then default_restore_timeout else hp_restore_timeout opts);
          interval = (if hp_restore_interval opts \<le> 0 then default_restore_interval else hp_restore_interval opts)
      in restore_loop ops opts (ho_ticks ops timeout interval w) w)"

definition rollback_helper :: "'w helper_ops \<Rightarrow> helper_options \<Rightarrow> go_error \<Rightarrow> 'w op" where
  "rollback_helper ops opts update_error w =
     (case ho_stop_service ops w of
        (Some e, w1) \<Rightarrow> (join_errors [Some update_error, wrap_optional ''stop failed updated Agent Service'' (Some e)], w1)
      | (None, w1) \<Rightarrow>
     (case restore_last_known_good ops opts w1 of (restored, w2) \<Rightarrow>
     (case ho_configure ops (hp_executable opts) w2 of
        (Some e, w3) \<Rightarrow> (join_errors [Some update_error, wrap_optional ''restore last-known-good Agent'' restored,
            wrap_optional ''reapply last-known-good Agent Service configuration'' (Some e)], w3)
      | (None, w3) \<Rightarrow>
     (case ho_start_service ops w3 of
        (Some e, w4) \<Rightarrow> (join_errors [Some update_error, wrap_optional ''restore last-known-good Agent'' restored,
            wrap_optional ''restart last-known-good Agent Service'' (Some e)], w4)
      | (None, w4) \<Rightarrow>
     (case ho_wait_healthy ops (health_timeout opts) w4 of (unhealthy, w5) \<Rightarrow>
        (join_errors [Some update_error, wrap_optional ''restore last-known-good Agent'' restored,
            wrap_optional ''validate last-known-good Agent health'' unhealthy], w5))))))"

section \<open>The update\<close>

text \<open>
  The Service is started again with the Agent it had, the tray behind the update whatever became of
  it.
\<close>

definition restart_unchanged :: "'w helper_ops \<Rightarrow> go_error \<Rightarrow> 'w op" where
  "restart_unchanged ops e w =
     (case ho_start_service ops w of (s, w1) \<Rightarrow> (join_errors [Some e, wrap_optional ''restart unchanged Agent Service'' s], w1))"

definition report_cleanup_warning :: "'w helper_ops \<Rightarrow> helper_options \<Rightarrow> string \<Rightarrow> 'w op \<Rightarrow> 'w \<Rightarrow> 'w" where
  "report_cleanup_warning ops opts l attempt w =
     (case attempt w of (None, w1) \<Rightarrow> w1 | (Some e, w1) \<Rightarrow> ho_warn ops (hp_staging opts) (Wrapped l e) w1)"

text \<open>\<open>ctx.Err()\<close> does not stop the installation any more: from the backup on, only the operations look at it.\<close>

definition install_update :: "'w helper_ops \<Rightarrow> helper_options \<Rightarrow> 'w op" where
  "install_update ops opts w =
     (case ho_backup ops (hp_executable opts) (hp_backup opts) w of
        (Some e, w1) \<Rightarrow> restart_unchanged ops (Wrapped ''store last-known-good Agent'' e) w1
      | (None, w1) \<Rightarrow>
     (case ho_run_installer ops (installer_timeout opts) (hp_installer opts)
         silent_installer_arguments w1 of
        (Some e, w2) \<Rightarrow> rollback_helper ops opts (Wrapped ''run silent installer'' e) w2
      | (None, w2) \<Rightarrow>
     (case ho_configure ops (hp_executable opts) w2 of
        (Some e, w3) \<Rightarrow> rollback_helper ops opts (Wrapped ''configure updated Agent Service'' e) w3
      | (None, w3) \<Rightarrow>
     (case ho_start_service ops w3 of
        (Some e, w4) \<Rightarrow> rollback_helper ops opts (Wrapped ''start updated Agent Service'' e) w4
      | (None, w4) \<Rightarrow>
     (case ho_wait_healthy ops (health_timeout opts) w4 of
        (Some e, w5) \<Rightarrow> rollback_helper ops opts (Wrapped ''validate updated Agent health'' e) w5
      | (None, w5) \<Rightarrow> (None, report_cleanup_warning ops opts ''clean successful update files''
          (ho_cleanup ops [hp_installer opts, hp_backup opts]) w5))))))"

definition helper_update :: "'w helper_ops \<Rightarrow> helper_options \<Rightarrow> 'w op" where
  "helper_update ops opts w =
     (case ho_stop_service ops w of
        (Some e, w1) \<Rightarrow> restart_unchanged ops (Wrapped ''stop Agent Service'' e) w1
      | (None, w1) \<Rightarrow>
     (case ho_tray ops of
        None \<Rightarrow> install_update ops opts w1
      | Some tray \<Rightarrow>
     (case ty_stop tray w1 of
        ((running, Some e), w2) \<Rightarrow> restart_unchanged ops (Wrapped ''stop Agent tray'' e) w2
      | ((running, None), w2) \<Rightarrow>
     (case install_update ops opts w2 of (r, w3) \<Rightarrow>
        (r, if running then report_cleanup_warning ops opts ''restart Agent tray'' (ty_start tray (hp_executable opts)) w3 else w3)))))"

section \<open>Lock and identity\<close>

record 'w helper_runtime =
  hr_validate :: "string \<Rightarrow> 'w op"
  hr_acquire :: "'w op"
  hr_release :: "'w op"

text \<open>
  \<^verbatim>\<open>RunHelper\<close>.  A runtime or operations that are missing stand for a platform without an updater.
\<close>

definition run_helper ::
    "(string \<Rightarrow> bool) \<Rightarrow> (string \<Rightarrow> string) \<Rightarrow> 'w helper_runtime option \<Rightarrow> 'w helper_ops option \<Rightarrow> helper_options \<Rightarrow>
     ('w \<Rightarrow> go_error option) \<Rightarrow> 'w op" where
  "run_helper is_absolute clean runtime ops opts cancelled w =
     (case validate_helper_options is_absolute clean opts of
        Some e \<Rightarrow> (Some e, w)
      | None \<Rightarrow>
     (case runtime of
        None \<Rightarrow> (Some (Message ''update helper runtime is unavailable on this platform''), w)
      | Some rt \<Rightarrow>
     (case hr_validate rt (hp_executable opts) w of
        (Some e, w1) \<Rightarrow> (Some (Wrapped ''validate running updater'' e), w1)
      | (None, w1) \<Rightarrow>
     (case hr_acquire rt w1 of
        (Some e, w2) \<Rightarrow> (Some (Wrapped ''acquire update helper execution lock'' e), w2)
      | (None, w2) \<Rightarrow>
     (case (case ops of
              None \<Rightarrow> (Some (Message ''update helper is unavailable on this platform''), w2)
            | Some ho \<Rightarrow> (case cancelled w2 of Some e \<Rightarrow> (Some e, w2) | None \<Rightarrow> helper_update ho opts w2)) of (r, w3) \<Rightarrow>
     (case hr_release rt w3 of
        (Some e, w4) \<Rightarrow> (join_errors [r, Some (Wrapped ''release update helper execution lock'' e)], w4)
      | (None, w4) \<Rightarrow> (r, w4)))))))"

text \<open>\<^verbatim>\<open>waitForHealthy\<close>: what each attempt finds before the deadline.  The first attempt is made in any case.\<close>

fun poll_health :: "(bool \<times> go_error option) list \<Rightarrow> go_error option \<Rightarrow> go_error option \<Rightarrow> go_error option" where
  "poll_health [] cancelled last_error =
     (case cancelled of
        Some e \<Rightarrow> Some e
      | None \<Rightarrow>
        (case last_error of
           Some e \<Rightarrow> Some (Wrapped ''Agent pipe did not report healthy before timeout'' e)
         | None \<Rightarrow> Some (Message ''Agent pipe did not report healthy before timeout'')))"
| "poll_health ((well, e) # attempts) cancelled last_error =
     (if well then None else poll_health attempts cancelled (case e of None \<Rightarrow> last_error | Some x \<Rightarrow> Some x))"

definition wait_for_healthy ::
    "duration \<Rightarrow> duration \<Rightarrow> (bool \<times> go_error option) list option \<Rightarrow> go_error option \<Rightarrow> go_error option" where
  "wait_for_healthy timeout interval attempts cancelled =
     (if timeout \<le> 0 \<or> interval \<le> 0 then Some (Message ''health wait requires positive durations and an attempt function'')
      else case attempts of
          None \<Rightarrow> Some (Message ''health wait requires positive durations and an attempt function'')
        | Some found \<Rightarrow> poll_health found cancelled None)"

lemma poll_health_None: "poll_health found cancelled last_error = None \<longleftrightarrow> (\<exists>a\<in>set found. fst a)"
  by (induction found cancelled last_error rule: poll_health.induct) (auto split: option.splits)

text \<open>\<^verbatim>\<open>acquireExecutionObjectLock\<close>: the handle that \<open>Create\<close> returns, 0 for none, with its error.\<close>

record 'w lock_ops =
  lo_create :: "'w \<Rightarrow> (nat \<times> go_error option) \<times> 'w"
  lo_close :: "nat \<Rightarrow> 'w op"
  lo_exists :: "go_error \<Rightarrow> bool"

definition acquire_lock :: "'w lock_ops \<Rightarrow> 'w \<Rightarrow> nat res \<times> 'w" where
  "acquire_lock lk w =
     (case lo_create lk w of
        ((handle, Some e), w1) \<Rightarrow>
          (let w2 = (if handle \<noteq> 0 then snd (lo_close lk handle w1) else w1)
           in if lo_exists lk e then (Inl (Joined [Message ''another update helper is already running'', e]), w2)
              else (Inl (Wrapped ''create update helper mutex'' e), w2))
      | ((handle, None), w1) \<Rightarrow> (Inr handle, w1))"

text \<open>The release of the lock, which closes the handle once: what it returned is kept.\<close>

definition release_lock :: "'w lock_ops \<Rightarrow> nat \<Rightarrow> go_error option option \<times> 'w \<Rightarrow> go_error option \<times> go_error option option \<times> 'w" where
  "release_lock lk handle s =
     (case fst s of
        Some r \<Rightarrow> (r, s)
      | None \<Rightarrow> (case lo_close lk handle (snd s) of (r, w1) \<Rightarrow> (r, Some r, w1)))"

text \<open>\<^verbatim>\<open>validateUpdaterIdentity\<close>.\<close>

record identity_ops =
  io_running :: "string res"
  io_final :: "string \<Rightarrow> string res"
  io_same_file :: "string \<Rightarrow> string \<Rightarrow> bool res"

definition fixed_updater_name :: string where
  "fixed_updater_name = ''AceAgentUpdater.exe''"

definition validate_updater_identity ::
    "(string \<Rightarrow> string) \<Rightarrow> (string \<Rightarrow> string) \<Rightarrow> (string \<Rightarrow> string \<Rightarrow> string) \<Rightarrow> (string \<Rightarrow> string \<Rightarrow> bool) \<Rightarrow> identity_ops option \<Rightarrow> string \<Rightarrow>
     go_error option" where
  "validate_updater_identity clean directory path_join equal_fold operations installed =
     (case operations of
        None \<Rightarrow> Some (Message ''updater identity operations are required'')
      | Some ids \<Rightarrow>
     (case io_running ids of
        Inl e \<Rightarrow> Some (Wrapped ''locate running updater executable'' e)
      | Inr running \<Rightarrow>
     (case io_final ids running of
        Inl e \<Rightarrow> Some (Wrapped ''resolve running updater path'' e)
      | Inr running_final \<Rightarrow>
     (case io_final ids installed of
        Inl e \<Rightarrow> Some (Wrapped ''resolve installed Agent path'' e)
      | Inr installed_final \<Rightarrow>
     (case io_final ids (path_join (directory installed) fixed_updater_name) of
        Inl e \<Rightarrow> Some (Wrapped ''resolve fixed updater path'' e)
      | Inr expected_final \<Rightarrow>
     if \<not> equal_fold (clean running_final) (clean expected_final)
     then Some (Message ''running executable is not the fixed Agent updater'')
     else (case io_same_file ids running_final installed_final of
        Inl e \<Rightarrow> Some (Wrapped ''compare updater and installed Agent identity'' e)
      | Inr same \<Rightarrow>
        if same then Some (Message ''fixed updater cannot be a hardlink to the installed Agent'') else None))))))"

section \<open>The protocol of an update\<close>

datatype helper_event = Stop | StopTray | Backup | Install | Configure | Start | Healthy | Restore | Cleanup | StartTray

text \<open>The operation behind an event, with the arguments the helper gives it.\<close>

definition perform :: "'w helper_ops \<Rightarrow> helper_options \<Rightarrow> helper_event \<Rightarrow> 'w op" where
  "perform ops opts ev =
     (case ev of
        Stop \<Rightarrow> ho_stop_service ops
      | StopTray \<Rightarrow> (case ho_tray ops of None \<Rightarrow> Pair None | Some tray \<Rightarrow> (\<lambda>w. (snd (fst (ty_stop tray w)), snd (ty_stop tray w))))
      | Backup \<Rightarrow> ho_backup ops (hp_executable opts) (hp_backup opts)
      | Install \<Rightarrow> ho_run_installer ops (installer_timeout opts) (hp_installer opts)
          silent_installer_arguments
      | Configure \<Rightarrow> ho_configure ops (hp_executable opts)
      | Start \<Rightarrow> ho_start_service ops
      | Healthy \<Rightarrow> ho_wait_healthy ops (health_timeout opts)
      | Restore \<Rightarrow> ho_restore ops (hp_backup opts) (hp_executable opts)
      | Cleanup \<Rightarrow> ho_cleanup ops [hp_installer opts, hp_backup opts]
      | StartTray \<Rightarrow> (case ho_tray ops of None \<Rightarrow> Pair None | Some tray \<Rightarrow> ty_start tray (hp_executable opts)))"

lemma perform_simps:
  "perform ops opts Stop = ho_stop_service ops" "perform ops opts Start = ho_start_service ops"
  "perform ops opts Backup = ho_backup ops (hp_executable opts) (hp_backup opts)"
  "perform ops opts Install = ho_run_installer ops (installer_timeout opts)
     (hp_installer opts) silent_installer_arguments"
  "perform ops opts Configure = ho_configure ops (hp_executable opts)"
  "perform ops opts Healthy = ho_wait_healthy ops (health_timeout opts)"
  "perform ops opts Restore = ho_restore ops (hp_backup opts) (hp_executable opts)"
  "perform ops opts Cleanup = ho_cleanup ops [hp_installer opts, hp_backup opts]"
  by (simp_all add: perform_def)

text \<open>
  The states of an update, and what each operation leads to by its success.  \<open>Aborting\<close>: nothing was
  changed, the Service is started again.  \<open>Rejected\<close>: the new Agent is not taken over.  \<open>Recovered\<close> and the states
  before it carry whether the kept Agent came back.
\<close>

datatype phase =
    Fresh | Halted | Quiet | Aborting | Unchanged | Backed | Installed | Configured | Started | Committed | Cleaned
  | Rejected | Reverting | Retrying | Reverted | Reconfigured bool | Restarted bool | Recovered bool | Abandoned

definition on :: "helper_event \<Rightarrow> phase \<Rightarrow> phase \<Rightarrow> helper_event \<times> bool \<Rightarrow> phase option" where
  "on ev good bad x = (if fst x = ev then Some (if snd x then good else bad) else None)"

definition advance :: "phase \<Rightarrow> helper_event \<times> bool \<Rightarrow> phase option" where
  "advance ph x =
     (case ph of
        Fresh \<Rightarrow> on Stop Halted Aborting x
      | Halted \<Rightarrow> if fst x = StopTray then on StopTray Quiet Aborting x else on Backup Backed Aborting x
      | Quiet \<Rightarrow> on Backup Backed Aborting x
      | Aborting \<Rightarrow> on Start Unchanged Unchanged x
      | Backed \<Rightarrow> on Install Installed Rejected x
      | Installed \<Rightarrow> on Configure Configured Rejected x
      | Configured \<Rightarrow> on Start Started Rejected x
      | Started \<Rightarrow> on Healthy Committed Rejected x
      | Committed \<Rightarrow> on Cleanup Cleaned Cleaned x
      | Rejected \<Rightarrow> on Stop Reverting Abandoned x
      | Reverting \<Rightarrow> on Restore Reverted Retrying x
      | Retrying \<Rightarrow> if fst x = Restore then on Restore Reverted Retrying x else on Configure (Reconfigured False) Abandoned x
      | Reverted \<Rightarrow> on Configure (Reconfigured True) Abandoned x
      | Reconfigured back \<Rightarrow> on Start (Restarted back) Abandoned x
      | Restarted back \<Rightarrow> on Healthy (Recovered back) (Recovered back) x
      | Unchanged \<Rightarrow> on StartTray Unchanged Unchanged x
      | Cleaned \<Rightarrow> on StartTray Cleaned Cleaned x
      | Abandoned \<Rightarrow> on StartTray Abandoned Abandoned x
      | Recovered back \<Rightarrow> on StartTray (Recovered back) (Recovered back) x)"

lemma on_simps [simp]: "on ev good bad (ev, b) = Some (if b then good else bad)"
  by (simp add: on_def)

lemma advance_simps [simp]:
  "advance Fresh x = on Stop Halted Aborting x"
  "advance Halted x = (if fst x = StopTray then on StopTray Quiet Aborting x else on Backup Backed Aborting x)"
  "advance Quiet x = on Backup Backed Aborting x"
  "advance Aborting x = on Start Unchanged Unchanged x"
  "advance Backed x = on Install Installed Rejected x"
  "advance Installed x = on Configure Configured Rejected x"
  "advance Configured x = on Start Started Rejected x"
  "advance Started x = on Healthy Committed Rejected x"
  "advance Committed x = on Cleanup Cleaned Cleaned x"
  "advance Rejected x = on Stop Reverting Abandoned x"
  "advance Reverting x = on Restore Reverted Retrying x"
  "advance Retrying x = (if fst x = Restore then on Restore Reverted Retrying x else on Configure (Reconfigured False) Abandoned x)"
  "advance Reverted x = on Configure (Reconfigured True) Abandoned x"
  "advance (Reconfigured back) x = on Start (Restarted back) Abandoned x"
  "advance (Restarted back) x = on Healthy (Recovered back) (Recovered back) x"
  "advance Unchanged x = on StartTray Unchanged Unchanged x"
  "advance Cleaned x = on StartTray Cleaned Cleaned x"
  "advance Abandoned x = on StartTray Abandoned Abandoned x"
  "advance (Recovered back) x = on StartTray (Recovered back) (Recovered back) x"
  by (simp_all add: advance_def)

primrec run_phases :: "phase \<Rightarrow> (helper_event \<times> bool) list \<Rightarrow> phase option" where
  "run_phases ph [] = Some ph"
| "run_phases ph (ev # evs) = (case advance ph ev of None \<Rightarrow> None | Some q \<Rightarrow> run_phases q evs)"

lemma run_phases_append:
  "run_phases ph evs = Some q \<Longrightarrow> run_phases ph (evs @ more_evs) = run_phases q more_evs"
  by (induction evs arbitrary: ph) (auto split: option.splits)

text \<open>The trace has grown by events that lead from one phase to another.\<close>

definition leads :: "('w \<Rightarrow> (helper_event \<times> bool) list) \<Rightarrow> phase \<Rightarrow> 'w \<Rightarrow> phase \<Rightarrow> 'w \<Rightarrow> bool" where
  "leads trace ph w q w1 \<longleftrightarrow> (\<exists>evs. trace w1 = trace w @ evs \<and> run_phases ph evs = Some q)"

lemma leads_step: "trace w1 = trace w @ [ev] \<Longrightarrow> advance ph ev = Some q \<Longrightarrow> leads trace ph w q w1"
  by (auto simp: leads_def intro!: exI [of _ "[ev]"])

lemma leads_trans: "leads trace ph w q w1 \<Longrightarrow> leads trace q w1 p w2 \<Longrightarrow> leads trace ph w p w2"
  unfolding leads_def using run_phases_append by fastforce

lemma leads_same: "trace w1 = trace w \<Longrightarrow> leads trace ph w ph w1"
  by (simp add: leads_def)

text \<open>The steps of going back, by the names their failures carry.\<close>

definition stop_failed :: string where "stop_failed = ''stop failed updated Agent Service''"
definition restore_failed :: string where "restore_failed = ''restore last-known-good Agent''"

text \<open>
  How an update ends: taken over, or with the Agent that was there, or with an error that names the step
  of going back that failed, and then the kept Agent is still there.
\<close>

definition settled ::
    "('w \<Rightarrow> string option) \<Rightarrow> ('w \<Rightarrow> string option) \<Rightarrow> go_error option \<Rightarrow> phase \<Rightarrow> 'w \<Rightarrow> 'w \<Rightarrow> bool" where
  "settled installed kept r q w w1 \<longleftrightarrow>
     (case r of
        None \<Rightarrow> q = Cleaned
      | Some e \<Rightarrow> q \<in> {Unchanged, Abandoned, Recovered True, Recovered False} \<and>
          (q \<in> {Unchanged, Recovered True} \<longrightarrow> installed w1 = installed w) \<and>
          (installed w1 = installed w \<or> kept w1 = installed w \<and> (names stop_failed e \<or> names restore_failed e)))"

lemma settled_from: "settled installed kept r q v w1 \<Longrightarrow> installed v = installed w \<Longrightarrow> settled installed kept r q w w1"
  by (cases r) (simp_all add: settled_def)

section \<open>What the operations promise\<close>

text \<open>
  The Agent that is installed, the kept one, and the trace of the operations, in states that are \<open>fine\<close>.
  Only the installer and the restore change the installed Agent, only the backup and the cleanup the
  kept one.
\<close>

locale update_machine =
  fixes ops :: "'w helper_ops" and opts :: helper_options
    and fine :: "'w \<Rightarrow> bool" and installed kept :: "'w \<Rightarrow> string option" and trace :: "'w \<Rightarrow> (helper_event \<times> bool) list"
  assumes traced: "fine w \<Longrightarrow> (ev = StopTray \<or> ev = StartTray \<longrightarrow> ho_tray ops \<noteq> None) \<Longrightarrow> perform ops opts ev w = (r, w1) \<Longrightarrow>
      fine w1 \<and> trace w1 = trace w @ [(ev, r = None)]"
    and keeps_installed: "fine w \<Longrightarrow> perform ops opts ev w = (r, w1) \<Longrightarrow> ev \<noteq> Install \<Longrightarrow> ev \<noteq> Restore \<Longrightarrow> installed w1 = installed w"
    and keeps_kept: "fine w \<Longrightarrow> perform ops opts ev w = (r, w1) \<Longrightarrow> ev \<noteq> Backup \<Longrightarrow> ev \<noteq> Cleanup \<Longrightarrow> kept w1 = kept w"
    and backed: "fine w \<Longrightarrow> perform ops opts Backup w = (None, w1) \<Longrightarrow> kept w1 = installed w"
    and restored: "fine w \<Longrightarrow> perform ops opts Restore w = (r, w1) \<Longrightarrow> installed w1 = (if r = None then kept w else installed w)"
    and warned: "fine w \<Longrightarrow> fine (ho_warn ops d e w) \<and> trace (ho_warn ops d e w) = trace w \<and>
      installed (ho_warn ops d e w) = installed w \<and> kept (ho_warn ops d e w) = kept w"
begin

lemmas ops_perform = perform_simps [of ops opts, symmetric]

lemma step:
  assumes "fine w" and "perform ops opts ev w = (r, w1)" and "ev = StopTray \<or> ev = StartTray \<longrightarrow> ho_tray ops \<noteq> None"
    and "advance ph (ev, r = None) = Some q"
  shows "fine w1 \<and> leads trace ph w q w1"
  using traced [OF assms(1,3,2)] assms(4) by (auto intro: leads_step)

lemma restore_loop_back:
  assumes "fine w" and "restore_loop ops opts n w = (r, w1)" and "ph = Reverting \<or> ph = Retrying"
  shows "fine w1 \<and> leads trace ph w (if r = None then Reverted else Retrying) w1 \<and> kept w1 = kept w \<and>
    (r = None \<longrightarrow> installed w1 = kept w)"
  using assms
proof (induction n arbitrary: w ph)
  case 0
  obtain e w2 where p: "perform ops opts Restore w = (e, w2)" by fastforce
  have "fine w2 \<and> leads trace ph w (if e = None then Reverted else Retrying) w2"
    using step [OF 0(1) p, of ph "if e = None then Reverted else Retrying"] 0(3) by auto
  then show ?case
    using 0 p keeps_kept [OF 0(1) p] restored [OF 0(1) p]
    by (auto simp: ops_perform split: option.splits if_splits)
next
  case (Suc n)
  obtain e w2 where p: "perform ops opts Restore w = (e, w2)" by fastforce
  have s: "fine w2 \<and> leads trace ph w (if e = None then Reverted else Retrying) w2"
    using step [OF Suc(2) p, of ph "if e = None then Reverted else Retrying"] Suc(4) by auto
  show ?case
  proof (cases e)
    case None
    then show ?thesis using Suc.prems p s keeps_kept [OF Suc(2) p] restored [OF Suc(2) p] by (auto simp: ops_perform)
  next
    case (Some x)
    then have "restore_loop ops opts n w2 = (r, w1)" using Suc.prems p by (simp add: ops_perform)
    from Suc.IH [OF _ this, of Retrying] s Some show ?thesis
      using keeps_kept [OF Suc(2) p] by (auto intro: leads_trans)
  qed
qed

lemma restore_back:
  assumes "fine w" and "restore_last_known_good ops opts w = (r, w1)"
  shows "fine w1 \<and> leads trace Reverting w (if r = None then Reverted else Retrying) w1 \<and> kept w1 = kept w \<and>
    (r = None \<longrightarrow> installed w1 = kept w)"
  proof -
  obtain n where "restore_loop ops opts n w = (r, w1)" using assms(2) unfolding restore_last_known_good_def Let_def by blast
  from restore_loop_back [OF assms(1) this, of Reverting] show ?thesis by simp
qed

lemma steady:
  assumes "fine w" and "perform ops opts ev w = (r, w1)" and "ev \<in> {Stop, Start, Configure, Healthy}"
    and "advance ph (ev, r = None) = Some q"
  shows "fine w1 \<and> leads trace ph w q w1 \<and> installed w1 = installed w \<and> kept w1 = kept w"
  using step [OF assms(1,2) _ assms(4)] keeps_installed [OF assms(1,2)] keeps_kept [OF assms(1,2)] assms(3) by auto

lemma finish_back:
  assumes "fine w" and "perform ops opts Configure w = (a, w1)" and "perform ops opts Start w1 = (b, w2)"
    and "perform ops opts Healthy w2 = (c, w3)" and "ph = Reverted \<or> ph = Retrying"
  shows "(a \<noteq> None \<longrightarrow> leads trace ph w Abandoned w1) \<and>
    (a = None \<longrightarrow> b \<noteq> None \<longrightarrow> leads trace ph w Abandoned w2) \<and>
    (a = None \<longrightarrow> b = None \<longrightarrow> leads trace ph w (Recovered (ph = Reverted)) w3) \<and>
    fine w1 \<and> fine w2 \<and> fine w3 \<and> installed w1 = installed w \<and> kept w1 = kept w \<and> installed w2 = installed w \<and> kept w2 = kept w \<and>
    installed w3 = installed w \<and> kept w3 = kept w"
proof -
  let ?came = "ph = Reverted"
  have s1: "fine w1 \<and> leads trace ph w (if a = None then Reconfigured ?came else Abandoned) w1 \<and> installed w1 = installed w \<and> kept w1 = kept w"
    by (rule steady [OF assms(1,2)]) (use assms(5) in auto)
  have s2: "fine w2 \<and> leads trace (Reconfigured ?came) w1 (if b = None then Restarted ?came else Abandoned) w2 \<and>
      installed w2 = installed w1 \<and> kept w2 = kept w1"
    by (rule steady [OF _ assms(3)]) (use s1 in auto)
  have s3: "fine w3 \<and> leads trace (Restarted ?came) w2 (Recovered ?came) w3 \<and> installed w3 = installed w2 \<and> kept w3 = kept w2"
    by (rule steady [OF _ assms(4)]) (use s2 in auto)
  have t2: "leads trace ph w (if b = None then Restarted ?came else Abandoned) w2" if "a = None"
    using leads_trans [of trace ph w "Reconfigured ?came" w1] s1 s2 that by simp
  have t3: "leads trace ph w (Recovered ?came) w3" if "a = None" "b = None"
    using leads_trans [of trace ph w "Restarted ?came" w2] t2 [OF that(1)] s3 that(2) by simp
  show ?thesis using s1 s2 s3 t2 t3 by auto
qed

lemma rollback_back:
  assumes "fine w" and "rollback_helper ops opts x w = (r, w1)"
  shows "\<exists>e q. r = Some e \<and> fine w1 \<and> leads trace Rejected w q w1 \<and> kept w1 = kept w \<and> q \<in> {Abandoned, Recovered True, Recovered False} \<and>
    (installed w1 = kept w \<or> names stop_failed e \<or> names restore_failed e) \<and> (q = Recovered True \<longrightarrow> installed w1 = kept w)"
proof -
  obtain s ws where stop: "perform ops opts Stop w = (s, ws)" by fastforce
  have st: "fine ws \<and> leads trace Rejected w (if s = None then Reverting else Abandoned) ws \<and> installed ws = installed w \<and> kept ws = kept w"
    by (rule steady [OF assms(1) stop]) simp_all
  show ?thesis
  proof (cases s)
    case (Some e)
    then have "r = Some (Joined [x, Wrapped stop_failed e])" "w1 = ws"
      using assms(2) stop by (simp_all add: rollback_helper_def ops_perform join_errors_def stop_failed_def)
    with st Some show ?thesis by auto
  next
    case None
    obtain t wt where restore: "restore_last_known_good ops opts ws = (t, wt)" by fastforce
    let ?ph = "if t = None then Reverted else Retrying"
    have rb: "fine wt" "leads trace Rejected w ?ph wt" "kept wt = kept w" "t = None \<Longrightarrow> installed wt = kept w"
      using restore_back [OF _ restore] st None leads_trans [of trace Rejected w Reverting ws ?ph wt] by auto
    obtain a wa b wb c wc where ops: "perform ops opts Configure wt = (a, wa)" "perform ops opts Start wa = (b, wb)"
      "perform ops opts Healthy wb = (c, wc)" by (meson surj_pair)
    have "?ph = Reverted \<or> ?ph = Retrying" by simp
    note fin = finish_back [OF rb(1) ops this]
    have into: "leads trace Rejected w q v" if "leads trace ?ph wt q v" for q v
      using rb(2) that by (rule leads_trans)
    have "rollback_helper ops opts x w =
        (case a of
           Some e \<Rightarrow> (join_errors [Some x, wrap_optional restore_failed t,
               wrap_optional ''reapply last-known-good Agent Service configuration'' (Some e)], wa)
         | None \<Rightarrow> (case b of
             Some e \<Rightarrow> (join_errors [Some x, wrap_optional restore_failed t, wrap_optional ''restart last-known-good Agent Service'' (Some e)], wb)
           | None \<Rightarrow> (join_errors [Some x, wrap_optional restore_failed t, wrap_optional ''validate last-known-good Agent health'' c], wc)))"
      using stop None restore ops
      by (simp add: rollback_helper_def ops_perform restore_failed_def split: option.splits)
    then have r: "(a \<noteq> None \<longrightarrow> w1 = wa) \<and> (a = None \<longrightarrow> b \<noteq> None \<longrightarrow> w1 = wb) \<and> (a = None \<longrightarrow> b = None \<longrightarrow> w1 = wc)"
      "\<exists>e. r = Some e \<and> (t \<noteq> None \<longrightarrow> names restore_failed e)"
      using assms(2) by (cases t; auto simp: join_errors_def split: option.splits)+
    have q: "\<exists>q. leads trace Rejected w q w1 \<and> q \<in> {Abandoned, Recovered True, Recovered False} \<and> (q = Recovered True \<longrightarrow> t = None)"
      using into fin r(1) by (cases a; cases b; cases t) auto
    have "fine w1" "kept w1 = kept w" "t = None \<Longrightarrow> installed w1 = kept w"
      using fin r(1) rb by (cases a; cases b; simp)+
    with r(2) q show ?thesis by blast
  qed
qed

lemma restart_settled:
  assumes "fine w" and "restart_unchanged ops e w = (r, w1)"
  shows "fine w1 \<and> leads trace Aborting w Unchanged w1 \<and> settled installed kept r Unchanged w w1"
proof -
  obtain s ws where p: "perform ops opts Start w = (s, ws)" by fastforce
  have "fine ws \<and> leads trace Aborting w Unchanged ws \<and> installed ws = installed w \<and> kept ws = kept w"
    by (rule steady [OF assms(1) p]) simp_all
  moreover have "w1 = ws" "r \<noteq> None"
    using assms(2) p by (auto simp: restart_unchanged_def ops_perform join_errors_def)
  ultimately show ?thesis by (auto simp: settled_def)
qed

lemma cleaned:
  assumes "fine w" and "perform ops opts ev w = (r, w1)" and "ev = Cleanup \<or> ev = StartTray \<and> ho_tray ops \<noteq> None"
    and "\<And>b. advance ph (ev, b) = Some q"
  shows "fine (report_cleanup_warning ops opts l (perform ops opts ev) w) \<and>
    leads trace ph w q (report_cleanup_warning ops opts l (perform ops opts ev) w) \<and>
    installed (report_cleanup_warning ops opts l (perform ops opts ev) w) = installed w \<and>
    (ev = StartTray \<longrightarrow> kept (report_cleanup_warning ops opts l (perform ops opts ev) w) = kept w)"
proof -
  have s: "fine w1 \<and> leads trace ph w q w1" by (rule step [OF assms(1,2)]) (use assms(3,4) in auto)
  have k: "installed w1 = installed w" "ev = StartTray \<Longrightarrow> kept w1 = kept w"
    using keeps_installed [OF assms(1,2)] keeps_kept [OF assms(1,2)] assms(3) by auto
  show ?thesis
  proof (cases r)
    case None
    then show ?thesis using s k assms(2) by (auto simp: report_cleanup_warning_def)
  next
    case (Some e)
    have w: "report_cleanup_warning ops opts l (perform ops opts ev) w = ho_warn ops (hp_staging opts) (Wrapped l e) w1"
      using assms(2) Some by (simp add: report_cleanup_warning_def)
    show ?thesis unfolding w
      using warned [of w1 "hp_staging opts" "Wrapped l e"] s k leads_trans [OF _ leads_same] by auto
  qed
qed

lemma rollback_settled:
  assumes "fine w" and "rollback_helper ops opts x v = (r, w1)" and "fine v" and "leads trace ph w Rejected v"
    and "kept v = installed w"
  shows "\<exists>q. fine w1 \<and> leads trace ph w q w1 \<and> settled installed kept r q w w1"
proof -
  from rollback_back [OF assms(3,2)] obtain e q where "r = Some e" "fine w1" "leads trace Rejected v q w1" "kept w1 = kept v"
    "q \<in> {Abandoned, Recovered True, Recovered False}" "installed w1 = kept v \<or> names stop_failed e \<or> names restore_failed e"
    "q = Recovered True \<longrightarrow> installed w1 = kept v" by blast
  with leads_trans [OF assms(4)] assms(5) show ?thesis by (intro exI [of _ q]) (auto simp: settled_def)
qed

lemma install_settled:
  assumes "fine w" and "install_update ops opts w = (r, w1)" and "ph = Halted \<or> ph = Quiet"
  shows "\<exists>q. fine w1 \<and> leads trace ph w q w1 \<and> settled installed kept r q w w1"
proof -
  obtain a wa b wb c wc d wd e we where p: "perform ops opts Backup w = (a, wa)" "perform ops opts Install wa = (b, wb)"
    "perform ops opts Configure wb = (c, wc)" "perform ops opts Start wc = (d, wd)" "perform ops opts Healthy wd = (e, we)"
    by (meson surj_pair)
  have sa: "fine wa" "leads trace ph w (if a = None then Backed else Aborting) wa"
    using step [OF assms(1) p(1), of ph "if a = None then Backed else Aborting"] assms(3) by auto
  have ka: "installed wa = installed w" "a = None \<Longrightarrow> kept wa = installed w"
    using keeps_installed [OF assms(1) p(1)] backed [OF assms(1)] p(1) by auto
  show ?thesis
  proof (cases a)
    case (Some x)
    then have "restart_unchanged ops (Wrapped ''store last-known-good Agent'' x) wa = (r, w1)"
      using assms(2) p by (simp add: install_update_def ops_perform)
    from restart_settled [OF sa(1) this] leads_trans [OF sa(2)] Some ka(1) show ?thesis
      by (intro exI [of _ Unchanged]) (auto intro: settled_from)
  next
    case None
    have sb: "fine wb" "leads trace ph w (if b = None then Installed else Rejected) wb" "kept wb = installed w"
      using step [OF sa(1) p(2), of Backed "if b = None then Installed else Rejected"] leads_trans [OF sa(2)]
        keeps_kept [OF sa(1) p(2)] None ka by auto
    have sc: "fine wc" "b = None \<Longrightarrow> leads trace ph w (if c = None then Configured else Rejected) wc" "kept wc = installed w"
      using steady [OF sb(1) p(3), of Installed "if c = None then Configured else Rejected"] leads_trans [OF sb(2)] sb(3) by auto
    have sd: "fine wd" "b = None \<Longrightarrow> c = None \<Longrightarrow> leads trace ph w (if d = None then Started else Rejected) wd" "kept wd = installed w"
      using steady [OF sc(1) p(4), of Configured "if d = None then Started else Rejected"] leads_trans [OF sc(2)] sc(3) by auto
    have se: "fine we" "b = None \<Longrightarrow> c = None \<Longrightarrow> d = None \<Longrightarrow> leads trace ph w (if e = None then Committed else Rejected) we"
        "kept we = installed w"
      using steady [OF sd(1) p(5), of Started "if e = None then Committed else Rejected"] leads_trans [OF sd(2)] sd(3) by auto
    note undo = rollback_settled [OF assms(1)]
    consider "b \<noteq> None" | "b = None" "c \<noteq> None" | "b = None" "c = None" "d \<noteq> None" | "b = None" "c = None" "d = None" "e \<noteq> None"
      | "b = None" "c = None" "d = None" "e = None" by blast
    then show ?thesis
    proof cases
      case 1
      then show ?thesis using assms(2) p None sb undo by (auto simp: install_update_def ops_perform)
    next
      case 2
      then show ?thesis using assms(2) p None sc undo by (auto simp: install_update_def ops_perform)
    next
      case 3
      then show ?thesis using assms(2) p None sd undo by (auto simp: install_update_def ops_perform)
    next
      case 4
      then show ?thesis using assms(2) p None se undo by (auto simp: install_update_def ops_perform)
    next
      case 5
      let ?l = "''clean successful update files''"
      obtain f wf where "perform ops opts Cleanup we = (f, wf)" by fastforce
      from cleaned [OF se(1) this, of Committed Cleaned ?l] leads_trans [OF se(2)] 5 assms(2) p None show ?thesis
        by (intro exI [of _ Cleaned]) (auto simp: install_update_def ops_perform settled_def)
    qed
  qed
qed

lemma update_settled:
  assumes "fine w" and "helper_update ops opts w = (r, w1)"
  shows "\<exists>q. fine w1 \<and> leads trace Fresh w q w1 \<and> settled installed kept r q w w1"
proof -
  obtain a wa where p: "perform ops opts Stop w = (a, wa)" by fastforce
  have sa: "fine wa \<and> leads trace Fresh w (if a = None then Halted else Aborting) wa \<and> installed wa = installed w \<and> kept wa = kept w"
    by (rule steady [OF assms(1) p]) simp_all
  have aborted: ?thesis if "restart_unchanged ops x v = (r, w1)" "fine v" "leads trace Fresh w Aborting v" "installed v = installed w" for x v
    using restart_settled [OF that(2,1)] leads_trans [OF that(3)] that(4) by (intro exI [of _ Unchanged]) (auto intro: settled_from)
  have goes_on: "\<exists>q. fine v1 \<and> leads trace Fresh w q v1 \<and> settled installed kept s q w v1"
    if "install_update ops opts v = (s, v1)" "fine v" "ph = Halted \<or> ph = Quiet" "leads trace Fresh w ph v" "installed v = installed w"
    for s v v1 ph
    using install_settled [OF that(2,1,3)] leads_trans [OF that(4)] that(5) by (meson settled_from)
  show ?thesis
  proof (cases a)
    case (Some x)
    with assms(2) p sa aborted show ?thesis by (auto simp: helper_update_def ops_perform)
  next
    case None
    show ?thesis
    proof (cases "ho_tray ops")
      case no_tray: None
      with assms(2) p None sa goes_on [of wa r w1 Halted] show ?thesis by (auto simp: helper_update_def ops_perform)
    next
      case (Some tray)
      obtain running t wt where tray: "ty_stop tray wa = ((running, t), wt)" by (metis surj_pair)
      have st: "perform ops opts StopTray wa = (t, wt)" using Some tray by (simp add: perform_def)
      have s: "fine wt" "leads trace Fresh w (if t = None then Quiet else Aborting) wt" "installed wt = installed w"
        using step [OF _ st, of Halted "if t = None then Quiet else Aborting"] sa None Some keeps_installed [OF _ st]
          leads_trans [of trace Fresh w Halted wa] by auto
      show ?thesis
      proof (cases t)
        case t: (Some x)
        have "restart_unchanged ops (Wrapped ''stop Agent tray'' x) wt = (r, w1)"
          using assms(2) p None \<open>ho_tray ops = Some tray\<close> tray t by (simp add: helper_update_def ops_perform)
        from aborted [OF this] s t show ?thesis by simp
      next
        case t: None
        have start_tray: "perform ops opts StartTray = ty_start tray (hp_executable opts)" using Some by (simp add: perform_def)
        obtain v where inst: "install_update ops opts wt = (r, v)"
          and w1: "w1 = (if running then report_cleanup_warning ops opts ''restart Agent tray'' (perform ops opts StartTray) v else v)"
          using assms(2) p None Some tray t
          by (cases "install_update ops opts wt") (auto simp: helper_update_def ops_perform start_tray)
        from goes_on [OF inst s(1), of Quiet] s t obtain q where q: "fine v" "leads trace Fresh w q v" "settled installed kept r q w v"
          by auto
        have adv: "advance q (StartTray, b) = Some q" for b using q(3) by (cases r) (auto simp: settled_def)
        show ?thesis
        proof (cases running)
          case True
          obtain f wf where f: "perform ops opts StartTray v = (f, wf)" by fastforce
          have "fine w1 \<and> leads trace q v q w1 \<and> installed w1 = installed v \<and> kept w1 = kept v"
            using cleaned [OF q(1) f, of q q "''restart Agent tray''"] adv Some True w1 by auto
          moreover from this have "settled installed kept r q w w1" using q(3) by (cases r) (simp_all add: settled_def)
          ultimately show ?thesis using leads_trans [OF q(2)] by blast
        qed (use q w1 in auto)
      qed
    qed
  qed
qed

end

end
