(* ===== verification/UpdateMachine.thy ===== *)
theory UpdateMachine
  imports UpdateHelper
begin

text \<open>
  The operations of the update helper on Windows, \<^verbatim>\<open>agent/internal/update/helper_windows.go\<close>, over the
  files of the machine.  Windows itself (services, events, processes, the pipe of the Agent) and the
  installer are the parameter \<open>win_env\<close>, whose answers depend on how many operations came before.  The
  interpretation at the end discharges what the helper relies on, and the properties follow.
\<close>

section \<open>The machine\<close>

datatype svc_state = SvcStopped | SvcStartPending | SvcStopPending | SvcRunning | SvcPaused

datatype probe = EventGone | EventOpen | ProbeFailed go_error

datatype pipe_answer = NoAnswer go_error | StatusError | Status json

text \<open>
  \<open>we_fault\<close>: the call that fails, by its name.  \<open>we_polls\<close>, \<open>we_probes\<close> and \<open>we_answers\<close>: what is found
  at each look before the deadline, with \<open>we_deadline\<close> as the error of the context that ended the wait.
\<close>

record win_env =
  we_fault :: "nat \<Rightarrow> string \<Rightarrow> go_error option"
  we_service :: "nat \<Rightarrow> svc_state option"
  we_polls :: "nat \<Rightarrow> svc_state res list"
  we_tray :: "nat \<Rightarrow> bool"
  we_probes :: "nat \<Rightarrow> nat \<Rightarrow> probe list"
  we_answers :: "nat \<Rightarrow> pipe_answer list"
  we_deadline :: "nat \<Rightarrow> go_error"
  we_cancelled :: "nat \<Rightarrow> go_error option"
  we_session :: "nat \<Rightarrow> bool"
  we_installer :: "nat \<Rightarrow> string \<Rightarrow> string list \<Rightarrow> files \<Rightarrow> go_error option \<times> files"
  we_temp :: "nat \<Rightarrow> string \<Rightarrow> string"
  we_written :: "nat \<Rightarrow> nat"
  we_ticks :: "duration \<Rightarrow> duration \<Rightarrow> nat \<Rightarrow> nat"
  we_dir :: "string \<Rightarrow> string"
  we_base :: "string \<Rightarrow> string"
  we_join :: "string \<Rightarrow> string \<Rightarrow> string"

record machine =
  mc_files :: files
  mc_clock :: nat
  mc_trace :: "(helper_event \<times> bool) list"

definition act :: "helper_event \<Rightarrow> (nat \<Rightarrow> files \<Rightarrow> go_error option \<times> files) \<Rightarrow> machine op" where
  "act ev f m =
     (case f (mc_clock m) (mc_files m) of (r, fs) \<Rightarrow>
        (r, \<lparr>mc_files = fs, mc_clock = Suc (mc_clock m), mc_trace = mc_trace m @ [(ev, r = None)]\<rparr>))"

definition win_fault :: "win_env \<Rightarrow> nat \<Rightarrow> string \<Rightarrow> go_error option" where
  "win_fault env n l = map_option (Wrapped l) (we_fault env n l)"

text \<open>The first of several calls that fails.\<close>

primrec first_failure :: "(string \<Rightarrow> go_error option) \<Rightarrow> string list \<Rightarrow> go_error option" where
  "first_failure fault [] = None"
| "first_failure fault (l # ls) = (case fault l of Some e \<Rightarrow> Some e | None \<Rightarrow> first_failure fault ls)"

section \<open>The Service\<close>

primrec wait_for_service_state :: "svc_state \<Rightarrow> go_error \<Rightarrow> svc_state res list \<Rightarrow> go_error option" where
  "wait_for_service_state wanted deadline [] = Some deadline"
| "wait_for_service_state wanted deadline (p # ps) =
     (case p of
        Inl e \<Rightarrow> Some (Wrapped ''query Agent Service transition'' e)
      | Inr st \<Rightarrow> if st = wanted then None else wait_for_service_state wanted deadline ps)"

definition stop_service :: "win_env \<Rightarrow> nat \<Rightarrow> go_error option" where
  "stop_service env n =
     (case win_fault env n ''connect service manager'' of
        Some e \<Rightarrow> Some e
      | None \<Rightarrow>
     (case we_service env n of
        None \<Rightarrow> None
      | Some st \<Rightarrow>
     (case first_failure (win_fault env n) [''open Agent Service'', ''query Agent Service''] of
        Some e \<Rightarrow> Some e
      | None \<Rightarrow>
     if st = SvcStopped then None
     else (case (if st \<noteq> SvcStopPending then win_fault env n ''request Agent Service stop'' else None) of
        Some e \<Rightarrow> Some e
      | None \<Rightarrow> wait_for_service_state SvcStopped (we_deadline env n) (we_polls env n)))))"

definition start_service :: "win_env \<Rightarrow> nat \<Rightarrow> go_error option" where
  "start_service env n =
     (case win_fault env n ''connect service manager'' of
        Some e \<Rightarrow> Some e
      | None \<Rightarrow>
     (case we_service env n of
        None \<Rightarrow> Some (Wrapped ''open Agent Service'' (Message ''service does not exist''))
      | Some st \<Rightarrow>
     (case first_failure (win_fault env n) [''open Agent Service'', ''query Agent Service''] of
        Some e \<Rightarrow> Some e
      | None \<Rightarrow>
     if st = SvcRunning then None
     else (case win_fault env n ''request Agent Service start'' of
        Some e \<Rightarrow> Some e
      | None \<Rightarrow> wait_for_service_state SvcRunning (we_deadline env n) (we_polls env n)))))"

section \<open>The tray\<close>

primrec wait_for_event_closed :: "go_error \<Rightarrow> probe list \<Rightarrow> go_error option" where
  "wait_for_event_closed deadline [] = Some deadline"
| "wait_for_event_closed deadline (p # ps) =
     (case p of
        EventGone \<Rightarrow> None
      | ProbeFailed e \<Rightarrow> Some (Wrapped ''query tray update event'' e)
      | EventOpen \<Rightarrow> wait_for_event_closed deadline ps)"

text \<open>\<open>%w\<close> of a \<open>nil\<close> error.\<close>

definition wrap_nil :: "string \<Rightarrow> go_error option \<Rightarrow> go_error" where
  "wrap_nil l e = (case e of Some x \<Rightarrow> Wrapped l x | None \<Rightarrow> Wrapped l (Message ''%!w(<nil>)''))"

definition stop_tray :: "win_env \<Rightarrow> nat \<Rightarrow> bool \<times> go_error option" where
  "stop_tray env n =
     (case win_fault env n ''encode tray update event name'' of
        Some e \<Rightarrow> (False, Some e)
      | None \<Rightarrow>
     if \<not> we_tray env n then (False, None)
     else (case win_fault env n ''open tray update event'' of
        Some e \<Rightarrow> (False, Some e)
      | None \<Rightarrow>
     (case win_fault env n ''signal tray update event'' of
        Some e \<Rightarrow> (True, Some e)
      | None \<Rightarrow>
     (case wait_for_event_closed (we_deadline env n) (we_probes env n 0) of
        None \<Rightarrow> (True, None)
      | Some e \<Rightarrow>
        if \<not> err_is ContextDeadlineExceeded e then (True, Some e)
        else (case wait_for_event_closed (we_deadline env n) (we_probes env n 1) of
            None \<Rightarrow> (True, None)
          | Some e2 \<Rightarrow> (True, Some (Joined [wrap_nil ''force-close Agent tray'' (we_fault env n ''taskkill.exe''), e2])))))))"

definition start_tray :: "win_env \<Rightarrow> nat \<Rightarrow> go_error option" where
  "start_tray env n =
     (case we_cancelled env n of
        Some e \<Rightarrow> Some e
      | None \<Rightarrow>
        if \<not> we_session env n then None
        else first_failure (win_fault env n)
            [''query active user token'', ''encode tray executable'', ''encode tray command line'', ''encode interactive desktop'',
             ''encode tray working directory'', ''start tray in active user session''])"

section \<open>Files\<close>

text \<open>
  \<^verbatim>\<open>copyWindowsFileAtomic\<close>: a temporary file beside the destination takes its place once it is complete;
  after a failure it is removed, unless that fails too.
\<close>

definition copy_file_atomic :: "win_env \<Rightarrow> nat \<Rightarrow> string \<Rightarrow> string \<Rightarrow> bool \<Rightarrow> files \<Rightarrow> go_error option \<times> files" where
  "copy_file_atomic env n source destination secure fs =
     (case fs source of
        None \<Rightarrow> (Some (Sentinel ErrNotExist), fs)
      | Some data \<Rightarrow>
     (case first_failure (we_fault env n) [''open source'', ''make directory'', ''create temporary''] of
        Some e \<Rightarrow> (Some e, fs)
      | None \<Rightarrow>
        let temporary = we_temp env n (we_dir env destination);
            discard = (\<lambda>written. if we_fault env n ''remove temporary'' = None then fs(temporary := None) else fs(temporary \<mapsto> written))
        in (case we_fault env n ''copy'' of
              Some e \<Rightarrow> (Some e, discard (take (we_written env n) data))
            | None \<Rightarrow>
              (case first_failure (we_fault env n)
                  ([''sync'', ''close''] @ (if secure then [''secure''] else []) @ [''encode names'', ''replace'']) of
                 Some e \<Rightarrow> (Some e, discard data)
               | None \<Rightarrow> (None, fs(temporary := None, destination \<mapsto> data))))))"

text \<open>\<^verbatim>\<open>Cleanup\<close>: a file that is not there is no error.\<close>

primrec clean_up :: "win_env \<Rightarrow> nat \<Rightarrow> string list \<Rightarrow> files \<Rightarrow> go_error list \<times> files" where
  "clean_up env n [] fs = ([], fs)"
| "clean_up env n (p # ps) fs =
     (case (if fs p = None then (None, fs)
            else case we_fault env n (''remove '' @ p) of Some e \<Rightarrow> (Some e, fs) | None \<Rightarrow> (None, fs(p := None))) of (r, fs1) \<Rightarrow>
      (case clean_up env n ps fs1 of (es, fs2) \<Rightarrow>
        ((case r of None \<Rightarrow> es | Some e \<Rightarrow> Wrapped (''remove '' @ we_base env p) e # es), fs2)))"

definition run_installer :: "win_env \<Rightarrow> nat \<Rightarrow> string \<Rightarrow> string list \<Rightarrow> files \<Rightarrow> go_error option \<times> files" where
  "run_installer env n installer arguments fs =
     (case we_installer env n installer arguments fs of (r, fs1) \<Rightarrow> (map_option (Wrapped ''installer process failed'') r, fs1))"

definition marker_path :: "win_env \<Rightarrow> string \<Rightarrow> string" where
  "marker_path env staging = we_join env staging ''cleanup-warning.marker''"

text \<open>\<^verbatim>\<open>recordCleanupWarning\<close>; the failure of the write is dropped.\<close>

definition record_cleanup_warning :: "win_env \<Rightarrow> string \<Rightarrow> go_error \<Rightarrow> machine \<Rightarrow> machine" where
  "record_cleanup_warning env staging e m =
     (if we_fault env (mc_clock m) ''write cleanup marker'' = None
      then m\<lparr>mc_files := (mc_files m)(marker_path env staging \<mapsto> ''update cleanup requires attention'' @ [CHR 0x0A])\<rparr>
      else m)"

section \<open>Health\<close>

text \<open>\<^verbatim>\<open>pipeReportsHealthy\<close>.\<close>

definition reports_healthy :: "pipe_answer \<Rightarrow> bool \<times> go_error option" where
  "reports_healthy a =
     (case a of
        NoAnswer e \<Rightarrow> (False, Some e)
      | StatusError \<Rightarrow> (False, Some (Message ''Agent pipe returned a status error''))
      | Status j \<Rightarrow>
        (case read_struct False [(''state'', read_string)] j [] of
           None \<Rightarrow> (False, Some (Message ''decode status''))
         | Some state \<Rightarrow> (state = ''online'', None)))"

definition wait_healthy :: "win_env \<Rightarrow> nat \<Rightarrow> duration \<Rightarrow> go_error option" where
  "wait_healthy env n timeout =
     wait_for_healthy timeout 250000000 (Some (map reports_healthy (we_answers env n))) (we_cancelled env n)"

section \<open>The operations\<close>

definition win_tray :: "win_env \<Rightarrow> machine tray_ops" where
  "win_tray env =
     \<lparr>ty_stop = (\<lambda>m. ((fst (stop_tray env (mc_clock m)), snd (stop_tray env (mc_clock m))),
        snd (act StopTray (\<lambda>n fs. (snd (stop_tray env n), fs)) m))),
      ty_start = (\<lambda>executable. act StartTray (\<lambda>n fs. (start_tray env n, fs)))\<rparr>"

text \<open>
  \<^verbatim>\<open>ApplyServiceConfiguration\<close> only calls \<^verbatim>\<open>windowsservice.RestoreServiceExecutable\<close>, whose failures are
  faults here.
\<close>

definition win_ops :: "win_env \<Rightarrow> machine helper_ops" where
  "win_ops env =
     \<lparr>ho_stop_service = act Stop (\<lambda>n fs. (stop_service env n, fs)),
      ho_tray = Some (win_tray env),
      ho_backup = (\<lambda>current backup. act Backup (\<lambda>n. copy_file_atomic env n current backup True)),
      ho_run_installer = (\<lambda>timeout installer arguments. act Install (\<lambda>n. run_installer env n installer arguments)),
      ho_start_service = act Start (\<lambda>n fs. (start_service env n, fs)),
      ho_wait_healthy = (\<lambda>timeout. act Healthy (\<lambda>n fs. (wait_healthy env n timeout, fs))),
      ho_restore = (\<lambda>backup executable. act Restore (\<lambda>n. copy_file_atomic env n backup executable False)),
      ho_configure = (\<lambda>executable. act Configure (\<lambda>n fs. (win_fault env n ''apply Agent Service configuration'', fs))),
      ho_cleanup = (\<lambda>paths. act Cleanup (\<lambda>n fs. (case clean_up env n paths fs of (es, fs1) \<Rightarrow>
         (if es = [] then None else Some (Joined es), fs1)))),
      ho_warn = record_cleanup_warning env,
      ho_cancelled = (\<lambda>m. we_cancelled env (mc_clock m)),
      ho_ticks = (\<lambda>timeout interval m. we_ticks env timeout interval (mc_clock m))\<rparr>"

section \<open>What the operations keep\<close>

text \<open>
  The paths are apart, the temporary names are fresh and the installer leaves the kept Agent alone.
\<close>

definition win_fine :: "win_env \<Rightarrow> helper_options \<Rightarrow> bool" where
  "win_fine env opts \<longleftrightarrow>
     distinct [hp_installer opts, hp_executable opts, hp_backup opts] \<and>
     (\<forall>n d. we_temp env n d \<noteq> hp_executable opts \<and> we_temp env n d \<noteq> hp_backup opts) \<and>
     (\<forall>d. marker_path env d \<noteq> hp_executable opts \<and> marker_path env d \<noteq> hp_backup opts) \<and>
     (\<forall>n i a fs. snd (we_installer env n i a fs) (hp_backup opts) = fs (hp_backup opts))"

lemma fineD:
  assumes "win_fine env opts"
  shows "hp_executable opts \<noteq> hp_backup opts" "hp_executable opts \<noteq> hp_installer opts"
    "hp_executable opts \<noteq> we_temp env n d" "hp_backup opts \<noteq> we_temp env n d"
    "marker_path env d \<noteq> hp_executable opts" "marker_path env d \<noteq> hp_backup opts"
    "snd (we_installer env n i a fs) (hp_backup opts) = fs (hp_backup opts)"
  using assms by (simp_all add: win_fine_def) metis+

lemma act_result: "act ev f m = (r, m1) \<Longrightarrow>
    r = fst (f (mc_clock m) (mc_files m)) \<and> mc_files m1 = snd (f (mc_clock m) (mc_files m)) \<and> mc_trace m1 = mc_trace m @ [(ev, r = None)]"
  by (auto simp: act_def split: prod.splits)

lemma act_files: "act ev (\<lambda>n fs. (f n, fs)) m = (r, m1) \<Longrightarrow> mc_files m1 = mc_files m \<and> mc_trace m1 = mc_trace m @ [(ev, r = None)]"
  by (auto simp: act_def)

lemma copy_effect:
  assumes "copy_file_atomic env n source destination secure fs = (r, fs1)"
  shows "r = None \<Longrightarrow> fs1 destination = fs source"
    and "p \<noteq> we_temp env n (we_dir env destination) \<Longrightarrow> r \<noteq> None \<or> p \<noteq> destination \<Longrightarrow> fs1 p = fs p"
  using assms by (auto simp: copy_file_atomic_def Let_def split: option.splits if_splits)

lemma clean_up_others: "clean_up env n ps fs = (es, fs1) \<Longrightarrow> p \<notin> set ps \<Longrightarrow> fs1 p = fs p"
proof (induction ps arbitrary: fs es fs1)
  case (Cons q ps)
  then obtain fs2 es2 where "clean_up env n ps fs2 = (es2, fs1)" "fs2 = fs \<or> fs2 = fs(q := None)"
    by (auto split: if_splits option.splits prod.splits)
  with Cons.IH [of fs2] Cons.prems show ?case by auto
qed simp

lemma win_selectors:
  "ho_stop_service (win_ops env) = act Stop (\<lambda>n fs. (stop_service env n, fs))"
  "ho_tray (win_ops env) = Some (win_tray env)"
  "ho_backup (win_ops env) cur bak = act Backup (\<lambda>n. copy_file_atomic env n cur bak True)"
  "ho_run_installer (win_ops env) t i a = act Install (\<lambda>n. run_installer env n i a)"
  "ho_start_service (win_ops env) = act Start (\<lambda>n fs. (start_service env n, fs))"
  "ho_wait_healthy (win_ops env) t = act Healthy (\<lambda>n fs. (wait_healthy env n t, fs))"
  "ho_restore (win_ops env) bak cur = act Restore (\<lambda>n. copy_file_atomic env n bak cur False)"
  "ho_configure (win_ops env) cur = act Configure (\<lambda>n fs. (win_fault env n ''apply Agent Service configuration'', fs))"
  "ho_cleanup (win_ops env) ps = act Cleanup (\<lambda>n fs. (case clean_up env n ps fs of (es, fs1) \<Rightarrow>
     (if es = [] then None else Some (Joined es), fs1)))"
  "ho_warn (win_ops env) = record_cleanup_warning env"
  by (simp_all add: win_ops_def)

lemma perform_win:
  "perform (win_ops env) opts Backup = act Backup (\<lambda>n. copy_file_atomic env n (hp_executable opts) (hp_backup opts) True)"
  "perform (win_ops env) opts Install = act Install (\<lambda>n. run_installer env n (hp_installer opts) silent_installer_arguments)"
  "perform (win_ops env) opts Restore = act Restore (\<lambda>n. copy_file_atomic env n (hp_backup opts) (hp_executable opts) False)"
  "perform (win_ops env) opts Cleanup =
     act Cleanup (\<lambda>n fs. (case clean_up env n [hp_installer opts, hp_backup opts] fs of (es, fs1) \<Rightarrow>
       (if es = [] then None else Some (Joined es), fs1)))"
  by (simp_all add: perform_simps win_selectors)

lemma perform_quiet:
  assumes "ev \<notin> {Backup, Install, Restore, Cleanup}"
  shows "\<exists>f. perform (win_ops env) opts ev = act ev (\<lambda>n fs. (f n, fs))"
proof -
  have "perform (win_ops env) opts StopTray = act StopTray (\<lambda>n fs. (snd (stop_tray env n), fs))"
    by (simp add: perform_def win_selectors win_tray_def act_def fun_eq_iff)
  moreover have "perform (win_ops env) opts StartTray = act StartTray (\<lambda>n fs. (start_tray env n, fs))"
    by (simp add: perform_def win_selectors win_tray_def)
  ultimately show ?thesis using assms by (cases ev) (auto simp: perform_simps win_selectors)
qed

lemma perform_act: "\<exists>f. perform (win_ops env) opts ev = act ev f"
  using perform_quiet [of ev env opts] by (cases "ev \<in> {Backup, Install, Restore, Cleanup}") (auto simp: perform_win)

lemma perform_trace: "perform (win_ops env) opts ev m = (r, m1) \<Longrightarrow> mc_trace m1 = mc_trace m @ [(ev, r = None)]"
  using perform_act [of env opts ev] by (metis act_result)

lemma perform_files:
  assumes "perform (win_ops env) opts ev m = (r, m1)" and "ev \<notin> {Backup, Install, Restore, Cleanup}"
  shows "mc_files m1 = mc_files m"
  using perform_quiet [OF assms(2), of env opts] assms(1) by (metis act_files)

lemma perform_copy:
  "perform (win_ops env) opts Backup m = (r, m1) \<Longrightarrow>
     copy_file_atomic env (mc_clock m) (hp_executable opts) (hp_backup opts) True (mc_files m) = (r, mc_files m1)"
  "perform (win_ops env) opts Restore m = (r, m1) \<Longrightarrow>
     copy_file_atomic env (mc_clock m) (hp_backup opts) (hp_executable opts) False (mc_files m) = (r, mc_files m1)"
  by (auto simp: perform_win dest!: act_result)

lemma perform_clean:
  assumes "perform (win_ops env) opts Cleanup m = (r, m1)" and "p \<noteq> hp_installer opts" and "p \<noteq> hp_backup opts"
  shows "mc_files m1 p = mc_files m p"
proof -
  from act_result [OF assms(1) [unfolded perform_win]]
  obtain es where "clean_up env (mc_clock m) [hp_installer opts, hp_backup opts] (mc_files m) = (es, mc_files m1)"
    by (auto split: prod.splits)
  from clean_up_others [OF this] assms(2,3) show ?thesis by simp
qed

lemma perform_install:
  assumes "perform (win_ops env) opts Install m = (r, m1)" and "win_fine env opts"
  shows "mc_files m1 (hp_backup opts) = mc_files m (hp_backup opts)"
  using act_result [OF assms(1) [unfolded perform_win]] fineD(7) [OF assms(2)] by (simp add: run_installer_def split_def)

lemma win_installed:
  assumes "win_fine env opts" and "perform (win_ops env) opts ev m = (r, m1)" and "ev \<noteq> Install" and "ev \<noteq> Restore"
  shows "mc_files m1 (hp_executable opts) = mc_files m (hp_executable opts)"
proof -
  consider "ev = Backup" | "ev = Cleanup" | "ev \<notin> {Backup, Install, Restore, Cleanup}" using assms(3,4) by auto
  then show ?thesis
  proof cases
    case 1
    from copy_effect(2) [OF perform_copy(1) [OF assms(2) [unfolded 1]], of "hp_executable opts"] fineD [OF assms(1)]
    show ?thesis by blast
  next
    case 2
    from perform_clean [OF assms(2) [unfolded 2], of "hp_executable opts"] fineD [OF assms(1)] show ?thesis by blast
  next
    case 3
    from perform_files [OF assms(2) this] show ?thesis by simp
  qed
qed

lemma win_kept:
  assumes "win_fine env opts" and "perform (win_ops env) opts ev m = (r, m1)" and "ev \<noteq> Backup" and "ev \<noteq> Cleanup"
  shows "mc_files m1 (hp_backup opts) = mc_files m (hp_backup opts)"
proof -
  consider "ev = Install" | "ev = Restore" | "ev \<notin> {Backup, Install, Restore, Cleanup}" using assms(3,4) by auto
  then show ?thesis
  proof cases
    case 1
    from perform_install [OF assms(2) [unfolded 1] assms(1)] show ?thesis .
  next
    case 2
    from copy_effect(2) [OF perform_copy(2) [OF assms(2) [unfolded 2]], of "hp_backup opts"] fineD [OF assms(1)]
    show ?thesis by metis
  next
    case 3
    from perform_files [OF assms(2) this] show ?thesis by simp
  qed
qed

interpretation win: update_machine "win_ops env" opts "\<lambda>m. win_fine env opts" "\<lambda>m. mc_files m (hp_executable opts)"
  "\<lambda>m. mc_files m (hp_backup opts)" mc_trace for env opts
proof
  fix ev m r m1
  assume fine: "win_fine env opts" and p: "perform (win_ops env) opts ev m = (r, m1)"
  show "win_fine env opts \<and> mc_trace m1 = mc_trace m @ [(ev, r = None)]" using fine perform_trace [OF p] by simp
  show "ev \<noteq> Install \<Longrightarrow> ev \<noteq> Restore \<Longrightarrow> mc_files m1 (hp_executable opts) = mc_files m (hp_executable opts)"
    by (rule win_installed [OF fine p])
  show "ev \<noteq> Backup \<Longrightarrow> ev \<noteq> Cleanup \<Longrightarrow> mc_files m1 (hp_backup opts) = mc_files m (hp_backup opts)"
    by (rule win_kept [OF fine p])
next
  fix m m1
  assume "perform (win_ops env) opts Backup m = (None, m1)"
  then show "mc_files m1 (hp_backup opts) = mc_files m (hp_executable opts)"
    using copy_effect(1) [OF perform_copy(1)] by simp
next
  fix m r m1
  assume fine: "win_fine env opts" and p: "perform (win_ops env) opts Restore m = (r, m1)"
  show "mc_files m1 (hp_executable opts) = (if r = None then mc_files m (hp_backup opts) else mc_files m (hp_executable opts))"
    using copy_effect(1) [OF perform_copy(2) [OF p]] copy_effect(2) [OF perform_copy(2) [OF p], of "hp_executable opts"] fineD(3) [OF fine]
    by (cases r) simp_all
next
  fix m d e
  assume "win_fine env opts"
  then show "win_fine env opts \<and> mc_trace (ho_warn (win_ops env) d e m) = mc_trace m \<and>
      mc_files (ho_warn (win_ops env) d e m) (hp_executable opts) = mc_files m (hp_executable opts) \<and>
      mc_files (ho_warn (win_ops env) d e m) (hp_backup opts) = mc_files m (hp_backup opts)"
    using fineD(5,6) [of env opts d] by (auto simp: win_selectors record_cleanup_warning_def)
qed

text \<open>C12: An update either is taken over or the machine goes back, whatever Windows, the installer or a file
operation does: the operations of the helper follow the protocol of the update (the Service and the tray are
stopped and the Agent is kept before the installer runs, only a healthy new Agent is taken over, the kept
Agent is removed last, and the Service is never left stopped without a failed step); without an error
the new Agent was found healthy, and with one the Agent of before is installed, or the error names the stop or
the restore that failed and the kept Agent is still there.\<close>

theorem update_taken_or_undone:
  assumes "win_fine env opts" and "helper_update (win_ops env) opts m = (r, m1)"
  shows "\<exists>q evs. mc_trace m1 = mc_trace m @ evs \<and> run_phases Fresh evs = Some q \<and>
    (case r of
       None \<Rightarrow> q = Cleaned
     | Some e \<Rightarrow> q \<in> {Unchanged, Abandoned, Recovered True, Recovered False} \<and>
         (q \<in> {Unchanged, Recovered True} \<longrightarrow> mc_files m1 (hp_executable opts) = mc_files m (hp_executable opts)) \<and>
         (mc_files m1 (hp_executable opts) = mc_files m (hp_executable opts) \<or>
          mc_files m1 (hp_backup opts) = mc_files m (hp_executable opts) \<and> (names stop_failed e \<or> names restore_failed e)))"
  using win.update_settled [OF assms] by (simp add: leads_def settled_def) blast

definition demo_win :: win_env where
  "demo_win = \<lparr>we_fault = (\<lambda>n l. None), we_service = (\<lambda>n. Some SvcRunning), we_polls = (\<lambda>n. [Inr SvcStopped]), we_tray = (\<lambda>n. True),
     we_probes = (\<lambda>n k. [EventGone]),
     we_answers = (\<lambda>n. [Status (JObj [(''state'', JStr ''starting'')])]),
     we_deadline = (\<lambda>n. Sentinel ContextDeadlineExceeded), we_cancelled = (\<lambda>n. None), we_session = (\<lambda>n. True),
     we_installer = (\<lambda>n i a fs. (None, fs(''/p/agent'' \<mapsto> ''new''))), we_temp = (\<lambda>n d. ''/t''), we_written = (\<lambda>n. 0),
     we_ticks = (\<lambda>t i n. 0), we_dir = (\<lambda>p. ''/p''), we_base = id, we_join = (\<lambda>d f. d @ ''/'' @ f)\<rparr>"

definition demo_options :: helper_options where
  "demo_options = \<lparr>hp_installer = ''/s/setup'', hp_executable = ''/p/agent'', hp_backup = ''/s/lkg'', hp_staging = ''/s'',
     hp_version = ''1.0.1'', hp_installer_timeout = 0, hp_health_timeout = 0, hp_restore_timeout = 0, hp_restore_interval = 0\<rparr>"

text \<open>The new Agent does not report itself online; the old one is back at the end.\<close>

lemma demo_unhealthy: "wait_healthy demo_win n (health_timeout demo_options) =
    Some (Message ''Agent pipe did not report healthy before timeout'')"
  by (simp add: wait_healthy_def wait_for_healthy_def health_timeout_def bounded_by_def demo_win_def demo_options_def
      reports_healthy_def set_member_def)

lemma demo_calm: "first_failure (we_fault demo_win n) ls = None" "first_failure (win_fault demo_win n) ls = None"
    "win_fault demo_win n l = None" "we_fault demo_win n l = None" "we_cancelled demo_win n = None"
  by (induction ls) (simp_all add: demo_win_def win_fault_def)

lemma demo_selectors:
  "we_service demo_win n = Some SvcRunning" "we_polls demo_win n = [Inr SvcStopped]" "we_tray demo_win n" "we_probes demo_win n k = [EventGone]"
  "we_session demo_win n" "we_installer demo_win n i a fs = (None, fs(''/p/agent'' \<mapsto> ''new''))" "we_temp demo_win n d = ''/t''"
  by (simp_all add: demo_win_def)

lemma demo_calls: "stop_service demo_win n = None" "start_service demo_win n = None" "stop_tray demo_win n = (True, None)"
    "start_tray demo_win n = None" "run_installer demo_win n i a fs = (None, fs(''/p/agent'' \<mapsto> ''new''))"
  by (simp_all add: stop_service_def start_service_def stop_tray_def start_tray_def run_installer_def demo_calm demo_selectors
      del: first_failure.simps)

lemma demo_copy: "fs src = Some data \<Longrightarrow> copy_file_atomic demo_win n src dst sec fs = (None, fs(''/t'' := None, dst \<mapsto> data))"
  by (simp add: copy_file_atomic_def demo_calm demo_selectors Let_def del: first_failure.simps)

lemma demo_fine: "win_fine demo_win demo_options"
  by (simp add: win_fine_def demo_win_def demo_options_def marker_path_def)

lemma demo_paths: "hp_installer demo_options = ''/s/setup''" "hp_executable demo_options = ''/p/agent''"
    "hp_backup demo_options = ''/s/lkg''"
  by (simp_all add: demo_options_def)

lemma demo_ticks: "ho_ticks (win_ops demo_win) t i m = 0"
  by (simp add: win_ops_def demo_win_def)

lemma demo_update: "\<exists>e fs. helper_update (win_ops demo_win) demo_options \<lparr>mc_files = [''/p/agent'' \<mapsto> ''old''], mc_clock = 0, mc_trace = []\<rparr> =
    (Some e, \<lparr>mc_files = fs, mc_clock = 13, mc_trace = [(Stop, True), (StopTray, True), (Backup, True), (Install, True), (Configure, True),
       (Start, True), (Healthy, False), (Stop, True), (Restore, True), (Configure, True), (Start, True), (Healthy, False), (StartTray, True)]\<rparr>)"
  by (simp add: helper_update_def install_update_def rollback_helper_def restore_last_known_good_def report_cleanup_warning_def
      win_selectors win_tray_def act_def demo_calls demo_copy demo_paths demo_ticks join_errors_def demo_calm demo_unhealthy Let_def)

theorem update_taken_or_undone_witness:
  "win_fine demo_win demo_options \<and>
   (\<exists>e m1. helper_update (win_ops demo_win) demo_options \<lparr>mc_files = [''/p/agent'' \<mapsto> ''old''], mc_clock = 0, mc_trace = []\<rparr> = (Some e, m1) \<and>
      mc_files m1 ''/p/agent'' = Some ''old'')"
proof -
  let ?m = "\<lparr>mc_files = [''/p/agent'' \<mapsto> ''old''], mc_clock = 0, mc_trace = []\<rparr>"
  let ?evs = "[(Stop, True), (StopTray, True), (Backup, True), (Install, True), (Configure, True), (Start, True), (Healthy, False),
    (Stop, True), (Restore, True), (Configure, True), (Start, True), (Healthy, False), (StartTray, True)]"
  obtain e m1 where run: "helper_update (win_ops demo_win) demo_options ?m = (Some e, m1)" and "mc_trace m1 = ?evs"
    using demo_update by fastforce
  moreover have "run_phases Fresh ?evs = Some (Recovered True)" by simp
  ultimately have "mc_files m1 ''/p/agent'' = Some ''old''"
    using update_taken_or_undone [OF demo_fine run] by (simp add: demo_paths)
  with run demo_fine show ?thesis by blast
qed

end
