(* ===== verification/AgentController.thy ===== *)
theory AgentController
  imports AgentApp Release
begin

text \<open>
  The controller of the Agent, \<^verbatim>\<open>agent/internal/controller/controller.go\<close>: which configuration is in
  force, which worker and which pairing poll run, and when an update may be launched.  Each definition
  is one section of the code between a lock and its release; \<open>ControllerSteps\<close> composes them into steps that
  interleave.

  Locks and goroutines: \<open>ct_gate\<close> is the launch gate with what its holder does next, \<open>ct_enrolling\<close> the
  enrollment mutex with the call that holds it.  A context is cancelled when what it was made for is no
  longer current: a worker's when it is not \<open>ct_worker\<close> of the lifetime it was made in, a poll's when its
  generation is over.  Generations are counted in \<open>nat\<close>: the 64-bit counter of the code
  would need more reconfigurations than a machine can make to wrap around.
\<close>

section \<open>Errors and texts\<close>

datatype ctl_error = Plain go_error | Lifecycle string "go_error option"

fun ctl_text :: "ctl_error \<Rightarrow> string" where
  "ctl_text (Plain e) = error_text e"
| "ctl_text (Lifecycle m cause) = m"

definition removed :: string where "removed = ''[REDACTED]''"

definition redact :: "string \<Rightarrow> string list \<Rightarrow> string" where
  "redact value secrets =
     join (str_fields (fold (\<lambda>secret v. if secret \<noteq> [] then replace_all secret removed v else v) secrets value)) '' ''"

definition configuration_error :: "string \<Rightarrow> ctl_error" where
  "configuration_error m = Lifecycle m None"

definition operation_error :: "string \<Rightarrow> go_error \<Rightarrow> string list \<Rightarrow> ctl_error" where
  "operation_error operation cause secrets = Lifecycle (operation @ '': '' @ redact (error_text cause) secrets) (Some cause)"

section \<open>Data\<close>

record agent_status =
  as_state :: string
  as_node_id :: string
  as_server_url :: string
  as_version :: string
  as_last_heartbeat :: time
  as_error :: string

record update_status =
  up_available :: bool
  up_version :: string
  up_url :: string

definition no_status :: update_status where
  "no_status = \<lparr>up_available = False, up_version = [], up_url = []\<rparr>"

definition bare_status :: "string \<Rightarrow> string \<Rightarrow> string \<Rightarrow> string \<Rightarrow> agent_status" where
  "bare_status st node url err =
     \<lparr>as_state = st, as_node_id = node, as_server_url = url, as_version = [], as_last_heartbeat = 0, as_error = err\<rparr>"

text \<open>
  What \<^verbatim>\<open>New\<close> was given, with its defaults: which dependencies are there, how long a launched update is
  waited for, \<^verbatim>\<open>url.ParseRequestURI\<close> and the text of a URL of a scheme, a host and a path.
\<close>

record controller_deps =
  cd_parse_uri :: "string \<Rightarrow> parsed_url option"
  cd_uri_text :: "parsed_url \<Rightarrow> string"
  cd_pending_ttl :: duration
  cd_has_loader :: bool
  cd_has_writer :: bool
  cd_has_preflight :: bool
  cd_has_enroller :: bool
  cd_has_pairer :: bool
  cd_has_worker :: bool
  cd_has_update :: bool
  cd_url :: url_parser

text \<open>\<^verbatim>\<open>publicURL\<close>; an empty string for what may not be shown.\<close>

definition shown_url :: "controller_deps \<Rightarrow> string \<Rightarrow> string" where
  "shown_url d v =
     (if v = [] then []
      else case cd_parse_uri d v of
          None \<Rightarrow> []
        | Some u \<Rightarrow>
          if pu_host u = [] \<or> \<not> bare_url u \<or> \<not> http_scheme u then []
          else trim_right (CHR ''/'') (cd_uri_text d u))"

definition safe_status_error :: "string \<Rightarrow> string" where
  "safe_status_error v = (if v = [] then [] else ''agent operation failed'')"

definition safe_status :: "controller_deps \<Rightarrow> agent_status \<Rightarrow> agent_status" where
  "safe_status d s = s\<lparr>as_server_url := shown_url d (as_server_url s), as_error := safe_status_error (as_error s)\<rparr>"

definition valid_config :: "controller_deps \<Rightarrow> agent_config \<Rightarrow> bool" where
  "valid_config d c \<longleftrightarrow> shown_url d (cg_server_url c) \<noteq> [] \<and> cg_node_id c \<noteq> [] \<and> cg_credential c \<noteq> []"

abbreviation max_enrollment_token_bytes :: nat where "max_enrollment_token_bytes \<equiv> 4096"

definition validate_enrollment :: "controller_deps \<Rightarrow> string \<Rightarrow> string \<Rightarrow> ctl_error + string" where
  "validate_enrollment d url token =
     (if shown_url d url = [] then Inl (configuration_error ''server URL must use HTTP or HTTPS'')
      else if length token = 0 \<or> max_enrollment_token_bytes < length token
      then Inl (configuration_error ''enrollment token must be between 1 and 4096 bytes'')
      else Inr (shown_url d url))"

section \<open>The state\<close>

text \<open>What a commit of a configuration was asked by.\<close>

datatype commit =
    ByBootstrap
  | ByEnrollment string
  | ByPairing
  | ByApproval nat pending_pairing

text \<open>The holder of the launch gate.\<close>

datatype holder =
    Free
  | Booting
  | Saving agent_config commit
  | StartingWorker agent_config commit
  | StartingScheduler commit
  | Launching nat

datatype enroll_call =
    EnrollIdle
  | Enrolling string string
  | Pairing string
  | Ready agent_config commit
  | Committing

record worker_job =
  wj_id :: nat
  wj_lifetime :: nat
  wj_config :: agent_config

record flight =
  fl_generation :: nat
  fl_config :: agent_config
  fl_result :: "(update_status \<times> ctl_error option) option"

record controller =
  ct_gate :: holder
  ct_enrolling :: enroll_call
  ct_config :: agent_config
  ct_status :: agent_status
  ct_worker :: "nat option"
  ct_worker_id :: nat
  ct_lifetime :: nat
  ct_generation :: nat
  ct_shutting_down :: bool
  ct_flights :: "flight list"
  ct_flight :: "nat option"
  ct_pending :: "(update_status \<times> time) option"
  ct_workers :: "worker_job list"
  ct_polls :: "(nat \<times> pending_pairing) list"
  ct_schedulers :: "nat list"
  ct_restarts :: "agent_config list"

definition new_controller :: controller where
  "new_controller =
     \<lparr>ct_gate = Free, ct_enrolling = EnrollIdle, ct_config = zero_config, ct_status = bare_status ''stopped'' [] [] [],
      ct_worker = None, ct_worker_id = 0, ct_lifetime = 0, ct_generation = 1, ct_shutting_down = False,
      ct_flights = [], ct_flight = None, ct_pending = None, ct_workers = [], ct_polls = [], ct_schedulers = [], ct_restarts = []\<rparr>"

text \<open>Goroutines whose context is not cancelled.\<close>

definition worker_live :: "controller \<Rightarrow> worker_job \<Rightarrow> bool" where
  "worker_live c w \<longleftrightarrow> ct_worker c = Some (wj_id w) \<and> wj_lifetime w = ct_lifetime c \<and> \<not> ct_shutting_down c"

definition generation_live :: "controller \<Rightarrow> nat \<Rightarrow> bool" where
  "generation_live c g \<longleftrightarrow> g = ct_generation c \<and> \<not> ct_shutting_down c"

section \<open>Pending updates and generations\<close>

definition pending_within :: "controller_deps \<Rightarrow> time \<Rightarrow> controller \<Rightarrow> bool" where
  "pending_within d now c \<longleftrightarrow> (case ct_pending c of None \<Rightarrow> False | Some (st, since) \<Rightarrow> now < since + cd_pending_ttl d)"

text \<open>\<^verbatim>\<open>hasPendingUpdate\<close> also forgets an update that was not heard of again.\<close>

definition has_pending :: "controller_deps \<Rightarrow> time \<Rightarrow> controller \<Rightarrow> bool \<times> controller" where
  "has_pending d now c = (if pending_within d now c then (True, c) else (False, c\<lparr>ct_pending := None\<rparr>))"

definition invalidate_generation :: "controller \<Rightarrow> controller" where
  "invalidate_generation c =
     c\<lparr>ct_generation := Suc (ct_generation c), ct_config := zero_config,
       ct_flight := (case ct_flight c of
           None \<Rightarrow> None
         | Some i \<Rightarrow> if fl_generation (ct_flights c ! i) \<noteq> Suc (ct_generation c) then None else Some i),
       ct_pending := None\<rparr>"

definition activate_configuration :: "agent_config \<Rightarrow> controller \<Rightarrow> controller" where
  "activate_configuration cfg c = (invalidate_generation c)\<lparr>ct_config := cfg\<rparr>"

section \<open>Bootstrap\<close>

definition bootstrap_status :: "string \<Rightarrow> controller \<Rightarrow> controller" where
  "bootstrap_status st c =
     (if ct_shutting_down c then c
      else c\<lparr>ct_status := bare_status st [] [] (if st = ''degraded'' then ''configuration unavailable'' else [])\<rparr>)"

definition bootstrap_begin :: "controller_deps \<Rightarrow> time \<Rightarrow> controller \<Rightarrow> ctl_error option \<times> controller" where
  "bootstrap_begin d now c =
     (case has_pending d now c of
        (True, c1) \<Rightarrow> (Some (configuration_error ''cannot bootstrap while an update helper is pending''), c1)
      | (False, c1) \<Rightarrow>
        if ct_shutting_down c1 then (Some (configuration_error ''controller is shutting down''), c1)
        else (None, (invalidate_generation c1)\<lparr>ct_lifetime := Suc (ct_lifetime c1), ct_gate := Booting\<rparr>))"

text \<open>What was loaded; nothing when there is no loader.\<close>

definition bootstrap_loaded :: "controller_deps \<Rightarrow> time \<Rightarrow> agent_config res option \<Rightarrow> controller \<Rightarrow> controller" where
  "bootstrap_loaded d now loaded c =
     (let c1 = c\<lparr>ct_gate := Free\<rparr>
      in case loaded of
          None \<Rightarrow> bootstrap_status ''waiting'' c1
        | Some (Inl e) \<Rightarrow> bootstrap_status (if err_is ErrNotExist e then ''waiting'' else ''degraded'') c1
        | Some (Inr cfg) \<Rightarrow>
          if \<not> valid_config d cfg \<and> \<not> is_pending (cd_url d) cfg then bootstrap_status ''degraded'' c1
          else if is_pending (cd_url d) cfg
          then (let p = the (cg_pending cfg); c2 = c1\<lparr>ct_config := cfg\<rparr>
                in if \<not> now < pn_expires_at p then bootstrap_status ''pairing_expired'' c2
                   else if \<not> cd_has_pairer d then bootstrap_status ''degraded'' c2
                   else c2\<lparr>ct_status := bare_status ''pairing_recovery'' [] (shown_url d (pn_server_url p)) [],
                       ct_polls := (ct_generation c2, p) # ct_polls c2\<rparr>)
          else (let cfg1 = cfg\<lparr>cg_server_url := shown_url d (cg_server_url cfg)\<rparr>
                in c1\<lparr>ct_config := cfg1, ct_status := bare_status ''starting'' (cg_node_id cfg1) (cg_server_url cfg1) [],
                    ct_gate := StartingWorker cfg1 ByBootstrap\<rparr>))"

section \<open>Workers and the scheduler\<close>

definition start_worker :: "controller_deps \<Rightarrow> agent_config \<Rightarrow> controller \<Rightarrow> controller" where
  "start_worker d cfg c =
     (if ct_shutting_down c then c
      else if \<not> cd_has_worker d then c\<lparr>ct_status := (ct_status c)\<lparr>as_state := ''stopped''\<rparr>, ct_worker := None\<rparr>
      else let wid = Suc (ct_worker_id c)
           in c\<lparr>ct_worker_id := wid, ct_worker := Some wid, ct_status := (ct_status c)\<lparr>as_state := ''starting''\<rparr>,
               ct_workers := \<lparr>wj_id = wid, wj_lifetime = ct_lifetime c, wj_config = cfg\<rparr> # ct_workers c\<rparr>)"

text \<open>A worker returns; an error other than the cancellation is shown only for the current one.\<close>

definition worker_exit :: "nat \<Rightarrow> go_error option \<Rightarrow> controller \<Rightarrow> controller" where
  "worker_exit wid err c =
     (let c1 = c\<lparr>ct_workers := filter (\<lambda>w. wj_id w \<noteq> wid) (ct_workers c)\<rparr>
      in if ct_worker_id c \<noteq> wid then c1
         else case err of
             Some e \<Rightarrow>
               if \<not> err_is ContextCanceled e
               then c1\<lparr>ct_status := (ct_status c)\<lparr>as_state := ''error'', as_error := safe_status_error (error_text e)\<rparr>\<rparr>
               else c1\<lparr>ct_status := (ct_status c)\<lparr>as_state := ''stopped''\<rparr>\<rparr>
           | None \<Rightarrow> c1\<lparr>ct_status := (ct_status c)\<lparr>as_state := ''stopped''\<rparr>\<rparr>)"

definition snapshot_state :: "agent_state \<Rightarrow> string" where
  "snapshot_state s = (case s of StateStarting \<Rightarrow> ''starting'' | StateOnline \<Rightarrow> ''online'' | StateError \<Rightarrow> ''error'' | StateStopped \<Rightarrow> ''stopped'')"

definition report_status :: "controller_deps \<Rightarrow> status_snapshot \<Rightarrow> controller \<Rightarrow> controller" where
  "report_status d sn c =
     c\<lparr>ct_status := \<lparr>as_state = snapshot_state (sn_state sn), as_node_id = sn_node_id sn, as_server_url = shown_url d (sn_server_url sn),
         as_version = sn_version sn, as_last_heartbeat = sn_last_heartbeat sn, as_error = safe_status_error (sn_error sn)\<rparr>\<rparr>"

definition start_scheduler :: "controller_deps \<Rightarrow> controller \<Rightarrow> controller" where
  "start_scheduler d c =
     (if \<not> cd_has_update d \<or> ct_shutting_down c then c else c\<lparr>ct_schedulers := ct_generation c # ct_schedulers c\<rparr>)"

text \<open>How long the scheduler waits for its next check.\<close>

definition scheduler_pause :: "duration \<Rightarrow> duration \<Rightarrow> duration" where
  "scheduler_pause interval jitter = interval + (if jitter < 0 then 0 else if 10 * minute < jitter then 10 * minute else jitter)"

text \<open>\<^verbatim>\<open>RestartWorker\<close> reads the configuration and starts the worker in two sections.\<close>

definition restart_read :: "controller \<Rightarrow> ctl_error option \<times> controller" where
  "restart_read c =
     (if ct_shutting_down c then (Some (configuration_error ''controller is shutting down''), c)
      else if cg_server_url (ct_config c) = [] \<or> cg_node_id (ct_config c) = [] \<or> cg_credential (ct_config c) = []
      then (Some (configuration_error ''agent is not enrolled''), c)
      else (None, c\<lparr>ct_restarts := ct_config c # ct_restarts c\<rparr>))"

section \<open>Enrollment and pairing\<close>

text \<open>
  Up to the remote call, in which the enrollment mutex is held.  \<open>cancelled\<close> and \<open>preflight\<close> are the errors of the context
  and of \<^verbatim>\<open>PreflightConfig\<close>.
\<close>

definition enroll_checks ::
    "controller_deps \<Rightarrow> time \<Rightarrow> string \<Rightarrow> go_error option \<Rightarrow> go_error option \<Rightarrow> controller \<Rightarrow> ctl_error option \<times> controller" where
  "enroll_checks d now what cancelled preflight c =
     (case has_pending d now c of
        (True, c1) \<Rightarrow> (Some (configuration_error (''cannot '' @ what @ '' while an update helper is pending'')), c1)
      | (False, c1) \<Rightarrow>
        if ct_shutting_down c1 then (Some (configuration_error ''controller is shutting down''), c1)
        else if cancelled \<noteq> None then (map_option Plain cancelled, c1)
        else if \<not> cd_has_preflight d
        then (Some (operation_error ''prepare configuration'' (Message ''config preflight is required'') []), c1)
        else (map_option (\<lambda>e. operation_error ''prepare configuration'' e []) preflight, c1))"

definition begin_enroll ::
    "controller_deps \<Rightarrow> time \<Rightarrow> string \<Rightarrow> string \<Rightarrow> go_error option \<Rightarrow> go_error option \<Rightarrow> go_error option \<Rightarrow> controller \<Rightarrow>
     ctl_error option \<times> controller" where
  "begin_enroll d now url token cancelled cancelled_late preflight c =
     (case cancelled of
        Some e \<Rightarrow> (Some (Plain e), c)
      | None \<Rightarrow>
     (case validate_enrollment d url token of
        Inl e \<Rightarrow> (Some e, c)
      | Inr shown \<Rightarrow>
     (case enroll_checks d now ''enroll'' cancelled_late preflight c of
        (Some e, c1) \<Rightarrow> (Some e, c1)
      | (None, c1) \<Rightarrow>
        if \<not> cd_has_enroller d then (Some (configuration_error ''enrollment client is required''), c1)
        else if \<not> cd_has_writer d then (Some (configuration_error ''config writer is required''), c1)
        else (None, c1\<lparr>ct_enrolling := Enrolling shown token\<rparr>))))"

text \<open>The answer of the server: the node and its credential.\<close>

definition enroll_answered :: "(string \<times> string) res \<Rightarrow> controller \<Rightarrow> ctl_error option \<times> controller" where
  "enroll_answered answer c =
     (case ct_enrolling c of
        Enrolling url token \<Rightarrow>
          (case answer of
             Inl e \<Rightarrow> (Some (operation_error ''enroll agent'' e [token]), c\<lparr>ct_enrolling := EnrollIdle\<rparr>)
           | Inr (node, credential) \<Rightarrow>
             if node = [] \<or> credential = []
             then (Some (configuration_error ''enrollment response is incomplete''), c\<lparr>ct_enrolling := EnrollIdle\<rparr>)
             else (None, c\<lparr>ct_enrolling := Ready \<lparr>cg_server_url = url, cg_node_id = node, cg_credential = credential, cg_pending = None\<rparr>
                 (ByEnrollment token)\<rparr>))
      | _ \<Rightarrow> (None, c))"

text \<open>\<^verbatim>\<open>StartPairing\<close> checks its context before anything else; its checks have none in between.\<close>

definition begin_pairing ::
    "controller_deps \<Rightarrow> time \<Rightarrow> string \<Rightarrow> go_error option \<Rightarrow> go_error option \<Rightarrow> controller \<Rightarrow> ctl_error option \<times> controller" where
  "begin_pairing d now url cancelled preflight c =
     (if cancelled \<noteq> None then (map_option Plain cancelled, c)
      else if shown_url d url = [] then (Some (configuration_error ''server URL must use HTTP or HTTPS''), c)
      else case enroll_checks d now ''start pairing'' None preflight c of
          (Some e, c1) \<Rightarrow> (Some e, c1)
        | (None, c1) \<Rightarrow>
          if \<not> cd_has_pairer d then (Some (configuration_error ''pairing client is required''), c1)
          else if \<not> cd_has_writer d then (Some (configuration_error ''config writer is required''), c1)
          else (None, c1\<lparr>ct_enrolling := Pairing (shown_url d url)\<rparr>))"

text \<open>The pairing that the server created: its identifier, the credential and when it expires.\<close>

definition pairing_answered :: "time \<Rightarrow> (string \<times> string \<times> time) res \<Rightarrow> controller \<Rightarrow> ctl_error option \<times> controller" where
  "pairing_answered now answer c =
     (case ct_enrolling c of
        Pairing url \<Rightarrow>
          (case answer of
             Inl e \<Rightarrow> (Some (operation_error ''start pairing'' e []), c\<lparr>ct_enrolling := EnrollIdle\<rparr>)
           | Inr (pid, credential, expires) \<Rightarrow>
             if pid = [] \<or> credential = [] \<or> \<not> now < expires
             then (Some (configuration_error ''pairing response is incomplete''), c\<lparr>ct_enrolling := EnrollIdle\<rparr>)
             else (None, c\<lparr>ct_enrolling := Ready (zero_config\<lparr>cg_pending := Some
                 \<lparr>pn_server_url = url, pn_pairing_id = pid, pn_credential = credential, pn_expires_at = expires\<rparr>\<rparr>) ByPairing\<rparr>))
      | _ \<Rightarrow> (None, c))"

text \<open>The launch gate is free and taken for the commit.\<close>

definition commit_begin :: "controller_deps \<Rightarrow> time \<Rightarrow> controller \<Rightarrow> ctl_error option \<times> controller" where
  "commit_begin d now c =
     (case ct_enrolling c of
        Ready cfg by \<Rightarrow>
          (case has_pending d now c of
             (True, c1) \<Rightarrow>
               (Some (configuration_error (''cannot '' @ (if by = ByPairing then ''start pairing'' else ''enroll'') @
                  '' while an update helper is pending'')), c1\<lparr>ct_enrolling := EnrollIdle\<rparr>)
           | (False, c1) \<Rightarrow> (None, c1\<lparr>ct_gate := Saving cfg by, ct_enrolling := Committing\<rparr>))
      | _ \<Rightarrow> (None, c))"

definition pairing_current :: "nat \<Rightarrow> string \<Rightarrow> controller \<Rightarrow> bool" where
  "pairing_current g pid c \<longleftrightarrow> ct_generation c = g \<and> \<not> ct_shutting_down c \<and>
     (case cg_pending (ct_config c) of None \<Rightarrow> False | Some p \<Rightarrow> pn_pairing_id p = pid)"

definition pairing_terminal :: "controller_deps \<Rightarrow> nat \<Rightarrow> string \<Rightarrow> string \<Rightarrow> controller \<Rightarrow> controller" where
  "pairing_terminal d g pid st c =
     (if pairing_current g pid c
      then c\<lparr>ct_status := bare_status st [] (shown_url d (pn_server_url (the (cg_pending (ct_config c))))) []\<rparr> else c)"

text \<open>
  What follows the save of the configuration.  The second look at the pairing repeats the one in
  front of the save.
\<close>

definition commit_saved :: "controller_deps \<Rightarrow> go_error option \<Rightarrow> controller \<Rightarrow> ctl_error option \<times> controller" where
  "commit_saved d r c =
     (case ct_gate c of
        Saving cfg by \<Rightarrow>
          (let starting = bare_status ''starting'' (cg_node_id cfg) (cg_server_url cfg) []
           in case by of
               ByEnrollment token \<Rightarrow>
                 (case r of
                    Some e \<Rightarrow> (Some (operation_error ''save agent configuration'' e [token, cg_credential cfg]),
                      c\<lparr>ct_gate := Free, ct_enrolling := EnrollIdle\<rparr>)
                  | None \<Rightarrow> (None, (activate_configuration cfg c)\<lparr>ct_status := starting, ct_gate := StartingWorker cfg by\<rparr>))
             | ByPairing \<Rightarrow>
                 (let p = the (cg_pending cfg)
                  in case r of
                      Some e \<Rightarrow> (Some (operation_error ''save pairing configuration'' e [pn_credential p]),
                        c\<lparr>ct_gate := Free, ct_enrolling := EnrollIdle\<rparr>)
                    | None \<Rightarrow>
                      (let c1 = activate_configuration cfg c
                       in (None, c1\<lparr>ct_status := bare_status ''waiting_for_approval'' [] (pn_server_url p) [], ct_gate := Free,
                            ct_enrolling := EnrollIdle, ct_polls := (ct_generation c1, p) # ct_polls c1\<rparr>)))
             | ByApproval g p \<Rightarrow>
                 (case r of
                    Some e \<Rightarrow> (None, (pairing_terminal d g (pn_pairing_id p) ''error'' c)\<lparr>ct_gate := Free\<rparr>)
                  | None \<Rightarrow>
                    if \<not> pairing_current g (pn_pairing_id p) c then (None, c\<lparr>ct_gate := Free\<rparr>)
                    else (None, (activate_configuration cfg c)\<lparr>ct_status := starting, ct_gate := StartingWorker cfg by\<rparr>))
             | ByBootstrap \<Rightarrow> (None, c))
      | _ \<Rightarrow> (None, c))"

text \<open>The holder of the gate starts the worker and the scheduler; then it is done.\<close>

definition holder_starts :: "controller_deps \<Rightarrow> controller \<Rightarrow> controller" where
  "holder_starts d c =
     (case ct_gate c of
        StartingWorker cfg by \<Rightarrow> (start_worker d cfg c)\<lparr>ct_gate := StartingScheduler by\<rparr>
      | StartingScheduler by \<Rightarrow>
          (start_scheduler d c)\<lparr>ct_gate := Free,
             ct_enrolling := (case by of ByEnrollment t \<Rightarrow> EnrollIdle | _ \<Rightarrow> ct_enrolling c)\<rparr>
      | _ \<Rightarrow> c)"

section \<open>The pairing poll\<close>

text \<open>What a poll comes to: it goes on, it ends in a state, or the pairing is approved for a node.\<close>

datatype poll_verdict = PollAgain | PollEnds string | PollApproved string

definition judge_poll :: "time \<Rightarrow> pending_pairing \<Rightarrow> pairing_poll_result res \<Rightarrow> poll_verdict" where
  "judge_poll now p answer =
     (if \<not> now < pn_expires_at p then PollEnds ''pairing_expired''
      else case answer of
          Inl e \<Rightarrow>
            if err_is ErrPairingRejected e then PollEnds ''pairing_rejected''
            else if err_is ErrPairingExpired e then PollEnds ''pairing_expired'' else PollAgain
        | Inr r \<Rightarrow>
          (case pp_state r of
             PairingApproved \<Rightarrow>
               (case pp_node r of None \<Rightarrow> PollAgain | Some n \<Rightarrow> if nd_id n = [] then PollAgain else PollApproved (nd_id n))
           | PairingRejected \<Rightarrow> PollEnds ''pairing_rejected''
           | PairingExpired \<Rightarrow> PollEnds ''pairing_expired''
           | _ \<Rightarrow> PollAgain))"

text \<open>\<^verbatim>\<open>approvePairing\<close> with the gate in its hand; the poll is over in any case.\<close>

definition approve_begin :: "nat \<Rightarrow> pending_pairing \<Rightarrow> string \<Rightarrow> controller \<Rightarrow> controller" where
  "approve_begin g p node c =
     (let c1 = c\<lparr>ct_polls := remove1 (g, p) (ct_polls c)\<rparr>
      in if \<not> pairing_current g (pn_pairing_id p) c then c1
         else c1\<lparr>ct_gate := Saving \<lparr>cg_server_url = pn_server_url p, cg_node_id = node, cg_credential = pn_credential p, cg_pending = None\<rparr>
             (ByApproval g p)\<rparr>)"

definition poll_ends :: "controller_deps \<Rightarrow> nat \<Rightarrow> pending_pairing \<Rightarrow> string \<Rightarrow> controller \<Rightarrow> controller" where
  "poll_ends d g p st c = (pairing_terminal d g (pn_pairing_id p) st c)\<lparr>ct_polls := remove1 (g, p) (ct_polls c)\<rparr>"

section \<open>Updates\<close>

text \<open>What a call of \<^verbatim>\<open>CheckUpdate\<close> comes to: an error, a flight it waits for, or the update that is pending.\<close>

datatype check_answer = Refused ctl_error | Waiting nat | Known update_status

definition begin_check :: "controller_deps \<Rightarrow> time \<Rightarrow> controller \<Rightarrow> check_answer \<times> controller" where
  "begin_check d now c =
     (if \<not> cd_has_update d then (Refused (configuration_error ''update checker is required''), c)
      else if ct_shutting_down c then (Refused (configuration_error ''controller is shutting down''), c)
      else let fresh = (Waiting (length (ct_flights c)),
             c\<lparr>ct_flights := ct_flights c @ [\<lparr>fl_generation = ct_generation c, fl_config = ct_config c, fl_result = None\<rparr>],
               ct_flight := Some (length (ct_flights c))\<rparr>)
           in case (case ct_flight c of
                      Some i \<Rightarrow> if fl_generation (ct_flights c ! i) = ct_generation c then Some i else None
                    | None \<Rightarrow> None) of
               Some i \<Rightarrow> (Waiting i, c)
             | None \<Rightarrow>
               (case ct_pending c of
                  Some (st, since) \<Rightarrow> if pending_within d now c then (Known st, c) else fresh
                | None \<Rightarrow> fresh))"

text \<open>\<^verbatim>\<open>authorizeUpdateLaunch\<close>: the gate stays with the flight until it reports back.\<close>

definition authorize :: "controller_deps \<Rightarrow> time \<Rightarrow> nat \<Rightarrow> controller \<Rightarrow> ctl_error option \<times> controller" where
  "authorize d now i c =
     (if ct_shutting_down c \<or> ct_generation c \<noteq> fl_generation (ct_flights c ! i)
      then (Some (configuration_error ''update configuration changed before helper launch''), c)
      else if pending_within d now c then (Some (configuration_error ''an update helper is already pending''), c)
      else (None, c\<lparr>ct_gate := Launching i\<rparr>))"

definition finish_launch :: "controller_deps \<Rightarrow> time \<Rightarrow> update_status \<Rightarrow> bool \<Rightarrow> controller \<Rightarrow> controller" where
  "finish_launch d now st launched c =
     (if launched
      then c\<lparr>ct_status := (ct_status c)\<lparr>as_state := ''updating'', as_error := []\<rparr>,
          ct_pending := Some (st\<lparr>up_url := shown_url d (up_url st)\<rparr>, now), ct_gate := Free\<rparr>
      else c\<lparr>ct_gate := Free\<rparr>)"

definition end_flight :: "controller_deps \<Rightarrow> nat \<Rightarrow> update_status \<Rightarrow> go_error option \<Rightarrow> controller \<Rightarrow> controller" where
  "end_flight d i st err c =
     (let fl = ct_flights c ! i;
          result = (if ct_generation c \<noteq> fl_generation fl then (no_status, Some (configuration_error ''update configuration changed''))
            else (st\<lparr>up_url := shown_url d (up_url st)\<rparr>,
                  map_option (\<lambda>e. operation_error ''check for updates'' e [cg_credential (fl_config fl)]) err))
      in c\<lparr>ct_flights := (ct_flights c)[i := fl\<lparr>fl_result := Some result\<rparr>],
           ct_flight := (if ct_flight c = Some i then None else ct_flight c)\<rparr>)"

section \<open>Shutdown and diagnostics\<close>

definition shutdown :: "controller \<Rightarrow> controller" where
  "shutdown c = c\<lparr>ct_shutting_down := True\<rparr>"

definition shown_status :: "controller_deps \<Rightarrow> controller \<Rightarrow> agent_status" where
  "shown_status d c = safe_status d (ct_status c)"

definition create_diagnostics :: "(agent_status \<Rightarrow> string res) option \<Rightarrow> controller_deps \<Rightarrow> controller \<Rightarrow> ctl_error + string" where
  "create_diagnostics creator d c =
     (case creator of
        None \<Rightarrow> Inl (configuration_error ''diagnostics creator is required'')
      | Some create \<Rightarrow>
        (case create (shown_status d c) of
           Inl e \<Rightarrow> Inl (operation_error ''create diagnostics'' e [cg_credential (ct_config c)])
         | Inr path \<Rightarrow> Inr path))"

end
