(* ===== verification/ControllerSteps.thy ===== *)
theory ControllerSteps
  imports AgentController
begin

text \<open>
  How the sections of the controller interleave, the invariant of its reachable states, and what
  follows for updates, reconfigurations and the shutdown.
\<close>

section \<open>Steps\<close>

inductive ctl_step :: "controller_deps \<Rightarrow> controller \<Rightarrow> controller \<Rightarrow> bool" for d where
  bootstrap: "ct_gate c = Free \<Longrightarrow> bootstrap_begin d now c = (r, c1) \<Longrightarrow> ctl_step d c c1"
| loaded: "ct_gate c = Booting \<Longrightarrow> (l = None \<longleftrightarrow> \<not> cd_has_loader d) \<Longrightarrow> ctl_step d c (bootstrap_loaded d now l c)"
| enroll: "ct_enrolling c = EnrollIdle \<Longrightarrow> begin_enroll d now url token e1 e2 e3 c = (r, c1) \<Longrightarrow> ctl_step d c c1"
| enrolled: "ct_enrolling c = Enrolling url token \<Longrightarrow> enroll_answered a c = (r, c1) \<Longrightarrow> ctl_step d c c1"
| pair: "ct_enrolling c = EnrollIdle \<Longrightarrow> begin_pairing d now url e1 e2 c = (r, c1) \<Longrightarrow> ctl_step d c c1"
| paired: "ct_enrolling c = Pairing url \<Longrightarrow> pairing_answered now pa c = (r, c1) \<Longrightarrow> ctl_step d c c1"
| abandon: "ct_enrolling c = Ready cfg by \<Longrightarrow> ctl_step d c (c\<lparr>ct_enrolling := EnrollIdle\<rparr>)"
| commit: "ct_gate c = Free \<Longrightarrow> ct_enrolling c = Ready cfg by \<Longrightarrow> commit_begin d now c = (r, c1) \<Longrightarrow> ctl_step d c c1"
| saved: "ct_gate c = Saving cfg by \<Longrightarrow> commit_saved d e c = (r, c1) \<Longrightarrow> ctl_step d c c1"
| starts: "ct_gate c = StartingWorker cfg by \<or> ct_gate c = StartingScheduler by \<Longrightarrow> ctl_step d c (holder_starts d c)"
| exits: "w \<in> set (ct_workers c) \<Longrightarrow> ctl_step d c (worker_exit (wj_id w) e c)"
| reports: "w \<in> set (ct_workers c) \<Longrightarrow> ctl_step d c (report_status d sn c)"
| restart: "restart_read c = (r, c1) \<Longrightarrow> ctl_step d c c1"
| restarts: "cfg \<in> set (ct_restarts c) \<Longrightarrow> ctl_step d c (start_worker d cfg (c\<lparr>ct_restarts := remove1 cfg (ct_restarts c)\<rparr>))"
| poll_end: "(g, p) \<in> set (ct_polls c) \<Longrightarrow> judge_poll now p pr = PollEnds st \<Longrightarrow> ctl_step d c (poll_ends d g p st c)"
| poll_approve: "(g, p) \<in> set (ct_polls c) \<Longrightarrow> judge_poll now p pr = PollApproved node \<Longrightarrow> ct_gate c = Free \<Longrightarrow>
    ctl_step d c (approve_begin g p node c)"
| poll_leave: "(g, p) \<in> set (ct_polls c) \<Longrightarrow> \<not> generation_live c g \<Longrightarrow> ctl_step d c (c\<lparr>ct_polls := remove1 (g, p) (ct_polls c)\<rparr>)"
| check: "ct_gate c = Free \<Longrightarrow> begin_check d now c = (a, c1) \<Longrightarrow> ctl_step d c c1"
| authorized: "ct_gate c = Free \<Longrightarrow> i < length (ct_flights c) \<Longrightarrow> fl_result (ct_flights c ! i) = None \<Longrightarrow>
    authorize d now i c = (r, c1) \<Longrightarrow> ctl_step d c c1"
| finished: "ct_gate c = Launching i \<Longrightarrow> ctl_step d c (finish_launch d now st launched c)"
| landed: "ct_gate c = Free \<Longrightarrow> i < length (ct_flights c) \<Longrightarrow> fl_result (ct_flights c ! i) = None \<Longrightarrow>
    ctl_step d c (end_flight d i st e c)"
| scheduler_leave: "g \<in> set (ct_schedulers c) \<Longrightarrow> ctl_step d c (c\<lparr>ct_schedulers := remove1 g (ct_schedulers c)\<rparr>)"
| shut_down: "ct_gate c = Free \<Longrightarrow> ctl_step d c (shutdown c)"

inductive ctl_reachable :: "controller_deps \<Rightarrow> controller \<Rightarrow> bool" for d where
  initially: "ctl_reachable d new_controller"
| step: "ctl_reachable d c \<Longrightarrow> ctl_step d c c1 \<Longrightarrow> ctl_reachable d c1"

section \<open>What a section keeps\<close>

text \<open>
  The invariant only looks at the fields of the gate, the enrollment, the configuration, the generation, the
  shutdown, the flights and the pending update; most sections leave all of them alone.
\<close>

definition core :: "controller \<Rightarrow> holder \<times> enroll_call \<times> agent_config \<times> nat \<times> bool \<times> flight list \<times> nat option \<times> (update_status \<times> time) option" where
  "core c = (ct_gate c, ct_enrolling c, ct_config c, ct_generation c, ct_shutting_down c, ct_flights c, ct_flight c, ct_pending c)"

lemma core_kept:
  "core (start_worker d cfg c) = core c" "core (worker_exit wid e c) = core c" "core (report_status d sn c) = core c"
  "core (start_scheduler d c) = core c" "core (bootstrap_status st c) = core c" "core (pairing_terminal d g pid st c) = core c"
  "core (poll_ends d g p st c) = core c"
  by (simp_all add: core_def start_worker_def worker_exit_def report_status_def start_scheduler_def bootstrap_status_def
      pairing_terminal_def poll_ends_def Let_def split: option.splits)

lemma core_updates [simp]:
  "core (c\<lparr>ct_workers := x1\<rparr>) = core c" "core (c\<lparr>ct_polls := x2\<rparr>) = core c" "core (c\<lparr>ct_schedulers := x3\<rparr>) = core c"
  "core (c\<lparr>ct_restarts := x4\<rparr>) = core c" "core (c\<lparr>ct_status := x5\<rparr>) = core c" "core (c\<lparr>ct_worker := x6\<rparr>) = core c"
  "core (c\<lparr>ct_lifetime := x7\<rparr>) = core c"
  by (simp_all add: core_def)

lemma core_restart: "restart_read c = (r, c1) \<Longrightarrow> core c1 = core c"
  by (auto simp: restart_read_def core_def split: if_splits)

section \<open>The invariant\<close>

text \<open>
  The flights: none is of a later generation, those of the current one took the configuration in force, and
  the current flight is the only one of them without a result.  \<open>loading\<close>: the configuration is not known yet.
\<close>

definition flight_wf :: "nat \<Rightarrow> agent_config \<Rightarrow> bool \<Rightarrow> nat option \<Rightarrow> nat \<Rightarrow> flight \<Rightarrow> bool" where
  "flight_wf g cfg loading current i fl \<longleftrightarrow>
     fl_generation fl < g \<and> current \<noteq> Some i \<or>
     fl_generation fl = g \<and> fl_config fl = cfg \<and> \<not> loading \<and> (fl_result fl = None \<longleftrightarrow> current = Some i)"

definition all_flights_wf :: "nat \<Rightarrow> agent_config \<Rightarrow> bool \<Rightarrow> nat option \<Rightarrow> flight list \<Rightarrow> bool" where
  "all_flights_wf g cfg loading current fls \<longleftrightarrow>
     (\<forall>i < length fls. flight_wf g cfg loading current i (fls ! i)) \<and> (\<forall>i. current = Some i \<longrightarrow> i < length fls)"

definition flights_wf :: "controller \<Rightarrow> bool" where
  "flights_wf c \<longleftrightarrow> all_flights_wf (ct_generation c) (ct_config c) (ct_gate c = Booting) (ct_flight c) (ct_flights c)"

lemma flights_next: "all_flights_wf g cfg b cur fls \<Longrightarrow> all_flights_wf (Suc g) cfg1 b1 None fls"
  by (auto simp: all_flights_wf_def flight_wf_def)

lemma flights_loaded: "all_flights_wf g cfg True cur fls \<Longrightarrow> all_flights_wf g cfg1 False cur fls"
  by (auto simp: all_flights_wf_def flight_wf_def)

lemma flights_ready: "all_flights_wf g cfg b cur fls \<Longrightarrow> all_flights_wf g cfg False cur fls"
  by (auto simp: all_flights_wf_def flight_wf_def)

lemma flights_start:
  "all_flights_wf g cfg False None fls \<Longrightarrow>
   all_flights_wf g cfg False (Some (length fls)) (fls @ [\<lparr>fl_generation = g, fl_config = cfg, fl_result = None\<rparr>])"
  by (auto simp: all_flights_wf_def flight_wf_def nth_append less_Suc_eq)

lemma flights_end:
  assumes "all_flights_wf g cfg False cur fls" and "i < length fls" and "fl_result (fls ! i) = None"
  shows "all_flights_wf g cfg False (if cur = Some i then None else cur) (fls[i := (fls ! i)\<lparr>fl_result := Some r\<rparr>])"
  using assms by (auto simp: all_flights_wf_def flight_wf_def nth_list_update)

lemma flights_current: "all_flights_wf g cfg b (Some i) fls \<Longrightarrow>
    i < length fls \<and> fl_generation (fls ! i) = g \<and> fl_config (fls ! i) = cfg \<and> \<not> b \<and> fl_result (fls ! i) = None"
  by (auto simp: all_flights_wf_def flight_wf_def)

definition gate_wf :: "controller \<Rightarrow> bool" where
  "gate_wf c \<longleftrightarrow>
     (case ct_gate c of
        Free \<Rightarrow> True
      | Booting \<Rightarrow> ct_pending c = None \<and> \<not> ct_shutting_down c
      | Saving cfg by \<Rightarrow>
          (case by of
             ByBootstrap \<Rightarrow> False
           | ByApproval g p \<Rightarrow> pairing_current g (pn_pairing_id p) c
           | _ \<Rightarrow> ct_pending c = None)
      | StartingWorker cfg by \<Rightarrow> ct_pending c = None \<and> ct_config c = cfg \<and> by \<noteq> ByPairing
      | StartingScheduler by \<Rightarrow> ct_pending c = None \<and> by \<noteq> ByPairing
      | Launching i \<Rightarrow> ct_flight c = Some i \<and> \<not> ct_shutting_down c)"

text \<open>The enrollment mutex and the gate go together in a commit.\<close>

definition enrolls :: "commit \<Rightarrow> bool" where
  "enrolls by \<longleftrightarrow> (case by of ByEnrollment t \<Rightarrow> True | ByPairing \<Rightarrow> True | _ \<Rightarrow> False)"

definition committing :: "holder \<Rightarrow> bool" where
  "committing h \<longleftrightarrow>
     (case h of Saving cfg by \<Rightarrow> enrolls by | StartingWorker cfg by \<Rightarrow> enrolls by | StartingScheduler by \<Rightarrow> enrolls by | _ \<Rightarrow> False)"

definition ready_wf :: "enroll_call \<Rightarrow> bool" where
  "ready_wf e \<longleftrightarrow> (case e of Ready cfg by \<Rightarrow> enrolls by | _ \<Rightarrow> True)"

definition enrolling_wf :: "controller \<Rightarrow> bool" where
  "enrolling_wf c \<longleftrightarrow> ready_wf (ct_enrolling c) \<and> (ct_enrolling c = Committing \<longleftrightarrow> committing (ct_gate c))"

lemma holder_simps [simp]:
  "enrolls ByBootstrap = False" "enrolls (ByApproval g p) = False" "enrolls ByPairing = True" "enrolls (ByEnrollment t) = True"
  "committing Free = False" "committing Booting = False" "committing (Launching i) = False" "committing (Saving cfg by) = enrolls by"
  "committing (StartingWorker cfg by) = enrolls by" "committing (StartingScheduler by) = enrolls by"
  "ready_wf EnrollIdle" "ready_wf (Enrolling url token)" "ready_wf (Pairing url)" "ready_wf Committing" "ready_wf (Ready cfg by) = enrolls by"
  by (simp_all add: enrolls_def committing_def ready_wf_def)

definition ctl_invariant :: "controller \<Rightarrow> bool" where
  "ctl_invariant c \<longleftrightarrow> flights_wf c \<and> gate_wf c \<and> enrolling_wf c"

lemma invariant_core:
  assumes "core c1 = core c"
  shows "ctl_invariant c1 = ctl_invariant c"
proof -
  have same: "ct_gate c1 = ct_gate c" "ct_enrolling c1 = ct_enrolling c" "ct_config c1 = ct_config c" "ct_generation c1 = ct_generation c"
    "ct_shutting_down c1 = ct_shutting_down c" "ct_flights c1 = ct_flights c" "ct_flight c1 = ct_flight c" "ct_pending c1 = ct_pending c"
    using assms by (simp_all add: core_def)
  show ?thesis
    unfolding ctl_invariant_def flights_wf_def gate_wf_def enrolling_wf_def pairing_current_def same by (rule refl)
qed

text \<open>Rules for states whose gate or enrollment changes, field by field.\<close>

lemma has_pending_core: "has_pending d now c = (b, c1) \<Longrightarrow> (b \<longrightarrow> c1 = c) \<and> (\<not> b \<longrightarrow> c1 = c\<lparr>ct_pending := None\<rparr>)"
  by (auto simp: has_pending_def split: if_splits)

lemma pairing_current_kept [simp]:
  "pairing_current g pid (c\<lparr>ct_pending := x1\<rparr>) = pairing_current g pid c" "pairing_current g pid (c\<lparr>ct_enrolling := x2\<rparr>) = pairing_current g pid c"
  "pairing_current g pid (c\<lparr>ct_gate := x3\<rparr>) = pairing_current g pid c"
  by (simp_all add: pairing_current_def)

lemma gate_wf_kept [simp]: "gate_wf (c\<lparr>ct_enrolling := e\<rparr>) = gate_wf c" "gate_wf c \<Longrightarrow> gate_wf (c\<lparr>ct_pending := None\<rparr>)"
  by (cases "ct_gate c"; auto simp: gate_wf_def split: commit.splits)+

lemma flights_wf_kept [simp]:
  "flights_wf (c\<lparr>ct_enrolling := e\<rparr>) = flights_wf c" "flights_wf (c\<lparr>ct_pending := p\<rparr>) = flights_wf c"
  "h \<noteq> Booting \<Longrightarrow> flights_wf c \<Longrightarrow> flights_wf (c\<lparr>ct_gate := h\<rparr>)"
  by (simp_all add: flights_wf_def flights_ready)

lemma enrolling_wf_kept [simp]:
  "enrolling_wf (c\<lparr>ct_pending := p\<rparr>) = enrolling_wf c"
  by (simp add: enrolling_wf_def)

lemma invariant_forget: "ctl_invariant c \<Longrightarrow> ctl_invariant (c\<lparr>ct_pending := None\<rparr>)"
  by (simp add: ctl_invariant_def)

lemma invariant_idle: "ctl_invariant c \<Longrightarrow> ct_enrolling c \<noteq> Committing \<Longrightarrow> e \<noteq> Committing \<Longrightarrow> ready_wf e \<Longrightarrow> ctl_invariant (c\<lparr>ct_enrolling := e\<rparr>)"
  by (simp add: ctl_invariant_def enrolling_wf_def)

lemma invariant_new: "ctl_invariant new_controller"
  by (simp add: ctl_invariant_def flights_wf_def all_flights_wf_def gate_wf_def enrolling_wf_def new_controller_def)

lemma invariant_invalidate:
  assumes "ctl_invariant c" and "h = Booting \<and> \<not> ct_shutting_down c \<or> (\<exists>by. h = StartingWorker cfg by \<and> by \<noteq> ByPairing) \<or> h = Free"
    and "ct_enrolling c = Committing \<longleftrightarrow> committing h"
  shows "ctl_invariant ((activate_configuration cfg c)\<lparr>ct_gate := h\<rparr>)"
proof -
  let ?c = "(activate_configuration cfg c)\<lparr>ct_gate := h\<rparr>"
  have f: "all_flights_wf (ct_generation c) (ct_config c) (ct_gate c = Booting) (ct_flight c) (ct_flights c)"
    using assms(1) by (simp add: ctl_invariant_def flights_wf_def)
  have "ct_flight ?c = None"
    using flights_current f by (cases "ct_flight c") (auto simp: activate_configuration_def invalidate_generation_def)
  moreover have "ct_flights ?c = ct_flights c" "ct_generation ?c = Suc (ct_generation c)"
    by (simp_all add: activate_configuration_def invalidate_generation_def)
  ultimately have "flights_wf ?c" unfolding flights_wf_def using flights_next [OF f] by simp
  moreover have "gate_wf ?c"
    using assms(2) by (auto simp: activate_configuration_def invalidate_generation_def gate_wf_def)
  moreover have "enrolling_wf ?c"
    using assms(1,3) by (simp add: activate_configuration_def invalidate_generation_def ctl_invariant_def enrolling_wf_def)
  ultimately show ?thesis by (simp add: ctl_invariant_def)
qed

lemma free_not_committing: "ctl_invariant c \<Longrightarrow> \<not> committing (ct_gate c) \<Longrightarrow> ct_enrolling c \<noteq> Committing"
  by (simp add: ctl_invariant_def enrolling_wf_def)

lemma activate_zero: "activate_configuration zero_config c = invalidate_generation c"
  by (simp add: activate_configuration_def invalidate_generation_def)

lemma bootstrap_keeps:
  assumes "ctl_invariant c" and "ct_gate c = Free" and "bootstrap_begin d now c = (r, c1)"
  shows "ctl_invariant c1"
proof -
  obtain b c2 where p: "has_pending d now c = (b, c2)" by fastforce
  have c2: "ctl_invariant c2" "ct_gate c2 = Free" "ct_shutting_down c2 = ct_shutting_down c"
    using has_pending_core [OF p] assms(1,2) invariant_forget by (cases b; simp)+
  have "ctl_invariant ((activate_configuration zero_config c2)\<lparr>ct_gate := Booting\<rparr>)" if "\<not> ct_shutting_down c2"
    using invariant_invalidate [OF c2(1), of Booting zero_config] free_not_committing [OF c2(1)] c2(2) that by simp
  then have "ctl_invariant ((invalidate_generation c2)\<lparr>ct_lifetime := Suc (ct_lifetime c2), ct_gate := Booting\<rparr>)"
    if "\<not> ct_shutting_down c2"
    using that invariant_core [of "(invalidate_generation c2)\<lparr>ct_lifetime := Suc (ct_lifetime c2), ct_gate := Booting\<rparr>"
        "(invalidate_generation c2)\<lparr>ct_gate := Booting\<rparr>"] by (simp add: activate_zero core_def)
  with assms(3) p c2 show ?thesis by (cases b) (auto simp: bootstrap_begin_def split: if_splits)
qed

lemma loaded_core:
  "\<exists>cfg. core (bootstrap_loaded d now l c) \<in> {core (c\<lparr>ct_gate := Free\<rparr>), core (c\<lparr>ct_gate := Free, ct_config := cfg\<rparr>),
      core (c\<lparr>ct_gate := StartingWorker cfg ByBootstrap, ct_config := cfg\<rparr>)}"
proof (cases l)
  case None
  then show ?thesis by (simp add: bootstrap_loaded_def core_kept)
next
  case (Some x)
  show ?thesis
  proof (cases x)
    case (Inl e)
    with Some show ?thesis by (simp add: bootstrap_loaded_def core_kept)
  next
    case (Inr cfg)
    let ?cfg = "cfg\<lparr>cg_server_url := shown_url d (cg_server_url cfg)\<rparr>"
    have "core (bootstrap_loaded d now l c) \<in> {core (c\<lparr>ct_gate := Free\<rparr>), core (c\<lparr>ct_gate := Free, ct_config := cfg\<rparr>),
        core (c\<lparr>ct_gate := StartingWorker ?cfg ByBootstrap, ct_config := ?cfg\<rparr>)}"
      using Some Inr by (simp add: bootstrap_loaded_def core_kept Let_def) (simp add: core_def)
    then show ?thesis by blast
  qed
qed

lemma loaded_keeps:
  assumes "ctl_invariant c" and "ct_gate c = Booting"
  shows "ctl_invariant (bootstrap_loaded d now l c)"
proof -
  have e: "enrolling_wf (c\<lparr>ct_gate := Free\<rparr>)" "ct_pending c = None"
    using assms by (simp_all add: ctl_invariant_def enrolling_wf_def gate_wf_def)
  have w: "ctl_invariant (c\<lparr>ct_gate := Free\<rparr>)" "ctl_invariant (c\<lparr>ct_gate := Free, ct_config := cfg\<rparr>)"
      "ctl_invariant (c\<lparr>ct_gate := StartingWorker cfg ByBootstrap, ct_config := cfg\<rparr>)" for cfg
    using assms e flights_loaded by (auto simp: ctl_invariant_def flights_wf_def gate_wf_def enrolling_wf_def)
  obtain cfg where "core (bootstrap_loaded d now l c) \<in> {core (c\<lparr>ct_gate := Free\<rparr>), core (c\<lparr>ct_gate := Free, ct_config := cfg\<rparr>),
      core (c\<lparr>ct_gate := StartingWorker cfg ByBootstrap, ct_config := cfg\<rparr>)}"
    using loaded_core [of d now l c] by blast
  then obtain x where "core (bootstrap_loaded d now l c) = core x" "ctl_invariant x" using w by blast
  then show ?thesis using invariant_core by blast
qed

lemma checks_keep:
  assumes "ctl_invariant c" and "enroll_checks d now what e1 e2 c = (r, c1)"
  shows "ctl_invariant c1 \<and> ct_enrolling c1 = ct_enrolling c \<and> ct_gate c1 = ct_gate c"
proof -
  obtain b c2 where p: "has_pending d now c = (b, c2)" by fastforce
  then have "c1 = c2" using assms(2) by (cases b) (auto simp: enroll_checks_def split: if_splits)
  with has_pending_core [OF p] assms(1) invariant_forget show ?thesis by (cases b) auto
qed

lemma begin_keeps:
  assumes "ctl_invariant c" and "ct_enrolling c = EnrollIdle"
  shows "begin_enroll d now url token e1 e2 e3 c = (r, c1) \<Longrightarrow> ctl_invariant c1"
    and "begin_pairing d now url e1 e2 c = (r, c1) \<Longrightarrow> ctl_invariant c1"
  using assms checks_keep [OF assms(1)] invariant_idle
  by (auto simp: begin_enroll_def begin_pairing_def split: option.splits sum.splits prod.splits if_splits)

lemma answers_keep:
  assumes "ctl_invariant c"
  shows "enroll_answered a c = (r, c1) \<Longrightarrow> ctl_invariant c1" and "pairing_answered now pa c = (r, c1) \<Longrightarrow> ctl_invariant c1"
  using assms invariant_idle [OF assms]
  by (auto simp: enroll_answered_def pairing_answered_def split: enroll_call.splits sum.splits if_splits)

lemma commit_keeps:
  assumes "ctl_invariant c" and "ct_gate c = Free" and "commit_begin d now c = (r, c1)"
  shows "ctl_invariant c1"
proof (cases "\<exists>cfg q. ct_enrolling c = Ready cfg q")
  case True
  then obtain cfg q where e: "ct_enrolling c = Ready cfg q" by blast
  have k: "enrolls q" using assms(1) e by (simp add: ctl_invariant_def enrolling_wf_def)
  obtain b c2 where p: "has_pending d now c = (b, c2)" by fastforce
  have c2: "ctl_invariant c2" "ct_gate c2 = Free" "ct_enrolling c2 = Ready cfg q" "\<not> b \<Longrightarrow> ct_pending c2 = None"
    using has_pending_core [OF p] assms(1,2) e invariant_forget by (cases b; simp)+
  have "ctl_invariant (c2\<lparr>ct_gate := Saving cfg q, ct_enrolling := Committing\<rparr>)" if "\<not> b"
    using c2 that k by (cases q) (auto simp: ctl_invariant_def gate_wf_def enrolling_wf_def)
  moreover have "ctl_invariant (c2\<lparr>ct_enrolling := EnrollIdle\<rparr>)" by (rule invariant_idle [OF c2(1)]) (simp_all add: c2)
  ultimately show ?thesis using assms(3) e p by (cases b) (auto simp: commit_begin_def)
next
  case False
  with assms(1,3) show ?thesis by (cases "ct_enrolling c") (auto simp: commit_begin_def)
qed

lemma gate_freed:
  assumes "ctl_invariant c" and "\<not> committing (ct_gate c)"
  shows "ctl_invariant (c\<lparr>ct_gate := Free\<rparr>)"
  using assms by (simp add: ctl_invariant_def gate_wf_def enrolling_wf_def)

lemma both_freed:
  assumes "ctl_invariant c"
  shows "ctl_invariant (c\<lparr>ct_gate := Free, ct_enrolling := EnrollIdle\<rparr>)"
  using assms flights_ready [of _ _ "ct_gate c = Booting"] by (simp add: ctl_invariant_def gate_wf_def enrolling_wf_def flights_wf_def)

lemma activated_free:
  assumes "ctl_invariant c"
  shows "ctl_invariant ((activate_configuration cfg c)\<lparr>ct_gate := Free, ct_enrolling := EnrollIdle\<rparr>)"
proof -
  from invariant_invalidate [OF both_freed [OF assms], of Free cfg]
  have "ctl_invariant ((activate_configuration cfg (c\<lparr>ct_gate := Free, ct_enrolling := EnrollIdle\<rparr>))\<lparr>ct_gate := Free\<rparr>)" by simp
  moreover have "core ((activate_configuration cfg (c\<lparr>ct_gate := Free, ct_enrolling := EnrollIdle\<rparr>))\<lparr>ct_gate := Free\<rparr>) =
      core ((activate_configuration cfg c)\<lparr>ct_gate := Free, ct_enrolling := EnrollIdle\<rparr>)"
    by (cases "ct_flight c") (simp_all add: activate_configuration_def invalidate_generation_def core_def)
  ultimately show ?thesis using invariant_core by blast
qed

lemma activated_starting:
  assumes "ctl_invariant c" and "ct_gate c = Saving cfg k" and "k \<noteq> ByPairing"
  shows "ctl_invariant ((activate_configuration cfg c)\<lparr>ct_status := st, ct_gate := StartingWorker cfg k\<rparr>)"
proof -
  have "ct_enrolling c = Committing \<longleftrightarrow> enrolls k" using assms(1,2) by (simp add: ctl_invariant_def enrolling_wf_def)
  then have "ctl_invariant ((activate_configuration cfg c)\<lparr>ct_gate := StartingWorker cfg k\<rparr>)"
    using invariant_invalidate [OF assms(1), of "StartingWorker cfg k" cfg] assms(3) by simp
  moreover have "core ((activate_configuration cfg c)\<lparr>ct_gate := StartingWorker cfg k\<rparr>) =
      core ((activate_configuration cfg c)\<lparr>ct_status := st, ct_gate := StartingWorker cfg k\<rparr>)" by (simp add: core_def)
  ultimately show ?thesis using invariant_core by blast
qed

lemma core_gate: "core c1 = core c \<Longrightarrow> core (c1\<lparr>ct_gate := h\<rparr>) = core (c\<lparr>ct_gate := h\<rparr>)"
  by (simp add: core_def)

lemma core_both: "core c1 = core c \<Longrightarrow> core (c1\<lparr>ct_gate := h, ct_enrolling := e\<rparr>) = core (c\<lparr>ct_gate := h, ct_enrolling := e\<rparr>)"
  by (simp add: core_def)

lemma saved_keeps:
  assumes "ctl_invariant c" and "ct_gate c = Saving cfg k" and "commit_saved d e c = (r, c1)"
  shows "ctl_invariant c1"
proof (cases k)
  case ByBootstrap
  with assms(1,2) show ?thesis by (simp add: ctl_invariant_def gate_wf_def)
next
  case (ByEnrollment t)
  show ?thesis
  proof (cases e)
    case None
    with ByEnrollment assms(2,3) have "c1 = (activate_configuration cfg c)\<lparr>ct_status :=
        bare_status ''starting'' (cg_node_id cfg) (cg_server_url cfg) [], ct_gate := StartingWorker cfg k\<rparr>"
      by (simp add: commit_saved_def Let_def)
    with activated_starting [OF assms(1,2)] ByEnrollment show ?thesis by simp
  next
    case (Some x)
    with ByEnrollment assms(2,3) have "c1 = c\<lparr>ct_gate := Free, ct_enrolling := EnrollIdle\<rparr>" by (simp add: commit_saved_def Let_def)
    with both_freed [OF assms(1)] show ?thesis by simp
  qed
next
  case ByPairing
  show ?thesis
  proof (cases e)
    case None
    with ByPairing assms(2,3) have "core c1 = core ((activate_configuration cfg c)\<lparr>ct_gate := Free, ct_enrolling := EnrollIdle\<rparr>)"
      by (auto simp: commit_saved_def Let_def core_def)
    then show ?thesis using invariant_core activated_free [OF assms(1)] by blast
  next
    case (Some x)
    with ByPairing assms(2,3) have "c1 = c\<lparr>ct_gate := Free, ct_enrolling := EnrollIdle\<rparr>" by (simp add: commit_saved_def Let_def)
    with both_freed [OF assms(1)] show ?thesis by simp
  qed
next
  case (ByApproval g p)
  have free: "ctl_invariant (c\<lparr>ct_gate := Free\<rparr>)" by (rule gate_freed [OF assms(1)]) (simp add: assms(2) ByApproval)
  show ?thesis
  proof (cases e)
    case None
    have "pairing_current g (pn_pairing_id p) c" using assms(1,2) ByApproval by (simp add: ctl_invariant_def gate_wf_def)
    with None ByApproval assms(2,3) have "c1 = (activate_configuration cfg c)\<lparr>ct_status :=
        bare_status ''starting'' (cg_node_id cfg) (cg_server_url cfg) [], ct_gate := StartingWorker cfg k\<rparr>"
      by (simp add: commit_saved_def Let_def)
    with activated_starting [OF assms(1,2)] ByApproval show ?thesis by simp
  next
    case (Some x)
    with ByApproval assms(2,3) have "c1 = (pairing_terminal d g (pn_pairing_id p) ''error'' c)\<lparr>ct_gate := Free\<rparr>"
      by (simp add: commit_saved_def Let_def)
    then have "core c1 = core (c\<lparr>ct_gate := Free\<rparr>)" using core_gate [OF core_kept(6)] by simp
    then show ?thesis using invariant_core free by blast
  qed
qed

lemma starts_keep:
  assumes "ctl_invariant c"
  shows "ctl_invariant (holder_starts d c)"
proof (cases "ct_gate c")
  case (StartingWorker cfg k)
  then have "core (holder_starts d c) = core (c\<lparr>ct_gate := StartingScheduler k\<rparr>)"
    using core_gate [OF core_kept(1)] by (simp add: holder_starts_def)
  moreover have "ctl_invariant (c\<lparr>ct_gate := StartingScheduler k\<rparr>)"
    using assms StartingWorker by (simp add: ctl_invariant_def gate_wf_def enrolling_wf_def)
  ultimately show ?thesis using invariant_core by blast
next
  case (StartingScheduler k)
  let ?e = "case k of ByEnrollment t \<Rightarrow> EnrollIdle | _ \<Rightarrow> ct_enrolling c"
  have "core (holder_starts d c) = core (c\<lparr>ct_gate := Free, ct_enrolling := ?e\<rparr>)"
    using core_both [OF core_kept(4)] StartingScheduler by (simp add: holder_starts_def)
  moreover have "ctl_invariant (c\<lparr>ct_gate := Free, ct_enrolling := ?e\<rparr>)"
    using assms StartingScheduler by (cases k) (simp_all add: ctl_invariant_def gate_wf_def enrolling_wf_def flights_wf_def)
  ultimately show ?thesis using invariant_core by blast
qed (use assms in \<open>simp_all add: holder_starts_def\<close>)

lemma approve_keeps:
  assumes "ctl_invariant c" and "ct_gate c = Free"
  shows "ctl_invariant (approve_begin g p node c)"
proof -
  let ?cfg = "\<lparr>cg_server_url = pn_server_url p, cg_node_id = node, cg_credential = pn_credential p, cg_pending = None\<rparr>"
  have "ctl_invariant (c\<lparr>ct_gate := Saving ?cfg (ByApproval g p)\<rparr>)" if "pairing_current g (pn_pairing_id p) c"
    using assms that by (simp add: ctl_invariant_def gate_wf_def enrolling_wf_def)
  moreover have "core (approve_begin g p node c) =
      (if pairing_current g (pn_pairing_id p) c then core (c\<lparr>ct_gate := Saving ?cfg (ByApproval g p)\<rparr>) else core c)"
    by (simp add: approve_begin_def Let_def) (simp add: core_def)
  ultimately show ?thesis using invariant_core assms(1) by (metis (no_types))
qed

lemma check_keeps:
  assumes "ctl_invariant c" and "ct_gate c = Free" and "begin_check d now c = (a, c1)"
  shows "ctl_invariant c1"
proof -
  let ?new = "c\<lparr>ct_flights := ct_flights c @ [\<lparr>fl_generation = ct_generation c, fl_config = ct_config c, fl_result = None\<rparr>],
      ct_flight := Some (length (ct_flights c))\<rparr>"
  have "ctl_invariant ?new" if "ct_flight c = None"
    using assms(1,2) that flights_start by (simp add: ctl_invariant_def flights_wf_def gate_wf_def enrolling_wf_def)
  moreover have "ct_flight c = Some i \<Longrightarrow> fl_generation (ct_flights c ! i) = ct_generation c" for i
    using assms(1) flights_current by (auto simp: ctl_invariant_def flights_wf_def)
  ultimately show ?thesis using assms(1,3)
    by (cases "ct_flight c") (auto simp: begin_check_def Let_def split: if_splits option.splits)
qed

lemma authorize_keeps:
  assumes "ctl_invariant c" and "ct_gate c = Free" and "i < length (ct_flights c)" and "fl_result (ct_flights c ! i) = None"
    and "authorize d now i c = (r, c1)"
  shows "ctl_invariant c1"
proof -
  have "ct_flight c = Some i" if "ct_generation c = fl_generation (ct_flights c ! i)"
    using assms(1,3,4) that by (auto simp: ctl_invariant_def flights_wf_def all_flights_wf_def flight_wf_def)
  then show ?thesis using assms by (auto simp: authorize_def ctl_invariant_def gate_wf_def enrolling_wf_def split: if_splits)
qed

lemma finish_keeps:
  assumes "ctl_invariant c" and "ct_gate c = Launching i"
  shows "ctl_invariant (finish_launch d now st launched c)"
  using assms by (auto simp: finish_launch_def ctl_invariant_def gate_wf_def enrolling_wf_def flights_wf_def)

lemma end_keeps:
  assumes "ctl_invariant c" and "ct_gate c = Free" and "i < length (ct_flights c)" and "fl_result (ct_flights c ! i) = None"
  shows "ctl_invariant (end_flight d i st e c)"
  using assms flights_end by (simp add: end_flight_def Let_def ctl_invariant_def gate_wf_def enrolling_wf_def flights_wf_def)

lemma shutdown_keeps: "ctl_invariant c \<Longrightarrow> ct_gate c = Free \<Longrightarrow> ctl_invariant (shutdown c)"
  by (simp add: shutdown_def ctl_invariant_def gate_wf_def enrolling_wf_def flights_wf_def)

theorem step_invariant: "ctl_step d c c1 \<Longrightarrow> ctl_invariant c \<Longrightarrow> ctl_invariant c1"
proof (induction rule: ctl_step.induct)
  case (restarts cfg c)
  then show ?case using invariant_core [of "start_worker d cfg (c\<lparr>ct_restarts := remove1 cfg (ct_restarts c)\<rparr>)" c] by (simp add: core_kept)
next
  case (abandon c cfg k)
  then show ?case by (intro invariant_idle) simp_all
next
  case (restart c r c1)
  then show ?case using invariant_core [OF core_restart] by blast
qed (auto intro: bootstrap_keeps loaded_keeps begin_keeps answers_keep commit_keeps saved_keeps starts_keep approve_keeps check_keeps
    authorize_keeps finish_keeps end_keeps shutdown_keeps simp: invariant_core [OF core_kept(2)] invariant_core [OF core_kept(3)]
    invariant_core [OF core_kept(7)] invariant_core [OF core_updates(2)] invariant_core [OF core_updates(3)])

lemma reachable_invariant: "ctl_reachable d c \<Longrightarrow> ctl_invariant c"
  by (induction rule: ctl_reachable.induct) (auto intro: invariant_new step_invariant)

section \<open>Updates and configurations\<close>

lemma checks_same: "enroll_checks d now what e1 e2 c = (r, c1) \<Longrightarrow> c1 = c \<or> c1 = c\<lparr>ct_pending := None\<rparr>"
  by (auto simp: enroll_checks_def has_pending_def split: if_splits)

text \<open>What a call in front of its commit and the sections that need no gate leave alone.\<close>

definition frame :: "controller \<Rightarrow> holder \<times> agent_config \<times> nat \<times> bool" where
  "frame c = (ct_gate c, ct_config c, ct_generation c, ct_shutting_down c)"

lemma frame_core: "core c1 = core c \<Longrightarrow> frame c1 = frame c"
  by (simp add: core_def frame_def)

lemma frame_enrolling: "frame (c\<lparr>ct_enrolling := e\<rparr>) = frame c"
  by (simp add: frame_def)

lemma frame_begins:
  "begin_enroll d now url token e1 e2 e3 c = (r, c1) \<Longrightarrow> frame c1 = frame c"
  "begin_pairing d now url e1 e2 c = (r, c1) \<Longrightarrow> frame c1 = frame c"
  "enroll_answered a c = (r, c1) \<Longrightarrow> frame c1 = frame c"
  "pairing_answered now pa c = (r, c1) \<Longrightarrow> frame c1 = frame c"
  by (auto simp: begin_enroll_def begin_pairing_def enroll_answered_def pairing_answered_def frame_def dest!: checks_same
      split: option.splits sum.splits prod.splits enroll_call.splits if_splits)

lemma finish_frame:
  "ct_gate (finish_launch d now st launched c) = Free" "ct_config (finish_launch d now st launched c) = ct_config c"
  "ct_generation (finish_launch d now st launched c) = ct_generation c"
  "ct_shutting_down (finish_launch d now st launched c) = ct_shutting_down c"
  by (simp_all add: finish_launch_def)

lemma launching_steady:
  assumes "ctl_step d c c1" and "ct_gate c = Launching i"
  shows "ct_config c1 = ct_config c \<and> ct_generation c1 = ct_generation c \<and> ct_shutting_down c1 = ct_shutting_down c \<and>
    (ct_gate c1 = Launching i \<or> ct_gate c1 = Free)"
proof -
  have "frame c1 = frame c \<or> (\<exists>now st launched. c1 = finish_launch d now st launched c)"
    using assms
  proof (induction rule: ctl_step.induct)
    case (restarts cfg c)
    have "core (start_worker d cfg (c\<lparr>ct_restarts := remove1 cfg (ct_restarts c)\<rparr>)) = core c" by (simp add: core_kept)
    then show ?case using frame_core by blast
  next
    case (restart c r c1)
    then show ?case using frame_core core_restart by blast
  qed (auto dest: frame_begins simp: frame_core [OF core_kept(2)] frame_core [OF core_kept(3)] frame_core [OF core_kept(7)]
      frame_core [OF core_updates(2)] frame_core [OF core_updates(3)] frame_enrolling)
  then show ?thesis using assms(2) by (auto simp: frame_def finish_frame)
qed

text \<open>C25: In every reachable state of the controller, an update is launched only for the configuration in force: the
flight that holds the launch gate belongs to the current generation, took the current configuration, has not
reported back and is launched before any shutdown; every flight of the current generation took the current
configuration, and at most one of them is on its way.\<close>

theorem launched_update_current:
  assumes "ctl_reachable d c"
  shows "(\<forall>i. ct_gate c = Launching i \<longrightarrow> i < length (ct_flights c) \<and> fl_generation (ct_flights c ! i) = ct_generation c \<and>
      fl_config (ct_flights c ! i) = ct_config c \<and> fl_result (ct_flights c ! i) = None \<and> \<not> ct_shutting_down c) \<and>
    (\<forall>i < length (ct_flights c). fl_generation (ct_flights c ! i) = ct_generation c \<longrightarrow> fl_config (ct_flights c ! i) = ct_config c) \<and>
    (\<forall>i < length (ct_flights c). \<forall>j < length (ct_flights c).
      fl_generation (ct_flights c ! i) = ct_generation c \<and> fl_generation (ct_flights c ! j) = ct_generation c \<and>
      fl_result (ct_flights c ! i) = None \<and> fl_result (ct_flights c ! j) = None \<longrightarrow> i = j)"
proof -
  have wf: "all_flights_wf (ct_generation c) (ct_config c) (ct_gate c = Booting) (ct_flight c) (ct_flights c)" and g: "gate_wf c"
    using reachable_invariant [OF assms] by (simp_all add: ctl_invariant_def flights_wf_def)
  have launching: "ct_flight c = Some i \<and> \<not> ct_shutting_down c" if "ct_gate c = Launching i" for i
    using g that by (simp add: gate_wf_def)
  have "fl_config (ct_flights c ! i) = ct_config c \<and> (fl_result (ct_flights c ! i) = None \<longleftrightarrow> ct_flight c = Some i)"
    if "i < length (ct_flights c)" "fl_generation (ct_flights c ! i) = ct_generation c" for i
    using wf that by (auto simp: all_flights_wf_def flight_wf_def)
  note cur = this
  have "i < length (ct_flights c) \<and> fl_generation (ct_flights c ! i) = ct_generation c \<and> fl_config (ct_flights c ! i) = ct_config c \<and>
      fl_result (ct_flights c ! i) = None \<and> \<not> ct_shutting_down c" if "ct_gate c = Launching i" for i
    using launching [OF that] flights_current [of _ _ _ i] wf by auto
  with cur show ?thesis by fastforce
qed

text \<open>C26: A reconfiguration waits for a launched update: while an update is pending, a bootstrap and the commit of an
enrollment or a pairing are refused and leave configuration and generation alone, and nothing but the
approval of a pairing is being saved; and while an update is being launched, no step of the controller
changes the configuration, the generation or the shutdown.\<close>

theorem reconfiguration_waits_for_update:
  assumes "ctl_reachable d c"
  shows "(pending_within d now c \<longrightarrow>
      fst (bootstrap_begin d now c) \<noteq> None \<and> snd (bootstrap_begin d now c) = c \<and>
      ct_gate (snd (commit_begin d now c)) = ct_gate c \<and> ct_config (snd (commit_begin d now c)) = ct_config c \<and>
      ct_generation (snd (commit_begin d now c)) = ct_generation c \<and> ct_gate c \<noteq> Booting \<and>
      (\<forall>cfg k. ct_gate c = Saving cfg k \<longrightarrow> (\<exists>g p. k = ByApproval g p))) \<and>
    (\<forall>i c1. ct_gate c = Launching i \<and> ctl_step d c c1 \<longrightarrow>
      ct_config c1 = ct_config c \<and> ct_generation c1 = ct_generation c \<and> ct_shutting_down c1 = ct_shutting_down c \<and>
      (ct_gate c1 = Launching i \<or> ct_gate c1 = Free))"
proof -
  have g: "gate_wf c" using reachable_invariant [OF assms] by (simp add: ctl_invariant_def)
  have "ct_pending c \<noteq> None" if "pending_within d now c" using that by (auto simp: pending_within_def split: option.splits)
  note pending = this
  have "\<exists>g p. k = ByApproval g p" if "pending_within d now c" "ct_gate c = Saving cfg k" for cfg k
    using g pending [OF that(1)] that(2) by (cases k) (auto simp: gate_wf_def)
  moreover have "ct_gate c \<noteq> Booting" if "pending_within d now c"
    using g pending [OF that] by (auto simp: gate_wf_def)
  moreover have "fst (bootstrap_begin d now c) \<noteq> None \<and> snd (bootstrap_begin d now c) = c \<and>
      ct_gate (snd (commit_begin d now c)) = ct_gate c \<and> ct_config (snd (commit_begin d now c)) = ct_config c \<and>
      ct_generation (snd (commit_begin d now c)) = ct_generation c" if "pending_within d now c"
    using that by (simp add: bootstrap_begin_def commit_begin_def has_pending_def split: enroll_call.split)
  moreover have "ct_config c1 = ct_config c \<and> ct_generation c1 = ct_generation c \<and> ct_shutting_down c1 = ct_shutting_down c \<and>
      (ct_gate c1 = Launching i \<or> ct_gate c1 = Free)" if "ct_gate c = Launching i" "ctl_step d c c1" for i c1
    using launching_steady [OF that(2,1)] .
  ultimately show ?thesis by auto
qed

section \<open>Shutdown\<close>

inductive ctl_steps :: "controller_deps \<Rightarrow> controller \<Rightarrow> controller \<Rightarrow> bool" for d where
  none: "ctl_steps d c c"
| later: "ctl_steps d c c1 \<Longrightarrow> ctl_step d c1 c2 \<Longrightarrow> ctl_steps d c c2"

text \<open>Nothing new runs: workers, schedulers and flights.\<close>

definition not_beyond :: "controller \<Rightarrow> controller \<Rightarrow> bool" where
  "not_beyond c c1 \<longleftrightarrow> ct_shutting_down c1 \<and> set (ct_workers c1) \<subseteq> set (ct_workers c) \<and>
     set (ct_schedulers c1) \<subseteq> set (ct_schedulers c) \<and> length (ct_flights c1) = length (ct_flights c)"

lemma not_beyond_refl: "ct_shutting_down c \<Longrightarrow> not_beyond c c"
  by (simp add: not_beyond_def)

lemma not_beyond_trans: "not_beyond c c1 \<Longrightarrow> not_beyond c1 c2 \<Longrightarrow> not_beyond c c2"
  by (auto simp: not_beyond_def)

text \<open>The fields that count.\<close>

definition running :: "controller \<Rightarrow> bool \<times> worker_job list \<times> nat list \<times> nat" where
  "running c = (ct_shutting_down c, ct_workers c, ct_schedulers c, length (ct_flights c))"

lemma not_beyond_running: "running c1 = running c \<Longrightarrow> ct_shutting_down c \<Longrightarrow> not_beyond c c1"
  by (simp add: running_def not_beyond_def)

lemma running_pending: "has_pending d now c = (b, c1) \<Longrightarrow> running c1 = running c"
  by (auto simp: has_pending_def running_def split: if_splits)

lemma running_activate: "running (activate_configuration cfg c) = running c"
  by (simp add: running_def activate_configuration_def invalidate_generation_def)

lemma running_updates [simp]:
  "running (c\<lparr>ct_gate := x1\<rparr>) = running c" "running (c\<lparr>ct_enrolling := x2\<rparr>) = running c" "running (c\<lparr>ct_status := x3\<rparr>) = running c"
  "running (c\<lparr>ct_polls := x4\<rparr>) = running c" "running (c\<lparr>ct_restarts := x5\<rparr>) = running c" "running (c\<lparr>ct_pending := x6\<rparr>) = running c"
  "running (c\<lparr>ct_config := x7\<rparr>) = running c" "running (c\<lparr>ct_lifetime := x8\<rparr>) = running c"
  by (simp_all add: running_def)

lemma running_checks: "enroll_checks d now what e1 e2 c = (r, c1) \<Longrightarrow> running c1 = running c"
  by (auto dest: checks_same)

lemma running_pairing: "running (pairing_terminal d g pid st c) = running c" "running (bootstrap_status st c) = running c"
  by (simp_all add: pairing_terminal_def bootstrap_status_def)

lemma running_begins:
  "begin_enroll d now url token e1 e2 e3 c = (r, c1) \<Longrightarrow> running c1 = running c"
  "begin_pairing d now url e1 e2 c = (r, c1) \<Longrightarrow> running c1 = running c"
  "enroll_answered a c = (r, c1) \<Longrightarrow> running c1 = running c"
  "pairing_answered now pa c = (r, c1) \<Longrightarrow> running c1 = running c"
  by (auto simp: begin_enroll_def begin_pairing_def enroll_answered_def pairing_answered_def dest!: checks_same
      split: option.splits sum.splits prod.splits enroll_call.splits if_splits)

lemma running_commits:
  "commit_begin d now c = (r, c1) \<Longrightarrow> running c1 = running c" "commit_saved d e c = (r, c1) \<Longrightarrow> running c1 = running c"
  by (auto simp: commit_begin_def commit_saved_def Let_def running_activate running_pairing dest!: running_pending
      split: option.splits prod.splits enroll_call.splits bool.splits holder.splits commit.splits if_splits)

lemma running_loaded: "running (bootstrap_loaded d now l c) = running c"
  by (simp add: bootstrap_loaded_def Let_def running_pairing split: option.splits sum.splits)

lemma step_not_beyond:
  assumes "ctl_step d c c1" and "ct_shutting_down c" and "gate_wf c"
  shows "not_beyond c c1"
  using assms
proof (induction rule: ctl_step.induct)
  case (bootstrap c now r c1)
  obtain b c2 where p: "has_pending d now c = (b, c2)" by fastforce
  with bootstrap running_pending [OF p] have "running c1 = running c"
    by (cases b) (auto simp: bootstrap_begin_def running_def split: if_splits)
  with bootstrap show ?case by (simp add: not_beyond_running)
next
  case (starts c cfg k)
  then have "running (holder_starts d c) = running c"
    by (auto simp: holder_starts_def start_worker_def start_scheduler_def)
  with starts show ?case by (simp add: not_beyond_running)
next
  case (finished c i now st launched)
  then show ?case by (simp add: gate_wf_def)
next
  case (exits w c e)
  then show ?case by (auto simp: not_beyond_def worker_exit_def Let_def split: option.splits)
next
  case (landed c i st e)
  then show ?case by (simp add: not_beyond_def end_flight_def Let_def)
next
  case (scheduler_leave g c)
  then show ?case using set_remove1_subset [of g "ct_schedulers c"] by (simp add: not_beyond_def)
next
  case (shut_down c)
  then show ?case by (simp add: not_beyond_def shutdown_def)
qed (auto intro!: not_beyond_running dest: running_begins running_commits
    simp: running_loaded running_pairing poll_ends_def approve_begin_def start_worker_def restart_read_def report_status_def
      begin_check_def authorize_def shutdown_def Let_def split: if_splits)

lemma steps_not_beyond:
  "ctl_steps d c c1 \<Longrightarrow> ctl_invariant c \<Longrightarrow> ct_shutting_down c \<Longrightarrow> ctl_invariant c1 \<and> not_beyond c c1"
proof (induction rule: ctl_steps.induct)
  case (none c)
  then show ?case by (simp add: not_beyond_refl)
next
  case (later c c1 c2)
  then have c1: "ctl_invariant c1" "not_beyond c c1" by simp_all
  from c1(1) have "gate_wf c1" by (simp add: ctl_invariant_def)
  moreover have "ct_shutting_down c1" using c1(2) by (simp add: not_beyond_def)
  ultimately have "not_beyond c1 c2" using step_not_beyond [OF later(2)] by simp
  with c1 later(2) show ?case using step_invariant not_beyond_trans by blast
qed

text \<open>C27: A shutdown is final: once the controller is shutting down, whatever happens later, it stays so, no
worker, no scheduler and no update check is started any more, no worker is live, and no update is being
launched.\<close>

theorem shutdown_is_final:
  assumes "ctl_reachable d c" and "ct_shutting_down c" and "ctl_steps d c c1"
  shows "ct_shutting_down c1 \<and> set (ct_workers c1) \<subseteq> set (ct_workers c) \<and> set (ct_schedulers c1) \<subseteq> set (ct_schedulers c) \<and>
    length (ct_flights c1) = length (ct_flights c) \<and> (\<nexists>w. worker_live c1 w) \<and> (\<nexists>i. ct_gate c1 = Launching i)"
proof -
  have "ctl_invariant c1 \<and> not_beyond c c1" by (rule steps_not_beyond [OF assms(3) reachable_invariant [OF assms(1)] assms(2)])
  then show ?thesis by (auto simp: not_beyond_def worker_live_def ctl_invariant_def gate_wf_def)
qed

section \<open>A run of the controller\<close>

definition demo_deps :: controller_deps where
  "demo_deps = \<lparr>cd_parse_uri = (\<lambda>v. if v = ''https://ace'' then Some demo_origin else None), cd_uri_text = (\<lambda>u. ''https://ace''),
     cd_pending_ttl = 2 * minute, cd_has_loader = True, cd_has_writer = True, cd_has_preflight = True, cd_has_enroller = True,
     cd_has_pairer = True, cd_has_worker = True, cd_has_update = True, cd_url = (\<lambda>v. Some (''https'', ''ace''))\<rparr>"

definition demo_stored :: agent_config where
  "demo_stored = \<lparr>cg_server_url = ''https://ace'', cg_node_id = ''n1'', cg_credential = ''c1'', cg_pending = None\<rparr>"

lemma demo_shown: "shown_url demo_deps ''https://ace'' = ''https://ace''"
  by (simp add: shown_url_def demo_deps_def demo_origin_def demo_url_def bare_url_def http_scheme_def trim_right_def)

lemma demo_has: "cd_has_loader demo_deps" "cd_has_worker demo_deps" "cd_has_update demo_deps"
  by (simp_all add: demo_deps_def)

text \<open>It starts with a stored configuration, and a check of the scheduler may launch an update.\<close>

lemma demo_started:
  "\<exists>c. ctl_reachable demo_deps c \<and> ct_gate c = Free \<and> ct_config c = demo_stored \<and> ct_pending c = None \<and> \<not> ct_shutting_down c \<and>
     ct_flight c = None \<and> ct_flights c = [] \<and> ct_restarts c = [] \<and> ct_enrolling c = EnrollIdle \<and>
     ct_worker c = Some 1 \<and> ct_worker_id c = 1 \<and> ct_lifetime c = 1 \<and> ct_workers c = [\<lparr>wj_id = 1, wj_lifetime = 1, wj_config = demo_stored\<rparr>]"
proof -
  let ?c1 = "new_controller\<lparr>ct_generation := 2, ct_lifetime := 1, ct_gate := Booting\<rparr>"
  have s1: "ctl_reachable demo_deps ?c1"
    by (rule ctl_reachable.step [OF ctl_reachable.initially], rule ctl_step.bootstrap [where now = 0 and r = None])
      (simp_all add: new_controller_def bootstrap_begin_def has_pending_def pending_within_def invalidate_generation_def)
  let ?c2 = "?c1\<lparr>ct_config := demo_stored, ct_status := bare_status ''starting'' ''n1'' ''https://ace'' [],
    ct_gate := StartingWorker demo_stored ByBootstrap\<rparr>"
  have "bootstrap_loaded demo_deps 0 (Some (Inr demo_stored)) ?c1 = ?c2"
    using demo_shown by (simp add: bootstrap_loaded_def new_controller_def demo_stored_def valid_config_def is_pending_def Let_def)
  then have s2: "ctl_reachable demo_deps ?c2"
    using ctl_step.loaded [of ?c1 "Some (Inr demo_stored)" demo_deps 0] demo_has(1) ctl_reachable.step [OF s1] by simp
  have s3: "ctl_reachable demo_deps (holder_starts demo_deps ?c2)"
    by (rule ctl_reachable.step [OF s2], rule ctl_step.starts) simp
  have g3: "ct_gate (holder_starts demo_deps ?c2) = StartingScheduler ByBootstrap" by (simp add: holder_starts_def)
  have s4: "ctl_reachable demo_deps (holder_starts demo_deps (holder_starts demo_deps ?c2))"
    by (rule ctl_reachable.step [OF s3 ctl_step.starts [OF disjI2 [OF g3]]])
  show ?thesis
    by (rule exI [of _ "holder_starts demo_deps (holder_starts demo_deps ?c2)"], intro conjI s4)
      (simp_all add: holder_starts_def start_worker_def start_scheduler_def Let_def demo_has new_controller_def)
qed

lemma demo_checking:
  "\<exists>c. ctl_reachable demo_deps c \<and> ct_gate c = Free \<and> ct_config c = demo_stored \<and> length (ct_flights c) = 1 \<and>
     fl_result (ct_flights c ! 0) = None \<and> authorize demo_deps 0 0 c = (None, c\<lparr>ct_gate := Launching 0\<rparr>)"
proof -
  obtain c where c: "ctl_reachable demo_deps c" "ct_gate c = Free" "ct_config c = demo_stored" "ct_pending c = None" "\<not> ct_shutting_down c"
      "ct_flight c = None" "ct_flights c = []"
    using demo_started by blast
  let ?fl = "\<lparr>fl_generation = ct_generation c, fl_config = demo_stored, fl_result = None\<rparr>"
  let ?c1 = "c\<lparr>ct_flights := [?fl], ct_flight := Some 0\<rparr>"
  have "begin_check demo_deps 0 c = (Waiting 0, ?c1)"
    using c demo_has(3) by (simp add: begin_check_def)
  then have "ctl_reachable demo_deps ?c1" using ctl_reachable.step [OF c(1)] ctl_step.check [OF c(2)] by blast
  then show ?thesis
    by (intro exI [of _ ?c1]) (use c in \<open>simp add: authorize_def pending_within_def\<close>)
qed

lemma demo_launching: "\<exists>c. ctl_reachable demo_deps c \<and> ct_gate c = Launching 0 \<and> ct_config c = demo_stored"
proof -
  obtain c where c: "ctl_reachable demo_deps c" "ct_gate c = Free" "ct_config c = demo_stored" "length (ct_flights c) = 1"
      "fl_result (ct_flights c ! 0) = None" "authorize demo_deps 0 0 c = (None, c\<lparr>ct_gate := Launching 0\<rparr>)"
    using demo_checking by blast
  have "ctl_step demo_deps c (c\<lparr>ct_gate := Launching 0\<rparr>)"
    by (rule ctl_step.authorized [OF c(2) _ c(5,6)]) (simp add: c(4))
  then have "ctl_reachable demo_deps (c\<lparr>ct_gate := Launching 0\<rparr>)" by (rule ctl_reachable.step [OF c(1)])
  then show ?thesis using c(3) by (intro exI [of _ "c\<lparr>ct_gate := Launching 0\<rparr>"]) simp
qed

theorem launched_update_current_witness:
  "\<exists>c i. ctl_reachable demo_deps c \<and> ct_gate c = Launching i \<and> fl_config (ct_flights c ! i) = demo_stored"
proof -
  obtain c where c: "ctl_reachable demo_deps c" "ct_gate c = Launching 0" "ct_config c = demo_stored" using demo_launching by blast
  with launched_update_current [OF c(1)] show ?thesis by auto
qed

theorem reconfiguration_waits_for_update_witness:
  "\<exists>c. ctl_reachable demo_deps c \<and> ct_pending c \<noteq> None \<and> ct_config c = demo_stored \<and> fst (bootstrap_begin demo_deps 0 c) \<noteq> None"
proof -
  obtain c where c: "ctl_reachable demo_deps c" "ct_gate c = Launching 0" "ct_config c = demo_stored" using demo_launching by blast
  let ?c1 = "finish_launch demo_deps 0 no_status True c"
  have r: "ctl_reachable demo_deps ?c1" by (rule ctl_reachable.step [OF c(1) ctl_step.finished [OF c(2)]])
  moreover have "pending_within demo_deps 0 ?c1" by (simp add: pending_within_def finish_launch_def demo_deps_def)
  ultimately have "fst (bootstrap_begin demo_deps 0 ?c1) \<noteq> None" using reconfiguration_waits_for_update [OF r, of 0] by blast
  moreover have "ct_pending ?c1 \<noteq> None" "ct_config ?c1 = demo_stored" using c(3) by (simp_all add: finish_launch_def)
  ultimately show ?thesis using r by blast
qed

theorem shutdown_is_final_witness:
  "\<exists>c. ctl_reachable demo_deps c \<and> ct_shutting_down c \<and> ct_workers c \<noteq> [] \<and> (\<nexists>w. worker_live c w)"
proof -
  obtain c where c: "ctl_reachable demo_deps c" "ct_gate c = Free" "ct_workers c \<noteq> []" using demo_started by (metis list.distinct(1))
  have r: "ctl_reachable demo_deps (shutdown c)" by (rule ctl_reachable.step [OF c(1) ctl_step.shut_down [OF c(2)]])
  have "ct_shutting_down (shutdown c)" "ct_workers (shutdown c) \<noteq> []" using c(3) by (simp_all add: shutdown_def)
  with shutdown_is_final [OF r _ ctl_steps.none] r show ?thesis by blast
qed

section \<open>A restart that comes too late\<close>

text \<open>
  \<^verbatim>\<open>RestartWorker\<close> reads the configuration in one section and starts the worker in another.  An
  enrollment that is committed in between is undone by the second one: the only live worker runs with the
  configuration of before.
\<close>

lemma commit_by_enrollment:
  assumes "ctl_reachable d c" and "ct_gate c = Free" and "ct_pending c = None" and "ct_enrolling c = Ready cfg (ByEnrollment token)"
    and "cd_has_worker d" and "\<not> ct_shutting_down c"
  shows "\<exists>c1. ctl_reachable d c1 \<and> ct_gate c1 = Free \<and> ct_config c1 = cfg \<and> ct_restarts c1 = ct_restarts c \<and> \<not> ct_shutting_down c1"
proof -
  let ?k = "ByEnrollment token" and ?c1 = "c\<lparr>ct_gate := Saving cfg (ByEnrollment token), ct_enrolling := Committing\<rparr>"
  have same: "c\<lparr>ct_pending := None\<rparr> = c" using assms(3) by simp
  have "commit_begin d 0 c = (None, ?c1)"
    using assms(3,4) same by (simp add: commit_begin_def has_pending_def pending_within_def)
  then have r1: "ctl_reachable d ?c1" using ctl_reachable.step [OF assms(1)] ctl_step.commit [OF assms(2,4)] by blast
  let ?c2 = "(activate_configuration cfg ?c1)\<lparr>ct_status := bare_status ''starting'' (cg_node_id cfg) (cg_server_url cfg) [],
    ct_gate := StartingWorker cfg ?k\<rparr>"
  have "ctl_step d ?c1 ?c2" by (rule ctl_step.saved [of _ cfg ?k d None None]) (simp_all add: commit_saved_def Let_def)
  then have r2: "ctl_reachable d ?c2" by (rule ctl_reachable.step [OF r1])
  have "ct_gate ?c2 = StartingWorker cfg ?k" by simp
  then have r3: "ctl_reachable d (holder_starts d ?c2)" using ctl_reachable.step [OF r2] ctl_step.starts by blast
  have "ct_gate (holder_starts d ?c2) = StartingScheduler ?k" by (simp add: holder_starts_def)
  then have r4: "ctl_reachable d (holder_starts d (holder_starts d ?c2))" using ctl_reachable.step [OF r3] ctl_step.starts by blast
  show ?thesis
    by (rule exI [of _ "holder_starts d (holder_starts d ?c2)"], intro conjI r4)
      (use assms(6) in \<open>simp_all add: holder_starts_def start_worker_def start_scheduler_def activate_configuration_def
        invalidate_generation_def Let_def\<close>)
qed

theorem stale_restart:
  "\<exists>c w. ctl_reachable demo_deps c \<and> ct_gate c = Free \<and> cg_node_id (ct_config c) = ''n2'' \<and> w \<in> set (ct_workers c) \<and> worker_live c w \<and>
     cg_node_id (wj_config w) = ''n1''"
proof -
  obtain c where c: "ctl_reachable demo_deps c" "ct_gate c = Free" "ct_config c = demo_stored" "ct_pending c = None"
      "\<not> ct_shutting_down c" "ct_enrolling c = EnrollIdle" "ct_restarts c = []"
    using demo_started by blast
  let ?c1 = "c\<lparr>ct_restarts := [demo_stored]\<rparr>"
  have "restart_read c = (None, ?c1)" using c by (simp add: restart_read_def demo_stored_def)
  then have r1: "ctl_reachable demo_deps ?c1" using ctl_reachable.step [OF c(1)] ctl_step.restart by blast
  let ?c2 = "?c1\<lparr>ct_enrolling := Enrolling ''https://ace'' ''t''\<rparr>"
  have same: "?c1\<lparr>ct_pending := None\<rparr> = ?c1" using c(4) by simp
  have "begin_enroll demo_deps 0 ''https://ace'' ''t'' None None None ?c1 = (None, ?c2)"
    using c demo_shown same
    by (simp add: begin_enroll_def enroll_checks_def has_pending_def pending_within_def validate_enrollment_def)
      (simp add: demo_deps_def)
  then have "ctl_step demo_deps ?c1 ?c2" by (rule ctl_step.enroll [rotated]) (simp add: c(6))
  then have r2: "ctl_reachable demo_deps ?c2" by (rule ctl_reachable.step [OF r1])
  let ?new = "\<lparr>cg_server_url = ''https://ace'', cg_node_id = ''n2'', cg_credential = ''c2'', cg_pending = None\<rparr>"
  let ?c3 = "?c2\<lparr>ct_enrolling := Ready ?new (ByEnrollment ''t'')\<rparr>"
  have "ctl_step demo_deps ?c2 ?c3"
    by (rule ctl_step.enrolled [of _ "''https://ace''" "''t''" "Inr (''n2'', ''c2'')" None]) (simp_all add: enroll_answered_def)
  then have r3: "ctl_reachable demo_deps ?c3" by (rule ctl_reachable.step [OF r2])
  obtain c4 where c4: "ctl_reachable demo_deps c4" "ct_gate c4 = Free" "ct_config c4 = ?new" "ct_restarts c4 = [demo_stored]" "\<not> ct_shutting_down c4"
    using commit_by_enrollment [OF r3, of ?new "''t''"] c demo_has(2) by auto
  let ?c5 = "start_worker demo_deps demo_stored (c4\<lparr>ct_restarts := remove1 demo_stored (ct_restarts c4)\<rparr>)"
  have "ctl_reachable demo_deps ?c5" by (rule ctl_reachable.step [OF c4(1) ctl_step.restarts]) (simp add: c4(4))
  then show ?thesis
    by (intro exI [of _ ?c5] exI [of _ "\<lparr>wj_id = Suc (ct_worker_id c4), wj_lifetime = ct_lifetime c4, wj_config = demo_stored\<rparr>"])
      (use c4 demo_has(2) in \<open>simp add: start_worker_def Let_def worker_live_def demo_stored_def\<close>)
qed

end
