(* ===== verification/AgentIpc.thy ===== *)
theory AgentIpc
  imports AgentController
begin

text \<open>
  The local control interface of the Agent: \<^verbatim>\<open>agent/internal/ipc\<close>.  One request and one response, both
  JSON of at most 64 KiB, on each connection: decoding and encoding with their limits
  (\<^verbatim>\<open>protocol.go\<close>), the router with its fixed set of methods, the server's handling of a
  connection and of all its connections (\<^verbatim>\<open>transport.go\<close>), and the client of \<^verbatim>\<open>pipe_windows.go\<close>.

  \<open>json_size\<close> is the length of the text \<^verbatim>\<open>json.Marshal\<close> makes of a value, and nothing where it fails; the
  pipe itself is what was written to it and whether its operations fail.
\<close>

section \<open>Messages\<close>

abbreviation max_message_bytes :: nat where "max_message_bytes \<equiv> 65536"

datatype ipc_error =
    IpcTooLarge
  | IpcInvalid string
  | IpcSensitive
  | IpcEncoding
  | IpcFailed go_error

record ipc_request =
  iq_id :: string
  iq_method :: string
  iq_params :: "json option"

record ipc_fault =
  if_code :: string
  if_message :: string

record 'r ipc_response =
  ir_id :: string
  ir_result :: "'r option"
  ir_error :: "ipc_fault option"

text \<open>What the router puts into \<^verbatim>\<open>Response.Result\<close>.\<close>

datatype ipc_result =
    StatusResult agent_status
  | UpdateResult update_status
  | PathResult string

section \<open>Reading a request\<close>

definition zero_request :: ipc_request where
  "zero_request = \<lparr>iq_id = [], iq_method = [], iq_params = None\<rparr>"

text \<open>A \<^verbatim>\<open>json.RawMessage\<close> keeps every value, \<open>null\<close> too.\<close>

definition request_fields :: "ipc_request field list" where
  "request_fields =
     [field_of ''id'' read_string iq_id iq_id_update, field_of ''method'' read_string iq_method iq_method_update,
      (''params'', \<lambda>j r. Some (r\<lparr>iq_params := Some j\<rparr>))]"

definition decode_exactly_one :: "(json \<Rightarrow> 'r \<Rightarrow> 'r option) \<Rightarrow> json option list \<Rightarrow> 'r \<Rightarrow> 'r option" where
  "decode_exactly_one read docs zero =
     (case docs of
        Some j # rest \<Rightarrow>
          (case read j zero of None \<Rightarrow> None | Some r \<Rightarrow> if rest = [] then Some r else None)
      | _ \<Rightarrow> None)"

definition clamp_limit :: "int \<Rightarrow> nat" where
  "clamp_limit maximum = (if maximum \<le> 0 \<or> int max_message_bytes < maximum then max_message_bytes else nat maximum)"

definition decode_request :: "int \<Rightarrow> body \<Rightarrow> ipc_error + ipc_request" where
  "decode_request maximum b =
     (if bd_failed b then Inl (IpcInvalid ''read request'')
      else if clamp_limit maximum < bd_size b then Inl IpcTooLarge
      else case decode_exactly_one (read_struct True request_fields) (bd_docs b) zero_request of
          None \<Rightarrow> Inl (IpcInvalid ''decode request'')
        | Some r \<Rightarrow>
          if iq_id r = [] \<or> iq_method r = [] then Inl (IpcInvalid ''id and method are required'') else Inr r)"

section \<open>Writing a response\<close>

definition write_status :: "agent_status \<Rightarrow> json" where
  "write_status s = JObj ([(''state'', JStr (as_state s))] @ omit_empty ''node_id'' (as_node_id s) @
     omit_empty ''server_url'' (as_server_url s) @ omit_empty ''version'' (as_version s) @
     [(''last_heartbeat'', JTime (as_last_heartbeat s))] @ omit_empty ''error'' (as_error s))"

definition write_update_status :: "update_status \<Rightarrow> json" where
  "write_update_status s =
     JObj ([(''available'', JBool (up_available s))] @ omit_empty ''version'' (up_version s) @ omit_empty ''url'' (up_url s))"

definition write_ipc_result :: "ipc_result \<Rightarrow> json" where
  "write_ipc_result r =
     (case r of
        StatusResult s \<Rightarrow> write_status s
      | UpdateResult u \<Rightarrow> write_update_status u
      | PathResult p \<Rightarrow> JObj [(''path'', JStr p)])"

definition write_fault :: "ipc_fault \<Rightarrow> json" where
  "write_fault e = JObj [(''code'', JStr (if_code e)), (''message'', JStr (if_message e))]"

definition write_response :: "ipc_result ipc_response \<Rightarrow> json" where
  "write_response r = JObj ([(''id'', JStr (ir_id r))] @ omit_none ''result'' write_ipc_result (ir_result r) @
     omit_none ''error'' write_fault (ir_error r))"

text \<open>The keys are those of the structs above, in which \<^verbatim>\<open>strings.ToLower\<close> meets only ASCII.\<close>

definition sensitive_field :: "string \<Rightarrow> bool" where
  "sensitive_field key =
     (let k = map ascii_lower key
      in k = ''pairing_credential'' \<or> contains k ''token'' \<or> contains k ''credential'' \<or> k = ''authorization'' \<or> k = ''password'')"

fun sensitive_value :: "json \<Rightarrow> bool" where
  "sensitive_value (JArr js) = list_ex sensitive_value js"
| "sensitive_value (JObj ms) = list_ex (\<lambda>(k, j). sensitive_field k \<or> sensitive_value j) ms"
| "sensitive_value _ = False"

definition encode_response :: "(json \<Rightarrow> nat option) \<Rightarrow> ipc_result ipc_response \<Rightarrow> ipc_error + json" where
  "encode_response json_size r =
     (case json_size (write_response r) of
        None \<Rightarrow> Inl IpcEncoding
      | Some n \<Rightarrow>
        if max_message_bytes < n then Inl IpcTooLarge
        else if sensitive_value (write_response r) then Inl IpcSensitive
        else Inr (write_response r))"

section \<open>The router\<close>

text \<open>The interface \<^verbatim>\<open>Controller\<close>, over the state of whatever is behind it.\<close>

record 'c ipc_controller =
  ic_status :: "'c \<Rightarrow> agent_status"
  ic_start_pairing :: "string \<Rightarrow> 'c \<Rightarrow> ctl_error option \<times> 'c"
  ic_restart_worker :: "'c \<Rightarrow> ctl_error option \<times> 'c"
  ic_check_update :: "'c \<Rightarrow> (ctl_error + update_status) \<times> 'c"
  ic_create_diagnostics :: "'c \<Rightarrow> (ctl_error + string) \<times> 'c"

definition ipc_success :: "string \<Rightarrow> ipc_result \<Rightarrow> ipc_result ipc_response" where
  "ipc_success i r = \<lparr>ir_id = i, ir_result = Some r, ir_error = None\<rparr>"

definition ipc_failure :: "string \<Rightarrow> string \<Rightarrow> string \<Rightarrow> ipc_result ipc_response" where
  "ipc_failure i code message = \<lparr>ir_id = i, ir_result = None, ir_error = Some \<lparr>if_code = code, if_message = message\<rparr>\<rparr>"

definition stable_error_message :: "string \<Rightarrow> string" where
  "stable_error_message code =
     (if code = ''pairing_failed'' then ''pairing failed''
      else if code = ''worker_restart_failed'' then ''worker restart failed''
      else if code = ''update_check_failed'' then ''update check failed''
      else if code = ''diagnostics_failed'' then ''diagnostics creation failed''
      else ''agent operation failed'')"

definition error_response :: "string \<Rightarrow> string \<Rightarrow> ipc_result ipc_response" where
  "error_response i code = ipc_failure i code (stable_error_message code)"

definition safe_update_status :: "controller_deps \<Rightarrow> update_status \<Rightarrow> update_status" where
  "safe_update_status d u = u\<lparr>up_url := shown_url d (up_url u)\<rparr>"

definition decode_params :: "json option \<Rightarrow> string option" where
  "decode_params params =
     (case params of
        None \<Rightarrow> None
      | Some j \<Rightarrow> decode_exactly_one (read_struct True [field_of ''server_url'' read_string id (\<lambda>f. f)]) [Some j] [])"

definition route_pairing ::
    "controller_deps \<Rightarrow> 'c ipc_controller \<Rightarrow> ipc_request \<Rightarrow> 'c \<Rightarrow> ipc_result ipc_response \<times> 'c" where
  "route_pairing d ctl q c =
     (case decode_params (iq_params q) of
        None \<Rightarrow> (ipc_failure (iq_id q) ''invalid_params'' ''pairing parameters are invalid'', c)
      | Some url \<Rightarrow>
        (case ic_start_pairing ctl url c of
           (Some e, c1) \<Rightarrow> (error_response (iq_id q) ''pairing_failed'', c1)
         | (None, c1) \<Rightarrow> (ipc_success (iq_id q) (StatusResult (safe_status d (ic_status ctl c1))), c1)))"

definition handle ::
    "controller_deps \<Rightarrow> 'c ipc_controller option \<Rightarrow> ipc_request \<Rightarrow> 'c \<Rightarrow> ipc_result ipc_response \<times> 'c" where
  "handle d controller q c =
     (case controller of
        None \<Rightarrow> (ipc_failure (iq_id q) ''internal_error'' ''controller is unavailable'', c)
      | Some ctl \<Rightarrow>
        if iq_method q = ''status.get''
        then (ipc_success (iq_id q) (StatusResult (safe_status d (ic_status ctl c))), c)
        else if iq_method q = ''pairing.start'' then route_pairing d ctl q c
        else if iq_method q = ''worker.restart''
        then (case ic_restart_worker ctl c of
            (Some e, c1) \<Rightarrow> (error_response (iq_id q) ''worker_restart_failed'', c1)
          | (None, c1) \<Rightarrow> (ipc_success (iq_id q) (StatusResult (safe_status d (ic_status ctl c1))), c1))
        else if iq_method q = ''update.check''
        then (case ic_check_update ctl c of
            (Inl e, c1) \<Rightarrow> (error_response (iq_id q) ''update_check_failed'', c1)
          | (Inr u, c1) \<Rightarrow> (ipc_success (iq_id q) (UpdateResult (safe_update_status d u)), c1))
        else if iq_method q = ''diagnostics.create''
        then (case ic_create_diagnostics ctl c of
            (Inl e, c1) \<Rightarrow> (error_response (iq_id q) ''diagnostics_failed'', c1)
          | (Inr path, c1) \<Rightarrow> (ipc_success (iq_id q) (PathResult path), c1))
        else (ipc_failure (iq_id q) ''method_not_allowed'' ''method is not allowed'', c))"

section \<open>One connection\<close>

text \<open>
  A connection: what its peer sends, whether its deadlines can be set, and whether the deadline has passed when
  the router is done.
\<close>

record ipc_connection =
  cn_request :: body
  cn_deadlines :: bool
  cn_expired :: bool

definition serve_connection ::
    "(json \<Rightarrow> nat option) \<Rightarrow> controller_deps \<Rightarrow> 'c ipc_controller option \<Rightarrow> ipc_connection \<Rightarrow> 'c \<Rightarrow> json option \<times> 'c" where
  "serve_connection json_size d ctl cn c =
     (let send = (\<lambda>r. case encode_response json_size r of Inl e \<Rightarrow> None | Inr j \<Rightarrow> Some j)
      in if \<not> cn_deadlines cn then (None, c)
         else case decode_request (int max_message_bytes) (cn_request cn) of
             Inl e \<Rightarrow> (send (ipc_failure [] ''invalid_request'' ''request is invalid or too large''), c)
           | Inr q \<Rightarrow>
             (case handle d ctl q c of
                (r, c1) \<Rightarrow>
                  (send (if cn_expired cn then ipc_failure (iq_id q) ''request_timeout'' ''request timed out'' else r), c1)))"

section \<open>All connections\<close>

text \<open>
  \<^verbatim>\<open>Serve\<close>: it accepts until the transport fails, then closes it and every registered connection and
  waits for the handlers.  \<open>sv_group\<close> and \<open>sv_waiting\<close> are the connection group; \<open>sv_serving\<close> and
  \<open>sv_ending\<close> the handlers before and after the connection is closed by them.
\<close>

datatype serve_phase = Accepting | Draining | Returned

record serving =
  sv_phase :: serve_phase
  sv_accepted :: nat
  sv_group :: "nat list"
  sv_waiting :: nat
  sv_serving :: "nat list"
  sv_ending :: "nat list"
  sv_closed :: "nat list"
  sv_transport_open :: bool

definition new_serving :: serving where
  "new_serving = \<lparr>sv_phase = Accepting, sv_accepted = 0, sv_group = [], sv_waiting = 0, sv_serving = [], sv_ending = [],
     sv_closed = [], sv_transport_open = True\<rparr>"

definition add_connection :: "serving \<Rightarrow> serving" where
  "add_connection s =
     s\<lparr>sv_accepted := Suc (sv_accepted s), sv_group := sv_accepted s # sv_group s, sv_waiting := Suc (sv_waiting s),
       sv_serving := sv_accepted s # sv_serving s\<rparr>"

definition close_connection :: "nat \<Rightarrow> serving \<Rightarrow> serving" where
  "close_connection i s = s\<lparr>sv_serving := remove1 i (sv_serving s), sv_ending := i # sv_ending s, sv_closed := i # sv_closed s\<rparr>"

definition connection_done :: "nat \<Rightarrow> serving \<Rightarrow> serving" where
  "connection_done i s =
     s\<lparr>sv_ending := remove1 i (sv_ending s), sv_group := remove1 i (sv_group s), sv_waiting := sv_waiting s - 1\<rparr>"

definition close_all :: "serving \<Rightarrow> serving" where
  "close_all s = s\<lparr>sv_closed := sv_group s @ sv_closed s\<rparr>"

inductive serve_step :: "serving \<Rightarrow> serving \<Rightarrow> bool" where
  accept: "sv_phase s = Accepting \<Longrightarrow> serve_step s (add_connection s)"
| served: "i \<in> set (sv_serving s) \<Longrightarrow> serve_step s (close_connection i s)"
| ended: "i \<in> set (sv_ending s) \<Longrightarrow> serve_step s (connection_done i s)"
| fails: "sv_phase s = Accepting \<Longrightarrow> serve_step s ((close_all s)\<lparr>sv_phase := Draining, sv_transport_open := False\<rparr>)"
| returns: "sv_phase s = Draining \<Longrightarrow> sv_waiting s = 0 \<Longrightarrow> serve_step s (s\<lparr>sv_phase := Returned\<rparr>)"

inductive serve_reachable :: "serving \<Rightarrow> bool" where
  initially: "serve_reachable new_serving"
| step: "serve_reachable s \<Longrightarrow> serve_step s s1 \<Longrightarrow> serve_reachable s1"

section \<open>The client\<close>

definition write_request :: "ipc_request \<Rightarrow> json" where
  "write_request q = JObj ([(''id'', JStr (iq_id q)), (''method'', JStr (iq_method q))] @ omit_none ''params'' id (iq_params q))"

definition encode_request :: "(json \<Rightarrow> nat option) \<Rightarrow> ipc_request \<Rightarrow> ipc_error + body" where
  "encode_request json_size q =
     (case json_size (write_request q) of
        None \<Rightarrow> Inl IpcEncoding
      | Some n \<Rightarrow> if max_message_bytes < n then Inl IpcTooLarge else Inr (json_body n (write_request q)))"

definition zero_fault :: ipc_fault where
  "zero_fault = \<lparr>if_code = [], if_message = []\<rparr>"

definition fault_fields :: "ipc_fault field list" where
  "fault_fields = [field_of ''code'' read_string if_code if_code_update, field_of ''message'' read_string if_message if_message_update]"

definition zero_response :: "json ipc_response" where
  "zero_response = \<lparr>ir_id = [], ir_result = None, ir_error = None\<rparr>"

definition response_fields :: "json ipc_response field list" where
  "response_fields =
     [field_of ''id'' read_string ir_id ir_id_update,
      (''result'', \<lambda>j r. Some (r\<lparr>ir_result := (if j = JNull then None else Some j)\<rparr>)),
      field_of ''error'' (read_pointer (read_struct True fault_fields) zero_fault) ir_error ir_error_update]"

definition decode_response :: "body \<Rightarrow> ipc_error + json ipc_response" where
  "decode_response b =
     (if max_message_bytes < bd_size b then Inl IpcTooLarge
      else if bd_size b = 0 then Inl (IpcInvalid ''read IPC response'')
      else case decode_exactly_one (read_struct True response_fields) (bd_docs b) zero_response of
          None \<Rightarrow> Inl (IpcInvalid ''decode response'')
        | Some r \<Rightarrow> Inr r)"

text \<open>
  \<^verbatim>\<open>pipeClient.Call\<close>; the flag says whether the client was used.  \<open>faults\<close> has the error of the context and those
  of the pipe's operations in their order, \<open>peer\<close> is what answers to the bytes that were sent.
\<close>

definition client_call ::
    "(json \<Rightarrow> nat option) \<Rightarrow> go_error option \<Rightarrow> go_error option \<Rightarrow> (body \<Rightarrow> body) \<Rightarrow> ipc_request \<Rightarrow> bool \<Rightarrow>
     (ipc_error + json ipc_response) \<times> bool" where
  "client_call json_size cancelled pipe_fault peer q used =
     (case cancelled of
        Some e \<Rightarrow> (Inl (IpcFailed e), used)
      | None \<Rightarrow>
        if used then (Inl (IpcFailed (Message ''IPC client accepts one request'')), used)
        else (case encode_request json_size q of
            Inl e \<Rightarrow> (Inl e, True)
          | Inr sent \<Rightarrow>
            (case pipe_fault of Some e \<Rightarrow> (Inl (IpcFailed e), True) | None \<Rightarrow> (decode_response (peer sent), True))))"

end
