(* ===== verification/AgentIpcTheorems.thy ===== *)
theory AgentIpcTheorems
  imports AgentIpc ControllerSteps
begin

text \<open>
  The router over the controller of \<open>AgentController\<close>, and what the control interface promises: answers are bounded, echo their
  request and hold nothing sensitive, the client gets what the router made, no answer depends on a
  credential, and a server that has returned left no connection open.
\<close>

section \<open>The controller behind the router\<close>

text \<open>What a call on the controller meets: the clock, the context, its dependencies and their answers.\<close>

record port_env =
  pe_now :: time
  pe_cancelled :: "go_error option"
  pe_preflight :: "go_error option"
  pe_pairing :: "(string \<times> time) res"
  pe_credential :: string
  pe_gate :: "go_error option"
  pe_save :: "go_error option"
  pe_update :: "update_status \<times> go_error option"
  pe_launched :: "bool option"
  pe_creator :: "(agent_status \<Rightarrow> string res) option"

definition pairing_answer :: "port_env \<Rightarrow> (string \<times> string \<times> time) res" where
  "pairing_answer env = (case pe_pairing env of Inl e \<Rightarrow> Inl e | Inr (i, t) \<Rightarrow> Inr (i, pe_credential env, t))"

definition start_pairing :: "controller_deps \<Rightarrow> port_env \<Rightarrow> string \<Rightarrow> controller \<Rightarrow> ctl_error option \<times> controller" where
  "start_pairing d env url c =
     (case begin_pairing d (pe_now env) url (pe_cancelled env) (pe_preflight env) c of
        (Some e, c1) \<Rightarrow> (Some e, c1)
      | (None, c1) \<Rightarrow>
     (case pairing_answered (pe_now env) (pairing_answer env) c1 of
        (Some e, c2) \<Rightarrow> (Some e, c2)
      | (None, c2) \<Rightarrow>
     (case pe_gate env of
        Some e \<Rightarrow> (Some (Plain e), c2\<lparr>ct_enrolling := EnrollIdle\<rparr>)
      | None \<Rightarrow>
     (case commit_begin d (pe_now env) c2 of
        (Some e, c3) \<Rightarrow> (Some e, c3)
      | (None, c3) \<Rightarrow> commit_saved d (pe_save env) c3))))"

definition restart_worker :: "controller_deps \<Rightarrow> controller \<Rightarrow> ctl_error option \<times> controller" where
  "restart_worker d c =
     (case restart_read c of
        (Some e, c1) \<Rightarrow> (Some e, c1)
      | (None, c1) \<Rightarrow> (None, start_worker d (ct_config c) (c1\<lparr>ct_restarts := remove1 (ct_config c) (ct_restarts c1)\<rparr>)))"

text \<open>A check that this call starts runs to its end, with a launch in it when the checker asks for one.\<close>

definition check_update :: "controller_deps \<Rightarrow> port_env \<Rightarrow> controller \<Rightarrow> (ctl_error + update_status) \<times> controller" where
  "check_update d env c =
     (case begin_check d (pe_now env) c of
        (Refused e, c1) \<Rightarrow> (Inl e, c1)
      | (Known st, c1) \<Rightarrow> (Inr st, c1)
      | (Waiting i, c1) \<Rightarrow>
        (let c2 = (case pe_launched env of
               None \<Rightarrow> c1
             | Some launched \<Rightarrow>
               (case authorize d (pe_now env) i c1 of
                  (Some e, c2) \<Rightarrow> c2
                | (None, c2) \<Rightarrow> finish_launch d (pe_now env) (fst (pe_update env)) launched c2));
             c3 = end_flight d i (fst (pe_update env)) (snd (pe_update env)) c2
         in case fl_result (ct_flights c3 ! i) of
             None \<Rightarrow> (Inr no_status, c3)
           | Some (st, None) \<Rightarrow> (Inr st, c3)
           | Some (st, Some e) \<Rightarrow> (Inl e, c3)))"

definition controller_port :: "controller_deps \<Rightarrow> port_env \<Rightarrow> controller ipc_controller" where
  "controller_port d env =
     \<lparr>ic_status = shown_status d, ic_start_pairing = start_pairing d env, ic_restart_worker = restart_worker d,
      ic_check_update = check_update d env, ic_create_diagnostics = (\<lambda>c. (create_diagnostics (pe_creator env) d c, c))\<rparr>"

lemma port_simps:
  "ic_status (controller_port d env) = shown_status d" "ic_start_pairing (controller_port d env) = start_pairing d env"
  "ic_restart_worker (controller_port d env) = restart_worker d" "ic_check_update (controller_port d env) = check_update d env"
  "ic_create_diagnostics (controller_port d env) c = (create_diagnostics (pe_creator env) d c, c)"
  by (simp_all add: controller_port_def)

section \<open>What is written\<close>

lemma sensitive_append: "sensitive_value (JObj (ms @ ns)) \<longleftrightarrow> sensitive_value (JObj ms) \<or> sensitive_value (JObj ns)"
  by simp

lemma key_plain:
  "\<not> sensitive_field ''id''" "\<not> sensitive_field ''result''" "\<not> sensitive_field ''error''" "\<not> sensitive_field ''state''"
  "\<not> sensitive_field ''node_id''" "\<not> sensitive_field ''server_url''" "\<not> sensitive_field ''version''" "\<not> sensitive_field ''last_heartbeat''"
  "\<not> sensitive_field ''available''" "\<not> sensitive_field ''url''" "\<not> sensitive_field ''path''" "\<not> sensitive_field ''code''"
  "\<not> sensitive_field ''message''"
  by code_simp+

lemma response_not_sensitive: "\<not> sensitive_value (write_response r)"
proof -
  have s: "\<not> sensitive_value (write_status s)" for s
    by (simp add: write_status_def omit_empty_def key_plain)
  have u: "\<not> sensitive_value (write_update_status u)" for u
    by (simp add: write_update_status_def omit_empty_def key_plain)
  have "\<not> sensitive_value (write_ipc_result x)" for x
    using s u by (cases x) (simp_all add: write_ipc_result_def key_plain)
  moreover have "\<not> sensitive_value (write_fault e)" for e
    by (simp add: write_fault_def key_plain)
  ultimately show ?thesis
    by (simp add: write_response_def omit_none_def key_plain split: option.splits)
qed

lemma encode_response_ok:
  "json_size (write_response r) = Some n \<Longrightarrow> n \<le> max_message_bytes \<Longrightarrow> encode_response json_size r = Inr (write_response r)"
  by (simp add: encode_response_def response_not_sensitive)

lemma encode_responseD:
  assumes "encode_response json_size r = Inr j"
  shows "j = write_response r \<and> (\<exists>n. json_size j = Some n \<and> n \<le> max_message_bytes)"
  using assms by (auto simp: encode_response_def split: option.splits if_splits)

section \<open>What the router answers\<close>

definition fixed_messages :: "string list" where
  "fixed_messages = [''controller is unavailable'', ''method is not allowed'', ''pairing parameters are invalid'', ''pairing failed'',
     ''worker restart failed'', ''update check failed'', ''diagnostics creation failed'', ''request is invalid or too large'',
     ''request timed out'']"

text \<open>The answer to a request of this identifier: a result or one of the fixed messages, and no text of an error.\<close>

definition proper_answer :: "string \<Rightarrow> ipc_result ipc_response \<Rightarrow> bool" where
  "proper_answer i r \<longleftrightarrow> ir_id r = i \<and>
     (case ir_error r of
        Some e \<Rightarrow> ir_result r = None \<and> if_message e \<in> set fixed_messages
      | None \<Rightarrow>
        (case ir_result r of
           None \<Rightarrow> False
         | Some (StatusResult s) \<Rightarrow> as_error s \<in> {[], ''agent operation failed''}
         | Some _ \<Rightarrow> True))"

lemma proper_failure: "m \<in> set fixed_messages \<Longrightarrow> proper_answer i (ipc_failure i code m)"
  by (simp add: proper_answer_def ipc_failure_def)

lemma proper_status: "proper_answer i (ipc_success i (StatusResult (safe_status d s)))"
  by (simp add: proper_answer_def ipc_success_def safe_status_def safe_status_error_def)

lemma proper_success: "proper_answer i (ipc_success i (UpdateResult u))" "proper_answer i (ipc_success i (PathResult p))"
  by (simp_all add: proper_answer_def ipc_success_def)

lemma proper_failures:
  "proper_answer i (ipc_failure i ''internal_error'' ''controller is unavailable'')"
  "proper_answer i (ipc_failure i ''invalid_params'' ''pairing parameters are invalid'')"
  "proper_answer i (ipc_failure i ''method_not_allowed'' ''method is not allowed'')"
  "proper_answer i (ipc_failure i ''request_timeout'' ''request timed out'')"
  "proper_answer i (ipc_failure i ''invalid_request'' ''request is invalid or too large'')"
  by (rule proper_failure, simp add: fixed_messages_def)+

lemma proper_errors:
  "proper_answer i (error_response i ''pairing_failed'')" "proper_answer i (error_response i ''worker_restart_failed'')"
  "proper_answer i (error_response i ''update_check_failed'')" "proper_answer i (error_response i ''diagnostics_failed'')"
  by (simp_all add: error_response_def stable_error_message_def proper_failure fixed_messages_def)

lemmas proper_answers = proper_failures proper_errors proper_status proper_success

lemma route_pairing_proper: "proper_answer (iq_id q) (fst (route_pairing d ctl q c))"
  by (simp add: route_pairing_def proper_answers split: option.split prod.split)

lemma handle_proper: "proper_answer (iq_id q) (fst (handle d ctl q c))"
  by (simp add: handle_def proper_answers route_pairing_proper split: option.split sum.split prod.split)

text \<open>C29: Whatever a peer of the control interface sends, what is written back is one response that
carries the identifier of the request (or none when there was no valid request), takes at most 64 KiB and has no
sensitive member at any depth; it is a result, whose status shows no text of an error, or one of the fixed
messages.\<close>

theorem ipc_answers_safe:
  assumes "serve_connection json_size d ctl cn c = (Some j, c1)"
  shows "\<exists>r n. j = write_response r \<and> json_size j = Some n \<and> n \<le> max_message_bytes \<and> \<not> sensitive_value j \<and>
    proper_answer (case decode_request (int max_message_bytes) (cn_request cn) of Inl e \<Rightarrow> [] | Inr q \<Rightarrow> iq_id q) r"
proof -
  let ?id = "case decode_request (int max_message_bytes) (cn_request cn) of Inl e \<Rightarrow> [] | Inr q \<Rightarrow> iq_id q"
  have "\<exists>r. encode_response json_size r = Inr j \<and> proper_answer ?id r"
  proof (cases "decode_request (int max_message_bytes) (cn_request cn)")
    case (Inl e)
    with assms show ?thesis
      using proper_failures(5) by (auto simp: serve_connection_def Let_def split: if_splits sum.splits)
  next
    case (Inr q)
    obtain r c2 where h: "handle d ctl q c = (r, c2)" by fastforce
    with handle_proper [of q d ctl c] have "proper_answer (iq_id q) r" by simp
    with Inr assms h proper_failures(4) [of "iq_id q"] show ?thesis
      by (auto simp: serve_connection_def Let_def split: if_splits sum.splits)
  qed
  then show ?thesis using encode_responseD response_not_sensitive by blast
qed

section \<open>The client gets what the router made\<close>

lemma find_field: "find (\<lambda>f. fst f = k) ((n, g) # fs) = (if n = k then Some (n, g) else find (\<lambda>f. fst f = k) fs)"
  by simp

lemma request_roundtrip:
  assumes "iq_id q \<noteq> []" and "iq_method q \<noteq> []" and "encode_request json_size q = Inr b"
  shows "decode_request (int max_message_bytes) b = Inr q"
proof -
  from assms(3) obtain n where n: "b = json_body n (write_request q)" "n \<le> max_message_bytes"
    by (auto simp: encode_request_def split: option.splits if_splits)
  have "read_struct True request_fields (write_request q) zero_request = Some q"
    by (cases q; cases "iq_params q")
      (simp_all add: write_request_def omit_none_def set_member_def request_fields_def field_of_def zero_request_def)
  then show ?thesis
    using n assms(1,2) by (simp add: decode_request_def json_body_def clamp_limit_def decode_exactly_one_def)
qed

definition seen :: "ipc_result ipc_response \<Rightarrow> json ipc_response" where
  "seen r = \<lparr>ir_id = ir_id r, ir_result = map_option write_ipc_result (ir_result r), ir_error = ir_error r\<rparr>"

lemma write_ipc_result_obj: "\<exists>ms. write_ipc_result x = JObj ms"
  by (cases x) (simp_all add: write_ipc_result_def write_status_def write_update_status_def)

lemma write_ipc_result_not_null: "write_ipc_result x \<noteq> JNull"
  using write_ipc_result_obj [of x] by auto

lemma read_fault: "read_pointer (read_struct True fault_fields) zero_fault (write_fault e) None = Some (Some e)"
  by (cases e) (simp add: write_fault_def fault_fields_def field_of_def set_member_def zero_fault_def)

lemma response_roundtrip:
  assumes "n \<le> max_message_bytes" and "n \<noteq> 0"
  shows "decode_response (json_body n (write_response r)) = Inr (seen r)"
proof -
  have "read_struct True response_fields (write_response r) zero_response = Some (seen r)"
    by (cases "ir_result r"; cases "ir_error r")
      (simp_all add: write_response_def omit_none_def set_member_def response_fields_def field_of_def seen_def
        zero_response_def write_ipc_result_not_null read_fault)
  then show ?thesis using assms by (simp add: decode_response_def json_body_def decode_exactly_one_def)
qed

text \<open>The server at the other end of the pipe, whose answer the client reads to its end.\<close>

definition pipe_peer ::
    "(json \<Rightarrow> nat option) \<Rightarrow> controller_deps \<Rightarrow> 'c ipc_controller option \<Rightarrow> 'c \<Rightarrow> body \<Rightarrow> body" where
  "pipe_peer json_size d ctl c sent =
     (case fst (serve_connection json_size d ctl \<lparr>cn_request = sent, cn_deadlines = True, cn_expired = False\<rparr> c) of
        None \<Rightarrow> empty_body
      | Some j \<Rightarrow> json_body (the (json_size j)) j)"

text \<open>A call of the client returns what the router answers: when the texts of the request and of the
response fit into 64 KiB, encoding, the server's decoding, the router, the server's encoding and the client's
decoding give back the response of the router to that very request.\<close>

theorem ipc_roundtrip:
  assumes "iq_id q \<noteq> []" and "iq_method q \<noteq> []" and "json_size (write_request q) = Some m" and "m \<le> max_message_bytes"
    and "json_size (write_response (fst (handle d ctl q c))) = Some n" and "n \<noteq> 0" and "n \<le> max_message_bytes"
  shows "client_call json_size None None (pipe_peer json_size d ctl c) q False = (Inr (seen (fst (handle d ctl q c))), True)"
proof -
  let ?b = "json_body m (write_request q)"
  obtain r c1 where h: "handle d ctl q c = (r, c1)" by fastforce
  have sent: "encode_request json_size q = Inr ?b" using assms(3,4) by (simp add: encode_request_def)
  have "encode_response json_size r = Inr (write_response r)"
    by (rule encode_response_ok) (use assms(5,7) h in simp_all)
  then have "pipe_peer json_size d ctl c ?b = json_body n (write_response r)"
    using request_roundtrip [OF assms(1,2) sent] h assms(5) by (simp add: pipe_peer_def serve_connection_def)
  then show ?thesis
    using sent h response_roundtrip [OF assms(7,6), of r] by (simp add: client_call_def)
qed

section \<open>No answer depends on a credential\<close>

definition with_credential :: "string \<Rightarrow> controller \<Rightarrow> controller" where
  "with_credential k c = c\<lparr>ct_config := (ct_config c)\<lparr>cg_credential := k\<rparr>\<rparr>"

lemma with_credential_simps [simp]:
  "ct_gate (with_credential k c) = ct_gate c" "ct_status (with_credential k c) = ct_status c"
  "ct_pending (with_credential k c) = ct_pending c" "ct_flight (with_credential k c) = ct_flight c"
  "ct_flights (with_credential k c) = ct_flights c" "ct_generation (with_credential k c) = ct_generation c"
  "ct_shutting_down (with_credential k c) = ct_shutting_down c" "ct_restarts (with_credential k c) = ct_restarts c"
  "ct_enrolling (with_credential k c) = ct_enrolling c" "ct_worker_id (with_credential k c) = ct_worker_id c"
  "cg_server_url (ct_config (with_credential k c)) = cg_server_url (ct_config c)"
  "cg_node_id (ct_config (with_credential k c)) = cg_node_id (ct_config c)"
  "cg_credential (ct_config (with_credential k c)) = k"
  by (simp_all add: with_credential_def)

lemma shown_status_credential: "shown_status d (with_credential k c) = shown_status d c"
  by (simp add: shown_status_def)

definition refused :: "'e option \<Rightarrow> bool" where
  "refused e \<longleftrightarrow> e \<noteq> None"

lemma has_pending_credential:
  "has_pending d now (with_credential k c) = (fst (has_pending d now c), with_credential k (snd (has_pending d now c)))"
  by (simp add: has_pending_def pending_within_def with_credential_def)

lemma begin_pairing_credential:
  "begin_pairing d now url e1 e2 (with_credential k c) =
     (fst (begin_pairing d now url e1 e2 c), with_credential k (snd (begin_pairing d now url e1 e2 c)))"
  by (simp add: begin_pairing_def enroll_checks_def has_pending_credential split: prod.split bool.split option.split)
    (simp add: with_credential_def)

lemma restart_worker_shown:
  assumes "k \<noteq> []" and "k1 \<noteq> []"
  shows "refused (fst (restart_worker d (with_credential k c))) = refused (fst (restart_worker d (with_credential k1 c)))"
    and "ct_status (snd (restart_worker d (with_credential k c))) = ct_status (snd (restart_worker d (with_credential k1 c)))"
  using assms by (simp_all add: restart_worker_def restart_read_def start_worker_def refused_def Let_def)

text \<open>What the call on a check comes to is decided by the generations and by what the checker says.\<close>

definition check_outcome :: "controller_deps \<Rightarrow> port_env \<Rightarrow> bool \<Rightarrow> unit + update_status" where
  "check_outcome d env current =
     (if current \<and> snd (pe_update env) = None
      then Inr ((fst (pe_update env))\<lparr>up_url := shown_url d (up_url (fst (pe_update env)))\<rparr>) else Inl ())"

definition verdict :: "(update_status \<times> ctl_error option) option \<Rightarrow> unit + update_status" where
  "verdict r = (case r of None \<Rightarrow> Inr no_status | Some (st, None) \<Rightarrow> Inr st | Some (st, Some e) \<Rightarrow> Inl ())"

lemma verdict_end_flight:
  assumes "i < length (ct_flights c)"
  shows "verdict (fl_result (ct_flights (end_flight d i (fst (pe_update env)) (snd (pe_update env)) c) ! i)) =
    check_outcome d env (ct_generation c = fl_generation (ct_flights c ! i))"
  using assms by (cases "snd (pe_update env)") (simp_all add: verdict_def end_flight_def check_outcome_def Let_def)

definition after_launch :: "controller_deps \<Rightarrow> port_env \<Rightarrow> nat \<Rightarrow> controller \<Rightarrow> controller" where
  "after_launch d env i c =
     (case pe_launched env of
        None \<Rightarrow> c
      | Some launched \<Rightarrow>
        (case authorize d (pe_now env) i c of
           (Some e, c2) \<Rightarrow> c2
         | (None, c2) \<Rightarrow> finish_launch d (pe_now env) (fst (pe_update env)) launched c2))"

lemma after_launch_flights: "ct_flights (after_launch d env i c) = ct_flights c" "ct_generation (after_launch d env i c) = ct_generation c"
  by (simp_all add: after_launch_def authorize_def finish_launch_def split: option.split)

lemma check_update_verdict:
  "map_sum (\<lambda>e. ()) id (fst (check_update d env c)) =
     (case begin_check d (pe_now env) c of
        (Refused e, c1) \<Rightarrow> Inl ()
      | (Known st, c1) \<Rightarrow> Inr st
      | (Waiting i, c1) \<Rightarrow>
          verdict (fl_result (ct_flights (end_flight d i (fst (pe_update env)) (snd (pe_update env)) (after_launch d env i c1)) ! i)))"
  by (simp add: check_update_def verdict_def Let_def after_launch_def split: prod.split check_answer.split option.split)

lemma check_update_shown:
  assumes "flights_wf c"
  shows "map_sum (\<lambda>e. ()) id (fst (check_update d env (with_credential k c))) = map_sum (\<lambda>e. ()) id (fst (check_update d env c))"
proof -
  have cur: "ct_flight c = Some i \<Longrightarrow> i < length (ct_flights c)" for i
    using assms by (simp add: flights_wf_def all_flights_wf_def)
  have b: "fst (begin_check d now (with_credential k c)) = fst (begin_check d now c)" for now
    by (simp add: begin_check_def pending_within_def Let_def split: option.split)
  have w: "i < length (ct_flights c1) \<and> fl_generation (ct_flights c1 ! i) = ct_generation c1"
    if "begin_check d now c0 = (Waiting i, c1)" "ct_flight c0 = ct_flight c" "ct_flights c0 = ct_flights c" for i c1 c0 now
    using that cur by (auto simp: begin_check_def Let_def nth_append split: if_splits option.splits)
  show ?thesis
  proof (cases "fst (begin_check d (pe_now env) c)")
    case (Waiting i)
    obtain c1 where c1: "begin_check d (pe_now env) c = (Waiting i, c1)" using Waiting by (metis prod.collapse)
    obtain c2 where c2: "begin_check d (pe_now env) (with_credential k c) = (Waiting i, c2)" using Waiting b by (metis prod.collapse)
    from w [OF c1] w [OF c2] c1 c2 show ?thesis
      by (simp add: check_update_verdict verdict_end_flight after_launch_flights)
  next
    case (Refused e)
    with b [of "pe_now env"] show ?thesis by (auto simp: check_update_verdict split: prod.split)
  next
    case (Known st)
    with b [of "pe_now env"] show ?thesis by (auto simp: check_update_verdict split: prod.split)
  qed
qed

lemma credential_untouched:
  "pe_now (env\<lparr>pe_credential := p\<rparr>) = pe_now env" "pe_update (env\<lparr>pe_credential := p\<rparr>) = pe_update env"
  "pe_launched (env\<lparr>pe_credential := p\<rparr>) = pe_launched env" "pe_creator (env\<lparr>pe_credential := p\<rparr>) = pe_creator env"
  by simp_all

lemma start_pairing_shown:
  fixes env :: port_env and p p1 :: string
  assumes "p \<noteq> []" and "p1 \<noteq> []"
  shows "refused (fst (start_pairing d (env\<lparr>pe_credential := p\<rparr>) url (with_credential k c))) =
      refused (fst (start_pairing d (env\<lparr>pe_credential := p1\<rparr>) url (with_credential k1 c))) \<and>
    ct_status (snd (start_pairing d (env\<lparr>pe_credential := p\<rparr>) url (with_credential k c))) =
      ct_status (snd (start_pairing d (env\<lparr>pe_credential := p1\<rparr>) url (with_credential k1 c)))"
proof -
  obtain r c1 where b: "begin_pairing d (pe_now env) url (pe_cancelled env) (pe_preflight env) c = (r, c1)" by fastforce
  have b1: "begin_pairing d (pe_now env) url (pe_cancelled env) (pe_preflight env) (with_credential k c) = (r, with_credential k c1)" for k
    using b by (simp add: begin_pairing_credential)
  show ?thesis
  proof (cases r)
    case None
    have e: "ct_enrolling c1 = Pairing (shown_url d url)"
      using b None
      by (cases "pe_preflight env") (auto simp: begin_pairing_def enroll_checks_def split: if_splits prod.splits bool.splits)
    show ?thesis
      using assms(1,2) e
      by (auto simp: start_pairing_def b1 None pairing_answered_def pairing_answer_def commit_begin_def
          has_pending_def pending_within_def commit_saved_def activate_configuration_def invalidate_generation_def refused_def Let_def
          split: option.splits sum.splits)
  qed (simp add: start_pairing_def b1 refused_def)
qed

text \<open>C28: No answer of the control interface depends on a credential: to any request, in any state of the
controller, the router answers the same whichever credential the configuration holds and whichever credential a
new pairing is created with.\<close>

theorem ipc_answers_hide_credentials:
  assumes "flights_wf c" and "k \<noteq> []" and "k1 \<noteq> []" and "p \<noteq> []" and "p1 \<noteq> []"
  shows "fst (handle d (Some (controller_port d (env\<lparr>pe_credential := p\<rparr>))) q (with_credential k c)) =
    fst (handle d (Some (controller_port d (env\<lparr>pe_credential := p1\<rparr>))) q (with_credential k1 c))"
proof -
  let ?ctl = "\<lambda>p. controller_port d (env\<lparr>pe_credential := p\<rparr>)"
  have pairing: "fst (route_pairing d (?ctl p) q (with_credential k c)) = fst (route_pairing d (?ctl p1) q (with_credential k1 c))"
  proof (cases "decode_params (iq_params q)")
    case (Some url)
    with start_pairing_shown [OF assms(4,5), of d env url k c k1] show ?thesis
      by (auto simp: route_pairing_def controller_port_def shown_status_def refused_def split: prod.split option.split)
  qed (simp add: route_pairing_def)
  have restart: "fst (case restart_worker d (with_credential k c) of
        (Some e, c1) \<Rightarrow> (error_response (iq_id q) ''worker_restart_failed'', c1)
      | (None, c1) \<Rightarrow> (ipc_success (iq_id q) (StatusResult (safe_status d (shown_status d c1))), c1)) =
      fst (case restart_worker d (with_credential k1 c) of
        (Some e, c1) \<Rightarrow> (error_response (iq_id q) ''worker_restart_failed'', c1)
      | (None, c1) \<Rightarrow> (ipc_success (iq_id q) (StatusResult (safe_status d (shown_status d c1))), c1))"
    using restart_worker_shown [OF assms(2,3), of d c]
    by (auto simp: shown_status_def refused_def split: prod.split option.split)
  have check: "fst (case check_update d (env\<lparr>pe_credential := p\<rparr>) (with_credential k c) of
        (Inl e, c1) \<Rightarrow> (error_response (iq_id q) ''update_check_failed'', c1)
      | (Inr u, c1) \<Rightarrow> (ipc_success (iq_id q) (UpdateResult (safe_update_status d u)), c1)) =
      fst (case check_update d (env\<lparr>pe_credential := p1\<rparr>) (with_credential k1 c) of
        (Inl e, c1) \<Rightarrow> (error_response (iq_id q) ''update_check_failed'', c1)
      | (Inr u, c1) \<Rightarrow> (ipc_success (iq_id q) (UpdateResult (safe_update_status d u)), c1))"
  proof -
    have e: "check_update d (env\<lparr>pe_credential := p\<rparr>) = check_update d env" for p
      unfolding check_update_def credential_untouched by (rule refl)
    have "map_sum (\<lambda>e. ()) id (fst (check_update d env (with_credential k c))) =
      map_sum (\<lambda>e. ()) id (fst (check_update d env (with_credential k1 c)))"
      by (simp only: check_update_shown [OF assms(1)])
    then show ?thesis unfolding e by (auto split: prod.split sum.splits)
  qed
  have diagnostics: "create_diagnostics (pe_creator env) d (with_credential k c) = create_diagnostics (pe_creator env) d (with_credential k1 c) \<or>
      (\<exists>e e1. create_diagnostics (pe_creator env) d (with_credential k c) = Inl e \<and> create_diagnostics (pe_creator env) d (with_credential k1 c) = Inl e1)"
    by (auto simp: create_diagnostics_def shown_status_credential split: option.split sum.split)
  show ?thesis
    unfolding handle_def option.case port_simps credential_untouched
    using pairing restart check diagnostics
    by (auto simp: shown_status_credential split: sum.split)
qed

section \<open>The server leaves nothing open\<close>

definition serving_wf :: "serving \<Rightarrow> bool" where
  "serving_wf s \<longleftrightarrow>
     distinct (sv_serving s @ sv_ending s) \<and> distinct (sv_group s) \<and> set (sv_group s) = set (sv_serving s) \<union> set (sv_ending s) \<and>
     sv_waiting s = length (sv_group s) \<and> set (sv_ending s) \<subseteq> set (sv_closed s) \<and>
     set (sv_group s) \<union> set (sv_closed s) = {..<sv_accepted s} \<and>
     (sv_transport_open s \<longleftrightarrow> sv_phase s = Accepting) \<and>
     (sv_phase s \<noteq> Accepting \<longrightarrow> set (sv_group s) \<subseteq> set (sv_closed s)) \<and> (sv_phase s = Returned \<longrightarrow> sv_group s = [])"

lemma serving_accept: "serving_wf s \<Longrightarrow> sv_phase s = Accepting \<Longrightarrow> serving_wf (add_connection s)"
  by (auto simp: serving_wf_def add_connection_def lessThan_Suc)

lemma serving_close:
  assumes "serving_wf s" and "i \<in> set (sv_serving s)"
  shows "serving_wf (close_connection i s)"
proof -
  have "set (remove1 i (sv_serving s)) = set (sv_serving s) - {i}" using assms by (simp add: serving_wf_def)
  with assms show ?thesis by (auto simp: serving_wf_def close_connection_def)
qed

lemma serving_done:
  assumes "serving_wf s" and "i \<in> set (sv_ending s)"
  shows "serving_wf (connection_done i s)"
proof -
  have "set (remove1 i (sv_ending s)) = set (sv_ending s) - {i}" "set (remove1 i (sv_group s)) = set (sv_group s) - {i}"
    "i \<in> set (sv_group s)" "i \<notin> set (sv_serving s)" "i \<in> set (sv_closed s)"
    using assms by (auto simp: serving_wf_def)
  with assms show ?thesis by (auto simp: serving_wf_def connection_done_def length_remove1)
qed

lemma serve_reachable_wf: "serve_reachable s \<Longrightarrow> serving_wf s"
proof (induction rule: serve_reachable.induct)
  case initially
  then show ?case by (simp add: serving_wf_def new_serving_def)
next
  case (step s s1)
  from step(2) show ?case
  proof cases
    case fails
    then show ?thesis using step(3) by (auto simp: serving_wf_def close_all_def)
  next
    case returns
    then show ?thesis using step(3) by (auto simp: serving_wf_def)
  qed (use step(3) serving_accept serving_close serving_done in simp_all)
qed

text \<open>A server that has returned has closed its transport and every connection it ever accepted, and
no handler of a connection is left, in whatever order connections came, were served and ended.\<close>

theorem serve_leaves_nothing_open:
  assumes "serve_reachable s" and "sv_phase s = Returned"
  shows "\<not> sv_transport_open s \<and> sv_serving s = [] \<and> sv_ending s = [] \<and> set (sv_closed s) = {..<sv_accepted s}"
  using serve_reachable_wf [OF assms(1)] assms(2) by (auto simp: serving_wf_def)

text \<open>It can always return: while it drains, a handler goes on or it returns.\<close>

lemma serve_drains:
  assumes "serve_reachable s" and "sv_phase s = Draining"
  shows "\<exists>s1. serve_step s s1 \<and> 2 * length (sv_serving s1) + length (sv_ending s1) + (if sv_phase s1 = Returned then 0 else 1)
    < 2 * length (sv_serving s) + length (sv_ending s) + 1"
proof -
  note wf = serve_reachable_wf [OF assms(1)]
  consider i xs where "sv_serving s = i # xs" | i xs where "sv_ending s = i # xs" | "sv_serving s = []" "sv_ending s = []"
    by (cases "sv_serving s"; cases "sv_ending s") auto
  then show ?thesis
  proof cases
    case (1 i xs)
    then show ?thesis using serve_step.served [of i s] by (intro exI [of _ "close_connection i s"]) (auto simp: close_connection_def)
  next
    case (2 i xs)
    then show ?thesis using serve_step.ended [of i s] by (intro exI [of _ "connection_done i s"]) (auto simp: connection_done_def)
  next
    case 3
    then have "sv_waiting s = 0" using wf by (auto simp: serving_wf_def)
    with 3 serve_step.returns [OF assms(2)] show ?thesis by (intro exI [of _ "s\<lparr>sv_phase := Returned\<rparr>"]) simp
  qed
qed

section \<open>Runs\<close>

definition demo_size :: "json \<Rightarrow> nat option" where
  "demo_size j = Some 100"

definition demo_pairing_request :: ipc_request where
  "demo_pairing_request = \<lparr>iq_id = ''7'', iq_method = ''pairing.start'', iq_params = Some (JObj [(''server_url'', JStr ''https://ace'')])\<rparr>"

definition demo_env :: port_env where
  "demo_env = \<lparr>pe_now = 0, pe_cancelled = None, pe_preflight = None, pe_pairing = Inr (''p1'', 60), pe_credential = ''s3'',
     pe_gate = None, pe_save = None, pe_update = (no_status, None), pe_launched = None, pe_creator = None\<rparr>"

definition demo_waiting :: agent_status where
  "demo_waiting = bare_status ''waiting_for_approval'' [] ''https://ace'' []"

lemma demo_deps_has: "cd_has_preflight demo_deps" "cd_has_pairer demo_deps" "cd_has_writer demo_deps"
  by (simp_all add: demo_deps_def)

lemma demo_pairs:
  assumes "p \<noteq> []"
  shows "fst (handle demo_deps (Some (controller_port demo_deps (demo_env\<lparr>pe_credential := p\<rparr>))) demo_pairing_request new_controller) =
    ipc_success ''7'' (StatusResult demo_waiting)"
proof -
  have m: "iq_method demo_pairing_request = ''pairing.start''" "iq_id demo_pairing_request = ''7''" by (simp_all add: demo_pairing_request_def)
  have q: "decode_params (iq_params demo_pairing_request) = Some ''https://ace''"
    by (simp add: demo_pairing_request_def decode_params_def decode_exactly_one_def set_member_def field_of_def)
  have "\<exists>c. start_pairing demo_deps (demo_env\<lparr>pe_credential := p\<rparr>) ''https://ace'' new_controller = (None, c) \<and> ct_status c = demo_waiting"
    using assms by (simp add: start_pairing_def begin_pairing_def enroll_checks_def has_pending_def pending_within_def new_controller_def
        demo_shown demo_deps_has demo_env_def pairing_answered_def pairing_answer_def commit_begin_def commit_saved_def demo_waiting_def
        activate_configuration_def invalidate_generation_def Let_def)
  then obtain c where c: "start_pairing demo_deps (demo_env\<lparr>pe_credential := p\<rparr>) ''https://ace'' new_controller = (None, c)"
    "ct_status c = demo_waiting" by blast
  have "safe_status demo_deps (safe_status demo_deps demo_waiting) = demo_waiting"
    by (simp add: safe_status_def demo_waiting_def bare_status_def demo_shown safe_status_error_def)
  then show ?thesis
    using c m q by (simp add: handle_def route_pairing_def port_simps shown_status_def)
qed

abbreviation demo_port :: "controller ipc_controller" where
  "demo_port \<equiv> controller_port demo_deps (demo_env\<lparr>pe_credential := ''s3''\<rparr>)"

theorem ipc_roundtrip_witness:
  "client_call demo_size None None (pipe_peer demo_size demo_deps (Some demo_port) new_controller) demo_pairing_request False =
     (Inr (seen (ipc_success ''7'' (StatusResult demo_waiting))), True)"
  using ipc_roundtrip [of demo_pairing_request demo_size 100 demo_deps "Some demo_port" new_controller 100] demo_pairs [of "''s3''"]
  by (simp add: demo_size_def demo_pairing_request_def)

definition demo_connection :: ipc_connection where
  "demo_connection = \<lparr>cn_request = json_body 100 (write_request demo_pairing_request), cn_deadlines = True, cn_expired = False\<rparr>"

lemma demo_serves:
  "fst (serve_connection demo_size demo_deps (Some demo_port) demo_connection new_controller) =
     Some (write_response (ipc_success ''7'' (StatusResult demo_waiting)))"
proof -
  have "decode_request (int max_message_bytes) (json_body 100 (write_request demo_pairing_request)) = Inr demo_pairing_request"
    by (rule request_roundtrip [of _ demo_size]) (simp_all add: demo_pairing_request_def encode_request_def demo_size_def)
  moreover obtain c where "handle demo_deps (Some demo_port) demo_pairing_request new_controller =
      (ipc_success ''7'' (StatusResult demo_waiting), c)"
    using demo_pairs [of "''s3''"] by (metis list.distinct(1) prod.collapse)
  ultimately show ?thesis
    by (simp add: serve_connection_def demo_connection_def encode_response_ok [of demo_size _ 100] demo_size_def)
qed

theorem ipc_answers_safe_witness:
  "\<exists>r. fst (serve_connection demo_size demo_deps (Some demo_port) demo_connection new_controller) = Some (write_response r) \<and>
     \<not> sensitive_value (write_response r)"
proof -
  obtain c1 where "serve_connection demo_size demo_deps (Some demo_port) demo_connection new_controller =
      (Some (write_response (ipc_success ''7'' (StatusResult demo_waiting))), c1)"
    using demo_serves by (metis prod.collapse)
  from ipc_answers_safe [OF this] demo_serves show ?thesis by blast
qed

theorem ipc_answers_hide_credentials_witness:
  "fst (handle demo_deps (Some (controller_port demo_deps (demo_env\<lparr>pe_credential := ''s3''\<rparr>))) demo_pairing_request
      (with_credential ''a'' new_controller)) =
   fst (handle demo_deps (Some (controller_port demo_deps (demo_env\<lparr>pe_credential := ''t4''\<rparr>))) demo_pairing_request
      (with_credential ''b'' new_controller))"
  by (rule ipc_answers_hide_credentials) (use invariant_new in \<open>simp_all add: ctl_invariant_def\<close>)

theorem serve_leaves_nothing_open_witness:
  "\<exists>s. serve_reachable s \<and> sv_phase s = Returned \<and> sv_accepted s = 1 \<and> set (sv_closed s) = {..<sv_accepted s}"
proof -
  let ?s1 = "add_connection new_serving"
  let ?s2 = "(close_all ?s1)\<lparr>sv_phase := Draining, sv_transport_open := False\<rparr>"
  let ?s3 = "close_connection 0 ?s2" and ?s4 = "connection_done 0 (close_connection 0 ?s2)"
  have "serve_reachable ?s1" by (rule serve_reachable.step [OF serve_reachable.initially serve_step.accept]) (simp add: new_serving_def)
  then have "serve_reachable ?s2"
    by (rule serve_reachable.step [OF _ serve_step.fails]) (simp add: add_connection_def new_serving_def)
  then have "serve_reachable ?s3"
    by (rule serve_reachable.step [OF _ serve_step.served]) (simp add: add_connection_def new_serving_def close_all_def)
  then have "serve_reachable ?s4"
    by (rule serve_reachable.step [OF _ serve_step.ended]) (simp add: close_connection_def)
  then have r: "serve_reachable (?s4\<lparr>sv_phase := Returned\<rparr>)"
    by (rule serve_reachable.step [OF _ serve_step.returns])
      (simp_all add: add_connection_def new_serving_def close_all_def close_connection_def connection_done_def)
  moreover have "sv_accepted (?s4\<lparr>sv_phase := Returned\<rparr>) = 1"
    by (simp add: add_connection_def new_serving_def close_all_def close_connection_def connection_done_def)
  ultimately show ?thesis using serve_leaves_nothing_open [OF r] by (intro exI [of _ "?s4\<lparr>sv_phase := Returned\<rparr>"]) simp
qed

end
