(* ===== verification/UpdateRun.thy ===== *)
theory UpdateRun
  imports UpdateTheorems UpdateHelper AgentController
begin

text \<open>
  The Agent and its updater as two processes: the stable paths of an installation
  (\<^verbatim>\<open>agentpaths/paths.go\<close>), the command line of the updater (\<^verbatim>\<open>updaterapp/app.go\<close>, with the parser of Go's
  \<^verbatim>\<open>flag\<close> package, and \<^verbatim>\<open>cmd/ace-agent-updater\<close>), the client that runs it (\<^verbatim>\<open>update/client.go\<close> and its Windows
  runner), and the Service's check with a launch in it (\<^verbatim>\<open>executeServiceUpdate\<close> of \<^verbatim>\<open>cmd/ace-agent\<close>).

  Parameters: \<^verbatim>\<open>path/filepath\<close> (\<open>paths\<close>), \<^verbatim>\<open>strconv.Quote\<close>, and processes as functions from an executable and its
  arguments.
\<close>

section \<open>Paths of an installation\<close>

record paths =
  pa_dir :: "string \<Rightarrow> string"
  pa_join :: "string list \<Rightarrow> string"
  pa_abs :: "string \<Rightarrow> bool"

abbreviation backslash :: char where "backslash \<equiv> CHR 0x5C"

definition separator :: "char \<Rightarrow> bool" where
  "separator c \<longleftrightarrow> c = CHR ''/'' \<or> c = backslash"

definition trim_separators :: "string \<Rightarrow> string" where
  "trim_separators s = rev (dropWhile separator (rev (dropWhile separator s)))"

definition join_with_separator :: "string \<Rightarrow> string \<Rightarrow> string list \<Rightarrow> string" where
  "join_with_separator base sep elements =
     foldl (\<lambda>result element. result @ sep @ trim_separators element) (rev (dropWhile separator (rev base))) elements"

definition directory :: "paths \<Rightarrow> string \<Rightarrow> string" where
  "directory pa p = (if backslash \<in> set p then rev (tl (dropWhile (\<lambda>c. c \<noteq> backslash) (rev p))) else pa_dir pa p)"

definition join_like :: "paths \<Rightarrow> string \<Rightarrow> string \<Rightarrow> string list \<Rightarrow> string" where
  "join_like pa reference base elements =
     (if backslash \<in> set reference then join_with_separator base [backslash] elements else pa_join pa (base # elements))"

definition default_config_path :: "string \<Rightarrow> string \<Rightarrow> string" where
  "default_config_path goos program_data =
     (if goos \<noteq> ''windows'' then ''/etc/ace-it-center/agent.json''
      else join_with_separator (if program_data = [] then ''C:'' @ [backslash] @ ''ProgramData'' else program_data) [backslash]
          [''AceITCenter'', ''agent.json''])"

definition agent_log_path :: "paths \<Rightarrow> string \<Rightarrow> string" where
  "agent_log_path pa config = join_like pa config (directory pa config) [''logs'', ''agent.log'']"

definition update_log_path :: "paths \<Rightarrow> string \<Rightarrow> string" where
  "update_log_path pa config = join_like pa config (directory pa config) [''logs'', ''update.log'']"

definition staging_directory :: "paths \<Rightarrow> string \<Rightarrow> string" where
  "staging_directory pa config = join_like pa config (directory pa config) [''updates'']"

definition updater_path :: "paths \<Rightarrow> string \<Rightarrow> string" where
  "updater_path pa agent = join_like pa agent (directory pa agent) [''AceAgentUpdater.exe'']"

definition pending_updater_path :: "paths \<Rightarrow> string \<Rightarrow> string" where
  "pending_updater_path pa agent = join_like pa agent (directory pa agent) [''AceAgentUpdater.next.exe'']"

section \<open>Flags\<close>

text \<open>
  \<^verbatim>\<open>FlagSet.Parse\<close> for string flags: one or two hyphens, a value behind \<open>=\<close> or in the next argument whatever
  that looks like, an end at the first other argument or behind two hyphens.
\<close>

definition flag_value :: "string \<Rightarrow> string option" where
  "flag_value s = (if CHR ''='' \<in> set s then Some (tl (dropWhile (\<lambda>c. c \<noteq> CHR ''='') s)) else None)"

datatype flag_token = FlagEnd bool | FlagBad string | FlagNamed string "string option"

definition flag_token :: "string \<Rightarrow> flag_token" where
  "flag_token s =
     (if length s < 2 \<or> hd s \<noteq> CHR ''-'' then FlagEnd False
      else if s = ''--'' then FlagEnd True
      else let name = (if s ! 1 = CHR ''-'' then drop 2 s else drop 1 s)
           in if name = [] \<or> hd name = CHR ''-'' \<or> hd name = CHR ''='' then FlagBad s
              else FlagNamed (takeWhile (\<lambda>c. c \<noteq> CHR ''='') name) (flag_value name))"

fun parse_flags :: "string list \<Rightarrow> string list \<Rightarrow> (string \<Rightarrow> string) \<Rightarrow> ((string \<Rightarrow> string) \<times> string list) res" where
  "parse_flags defined [] vals = Inr (vals, [])"
| "parse_flags defined (s # rest) vals =
     (case flag_token s of
        FlagEnd consumed \<Rightarrow> Inr (vals, if consumed then rest else s # rest)
      | FlagBad bad \<Rightarrow> Inl (Message (''bad flag syntax: '' @ bad))
      | FlagNamed name value \<Rightarrow>
        if name \<notin> set defined
        then (if name = ''help'' \<or> name = ''h'' then Inl (Message ''flag: help requested'')
              else Inl (Message (''flag provided but not defined: -'' @ name)))
        else case value of
            Some v \<Rightarrow> parse_flags defined rest (vals(name := v))
          | None \<Rightarrow>
            (case rest of
               [] \<Rightarrow> Inl (Message (''flag needs an argument: -'' @ name))
             | v # rest1 \<Rightarrow> parse_flags defined rest1 (vals(name := v))))"

declare parse_flags.simps [simp del]

definition no_flags :: "string \<Rightarrow> string" where
  "no_flags name = []"

section \<open>The updater (updaterapp)\<close>

text \<open>\<^verbatim>\<open>Dependencies\<close> and what the commands reach: the release server and the files, and the helper.\<close>

record 'w updater_deps =
  ud_env :: update_env
  ud_paths :: paths
  ud_quote :: "string \<Rightarrow> string"
  ud_public_key :: string
  ud_version :: string
  ud_run_helper :: "helper_options \<Rightarrow> 'w op"

definition write_check_result :: "'w updater_deps \<Rightarrow> check_result \<Rightarrow> body res" where
  "write_check_result ud r = encode_check_result (ue_semver (ud_env ud)) (ue_urls (ud_env ud)) (pa_abs (ud_paths ud)) (ue_encoder (ud_env ud)) r"

definition check_flags :: "string list" where
  "check_flags = [''origin'', ''current-version'', ''current-os'', ''staging'']"

definition run_check :: "'w updater_deps \<Rightarrow> string list \<Rightarrow> files \<Rightarrow> body res \<times> files" where
  "run_check ud args fs =
     (case parse_flags check_flags args no_flags of
        Inl e \<Rightarrow> (Inl (Wrapped ''parse check arguments'' e), fs)
      | Inr (v, positional) \<Rightarrow>
        if positional \<noteq> [] then (Inl (Message ''check does not accept positional arguments''), fs)
        else if v ''origin'' = [] \<or> v ''current-version'' = [] \<or> v ''current-os'' = [] \<or> v ''staging'' = []
        then (Inl (Message ''check requires origin, current-version, current-os, and staging''), fs)
        else if \<not> pa_abs (ud_paths ud) (v ''staging'') then (Inl (Message ''check staging path must be absolute''), fs)
        else let c = \<lparr>kc_origin = v ''origin'', kc_version = v ''current-version'', kc_os = v ''current-os'',
               kc_public_key = ud_public_key ud, kc_staging_dir = v ''staging''\<rparr>
             in case check_release (ud_env ud) c of
                 Inl e \<Rightarrow>
                   if err_is ErrNoUpdateAvailable e then (write_check_result ud no_update, fs)
                   else (Inl (Wrapped ''check release'' e), fs)
               | Inr cand \<Rightarrow>
                 (case stage_candidate (ud_env ud) c cand fs of
                    (Inl e, fs1) \<Rightarrow> (Inl (Wrapped ''stage release'' e), fs1)
                  | (Inr st, fs1) \<Rightarrow>
                    (write_check_result ud \<lparr>kr_available = True, kr_version = sg_version st, kr_url = cd_installer_url cand,
                        kr_installer_path = sg_installer_path st\<rparr>, fs1)))"

definition apply_flags :: "string list" where
  "apply_flags = [''installer'', ''agent'', ''backup'', ''version'']"

definition run_apply :: "'w updater_deps \<Rightarrow> string list \<Rightarrow> 'w op" where
  "run_apply ud args w =
     (case parse_flags apply_flags args no_flags of
        Inl e \<Rightarrow> (Some (Wrapped ''parse apply arguments'' e), w)
      | Inr (v, positional) \<Rightarrow>
        if positional \<noteq> [] then (Some (Message ''apply does not accept positional arguments''), w)
        else if v ''installer'' = [] \<or> v ''agent'' = [] \<or> v ''backup'' = [] \<or> v ''version'' = []
        then (Some (Message ''apply requires installer, agent, backup, and version''), w)
        else if \<not> list_all (pa_abs (ud_paths ud)) [v ''installer'', v ''agent'', v ''backup'']
        then (Some (Message ''apply paths must be absolute''), w)
        else (case compare_versions (ue_semver (ud_env ud)) (v ''version'') (v ''version'') of
            Inl e \<Rightarrow> (Some (Message ''apply version must use valid semantic versioning''), w)
          | Inr i \<Rightarrow>
            ud_run_helper ud \<lparr>hp_installer = v ''installer'', hp_executable = v ''agent'', hp_backup = v ''backup'',
                hp_staging = pa_dir (ud_paths ud) (v ''backup''), hp_version = v ''version'', hp_installer_timeout = 0,
                hp_health_timeout = 0, hp_restore_timeout = 0, hp_restore_interval = 0\<rparr> w))"

definition run_version :: "string list \<Rightarrow> string \<Rightarrow> string res" where
  "run_version args version =
     (if args \<noteq> [] then Inl (Message ''version does not accept arguments'')
      else if version = [] then Inl (Message ''updater version is unavailable'')
      else Inr (version @ [CHR 0x0A]))"

text \<open>What a run of the updater writes to its standard output.\<close>

datatype updater_output = Nothing | CheckDocument body | VersionLine string

definition run_updater_app ::
    "'w updater_deps \<Rightarrow> string list \<Rightarrow> files \<times> 'w \<Rightarrow> (go_error option \<times> updater_output) \<times> files \<times> 'w" where
  "run_updater_app ud args s =
     (case args of
        [] \<Rightarrow> ((Some (Message ''updater command is required''), Nothing), s)
      | cmd # rest \<Rightarrow>
        if cmd = ''check''
        then (case run_check ud rest (fst s) of
            (Inl e, fs) \<Rightarrow> ((Some e, Nothing), fs, snd s)
          | (Inr b, fs) \<Rightarrow> ((None, CheckDocument b), fs, snd s))
        else if cmd = ''apply'' then (case run_apply ud rest (snd s) of (e, w) \<Rightarrow> ((e, Nothing), fst s, w))
        else if cmd = ''version''
        then (case run_version rest (ud_version ud) of
            Inl e \<Rightarrow> ((Some e, Nothing), s)
          | Inr line \<Rightarrow> ((None, VersionLine line), s))
        else ((Some (Message (''unknown updater command '' @ ud_quote ud cmd)), Nothing), s))"

text \<open>\<^verbatim>\<open>runUpdater\<close>: the exit code.\<close>

definition run_updater ::
    "'w updater_deps \<Rightarrow> string list \<Rightarrow> files \<times> 'w \<Rightarrow> (nat \<times> updater_output) \<times> files \<times> 'w" where
  "run_updater ud args s =
     (case run_updater_app ud args s of ((e, printed), s1) \<Rightarrow> ((if e = None then 0 else 1, printed), s1))"

definition safe_command_name :: "string list \<Rightarrow> string" where
  "safe_command_name args =
     (case args of
        [] \<Rightarrow> ''missing''
      | cmd # rest \<Rightarrow> if cmd = ''check'' \<or> cmd = ''apply'' \<or> cmd = ''version'' then cmd else ''unknown'')"

section \<open>The client (update/client.go)\<close>

record process_buffer =
  pb_bytes :: string
  pb_maximum :: nat
  pb_exceeded :: bool

definition new_process_buffer :: "nat \<Rightarrow> process_buffer" where
  "new_process_buffer maximum = \<lparr>pb_bytes = [], pb_maximum = maximum, pb_exceeded = False\<rparr>"

definition write_process_buffer :: "string \<Rightarrow> process_buffer \<Rightarrow> process_buffer" where
  "write_process_buffer v b =
     (let remaining = int (pb_maximum b) - int (length (pb_bytes b))
      in if remaining < int (length v)
         then b\<lparr>pb_bytes := pb_bytes b @ take (nat (if remaining < 0 then 0 else remaining)) v, pb_exceeded := True\<rparr>
         else b\<lparr>pb_bytes := pb_bytes b @ v\<rparr>)"

text \<open>The buffer of a check, with its limit fixed.\<close>

definition put_process_output :: "string \<Rightarrow> process_buffer \<Rightarrow> process_buffer" where
  "put_process_output v b = write_process_buffer v (b\<lparr>pb_maximum := max_result_bytes\<rparr>)"

interpretation process_out: bounded_writer put_process_output pb_bytes pb_exceeded max_result_bytes "new_process_buffer max_result_bytes"
  by unfold_locales
    (auto simp: put_process_output_def write_process_buffer_def new_process_buffer_def Let_def nat_diff_distrib split: if_splits)

text \<open>
  \<^verbatim>\<open>windowsProcessRunner.Run\<close> on what the process did: the pieces it wrote, whether it failed, and the state of
  the context then.
\<close>

definition collect_process_output :: "int \<Rightarrow> string list \<Rightarrow> go_error option \<Rightarrow> go_error option \<Rightarrow> string res" where
  "collect_process_output maximum pieces failed cancelled =
     (if maximum \<le> 0 then Inl (Message ''process output limit must be positive'')
      else let b = fold write_process_buffer pieces (new_process_buffer (nat maximum))
           in case failed of
               Some e \<Rightarrow> (case cancelled of Some c \<Rightarrow> Inl c | None \<Rightarrow> Inl (Wrapped ''updater process failed'' e))
             | None \<Rightarrow>
               if pb_exceeded b then Inl (Message (''updater process output exceeds '' @ nat_text (nat maximum) @ '' bytes''))
               else Inr (pb_bytes b))"

record 's process_runner =
  pr_run :: "string \<Rightarrow> string list \<Rightarrow> nat \<Rightarrow> 's \<Rightarrow> body res \<times> 's"
  pr_start_detached :: "string \<Rightarrow> string list \<Rightarrow> 's op"

text \<open>\<open>pc_runner\<close> is the configured runner or that of the platform, if it has one.\<close>

record 's process_client =
  pc_agent_path :: string
  pc_runner :: "'s process_runner option"

record check_options =
  co_origin :: string
  co_version :: string
  co_os :: string
  co_staging :: string

record apply_options =
  ao_installer :: string
  ao_backup :: string
  ao_version :: string

definition absolute_update_path :: "paths \<Rightarrow> string \<Rightarrow> bool" where
  "absolute_update_path pa p \<longleftrightarrow> pa_abs pa p \<or> windows_absolute p"

definition validate_process_client :: "paths \<Rightarrow> 's process_client \<Rightarrow> go_error option" where
  "validate_process_client pa pc =
     (if pc_agent_path pc = [] \<or> \<not> absolute_update_path pa (pc_agent_path pc)
      then Some (Message ''installed Agent path must be absolute'') else None)"

definition no_process :: go_error where
  "no_process = Message ''fixed updater process is unavailable on this platform''"

definition check_arguments :: "check_options \<Rightarrow> string list" where
  "check_arguments co = [''check'', ''--origin'', co_origin co, ''--current-version'', co_version co, ''--current-os'', co_os co,
     ''--staging'', co_staging co]"

definition client_check ::
    "update_env \<Rightarrow> paths \<Rightarrow> 's process_client \<Rightarrow> check_options \<Rightarrow> 's \<Rightarrow> check_result res \<times> 's" where
  "client_check env pa pc co s =
     (case validate_process_client pa pc of
        Some e \<Rightarrow> (Inl e, s)
      | None \<Rightarrow>
        if co_origin co = [] \<or> co_version co = [] \<or> co_os co = [] \<or> co_staging co = []
        then (Inl (Message ''updater check requires origin, current version, current OS, and staging directory''), s)
        else case compare_versions (ue_semver env) (co_version co) (co_version co) of
            Inl e \<Rightarrow> (Inl (Message ''updater check current version must use valid semantic versioning''), s)
          | Inr i \<Rightarrow>
            if \<not> absolute_update_path pa (co_staging co) then (Inl (Message ''updater check staging path must be absolute''), s)
            else case pc_runner pc of
                None \<Rightarrow> (Inl no_process, s)
              | Some runner \<Rightarrow>
                (case pr_run runner (updater_path pa (pc_agent_path pc)) (check_arguments co) max_result_bytes s of
                   (Inl e, s1) \<Rightarrow> (Inl (Wrapped ''run fixed updater check'' e), s1)
                 | (Inr printed, s1) \<Rightarrow>
                   (case decode_check_result (ue_semver env) (ue_urls env) (pa_abs pa) printed of
                      Inl e \<Rightarrow> (Inl (Wrapped ''decode fixed updater check'' e), s1)
                    | Inr r \<Rightarrow> (Inr r, s1))))"

definition apply_arguments :: "'s process_client \<Rightarrow> apply_options \<Rightarrow> string list" where
  "apply_arguments pc ao = [''apply'', ''--installer'', ao_installer ao, ''--agent'', pc_agent_path pc, ''--backup'', ao_backup ao,
     ''--version'', ao_version ao]"

definition launch_apply :: "update_env \<Rightarrow> paths \<Rightarrow> 's process_client \<Rightarrow> apply_options \<Rightarrow> 's op" where
  "launch_apply env pa pc ao s =
     (case validate_process_client pa pc of
        Some e \<Rightarrow> (Some e, s)
      | None \<Rightarrow>
        if ao_installer ao = [] \<or> ao_backup ao = [] \<or> ao_version ao = []
        then (Some (Message ''updater apply requires installer, backup, and version''), s)
        else if \<not> absolute_update_path pa (ao_installer ao) \<or> \<not> absolute_update_path pa (ao_backup ao)
        then (Some (Message ''updater apply paths must be absolute''), s)
        else case compare_versions (ue_semver env) (ao_version ao) (ao_version ao) of
            Inl e \<Rightarrow> (Some (Message ''updater apply version must use valid semantic versioning''), s)
          | Inr i \<Rightarrow>
            (case pc_runner pc of
               None \<Rightarrow> (Some no_process, s)
             | Some runner \<Rightarrow>
               (case pr_start_detached runner (updater_path pa (pc_agent_path pc)) (apply_arguments pc ao) s of
                  (Some e, s1) \<Rightarrow> (Some (Wrapped ''start fixed updater apply'' e), s1)
                | (None, s1) \<Rightarrow> (None, s1))))"

section \<open>The Service's check (cmd/ace-agent)\<close>

text \<open>
  \<^verbatim>\<open>serviceUpdateRuntime\<close>, over a state that its client, the controller's launch gate and the file system
  share.
\<close>

record 's update_runtime =
  ur_check :: "(check_options \<Rightarrow> 's \<Rightarrow> check_result res \<times> 's) option"
  ur_launch :: "apply_options \<Rightarrow> 's op"
  ur_options :: check_options
  ur_backup :: string
  ur_authorize :: "('s op) option"
  ur_finish :: "update_status \<Rightarrow> bool \<Rightarrow> 's \<Rightarrow> 's"
  ur_remove :: "string \<Rightarrow> 's \<Rightarrow> 's"

definition execute_service_update :: "'s update_runtime \<Rightarrow> 's \<Rightarrow> update_status res \<times> 's" where
  "execute_service_update rt s =
     (case (ur_check rt, ur_authorize rt) of
        (Some ask, Some grant) \<Rightarrow>
          if ur_backup rt = [] then (Inl (Message ''update runtime is incomplete''), s)
          else (case ask (ur_options rt) s of
              (Inl e, s1) \<Rightarrow> (Inl e, s1)
            | (Inr r, s1) \<Rightarrow>
              if \<not> kr_available r then (Inr no_status, s1)
              else let ao = \<lparr>ao_installer = kr_installer_path r, ao_backup = ur_backup rt, ao_version = kr_version r\<rparr>
                   in case grant s1 of
                       (Some e, s2) \<Rightarrow> (Inl (Wrapped ''authorize fixed updater launch'' e), ur_remove rt (kr_installer_path r) s2)
                     | (None, s2) \<Rightarrow>
                       (let st = \<lparr>up_available = True, up_version = kr_version r, up_url = kr_url r\<rparr>
                        in case ur_launch rt ao s2 of
                            (Some e, s3) \<Rightarrow>
                              (Inl (Wrapped ''launch fixed updater'' e), ur_remove rt (kr_installer_path r) (ur_finish rt no_status False s3))
                          | (None, s3) \<Rightarrow> (Inr st, ur_finish rt st True s3)))
      | _ \<Rightarrow> (Inl (Message ''update runtime is incomplete''), s))"

end
