(* ===== verification/UpdateRunTheorems.thy ===== *)
theory UpdateRunTheorems
  imports UpdateRun ControllerSteps
begin

text \<open>
  The Agent and its updater together: what the client passes on its command line is what the updater
  acts on, and a check of the Service launches the updater only for an installer that a verified manifest
  describes.
\<close>

section \<open>The command line between them\<close>

lemma flag_tokens:
  "flag_token ''--origin'' = FlagNamed ''origin'' None" "flag_token ''--current-version'' = FlagNamed ''current-version'' None"
  "flag_token ''--current-os'' = FlagNamed ''current-os'' None" "flag_token ''--staging'' = FlagNamed ''staging'' None"
  "flag_token ''--installer'' = FlagNamed ''installer'' None" "flag_token ''--agent'' = FlagNamed ''agent'' None"
  "flag_token ''--backup'' = FlagNamed ''backup'' None" "flag_token ''--version'' = FlagNamed ''version'' None"
  by code_simp+

lemma parse_check_arguments:
  "parse_flags check_flags (tl (check_arguments co)) no_flags =
     Inr (no_flags(''origin'' := co_origin co, ''current-version'' := co_version co, ''current-os'' := co_os co,
       ''staging'' := co_staging co), [])"
  by (simp add: check_arguments_def check_flags_def parse_flags.simps flag_tokens)

lemma parse_apply_arguments:
  "parse_flags apply_flags (tl (apply_arguments pc ao)) no_flags =
     Inr (no_flags(''installer'' := ao_installer ao, ''agent'' := pc_agent_path pc, ''backup'' := ao_backup ao,
       ''version'' := ao_version ao), [])"
  by (simp add: apply_arguments_def apply_flags_def parse_flags.simps flag_tokens)

lemma launch_applyD:
  assumes "launch_apply env pa pc ao s = (None, s1)"
  obtains runner i where "pc_runner pc = Some runner" "pc_agent_path pc \<noteq> []" "ao_installer ao \<noteq> []" "ao_backup ao \<noteq> []" "ao_version ao \<noteq> []"
    "compare_versions (ue_semver env) (ao_version ao) (ao_version ao) = Inr i"
    "pr_start_detached runner (updater_path pa (pc_agent_path pc)) (apply_arguments pc ao) s = (None, s1)"
  using assms
  by (auto simp: launch_apply_def validate_process_client_def split: option.splits if_splits sum.splits prod.splits)

text \<open>What the Agent launches the updater with is what the update helper is run with: the updater
parses the arguments of a launch that the client accepted, whatever their characters, to exactly the installer,
Agent, backup and version of the launch, and does nothing else.\<close>

theorem launched_helper_options:
  assumes "launch_apply (ud_env ud) (ud_paths ud) pc ao s = (None, s1)"
    and "pa_abs (ud_paths ud) (ao_installer ao)" and "pa_abs (ud_paths ud) (pc_agent_path pc)" and "pa_abs (ud_paths ud) (ao_backup ao)"
  shows "run_updater_app ud (apply_arguments pc ao) t =
    (case ud_run_helper ud \<lparr>hp_installer = ao_installer ao, hp_executable = pc_agent_path pc, hp_backup = ao_backup ao,
         hp_staging = pa_dir (ud_paths ud) (ao_backup ao), hp_version = ao_version ao, hp_installer_timeout = 0, hp_health_timeout = 0,
         hp_restore_timeout = 0, hp_restore_interval = 0\<rparr> (snd t) of
       (e, w) \<Rightarrow> ((e, Nothing), fst t, w))"
proof -
  obtain i where i: "pc_agent_path pc \<noteq> []" "ao_installer ao \<noteq> []" "ao_backup ao \<noteq> []" "ao_version ao \<noteq> []"
      "compare_versions (ue_semver (ud_env ud)) (ao_version ao) (ao_version ao) = Inr i"
    using assms(1) by (rule launch_applyD)
  have a: "apply_arguments pc ao = ''apply'' # tl (apply_arguments pc ao)" by (simp add: apply_arguments_def)
  have "run_updater_app ud (''apply'' # tl (apply_arguments pc ao)) t =
      (case run_apply ud (tl (apply_arguments pc ao)) (snd t) of (e, w) \<Rightarrow> ((e, Nothing), fst t, w))"
    by (simp add: run_updater_app_def)
  then show ?thesis
    using i assms(2-4) by (subst a) (simp add: run_apply_def parse_apply_arguments)
qed

section \<open>The processes of an installation\<close>

text \<open>The files, the controller, and the detached processes that were started.\<close>

record service_world =
  sw_files :: files
  sw_controller :: controller
  sw_started :: "(string \<times> string list) list"

text \<open>The updater at its stable path; \<open>fault\<close> is the error of starting a process.\<close>

definition updater_runner :: "unit updater_deps \<Rightarrow> string \<Rightarrow> go_error option \<Rightarrow> service_world process_runner" where
  "updater_runner ud installed fault =
     \<lparr>pr_run = (\<lambda>executable args maximum w.
        if executable \<noteq> installed \<or> fault \<noteq> None then (Inl (Message ''updater process failed''), w)
        else case run_updater ud args (sw_files w, ()) of
            ((code, printed), fs, u) \<Rightarrow>
              (if code \<noteq> 0 then Inl (Message ''updater process failed'')
               else case printed of
                   CheckDocument b \<Rightarrow> if maximum < bd_size b then Inl (Message ''updater process output exceeds 65536 bytes'') else Inr b
                 | _ \<Rightarrow> Inr empty_body,
               w\<lparr>sw_files := fs\<rparr>)),
      pr_start_detached = (\<lambda>executable args w.
        if executable \<noteq> installed \<or> fault \<noteq> None then (Some (Message ''start process''), w)
        else (None, w\<lparr>sw_started := sw_started w @ [(executable, args)]\<rparr>))\<rparr>"

definition installed_client :: "unit updater_deps \<Rightarrow> string \<Rightarrow> go_error option \<Rightarrow> service_world process_client" where
  "installed_client ud agent fault =
     \<lparr>pc_agent_path = agent, pc_runner = Some (updater_runner ud (updater_path (ud_paths ud) agent) fault)\<rparr>"

text \<open>The runtime that \<^verbatim>\<open>newServiceController\<close> puts together, for the controller's flight of this number.\<close>

definition service_runtime ::
    "unit updater_deps \<Rightarrow> controller_deps \<Rightarrow> string \<Rightarrow> go_error option \<Rightarrow> go_error option \<Rightarrow> check_options \<Rightarrow> string \<Rightarrow> time \<Rightarrow> nat \<Rightarrow>
     service_world update_runtime" where
  "service_runtime ud d agent fault late co backup now i =
     \<lparr>ur_check = Some (client_check (ud_env ud) (ud_paths ud) (installed_client ud agent fault)),
      ur_launch = launch_apply (ud_env ud) (ud_paths ud) (installed_client ud agent late), ur_options = co, ur_backup = backup,
      ur_authorize = Some (\<lambda>w. case authorize d now i (sw_controller w) of
          (e, c) \<Rightarrow> (map_option (\<lambda>e. Message (ctl_text e)) e, w\<lparr>sw_controller := c\<rparr>)),
      ur_finish = (\<lambda>st launched w. w\<lparr>sw_controller := finish_launch d now st launched (sw_controller w)\<rparr>),
      ur_remove = (\<lambda>p w. w\<lparr>sw_files := (sw_files w)(p := None)\<rparr>)\<rparr>"

definition checked_by :: "unit updater_deps \<Rightarrow> check_options \<Rightarrow> checker" where
  "checked_by ud co = \<lparr>kc_origin = co_origin co, kc_version = co_version co, kc_os = co_os co, kc_public_key = ud_public_key ud,
     kc_staging_dir = co_staging co\<rparr>"

section \<open>A check through the process\<close>

lemma staged_authentic:
  assumes "stage_candidate env c cand fs = (Inr st, fs1)"
  shows "sg_version st = mf_version (cd_manifest cand) \<and>
    (\<exists>data. fs1 (sg_installer_path st) = Some data \<and> authentic env c (cd_manifest cand) data)"
  using assms
proof (cases rule: stage_candidate_cases)
  case (2 key origin)
  from stage_files_result [OF 2(4) refl] accepted_authentic [OF 2(1-3)] show ?thesis by auto
qed simp

definition honest :: "unit updater_deps \<Rightarrow> check_options \<Rightarrow> files \<Rightarrow> check_result \<Rightarrow> bool" where
  "honest ud co fs r \<longleftrightarrow> kr_available r \<longrightarrow>
     (\<exists>m data. kr_version r = mf_version m \<and> fs (kr_installer_path r) = Some data \<and> authentic (ud_env ud) (checked_by ud co) m data)"

lemma write_check_result_decodes:
  "write_check_result ud r = Inr b \<Longrightarrow>
   decode_check_result (ue_semver (ud_env ud)) (ue_urls (ud_env ud)) (pa_abs (ud_paths ud)) b = Inr r"
  by (simp add: write_check_result_def result_roundtrip)

lemma run_check_honest:
  assumes "run_check ud (tl (check_arguments co)) fs = (Inr b, fs1)"
  shows "\<exists>r. decode_check_result (ue_semver (ud_env ud)) (ue_urls (ud_env ud)) (pa_abs (ud_paths ud)) b = Inr r \<and> honest ud co fs1 r"
proof -
  let ?c = "checked_by ud co"
  have c: "\<lparr>kc_origin = co_origin co, kc_version = co_version co, kc_os = co_os co, kc_public_key = ud_public_key ud,
     kc_staging_dir = co_staging co\<rparr> = ?c" by (simp add: checked_by_def)
  consider "write_check_result ud no_update = Inr b"
    | cand st where "stage_candidate (ud_env ud) ?c cand fs = (Inr st, fs1)"
      "write_check_result ud \<lparr>kr_available = True, kr_version = sg_version st, kr_url = cd_installer_url cand,
         kr_installer_path = sg_installer_path st\<rparr> = Inr b"
    using assms by (auto simp: run_check_def parse_check_arguments Let_def c split: if_splits sum.splits prod.splits)
  then show ?thesis
  proof cases
    case 1
    from write_check_result_decodes [OF this] show ?thesis by (simp add: honest_def no_update_def)
  next
    case (2 cand st)
    from write_check_result_decodes [OF 2(2)] staged_authentic [OF 2(1)] show ?thesis
      by (auto simp: honest_def)
  qed
qed

lemma client_check_honest:
  assumes "client_check (ud_env ud) (ud_paths ud) (installed_client ud agent fault) co w = (Inr r, w1)"
  shows "honest ud co (sw_files w1) r \<and> sw_started w1 = sw_started w \<and> sw_controller w1 = sw_controller w"
proof -
  let ?runner = "updater_runner ud (updater_path (ud_paths ud) agent) fault"
  have sel: "pc_agent_path (installed_client ud agent fault) = agent" "pc_runner (installed_client ud agent fault) = Some ?runner"
    by (simp_all add: installed_client_def)
  obtain b where b: "pr_run ?runner (updater_path (ud_paths ud) agent) (check_arguments co) max_result_bytes w = (Inr b, w1)"
      "decode_check_result (ue_semver (ud_env ud)) (ue_urls (ud_env ud)) (pa_abs (ud_paths ud)) b = Inr r"
    using assms by (auto simp: client_check_def sel split: option.splits if_splits sum.splits prod.splits)
  have a: "check_arguments co = ''check'' # tl (check_arguments co)" by (simp add: check_arguments_def)
  have run: "run_updater ud (check_arguments co) (sw_files w, ()) =
      (case run_check ud (tl (check_arguments co)) (sw_files w) of
         (Inl e, fs) \<Rightarrow> ((1, Nothing), fs, ()) | (Inr b, fs) \<Rightarrow> ((0, CheckDocument b), fs, ()))"
    by (subst a) (simp add: run_updater_def run_updater_app_def split: prod.split sum.split)
  obtain fs where fs: "run_check ud (tl (check_arguments co)) (sw_files w) = (Inr b, fs)" "w1 = w\<lparr>sw_files := fs\<rparr>"
    using b(1) by (auto simp: updater_runner_def run split: if_splits prod.splits sum.splits)
  from run_check_honest [OF fs(1)] b(2) fs(2) show ?thesis by auto
qed

section \<open>What a check of the Service launches\<close>

lemma launch_started:
  "launch_apply (ud_env ud) (ud_paths ud) (installed_client ud agent fault) ao w = (None, w1) \<Longrightarrow>
     w1 = w\<lparr>sw_started := sw_started w @ [(updater_path (ud_paths ud) agent, apply_arguments (installed_client ud agent fault) ao)]\<rparr>"
  by (erule launch_applyD) (auto simp: installed_client_def updater_runner_def split: if_splits)

lemma launch_failed:
  "launch_apply (ud_env ud) (ud_paths ud) (installed_client ud agent fault) ao w = (Some e, w1) \<Longrightarrow> w1 = w"
  by (auto simp: launch_apply_def installed_client_def updater_runner_def split: option.splits if_splits sum.splits prod.splits)

lemma client_check_failed:
  assumes "client_check (ud_env ud) (ud_paths ud) (installed_client ud agent fault) co w = (r, w1)"
  shows "sw_started w1 = sw_started w \<and> sw_controller w1 = sw_controller w"
  using assms
  by (auto simp: client_check_def installed_client_def updater_runner_def run_updater_def
      split: option.splits if_splits sum.splits prod.splits)

lemma runtime_sel:
  "ur_check (service_runtime ud d agent fault late co backup now i) = Some (client_check (ud_env ud) (ud_paths ud) (installed_client ud agent fault))"
  "ur_launch (service_runtime ud d agent fault late co backup now i) = launch_apply (ud_env ud) (ud_paths ud) (installed_client ud agent late)"
  "ur_options (service_runtime ud d agent fault late co backup now i) = co"
  "ur_backup (service_runtime ud d agent fault late co backup now i) = backup"
  "ur_finish (service_runtime ud d agent fault late co backup now i) st b w = w\<lparr>sw_controller := finish_launch d now st b (sw_controller w)\<rparr>"
  "ur_remove (service_runtime ud d agent fault late co backup now i) p w = w\<lparr>sw_files := (sw_files w)(p := None)\<rparr>"
  "ur_authorize (service_runtime ud d agent fault late co backup now i) = Some (\<lambda>w. case authorize d now i (sw_controller w) of
     (e, c) \<Rightarrow> (map_option (\<lambda>e. Message (ctl_text e)) e, w\<lparr>sw_controller := c\<rparr>))"
  by (simp_all add: service_runtime_def)

text \<open>C13: A check of the Service launches the updater only for an authentic installer: either nothing is
launched, the result is an error or no update, and the launch gate is free again; or exactly one process is
started, the updater with an installer whose bytes have the size and hash of a manifest that verifies under the
updater's key and is newer than the installed version, the controller had authorized the launch and has the
update pending.\<close>

theorem service_update_launches_authentic:
  assumes "execute_service_update (service_runtime ud d agent fault late co backup now i) w = (r, w1)"
  shows "sw_started w1 = sw_started w \<and> (r = Inr no_status \<or> (\<exists>e. r = Inl e)) \<and>
      (ct_gate (sw_controller w) = Free \<longrightarrow> ct_gate (sw_controller w1) = Free) \<or>
    (\<exists>m data installer url. r = Inr \<lparr>up_available = True, up_version = mf_version m, up_url = url\<rparr> \<and>
       sw_started w1 = sw_started w @ [(updater_path (ud_paths ud) agent, apply_arguments (installed_client ud agent late)
         \<lparr>ao_installer = installer, ao_backup = backup, ao_version = mf_version m\<rparr>)] \<and>
       sw_files w1 installer = Some data \<and> authentic (ud_env ud) (checked_by ud co) m data \<and>
       fst (authorize d now i (sw_controller w)) = None \<and>
       ct_pending (sw_controller w1) = Some (\<lparr>up_available = True, up_version = mf_version m, up_url = shown_url d url\<rparr>, now))"
proof -
  let ?check = "client_check (ud_env ud) (ud_paths ud) (installed_client ud agent fault)"
  let ?launch = "launch_apply (ud_env ud) (ud_paths ud) (installed_client ud agent late)"
  have kept: "authorize d now i c = (Some e, c1) \<Longrightarrow> c1 = c" for e c c1
    by (auto simp: authorize_def split: if_splits)
  note run = assms [unfolded execute_service_update_def runtime_sel option.case prod.case]
  obtain k w2 where k: "?check co w = (k, w2)" by fastforce
  note k1 = client_check_failed [OF k]
  show ?thesis
  proof (cases "backup = [] \<or> (\<exists>e. k = Inl e) \<or> (\<exists>x. k = Inr x \<and> \<not> kr_available x)")
    case True
    then show ?thesis using run k k1 by (auto split: if_splits)
  next
    case False
    then obtain x where x: "k = Inr x" "kr_available x" "backup \<noteq> []" by (cases k) auto
    obtain m data where m: "kr_version x = mf_version m" "sw_files w2 (kr_installer_path x) = Some data"
        "authentic (ud_env ud) (checked_by ud co) m data"
      using client_check_honest [of ud agent fault co w x w2] k x by (auto simp: honest_def)
    obtain a c where a: "authorize d now i (sw_controller w) = (a, c)" by fastforce
    show ?thesis
    proof (cases a)
      case (Some e)
      then show ?thesis using run k k1 x a kept [of "sw_controller w" e c] by (auto simp: Let_def)
    next
      case None
      let ?ao = "\<lparr>ao_installer = kr_installer_path x, ao_backup = backup, ao_version = kr_version x\<rparr>"
      obtain l w3 where l: "?launch ?ao (w2\<lparr>sw_controller := c\<rparr>) = (l, w3)" by fastforce
      show ?thesis
      proof (cases l)
        case (Some e)
        then show ?thesis using run k k1 x a None l launch_failed [of ud agent late ?ao "w2\<lparr>sw_controller := c\<rparr>" e w3]
          by (auto simp: Let_def finish_launch_def)
      next
        case l2: None
        have "r = Inr \<lparr>up_available = True, up_version = kr_version x, up_url = kr_url x\<rparr>"
            "w1 = w3\<lparr>sw_controller := finish_launch d now \<lparr>up_available = True, up_version = kr_version x, up_url = kr_url x\<rparr> True (sw_controller w3)\<rparr>"
          using run k k1 x a None l l2 by (auto simp: Let_def)
        then show ?thesis
          using k1 a None l l2 m launch_started [of ud agent late ?ao "w2\<lparr>sw_controller := c\<rparr>" w3]
          by (intro disjI2 exI [of _ m] exI [of _ data] exI [of _ "kr_installer_path x"] exI [of _ "kr_url x"])
            (simp add: finish_launch_def)
      qed
    qed
  qed
qed

section \<open>A check that launches an update\<close>

definition demo_paths :: paths where
  "demo_paths = \<lparr>pa_dir = (\<lambda>p. ''/d''), pa_join = (\<lambda>ps. join ps ''/''), pa_abs = (\<lambda>p. has_prefix p ''/'')\<rparr>"

definition demo_updater :: "unit updater_deps" where
  "demo_updater = \<lparr>ud_env = demo_update, ud_paths = demo_paths, ud_quote = id, ud_public_key = kc_public_key demo_checker,
     ud_version = ''1.0.0'', ud_run_helper = (\<lambda>opts w. (None, w))\<rparr>"

definition demo_options :: check_options where
  "demo_options = \<lparr>co_origin = ''https://ace'', co_version = ''1.0.0'', co_os = ''10.0.1'', co_staging = ''/s''\<rparr>"

lemma demo_updater_sel:
  "ud_env demo_updater = demo_update" "ud_public_key demo_updater = kc_public_key demo_checker" "ud_paths demo_updater = demo_paths"
  "pa_abs demo_paths p = has_prefix p ''/''" "ue_join demo_update a b = a @ ''/'' @ b" "ue_encoder demo_update j = Some ''payload''"
  "pa_dir demo_paths p = ''/d''" "ud_run_helper demo_updater opts u = (None, u)"
  by (simp_all add: demo_updater_def demo_paths_def demo_update_def)

lemma demo_comparison: "compare_versions demo_semver ''1.0.1'' ''1.0.1'' = Inr 0" "compare_versions demo_semver ''1.0.0'' ''1.0.0'' = Inr 0"
  using demo_versions by (simp_all add: compare_versions_def valid_semver_def demo_semver_def)

definition demo_result :: check_result where
  "demo_result = \<lparr>kr_available = True, kr_version = ''1.0.1'', kr_url = ''https://ace/a.exe'',
     kr_installer_path = ''/s/'' @ installer_name ''1.0.1''\<rparr>"

lemma demo_result_written: "\<exists>b. write_check_result demo_updater demo_result = Inr b"
proof -
  have "public_url demo_urls ''https://ace/a.exe''"
    by (simp add: public_url_def demo_urls_def demo_origin_def demo_url_def is_abs_def http_scheme_def bare_url_def)
  moreover have "has_prefix (''/s/'' @ installer_name ''1.0.1'') ''/''" by (simp add: has_prefix_def)
  ultimately have "validate_result demo_semver demo_urls (pa_abs demo_paths) demo_result = None"
    using demo_comparison(1) by (simp add: validate_result_def demo_result_def demo_updater_sel)
  then show ?thesis
    by (simp add: write_check_result_def encode_check_result_def demo_updater_sel demo_sel)
qed

lemma demo_run_check:
  "\<exists>b fs1. run_check demo_updater (tl (check_arguments demo_options)) (\<lambda>p. None) = (Inr b, fs1) \<and>
     write_check_result demo_updater demo_result = Inr b"
proof -
  have c: "\<lparr>kc_origin = ''https://ace'', kc_version = ''1.0.0'', kc_os = ''10.0.1'', kc_public_key = kc_public_key demo_checker,
     kc_staging_dir = ''/s''\<rparr> = demo_checker" by (simp add: demo_checker_def)
  have r: "\<lparr>kr_available = True, kr_version = ''1.0.1'', kr_url = ''https://ace/a.exe'',
     kr_installer_path = CHR ''/'' # CHR ''s'' # CHR ''/'' # installer_name ''1.0.1''\<rparr> = demo_result" by (simp add: demo_result_def)
  obtain b fs1 where "write_check_result demo_updater demo_result = Inr b"
    "stage_candidate demo_update demo_checker demo_candidate (\<lambda>p. None) =
       (Inr \<lparr>sg_version = ''1.0.1'', sg_installer_path = ue_join demo_update ''/s'' (installer_name ''1.0.1''),
          sg_manifest = cd_manifest demo_candidate\<rparr>, fs1)"
    using demo_result_written demo_stages by blast
  then show ?thesis
    by (simp add: run_check_def parse_check_arguments demo_options_def demo_updater_sel has_prefix_def c Let_def demo_checks demo_sel r)
qed

abbreviation demo_agent :: string where
  "demo_agent \<equiv> ''/opt/agent''"

abbreviation demo_launch_options :: apply_options where
  "demo_launch_options \<equiv> \<lparr>ao_installer = ''/s/'' @ installer_name ''1.0.1'', ao_backup = ''/s/lkg'', ao_version = ''1.0.1''\<rparr>"

abbreviation demo_world :: "controller \<Rightarrow> service_world" where
  "demo_world c \<equiv> \<lparr>sw_files = (\<lambda>p. None), sw_controller = c, sw_started = []\<rparr>"

lemma demo_client_check:
  "\<exists>fs. client_check (ud_env demo_updater) (ud_paths demo_updater) (installed_client demo_updater demo_agent None) demo_options (demo_world c) =
     (Inr demo_result, (demo_world c)\<lparr>sw_files := fs\<rparr>)"
proof -
  obtain b fs where b: "run_check demo_updater (tl (check_arguments demo_options)) (\<lambda>p. None) = (Inr b, fs)"
      "write_check_result demo_updater demo_result = Inr b"
    using demo_run_check by blast
  let ?runner = "updater_runner demo_updater (updater_path (ud_paths demo_updater) demo_agent) None"
  have sel: "pc_agent_path (installed_client demo_updater demo_agent None) = demo_agent"
      "pc_runner (installed_client demo_updater demo_agent None) = Some ?runner"
      "validate_process_client demo_paths (installed_client demo_updater demo_agent None) = None"
    by (simp_all add: installed_client_def validate_process_client_def absolute_update_path_def demo_updater_sel has_prefix_def)
  have opts: "co_origin demo_options = ''https://ace''" "co_version demo_options = ''1.0.0''" "co_os demo_options = ''10.0.1''"
      "co_staging demo_options = ''/s''" "absolute_update_path demo_paths ''/s''"
    by (simp_all add: demo_options_def absolute_update_path_def demo_updater_sel has_prefix_def)
  have a: "check_arguments demo_options = ''check'' # tl (check_arguments demo_options)" by (simp add: check_arguments_def)
  have run: "run_updater demo_updater (check_arguments demo_options) ((\<lambda>p. None), ()) = ((0, CheckDocument b), fs, ())"
    by (subst a) (simp add: run_updater_def run_updater_app_def b(1))
  have small: "bd_size b \<le> max_result_bytes"
    using b(2) by (auto simp: write_check_result_def encode_check_result_def json_body_def split: option.splits if_splits)
  have "pr_run ?runner (updater_path (ud_paths demo_updater) demo_agent) (check_arguments demo_options) max_result_bytes (demo_world c) =
      (Inr b, (demo_world c)\<lparr>sw_files := fs\<rparr>)"
    using small run by (simp add: updater_runner_def)
  moreover have "decode_check_result demo_semver demo_urls (pa_abs demo_paths) b = Inr demo_result"
    using write_check_result_decodes [OF b(2)] by (simp only: demo_updater_sel demo_sel)
  ultimately show ?thesis
    by (simp add: client_check_def demo_updater_sel demo_sel sel opts demo_comparison)
qed

lemma demo_launch:
  "launch_apply (ud_env demo_updater) (ud_paths demo_updater) (installed_client demo_updater demo_agent None) demo_launch_options w =
     (None, w\<lparr>sw_started := sw_started w @ [(updater_path (ud_paths demo_updater) demo_agent,
        apply_arguments (installed_client demo_updater demo_agent None) demo_launch_options)]\<rparr>)"
  by (simp add: launch_apply_def validate_process_client_def absolute_update_path_def installed_client_def updater_runner_def
      demo_updater_sel demo_sel has_prefix_def demo_comparison)

theorem launched_helper_options_witness:
  "fst (run_updater_app demo_updater (apply_arguments (installed_client demo_updater demo_agent None) demo_launch_options) ((\<lambda>p. None), ())) =
     (None, Nothing)"
  using launched_helper_options [of demo_updater "installed_client demo_updater demo_agent None" demo_launch_options
      "demo_world new_controller" _ "((\<lambda>p. None), ())"] demo_launch [of "demo_world new_controller"]
  by (simp add: demo_updater_sel has_prefix_def installed_client_def)

theorem service_update_launches_authentic_witness:
  "\<exists>c w1 m data. ctl_reachable demo_deps c \<and> length (sw_started w1) = 1 \<and> authentic demo_update demo_checker m data \<and>
     execute_service_update (service_runtime demo_updater demo_deps demo_agent None None demo_options ''/s/lkg'' 0 0) (demo_world c) =
       (Inr \<lparr>up_available = True, up_version = ''1.0.1'', up_url = ''https://ace/a.exe''\<rparr>, w1)"
proof -
  let ?rt = "service_runtime demo_updater demo_deps demo_agent None None demo_options ''/s/lkg'' 0 0"
  obtain c where c: "ctl_reachable demo_deps c" "authorize demo_deps 0 0 c = (None, c\<lparr>ct_gate := Launching 0\<rparr>)"
    using demo_checking by blast
  obtain fs where fs: "client_check (ud_env demo_updater) (ud_paths demo_updater) (installed_client demo_updater demo_agent None) demo_options
      (demo_world c) = (Inr demo_result, (demo_world c)\<lparr>sw_files := fs\<rparr>)"
    using demo_client_check by blast
  have ao: "\<lparr>ao_installer = kr_installer_path demo_result, ao_backup = ''/s/lkg'', ao_version = ''1.0.1''\<rparr> = demo_launch_options"
    by (simp add: demo_result_def)
  note launched = demo_launch [folded ao]
  have r: "kr_available demo_result" "kr_version demo_result = ''1.0.1''" "kr_url demo_result = ''https://ace/a.exe''"
    by (simp_all add: demo_result_def)
  have "\<exists>w1. execute_service_update ?rt (demo_world c) =
      (Inr \<lparr>up_available = True, up_version = ''1.0.1'', up_url = ''https://ace/a.exe''\<rparr>, w1)"
    unfolding execute_service_update_def runtime_sel option.case prod.case Let_def
    using fs c(2) by (simp add: r launched)
  then obtain w1 where w1: "execute_service_update ?rt (demo_world c) =
      (Inr \<lparr>up_available = True, up_version = ''1.0.1'', up_url = ''https://ace/a.exe''\<rparr>, w1)" by blast
  have k: "checked_by demo_updater demo_options = demo_checker"
    by (simp add: checked_by_def demo_options_def demo_updater_sel demo_checker_def)
  have "\<exists>m data. length (sw_started w1) = 1 \<and> authentic demo_update demo_checker m data"
    using service_update_launches_authentic [OF w1] unfolding k demo_updater_sel by (auto simp: no_status_def)
  with c(1) w1 show ?thesis by blast
qed

end
