(* ===== verification/UpdatePromote.thy ===== *)
theory UpdatePromote
  imports UpdateRun
begin

text \<open>
  How the Agent puts a new updater in the place of the old one, \<^verbatim>\<open>agent/internal/update/promote.go\<close>: the pending
  updater replaces the installed one when it tells exactly the version of the Agent, tried again while
  the file is in use and there is time, and helpers that earlier versions left behind are removed.

  What the code reaches is the record \<open>promotion_world\<close>; \<open>pw_ticks\<close> is how often the retry timer fires before
  the context of the promotion is done.
\<close>

abbreviation max_updater_version_bytes :: nat where "max_updater_version_bytes \<equiv> 1024"

definition legacy_helper_prefix :: string where "legacy_helper_prefix = ''.AceAgent-update-helper-''"
definition legacy_helper_suffix :: string where "legacy_helper_suffix = ''.exe''"
definition legacy_minimum_age :: duration where "legacy_minimum_age = 24 * hour"

record promotion_options =
  po_version :: string
  po_installed :: string
  po_pending :: string
  po_staging :: string
  po_current :: string
  po_interval :: duration
  po_timeout :: duration
  po_now :: time

text \<open>An entry of a directory: whether it is a link, and its mode and modification time or the error of reading them.\<close>

record directory_entry =
  de_name :: string
  de_link :: bool
  de_info :: "(bool \<times> time) res"

record path_tools =
  pt_clean :: "string \<Rightarrow> string"
  pt_base :: "string \<Rightarrow> string"
  pt_dir :: "string \<Rightarrow> string"
  pt_join :: "string \<Rightarrow> string \<Rightarrow> string"
  pt_equal_fold :: "string \<Rightarrow> string \<Rightarrow> bool"

record promotion_world =
  pw_semver :: semver
  pw_paths :: paths
  pw_tools :: path_tools
  pw_available :: bool
  pw_lstat :: "(bool \<times> bool) res"
  pw_version :: "string res"
  pw_replace :: "nat \<Rightarrow> go_error option"
  pw_retryable :: "go_error \<Rightarrow> bool"
  pw_ticks :: "duration \<Rightarrow> duration \<Rightarrow> nat"
  pw_stopped :: go_error
  pw_list :: "directory_entry list res"
  pw_remove :: "string \<Rightarrow> go_error option"

definition validate_promotion :: "promotion_world \<Rightarrow> promotion_options \<Rightarrow> go_error option" where
  "validate_promotion w opts =
     (let pt = pw_tools w; abs = absolute_update_path (pw_paths w)
      in case compare_versions (pw_semver w) (po_version opts) (po_version opts) of
          Inl e \<Rightarrow> Some (Message ''promotion Agent version must use valid semantic versioning'')
        | Inr i \<Rightarrow>
          if \<not> abs (po_installed opts) \<or> \<not> abs (po_pending opts) then Some (Message ''updater promotion paths must be absolute'')
          else if \<not> pt_equal_fold pt (pt_base pt (po_installed opts)) ''AceAgentUpdater.exe'' \<or>
            \<not> pt_equal_fold pt (pt_base pt (po_pending opts)) ''AceAgentUpdater.next.exe''
          then Some (Message ''updater promotion paths must use fixed filenames'')
          else if \<not> pt_equal_fold pt (pt_clean pt (pt_dir pt (po_installed opts))) (pt_clean pt (pt_dir pt (po_pending opts)))
          then Some (Message ''fixed and pending updaters must share an installation directory'')
          else if po_staging opts \<noteq> [] \<and> \<not> abs (po_staging opts)
          then Some (Message ''legacy helper staging directory must be absolute'') else None)"

definition exact_updater_version :: "string \<Rightarrow> string \<Rightarrow> bool" where
  "exact_updater_version printed version \<longleftrightarrow>
     printed = version \<or> printed = version @ [CHR 0x0A] \<or> printed = version @ [CHR 0x0D, CHR 0x0A]"

text \<open>The letters of the prefix and the suffix have no other upper-case forms than the ASCII ones.\<close>

definition legacy_helper_name :: "string \<Rightarrow> bool" where
  "legacy_helper_name name \<longleftrightarrow>
     (let lower = map ascii_lower name
      in has_prefix lower (map ascii_lower legacy_helper_prefix) \<and> has_suffix lower legacy_helper_suffix \<and>
         length legacy_helper_prefix + length legacy_helper_suffix < length name)"

text \<open>What comes of one entry: the error it leaves, and the path that is removed.\<close>

definition cleanup_entry :: "promotion_world \<Rightarrow> promotion_options \<Rightarrow> directory_entry \<Rightarrow> go_error option \<times> string list" where
  "cleanup_entry w opts e =
     (let pt = pw_tools w; current = pt_clean pt (po_current opts)
      in if \<not> legacy_helper_name (de_name e) \<or> de_link e then (None, [])
         else case de_info e of
             Inl err \<Rightarrow> (Some (Wrapped (''inspect legacy helper '' @ de_name e) err), [])
           | Inr (regular, modified) \<Rightarrow>
             if \<not> regular \<or> po_now opts - modified \<le> legacy_minimum_age then (None, [])
             else let path = pt_join pt (po_staging opts) (de_name e)
                  in if current \<noteq> ''.'' \<and> pt_equal_fold pt (pt_clean pt path) current then (None, [])
                     else case pw_remove w path of
                         None \<Rightarrow> (None, [path])
                       | Some err \<Rightarrow>
                         if err_is ErrNotExist err then (None, [])
                         else (Some (Wrapped (''remove legacy helper '' @ de_name e) err), []))"

definition cleanup_legacy_helpers :: "promotion_world \<Rightarrow> promotion_options \<Rightarrow> go_error option \<times> string list" where
  "cleanup_legacy_helpers w opts =
     (if po_staging opts = [] then (None, [])
      else case pw_list w of
          Inl e \<Rightarrow> if err_is ErrNotExist e then (None, []) else (Some (Wrapped ''list legacy update helpers'' e), [])
        | Inr entries \<Rightarrow>
          (let done1 = map (cleanup_entry w opts) entries in (join_errors (map fst done1), concat (map snd done1))))"

text \<open>How a promotion went: how often the replacement was tried, whether it was made, and what was removed.\<close>

record promotion =
  pr_error :: "go_error option"
  pr_attempts :: nat
  pr_replaced :: bool
  pr_removed :: "string list"

definition replaced_with :: "promotion_world \<Rightarrow> promotion_options \<Rightarrow> nat \<Rightarrow> bool \<Rightarrow> promotion" where
  "replaced_with w opts attempts replaced =
     (case cleanup_legacy_helpers w opts of
        (e, gone) \<Rightarrow> \<lparr>pr_error = e, pr_attempts = attempts, pr_replaced = replaced, pr_removed = gone\<rparr>)"

definition not_replaced :: "nat \<Rightarrow> go_error \<Rightarrow> promotion" where
  "not_replaced attempts e = \<lparr>pr_error = Some e, pr_attempts = attempts, pr_replaced = False, pr_removed = []\<rparr>"

primrec replace_loop :: "promotion_world \<Rightarrow> promotion_options \<Rightarrow> nat \<Rightarrow> nat \<Rightarrow> promotion" where
  "replace_loop w opts 0 tried =
     (case pw_replace w tried of
        None \<Rightarrow> replaced_with w opts (Suc tried) True
      | Some e \<Rightarrow>
        if \<not> pw_retryable w e then not_replaced (Suc tried) (Wrapped ''replace fixed updater'' e)
        else not_replaced (Suc tried) (Joined [Wrapped ''replace fixed updater'' e, pw_stopped w]))"
| "replace_loop w opts (Suc n) tried =
     (case pw_replace w tried of
        None \<Rightarrow> replaced_with w opts (Suc tried) True
      | Some e \<Rightarrow>
        if \<not> pw_retryable w e then not_replaced (Suc tried) (Wrapped ''replace fixed updater'' e)
        else replace_loop w opts n (Suc tried))"

definition promote_pending_updater :: "promotion_world \<Rightarrow> promotion_options \<Rightarrow> promotion" where
  "promote_pending_updater w opts =
     (case validate_promotion w opts of
        Some e \<Rightarrow> not_replaced 0 e
      | None \<Rightarrow>
        if \<not> pw_available w then not_replaced 0 (Message ''updater promotion is unavailable on this platform'')
        else case pw_lstat w of
            Inl e \<Rightarrow> if err_is ErrNotExist e then replaced_with w opts 0 False else not_replaced 0 (Wrapped ''inspect pending updater'' e)
          | Inr (link, regular) \<Rightarrow>
            if link \<or> \<not> regular then not_replaced 0 (Message ''pending updater must be a regular file'')
            else case pw_version w of
                Inl e \<Rightarrow> not_replaced 0 (Wrapped ''read pending updater version'' e)
              | Inr printed \<Rightarrow>
                if max_updater_version_bytes < length printed \<or> \<not> exact_updater_version printed (po_version opts)
                then not_replaced 0 (Message ''pending updater version does not match the Agent version'')
                else replace_loop w opts
                  (pw_ticks w (if po_interval opts \<le> 0 then second div 2 else po_interval opts)
                     (if po_timeout opts \<le> 0 then 90 * second else po_timeout opts)) 0)"

section \<open>What a promotion may do\<close>

definition removable :: "promotion_world \<Rightarrow> promotion_options \<Rightarrow> string \<Rightarrow> bool" where
  "removable w opts path \<longleftrightarrow>
     (\<exists>name modified. path = pt_join (pw_tools w) (po_staging opts) name \<and> legacy_helper_name name \<and>
        legacy_minimum_age < po_now opts - modified \<and>
        (pt_clean (pw_tools w) (po_current opts) = ''.'' \<or>
         \<not> pt_equal_fold (pw_tools w) (pt_clean (pw_tools w) path) (pt_clean (pw_tools w) (po_current opts))))"

lemma cleanup_entry_removes: "p \<in> set (snd (cleanup_entry w opts e)) \<Longrightarrow> removable w opts p"
proof -
  assume "p \<in> set (snd (cleanup_entry w opts e))"
  then obtain modified where "p = pt_join (pw_tools w) (po_staging opts) (de_name e)" "legacy_helper_name (de_name e)"
      "legacy_minimum_age < po_now opts - modified"
      "pt_clean (pw_tools w) (po_current opts) = ''.'' \<or>
         \<not> pt_equal_fold (pw_tools w) (pt_clean (pw_tools w) p) (pt_clean (pw_tools w) (po_current opts))"
    by (auto simp: cleanup_entry_def Let_def not_le split: if_splits sum.splits option.splits)
  then show ?thesis unfolding removable_def by blast
qed

lemma cleanup_removes: "p \<in> set (snd (cleanup_legacy_helpers w opts)) \<Longrightarrow> removable w opts p"
  using cleanup_entry_removes [of p w opts]
  by (auto simp: cleanup_legacy_helpers_def Let_def split: if_splits sum.splits)

text \<open>The attempts are one more than the ticks at most, all but the last one failed in a way that may pass.\<close>

lemma replace_loop_attempts:
  "tried < pr_attempts (replace_loop w opts n tried) \<and> pr_attempts (replace_loop w opts n tried) \<le> Suc (tried + n) \<and>
   (pr_replaced (replace_loop w opts n tried) \<longleftrightarrow> pw_replace w (pr_attempts (replace_loop w opts n tried) - 1) = None) \<and>
   (\<forall>k. tried \<le> k \<longrightarrow> Suc k < pr_attempts (replace_loop w opts n tried) \<longrightarrow> (\<exists>e. pw_replace w k = Some e \<and> pw_retryable w e)) \<and>
   set (pr_removed (replace_loop w opts n tried)) \<subseteq> Collect (removable w opts) \<and>
   (pr_error (replace_loop w opts n tried) = None \<longrightarrow> pr_replaced (replace_loop w opts n tried))"
proof (induction n arbitrary: tried)
  case 0
  show ?case
    using cleanup_removes [of _ w opts]
    by (auto simp: replaced_with_def not_replaced_def split: option.split prod.split)
next
  case (Suc n)
  show ?case
  proof (cases "pw_replace w tried")
    case None
    then show ?thesis
      using cleanup_removes [of _ w opts] by (auto simp: replaced_with_def split: prod.split)
  next
    case (Some e)
    show ?thesis
    proof (cases "pw_retryable w e")
      case True
      have l: "replace_loop w opts (Suc n) tried = replace_loop w opts n (Suc tried)" using Some True by simp
      have "\<exists>e. pw_replace w k = Some e \<and> pw_retryable w e"
        if "tried \<le> k" "Suc k < pr_attempts (replace_loop w opts n (Suc tried))" for k
        using that Suc.IH [of "Suc tried"] Some True by (cases "k = tried") auto
      then show ?thesis unfolding l using Suc.IH [of "Suc tried"] by auto
    qed (use Some in \<open>simp add: not_replaced_def\<close>)
  qed
qed

lemma promotion_cases:
  "(\<exists>e. promote_pending_updater w opts = not_replaced 0 e) \<or>
   (\<exists>e. promote_pending_updater w opts = replaced_with w opts 0 False \<and> pw_lstat w = Inl e \<and> err_is ErrNotExist e) \<or>
   (\<exists>printed n. pw_lstat w = Inr (False, True) \<and> pw_version w = Inr printed \<and> exact_updater_version printed (po_version opts) \<and>
      promote_pending_updater w opts = replace_loop w opts n 0)"
proof (cases "validate_promotion w opts = None \<and> pw_available w")
  case True
  show ?thesis
  proof (cases "pw_lstat w")
    case (Inl e)
    with True show ?thesis by (cases "err_is ErrNotExist e") (auto simp: promote_pending_updater_def)
  next
    case (Inr x)
    obtain link regular where x: "x = (link, regular)" by fastforce
    show ?thesis
    proof (cases "link \<or> \<not> regular")
      case True
      with \<open>validate_promotion w opts = None \<and> pw_available w\<close> Inr x show ?thesis
        unfolding promote_pending_updater_def by (intro disjI1) auto
    next
      case False
      with True Inr x show ?thesis
        by (cases "pw_version w"; cases "max_updater_version_bytes < length (projr (pw_version w)) \<or>
          \<not> exact_updater_version (projr (pw_version w)) (po_version opts)") (auto simp: promote_pending_updater_def)
    qed
  qed
next
  case False
  then show ?thesis unfolding promote_pending_updater_def by (intro disjI1) (auto split: option.split)
qed


section \<open>A promotion\<close>

definition demo_promotion_options :: promotion_options where
  "demo_promotion_options = \<lparr>po_version = ''1.0.1'', po_installed = ''C:/A/AceAgentUpdater.exe'', po_pending = ''C:/A/AceAgentUpdater.next.exe'',
     po_staging = [], po_current = ''C:/A/agent.exe'', po_interval = 0, po_timeout = 0, po_now = 0\<rparr>"

definition demo_promotion :: promotion_world where
  "demo_promotion = \<lparr>pw_semver = demo_semver, pw_paths = \<lparr>pa_dir = id, pa_join = concat, pa_abs = (\<lambda>p. False)\<rparr>,
     pw_tools = \<lparr>pt_clean = id, pt_base = drop 5, pt_dir = take 4, pt_join = (@), pt_equal_fold = (=)\<rparr>, pw_available = True,
     pw_lstat = Inr (False, True), pw_version = Inr (''1.0.1'' @ [CHR 0x0A]),
     pw_replace = (\<lambda>k. if k = 0 then Some (Message ''in use'') else None), pw_retryable = (\<lambda>e. True), pw_ticks = (\<lambda>i t. 180),
     pw_stopped = Sentinel ContextDeadlineExceeded, pw_list = Inr [], pw_remove = (\<lambda>p. None)\<rparr>"


end
