(* ===== verification/AgentDiagnostics.thy ===== *)
theory AgentDiagnostics
  imports AgentApp AgentClient ApiServer Redaction "HOL-Library.List_Lexorder" "HOL-Library.Char_ord" "HOL-Library.Product_Lexorder"
begin

text \<open>
  The support bundles of the Agent and the log tails it uploads: \<^verbatim>\<open>agent/internal/diagnostics/bundle.go\<close>
  and \<^verbatim>\<open>uploadServiceLogs\<close> of \<^verbatim>\<open>cmd/ace-agent\<close>.  A bundle is the list of its entries; archives and the
  failures of the file system are parameters, a log is its contents when it is measured and what is
  appended before it is read.
\<close>

section \<open>Secrets\<close>

definition removed_secret :: string where
  "removed_secret = ''[REDACTED]''"

definition normalize_secrets :: "string list \<Rightarrow> string list" where
  "normalize_secrets secrets = sort_key (\<lambda>s. (- int (length s), s)) (remdups (filter (\<lambda>s. s \<noteq> []) secrets))"

definition redact_text :: "string \<Rightarrow> string list \<Rightarrow> string" where
  "redact_text v secrets = fold (\<lambda>secret v. replace_all secret removed_secret v) (normalize_secrets secrets) v"

definition max_secret_bytes :: "string list \<Rightarrow> nat" where
  "max_secret_bytes secrets = fold (\<lambda>secret maximum. if maximum < length secret then length secret else maximum) secrets 0"

definition longest_fragment :: "string \<Rightarrow> string list \<Rightarrow> nat" where
  "longest_fragment contents secrets =
     fold (\<lambda>secret. fold (\<lambda>n longest. if longest < n \<and> has_prefix contents (drop (length secret - n) secret) then n else longest)
       [1..<length secret]) secrets 0"

definition trim_leading_secret_fragment :: "string \<Rightarrow> string list \<Rightarrow> string" where
  "trim_leading_secret_fragment contents secrets = drop (longest_fragment contents secrets) contents"

section \<open>Tails of logs\<close>

record log_file =
  lf_contents :: string
  lf_appended :: string

definition default_max_log_bytes :: int where
  "default_max_log_bytes = 1048576"

definition max_int :: int where
  "max_int = 2 ^ 63 - 1"

definition log_window :: "nat \<Rightarrow> log_file \<Rightarrow> string" where
  "log_window maximum f =
     (let offset = (if maximum < length (lf_contents f) then length (lf_contents f) - maximum else 0)
      in take maximum (drop offset (lf_contents f @ lf_appended f)))"

definition read_log_tail :: "fault \<Rightarrow> (string \<Rightarrow> log_file option) \<Rightarrow> string \<Rightarrow> int \<Rightarrow> string list \<Rightarrow> string res" where
  "read_log_tail fault logs path maximum0 secrets =
     (if path = [] then Inr []
      else let maximum = (if maximum0 = 0 then default_max_log_bytes else maximum0);
               overlap = max_secret_bytes secrets - 1
           in if maximum < 0 then Inl (Message ''maximum log bytes must not be negative'')
              else if max_int - int overlap < maximum then Inl (Message ''maximum log bytes is too large'')
              else case logs path of
                  None \<Rightarrow> Inr []
                | Some f \<Rightarrow>
                  (case fault ''open agent log'' of Some e \<Rightarrow> Inl (Wrapped ''open agent log'' e) | None \<Rightarrow>
                  (case fault ''stat agent log'' of Some e \<Rightarrow> Inl (Wrapped ''stat agent log'' e) | None \<Rightarrow>
                  (case (if nat maximum + overlap < length (lf_contents f) then fault ''seek agent log'' else None) of
                     Some e \<Rightarrow> Inl (Wrapped ''seek agent log'' e) | None \<Rightarrow>
                  (case fault ''read agent log'' of Some e \<Rightarrow> Inl (Wrapped ''read agent log'' e) | None \<Rightarrow>
                    let shown = redact_text (trim_leading_secret_fragment (log_window (nat maximum + overlap) f) secrets) secrets
                    in if int (length shown) \<le> maximum then Inr shown
                       else Inr (drop (length shown - nat maximum) shown))))))"

section \<open>Bundles\<close>

record bundle_options =
  bo_output_dir :: string
  bo_config :: agent_config
  bo_status :: status_snapshot
  bo_enrollment_token :: string
  bo_log_path :: string
  bo_max_log_bytes :: int

text \<open>What the bundle tells of the build and the system, how values become JSON, and the name of the new file.\<close>

record bundle_env =
  be_build :: json
  be_system :: json
  be_encode :: "json \<Rightarrow> string option"
  be_temp_name :: string
  be_fault :: fault
  be_cancelled :: "go_error option"
  be_logs :: "string \<Rightarrow> log_file option"

definition pending_pairing_credential :: "agent_config \<Rightarrow> string" where
  "pending_pairing_credential c = (case cg_pending c of None \<Rightarrow> [] | Some p \<Rightarrow> pn_credential p)"

definition bundle_secrets :: "bundle_options \<Rightarrow> string list" where
  "bundle_secrets o1 = [cg_credential (bo_config o1), pending_pairing_credential (bo_config o1), bo_enrollment_token o1]"

definition write_sanitized :: "sanitized_config \<Rightarrow> json" where
  "write_sanitized c = JObj ([(''server_url'', JStr (sc_server_url c)), (''node_id'', JStr (sc_node_id c))] @
     omit_empty ''pairing_id'' (sc_pairing_id c) @ [(''pairing_expires_at'', JTime (sc_expires_at c))])"

definition agent_state_text :: "agent_state \<Rightarrow> string" where
  "agent_state_text s = (case s of StateStarting \<Rightarrow> ''starting'' | StateOnline \<Rightarrow> ''online'' | StateError \<Rightarrow> ''error'' | StateStopped \<Rightarrow> ''stopped'')"

definition write_snapshot :: "status_snapshot \<Rightarrow> json" where
  "write_snapshot s = JObj [(''State'', JStr (agent_state_text (sn_state s))), (''NodeID'', JStr (sn_node_id s)),
     (''ServerURL'', JStr (sn_server_url s)), (''Version'', JStr (sn_version s)), (''LastHeartbeat'', JTime (sn_last_heartbeat s)),
     (''Error'', JStr (sn_error s))]"

type_synonym archive = "(string \<times> string) list"

definition write_entry :: "bundle_env \<Rightarrow> string \<Rightarrow> string \<Rightarrow> archive \<Rightarrow> archive res" where
  "write_entry env name contents entries =
     (case be_fault env (''create diagnostic entry '' @ name) of
        Some e \<Rightarrow> Inl (Wrapped (''create diagnostic entry '' @ name) e)
      | None \<Rightarrow>
     (case be_fault env (''write diagnostic entry '' @ name) of
        Some e \<Rightarrow> Inl (Wrapped (''write diagnostic entry '' @ name) e)
      | None \<Rightarrow> Inr (entries @ [(name, contents)])))"

definition write_json_entry :: "bundle_env \<Rightarrow> string \<Rightarrow> json \<Rightarrow> archive \<Rightarrow> archive res" where
  "write_json_entry env name j entries =
     (case be_encode env j of
        None \<Rightarrow> Inl (Message (''encode '' @ name))
      | Some encoded \<Rightarrow> write_entry env name encoded entries)"

definition write_entries :: "bundle_env \<Rightarrow> bundle_options \<Rightarrow> archive res" where
  "write_entries env o1 =
     (let secrets = bundle_secrets o1; st = (bo_status o1)\<lparr>sn_error := redact_text (sn_error (bo_status o1)) secrets\<rparr>
      in case write_json_entry env ''build.json'' (be_build env) [] of
          Inl e \<Rightarrow> Inl e
        | Inr b1 \<Rightarrow>
       (case write_json_entry env ''config.json'' (write_sanitized (sanitized (bo_config o1))) b1 of
          Inl e \<Rightarrow> Inl e
        | Inr b2 \<Rightarrow>
       (case write_json_entry env ''status.json'' (write_snapshot st) b2 of
          Inl e \<Rightarrow> Inl e
        | Inr b3 \<Rightarrow>
       (case write_json_entry env ''system.json'' (be_system env) b3 of
          Inl e \<Rightarrow> Inl e
        | Inr b4 \<Rightarrow>
       (case read_log_tail (be_fault env) (be_logs env) (bo_log_path o1) (bo_max_log_bytes o1) secrets of
          Inl e \<Rightarrow> Inl e
        | Inr tail \<Rightarrow> write_entry env ''logs/agent.log'' tail b4)))))"

text \<open>The bundles on disk; a bundle that is not finished is removed again.\<close>

definition create_bundle :: "bundle_env \<Rightarrow> bundle_options \<Rightarrow> (string \<Rightarrow> archive option) \<Rightarrow> string res \<times> (string \<Rightarrow> archive option)" where
  "create_bundle env o1 disk =
     (let path = be_temp_name env; failed = (\<lambda>e. (Inl e, disk(path := None)))
      in case be_cancelled env of
          Some e \<Rightarrow> (Inl e, disk)
        | None \<Rightarrow>
       if bo_output_dir o1 = [] then (Inl (Message ''diagnostic output directory is required''), disk)
       else (case be_fault env ''create diagnostic directory'' of
          Some e \<Rightarrow> (Inl (Wrapped ''create diagnostic directory'' e), disk)
        | None \<Rightarrow>
       (case be_fault env ''create diagnostic bundle'' of
          Some e \<Rightarrow> (Inl (Wrapped ''create diagnostic bundle'' e), disk)
        | None \<Rightarrow>
       (case be_fault env ''secure diagnostic bundle'' of
          Some e \<Rightarrow> failed (Wrapped ''secure diagnostic bundle'' e)
        | None \<Rightarrow>
       (case write_entries env o1 of
          Inl e \<Rightarrow> failed e
        | Inr entries \<Rightarrow>
       (case be_fault env ''close diagnostic archive'' of
          Some e \<Rightarrow> failed (Wrapped ''close diagnostic archive'' e)
        | None \<Rightarrow>
       (case be_fault env ''close diagnostic bundle'' of
          Some e \<Rightarrow> failed (Wrapped ''close diagnostic bundle'' e)
        | None \<Rightarrow> (Inr path, disk(path \<mapsto> entries)))))))))"

section \<open>Uploading logs\<close>

definition uploaded_log_max_bytes :: int where
  "uploaded_log_max_bytes = 65536"

text \<open>\<open>upload\<close> is \<^verbatim>\<open>Client.UploadLogs\<close>, given the credential and both tails.\<close>

definition upload_service_logs ::
    "fault \<Rightarrow> (string \<Rightarrow> log_file option) \<Rightarrow> (string \<Rightarrow> string \<Rightarrow> string \<Rightarrow> 's \<Rightarrow> go_error option \<times> 's) option \<Rightarrow> agent_config \<Rightarrow>
     string \<Rightarrow> string \<Rightarrow> 's \<Rightarrow> go_error option \<times> 's" where
  "upload_service_logs fault logs upload c agent_log update_log s =
     (case upload of
        None \<Rightarrow> (Some (Message ''log upload client is required''), s)
      | Some send \<Rightarrow>
        (let secrets = cg_credential c # (case cg_pending c of None \<Rightarrow> [] | Some p \<Rightarrow> [pn_credential p])
         in case read_log_tail fault logs agent_log uploaded_log_max_bytes secrets of
             Inl e \<Rightarrow> (Some (Wrapped ''read service log'' e), s)
           | Inr agent_tail \<Rightarrow>
          (case read_log_tail fault logs update_log uploaded_log_max_bytes secrets of
             Inl e \<Rightarrow> (Some (Wrapped ''read update log'' e), s)
           | Inr update_tail \<Rightarrow>
             (case send (cg_credential c) agent_tail update_tail s of
                (Some e, s1) \<Rightarrow> (Some (Wrapped ''upload logs'' e), s1)
              | (None, s1) \<Rightarrow> (None, s1)))))"

section \<open>What is shown\<close>

lemma removed_secret_marker: "removed_secret = CHR ''['' # ''REDACTED'' @ '']''"
  by (simp add: removed_secret_def)

lemma set_normalize: "set (normalize_secrets secrets) = set secrets - {[]}"
  by (auto simp: normalize_secrets_def)

text \<open>A secret that the marker cannot be mistaken for.\<close>

definition hideable :: "string \<Rightarrow> bool" where
  "hideable p \<longleftrightarrow> p \<noteq> [] \<and> CHR ''['' \<notin> set p \<and> CHR '']'' \<notin> set p \<and> \<not> sublist p ''REDACTED''"

lemma redact_text_hides: "hideable p \<Longrightarrow> p \<in> set secrets \<Longrightarrow> \<not> sublist p (redact_text v secrets)"
  unfolding redact_text_def hideable_def
  by (intro fold_replace_keeps [OF removed_secret_marker]) (auto simp: set_normalize)

lemma log_tail_shown:
  assumes "read_log_tail fault logs path maximum secrets = Inr out"
  shows "\<exists>v. suffix out (redact_text v secrets) \<and> length out \<le> nat (if maximum = 0 then default_max_log_bytes else maximum)"
proof -
  have r: "v = [] \<Longrightarrow> suffix v w" for v w :: string by simp
  show ?thesis
    using assms suffix_drop
    by (auto simp: read_log_tail_def Let_def split: if_splits option.splits intro!: exI)
qed

lemma log_tail_hides:
  assumes "read_log_tail fault logs path maximum secrets = Inr out" and "hideable p" and "p \<in> set secrets"
  shows "\<not> sublist p out \<and> length out \<le> nat (if maximum = 0 then default_max_log_bytes else maximum)"
proof -
  obtain v where v: "suffix out (redact_text v secrets)" "length out \<le> nat (if maximum = 0 then default_max_log_bytes else maximum)"
    using log_tail_shown [OF assms(1)] by blast
  then have "sublist out (redact_text v secrets)" by blast
  with redact_text_hides [OF assms(2,3)] v(2) show ?thesis using sublist_order.order_trans by blast
qed

text \<open>A window that starts inside a secret loses the rest of that secret.\<close>

lemma longest_fragment_inner:
  fixes m :: nat
  shows "m \<le> fold (\<lambda>n longest. if longest < n \<and> P n then n else longest) ns m \<and>
   (\<forall>n\<in>set ns. P n \<longrightarrow> n \<le> fold (\<lambda>n longest. if longest < n \<and> P n then n else longest) ns m)"
proof (induction ns arbitrary: m)
  case (Cons n ns)
  let ?m = "if m < n \<and> P n then n else m"
  have "m \<le> ?m" "P n \<Longrightarrow> n \<le> ?m" by auto
  moreover note Cons.IH [of ?m]
  ultimately show ?case by (auto intro: le_trans)
qed simp

lemma longest_fragment_bound:
  assumes "p \<in> set secrets" and "0 < n" and "n < length p" and "has_prefix contents (drop (length p - n) p)"
  shows "n \<le> longest_fragment contents secrets"
proof -
  let ?f = "\<lambda>secret. fold (\<lambda>n longest. if longest < n \<and> has_prefix contents (drop (length secret - n) secret) then n else longest)
       [1..<length secret]"
  have grows: "m \<le> fold ?f ss m" for ss m
  proof (induction ss arbitrary: m)
    case (Cons x ss)
    have "m \<le> ?f x m" by (rule conjunct1 [OF longest_fragment_inner])
    with Cons.IH [of "?f x m"] show ?case by simp
  qed simp
  have "n \<le> fold ?f ss m" if "p \<in> set ss" for ss m
    using that
  proof (induction ss arbitrary: m)
    case (Cons x ss)
    show ?case
    proof (cases "x = p")
      case True
      have "n \<in> set [1..<length p]" using assms(2,3) by simp
      then have "n \<le> ?f p m"
        using longest_fragment_inner [of m "\<lambda>n. has_prefix contents (drop (length p - n) p)" "[1..<length p]"] assms(4) by blast
      with grows [of "?f p m" ss] True show ?thesis by simp
    next
      case False
      with Cons show ?thesis by simp
    qed
  qed simp
  with assms(1) show ?thesis by (simp add: longest_fragment_def)
qed

lemma cut_secret_trimmed:
  assumes "p \<in> set secrets" and "0 < n" and "n < length p" and "contents = drop (length p - n) p @ rest"
  shows "\<exists>k. trim_leading_secret_fragment contents secrets = drop k rest"
proof -
  have "n \<le> longest_fragment contents secrets"
    by (rule longest_fragment_bound [OF assms(1-3)]) (simp add: assms(4))
  moreover have "length (drop (length p - n) p) = n" using assms(3) by simp
  ultimately have "drop (longest_fragment contents secrets) contents = drop (longest_fragment contents secrets - n) rest"
    unfolding assms(4) by simp
  then show ?thesis unfolding trim_leading_secret_fragment_def by blast
qed

section \<open>What a bundle holds\<close>

lemma write_entryD: "write_entry env name contents entries = Inr b \<Longrightarrow> b = entries @ [(name, contents)]"
  by (simp add: write_entry_def split: option.splits)

lemma write_json_entryD: "write_json_entry env name j entries = Inr b \<Longrightarrow> \<exists>v. be_encode env j = Some v \<and> b = entries @ [(name, v)]"
  by (auto simp: write_json_entry_def split: option.splits dest: write_entryD)

definition hidden_status :: "bundle_options \<Rightarrow> status_snapshot" where
  "hidden_status o1 = (bo_status o1)\<lparr>sn_error := redact_text (sn_error (bo_status o1)) (bundle_secrets o1)\<rparr>"

lemma write_entriesD:
  assumes "write_entries env o1 = Inr entries"
  shows "\<exists>build config stat system tail. entries = [(''build.json'', build), (''config.json'', config), (''status.json'', stat),
      (''system.json'', system), (''logs/agent.log'', tail)] \<and> be_encode env (write_sanitized (sanitized (bo_config o1))) = Some config \<and>
    be_encode env (write_snapshot (hidden_status o1)) = Some stat \<and>
    read_log_tail (be_fault env) (be_logs env) (bo_log_path o1) (bo_max_log_bytes o1) (bundle_secrets o1) = Inr tail"
proof -
  obtain b1 b2 b3 b4 tail where b: "write_json_entry env ''build.json'' (be_build env) [] = Inr b1"
      "write_json_entry env ''config.json'' (write_sanitized (sanitized (bo_config o1))) b1 = Inr b2"
      "write_json_entry env ''status.json'' (write_snapshot (hidden_status o1)) b2 = Inr b3"
      "write_json_entry env ''system.json'' (be_system env) b3 = Inr b4"
      "read_log_tail (be_fault env) (be_logs env) (bo_log_path o1) (bo_max_log_bytes o1) (bundle_secrets o1) = Inr tail"
      "write_entry env ''logs/agent.log'' tail b4 = Inr entries"
    using assms by (auto simp: write_entries_def hidden_status_def Let_def split: sum.splits)
  from write_json_entryD [OF b(1)] write_json_entryD [OF b(2)] write_json_entryD [OF b(3)] write_json_entryD [OF b(4)] write_entryD [OF b(6)] b(5)
  show ?thesis by auto
qed


section \<open>A bundle\<close>

definition demo_bundle_env :: bundle_env where
  "demo_bundle_env = \<lparr>be_build = JNull, be_system = JNull, be_encode = (\<lambda>j. Some ''json''), be_temp_name = ''b.zip'', be_fault = (\<lambda>l. None),
     be_cancelled = None, be_logs = (\<lambda>p. Some \<lparr>lf_contents = ''use c1 now'', lf_appended = []\<rparr>)\<rparr>"

definition demo_bundle_options :: bundle_options where
  "demo_bundle_options = \<lparr>bo_output_dir = ''/out'', bo_config = \<lparr>cg_server_url = ''https://ace'', cg_node_id = ''n1'', cg_credential = ''c1'', cg_pending = None\<rparr>,
     bo_status = \<lparr>sn_state = StateOnline, sn_node_id = ''n1'', sn_server_url = ''https://ace'', sn_version = ''1.0.0'', sn_last_heartbeat = 0, sn_error = []\<rparr>,
     bo_enrollment_token = [], bo_log_path = ''/log'', bo_max_log_bytes = 0\<rparr>"


section \<open>A full tail that the server refuses\<close>

text \<open>
  What the server reads of a string that \<^verbatim>\<open>encoding/json\<close> wrote: every byte that belongs to no valid
  encoding has become U+FFFD, which has three bytes.
\<close>

definition transmitted :: "string \<Rightarrow> string" where
  "transmitted s = concat (map (\<lambda>k. if valid_utf8 k then k else replacement) (rune_chunks s))"

lemma valid_chunk: "rune_width s = Some w \<Longrightarrow> valid_utf8 (take w s)"
proof -
  assume w: "rune_width s = Some w"
  then obtain c t where s: "s = c # t" by (cases s) auto
  with w obtain k where k: "w = Suc k" by (auto elim: rune_width_Suc)
  have "rune_width (take w s) = Some w" using rune_width_take [OF w, of "[]"] by simp
  then show ?thesis using s k by simp
qed

lemma transmitted_valid: "valid_utf8 s \<Longrightarrow> transmitted s = s"
proof (induction s rule: valid_utf8.induct)
  case (2 c s)
  then obtain w where w: "rune_width (c # s) = Some w" "valid_utf8 (drop (w - 1) s)" by (auto split: option.splits)
  have k: "take w (c # s) @ drop (w - 1) s = c # s" using rune_width_bounds [OF w(1)] by (cases w) auto
  show ?case
    using 2(1) [OF w] w valid_chunk [OF w(1)] k by (simp add: transmitted_def)
qed (simp add: transmitted_def)

definition accented :: "nat \<Rightarrow> string" where
  "accented n = concat (replicate n [CHR 0xC3, CHR 0xA9])"

lemma accented_Suc: "accented (Suc n) = CHR 0xC3 # CHR 0xA9 # accented n"
  by (simp add: accented_def)

lemma length_accented: "length (accented n) = 2 * n"
  by (induction n) (simp_all add: accented_Suc, simp add: accented_def)

lemma valid_accented: "valid_utf8 (accented n @ ''a'')"
proof (induction n)
  case 0
  show ?case by (simp add: accented_def rune_width_def byte_def)
next
  case (Suc n)
  have "rune_width (accented (Suc n) @ ''a'') = Some 2"
    by (simp add: accented_Suc rune_width_def byte_def is_cont_def)
  with Suc show ?case by (simp add: accented_Suc)
qed

lemma transmitted_cut:
  "transmitted (CHR 0xA9 # accented n @ ''a'') = replacement @ accented n @ ''a''"
proof -
  have w: "rune_width (CHR 0xA9 # s) = None" for s by (simp add: rune_width_def byte_def)
  have v: "\<not> valid_utf8 [CHR 0xA9]" by (simp add: w)
  have "transmitted (CHR 0xA9 # s) = replacement @ transmitted s" for s
    by (simp add: transmitted_def w v)
  then show ?thesis using transmitted_valid [OF valid_accented] by simp
qed

text \<open>
  A log of valid UTF-8, one byte longer than the limit of an upload and with a character of two bytes at its
  start: its tail is as long as the limit, but what arrives is longer, and the server refuses it.
\<close>

lemma cut_tail:
  assumes "logs path = Some \<lparr>lf_contents = accented (Suc n) @ ''a'', lf_appended = []\<rparr>" and "path \<noteq> []" and "int (2 * n + 2) < max_int"
  shows "read_log_tail (\<lambda>l. None) logs path (int (2 * n + 2)) [] = Inr (CHR 0xA9 # accented n @ ''a'')"
proof -
  have n: "normalize_secrets [] = []" by (simp add: normalize_secrets_def)
  have "log_window (2 * n + 2) \<lparr>lf_contents = accented (Suc n) @ ''a'', lf_appended = []\<rparr> = CHR 0xA9 # accented n @ ''a''"
    by (simp add: log_window_def length_accented accented_Suc)
  moreover have "max_secret_bytes [] = 0" by (simp add: max_secret_bytes_def)
  moreover have "nat (int (2 * n + 2)) = 2 * n + 2" by (rule nat_int)
  moreover have "trim_leading_secret_fragment v [] = v" "redact_text v [] = v" for v
    by (simp_all add: trim_leading_secret_fragment_def longest_fragment_def redact_text_def n)
  ultimately show ?thesis
    using assms by (simp add: read_log_tail_def Let_def length_accented)
qed

lemma full_tail_refused:
  assumes "logs path = Some \<lparr>lf_contents = accented (Suc 32767) @ ''a'', lf_appended = []\<rparr>" and "path \<noteq> []"
  shows "\<exists>tail. read_log_tail (\<lambda>l. None) logs path uploaded_log_max_bytes [] = Inr tail \<and> length tail = max_agent_log_bytes \<and>
    \<not> valid_agent_log (transmitted tail)"
proof (intro exI conjI)
  have u: "uploaded_log_max_bytes = int (2 * 32767 + 2)" by (simp add: uploaded_log_max_bytes_def)
  show "read_log_tail (\<lambda>l. None) logs path uploaded_log_max_bytes [] = Inr (CHR 0xA9 # accented 32767 @ ''a'')"
    unfolding u by (rule cut_tail [where logs = logs and path = path, OF assms]) (simp add: max_int_def)
  show "length (CHR 0xA9 # accented 32767 @ ''a'') = max_agent_log_bytes" by (simp add: length_accented)
  show "\<not> valid_agent_log (transmitted (CHR 0xA9 # accented 32767 @ ''a''))"
    unfolding transmitted_cut by (simp add: valid_agent_log_def length_accented replacement_def)
qed

end
