(* ===== verification/AgentService.thy ===== *)
theory AgentService
  imports GoErrors
begin

text \<open>
  The Windows Service of the Agent: registering, restoring, stopping and removing it
  (\<^verbatim>\<open>agent/internal/windowsservice/manager.go\<close>), and its run (\<^verbatim>\<open>handler.Execute\<close> of \<^verbatim>\<open>service_windows.go\<close>).

  The service control manager is the state \<open>scm\<close>: the registered service, if there is one.  \<open>scm_env\<close> says which calls fail,
  whether opening a service that is marked for deletion says so, what others do to the service
  between two looks at it, and what a waiting loop is woken by.
\<close>

section \<open>The service control manager\<close>

datatype service_state = ServiceRunning | ServiceStopPending | ServiceStopped

record service_config =
  vc_display_name :: string
  vc_automatic :: bool
  vc_delayed :: bool
  vc_start_name :: string
  vc_executable :: string
  vc_arguments :: "string list"

record scm_service =
  ss_config :: service_config
  ss_recovery :: "duration list"
  ss_non_crash :: bool
  ss_state :: service_state
  ss_marked :: bool

type_synonym scm = "scm_service option"

text \<open>What \<^verbatim>\<open>mapSCMError\<close> makes of an error.\<close>

datatype scm_error = ScmMissing | ScmMarked | ScmFault go_error

fun scm_go_error :: "scm_error \<Rightarrow> go_error" where
  "scm_go_error ScmMissing = Message ''service does not exist''"
| "scm_go_error ScmMarked = Message ''service is marked for deletion''"
| "scm_go_error (ScmFault e) = e"

datatype wake = Tick | Deadline | Cancelled go_error

text \<open>The number counts the looks of a waiting loop; what is in front of the loop has the number 0.\<close>

record scm_env =
  sm_fault :: "nat \<Rightarrow> string \<Rightarrow> scm_error option"
  sm_tells_marked :: "nat \<Rightarrow> bool"
  sm_others :: "nat \<Rightarrow> scm \<Rightarrow> scm"
  sm_stop_wakes :: "wake list"
  sm_delete_wakes :: "wake list"

definition open_service :: "scm_env \<Rightarrow> nat \<Rightarrow> scm \<Rightarrow> scm_error option" where
  "open_service env n s =
     (case sm_fault env n ''open'' of
        Some e \<Rightarrow> Some e
      | None \<Rightarrow>
        (case s of
           None \<Rightarrow> Some ScmMissing
         | Some v \<Rightarrow> if ss_marked v \<and> sm_tells_marked env n then Some ScmMarked else None))"

definition create_service :: "scm_env \<Rightarrow> service_config \<Rightarrow> scm \<Rightarrow> scm_error option \<times> scm" where
  "create_service env cfg s =
     (case sm_fault env 0 ''create'' of
        Some e \<Rightarrow> (Some e, s)
      | None \<Rightarrow>
        (case s of
           Some v \<Rightarrow> (Some (if ss_marked v then ScmMarked else ScmFault (Message ''service exists'')), s)
         | None \<Rightarrow> (None, Some \<lparr>ss_config = cfg, ss_recovery = [], ss_non_crash = False, ss_state = ServiceStopped, ss_marked = False\<rparr>)))"

text \<open>An operation on the open service that succeeds unless it fails as the environment says.\<close>

definition service_op :: "scm_env \<Rightarrow> string \<Rightarrow> (scm_service \<Rightarrow> scm_service) \<Rightarrow> scm \<Rightarrow> scm_error option \<times> scm" where
  "service_op env label f s = (case sm_fault env 0 label of Some e \<Rightarrow> (Some e, s) | None \<Rightarrow> (None, map_option f s))"

definition wrapped_scm :: "string \<Rightarrow> scm_error \<Rightarrow> go_error option" where
  "wrapped_scm l e = Some (Wrapped l (scm_go_error e))"

section \<open>Registering\<close>

definition service_configuration :: "string \<Rightarrow> service_config" where
  "service_configuration executable =
     \<lparr>vc_display_name = ''Ace IT Center Agent'', vc_automatic = True, vc_delayed = True, vc_start_name = ''LocalSystem'',
      vc_executable = executable, vc_arguments = [''service'']\<rparr>"

definition validate_executable :: "string \<Rightarrow> go_error option" where
  "validate_executable executable = (if executable = [] then Some (Message ''service executable is required'') else None)"

text \<open>The service is opened, or created when it is missing; the flag says which.\<close>

definition open_or_create :: "scm_env \<Rightarrow> service_config \<Rightarrow> scm \<Rightarrow> (scm_error + bool) \<times> scm" where
  "open_or_create env cfg s =
     (case open_service env 0 s of
        None \<Rightarrow> (Inr False, s)
      | Some ScmMissing \<Rightarrow> (case create_service env cfg s of (Some e, s1) \<Rightarrow> (Inl e, s1) | (None, s1) \<Rightarrow> (Inr True, s1))
      | Some e \<Rightarrow> (Inl e, s))"

definition install_with_manager :: "scm_env \<Rightarrow> string \<Rightarrow> scm \<Rightarrow> go_error option \<times> scm" where
  "install_with_manager env executable s =
     (case validate_executable executable of
        Some e \<Rightarrow> (Some e, s)
      | None \<Rightarrow>
     (let cfg = service_configuration executable
      in case open_or_create env cfg s of
          (Inl e, s1) \<Rightarrow> (wrapped_scm ''open or create service'' e, s1)
        | (Inr created, s1) \<Rightarrow>
       (case (if created then (None, s1) else service_op env ''update'' (ss_config_update (\<lambda>_. cfg)) s1) of
          (Some e, s2) \<Rightarrow> (wrapped_scm ''configure service'' e, s2)
        | (None, s2) \<Rightarrow>
       (case service_op env ''recovery'' (ss_recovery_update (\<lambda>_. [minute, minute, minute])) s2 of
          (Some e, s3) \<Rightarrow> (wrapped_scm ''configure service recovery'' e, s3)
        | (None, s3) \<Rightarrow>
       (case service_op env ''non-crash'' (ss_non_crash_update (\<lambda>_. True)) s3 of
          (Some e, s4) \<Rightarrow> (wrapped_scm ''configure service recovery on non-crash failures'' e, s4)
        | (None, s4) \<Rightarrow> (None, s4))))))"

definition restore_with_manager :: "scm_env \<Rightarrow> string \<Rightarrow> scm \<Rightarrow> go_error option \<times> scm" where
  "restore_with_manager env executable s =
     (case validate_executable executable of
        Some e \<Rightarrow> (Some e, s)
      | None \<Rightarrow>
     (let cfg = service_configuration executable
      in case open_or_create env cfg s of
          (Inl e, s1) \<Rightarrow> (wrapped_scm ''open or recreate service for executable restore'' e, s1)
        | (Inr created, s1) \<Rightarrow>
       (case (if created then (None, s1) else service_op env ''update'' (ss_config_update (\<lambda>_. cfg)) s1) of
          (Some e, s2) \<Rightarrow> (wrapped_scm ''restore service executable configuration'' e, s2)
        | (None, s2) \<Rightarrow> (None, s2))))"

text \<open>\<^verbatim>\<open>windowsCommandLine\<close>.\<close>

definition windows_command_line :: "string \<Rightarrow> string list \<Rightarrow> string" where
  "windows_command_line executable arguments =
     foldl (\<lambda>cmd argument. cmd @ '' '' @ argument) ([CHR 0x22] @ executable @ [CHR 0x22]) arguments"

section \<open>Stopping and removing\<close>

text \<open>A look at the service: the state that is found, after what others did since the last one.\<close>

definition query_service :: "scm_env \<Rightarrow> nat \<Rightarrow> scm \<Rightarrow> scm_error + service_state" where
  "query_service env n s =
     (case sm_fault env n ''query'' of
        Some e \<Rightarrow> Inl e
      | None \<Rightarrow> (case s of None \<Rightarrow> Inl ScmMissing | Some v \<Rightarrow> Inr (ss_state v)))"

fun stop_loop :: "scm_env \<Rightarrow> wake list \<Rightarrow> nat \<Rightarrow> scm \<Rightarrow> go_error option \<times> scm" where
  "stop_loop env [] n s = (Some (Message ''timed out waiting for service to stop''), s)"
| "stop_loop env (Deadline # ws) n s = (Some (Message ''timed out waiting for service to stop''), s)"
| "stop_loop env (Cancelled e # ws) n s = (Some e, s)"
| "stop_loop env (Tick # ws) n s =
     (let s1 = sm_others env n s
      in case query_service env n s1 of
          Inl e \<Rightarrow> (wrapped_scm ''query service while stopping'' e, s1)
        | Inr st \<Rightarrow> if st = ServiceStopped then (None, s1) else stop_loop env ws (Suc n) s1)"

definition stop_pending :: "scm_service \<Rightarrow> scm_service" where
  "stop_pending v = (if ss_state v = ServiceRunning then v\<lparr>ss_state := ServiceStopPending\<rparr> else v)"

definition wait_for_stopped :: "scm_env \<Rightarrow> scm \<Rightarrow> go_error option \<times> scm" where
  "wait_for_stopped env s =
     (case query_service env 0 s of
        Inl e \<Rightarrow> (wrapped_scm ''query service'' e, s)
      | Inr st \<Rightarrow>
        if st = ServiceStopped then (None, s)
        else case (if st \<noteq> ServiceStopPending then service_op env ''stop'' stop_pending s else (None, s)) of
            (Some e, s1) \<Rightarrow> (wrapped_scm ''stop service'' e, s1)
          | (None, s1) \<Rightarrow> stop_loop env (sm_stop_wakes env) 1 s1)"

fun delete_loop :: "scm_env \<Rightarrow> wake list \<Rightarrow> nat \<Rightarrow> scm \<Rightarrow> go_error option \<times> scm" where
  "delete_loop env [] n s = (Some (Message ''timed out waiting for service deletion''), s)"
| "delete_loop env (Deadline # ws) n s = (Some (Message ''timed out waiting for service deletion''), s)"
| "delete_loop env (Cancelled e # ws) n s = (Some e, s)"
| "delete_loop env (Tick # ws) n s =
     (let s1 = sm_others env n s
      in case open_service env n s1 of
          Some ScmMissing \<Rightarrow> (None, s1)
        | Some ScmMarked \<Rightarrow> delete_loop env ws (Suc n) s1
        | Some e \<Rightarrow> (wrapped_scm ''query service deletion'' e, s1)
        | None \<Rightarrow>
          (case sm_fault env n ''close'' of
             Some e \<Rightarrow> (wrapped_scm ''close service while waiting for deletion'' e, s1)
           | None \<Rightarrow> delete_loop env ws (Suc n) s1))"

definition wait_for_deleted :: "scm_env \<Rightarrow> scm \<Rightarrow> go_error option \<times> scm" where
  "wait_for_deleted env s = delete_loop env (sm_delete_wakes env) 1 s"

definition stop_with_manager :: "scm_env \<Rightarrow> scm \<Rightarrow> go_error option \<times> scm" where
  "stop_with_manager env s =
     (case open_service env 0 s of
        Some ScmMissing \<Rightarrow> (None, s)
      | Some ScmMarked \<Rightarrow> wait_for_deleted env s
      | Some e \<Rightarrow> (wrapped_scm ''open service'' e, s)
      | None \<Rightarrow>
        (case wait_for_stopped env s of
           (Some e, s1) \<Rightarrow> (Some e, s1)
         | (None, s1) \<Rightarrow>
           (case sm_fault env 0 ''close'' of Some e \<Rightarrow> (wrapped_scm ''close stopped service'' e, s1) | None \<Rightarrow> (None, s1))))"

definition uninstall_with_manager :: "scm_env \<Rightarrow> scm \<Rightarrow> go_error option \<times> scm" where
  "uninstall_with_manager env s =
     (case open_service env 0 s of
        Some ScmMissing \<Rightarrow> (None, s)
      | Some ScmMarked \<Rightarrow> wait_for_deleted env s
      | Some e \<Rightarrow> (wrapped_scm ''open service'' e, s)
      | None \<Rightarrow>
        (case wait_for_stopped env s of
           (Some e, s1) \<Rightarrow> (Some e, s1)
         | (None, s1) \<Rightarrow>
           (case service_op env ''delete'' (ss_marked_update (\<lambda>_. True)) s1 of
              (r, s2) \<Rightarrow>
                if r \<noteq> None \<and> r \<noteq> Some ScmMarked then (wrapped_scm ''delete service'' (the r), s2)
                else (case sm_fault env 0 ''close'' of
                    Some e \<Rightarrow> (wrapped_scm ''close deleted service'' e, s2)
                  | None \<Rightarrow> wait_for_deleted env s2))))"

section \<open>The run of the Service\<close>

datatype service_change = StartPending | Running | StopPending | Stopped

text \<open>
  What the handler is woken by once it runs: a request of the manager, the end of the control interface with its error, or
  the end of the context it was started with.
\<close>

datatype service_wake = StopRequest | OtherRequest | InterfaceEnded "go_error option" | ParentDone

text \<open>How the control interface comes up, when the context does not end first.\<close>

datatype service_start = Listening | ListenFailed go_error | StartCancelled

text \<open>The changes it reports, whether the controller was shut down, and the exit code.\<close>

record service_run =
  sr_changes :: "service_change list"
  sr_shut_down :: bool
  sr_exit :: nat

definition handler_stop :: "service_change list \<Rightarrow> go_error option \<Rightarrow> nat \<Rightarrow> service_run" where
  "handler_stop changes shutdown_error code =
     \<lparr>sr_changes = changes @ [StopPending, Stopped], sr_shut_down = True, sr_exit = (if shutdown_error \<noteq> None then 1 else code)\<rparr>"

fun handler_loop :: "service_change list \<Rightarrow> go_error option \<Rightarrow> bool \<Rightarrow> service_wake list \<Rightarrow> service_run option" where
  "handler_loop changes shutdown_error parent_done [] = None"
| "handler_loop changes shutdown_error parent_done (StopRequest # ws) = Some (handler_stop changes shutdown_error 0)"
| "handler_loop changes shutdown_error parent_done (OtherRequest # ws) = handler_loop changes shutdown_error parent_done ws"
| "handler_loop changes shutdown_error parent_done (InterfaceEnded e # ws) =
     Some \<lparr>sr_changes = changes @ [Stopped], sr_shut_down = True,
       sr_exit = (if shutdown_error \<noteq> None then 1 else if e \<noteq> None \<and> \<not> parent_done then 1 else 0)\<rparr>"
| "handler_loop changes shutdown_error parent_done (ParentDone # ws) = Some (handler_stop changes shutdown_error 0)"

text \<open>\<^verbatim>\<open>Execute\<close>; a run that is never woken to its end is \<open>None\<close>.\<close>

definition execute :: "go_error option \<Rightarrow> service_start \<Rightarrow> go_error option \<Rightarrow> bool \<Rightarrow> service_wake list \<Rightarrow> service_run option" where
  "execute bootstrap start shutdown_error parent_done wakes =
     (if bootstrap \<noteq> None then Some \<lparr>sr_changes = [StartPending, Stopped], sr_shut_down = False, sr_exit = 1\<rparr>
      else case start of
          ListenFailed e \<Rightarrow> Some (handler_stop [StartPending] shutdown_error 1)
        | StartCancelled \<Rightarrow> Some (handler_stop [StartPending] shutdown_error 0)
        | Listening \<Rightarrow> handler_loop [StartPending, Running] shutdown_error parent_done wakes)"

section \<open>What the commands achieve\<close>

lemma open_service_missing: "sm_fault env n ''open'' \<noteq> Some ScmMissing \<Longrightarrow> open_service env n s = Some ScmMissing \<longleftrightarrow> s = None \<and> sm_fault env n ''open'' = None"
  by (auto simp: open_service_def split: option.split)

text \<open>No call invents that the service is missing or marked.\<close>

definition honest_faults :: "scm_env \<Rightarrow> bool" where
  "honest_faults env \<longleftrightarrow> (\<forall>n l. sm_fault env n l \<noteq> Some ScmMissing \<and> sm_fault env n l \<noteq> Some ScmMarked)"

lemma honest_missing: "honest_faults env \<Longrightarrow> open_service env n s = Some ScmMissing \<Longrightarrow> s = None"
  by (simp add: honest_faults_def open_service_missing)

lemma open_service_None: "open_service env n s = None \<Longrightarrow> s \<noteq> None"
  by (auto simp: open_service_def split: option.splits)

lemma stop_loop_stopped: "stop_loop env ws n s = (None, s1) \<Longrightarrow> \<exists>v. s1 = Some v \<and> ss_state v = ServiceStopped"
  by (induction env ws n s rule: stop_loop.induct)
    (auto simp: wrapped_scm_def query_service_def Let_def split: sum.splits if_splits option.splits)

lemma wait_for_stopped_stopped: "wait_for_stopped env s = (None, s1) \<Longrightarrow> \<exists>v. s1 = Some v \<and> ss_state v = ServiceStopped"
  using stop_loop_stopped
  by (auto simp: wait_for_stopped_def wrapped_scm_def query_service_def split: sum.splits if_splits option.splits prod.splits)

lemma delete_loop_missing: "honest_faults env \<Longrightarrow> delete_loop env ws n s = (None, s1) \<Longrightarrow> s1 = None"
proof (induction env ws n s rule: delete_loop.induct)
  case (4 env ws n s)
  then show ?case
    using honest_missing [of env n "sm_others env n s"]
    by (auto simp: wrapped_scm_def Let_def split: option.splits scm_error.splits)
qed simp_all

lemma open_or_create_present:
  assumes "open_or_create env cfg s = (Inr created, s1)"
  shows "\<exists>v. s1 = Some v \<and> (created \<longrightarrow> ss_config v = cfg \<and> s = None) \<and> (\<not> created \<longrightarrow> s1 = s)"
  using assms open_service_None [of env 0 s]
  by (auto simp: open_or_create_def create_service_def split: option.splits scm_error.splits prod.splits)

lemma install_effect:
  assumes "install_with_manager env executable s = (None, s1)"
  shows "\<exists>v. s1 = Some v \<and> ss_config v = service_configuration executable \<and> ss_recovery v = [minute, minute, minute] \<and> ss_non_crash v"
proof -
  obtain created s2 where o: "open_or_create env (service_configuration executable) s = (Inr created, s2)"
    using assms by (auto simp: install_with_manager_def wrapped_scm_def Let_def split: option.splits prod.splits sum.splits)
  obtain v where v: "s2 = Some v" "created \<longrightarrow> ss_config v = service_configuration executable"
    using open_or_create_present [OF o] by blast
  show ?thesis
    using assms o v
    by (cases created) (auto simp: install_with_manager_def service_op_def wrapped_scm_def Let_def split: option.splits prod.splits)
qed

lemma restore_effect:
  assumes "restore_with_manager env executable s = (None, s1)"
  shows "\<exists>v. s1 = Some v \<and> ss_config v = service_configuration executable \<and>
    (\<forall>u. s = Some u \<longrightarrow> ss_recovery v = ss_recovery u \<and> ss_non_crash v = ss_non_crash u \<and> ss_state v = ss_state u)"
proof -
  obtain created s2 where o: "open_or_create env (service_configuration executable) s = (Inr created, s2)"
    using assms by (auto simp: restore_with_manager_def wrapped_scm_def Let_def split: option.splits prod.splits sum.splits)
  obtain v where v: "s2 = Some v" "created \<longrightarrow> ss_config v = service_configuration executable \<and> s = None" "\<not> created \<longrightarrow> s2 = s"
    using open_or_create_present [OF o] by blast
  show ?thesis
    using assms o v
    by (cases created) (auto simp: restore_with_manager_def service_op_def wrapped_scm_def Let_def split: option.splits prod.splits)
qed

text \<open>The commands of the Service do what they report: when they succeed, installing leaves the service registered
with the Agent's command, automatic delayed start and all three recovery actions; restoring leaves it
registered with that executable and touches neither its recovery nor its state; stopping leaves it stopped
or gone; and removing leaves it gone, whatever others do to it in between.\<close>

theorem service_commands_effective:
  assumes "honest_faults env"
  shows "(install_with_manager env executable s = (None, s1) \<longrightarrow>
      (\<exists>v. s1 = Some v \<and> ss_config v = service_configuration executable \<and> ss_recovery v = [minute, minute, minute] \<and> ss_non_crash v)) \<and>
    (restore_with_manager env executable s = (None, s1) \<longrightarrow>
      (\<exists>v. s1 = Some v \<and> ss_config v = service_configuration executable \<and>
         (\<forall>u. s = Some u \<longrightarrow> ss_recovery v = ss_recovery u \<and> ss_non_crash v = ss_non_crash u \<and> ss_state v = ss_state u))) \<and>
    (stop_with_manager env s = (None, s1) \<longrightarrow> (\<forall>v. s1 = Some v \<longrightarrow> ss_state v = ServiceStopped)) \<and>
    (uninstall_with_manager env s = (None, s1) \<longrightarrow> s1 = None)"
proof (intro conjI impI)
  assume "stop_with_manager env s = (None, s1)"
  then show "\<forall>v. s1 = Some v \<longrightarrow> ss_state v = ServiceStopped"
    using honest_missing [OF assms, of 0 s] delete_loop_missing [OF assms] wait_for_stopped_stopped [of env s]
    by (auto simp: stop_with_manager_def wait_for_deleted_def wrapped_scm_def split: option.splits scm_error.splits prod.splits)
next
  assume "uninstall_with_manager env s = (None, s1)"
  then show "s1 = None"
    using honest_missing [OF assms, of 0 s] delete_loop_missing [OF assms]
    by (auto simp: uninstall_with_manager_def wait_for_deleted_def wrapped_scm_def split: option.splits scm_error.splits prod.splits if_splits)
qed (erule install_effect restore_effect)+

text \<open>Every run ends with the service reported stopped; the controller is shut down unless it was never started.\<close>

lemma handler_loop_ends:
  "handler_loop changes e p ws = Some r \<Longrightarrow> last (sr_changes r) = Stopped \<and> sr_shut_down r \<and> (e \<noteq> None \<longrightarrow> sr_exit r = 1)"
  by (induction changes e p ws rule: handler_loop.induct) (auto simp: handler_stop_def)

lemma execute_ends:
  assumes "execute b start e p ws = Some r"
  shows "last (sr_changes r) = Stopped \<and> (sr_shut_down r \<longleftrightarrow> b = None) \<and> (b \<noteq> None \<or> e \<noteq> None \<longrightarrow> sr_exit r = 1)"
  using assms handler_loop_ends [of "[StartPending, Running]" e p ws r]
  by (auto simp: execute_def handler_stop_def split: service_start.splits if_splits)

section \<open>A removal\<close>

definition demo_scm :: scm_env where
  "demo_scm = \<lparr>sm_fault = (\<lambda>n l. None), sm_tells_marked = (\<lambda>n. True),
     sm_others = (\<lambda>n s. if n = 1 then map_option (ss_state_update (\<lambda>_. ServiceStopped)) s else None),
     sm_stop_wakes = [Tick, Deadline], sm_delete_wakes = [Tick, Tick, Deadline]\<rparr>"

definition demo_service :: scm_service where
  "demo_service = \<lparr>ss_config = service_configuration ''a.exe'', ss_recovery = [], ss_non_crash = False, ss_state = ServiceRunning, ss_marked = False\<rparr>"

theorem service_commands_effective_witness:
  "uninstall_with_manager demo_scm (Some demo_service) = (None, None) \<and> snd (uninstall_with_manager demo_scm (Some demo_service)) = None"
proof -
  have r: "fst (uninstall_with_manager demo_scm (Some demo_service)) = None"
    by (simp add: uninstall_with_manager_def open_service_def demo_scm_def demo_service_def wait_for_stopped_def query_service_def
        service_op_def stop_pending_def wait_for_deleted_def Let_def)
  have "honest_faults demo_scm" by (simp add: honest_faults_def demo_scm_def)
  from service_commands_effective [OF this, of "[]" "Some demo_service" "snd (uninstall_with_manager demo_scm (Some demo_service))"] r
  show ?thesis by (metis prod.collapse)
qed

end
