(* ===== verification/AgentTray.thy ===== *)
theory AgentTray
  imports AgentController
begin

text \<open>
  The part of the Windows tray that does not depend on Windows, \<^verbatim>\<open>agent/internal/tray/presenter.go\<close>: what is shown of
  a status and which actions it offers, the last polled status, the pairing form, and the coordination of
  background work with the end of the tray.

  The run of the tray with its window is \<open>TrayWindow\<close>.
  \<^verbatim>\<open>time.Format\<close> and \<^verbatim>\<open>url.ParseRequestURI\<close> are parameters.
\<close>

section \<open>Texts\<close>

text \<open>The UTF-8 encoding of code points of the basic plane.\<close>

definition utf8_bytes :: "nat \<Rightarrow> string" where
  "utf8_bytes cp =
     (if cp < 128 then [char_of cp]
      else if cp < 2048 then [char_of (192 + cp div 64), char_of (128 + cp mod 64)]
      else [char_of (224 + cp div 4096), char_of (128 + cp div 64 mod 64), char_of (128 + cp mod 64)])"

definition utf8 :: "nat list \<Rightarrow> string" where
  "utf8 cps = concat (map utf8_bytes cps)"

definition waiting_text :: string where
  "waiting_text = utf8 [31561, 24453, 25509, 20837]"

definition approval_text :: string where
  "approval_text = utf8 [31561, 24453, 24179, 21488, 30830, 35748]"

definition recovery_text :: string where
  "recovery_text = utf8 [27491, 22312, 31561, 24453, 24674, 22797, 25509, 20837, 30830, 35748]"

definition rejected_text :: string where
  "rejected_text = utf8 [37197, 23545, 35831, 27714, 34987, 25298, 32477, 65292, 35831, 37325, 26032, 25509, 20837]"

definition expired_text :: string where
  "expired_text = utf8 [37197, 23545, 35831, 27714, 24050, 36807, 26399, 65292, 35831, 37325, 26032, 25509, 20837]"

definition connecting_text :: string where
  "connecting_text = utf8 [27491, 22312, 36830, 25509]"

definition online_text :: string where
  "online_text = utf8 [36816, 34892, 27491, 24120]"

definition degraded_text :: string where
  "degraded_text = utf8 [26381, 21153, 24322, 24120]"

definition updating_text :: string where
  "updating_text = utf8 [27491, 22312, 26356, 26032]"

definition stopped_text :: string where
  "stopped_text = utf8 [26381, 21153, 24050, 20572, 27490]"

definition unavailable_text :: string where
  "unavailable_text = utf8 [83, 101, 114, 118, 105, 99, 101, 32, 19981, 21487, 29992]"

definition unknown_text :: string where
  "unknown_text = utf8 [29366, 24577, 26410, 30693]"

definition busy_text :: string where
  "busy_text = utf8 [37197, 23545, 35831, 27714, 27491, 22312, 22788, 29702, 20013]"

definition bad_url_text :: string where
  "bad_url_text = utf8 [35831, 36755, 20837, 26377, 25928, 30340, 32, 72, 84, 84, 80, 32, 25110, 32, 72, 84, 84,
     80, 83, 32, 26381, 21153, 22320, 22336]"

definition foreground_text :: string where
  "foreground_text = utf8 [26080, 27861, 23558, 35774, 32622, 31383, 21475, 20999, 25442, 21040, 21069, 21488,
     65292, 35831, 20174, 20219, 21153, 26639, 25171, 24320]"

section \<open>Views\<close>

datatype icon = IconGray | IconYellow | IconGreen | IconRed | IconBlue

record tray_actions =
  ta_open_platform :: bool
  ta_configure_enrollment :: bool
  ta_open_logs :: bool
  ta_create_diagnostics :: bool
  ta_check_update :: bool
  ta_restart_worker :: bool
  ta_exit_tray :: bool

record tray_view =
  tv_status_text :: string
  tv_icon :: icon
  tv_show_enrollment :: bool
  tv_server_url :: string
  tv_version :: string
  tv_node_id :: string
  tv_last_heartbeat :: string
  tv_error :: string
  tv_actions :: tray_actions

definition service_available :: "string \<Rightarrow> bool" where
  "service_available st \<longleftrightarrow> st \<noteq> [] \<and> st \<noteq> ''stopped'' \<and> st \<noteq> ''unavailable''"

text \<open>The text, the icon and whether the enrollment is shown.\<close>

definition state_view :: "string \<Rightarrow> string \<times> icon \<times> bool" where
  "state_view st =
     (if st \<in> {''waiting'', ''waiting_for_enrollment''} then (waiting_text, IconGray, True)
      else if st = ''waiting_for_approval'' then (approval_text, IconGray, True)
      else if st = ''pairing_recovery'' then (recovery_text, IconBlue, True)
      else if st = ''pairing_rejected'' then (rejected_text, IconRed, True)
      else if st = ''pairing_expired'' then (expired_text, IconRed, True)
      else if st \<in> {''starting'', ''connecting''} then (connecting_text, IconYellow, False)
      else if st = ''online'' then (online_text, IconGreen, False)
      else if st \<in> {''degraded'', ''error''} then (degraded_text, IconRed, False)
      else if st = ''updating'' then (updating_text, IconBlue, False)
      else if st = ''stopped'' then (stopped_text, IconGray, False)
      else if st = ''unavailable'' then (unavailable_text, IconGray, False)
      else (unknown_text, IconGray, False))"

definition present :: "(time \<Rightarrow> string) \<Rightarrow> agent_status \<Rightarrow> tray_view" where
  "present format s =
     (let (shown, icon, enrollment) = state_view (as_state s);
          enrolled = (as_server_url s \<noteq> [] \<and> as_node_id s \<noteq> [] \<and> as_state s \<noteq> ''stopped'')
      in \<lparr>tv_status_text = shown, tv_icon = icon, tv_show_enrollment = enrollment, tv_server_url = as_server_url s,
          tv_version = as_version s, tv_node_id = as_node_id s,
          tv_last_heartbeat = (if is_zero_time (as_last_heartbeat s) then [] else format (as_last_heartbeat s)), tv_error = as_error s,
          tv_actions =
            \<lparr>ta_open_platform = enrolled, ta_configure_enrollment = service_available (as_state s) \<and> as_state s \<noteq> ''updating'',
             ta_open_logs = True, ta_create_diagnostics = service_available (as_state s), ta_check_update = enrolled,
             ta_restart_worker = enrolled, ta_exit_tray = True\<rparr>\<rparr>)"

text \<open>\<^verbatim>\<open>StatusModel\<close> is the view that is shown; a failed poll forgets everything of the last status.\<close>

definition poll_failed :: "(time \<Rightarrow> string) \<Rightarrow> tray_view" where
  "poll_failed format = present format (bare_status ''unavailable'' [] [] [])"

definition apply_poll :: "(time \<Rightarrow> string) \<Rightarrow> agent_status option \<Rightarrow> tray_view \<Rightarrow> tray_view" where
  "apply_poll format polled view = (case polled of Some s \<Rightarrow> present format s | None \<Rightarrow> poll_failed format)"

section \<open>The pairing form\<close>

definition default_server_url :: string where
  "default_server_url = ''http://it.ace-station.top:1111''"

record pairing_form =
  pf_server_url :: string
  pf_error :: string
  pf_pending :: bool

definition new_pairing_form :: pairing_form where
  "new_pairing_form = \<lparr>pf_server_url = default_server_url, pf_error = [], pf_pending = False\<rparr>"

definition valid_server_url :: "(string \<Rightarrow> parsed_url option) \<Rightarrow> string \<Rightarrow> bool" where
  "valid_server_url parse v \<longleftrightarrow> (case parse v of None \<Rightarrow> False | Some u \<Rightarrow> pu_host u \<noteq> [] \<and> bare_url u \<and> http_scheme u)"

definition begin_pairing_form :: "(string \<Rightarrow> parsed_url option) \<Rightarrow> pairing_form \<Rightarrow> string res \<times> pairing_form" where
  "begin_pairing_form parse f =
     (if pf_pending f then (Inl (Message busy_text), f)
      else let url = trim_space (pf_server_url f)
           in if \<not> valid_server_url parse url then (Inl (Message bad_url_text), f\<lparr>pf_pending := False, pf_error := bad_url_text\<rparr>)
              else let shown = trim_right (CHR ''/'') url
                   in (Inr shown, f\<lparr>pf_server_url := shown, pf_error := [], pf_pending := True\<rparr>))"

definition complete_pairing_form :: "string \<Rightarrow> pairing_form \<Rightarrow> pairing_form" where
  "complete_pairing_form message f = f\<lparr>pf_pending := False, pf_error := message\<rparr>"

section \<open>Background work and the end of the tray\<close>

text \<open>
  \<^verbatim>\<open>backgroundCoordinator\<close>: the operations that run, how many were started, how often the tray was woken, whether the context
  is cancelled and how often the cleanup ran.
\<close>

record coordinator =
  bc_stopping :: bool
  bc_running :: "nat list"
  bc_started :: nat
  bc_wakes :: nat
  bc_cancelled :: bool
  bc_cleanups :: nat

definition new_coordinator :: coordinator where
  "new_coordinator = \<lparr>bc_stopping = False, bc_running = [], bc_started = 0, bc_wakes = 0, bc_cancelled = False, bc_cleanups = 0\<rparr>"

definition coordinator_go :: "bool \<Rightarrow> coordinator \<Rightarrow> bool \<times> coordinator" where
  "coordinator_go given c =
     (if \<not> given \<or> bc_stopping c then (False, c)
      else (True, c\<lparr>bc_running := bc_started c # bc_running c, bc_started := Suc (bc_started c)\<rparr>))"

definition coordinator_stop :: "coordinator \<Rightarrow> bool \<times> coordinator" where
  "coordinator_stop c =
     (if bc_stopping c then (False, c)
      else (True, c\<lparr>bc_stopping := True, bc_cancelled := True, bc_wakes := Suc (bc_wakes c)\<rparr>))"

text \<open>The cleanup of \<^verbatim>\<open>Shutdown\<close>, which a \<^verbatim>\<open>sync.Once\<close> guards.\<close>

definition coordinator_cleanup :: "coordinator \<Rightarrow> coordinator" where
  "coordinator_cleanup c = (if bc_cleanups c = 0 then c\<lparr>bc_cleanups := 1\<rparr> else c)"

inductive coordinator_step :: "coordinator \<Rightarrow> coordinator \<Rightarrow> bool" where
  going: "coordinator_step c (snd (coordinator_go given c))"
| ending: "i \<in> set (bc_running c) \<Longrightarrow> coordinator_step c (c\<lparr>bc_running := remove1 i (bc_running c)\<rparr>)"
| stopping: "coordinator_step c (snd (coordinator_stop c))"
| cleaning: "bc_stopping c \<Longrightarrow> bc_running c = [] \<Longrightarrow> coordinator_step c (coordinator_cleanup c)"

inductive coordinator_steps :: "coordinator \<Rightarrow> coordinator \<Rightarrow> bool" where
  none: "coordinator_steps c c"
| later: "coordinator_steps c c1 \<Longrightarrow> coordinator_step c1 c2 \<Longrightarrow> coordinator_steps c c2"

text \<open>\<^verbatim>\<open>disposeInOrder\<close> and \<^verbatim>\<open>synchronizeAndWake\<close>, with the errors of waking and of the fallback.\<close>

definition dispose_in_order :: "('s \<Rightarrow> 's) option list \<Rightarrow> 's \<Rightarrow> 's" where
  "dispose_in_order disposers s = fold (\<lambda>dispose s. case dispose of None \<Rightarrow> s | Some f \<Rightarrow> f s) disposers s"

definition synchronize_and_wake ::
    "('s \<Rightarrow> 's) option \<Rightarrow> (('s \<Rightarrow> 's) \<Rightarrow> 's \<Rightarrow> 's) option \<Rightarrow> ('s \<Rightarrow> go_error option \<times> 's) option \<Rightarrow> ('s \<Rightarrow> go_error option \<times> 's) option \<Rightarrow> 's \<Rightarrow>
     (bool \<times> go_error option) \<times> 's" where
  "synchronize_and_wake callback synchronize wake fallback s =
     (case (callback, synchronize, wake) of
        (Some call1, Some synchronizer, Some wake1) \<Rightarrow>
          (case wake1 (synchronizer call1 s) of
             (None, s1) \<Rightarrow> ((False, None), s1)
           | (Some e, s1) \<Rightarrow>
             (case fallback of
                None \<Rightarrow> ((True, Some e), s1)
              | Some f \<Rightarrow> (case f s1 of (Some e1, s2) \<Rightarrow> ((True, Some (Joined [e, e1])), s2) | (None, s2) \<Rightarrow> ((True, None), s2))))
      | _ \<Rightarrow> ((False, Some (Message ''callback, synchronizer, and wake function are required'')), s))"

definition signal_existing_instance :: "go_error option option \<Rightarrow> go_error option" where
  "signal_existing_instance signal =
     (case signal of
        None \<Rightarrow> Some (Message ''tray activation signal is required'')
      | Some e \<Rightarrow> map_option (Wrapped ''signal existing tray instance'') e)"

text \<open>
  \<^verbatim>\<open>activateExistingUI\<close>: how often the window is shown and restored, which calls failed, and what is reported.
\<close>

record activation =
  av_shows :: nat
  av_restores :: nat
  av_top_failed :: bool
  av_activate_failed :: bool
  av_report :: "string option"

definition activate_existing_ui :: "go_error option \<Rightarrow> go_error option \<Rightarrow> bool \<Rightarrow> activation" where
  "activate_existing_ui bring_to_top activate reports =
     (let failed = (bring_to_top \<noteq> None \<or> activate \<noteq> None)
      in \<lparr>av_shows = (if failed then 2 else 1), av_restores = (if failed then 2 else 1), av_top_failed = bring_to_top \<noteq> None,
          av_activate_failed = activate \<noteq> None, av_report = (if failed \<and> reports then Some foreground_text else None)\<rparr>)"

section \<open>What the tray promises\<close>

definition coordinator_wf :: "coordinator \<Rightarrow> bool" where
  "coordinator_wf c \<longleftrightarrow> bc_cancelled c = bc_stopping c \<and> bc_wakes c = (if bc_stopping c then 1 else 0) \<and> bc_cleanups c \<le> 1 \<and>
     (bc_cleanups c = 1 \<longrightarrow> bc_stopping c \<and> bc_running c = [])"

lemma coordinator_step_wf: "coordinator_step c c1 \<Longrightarrow> coordinator_wf c \<Longrightarrow> coordinator_wf c1"
  by (induction rule: coordinator_step.induct)
    (auto simp: coordinator_wf_def coordinator_go_def coordinator_stop_def coordinator_cleanup_def)

lemma coordinator_steps_wf: "coordinator_steps c c1 \<Longrightarrow> coordinator_wf c \<Longrightarrow> coordinator_wf c1"
  by (induction rule: coordinator_steps.induct) (auto dest: coordinator_step_wf)

lemma new_coordinator_wf: "coordinator_wf new_coordinator"
  by (simp add: coordinator_wf_def new_coordinator_def)

lemma coordinator_step_stopped:
  "coordinator_step c c1 \<Longrightarrow> bc_stopping c \<Longrightarrow> bc_stopping c1 \<and> bc_started c1 = bc_started c \<and> set (bc_running c1) \<subseteq> set (bc_running c)"
  by (induction rule: coordinator_step.induct)
    (auto simp: coordinator_go_def coordinator_stop_def coordinator_cleanup_def dest: subsetD [OF set_remove1_subset])

lemma coordinator_steps_stopped:
  "coordinator_steps c c1 \<Longrightarrow> bc_stopping c \<Longrightarrow> bc_stopping c1 \<and> bc_started c1 = bc_started c \<and> set (bc_running c1) \<subseteq> set (bc_running c)"
  by (induction rule: coordinator_steps.induct) (auto dest: coordinator_step_stopped)

text \<open>The tray ends in order: when the cleanup has run, it has run once, the context was cancelled and the tray woken
once before it, no background operation was left, and whatever is asked for afterwards, none is started and
the cleanup does not run again.\<close>

theorem tray_ends_in_order:
  assumes "coordinator_steps new_coordinator c" and "0 < bc_cleanups c" and "coordinator_steps c c1"
  shows "bc_cleanups c1 = 1 \<and> bc_cancelled c \<and> bc_wakes c1 = 1 \<and> bc_running c1 = [] \<and> bc_started c1 = bc_started c"
proof -
  have wf: "coordinator_wf c" using coordinator_steps_wf [OF assms(1) new_coordinator_wf] .
  then have s: "bc_stopping c" "bc_running c = []" "bc_cancelled c" using assms(2) by (auto simp: coordinator_wf_def)
  have wf1: "coordinator_wf c1" using coordinator_steps_wf [OF assms(3) wf] .
  note keeps = coordinator_steps_stopped [OF assms(3) s(1)]
  have "0 < bc_cleanups c1"
    using assms(3,2)
  proof (induction rule: coordinator_steps.induct)
    case (later c c1 c2)
    then have "0 < bc_cleanups c1" by simp
    with later(2) show ?case
      by (cases rule: coordinator_step.cases) (auto simp: coordinator_go_def coordinator_stop_def coordinator_cleanup_def)
  qed
  with wf1 keeps s show ?thesis by (auto simp: coordinator_wf_def)
qed

theorem tray_ends_in_order_witness:
  "\<exists>c. coordinator_steps new_coordinator c \<and> bc_cleanups c = 1 \<and> bc_started c = 1 \<and> bc_running c = []"
proof -
  let ?c1 = "snd (coordinator_go True new_coordinator)"
  let ?c2 = "snd (coordinator_stop ?c1)"
  let ?c3 = "?c2\<lparr>bc_running := remove1 0 (bc_running ?c2)\<rparr>"
  have s: "coordinator_steps new_coordinator ?c2"
    using coordinator_steps.none coordinator_steps.later coordinator_step.going coordinator_step.stopping by blast
  have "coordinator_steps new_coordinator ?c3"
    by (rule coordinator_steps.later [OF s coordinator_step.ending]) (simp add: coordinator_stop_def coordinator_go_def new_coordinator_def)
  then have r: "coordinator_steps new_coordinator (coordinator_cleanup ?c3)"
    by (rule coordinator_steps.later [OF _ coordinator_step.cleaning])
      (simp_all add: coordinator_stop_def coordinator_go_def new_coordinator_def)
  have "0 < bc_cleanups (coordinator_cleanup ?c3)" by (simp add: coordinator_cleanup_def)
  from tray_ends_in_order [OF r this coordinator_steps.none] r show ?thesis
    by (intro exI [of _ "coordinator_cleanup ?c3"]) (simp add: coordinator_cleanup_def coordinator_stop_def coordinator_go_def new_coordinator_def)
qed

text \<open>What needs an enrolled Agent is offered only with a server and a node, and after a failed poll nothing of them is left.\<close>

lemma offered_actions:
  "ta_restart_worker (tv_actions (present format s)) \<Longrightarrow> tv_server_url (present format s) \<noteq> [] \<and> tv_node_id (present format s) \<noteq> []"
  by (simp add: present_def split_beta Let_def)

lemma poll_failed_forgets:
  "tv_server_url (apply_poll format None v) = [] \<and> tv_node_id (apply_poll format None v) = [] \<and>
   \<not> ta_configure_enrollment (tv_actions (apply_poll format None v)) \<and> \<not> ta_check_update (tv_actions (apply_poll format None v))"
  by (simp add: apply_poll_def poll_failed_def present_def split_beta Let_def bare_status_def service_available_def)

text \<open>One submission at a time, of an address that was valid before its last slashes were cut off.\<close>

lemma form_submits_once:
  assumes "begin_pairing_form parse f = (Inr url, f1)"
  shows "\<not> pf_pending f \<and> pf_pending f1 \<and> valid_server_url parse (trim_space (pf_server_url f)) \<and>
    fst (begin_pairing_form parse f1) = Inl (Message busy_text)"
  using assms by (auto simp: begin_pairing_form_def Let_def split: if_splits)

end
