(* ===== verification/UpdaterProcess.thy ===== *)
theory UpdaterProcess
  imports Encodings SuHttp SuCli SuRecovery
begin

text \<open>
  The updater's process, \<^verbatim>\<open>updater/cmd/ace-updater\<close>: its configuration out of the environment, what is built of
  it, and its run; and the registry that resolves the published images, \<^verbatim>\<open>internal/systemupdate/registry.go\<close>.

  Parameters: the environment variables, which paths are regular files, the containers' registry
  (\<open>registry\<close>), and when the HTTP server ends or the process is asked to stop.
\<close>

section \<open>Paths\<close>

text \<open>\<^verbatim>\<open>filepath.Clean\<close> of an absolute path, as its elements, and \<^verbatim>\<open>filepath.Rel\<close> of two of them.\<close>

fun clean_elements :: "string list \<Rightarrow> string list \<Rightarrow> string list" where
  "clean_elements [] acc = rev acc"
| "clean_elements (e # es) acc =
     (if e = [] \<or> e = ''.'' then clean_elements es acc
      else if e = ''..'' then clean_elements es (tl acc)
      else clean_elements es (e # acc))"

definition path_elements :: "string \<Rightarrow> string list" where
  "path_elements p = clean_elements (split_at (CHR ''/'') p) []"

definition path_text :: "string list \<Rightarrow> string" where
  "path_text es = ''/'' @ join es ''/''"

fun relative_elements :: "string list \<Rightarrow> string list \<Rightarrow> string list" where
  "relative_elements (b # bs) (t # ts) = (if b = t then relative_elements bs ts else replicate (length bs + 1) ''..'' @ t # ts)"
| "relative_elements bs ts = replicate (length bs) ''..'' @ ts"

definition relative_path :: "string \<Rightarrow> string \<Rightarrow> string" where
  "relative_path base p =
     (case relative_elements (path_elements base) (path_elements p) of [] \<Rightarrow> ''.'' | es \<Rightarrow> join es ''/'')"

definition path_under :: "string \<Rightarrow> string \<Rightarrow> bool" where
  "path_under base p \<longleftrightarrow> is_abs p \<and> relative_path base p \<noteq> ''.'' \<and> relative_path base p \<noteq> ''..'' \<and>
     \<not> has_prefix (relative_path base p) ''../''"

definition path_at_or_under :: "string \<Rightarrow> string \<Rightarrow> bool" where
  "path_at_or_under base p \<longleftrightarrow> is_abs p \<and> relative_path base p \<noteq> ''..'' \<and> \<not> has_prefix (relative_path base p) ''../''"

text \<open>\<^verbatim>\<open>filepath.Dir\<close> of an absolute path.\<close>

definition path_dir :: "string \<Rightarrow> string" where
  "path_dir p = path_text (clean_elements (butlast (split_at (CHR ''/'') p)) [])"

section \<open>Configuration\<close>

text \<open>
  \<^verbatim>\<open>strings.ToLower\<close>, as far as a comparison with an ASCII prefix sees it: of all other
  characters only two have an ASCII letter as their lower case.
\<close>

definition lower_chunk :: "string \<Rightarrow> string" where
  "lower_chunk c =
     (if c = [CHR 0xC4, CHR 0xB0] then ''i'' else if c = [CHR 0xE2, CHR 0x84, CHR 0xAA] then ''k'' else map ascii_lower c)"

definition placeholder_token :: "string \<Rightarrow> bool" where
  "placeholder_token t \<longleftrightarrow> has_prefix (concat (map lower_chunk (rune_chunks t))) ''replace-with-''"

record process_env =
  pe_getenv :: "string \<Rightarrow> string"
  pe_regular :: "string \<Rightarrow> bool"

record updater_config =
  uk_token :: string
  uk_listen :: string
  uk_project :: string
  uk_compose_file :: string
  uk_env_file :: string
  uk_state_file :: string
  uk_backup_dir :: string
  uk_backend :: string
  uk_web :: string
  uk_pg_host :: string
  uk_pg_port :: string
  uk_pg_database :: string
  uk_pg_user :: string
  uk_pg_password :: string

definition require_regular_file :: "process_env \<Rightarrow> string \<Rightarrow> string \<Rightarrow> go_error option" where
  "require_regular_file pe p variable =
     (if \<not> is_abs p then Some (Message (variable @ '' must be an absolute regular file''))
      else if \<not> pe_regular pe p then Some (Message (variable @ '' must be an existing regular file'')) else None)"

fun first_missing :: "(string \<times> string) list \<Rightarrow> go_error option" where
  "first_missing [] = None"
| "first_missing ((name, v) # rest) = (if trim_space v = [] then Some (Message (name @ '' is required'')) else first_missing rest)"

definition validate_updater_config :: "process_env \<Rightarrow> updater_config \<Rightarrow> go_error option" where
  "validate_updater_config pe c =
     (if trim_space (uk_token c) \<noteq> uk_token c \<or> rune_count (uk_token c) < 32 \<or> placeholder_token (uk_token c)
      then Some (Message ''ACE_UPDATER_TOKEN must be a non-placeholder value of at least 32 characters'')
      else if uk_project c \<noteq> fixed_project_name then Some (Message ''ACE_COMPOSE_PROJECT is not allowed'')
      else case require_regular_file pe (uk_compose_file c) ''ACE_COMPOSE_FILE'' of
          Some e \<Rightarrow> Some e
        | None \<Rightarrow>
       (case require_regular_file pe (uk_env_file c) ''ACE_COMPOSE_ENV_FILE'' of
          Some e \<Rightarrow> Some e
        | None \<Rightarrow>
          if \<not> path_under ''/state'' (uk_state_file c) then Some (Message ''ACE_UPDATER_STATE_FILE must be under /state'')
          else if \<not> path_at_or_under ''/backups'' (uk_backup_dir c) then Some (Message ''ACE_UPDATER_BACKUP_DIR must be under /backups'')
          else if uk_backend c \<noteq> fixed_backend_repository then Some (Message ''ACE_BACKEND_IMAGE is not allowed'')
          else if uk_web c \<noteq> fixed_web_repository then Some (Message ''ACE_WEB_IMAGE is not allowed'')
          else first_missing [(''PGHOST'', uk_pg_host c), (''PGPORT'', uk_pg_port c), (''PGDATABASE'', uk_pg_database c),
            (''PGUSER'', uk_pg_user c), (''PGPASSWORD'', uk_pg_password c)]))"

definition environment_config :: "process_env \<Rightarrow> updater_config" where
  "environment_config pe =
     \<lparr>uk_token = pe_getenv pe ''ACE_UPDATER_TOKEN'',
      uk_listen = (if pe_getenv pe ''ACE_UPDATER_LISTEN_ADDR'' = [] then '':8090'' else pe_getenv pe ''ACE_UPDATER_LISTEN_ADDR''),
      uk_project = pe_getenv pe ''ACE_COMPOSE_PROJECT'', uk_compose_file = pe_getenv pe ''ACE_COMPOSE_FILE'',
      uk_env_file = pe_getenv pe ''ACE_COMPOSE_ENV_FILE'', uk_state_file = pe_getenv pe ''ACE_UPDATER_STATE_FILE'',
      uk_backup_dir = pe_getenv pe ''ACE_UPDATER_BACKUP_DIR'', uk_backend = pe_getenv pe ''ACE_BACKEND_IMAGE'',
      uk_web = pe_getenv pe ''ACE_WEB_IMAGE'', uk_pg_host = pe_getenv pe ''PGHOST'', uk_pg_port = pe_getenv pe ''PGPORT'',
      uk_pg_database = pe_getenv pe ''PGDATABASE'', uk_pg_user = pe_getenv pe ''PGUSER'', uk_pg_password = pe_getenv pe ''PGPASSWORD''\<rparr>"

definition load_updater_config :: "process_env \<Rightarrow> updater_config res" where
  "load_updater_config pe =
     (case validate_updater_config pe (environment_config pe) of
        Some e \<Rightarrow> Inl e
      | None \<Rightarrow> Inr (environment_config pe))"

section \<open>The registry (registry.go)\<close>

text \<open>What the registry's library answers; \<open>ds_satisfies\<close> is its comparison of platforms.\<close>

record descriptor =
  ds_satisfies :: "(string \<Rightarrow> string \<Rightarrow> bool) option"
  ds_labels :: "(string \<Rightarrow> string) option option"

record image_index =
  ix_digest :: "string option"
  ix_manifests :: "descriptor list option"

record registry =
  rg_repository :: "string \<Rightarrow> bool"
  rg_index :: "string \<Rightarrow> string \<Rightarrow> image_index option"
  rg_semver :: semver
  rg_time :: "string \<Rightarrow> time option"

definition registry_error :: go_error where
  "registry_error = Message ''registry image resolution failed''"

text \<open>The image, if it can be read, with its labels, if its configuration can.\<close>

definition image_for_platform :: "descriptor list \<Rightarrow> string \<Rightarrow> string \<Rightarrow> (string \<Rightarrow> string) option res" where
  "image_for_platform ds os architecture =
     (case find (\<lambda>d. case ds_satisfies d of None \<Rightarrow> False | Some satisfies \<Rightarrow> satisfies os architecture) ds of
        None \<Rightarrow> Inl registry_error
      | Some d \<Rightarrow> (case ds_labels d of None \<Rightarrow> Inl registry_error | Some found \<Rightarrow> Inr found))"

definition registry_resolve :: "registry \<Rightarrow> string \<Rightarrow> string \<Rightarrow> image res" where
  "registry_resolve rg repository tag =
     (if tag \<noteq> stable_tag \<or> \<not> rg_repository rg repository then Inl registry_error
      else case rg_index rg repository tag of
          None \<Rightarrow> Inl registry_error
        | Some ix \<Rightarrow>
       (case (ix_digest ix, ix_manifests ix) of
          (Some digest, Some manifests) \<Rightarrow>
            (case image_for_platform manifests ''linux'' ''amd64'' of
               Inl e \<Rightarrow> Inl e
             | Inr None \<Rightarrow> Inl registry_error
             | Inr (Some labels) \<Rightarrow>
               if validate_version (rg_semver rg) (labels ''org.opencontainers.image.version'') \<noteq> None then Inl registry_error
               else case rg_time rg (labels ''org.opencontainers.image.created'') of
                   None \<Rightarrow> Inl registry_error
                 | Some created \<Rightarrow>
                   Inr (empty_image\<lparr>im_repository := repository, im_version := labels ''org.opencontainers.image.version'',
                     im_digest := digest, im_published := Some created\<rparr>))
        | _ \<Rightarrow> Inl registry_error))"

section \<open>The process\<close>

record updater_service =
  us_platform :: platform_config
  us_checker :: checker
  us_http :: update_http

abbreviation server_read_timeout :: duration where "server_read_timeout \<equiv> 5 * second"

definition production_platform :: "updater_config \<Rightarrow> platform_config" where
  "production_platform c =
     \<lparr>pf_project = uk_project c, pf_compose_file = uk_compose_file c, pf_env_file = uk_env_file c,
      pf_state_dir = path_dir (uk_state_file c), pf_backup_dir = uk_backup_dir c, pf_backend_repo = uk_backend c, pf_web_repo = uk_web c,
      pf_backend_health = fixed_backend_health_url, pf_web_health = fixed_web_health_url, pf_health_timeout = server_read_timeout,
      pf_has_client = True, pf_pg_host = uk_pg_host c, pf_pg_port = uk_pg_port c, pf_pg_database = uk_pg_database c,
      pf_pg_user = uk_pg_user c, pf_pg_password = uk_pg_password c\<rparr>"

text \<open>\<^verbatim>\<open>NewManager\<close> refuses only missing parts, and none is missing.\<close>

definition build_production_updater ::
    "registry \<Rightarrow> (service \<Rightarrow> image res) \<Rightarrow> time \<Rightarrow> update_http \<Rightarrow> updater_config \<Rightarrow> updater_service res" where
  "build_production_updater rg inspect now http c =
     (case new_cli_platform (production_platform c) of
        Inl e \<Rightarrow> Inl e
      | Inr p \<Rightarrow>
       (case new_http_handler (http\<lparr>uh_token := uk_token c\<rparr>) of
          Inl e \<Rightarrow> Inl e
        | Inr h \<Rightarrow>
          Inr \<lparr>us_platform = p,
               us_checker = \<lparr>kr_resolve = registry_resolve rg, kr_inspect = inspect, kr_backend_repo = uk_backend c, kr_web_repo = uk_web c,
                 kr_now = now\<rparr>,
               us_http = h\<rparr>))"

text \<open>How the HTTP server ends: by itself, or after the request to stop, with the result of the shut-down.\<close>

datatype server_end = ServerClosed | ServerFailed go_error
datatype server_run = Ended server_end | Stopped "go_error option" server_end

definition end_error :: "server_end \<Rightarrow> go_error option" where
  "end_error e = (case e of ServerClosed \<Rightarrow> None | ServerFailed x \<Rightarrow> Some x)"

text \<open>The result, the service that is served if it came to that, and the state afterwards.\<close>

definition run_with_runtime ::
    "'s res \<Rightarrow> ('s \<Rightarrow> 'w \<Rightarrow> go_error option \<times> 'w) \<Rightarrow> server_run \<Rightarrow> 'w \<Rightarrow> go_error option \<times> 's option \<times> 'w" where
  "run_with_runtime built recover1 serving w =
     (case built of
        Inl e \<Rightarrow> (Some (Message ''configure updater''), None, w)
      | Inr s \<Rightarrow>
       (case recover1 s w of
          (Some e, w1) \<Rightarrow> (Some (Message ''recover update state''), None, w1)
        | (None, w1) \<Rightarrow>
          (case serving of
             Ended e \<Rightarrow> (end_error e, Some s, w1)
           | Stopped (Some x) e \<Rightarrow> (Some (Message ''shutdown updater server''), Some s, w1)
           | Stopped None e \<Rightarrow> (end_error e, Some s, w1))))"

text \<open>\<^verbatim>\<open>main\<close>: the exit code.\<close>

definition updater_main ::
    "process_env \<Rightarrow> registry \<Rightarrow> (service \<Rightarrow> image res) \<Rightarrow> time \<Rightarrow> update_http \<Rightarrow>
     (updater_service \<Rightarrow> 'w \<Rightarrow> go_error option \<times> 'w) \<Rightarrow> server_run \<Rightarrow> 'w \<Rightarrow> nat \<times> updater_service option \<times> 'w" where
  "updater_main pe rg inspect now http recover1 serving w =
     (case load_updater_config pe of
        Inl e \<Rightarrow> (1, None, w)
      | Inr c \<Rightarrow>
       (case run_with_runtime (build_production_updater rg inspect now http c) recover1 serving w of
          (e, served) \<Rightarrow> (if e = None then 0 else 1, served)))"

section \<open>Paths that are checked\<close>

lemma clean_append: "clean_elements (xs @ ys) acc = clean_elements ys (rev (clean_elements xs acc))"
  by (induction xs acc rule: clean_elements.induct) simp_all

definition plain_element :: "string \<Rightarrow> bool" where
  "plain_element e \<longleftrightarrow> e \<noteq> [] \<and> e \<noteq> ''.'' \<and> e \<noteq> ''..'' \<and> CHR ''/'' \<notin> set e"

lemma clean_plain: "list_all plain_element es \<Longrightarrow> clean_elements es acc = rev acc @ es"
  by (induction es arbitrary: acc) (simp_all add: plain_element_def)

lemma clean_result_plain:
  "list_all plain_element acc \<Longrightarrow> list_all (\<lambda>e. CHR ''/'' \<notin> set e) es \<Longrightarrow> list_all plain_element (clean_elements es acc)"
proof (induction es acc rule: clean_elements.induct)
  case (2 e es acc)
  then show ?case by (cases acc) (auto simp: plain_element_def)
qed simp

lemma split_no_separator: "list_all (\<lambda>e. c \<notin> set e) (split_at c s)"
  by (induction c s rule: split_at.induct) (auto split: list.splits)

lemma split_join: "list_all (\<lambda>e. CHR ''/'' \<notin> set e) es \<Longrightarrow> es \<noteq> [] \<Longrightarrow> split_at (CHR ''/'') (join es ''/'') = es"
proof (induction es)
  case (Cons e es)
  then show ?case by (cases es) (simp_all add: split_at_plain split_at_append)
qed simp

lemma path_elements_text: "list_all plain_element es \<Longrightarrow> path_elements (path_text es) = es"
proof (cases "es = []")
  case False
  assume a: "list_all plain_element es"
  then have "list_all (\<lambda>e. CHR ''/'' \<notin> set e) es" by (auto simp: list_all_iff plain_element_def)
  with False split_join have "split_at (CHR ''/'') (path_text es) = [] # es" by (simp add: path_text_def)
  then show ?thesis using clean_plain [OF a] by (simp add: path_elements_def)
qed (simp add: path_elements_def path_text_def)

lemma path_dir_elements: "path_elements (path_dir p) = clean_elements (butlast (split_at (CHR ''/'') p)) []"
proof -
  have "list_all (\<lambda>e. CHR ''/'' \<notin> set e) (butlast (split_at (CHR ''/'') p))"
    using split_no_separator [of "CHR ''/''" p] by (auto simp: list_all_iff dest: in_set_butlastD)
  then show ?thesis unfolding path_dir_def by (intro path_elements_text clean_result_plain) simp_all
qed

lemma relative_root:
  "relative_path base p = ''.'' \<or> relative_path base p = ''..'' \<or> has_prefix (relative_path base p) ''../'' \<or>
   (\<exists>rest. path_elements p = e # rest \<and> rest \<noteq> [])" if "path_elements base = [e]"
proof (cases "path_elements p")
  case Nil
  then show ?thesis using that by (simp add: relative_path_def)
next
  case (Cons t ts)
  then show ?thesis using that by (cases ts) (auto simp: relative_path_def has_prefix_def)
qed

lemma path_under_elements: "path_under base p \<Longrightarrow> path_elements base = [e] \<Longrightarrow> \<exists>rest. path_elements p = e # rest \<and> rest \<noteq> []"
  using relative_root [of base e p] by (auto simp: path_under_def)

lemma path_under_dir:
  assumes "path_under base p" and "path_elements base = [e]"
  shows "\<exists>rest. path_elements (path_dir p) = e # rest"
proof -
  from path_under_elements [OF assms] obtain rest where rest: "path_elements p = e # rest" "rest \<noteq> []" by blast
  obtain xs x where split: "split_at (CHR ''/'') p = xs @ [x]"
    by (metis append_butlast_last_id clean_elements.simps(1) list.distinct(1) path_elements_def rest(1) rev.simps(1))
  have "clean_elements [x] (rev (clean_elements xs [])) = e # rest" using rest(1) by (simp add: path_elements_def split clean_append)
  then have "\<exists>rest. clean_elements xs [] = e # rest" using rest(2)
    by (cases "clean_elements xs []" rule: rev_cases) (auto split: if_splits simp: append_eq_Cons_conv Cons_eq_append_conv)
  then show ?thesis by (simp add: path_dir_elements split)
qed

text \<open>What the registry resolves is the image of the stable tag for the servers' platform, with a valid version.\<close>

lemma resolved_image:
  assumes "registry_resolve rg repository tag = Inr i"
  shows "tag = stable_tag \<and> im_repository i = repository \<and> validate_version (rg_semver rg) (im_version i) = None \<and>
    (\<exists>ix manifests labels. rg_index rg repository tag = Some ix \<and> ix_digest ix = Some (im_digest i) \<and> ix_manifests ix = Some manifests \<and>
       image_for_platform manifests ''linux'' ''amd64'' = Inr (Some labels) \<and> im_version i = labels ''org.opencontainers.image.version'')"
  using assms by (auto simp: registry_resolve_def split: if_splits option.splits sum.splits)

section \<open>What a running updater is\<close>

lemma validated_builds:
  assumes "load_updater_config pe = Inr c"
  obtains s where "build_production_updater rg inspect now http c = Inr s" "new_cli_platform (us_platform s) = Inr (us_platform s)"
    "trusted (us_platform s)" "us_http s = http\<lparr>uh_token := pe_getenv pe ''ACE_UPDATER_TOKEN''\<rparr>" "32 \<le> rune_count (uh_token (us_http s))"
    "\<exists>rest. path_elements (pf_state_dir (us_platform s)) = ''state'' # rest"
proof -
  have c: "c = environment_config pe" "validate_updater_config pe c = None"
    using assms by (auto simp: load_updater_config_def split: option.splits)
  from c(2) have v: "uk_project c = fixed_project_name" "is_abs (uk_compose_file c)" "is_abs (uk_env_file c)"
      "path_under ''/state'' (uk_state_file c)" "is_abs (uk_backup_dir c)" "uk_backend c = fixed_backend_repository"
      "uk_web c = fixed_web_repository" "32 \<le> rune_count (uk_token c)"
    by (auto simp: validate_updater_config_def require_regular_file_def path_at_or_under_def split: if_splits option.splits)
  have "is_abs (path_dir p)" for p by (simp add: path_dir_def path_text_def is_abs_def has_prefix_def)
  then have platform: "new_cli_platform (production_platform c) = Inr (production_platform c)"
    using v by (simp add: new_cli_platform_def production_platform_def)
  have "rune_count [] = 0" by (simp add: rune_count_def)
  with v(8) have "uk_token c \<noteq> []" by auto
  with platform obtain s where s: "build_production_updater rg inspect now http c = Inr s" "us_platform s = production_platform c"
      "us_http s = http\<lparr>uh_token := uk_token c\<rparr>"
    by (simp add: build_production_updater_def new_http_handler_def)
  moreover have "trusted (production_platform c)" unfolding trusted_def using valid_config(2) [OF platform] by blast
  moreover obtain rest where "path_elements (pf_state_dir (production_platform c)) = ''state'' # rest"
    using path_under_dir [OF v(4), of "''state''"] by (auto simp: production_platform_def path_elements_def)
  moreover have "uk_token c = pe_getenv pe ''ACE_UPDATER_TOKEN''" by (simp add: c(1) environment_config_def)
  ultimately show ?thesis using that [of s] platform v(8) by simp
qed

text \<open>C19: A configuration that is accepted always builds, and an updater serves requests exactly when, besides, its recovery
succeeded; then its platform is the fixed one (so that its commands are those that are allowed), its token is the configured one of at
least 32 characters, its state is kept below the state directory whatever dots the configured path has, and no upgrade is left
unfinished in the state file.  Otherwise the process ends with an error, and without a configuration it has changed nothing.\<close>

theorem updater_starts_safe:
  assumes "updater_main pe rg inspect now http (\<lambda>s. recover env) serving w = (code, served, w1)" and "fits env" and "honest env"
  shows "case load_updater_config pe of
      Inl e \<Rightarrow> code = 1 \<and> served = None \<and> w1 = w
    | Inr c \<Rightarrow> w1 = snd (recover env w) \<and>
       (case served of
          None \<Rightarrow> fst (recover env w) \<noteq> None \<and> code = 1
        | Some s \<Rightarrow> fst (recover env w) = None \<and> new_cli_platform (us_platform s) = Inr (us_platform s) \<and> trusted (us_platform s) \<and>
            uh_token (us_http s) = pe_getenv pe ''ACE_UPDATER_TOKEN'' \<and> 32 \<le> rune_count (uh_token (us_http s)) \<and>
            (\<exists>rest. path_elements (pf_state_dir (us_platform s)) = ''state'' # rest) \<and>
            (\<exists>state. read_state (wd_file w1) = Some state \<and> (\<forall>t. ps_task state = Some t \<longrightarrow> stage_terminal (ut_stage t))))"
proof (cases "load_updater_config pe")
  case (Inl e)
  then show ?thesis using assms(1) by (simp add: updater_main_def)
next
  case (Inr c)
  then obtain s where s: "build_production_updater rg inspect now http c = Inr s" "new_cli_platform (us_platform s) = Inr (us_platform s)"
      "trusted (us_platform s)" "us_http s = http\<lparr>uh_token := pe_getenv pe ''ACE_UPDATER_TOKEN''\<rparr>" "32 \<le> rune_count (uh_token (us_http s))"
      "\<exists>rest. path_elements (pf_state_dir (us_platform s)) = ''state'' # rest"
    by (rule validated_builds)
  obtain r w2 where rec: "recover env w = (r, w2)" by fastforce
  show ?thesis
  proof (cases r)
    case None
    with assms(1) Inr s(1) rec have "served = Some s" "w1 = w2"
      by (auto simp: updater_main_def run_with_runtime_def split: server_run.splits option.splits)
    then show ?thesis
      using recovery_settled [OF rec [unfolded None] assms(2,3)] s rec None Inr by simp
  next
    case (Some e)
    with assms(1) Inr s(1) rec show ?thesis by (simp add: updater_main_def run_with_runtime_def)
  qed
qed

definition demo_process :: process_env where
  "demo_process = \<lparr>pe_getenv = (\<lambda>v.
       if v = ''ACE_UPDATER_TOKEN'' then ''0123456789abcdef0123456789abcdef''
       else if v = ''ACE_COMPOSE_PROJECT'' then fixed_project_name
       else if v = ''ACE_COMPOSE_FILE'' then ''/opt/compose.yml'' else if v = ''ACE_COMPOSE_ENV_FILE'' then ''/opt/.env''
       else if v = ''ACE_UPDATER_STATE_FILE'' then ''/state/./a/../update.json'' else if v = ''ACE_UPDATER_BACKUP_DIR'' then ''/backups''
       else if v = ''ACE_BACKEND_IMAGE'' then fixed_backend_repository else if v = ''ACE_WEB_IMAGE'' then fixed_web_repository
       else if v = ''ACE_UPDATER_URL'' then ''http://u/'' else if v = ''ACE_UPDATER_LISTEN_ADDR'' then []
       else if v = ''ACE_SECURE_COOKIES'' then [] else ''x''),
     pe_regular = (\<lambda>p. True)\<rparr>"

lemma demo_configuration: "load_updater_config demo_process = Inr (environment_config demo_process)"
  by code_simp

theorem updater_starts_safe_witness:
  "\<forall>rg inspect now http. \<exists>s w1. snd (updater_main demo_process rg inspect now http (\<lambda>s. recover (demo_env (\<lambda>c. None))) (Stopped None ServerClosed) crashed_world) = (Some s, w1) \<and>
     trusted (us_platform s)"
proof (intro allI)
  fix rg inspect now http
  obtain code served w1 where run1: "updater_main demo_process rg inspect now http (\<lambda>s. recover (demo_env (\<lambda>c. None)))
      (Stopped None ServerClosed) crashed_world = (code, served, w1)" by (metis prod_cases3)
  have "fst (recover (demo_env (\<lambda>c. None)) crashed_world) = None" using crash_recovers by auto
  with updater_starts_safe [OF run1 demo_fits demo_honest] run1
  show "\<exists>s w1. snd (updater_main demo_process rg inspect now http (\<lambda>s. recover (demo_env (\<lambda>c. None))) (Stopped None ServerClosed) crashed_world) =
      (Some s, w1) \<and> trusted (us_platform s)"
    by (auto simp: demo_configuration split: option.splits)
qed

end
