(* ===== verification/AgentSupport.thy ===== *)
theory AgentSupport
  imports AgentTray UpdaterProcess CmdExecutor NetUsage
begin

text \<open>
  Small parts of the Agent: the log with its redaction (\<^verbatim>\<open>agent/internal/logging/logging.go\<close>), the network rates
  (\<^verbatim>\<open>agent/internal/agent/network.go\<close>), the command process on Windows (\<^verbatim>\<open>agent/internal/command/process_windows.go\<close>) and
  the single instance of the tray (\<^verbatim>\<open>agent/internal/tray/singleinstance_windows.go\<close>).  The rotating writer, the
  operating system's counters and the calls of Windows are parameters.
\<close>

section \<open>The redacting log handler\<close>

text \<open>An attribute of \<^verbatim>\<open>slog\<close>: a value is plain, a group of attributes, or a \<^verbatim>\<open>LogValuer\<close> that gives another value.\<close>

datatype log_value = PlainValue string | LazyValue log_value | GroupValue "log_attr list"
  and log_attr = LogAttr string log_value

text \<open>\<^verbatim>\<open>slog.Value.Resolve\<close>, which gives up after a number of calls.\<close>

fun resolve_value :: "nat \<Rightarrow> log_value \<Rightarrow> log_value" where
  "resolve_value 0 v = PlainValue ''LogValue called too many times''"
| "resolve_value (Suc n) (LazyValue v) = resolve_value n v"
| "resolve_value (Suc n) v = v"

abbreviation max_log_values :: nat where "max_log_values \<equiv> 100"

definition log_redacted :: string where "log_redacted = ''[REDACTED]''"

definition is_secret_key :: "string \<Rightarrow> bool" where
  "is_secret_key key \<longleftrightarrow> concat (map lower_chunk (rune_chunks key)) \<in>
     {''token'', ''enrollment_token'', ''credential'', ''authorization'', ''password''}"

lemma resolved_group: "resolve_value n v = GroupValue g \<Longrightarrow> size_list size g < size v"
  by (induction n v rule: resolve_value.induct) auto

lemma resolved: "resolve_value n v \<noteq> LazyValue w"
  by (induction n v rule: resolve_value.induct) auto

function redact_attribute :: "log_attr \<Rightarrow> log_attr" where
  "redact_attribute (LogAttr k v) =
     (if is_secret_key k then LogAttr k (PlainValue log_redacted)
      else case resolve_value max_log_values v of
          GroupValue g \<Rightarrow> LogAttr k (GroupValue (map redact_attribute g))
        | r \<Rightarrow> LogAttr k r)"
  by pat_completeness auto
termination
proof (relation "measure size", simp)
  fix k v g a assume *: "resolve_value max_log_values v = GroupValue g" "a \<in> set g"
  have "size a \<le> size_list size g" using *(2) by (induction g) auto
  then show "(a, LogAttr k v) \<in> measure size" using resolved_group [OF *(1)] by simp
qed

text \<open>What reaches the next handler: a record, or attributes and groups put in front of later records.\<close>

datatype handler_call = HandleRecord string "log_attr list" | WithAttrs "log_attr list" | WithGroup string

fun redacting_handler :: "handler_call \<Rightarrow> handler_call" where
  "redacting_handler (HandleRecord message attrs) = HandleRecord message (map redact_attribute attrs)"
| "redacting_handler (WithAttrs attrs) = WithAttrs (map redact_attribute attrs)"
| "redacting_handler (WithGroup name) = WithGroup name"

record log_writer =
  lo_filename :: string
  lo_max_size :: nat
  lo_max_backups :: nat
  lo_max_age :: nat
  lo_compress :: bool

text \<open>\<^verbatim>\<open>New\<close>; the parameter is how the directory of a path could be made.\<close>

definition new_log :: "(string \<Rightarrow> go_error option) \<Rightarrow> string \<Rightarrow> log_writer res" where
  "new_log make_dir p =
     (if p = [] then Inl (Message ''log path is required'')
      else case make_dir p of
          Some e \<Rightarrow> Inl (Wrapped ''create log directory'' e)
        | None \<Rightarrow> Inr \<lparr>lo_filename = p, lo_max_size = 10, lo_max_backups = 7, lo_max_age = 14, lo_compress = True\<rparr>)"

text \<open>A value under a secret key that is not the replacement, at any depth, or one that is not known yet.\<close>

primrec exposes :: "log_attr \<Rightarrow> bool" and exposes_value :: "log_value \<Rightarrow> bool" where
  "exposes (LogAttr k v) \<longleftrightarrow> (if is_secret_key k then v \<noteq> PlainValue log_redacted else exposes_value v)"
| "exposes_value (PlainValue s) \<longleftrightarrow> False"
| "exposes_value (LazyValue v) \<longleftrightarrow> True"
| "exposes_value (GroupValue g) \<longleftrightarrow> True \<in> set (map exposes g)"

lemma redacted_exposes_nothing: "\<not> exposes (redact_attribute a)"
proof (induction a rule: redact_attribute.induct)
  case (1 k v)
  then show ?case using resolved [of max_log_values v] by (cases "resolve_value max_log_values v") auto
qed

lemma resolve_known: "\<not> exposes_value v \<Longrightarrow> resolve_value (Suc n) v = v"
  by (cases v) auto

text \<open>Redaction changes nothing that exposes nothing, so it may be applied twice.\<close>

lemma redact_harmless: "\<not> exposes a \<Longrightarrow> redact_attribute a = a"
proof (induction a rule: redact_attribute.induct)
  case (1 k v)
  show ?case
  proof (cases "is_secret_key k")
    case False
    then have "\<not> exposes_value v" using 1(2) by simp
    with 1(1) False resolve_known [of v 99] show ?thesis by (cases v) (auto simp: image_iff intro!: map_idI)
  qed (use 1(2) in simp)
qed

lemma redact_twice: "redact_attribute (redact_attribute a) = redact_attribute a"
  by (rule redact_harmless [OF redacted_exposes_nothing])

fun call_attrs :: "handler_call \<Rightarrow> log_attr list" where
  "call_attrs (HandleRecord message attrs) = attrs"
| "call_attrs (WithAttrs attrs) = attrs"
| "call_attrs (WithGroup name) = []"

lemma log_hides_secrets: "\<forall>a\<in>set (call_attrs (redacting_handler c)). \<not> exposes a"
  by (cases c) (auto simp: redacted_exposes_nothing)

section \<open>Network rates\<close>

record rate_sampler =
  ns_initialized :: bool
  ns_previous :: net_counters
  ns_sampled_at :: time

definition new_rate_sampler :: rate_sampler where
  "new_rate_sampler = \<lparr>ns_initialized = False, ns_previous = \<lparr>nc_sent = 0, nc_received = 0\<rparr>, ns_sampled_at = 0\<rparr>"

definition read_network_counters :: "net_counters list res \<Rightarrow> net_counters res" where
  "read_network_counters counters =
     (case counters of
        Inl e \<Rightarrow> Inl (Wrapped ''read network counters'' e)
      | Inr [] \<Rightarrow> Inl (Message ''read network counters: no aggregate counters'')
      | Inr (c # cs) \<Rightarrow> Inr c)"

definition sample_network :: "net_counters res \<Rightarrow> time \<Rightarrow> rate_sampler \<Rightarrow> real \<times> real \<times> rate_sampler" where
  "sample_network current t s =
     (case current of
        Inl e \<Rightarrow> (0, 0, s)
      | Inr c \<Rightarrow>
        if \<not> ns_initialized s \<or> \<not> ns_sampled_at s < t \<or> nc_sent c < nc_sent (ns_previous s) \<or> nc_received c < nc_received (ns_previous s)
        then (0, 0, \<lparr>ns_initialized = True, ns_previous = c, ns_sampled_at = t\<rparr>)
        else (rate (nc_sent c) (nc_sent (ns_previous s)) (t - ns_sampled_at s),
              rate (nc_received c) (nc_received (ns_previous s)) (t - ns_sampled_at s), s\<lparr>ns_previous := c, ns_sampled_at := t\<rparr>))"

text \<open>The part of the usage sampler that computes rates is the same sampler.\<close>

definition rate_part :: "usage_sampler \<Rightarrow> rate_sampler" where
  "rate_part s = \<lparr>ns_initialized = sp_rate_ready s, ns_previous = sp_rate_previous s, ns_sampled_at = sp_rate_sampled_at s\<rparr>"

lemma rates_refined: "sample_network (Inr c) t (rate_part s) = (case sample_rate c t s of (u, d, s1) \<Rightarrow> (u, d, rate_part s1))"
  by (auto simp: sample_network_def sample_rate_def rate_part_def Let_def)

lemma rate_nonneg: "0 \<le> elapsed \<Longrightarrow> 0 \<le> rate a b elapsed"
  unfolding rate_def by (intro divide_nonneg_nonneg of_nat_0_le_iff) simp_all

lemma rates_not_negative:
  assumes "sample_network current t s = (u, d, s1)"
  shows "0 \<le> u \<and> 0 \<le> d"
  using assms by (auto simp: sample_network_def intro!: rate_nonneg split: sum.splits if_splits)

lemma rate_volume: "0 < elapsed \<Longrightarrow> rate a b elapsed * (of_int elapsed / 1000000000) * 1000000 = real (unat (a - b))"
  by (simp add: rate_def)

text \<open>Over consecutive samples whose counters and clock grow, the rates account for every byte.\<close>

fun sent_volume :: "(net_counters \<times> time) list \<Rightarrow> rate_sampler \<Rightarrow> real" where
  "sent_volume [] s = 0"
| "sent_volume ((c, t) # rest) s =
     (case sample_network (Inr c) t s of (u, d, s1) \<Rightarrow> u * (of_int (t - ns_sampled_at s) / 1000000000) + sent_volume rest s1)"

fun growing :: "net_counters \<Rightarrow> time \<Rightarrow> (net_counters \<times> time) list \<Rightarrow> bool" where
  "growing c t [] \<longleftrightarrow> True"
| "growing c t ((d, u) # rest) \<longleftrightarrow> t < u \<and> nc_sent c \<le> nc_sent d \<and> nc_received c \<le> nc_received d \<and> growing d u rest"

lemma volume_accounted:
  assumes "ns_initialized s" and "growing (ns_previous s) (ns_sampled_at s) samples"
  shows "sent_volume samples s * 1000000 = real (unat (nc_sent (last (map fst ((ns_previous s, 0) # samples))))) - real (unat (nc_sent (ns_previous s)))"
  using assms
proof (induction samples arbitrary: s)
  case (Cons x rest)
  obtain c t where x: "x = (c, t)" by fastforce
  let ?s1 = "s\<lparr>ns_previous := c, ns_sampled_at := t\<rparr>"
  from Cons.prems(2) have step: "ns_sampled_at s < t" "nc_sent (ns_previous s) \<le> nc_sent c" "nc_received (ns_previous s) \<le> nc_received c"
      "growing c t rest" by (simp_all add: x)
  have sampled: "sample_network (Inr c) t s = (rate (nc_sent c) (nc_sent (ns_previous s)) (t - ns_sampled_at s),
      rate (nc_received c) (nc_received (ns_previous s)) (t - ns_sampled_at s), ?s1)"
    using step(1-3) Cons.prems(1) by (auto simp: sample_network_def dest: leD)
  have grown: "unat (nc_sent (ns_previous s)) \<le> unat (nc_sent c)" using step(2) by (simp add: word_le_nat_alt)
  have "rate (nc_sent c) (nc_sent (ns_previous s)) (t - ns_sampled_at s) * (of_int (t - ns_sampled_at s) / 1000000000) * 1000000 =
      real (unat (nc_sent c)) - real (unat (nc_sent (ns_previous s)))"
    using rate_volume [of "t - ns_sampled_at s" "nc_sent c" "nc_sent (ns_previous s)"] step(1) grown
    unfolding unat_sub [OF step(2)] by (simp only: of_nat_diff diff_gt_0_iff_gt)
  moreover have "sent_volume rest ?s1 * 1000000 = real (unat (nc_sent (last (map fst ((c, 0) # rest))))) - real (unat (nc_sent c))"
    using Cons.IH [of ?s1] Cons.prems(1) step(4) by simp
  ultimately show ?case by (simp add: x sampled distrib_right diff_divide_distrib)
qed simp

section \<open>The process of a command on Windows\<close>

text \<open>
  How a run goes: whether it starts; whether the context ends first, and with which error; what the killing of the
  process tree meets; how the wait ends, with the exit code of a process that has one.
\<close>

record windows_process =
  wp_start :: "go_error option"
  wp_context :: "go_error option"
  wp_taskkill :: "go_error option"
  wp_find :: "go_error option"
  wp_kill :: "go_error option"
  wp_wait :: "go_error option"
  wp_exit :: "int option"

datatype process_call = StartProcess invocation | TaskKill | FindProcess | KillProcess | WaitProcess

definition process_exit_code :: "windows_process \<Rightarrow> int" where
  "process_exit_code w = (case wp_exit w of None \<Rightarrow> -1 | Some c \<Rightarrow> c)"

definition terminate_process_tree :: "windows_process \<Rightarrow> process_call list \<times> go_error option" where
  "terminate_process_tree w =
     (if wp_taskkill w = None then ([TaskKill], None)
      else if wp_find w \<noteq> None then ([TaskKill, FindProcess], wp_find w)
      else ([TaskKill, FindProcess, KillProcess], wp_kill w))"

definition windows_run :: "windows_process \<Rightarrow> invocation \<Rightarrow> process_call list \<times> int \<times> go_error option" where
  "windows_run w iv =
     (case wp_start w of
        Some e \<Rightarrow> ([StartProcess iv], -1, Some (Wrapped ''start command process'' e))
      | None \<Rightarrow>
        (case wp_context w of
           None \<Rightarrow> ([StartProcess iv, WaitProcess], process_exit_code w, wp_wait w)
         | Some ended \<Rightarrow>
           (case terminate_process_tree w of
              (calls, failed) \<Rightarrow>
                (StartProcess iv # calls @ [WaitProcess], process_exit_code w,
                 Some (case failed of Some e \<Rightarrow> Wrapped ''terminate command process tree'' e | None \<Rightarrow> ended)))))"

text \<open>A process that was started is waited for as the last thing, and a run whose context ended never passes for a success.\<close>

lemma windows_run_ends:
  assumes "windows_run w iv = (calls, c, e)"
  shows "(wp_start w = None \<longrightarrow> last calls = WaitProcess) \<and> (wp_context w \<noteq> None \<longrightarrow> e \<noteq> None) \<and>
    (wp_start w = None \<and> wp_context w \<noteq> None \<longrightarrow> TaskKill \<in> set calls) \<and> (e = None \<longrightarrow> wp_start w = None \<and> wp_wait w = None)"
  using assms by (cases "wp_context w") (auto simp: windows_run_def terminate_process_tree_def intro: sym split: option.splits if_splits)

lemma windows_run_fails_command:
  assumes "windows_run w iv = (calls, c, e)" and "wp_start w \<noteq> None \<or> wp_context w \<noteq> None"
    and "po_exit p = c" and "po_error p = e"
  shows "fst (outcome_status claim p) \<noteq> Succeeded"
proof -
  have "e \<noteq> None" using assms(1,2) by (cases "wp_context w") (auto simp: windows_run_def intro: sym split: option.splits prod.splits)
  then show ?thesis using assms(4) by (simp add: outcome_status_def)
qed

section \<open>The single instance of the tray\<close>

text \<open>The names are constants without NUL, so that their encoding cannot fail.\<close>

datatype created = CreatedNew | CreatedExisting | CreateFailed go_error

record instance_env =
  ie_activation :: created
  ie_update :: created
  ie_mutex :: created
  ie_signal :: "go_error option"

datatype tray_handle = ActivationEvent | UpdateEvent | TrayMutex

fun created_handle :: "tray_handle \<Rightarrow> created \<Rightarrow> tray_handle list \<Rightarrow> tray_handle list" where
  "created_handle h (CreateFailed e) open_handles = open_handles"
| "created_handle h r open_handles = h # open_handles"

fun creation_error :: "created \<Rightarrow> go_error option" where
  "creation_error (CreateFailed e) = Some e"
| "creation_error r = None"

abbreviation close_handle :: "tray_handle \<Rightarrow> tray_handle list \<Rightarrow> tray_handle list" where
  "close_handle h open_handles \<equiv> remove1 h open_handles"

definition acquire_single_instance :: "instance_env \<Rightarrow> tray_handle list \<Rightarrow> (go_error + bool) \<times> tray_handle list" where
  "acquire_single_instance env h0 =
     (let h1 = created_handle ActivationEvent (ie_activation env) h0 in
      case creation_error (ie_activation env) of
        Some e \<Rightarrow> (Inl (Wrapped ''create tray activation event'' e), h1)
      | None \<Rightarrow>
       (let h2 = created_handle UpdateEvent (ie_update env) h1 in
        case creation_error (ie_update env) of
          Some e \<Rightarrow> (Inl (Wrapped ''create tray update event'' e), close_handle ActivationEvent h2)
        | None \<Rightarrow>
         (let h3 = created_handle TrayMutex (ie_mutex env) h2;
              closed = close_handle ActivationEvent (close_handle UpdateEvent h3)
          in case ie_mutex env of
              CreatedExisting \<Rightarrow>
                (case signal_existing_instance (Some (ie_signal env)) of
                   Some e \<Rightarrow> (Inl e, close_handle ActivationEvent (close_handle UpdateEvent (close_handle TrayMutex h3)))
                 | None \<Rightarrow> (Inr False, close_handle ActivationEvent (close_handle UpdateEvent (close_handle TrayMutex h3))))
            | CreateFailed e \<Rightarrow> (Inl (Wrapped ''create tray mutex'' e), closed)
            | CreatedNew \<Rightarrow> (Inr True, h3))))"

definition close_instance :: "tray_handle list \<Rightarrow> tray_handle list" where
  "close_instance h = close_handle TrayMutex (close_handle UpdateEvent (close_handle ActivationEvent h))"

text \<open>Only the first tray gets the instance; any other outcome leaves no handle behind, and neither does closing.\<close>

lemma instance_exclusive:
  assumes "acquire_single_instance env h = (r, h1)"
  shows "(r = Inr True \<longrightarrow> ie_mutex env = CreatedNew \<and> h1 = [TrayMutex, UpdateEvent, ActivationEvent] @ h \<and> close_instance h1 = h) \<and>
    (r \<noteq> Inr True \<longrightarrow> h1 = h) \<and> (r = Inr False \<longrightarrow> ie_mutex env = CreatedExisting \<and> ie_signal env = None)"
  using assms
  by (cases "ie_activation env"; cases "ie_update env"; cases "ie_mutex env"; cases "ie_signal env")
    (auto simp: acquire_single_instance_def signal_existing_instance_def close_instance_def Let_def)

datatype wait_result = WaitSignalled | WaitTimedOut | WaitOther | WaitFailed

text \<open>\<^verbatim>\<open>waitForEvent\<close>: the waits until the context has ended, and whether it lives at each look at it.\<close>

fun wait_for_event :: "(nat \<Rightarrow> bool) \<Rightarrow> nat \<Rightarrow> wait_result list \<Rightarrow> bool" where
  "wait_for_event alive n [] = False"
| "wait_for_event alive n (w # ws) =
     (if \<not> alive n then False
      else case w of
          WaitFailed \<Rightarrow> False
        | WaitSignalled \<Rightarrow> alive (Suc n)
        | WaitTimedOut \<Rightarrow> wait_for_event alive (Suc n) ws
        | WaitOther \<Rightarrow> False)"

lemma event_waited:
  "wait_for_event alive n ws \<longleftrightarrow>
     (\<exists>k<length ws. ws ! k = WaitSignalled \<and> (\<forall>j<k. ws ! j = WaitTimedOut) \<and> (\<forall>j\<le>Suc k. alive (n + j)))"
proof (induction ws arbitrary: n)
  case (Cons w ws)
  show ?case
  proof (cases "alive n \<and> w = WaitTimedOut")
    case True
    then have "wait_for_event alive n (w # ws) \<longleftrightarrow>
        (\<exists>k<length ws. ws ! k = WaitSignalled \<and> (\<forall>j<k. ws ! j = WaitTimedOut) \<and> (\<forall>j\<le>Suc k. alive (Suc n + j)))"
      using Cons.IH by simp
    also have "\<dots> \<longleftrightarrow> (\<exists>k<length (w # ws). (w # ws) ! k = WaitSignalled \<and> (\<forall>j<k. (w # ws) ! j = WaitTimedOut) \<and> (\<forall>j\<le>Suc k. alive (n + j)))"
      unfolding Ex_less_Suc2 length_Cons All_less_Suc2 using True by (auto simp: less_Suc_eq_le [symmetric] All_less_Suc2)
    finally show ?thesis .
  next
    case False
    then show ?thesis
      by (cases w) (auto simp: Ex_less_Suc2 All_less_Suc2 less_Suc_eq_le [symmetric] nth_Cons split: nat.splits)
  qed
qed simp

end
