(* ===== verification/TrayWindow.thy ===== *)
theory TrayWindow
  imports AgentIpc AgentSupport
begin

text \<open>
  The run of the Windows tray, \<^verbatim>\<open>agent/internal/tray/native_windows.go\<close>: its clients of the control interface, the
  operations it starts in the background, the callbacks these hand to the thread of the window, and what
  the window then shows.  The widgets are a record of what was set in them; creating and disposing of them, the shell
  and the messages of Windows are the environment.

  A background operation asks, has handed over its answer and then ends, a refresh after it has released the flag that
  keeps other refreshes out; the thread of the window runs one command or callback at a time.  The relation \<open>tray_step\<close> has all their interleavings.
\<close>

section \<open>Texts\<close>

definition status_label :: string where
  "status_label = utf8 [83, 101, 114, 118, 105, 99, 101, 65306]"

definition server_label :: string where
  "server_label = utf8 [26381, 21153, 22120, 65306]"

definition version_label :: string where
  "version_label = utf8 [29256, 26412, 65306]"

definition node_label :: string where
  "node_label = utf8 [33410, 28857, 65306]"

definition heartbeat_label :: string where
  "heartbeat_label = utf8 [26368, 36817, 24515, 36339, 65306]"

definition paired_text :: string where
  "paired_text = utf8 [24050, 21457, 36865, 37197, 23545, 35831, 27714, 65292, 35831, 22312, 24179, 21488, 30830, 35748]"

definition restarted_text :: string where
  "restarted_text = utf8 [87, 111, 114, 107, 101, 114, 32, 24050, 37325, 26032, 21551, 21160]"

definition latest_text :: string where
  "latest_text = utf8 [24403, 21069, 24050, 26159, 26368, 26032, 29256, 26412]"

definition new_version_text :: string where
  "new_version_text = utf8 [21457, 29616, 26032, 29256, 26412, 32]"

definition diagnostics_text :: string where
  "diagnostics_text = utf8 [35786, 26029, 21253, 24050, 21019, 24314, 65306]"

definition platform_fault_text :: string where
  "platform_fault_text = utf8 [26080, 27861, 25171, 24320, 32, 65, 99, 101, 32, 73, 84, 32, 67, 101, 110, 116, 101, 114]"

definition logs_fault_text :: string where
  "logs_fault_text = utf8 [26080, 27861, 25171, 24320, 26085, 24535, 30446, 24405]"

definition unreachable_text :: string where
  "unreachable_text = utf8 [26080, 27861, 36830, 25509, 21040, 32, 65, 99, 101, 32, 65, 103, 101, 110, 116, 32, 83, 101, 114,
     118, 105, 99, 101]"

definition display_value :: "string \<Rightarrow> string" where
  "display_value v = (if v = [] then ''-'' else v)"

section \<open>Clients and calls\<close>

record client_source =
  so_initial :: "nat option"
  so_dial :: bool

definition client_next :: "nat res \<Rightarrow> client_source \<Rightarrow> nat res \<times> client_source" where
  "client_next dialled s =
     (case so_initial s of
        Some c \<Rightarrow> (Inr c, s\<lparr>so_initial := None\<rparr>)
      | None \<Rightarrow> if so_dial s then (dialled, s) else (Inl (Message ''IPC dialer is unavailable''), s))"

definition close_initial :: "client_source \<Rightarrow> nat option \<times> client_source" where
  "close_initial s = (so_initial s, s\<lparr>so_initial := None\<rparr>)"

datatype tray_error = ServiceError string | CallError

definition user_facing_error :: "tray_error \<Rightarrow> string" where
  "user_facing_error e =
     (case e of ServiceError m \<Rightarrow> if m \<noteq> [] then m else unreachable_text | CallError \<Rightarrow> unreachable_text)"

text \<open>What a call meets: the dialling, the context, the pipe and the Service behind it.\<close>

record call_env =
  ce_dialled :: "nat res"
  ce_cancelled :: "go_error option"
  ce_fault :: "go_error option"
  ce_peer :: "body \<Rightarrow> body"
  ce_size :: "json \<Rightarrow> nat option"

definition next_request_id :: "nat \<Rightarrow> string" where
  "next_request_id n = ''tray-'' @ nat_text n"

definition tray_call ::
    "call_env \<Rightarrow> nat \<Rightarrow> string \<Rightarrow> json option \<Rightarrow> (json \<Rightarrow> 'r \<Rightarrow> 'r option) \<Rightarrow> 'r \<Rightarrow> client_source \<Rightarrow> (tray_error + 'r) \<times> client_source" where
  "tray_call env n method params read zero source =
     (case client_next (ce_dialled env) source of
        (Inl e, s) \<Rightarrow> (Inl CallError, s)
      | (Inr client, s) \<Rightarrow>
        (case fst (client_call (ce_size env) (ce_cancelled env) (ce_fault env) (ce_peer env)
               \<lparr>iq_id = next_request_id n, iq_method = method, iq_params = params\<rparr> False) of
           Inl e \<Rightarrow> (Inl CallError, s)
         | Inr response \<Rightarrow>
           (case ir_error response of
              Some e \<Rightarrow> (Inl (ServiceError (if_message e)), s)
            | None \<Rightarrow>
              (case read (case ir_result response of None \<Rightarrow> JNull | Some j \<Rightarrow> j) zero of
                 None \<Rightarrow> (Inl CallError, s) | Some r \<Rightarrow> (Inr r, s)))))"

definition status_fields :: "agent_status field list" where
  "status_fields =
     [field_of ''state'' read_string as_state as_state_update, field_of ''node_id'' read_string as_node_id as_node_id_update,
      field_of ''server_url'' read_string as_server_url as_server_url_update, field_of ''version'' read_string as_version as_version_update,
      field_of ''last_heartbeat'' read_time as_last_heartbeat as_last_heartbeat_update, field_of ''error'' read_string as_error as_error_update]"

definition update_fields :: "update_status field list" where
  "update_fields =
     [field_of ''available'' read_bool up_available up_available_update, field_of ''version'' read_string up_version up_version_update,
      field_of ''url'' read_string up_url up_url_update]"

definition path_fields :: "string field list" where
  "path_fields = [field_of ''path'' read_string id (\<lambda>f. f)]"

section \<open>State\<close>

datatype tray_operation =
    Refreshing bool | SubmitPairing string | StatusAction string string | CheckingUpdate | CreatingDiagnostics
  | WatchContext | WatchActivation | WatchUpdate

datatype phase = Asking | Answered | Released

datatype ui_call =
    StatusPolled bool "tray_error + agent_status"
  | PairingAnswered "tray_error + agent_status"
  | ActionAnswered string "tray_error + agent_status"
  | UpdateAnswered "tray_error + update_status"
  | DiagnosticsAnswered "tray_error + string"
  | ActivationSeen | ShutdownAsked | ExitAsked

datatype tray_command =
    ShowSettings | OpenPlatform | ConfigureEnrollment | OpenLogs | CreateDiagnostics | CheckUpdate | RestartWorker | ExitTray
  | EnterServer string | Submit | HideWindow | CloseWindow

record tray_window =
  tw_status :: string
  tw_server :: string
  tw_version :: string
  tw_node :: string
  tw_heartbeat :: string
  tw_service_error :: string
  tw_icon :: icon
  tw_tooltip :: string
  tw_enrollment :: bool
  tw_platform_enabled :: bool
  tw_configure_enabled :: bool
  tw_diagnostics_enabled :: bool
  tw_update_enabled :: bool
  tw_restart_enabled :: bool
  tw_submit_enabled :: bool
  tw_edit_enabled :: bool
  tw_edit :: string
  tw_message :: string
  tw_alarming :: bool
  tw_visible :: bool

record tray =
  tr_coordinator :: coordinator
  tr_operations :: "(nat \<times> tray_operation \<times> phase) list"
  tr_calls :: "ui_call list"
  tr_clients :: client_source
  tr_requests :: nat
  tr_form :: pairing_form
  tr_view :: tray_view
  tr_manual :: bool
  tr_refreshing :: bool
  tr_quitting :: bool
  tr_window :: tray_window
  tr_opened :: "string list"
  tr_last_activation :: "activation option"
  tr_exit_asked :: bool
  tr_loop_ended :: bool
  tr_errors :: "go_error list"

text \<open>What the thread of the window meets: \<^verbatim>\<open>time.Format\<close>, \<^verbatim>\<open>url.ParseRequestURI\<close>, bringing the window to the front, the shell.\<close>

record ui_env =
  ui_format :: "time \<Rightarrow> string"
  ui_parse :: "string \<Rightarrow> parsed_url option"
  ui_top :: "go_error option"
  ui_activate :: "go_error option"
  ui_shell :: "string \<Rightarrow> go_error option"
  ui_logs :: string
  ui_program_data :: string

section \<open>The window\<close>

definition show_window_message :: "string \<Rightarrow> bool \<Rightarrow> tray \<Rightarrow> tray" where
  "show_window_message m alarming t =
     (if m = [] then t else t\<lparr>tr_window := (tr_window t)\<lparr>tw_message := m, tw_alarming := alarming\<rparr>\<rparr>)"

definition clear_window_message :: "tray \<Rightarrow> tray" where
  "clear_window_message t = t\<lparr>tr_window := (tr_window t)\<lparr>tw_message := []\<rparr>\<rparr>"

definition show_window :: "ui_env \<Rightarrow> tray \<Rightarrow> tray" where
  "show_window ui t =
     (let a = activate_existing_ui (ui_top ui) (ui_activate ui) True;
          t1 = t\<lparr>tr_window := (tr_window t)\<lparr>tw_visible := True\<rparr>, tr_last_activation := Some a\<rparr>
      in case av_report a of None \<Rightarrow> t1 | Some m \<Rightarrow> show_window_message m True t1)"

definition update_enrollment_controls :: "tray \<Rightarrow> tray" where
  "update_enrollment_controls t =
     (let enabled = ta_configure_enrollment (tv_actions (tr_view t)) \<and> \<not> pf_pending (tr_form t)
      in t\<lparr>tr_window := (tr_window t)\<lparr>tw_submit_enabled := enabled, tw_edit_enabled := enabled\<rparr>\<rparr>)"

definition apply_view :: "tray_view \<Rightarrow> tray \<Rightarrow> tray" where
  "apply_view v t =
     update_enrollment_controls (t\<lparr>tr_view := v, tr_window := (tr_window t)
       \<lparr>tw_status := status_label @ tv_status_text v, tw_server := server_label @ display_value (tv_server_url v),
        tw_version := version_label @ display_value (tv_version v), tw_node := node_label @ display_value (tv_node_id v),
        tw_heartbeat := heartbeat_label @ display_value (tv_last_heartbeat v), tw_service_error := tv_error v,
        tw_icon := tv_icon v, tw_tooltip := ''Ace Agent - '' @ tv_status_text v,
        tw_enrollment := tv_show_enrollment v \<or> tr_manual t,
        tw_platform_enabled := ta_open_platform (tv_actions v), tw_configure_enabled := ta_configure_enrollment (tv_actions v),
        tw_diagnostics_enabled := ta_create_diagnostics (tv_actions v), tw_update_enabled := ta_check_update (tv_actions v),
        tw_restart_enabled := ta_restart_worker (tv_actions v)\<rparr>\<rparr>)"

section \<open>Background operations\<close>

definition start_operation :: "tray_operation \<Rightarrow> tray \<Rightarrow> bool \<times> tray" where
  "start_operation op t =
     (case coordinator_go True (tr_coordinator t) of
        (False, c) \<Rightarrow> (False, t\<lparr>tr_coordinator := c\<rparr>)
      | (True, c) \<Rightarrow> (True, t\<lparr>tr_coordinator := c, tr_operations := (bc_started (tr_coordinator t), op, Asking) # tr_operations t\<rparr>))"

definition refresh_status :: "bool \<Rightarrow> tray \<Rightarrow> tray" where
  "refresh_status show_on_failure t =
     (if tr_refreshing t then t
      else case start_operation (Refreshing show_on_failure) (t\<lparr>tr_refreshing := True\<rparr>) of
          (True, t1) \<Rightarrow> t1
        | (False, t1) \<Rightarrow> t1\<lparr>tr_refreshing := False\<rparr>)"

definition submit_pairing :: "ui_env \<Rightarrow> tray \<Rightarrow> tray" where
  "submit_pairing ui t =
     (case begin_pairing_form (ui_parse ui) ((tr_form t)\<lparr>pf_server_url := tw_edit (tr_window t)\<rparr>) of
        (Inl e, f) \<Rightarrow> show_window_message (pf_error f) True (update_enrollment_controls (t\<lparr>tr_form := f\<rparr>))
      | (Inr url, f) \<Rightarrow>
        (case start_operation (SubmitPairing url) (clear_window_message (update_enrollment_controls (t\<lparr>tr_form := f\<rparr>))) of
           (True, t1) \<Rightarrow> t1
         | (False, t1) \<Rightarrow> update_enrollment_controls (t1\<lparr>tr_form := complete_pairing_form [] (tr_form t1)\<rparr>)))"

definition call_status_action :: "string \<Rightarrow> string \<Rightarrow> tray \<Rightarrow> tray" where
  "call_status_action method success t = snd (start_operation (StatusAction method success) t)"

definition configure_enrollment :: "ui_env \<Rightarrow> tray \<Rightarrow> tray" where
  "configure_enrollment ui t =
     show_window ui (t\<lparr>tr_manual := True, tr_window := (tr_window t)\<lparr>tw_enrollment := True\<rparr>\<rparr>)"

definition shell_open :: "ui_env \<Rightarrow> string \<Rightarrow> tray \<Rightarrow> go_error option \<times> tray" where
  "shell_open ui target t =
     (if target = [] then (Some (Message ''shell target is required''), t)
      else (ui_shell ui target, t\<lparr>tr_opened := target # tr_opened t\<rparr>))"

definition open_platform :: "ui_env \<Rightarrow> tray \<Rightarrow> tray" where
  "open_platform ui t =
     (if tv_server_url (tr_view t) = [] then t
      else case shell_open ui (tv_server_url (tr_view t)) t of
          (None, t1) \<Rightarrow> t1
        | (Some e, t1) \<Rightarrow> show_window_message platform_fault_text True t1)"

definition logs_directory :: "ui_env \<Rightarrow> string" where
  "logs_directory ui =
     (if ui_logs ui \<noteq> [] then ui_logs ui
      else (if ui_program_data ui = [] then ''C:'' @ [CHR 0x5C] @ ''ProgramData'' else ui_program_data ui) @
        [CHR 0x5C] @ ''AceITCenter'' @ [CHR 0x5C] @ ''logs'')"

definition open_logs :: "ui_env \<Rightarrow> tray \<Rightarrow> tray" where
  "open_logs ui t =
     (case shell_open ui (logs_directory ui) t of
        (None, t1) \<Rightarrow> t1
      | (Some e, t1) \<Rightarrow> show_window_message logs_fault_text True t1)"

section \<open>The end\<close>

definition begin_shutdown :: "tray \<Rightarrow> tray" where
  "begin_shutdown t =
     (case coordinator_stop (tr_coordinator t) of
        (False, c) \<Rightarrow> t\<lparr>tr_coordinator := c\<rparr>
      | (True, c) \<Rightarrow> t\<lparr>tr_coordinator := c, tr_quitting := True\<rparr>)"

definition enqueue :: "ui_call \<Rightarrow> tray \<Rightarrow> tray" where
  "enqueue c t = t\<lparr>tr_calls := tr_calls t @ [c]\<rparr>"

definition record_shutdown_error :: "go_error \<Rightarrow> tray \<Rightarrow> tray" where
  "record_shutdown_error e t = t\<lparr>tr_errors := tr_errors t @ [e]\<rparr>"

text \<open>The arguments are how the waking of the window ends, and the posting of \<^verbatim>\<open>WM_QUIT\<close>.\<close>

definition request_shutdown :: "go_error option \<Rightarrow> tray \<Rightarrow> tray" where
  "request_shutdown wake t =
     (case synchronize_and_wake (Some begin_shutdown) (Some (\<lambda>_. enqueue ShutdownAsked)) (Some (Pair wake))
             (Some (\<lambda>t. (None, begin_shutdown t))) t of
        ((_, None), t1) \<Rightarrow> t1
      | ((_, Some e), t1) \<Rightarrow> begin_shutdown (record_shutdown_error (Wrapped ''schedule tray shutdown'' e) t1))"

definition end_loop :: "tray \<Rightarrow> tray" where
  "end_loop t = t\<lparr>tr_loop_ended := True\<rparr>"

definition request_app_exit :: "go_error option \<Rightarrow> go_error option \<Rightarrow> tray \<Rightarrow> tray" where
  "request_app_exit wake post t =
     (case synchronize_and_wake (Some end_loop) (Some (\<lambda>_. enqueue ExitAsked)) (Some (Pair wake))
             (Some (\<lambda>t. (post, if post = None then end_loop t else t))) t of
        ((_, None), t1) \<Rightarrow> t1
      | ((_, Some e), t1) \<Rightarrow> record_shutdown_error (Wrapped ''wake tray UI for exit'' e) t1)"

section \<open>Commands and callbacks\<close>

definition tray_menu :: "(string \<times> tray_command) list" where
  "tray_menu =
     [(utf8 [25171, 24320, 35774, 32622], ShowSettings),
      (utf8 [25171, 24320, 32, 65, 99, 101, 32, 73, 84, 32, 67, 101, 110, 116, 101, 114], OpenPlatform),
      (utf8 [37197, 32622, 25509, 20837], ConfigureEnrollment),
      (utf8 [25171, 24320, 26085, 24535, 30446, 24405], OpenLogs),
      (utf8 [21019, 24314, 35786, 26029, 21253], CreateDiagnostics),
      (utf8 [26816, 26597, 26356, 26032], CheckUpdate),
      (utf8 [37325, 21551, 32, 87, 111, 114, 107, 101, 114], RestartWorker),
      (utf8 [36864, 20986, 25176, 30424], ExitTray)]"

fun run_command :: "ui_env \<Rightarrow> go_error option \<Rightarrow> tray_command \<Rightarrow> tray \<Rightarrow> tray" where
  "run_command ui wake ShowSettings t = show_window ui t"
| "run_command ui wake OpenPlatform t = open_platform ui t"
| "run_command ui wake ConfigureEnrollment t = configure_enrollment ui t"
| "run_command ui wake OpenLogs t = open_logs ui t"
| "run_command ui wake CreateDiagnostics t = snd (start_operation CreatingDiagnostics t)"
| "run_command ui wake CheckUpdate t = snd (start_operation CheckingUpdate t)"
| "run_command ui wake RestartWorker t = call_status_action ''worker.restart'' restarted_text t"
| "run_command ui wake ExitTray t = request_shutdown wake t"
| "run_command ui wake (EnterServer v) t = t\<lparr>tr_window := (tr_window t)\<lparr>tw_edit := v\<rparr>\<rparr>"
| "run_command ui wake Submit t = submit_pairing ui t"
| "run_command ui wake HideWindow t = t\<lparr>tr_window := (tr_window t)\<lparr>tw_visible := False\<rparr>\<rparr>"
| "run_command ui wake CloseWindow t =
     (if tr_quitting t then end_loop t else t\<lparr>tr_window := (tr_window t)\<lparr>tw_visible := False\<rparr>\<rparr>)"

text \<open>What an operation asks for and the callback it hands to the thread of the window; a watcher hands over nothing here.\<close>

definition handed :: "('r \<Rightarrow> ui_call) \<Rightarrow> tray \<Rightarrow> 'r \<times> client_source \<Rightarrow> ui_call option \<times> tray" where
  "handed callback t answer = (Some (callback (fst answer)), t\<lparr>tr_clients := snd answer, tr_requests := Suc (tr_requests t)\<rparr>)"

definition ask :: "call_env \<Rightarrow> tray_operation \<Rightarrow> tray \<Rightarrow> ui_call option \<times> tray" where
  "ask env op t =
     (let n = Suc (tr_requests t);
          status = (\<lambda>method params. tray_call env n method params (read_struct False status_fields) (bare_status [] [] [] []) (tr_clients t))
      in case op of
          Refreshing f \<Rightarrow> handed (StatusPolled f) t (status ''status.get'' None)
        | SubmitPairing url \<Rightarrow> handed PairingAnswered t (status ''pairing.start'' (Some (JObj [(''server_url'', JStr url)])))
        | StatusAction method success \<Rightarrow> handed (ActionAnswered success) t (status method None)
        | CheckingUpdate \<Rightarrow>
            handed UpdateAnswered t (tray_call env n ''update.check'' None (read_struct False update_fields) no_status (tr_clients t))
        | CreatingDiagnostics \<Rightarrow>
            handed DiagnosticsAnswered t (tray_call env n ''diagnostics.create'' None (read_struct False path_fields) [] (tr_clients t))
        | _ \<Rightarrow> (None, t))"

definition opens_enrollment :: "string \<Rightarrow> bool" where
  "opens_enrollment st \<longleftrightarrow> st \<in> {''waiting'', ''waiting_for_enrollment'', ''pairing_rejected'', ''pairing_expired''}"

fun run_ui_call :: "ui_env \<Rightarrow> ui_call \<Rightarrow> tray \<Rightarrow> tray" where
  "run_ui_call ui (StatusPolled f (Inl e)) t =
     (let t1 = show_window_message (user_facing_error e) True (apply_view (poll_failed (ui_format ui)) t)
      in if f then show_window ui t1 else t1)"
| "run_ui_call ui (StatusPolled f (Inr st)) t =
     (let t1 = apply_view (present (ui_format ui) st) t in if f \<and> opens_enrollment (as_state st) then show_window ui t1 else t1)"
| "run_ui_call ui (PairingAnswered (Inl e)) t =
     show_window_message (user_facing_error e) True
       (update_enrollment_controls (t\<lparr>tr_form := complete_pairing_form (user_facing_error e) (tr_form t)\<rparr>))"
| "run_ui_call ui (PairingAnswered (Inr st)) t =
     show_window_message paired_text False (apply_view (present (ui_format ui) st)
       ((update_enrollment_controls (t\<lparr>tr_form := complete_pairing_form [] (tr_form t)\<rparr>))\<lparr>tr_manual := False\<rparr>))"
| "run_ui_call ui (ActionAnswered success (Inl e)) t = show_window_message (user_facing_error e) True t"
| "run_ui_call ui (ActionAnswered success (Inr st)) t = show_window_message success False (apply_view (present (ui_format ui) st) t)"
| "run_ui_call ui (UpdateAnswered (Inl e)) t = show_window_message (user_facing_error e) True t"
| "run_ui_call ui (UpdateAnswered (Inr u)) t =
     show_window_message (if up_available u then new_version_text @ display_value (up_version u) else latest_text) False t"
| "run_ui_call ui (DiagnosticsAnswered (Inl e)) t = show_window_message (user_facing_error e) True t"
| "run_ui_call ui (DiagnosticsAnswered (Inr p)) t = show_window_message (diagnostics_text @ p) False t"
| "run_ui_call ui ActivationSeen t = (if bc_cancelled (tr_coordinator t) then t else show_window ui t)"
| "run_ui_call ui ShutdownAsked t = begin_shutdown t"
| "run_ui_call ui ExitAsked t = end_loop t"

section \<open>The start\<close>

definition blank_window :: tray_window where
  "blank_window = \<lparr>tw_status = [], tw_server = [], tw_version = [], tw_node = [], tw_heartbeat = [], tw_service_error = [],
     tw_icon = IconGray, tw_tooltip = ''Ace IT Center Agent'', tw_enrollment = False, tw_platform_enabled = True,
     tw_configure_enabled = True, tw_diagnostics_enabled = True, tw_update_enabled = True, tw_restart_enabled = True,
     tw_submit_enabled = True, tw_edit_enabled = True, tw_edit = default_server_url, tw_message = [], tw_alarming = False, tw_visible = False\<rparr>"

definition new_tray :: "nat option \<Rightarrow> ui_env \<Rightarrow> tray" where
  "new_tray initial ui =
     \<lparr>tr_coordinator = new_coordinator, tr_operations = [], tr_calls = [], tr_clients = \<lparr>so_initial = initial, so_dial = True\<rparr>,
      tr_requests = 0, tr_form = new_pairing_form, tr_view = poll_failed (ui_format ui), tr_manual = False, tr_refreshing = False,
      tr_quitting = False, tr_window = blank_window, tr_opened = [], tr_last_activation = None, tr_exit_asked = False,
      tr_loop_ended = False, tr_errors = []\<rparr>"

definition started_tray :: "nat option \<Rightarrow> bool \<Rightarrow> ui_env \<Rightarrow> tray" where
  "started_tray initial show ui =
     (let t1 = apply_view (poll_failed (ui_format ui)) (new_tray initial ui);
          t2 = (if show then show_window ui t1 else t1)
      in refresh_status True (snd (start_operation WatchUpdate (snd (start_operation WatchActivation (snd (start_operation WatchContext t2)))))))"

text \<open>
  \<^verbatim>\<open>Run\<close> up to the loop: an error, nothing to do, or the tray.  \<open>built\<close> is how building the window and the icon
  went; the second result is the client that was closed.
\<close>

definition start_tray ::
    "ui_env \<Rightarrow> instance_env \<Rightarrow> bool \<Rightarrow> nat option \<Rightarrow> nat res \<Rightarrow> go_error option \<Rightarrow> (go_error option + tray) \<times> nat option" where
  "start_tray ui env shown initial dialled built =
     (case fst (acquire_single_instance env []) of
        Inl e \<Rightarrow> (Inl (Some e), initial)
      | Inr False \<Rightarrow> (Inl None, initial)
      | Inr True \<Rightarrow>
        let client = (case initial of Some c \<Rightarrow> Some c | None \<Rightarrow> (case dialled of Inr c \<Rightarrow> Some c | Inl e \<Rightarrow> None))
        in case built of
            Some e \<Rightarrow> (Inl (Some e), client)
          | None \<Rightarrow> (Inr (started_tray client shown ui), None))"

section \<open>The run\<close>

definition marked :: "nat \<Rightarrow> phase \<Rightarrow> (nat \<times> tray_operation \<times> phase) list \<Rightarrow> (nat \<times> tray_operation \<times> phase) list" where
  "marked i p ops = map (\<lambda>(j, op, q). (j, op, if j = i then p else q)) ops"

definition mark_operation :: "nat \<Rightarrow> phase \<Rightarrow> tray \<Rightarrow> tray" where
  "mark_operation i p t = t\<lparr>tr_operations := marked i p (tr_operations t)\<rparr>"

definition finished :: "tray_operation \<Rightarrow> phase \<Rightarrow> bool" where
  "finished op p \<longleftrightarrow> (case op of Refreshing f \<Rightarrow> p = Released | _ \<Rightarrow> p = Answered)"

definition end_operation :: "nat \<Rightarrow> tray \<Rightarrow> tray" where
  "end_operation i t =
     t\<lparr>tr_operations := filter (\<lambda>x. fst x \<noteq> i) (tr_operations t),
       tr_coordinator := (tr_coordinator t)\<lparr>bc_running := filter (\<lambda>j. j \<noteq> i) (bc_running (tr_coordinator t))\<rparr>\<rparr>"

inductive tray_step :: "tray \<Rightarrow> tray \<Rightarrow> bool" where
  commanded: "\<not> tr_loop_ended t \<Longrightarrow> tray_step t (run_command ui wake cmd t)"
| called: "\<not> tr_loop_ended t \<Longrightarrow> tr_calls t = c # cs \<Longrightarrow> tray_step t (run_ui_call ui c (t\<lparr>tr_calls := cs\<rparr>))"
| answering: "(i, op, Asking) \<in> set (tr_operations t) \<Longrightarrow> ask env op t = (Some c, t1) \<Longrightarrow> tray_step t (mark_operation i Answered (enqueue c t1))"
| ticking: "(i, WatchContext, Asking) \<in> set (tr_operations t) \<Longrightarrow> tray_step t (refresh_status False t)"
| activated: "(i, WatchActivation, Asking) \<in> set (tr_operations t) \<Longrightarrow> tray_step t (enqueue ActivationSeen t)"
| shutting: "(i, op, Asking) \<in> set (tr_operations t) \<Longrightarrow> op \<in> {WatchContext, WatchUpdate} \<Longrightarrow> tray_step t (mark_operation i Answered (request_shutdown wake t))"
| unwatched: "(i, op, Asking) \<in> set (tr_operations t) \<Longrightarrow> op \<in> {WatchContext, WatchActivation, WatchUpdate} \<Longrightarrow>
     op = WatchContext \<longrightarrow> bc_cancelled (tr_coordinator t) \<Longrightarrow> tray_step t (mark_operation i Answered t)"
| releasing: "(i, Refreshing f, Answered) \<in> set (tr_operations t) \<Longrightarrow> tray_step t (mark_operation i Released (t\<lparr>tr_refreshing := False\<rparr>))"
| finishing: "(i, op, p) \<in> set (tr_operations t) \<Longrightarrow> finished op p \<Longrightarrow> tray_step t (end_operation i t)"
| exiting: "tr_quitting t \<Longrightarrow> bc_running (tr_coordinator t) = [] \<Longrightarrow> \<not> tr_exit_asked t \<Longrightarrow>
     tray_step t ((request_app_exit wake post t)\<lparr>tr_exit_asked := True\<rparr>)"
| leaving: "tray_step t (begin_shutdown (end_loop t))"
| cleaning: "tr_loop_ended t \<Longrightarrow> tr_exit_asked t \<Longrightarrow>
     tray_step t (t\<lparr>tr_coordinator := coordinator_cleanup (tr_coordinator t), tr_clients := snd (close_initial (tr_clients t))\<rparr>)"

inductive tray_reach :: "tray \<Rightarrow> bool" where
  tray_starts: "fst (start_tray ui env shown initial dialled built) = Inr t \<Longrightarrow> tray_reach t"
| tray_steps: "tray_reach t \<Longrightarrow> tray_step t t1 \<Longrightarrow> tray_reach t1"

end
