(* ===== verification/TrayWindowTheorems.thy ===== *)
theory TrayWindowTheorems
  imports TrayWindow
begin

text \<open>
  What the tray keeps up whatever happens: the window shows the last view, one pairing and one refresh are under way
  at most, and a pending form always gets its answer.
\<close>

section \<open>The window shows the view\<close>

definition labels_drawn :: "tray \<Rightarrow> bool" where
  "labels_drawn t \<longleftrightarrow> (let w = tr_window t; v = tr_view t; a = tv_actions v in
     tw_status w = status_label @ tv_status_text v \<and> tw_server w = server_label @ display_value (tv_server_url v) \<and>
     tw_version w = version_label @ display_value (tv_version v) \<and> tw_node w = node_label @ display_value (tv_node_id v) \<and>
     tw_heartbeat w = heartbeat_label @ display_value (tv_last_heartbeat v) \<and> tw_service_error w = tv_error v \<and>
     tw_icon w = tv_icon v \<and> tw_tooltip w = ''Ace Agent - '' @ tv_status_text v \<and>
     tw_enrollment w = (tv_show_enrollment v \<or> tr_manual t) \<and> tw_platform_enabled w = ta_open_platform a \<and>
     tw_configure_enabled w = ta_configure_enrollment a \<and> tw_diagnostics_enabled w = ta_create_diagnostics a \<and>
     tw_update_enabled w = ta_check_update a \<and> tw_restart_enabled w = ta_restart_worker a)"

definition controls_drawn :: "tray \<Rightarrow> bool" where
  "controls_drawn t \<longleftrightarrow> tw_edit_enabled (tr_window t) = tw_submit_enabled (tr_window t) \<and>
     tw_submit_enabled (tr_window t) = (ta_configure_enrollment (tv_actions (tr_view t)) \<and> \<not> pf_pending (tr_form t))"

text \<open>The view is always one of a status.\<close>

definition view_of_status :: "tray \<Rightarrow> bool" where
  "view_of_status t \<longleftrightarrow> (\<exists>format s. tr_view t = present format s)"

definition drawn :: "tray \<Rightarrow> bool" where
  "drawn t \<longleftrightarrow> labels_drawn t \<and> controls_drawn t \<and> view_of_status t"

lemma drawn_cong:
  assumes "tr_window t1 = tr_window t" and "tr_view t1 = tr_view t" and "tr_manual t1 = tr_manual t" and "pf_pending (tr_form t1) = pf_pending (tr_form t)"
  shows "drawn t1 = drawn t"
  by (simp add: drawn_def labels_drawn_def controls_drawn_def view_of_status_def assms)

lemma labels_cong: "tr_window t1 = tr_window t \<Longrightarrow> tr_view t1 = tr_view t \<Longrightarrow> tr_manual t1 = tr_manual t \<Longrightarrow> labels_drawn t1 = labels_drawn t"
  by (simp add: labels_drawn_def)

lemma message_drawn [simp]: "drawn (show_window_message m a t) = drawn t" "labels_drawn (show_window_message m a t) = labels_drawn t"
  "drawn (clear_window_message t) = drawn t" "labels_drawn (clear_window_message t) = labels_drawn t"
  by (simp_all add: show_window_message_def clear_window_message_def drawn_def labels_drawn_def controls_drawn_def view_of_status_def Let_def)

lemma show_drawn [simp]: "drawn (show_window ui t) = drawn t"
  by (simp add: show_window_def Let_def drawn_def labels_drawn_def controls_drawn_def view_of_status_def show_window_message_def split: option.split)

lemma controls_drawn_update: "labels_drawn t \<Longrightarrow> view_of_status t \<Longrightarrow> drawn (update_enrollment_controls t)"
  by (simp add: update_enrollment_controls_def drawn_def labels_drawn_def controls_drawn_def view_of_status_def Let_def)

lemma apply_view_drawn: "v = present format s \<Longrightarrow> drawn (apply_view v t)"
  unfolding apply_view_def by (rule controls_drawn_update) (auto simp: labels_drawn_def view_of_status_def)

lemma poll_failed_view: "poll_failed format = present format (bare_status ''unavailable'' [] [] [])"
  by (simp add: poll_failed_def)

section \<open>What is under way\<close>

fun refreshes :: "nat \<times> tray_operation \<times> phase \<Rightarrow> bool" where
  "refreshes (i, Refreshing f, p) \<longleftrightarrow> p \<noteq> Released"
| "refreshes x \<longleftrightarrow> False"

fun submits :: "nat \<times> tray_operation \<times> phase \<Rightarrow> bool" where
  "submits (i, SubmitPairing u, p) \<longleftrightarrow> p = Asking"
| "submits x \<longleftrightarrow> False"

fun pairing_answer :: "ui_call \<Rightarrow> bool" where
  "pairing_answer (PairingAnswered r) \<longleftrightarrow> True"
| "pairing_answer c \<longleftrightarrow> False"

definition count :: "('a \<Rightarrow> bool) \<Rightarrow> 'a list \<Rightarrow> nat" where
  "count P xs = length (filter P xs)"

lemma count_simps [simp]: "count P [] = 0" "count P (x # xs) = (if P x then 1 else 0) + count P xs" "count P (xs @ ys) = count P xs + count P ys"
  by (simp_all add: count_def)

definition operations_ok :: "tray \<Rightarrow> bool" where
  "operations_ok t \<longleftrightarrow> map fst (tr_operations t) = bc_running (tr_coordinator t) \<and> distinct (bc_running (tr_coordinator t)) \<and>
     (\<forall>i\<in>set (bc_running (tr_coordinator t)). i < bc_started (tr_coordinator t))"

definition balanced :: "tray \<Rightarrow> bool" where
  "balanced t \<longleftrightarrow> count refreshes (tr_operations t) = (if tr_refreshing t then 1 else 0) \<and>
     count submits (tr_operations t) + count pairing_answer (tr_calls t) = (if pf_pending (tr_form t) then 1 else 0)"

definition tray_ok :: "tray \<Rightarrow> bool" where
  "tray_ok t \<longleftrightarrow> drawn t \<and> operations_ok t \<and> balanced t \<and> coordinator_wf (tr_coordinator t) \<and> tr_quitting t = bc_stopping (tr_coordinator t)"

lemma marked_keys [simp]: "map fst (marked i p ops) = map fst ops" "fst ` set (marked i p ops) = fst ` set ops"
proof -
  show "map fst (marked i p ops) = map fst ops" by (simp add: marked_def split_beta)
  then show "fst ` set (marked i p ops) = fst ` set ops" by (metis set_map)
qed

lemma marked_other: "i \<notin> fst ` set ops \<Longrightarrow> marked i p ops = ops"
  unfolding marked_def by (intro map_idI) (auto simp: rev_image_eqI)

lemma count_marked:
  assumes "distinct (map fst ops)" and "(i, op, q) \<in> set ops"
  shows "count P (marked i p ops) + (if P (i, op, q) then 1 else 0) = count P ops + (if P (i, op, p) then 1 else 0)"
  using assms
proof (induction ops)
  case (Cons x ops)
  obtain j f r where x: "x = (j, f, r)" using prod_cases3 by blast
  have head: "marked i p (x # ops) = (j, f, if j = i then p else r) # marked i p ops" by (simp add: marked_def x)
  show ?case
  proof (cases "j = i")
    case True
    then have "i \<notin> fst ` set ops" using Cons.prems(1) by (simp add: x)
    moreover from this have "op = f \<and> q = r" using Cons.prems(2) True by (force simp: x)
    ultimately show ?thesis unfolding head by (simp add: True x marked_other)
  next
    case False
    then have "(i, op, q) \<in> set ops" "distinct (map fst ops)" using Cons.prems by (auto simp: x)
    from Cons.IH [OF this(2,1)] False show ?thesis unfolding head by (simp add: x)
  qed
qed simp

lemma count_filter_key:
  assumes "distinct (map fst ops)" and "(i, op, q) \<in> set ops"
  shows "count P (filter (\<lambda>x. fst x \<noteq> i) ops) + (if P (i, op, q) then 1 else 0) = count P ops"
  using assms
proof (induction ops)
  case (Cons x ops)
  show ?case
  proof (cases "fst x = i")
    case True
    then have out: "i \<notin> fst ` set ops" using Cons.prems(1) by simp
    then have "filter (\<lambda>x. fst x \<noteq> i) ops = ops" by (auto simp: filter_id_conv)
    moreover have "x = (i, op, q)" using Cons.prems(2) out by (auto simp: rev_image_eqI)
    ultimately show ?thesis by simp
  next
    case False
    then have "(i, op, q) \<in> set ops" "distinct (map fst ops)" using Cons.prems by auto
    from Cons.IH [OF this(2,1)] False show ?thesis by simp
  qed
qed simp

section \<open>Every step keeps it\<close>

definition work_ok :: "tray \<Rightarrow> bool" where
  "work_ok t \<longleftrightarrow> operations_ok t \<and> balanced t \<and> coordinator_wf (tr_coordinator t) \<and> tr_quitting t = bc_stopping (tr_coordinator t)"

lemma tray_ok_work: "tray_ok t \<longleftrightarrow> drawn t \<and> work_ok t"
  by (auto simp: tray_ok_def work_ok_def)

lemma work_cong:
  assumes "tr_coordinator t1 = tr_coordinator t" and "tr_operations t1 = tr_operations t" and "tr_calls t1 = tr_calls t"
    and "pf_pending (tr_form t1) = pf_pending (tr_form t)" and "tr_refreshing t1 = tr_refreshing t" and "tr_quitting t1 = tr_quitting t"
  shows "work_ok t1 = work_ok t"
  by (simp add: work_ok_def operations_ok_def balanced_def assms)

lemma window_frame [simp]:
  "tr_coordinator (show_window_message m a t) = tr_coordinator t" "tr_operations (show_window_message m a t) = tr_operations t"
  "tr_calls (show_window_message m a t) = tr_calls t" "tr_form (show_window_message m a t) = tr_form t"
  "tr_refreshing (show_window_message m a t) = tr_refreshing t" "tr_quitting (show_window_message m a t) = tr_quitting t"
  "tr_view (show_window_message m a t) = tr_view t" "tr_manual (show_window_message m a t) = tr_manual t"
  "tr_coordinator (clear_window_message t) = tr_coordinator t" "tr_operations (clear_window_message t) = tr_operations t"
  "tr_calls (clear_window_message t) = tr_calls t" "tr_form (clear_window_message t) = tr_form t"
  "tr_refreshing (clear_window_message t) = tr_refreshing t" "tr_quitting (clear_window_message t) = tr_quitting t"
  "tr_view (clear_window_message t) = tr_view t" "tr_manual (clear_window_message t) = tr_manual t"
  "tr_coordinator (update_enrollment_controls t) = tr_coordinator t" "tr_operations (update_enrollment_controls t) = tr_operations t"
  "tr_calls (update_enrollment_controls t) = tr_calls t" "tr_form (update_enrollment_controls t) = tr_form t"
  "tr_refreshing (update_enrollment_controls t) = tr_refreshing t" "tr_quitting (update_enrollment_controls t) = tr_quitting t"
  "tr_view (update_enrollment_controls t) = tr_view t" "tr_manual (update_enrollment_controls t) = tr_manual t"
  by (simp_all add: show_window_message_def clear_window_message_def update_enrollment_controls_def Let_def)

lemma show_frame [simp]:
  "tr_coordinator (show_window ui t) = tr_coordinator t" "tr_operations (show_window ui t) = tr_operations t"
  "tr_calls (show_window ui t) = tr_calls t" "tr_form (show_window ui t) = tr_form t"
  "tr_refreshing (show_window ui t) = tr_refreshing t" "tr_quitting (show_window ui t) = tr_quitting t"
  by (simp_all add: show_window_def Let_def split: option.split)

lemma view_frame [simp]:
  "tr_coordinator (apply_view v t) = tr_coordinator t" "tr_operations (apply_view v t) = tr_operations t"
  "tr_calls (apply_view v t) = tr_calls t" "tr_form (apply_view v t) = tr_form t"
  "tr_refreshing (apply_view v t) = tr_refreshing t" "tr_quitting (apply_view v t) = tr_quitting t"
  by (simp_all add: apply_view_def)

lemma work_window [simp]:
  "work_ok (show_window_message m a t) = work_ok t" "work_ok (clear_window_message t) = work_ok t"
  "work_ok (update_enrollment_controls t) = work_ok t" "work_ok (show_window ui t) = work_ok t" "work_ok (apply_view v t) = work_ok t"
  by (rule work_cong; simp)+

text \<open>An operation of its own kind is added to what is under way, or nothing happens.\<close>

lemma start_operation_cases:
  obtains (started) "start_operation op t = (True, t\<lparr>tr_coordinator := snd (coordinator_go True (tr_coordinator t)),
      tr_operations := (bc_started (tr_coordinator t), op, Asking) # tr_operations t\<rparr>)" "\<not> bc_stopping (tr_coordinator t)"
  | (stopping) "start_operation op t = (False, t)" "bc_stopping (tr_coordinator t)"
  by (cases "bc_stopping (tr_coordinator t)") (simp_all add: start_operation_def coordinator_go_def)

lemma start_operations_ok: "operations_ok t \<Longrightarrow> operations_ok (snd (start_operation op t))"
  by (cases rule: start_operation_cases [of op t]) (auto simp: operations_ok_def coordinator_go_def)

lemma start_window [simp]:
  "tr_window (snd (start_operation op t)) = tr_window t" "tr_view (snd (start_operation op t)) = tr_view t"
  "tr_manual (snd (start_operation op t)) = tr_manual t" "tr_form (snd (start_operation op t)) = tr_form t"
  "tr_calls (snd (start_operation op t)) = tr_calls t" "tr_refreshing (snd (start_operation op t)) = tr_refreshing t"
  by (cases rule: start_operation_cases [of op t]; simp)+

lemma start_drawn [simp]: "drawn (snd (start_operation op t)) = drawn t"
  by (rule drawn_cong) simp_all

lemma start_coordinator:
  assumes "coordinator_wf (tr_coordinator t)" and "tr_quitting t = bc_stopping (tr_coordinator t)"
  shows "coordinator_wf (tr_coordinator (snd (start_operation op t))) \<and>
    tr_quitting (snd (start_operation op t)) = bc_stopping (tr_coordinator (snd (start_operation op t)))"
  using assms coordinator_step_wf [OF going [of "tr_coordinator t" True]]
  by (cases rule: start_operation_cases [of op t]) (auto simp: coordinator_go_def)

text \<open>What is neither a refresh nor a submission does not count.\<close>

definition uncounted :: "tray_operation \<Rightarrow> bool" where
  "uncounted op \<longleftrightarrow> (case op of Refreshing f \<Rightarrow> False | SubmitPairing u \<Rightarrow> False | _ \<Rightarrow> True)"

lemma uncountedD [simp]: "uncounted op \<Longrightarrow> \<not> refreshes (i, op, p)" "uncounted op \<Longrightarrow> \<not> submits (i, op, p)"
  by (cases op; simp add: uncounted_def)+

lemma start_work:
  assumes "work_ok t" and "uncounted op"
  shows "work_ok (snd (start_operation op t))"
proof -
  have "balanced (snd (start_operation op t))"
    using assms by (cases rule: start_operation_cases [of op t]) (auto simp: work_ok_def balanced_def)
  then show ?thesis using assms(1) start_operations_ok [of t op] start_coordinator [of t op] by (simp add: work_ok_def)
qed

lemma refresh_work: "work_ok t \<Longrightarrow> work_ok (refresh_status f t)"
proof -
  assume ok: "work_ok t"
  show ?thesis
  proof (cases "tr_refreshing t")
    case False
    let ?t = "t\<lparr>tr_refreshing := True\<rparr>"
    have base: "operations_ok ?t" "coordinator_wf (tr_coordinator ?t)" "tr_quitting ?t = bc_stopping (tr_coordinator ?t)"
      using ok by (simp_all add: work_ok_def operations_ok_def)
    show ?thesis
    proof (cases rule: start_operation_cases [of "Refreshing f" ?t])
      case started
      then have run: "refresh_status f t = snd (start_operation (Refreshing f) ?t)" using False by (simp add: refresh_status_def)
      have "balanced (snd (start_operation (Refreshing f) ?t))" using ok False unfolding started by (auto simp: work_ok_def balanced_def)
      then show ?thesis using start_operations_ok [OF base(1), of "Refreshing f"] start_coordinator [OF base(2,3), of "Refreshing f"]
        unfolding run work_ok_def by simp
    next
      case stopping
      then have "refresh_status f t = t" using False by (simp add: refresh_status_def)
      then show ?thesis using ok by simp
    qed
  qed (simp add: refresh_status_def ok)
qed

lemma refresh_drawn [simp]: "drawn (refresh_status f t) = drawn t"
proof -
  obtain b t1 where r: "start_operation (Refreshing f) (t\<lparr>tr_refreshing := True\<rparr>) = (b, t1)" by fastforce
  have "drawn (snd (start_operation (Refreshing f) (t\<lparr>tr_refreshing := True\<rparr>))) = drawn t" unfolding start_drawn by (rule drawn_cong) simp_all
  then have "drawn t1 = drawn t" "drawn (t1\<lparr>tr_refreshing := False\<rparr>) = drawn t1" unfolding r by (simp, intro drawn_cong, simp_all)
  then show ?thesis by (simp add: refresh_status_def r split: bool.split)
qed

lemma form_cases:
  obtains (refused) e f1 where "begin_pairing_form parse f = (Inl e, f1)" "pf_pending f1 = pf_pending f"
  | (accepted) url f1 where "begin_pairing_form parse f = (Inr url, f1)" "\<not> pf_pending f" "pf_pending f1"
  by (cases "pf_pending f"; cases "valid_server_url parse (trim_space (pf_server_url f))")
    (auto simp: begin_pairing_form_def Let_def)

lemma submit_ok:
  assumes "tray_ok t"
  shows "tray_ok (submit_pairing ui t)"
proof -
  let ?f = "(tr_form t)\<lparr>pf_server_url := tw_edit (tr_window t)\<rparr>"
  have base: "labels_drawn t" "view_of_status t" "work_ok t" using assms by (simp_all add: tray_ok_work drawn_def)
  have redrawn: "drawn (update_enrollment_controls (u\<lparr>tr_form := f\<rparr>))" if "labels_drawn u" "view_of_status u" for u f
    using that by (intro controls_drawn_update) (simp_all add: labels_drawn_def view_of_status_def)
  show ?thesis
  proof (cases rule: form_cases [of "ui_parse ui" ?f])
    case (refused e f)
    then have "work_ok (t\<lparr>tr_form := f\<rparr>) = work_ok t" by (intro work_cong) simp_all
    then show ?thesis using refused redrawn [OF base(1,2)] base(3) by (simp add: submit_pairing_def tray_ok_work)
  next
    case (accepted url f)
    let ?t = "clear_window_message (update_enrollment_controls (t\<lparr>tr_form := f\<rparr>))"
    have drawn: "drawn ?t" using redrawn [OF base(1,2)] by simp
    have form: "\<not> pf_pending (tr_form t)" "tr_form ?t = f" "pf_pending f" using accepted(2,3) by simp_all
    have parts: "operations_ok ?t" "coordinator_wf (tr_coordinator ?t)" "tr_quitting ?t = bc_stopping (tr_coordinator ?t)"
      using base(3) by (simp_all add: work_ok_def operations_ok_def)
    show ?thesis
    proof (cases rule: start_operation_cases [of "SubmitPairing url" ?t])
      case started
      then have run: "submit_pairing ui t = snd (start_operation (SubmitPairing url) ?t)" by (simp add: submit_pairing_def accepted(1))
      have "balanced (snd (start_operation (SubmitPairing url) ?t))"
        using base(3) form unfolding started by (simp add: work_ok_def balanced_def)
      then show ?thesis using start_operations_ok [OF parts(1), of "SubmitPairing url"] start_coordinator [OF parts(2,3), of "SubmitPairing url"]
          drawn unfolding run tray_ok_def by simp
    next
      case stopping
      let ?u = "?t\<lparr>tr_form := complete_pairing_form [] f\<rparr>"
      have run: "submit_pairing ui t = update_enrollment_controls ?u" using stopping form(2) by (simp add: submit_pairing_def accepted(1))
      have "work_ok ?u = work_ok t" using form(1) by (intro work_cong) (simp_all add: complete_pairing_form_def)
      moreover have "drawn (update_enrollment_controls ?u)" using drawn by (intro redrawn) (simp_all add: drawn_def)
      ultimately show ?thesis using base(3) unfolding run by (simp add: tray_ok_work)
    qed
  qed
qed

lemma begin_shutdown_ok: "tray_ok t \<Longrightarrow> tray_ok (begin_shutdown t)"
proof -
  assume ok: "tray_ok t"
  have frame: "drawn (begin_shutdown t) = drawn t"
    by (rule drawn_cong) (simp_all add: begin_shutdown_def coordinator_stop_def)
  have "coordinator_wf (snd (coordinator_stop (tr_coordinator t)))"
    using ok coordinator_step_wf [OF stopping] by (simp add: tray_ok_def)
  with ok frame show ?thesis
    by (auto simp: tray_ok_def begin_shutdown_def coordinator_stop_def operations_ok_def balanced_def)
qed

lemma plain_ok:
  assumes "tray_ok t" and "tr_window t1 = tr_window t" and "tr_view t1 = tr_view t" and "tr_manual t1 = tr_manual t" and "tr_form t1 = tr_form t"
    and "tr_coordinator t1 = tr_coordinator t" and "tr_operations t1 = tr_operations t" and "tr_calls t1 = tr_calls t"
    and "tr_refreshing t1 = tr_refreshing t" and "tr_quitting t1 = tr_quitting t"
  shows "tray_ok t1"
  using assms drawn_cong [of t1 t] work_cong [of t1 t] by (simp add: tray_ok_work)

lemma enqueue_ok: "tray_ok t \<Longrightarrow> \<not> pairing_answer c \<Longrightarrow> tray_ok (enqueue c t)"
proof -
  assume ok: "tray_ok t" and "\<not> pairing_answer c"
  moreover have "drawn (enqueue c t) = drawn t" by (rule drawn_cong) (simp_all add: enqueue_def)
  ultimately show ?thesis by (simp add: tray_ok_def operations_ok_def balanced_def enqueue_def)
qed

lemma request_shutdown_cases: "request_shutdown wake t = (if wake = None then enqueue ShutdownAsked t else begin_shutdown (enqueue ShutdownAsked t))"
  by (cases wake) (simp_all add: request_shutdown_def synchronize_and_wake_def)

lemma request_shutdown_ok: "tray_ok t \<Longrightarrow> tray_ok (request_shutdown wake t)"
  unfolding request_shutdown_cases by (simp add: begin_shutdown_ok enqueue_ok)

lemma end_loop_ok: "tray_ok t \<Longrightarrow> tray_ok (end_loop t)"
  by (erule plain_ok) (simp_all add: end_loop_def)

lemma request_app_exit_ok: "tray_ok t \<Longrightarrow> tray_ok (request_app_exit wake post t)"
proof -
  assume "tray_ok t"
  then have e: "tray_ok (enqueue ExitAsked t)" by (simp add: enqueue_ok)
  have r: "tray_ok (record_shutdown_error x u)" if "tray_ok u" for x u
    using that by (rule plain_ok) (simp_all add: record_shutdown_error_def)
  show ?thesis using e r end_loop_ok [OF e]
    by (auto simp: request_app_exit_def synchronize_and_wake_def split: option.split)
qed

lemma drawn_work: "tray_ok t \<Longrightarrow> drawn t" "tray_ok t \<Longrightarrow> work_ok t"
  by (simp_all add: tray_ok_work)

lemma window_only:
  assumes "tray_ok t" and "labels_drawn (t\<lparr>tr_window := w\<rparr>)" and "tw_submit_enabled w = tw_submit_enabled (tr_window t)"
    and "tw_edit_enabled w = tw_edit_enabled (tr_window t)"
  shows "tray_ok (t\<lparr>tr_window := w\<rparr>)"
proof -
  have "work_ok (t\<lparr>tr_window := w\<rparr>) = work_ok t" by (rule work_cong) simp_all
  then show ?thesis using assms by (simp add: tray_ok_work drawn_def controls_drawn_def view_of_status_def)
qed

lemma operation_ok: "tray_ok t \<Longrightarrow> uncounted op \<Longrightarrow> tray_ok (snd (start_operation op t))"
  by (simp add: tray_ok_work start_work)

lemma show_ok: "tray_ok t \<Longrightarrow> tray_ok (show_window ui t)" "tray_ok t \<Longrightarrow> tray_ok (show_window_message m a t)"
  by (simp_all add: tray_ok_work)

lemma shell_ok:
  assumes "tray_ok t" and "shell_open ui target t = (e, t1)"
  shows "tray_ok t1"
  using assms(1) by (rule plain_ok) (use assms(2) in \<open>auto simp: shell_open_def split: if_splits\<close>)

lemma visible_ok: "tray_ok t \<Longrightarrow> tray_ok (t\<lparr>tr_window := (tr_window t)\<lparr>tw_visible := b\<rparr>\<rparr>)"
  by (rule window_only) (simp_all add: tray_ok_def drawn_def labels_drawn_def Let_def)

lemma edit_ok: "tray_ok t \<Longrightarrow> tray_ok (t\<lparr>tr_window := (tr_window t)\<lparr>tw_edit := v\<rparr>\<rparr>)"
  by (rule window_only) (simp_all add: tray_ok_def drawn_def labels_drawn_def Let_def)

lemma command_ok: "tray_ok t \<Longrightarrow> tray_ok (run_command ui wake cmd t)"
proof (cases cmd)
  case OpenPlatform
  assume "tray_ok t"
  then show ?thesis using OpenPlatform shell_ok [of t ui] show_ok(2)
    by (cases "shell_open ui (tv_server_url (tr_view t)) t") (auto simp: open_platform_def split: option.split)
next
  case OpenLogs
  assume "tray_ok t"
  then show ?thesis using OpenLogs shell_ok [of t ui] show_ok(2)
    by (cases "shell_open ui (logs_directory ui) t") (auto simp: open_logs_def split: option.split)
next
  case ConfigureEnrollment
  assume ok: "tray_ok t"
  let ?t = "t\<lparr>tr_manual := True, tr_window := (tr_window t)\<lparr>tw_enrollment := True\<rparr>\<rparr>"
  have "work_ok ?t = work_ok t" by (rule work_cong) simp_all
  moreover have "drawn ?t" using ok by (simp add: tray_ok_work drawn_def labels_drawn_def controls_drawn_def view_of_status_def Let_def)
  ultimately show ?thesis using ok ConfigureEnrollment by (simp add: configure_enrollment_def tray_ok_work)
next
  case CloseWindow
  assume "tray_ok t"
  then show ?thesis using CloseWindow by (simp add: end_loop_ok visible_ok)
qed (simp_all add: show_ok operation_ok submit_ok request_shutdown_ok call_status_action_def uncounted_def visible_ok edit_ok)

text \<open>A callback that is taken from the queue: the form of a pending submission is completed by its answer only.\<close>

lemma taken_work:
  assumes "tray_ok t" and "tr_calls t = c # cs" and "\<not> pairing_answer c"
  shows "tray_ok (t\<lparr>tr_calls := cs\<rparr>)"
proof -
  have "drawn (t\<lparr>tr_calls := cs\<rparr>) = drawn t" by (rule drawn_cong) simp_all
  then show ?thesis using assms by (simp add: tray_ok_def operations_ok_def balanced_def)
qed

lemma viewed_ok: "tray_ok t \<Longrightarrow> v = present format s \<Longrightarrow> tray_ok (apply_view v t)"
  by (simp add: tray_ok_work apply_view_drawn)

lemma answered_work:
  assumes "tray_ok t" and "tr_calls t = PairingAnswered r # cs"
  shows "work_ok (t\<lparr>tr_calls := cs, tr_form := complete_pairing_form m (tr_form t)\<rparr>)"
  using assms by (simp add: tray_ok_def work_ok_def operations_ok_def balanced_def complete_pairing_form_def split: if_splits)

lemma ui_call_ok:
  assumes "tray_ok t" and "tr_calls t = c # cs"
  shows "tray_ok (run_ui_call ui c (t\<lparr>tr_calls := cs\<rparr>))"
proof (cases "pairing_answer c")
  case True
  then obtain r where c: "c = PairingAnswered r" by (cases c) auto
  let ?u = "\<lambda>m. (t\<lparr>tr_calls := cs, tr_form := complete_pairing_form m (tr_form t)\<rparr>)"
  have labels: "labels_drawn (?u m) \<and> view_of_status (?u m)" for m
    using assms(1) by (simp add: tray_ok_def drawn_def labels_drawn_def view_of_status_def)
  have work: "work_ok (?u m)" for m using answered_work [OF assms(1)] assms(2) c by simp
  show ?thesis
  proof (cases r)
    case (Inl e)
    then show ?thesis using labels work by (simp add: c tray_ok_work controls_drawn_update)
  next
    case (Inr st)
    have "work_ok (update_enrollment_controls (?u [])\<lparr>tr_manual := False\<rparr>) = work_ok (?u [])" by (rule work_cong) simp_all
    then show ?thesis using work Inr by (simp add: c tray_ok_work apply_view_drawn)
  qed
next
  case False
  let ?t = "t\<lparr>tr_calls := cs\<rparr>"
  have ok: "tray_ok ?t" using taken_work [OF assms False] .
  have shown: "tray_ok (apply_view (present f s) ?t)" for f s using viewed_ok [OF ok] by simp
  have failed: "tray_ok (apply_view (poll_failed f) ?t)" for f unfolding poll_failed_view by (rule shown)
  show ?thesis
  proof (cases c)
    case (StatusPolled f r)
    then show ?thesis using shown failed by (cases r) (simp_all add: show_ok Let_def)
  next
    case (ActionAnswered m r)
    then show ?thesis using shown ok by (cases r) (simp_all add: show_ok)
  next
    case (UpdateAnswered r)
    then show ?thesis using ok by (cases r) (simp_all add: show_ok)
  next
    case (DiagnosticsAnswered r)
    then show ?thesis using ok by (cases r) (simp_all add: show_ok)
  qed (use ok False in \<open>simp_all add: show_ok begin_shutdown_ok end_loop_ok\<close>)
qed

lemma mark_ok:
  assumes "tray_ok t" and "(i, op, q) \<in> set (tr_operations t)" and "\<not> submits (i, op, q) \<and> \<not> submits (i, op, p)"
    and "refreshes (i, op, p) = refreshes (i, op, q)"
  shows "tray_ok (mark_operation i p t)"
proof -
  have d: "distinct (map fst (tr_operations t))" using assms(1) by (simp add: tray_ok_def operations_ok_def)
  have "drawn (mark_operation i p t) = drawn t" by (rule drawn_cong) (simp_all add: mark_operation_def)
  moreover have "count refreshes (marked i p (tr_operations t)) = count refreshes (tr_operations t)"
    using count_marked [OF d assms(2), of refreshes p] assms(4) by (simp split: if_splits)
  moreover have "count submits (marked i p (tr_operations t)) = count submits (tr_operations t)"
    using count_marked [OF d assms(2), of submits p] assms(3) by simp
  ultimately show ?thesis using assms(1) by (simp add: tray_ok_def mark_operation_def operations_ok_def balanced_def)
qed

lemma asked_frame:
  assumes "ask env op t = (Some c, t1)"
  shows "t1 = t\<lparr>tr_clients := tr_clients t1, tr_requests := tr_requests t1\<rparr> \<and> pairing_answer c = submits (i, op, Asking)"
  using assms by (cases op) (auto simp: ask_def handed_def Let_def)

lemma answering_ok:
  assumes "tray_ok t" and "(i, op, Asking) \<in> set (tr_operations t)" and "ask env op t = (Some c, t1)"
  shows "tray_ok (mark_operation i Answered (enqueue c t1))"
proof -
  obtain cl rq where t1: "t1 = t\<lparr>tr_clients := cl, tr_requests := rq\<rparr>" and c: "pairing_answer c = submits (i, op, Asking)"
    using asked_frame [OF assms(3)] by metis
  have d: "distinct (map fst (tr_operations t))" using assms(1) by (simp add: tray_ok_def operations_ok_def)
  have "drawn (mark_operation i Answered (enqueue c t1)) = drawn t"
    by (rule drawn_cong) (simp_all add: mark_operation_def enqueue_def t1)
  moreover have "refreshes (i, op, Answered) = refreshes (i, op, Asking)" "\<not> submits (i, op, Answered)" by (cases op; simp)+
  then have "count refreshes (marked i Answered (tr_operations t)) = count refreshes (tr_operations t)"
    "count submits (marked i Answered (tr_operations t)) + (if pairing_answer c then 1 else 0) = count submits (tr_operations t)"
    using count_marked [OF d assms(2), of refreshes Answered] count_marked [OF d assms(2), of submits Answered] c by (simp_all split: if_splits)
  ultimately show ?thesis using assms(1)
    by (simp add: tray_ok_def mark_operation_def enqueue_def t1 operations_ok_def balanced_def)
qed

lemma release_ok:
  assumes "tray_ok t" and "(i, Refreshing f, Answered) \<in> set (tr_operations t)"
  shows "tray_ok (mark_operation i Released (t\<lparr>tr_refreshing := False\<rparr>))"
proof -
  have d: "distinct (map fst (tr_operations t))" using assms(1) by (simp add: tray_ok_def operations_ok_def)
  have "drawn (mark_operation i Released (t\<lparr>tr_refreshing := False\<rparr>)) = drawn t" by (rule drawn_cong) (simp_all add: mark_operation_def)
  moreover have "count refreshes (marked i Released (tr_operations t)) + 1 = count refreshes (tr_operations t)"
    "count submits (marked i Released (tr_operations t)) = count submits (tr_operations t)"
    using count_marked [OF d assms(2), of refreshes Released] count_marked [OF d assms(2), of submits Released] by simp_all
  ultimately show ?thesis using assms(1)
    by (simp add: tray_ok_def mark_operation_def operations_ok_def balanced_def split: if_splits)
qed

lemma keys_filter: "map fst (filter (\<lambda>x. fst x \<noteq> i) ops) = filter (\<lambda>j. j \<noteq> i) (map fst ops)"
  by (induction ops) simp_all

lemma finish_ok:
  assumes "tray_ok t" and "(i, op, p) \<in> set (tr_operations t)" and "finished op p"
  shows "tray_ok (end_operation i t)"
proof -
  have d: "distinct (map fst (tr_operations t))" using assms(1) by (simp add: tray_ok_def operations_ok_def)
  have "drawn (end_operation i t) = drawn t" by (rule drawn_cong) (simp_all add: end_operation_def)
  moreover have "\<not> refreshes (i, op, p)" "\<not> submits (i, op, p)" using assms(3) by (cases op; simp add: finished_def)+
  then have "count P (filter (\<lambda>x. fst x \<noteq> i) (tr_operations t)) = count P (tr_operations t)" if "P = refreshes \<or> P = submits" for P
    using count_filter_key [OF d assms(2), of P] that by auto
  then have "balanced (end_operation i t)" using assms(1) by (simp add: tray_ok_def balanced_def end_operation_def)
  moreover have "operations_ok (end_operation i t)"
    using assms(1) by (simp add: tray_ok_def operations_ok_def end_operation_def keys_filter)
  moreover have "coordinator_wf (tr_coordinator (end_operation i t))"
    using assms(1) by (auto simp: tray_ok_def coordinator_wf_def end_operation_def)
  ultimately show ?thesis using assms(1) by (simp add: tray_ok_def end_operation_def)
qed

section \<open>The coordinator of the tray\<close>

text \<open>Every step of the tray is, for the coordinator, a few of its own steps or none.\<close>

lemma coordinator_once: "coordinator_step c c1 \<Longrightarrow> coordinator_steps c c1"
  using coordinator_steps.none coordinator_steps.later by blast

lemmas coordinator_moves = coordinator_steps.none coordinator_once [OF going] coordinator_once [OF stopping]

lemma coordinator_steps_trans: "coordinator_steps c1 c2 \<Longrightarrow> coordinator_steps c c1 \<Longrightarrow> coordinator_steps c c2"
  by (induction rule: coordinator_steps.induct) (auto intro: coordinator_steps.later)

definition follows :: "tray \<Rightarrow> tray \<Rightarrow> bool" where
  "follows t t1 \<longleftrightarrow> coordinator_steps (tr_coordinator t) (tr_coordinator t1) \<and> tr_exit_asked t1 = tr_exit_asked t"

lemma follows_same: "tr_coordinator t1 = tr_coordinator t \<Longrightarrow> tr_exit_asked t1 = tr_exit_asked t \<Longrightarrow> follows t t1"
  by (simp add: follows_def coordinator_moves)

lemma follows_trans: "follows t t1 \<Longrightarrow> follows t1 t2 \<Longrightarrow> follows t t2"
  by (auto simp: follows_def intro: coordinator_steps_trans)

lemma asked_simps [simp]:
  "tr_exit_asked (show_window_message m a t) = tr_exit_asked t" "tr_exit_asked (clear_window_message t) = tr_exit_asked t"
  "tr_exit_asked (update_enrollment_controls t) = tr_exit_asked t" "tr_exit_asked (show_window ui t) = tr_exit_asked t"
  "tr_exit_asked (apply_view v t) = tr_exit_asked t" "tr_exit_asked (enqueue c t) = tr_exit_asked t" "tr_coordinator (enqueue c t) = tr_coordinator t"
  "tr_exit_asked (end_loop t) = tr_exit_asked t" "tr_coordinator (end_loop t) = tr_coordinator t"
  by (simp_all add: show_window_message_def clear_window_message_def update_enrollment_controls_def show_window_def apply_view_def enqueue_def
      end_loop_def Let_def split: option.split)

lemma follows_start: "follows t (snd (start_operation op t))"
proof -
  have "tr_coordinator (snd (start_operation op t)) = snd (coordinator_go True (tr_coordinator t))" "tr_exit_asked (snd (start_operation op t)) = tr_exit_asked t"
    by (cases rule: start_operation_cases [of op t]; simp add: coordinator_go_def)+
  then show ?thesis by (simp add: follows_def coordinator_moves)
qed

lemma follows_shutdown: "follows t (begin_shutdown t)"
  using coordinator_moves(3) [of "tr_coordinator t"] by (auto simp: follows_def begin_shutdown_def split: prod.split bool.split)

lemma follows_request: "follows t (request_shutdown wake t)"
  unfolding request_shutdown_cases using follows_trans [OF follows_same follows_shutdown] by (simp add: follows_same)

lemma follows_refresh: "follows t (refresh_status f t)"
proof -
  have "follows (t\<lparr>tr_refreshing := True\<rparr>) (snd (start_operation (Refreshing f) (t\<lparr>tr_refreshing := True\<rparr>)))" by (rule follows_start)
  then show ?thesis
    by (cases rule: start_operation_cases [of "Refreshing f" "t\<lparr>tr_refreshing := True\<rparr>"])
      (auto simp: refresh_status_def follows_def intro: coordinator_moves)
qed

lemma follows_submit: "follows t (submit_pairing ui t)"
proof (cases rule: form_cases [of "ui_parse ui" "(tr_form t)\<lparr>pf_server_url := tw_edit (tr_window t)\<rparr>"])
  case (accepted url f)
  let ?t = "clear_window_message (update_enrollment_controls (t\<lparr>tr_form := f\<rparr>))"
  have "follows ?t (snd (start_operation (SubmitPairing url) ?t))" by (rule follows_start)
  moreover have "follows t ?t" by (rule follows_same) simp_all
  ultimately have "follows t (snd (start_operation (SubmitPairing url) ?t))" by (rule follows_trans [rotated])
  then show ?thesis by (auto simp: submit_pairing_def accepted(1) follows_def split: prod.split bool.split)
qed (simp add: submit_pairing_def follows_same)

lemma shell_simps: "shell_open ui target t = (e, t1) \<Longrightarrow> tr_coordinator t1 = tr_coordinator t \<and> tr_exit_asked t1 = tr_exit_asked t"
  by (auto simp: shell_open_def split: if_splits)

lemma follows_command: "follows t (run_command ui wake cmd t)"
proof (cases cmd)
  case OpenPlatform
  then show ?thesis by (auto simp: open_platform_def follows_same dest: shell_simps split: prod.split option.split)
next
  case OpenLogs
  then show ?thesis by (auto simp: open_logs_def follows_same dest: shell_simps split: prod.split option.split)
qed (auto simp: follows_start follows_request follows_submit configure_enrollment_def call_status_action_def intro!: follows_same)

lemma follows_ui_call: "follows t (run_ui_call ui c (t\<lparr>tr_calls := cs\<rparr>))"
proof (cases c)
  case (StatusPolled f r)
  then show ?thesis by (cases r) (auto simp: Let_def intro!: follows_same)
next
  case (PairingAnswered r)
  then show ?thesis by (cases r) (auto intro!: follows_same)
next
  case (ActionAnswered m r)
  then show ?thesis by (cases r) (auto intro!: follows_same)
next
  case (UpdateAnswered r)
  then show ?thesis by (cases r) (auto intro!: follows_same)
next
  case (DiagnosticsAnswered r)
  then show ?thesis by (cases r) (auto intro!: follows_same)
next
  case ShutdownAsked
  have "follows t (t\<lparr>tr_calls := cs\<rparr>)" by (rule follows_same) simp_all
  then show ?thesis using ShutdownAsked follows_trans follows_shutdown by auto
qed (auto intro!: follows_same)

lemma app_exit_simps: "tr_coordinator (request_app_exit wake post t) = tr_coordinator t"
  by (auto simp: request_app_exit_def synchronize_and_wake_def record_shutdown_error_def split: option.split)

section \<open>Everything a tray reaches\<close>

definition exit_ok :: "tray \<Rightarrow> bool" where
  "exit_ok t \<longleftrightarrow> (tr_exit_asked t \<longrightarrow> bc_stopping (tr_coordinator t) \<and> bc_running (tr_coordinator t) = [])"

lemma exit_follows: "follows t t1 \<Longrightarrow> exit_ok t \<Longrightarrow> exit_ok t1"
  using coordinator_steps_stopped [of "tr_coordinator t" "tr_coordinator t1"] by (auto simp: follows_def exit_ok_def)

lemma step_coordinator:
  assumes "tray_step t t1" and "tray_ok t" and "exit_ok t"
  shows "coordinator_steps (tr_coordinator t) (tr_coordinator t1) \<and> exit_ok t1"
proof -
  have f: ?thesis if "follows t t1" using that exit_follows [OF that assms(3)] by (simp add: follows_def)
  from assms(1) show ?thesis
  proof cases
    case (shutting i op wake)
    have "follows (request_shutdown wake t) (mark_operation i Answered (request_shutdown wake t))" by (rule follows_same) (simp_all add: mark_operation_def)
    then show ?thesis using f follows_trans [OF follows_request] shutting by blast
  next
    case (finishing i op p)
    let ?c = "tr_coordinator t"
    have keys: "map fst (tr_operations t) = bc_running ?c" "distinct (bc_running ?c)"
      using assms(2) by (simp_all add: tray_ok_def operations_ok_def)
    have "i \<in> set (map fst (tr_operations t))" using finishing(2) by force
    then have i: "i \<in> set (bc_running ?c)" unfolding keys(1) .
    have "filter (\<lambda>j. j \<noteq> i) (bc_running ?c) = remove1 i (bc_running ?c)"
      unfolding distinct_remove1_removeAll [OF keys(2)] removeAll_filter_not_eq by (rule filter_cong) auto
    then have "follows t t1"
      using coordinator_once [OF ending [OF i]] by (simp add: finishing(1) follows_def end_operation_def)
    then show ?thesis by (rule f)
  next
    case (exiting wake post)
    then show ?thesis using assms(2) by (simp add: app_exit_simps coordinator_moves exit_ok_def tray_ok_def)
  next
    case leaving
    have "follows t (end_loop t)" by (rule follows_same) simp_all
    then show ?thesis using f follows_trans [OF _ follows_shutdown] leaving by blast
  next
    case cleaning
    then have "bc_stopping (tr_coordinator t)" "bc_running (tr_coordinator t) = []" using assms(3) by (simp_all add: exit_ok_def)
    then have "follows t t1"
      using coordinator_once [OF coordinator_step.cleaning] by (simp add: cleaning(1) follows_def)
    then show ?thesis by (rule f)
  next
    case (answering i op env c u)
    then have "u = t\<lparr>tr_clients := tr_clients u, tr_requests := tr_requests u\<rparr>" using asked_frame by blast
    then have "tr_coordinator u = tr_coordinator t \<and> tr_exit_asked u = tr_exit_asked t" by (cases t, cases u) simp
    then have "follows t t1" unfolding answering(1) by (intro follows_same) (simp_all add: mark_operation_def)
    then show ?thesis by (rule f)
  qed ((rule f, simp add: follows_command follows_ui_call follows_refresh follows_same mark_operation_def)+)
qed

lemma step_ok:
  assumes "tray_step t t1" and "tray_ok t" and "exit_ok t"
  shows "tray_ok t1"
  using assms(1)
proof cases
  case (shutting i op wake)
  have "(i, op, Asking) \<in> set (tr_operations (request_shutdown wake t))"
    using shutting(2) by (simp add: request_shutdown_cases begin_shutdown_def coordinator_stop_def enqueue_def)
  then show ?thesis unfolding shutting(1) by (rule mark_ok [OF request_shutdown_ok [OF assms(2)]]) (use shutting(3) in auto)
next
  case (unwatched i op)
  show ?thesis unfolding unwatched(1) using assms(2) unwatched(2) by (rule mark_ok) (use unwatched(3) in auto)
next
  case (exiting wake post)
  have "tray_ok (request_app_exit wake post t)" using assms(2) by (rule request_app_exit_ok)
  then show ?thesis unfolding exiting(1) by (rule plain_ok) simp_all
next
  case cleaning
  have "drawn t1 = drawn t" unfolding cleaning(1) by (rule drawn_cong) simp_all
  moreover have "balanced t1" "operations_ok t1" "tr_quitting t1 = bc_stopping (tr_coordinator t1)"
    using assms(2) by (simp_all add: cleaning(1) tray_ok_def balanced_def operations_ok_def coordinator_cleanup_def)
  moreover have "coordinator_wf (tr_coordinator t1)"
    using step_coordinator [OF assms] coordinator_steps_wf assms(2) by (auto simp: tray_ok_def)
  ultimately show ?thesis using assms(2) by (simp add: tray_ok_def)
next
  case (answering i op env c u)
  then show ?thesis using answering_ok [OF assms(2)] by simp
next
  case (ticking i)
  then show ?thesis using assms(2) by (simp add: tray_ok_work refresh_work)
next
  case (called c cs ui)
  then show ?thesis using ui_call_ok [OF assms(2)] by simp
next
  case (releasing i f)
  then show ?thesis using release_ok [OF assms(2)] by simp
next
  case (finishing i op p)
  then show ?thesis using finish_ok [OF assms(2)] by simp
qed (simp_all add: assms(2) command_ok enqueue_ok begin_shutdown_ok end_loop_ok)

lemma new_tray_work: "work_ok (new_tray initial ui)"
  by (simp add: work_ok_def operations_ok_def balanced_def new_tray_def new_coordinator_wf new_pairing_form_def) (simp add: new_coordinator_def)

lemma started_tray_ok: "tray_ok (started_tray initial show ui)" "follows (new_tray initial ui) (started_tray initial show ui)"
proof -
  define v where "v = apply_view (poll_failed (ui_format ui)) (new_tray initial ui)"
  define w where "w = (if show then show_window ui v else v)"
  define u where "u = snd (start_operation WatchUpdate (snd (start_operation WatchActivation (snd (start_operation WatchContext w)))))"
  have run: "started_tray initial show ui = refresh_status True u" by (simp add: started_tray_def u_def w_def v_def Let_def)
  have "tray_ok v" unfolding v_def poll_failed_view by (simp add: tray_ok_work apply_view_drawn new_tray_work)
  then have "tray_ok w" by (simp add: w_def show_ok)
  then have "tray_ok u" by (simp add: u_def operation_ok uncounted_def)
  then show "tray_ok (started_tray initial show ui)" unfolding run by (simp add: tray_ok_work refresh_work)
  have "follows (new_tray initial ui) w" by (rule follows_same) (simp_all add: w_def v_def)
  moreover have "follows w u" unfolding u_def using follows_start follows_trans by blast
  ultimately show "follows (new_tray initial ui) (started_tray initial show ui)" unfolding run using follows_refresh follows_trans by blast
qed

lemma started_by: "fst (start_tray ui env shown initial dialled built) = Inr t \<Longrightarrow> \<exists>c show. t = started_tray c show ui"
  by (auto simp: start_tray_def Let_def split: sum.splits bool.splits option.splits)

lemma tray_reach_ok: "tray_reach t \<Longrightarrow> tray_ok t \<and> exit_ok t \<and> coordinator_steps new_coordinator (tr_coordinator t)"
proof (induction rule: tray_reach.induct)
  case (tray_starts ui env shown initial dialled built t)
  then obtain c shown where t: "t = started_tray c shown ui" using started_by by blast
  have new: "exit_ok (new_tray c ui)" "tr_coordinator (new_tray c ui) = new_coordinator" by (simp_all add: exit_ok_def new_tray_def)
  show ?case using started_tray_ok [where initial = c and ui = ui] exit_follows [OF started_tray_ok(2) new(1)] new(2) unfolding t by (simp add: follows_def)
next
  case (tray_steps t t1)
  then show ?case using step_ok step_coordinator coordinator_steps_trans by blast
qed

section \<open>The property\<close>

text \<open>C32: Whatever the owner does with the tray, however its background operations, their answers and the callbacks of the window
interleave, and whatever the Service answers or fails to answer: the labels, icon and buttons are those of the view in force, which is the
presentation of one status (so that a worker is only restarted, and an update only looked for, with a known server and node);
the form is pending exactly when one submission is being asked or its answer waits for the window, and only then, or when the view
forbids it, the form is locked; at most one refresh is under way; and the background work follows the coordinator, so that
once the cleanup has run nothing is left running.\<close>

theorem tray_window_faithful:
  assumes "tray_reach t"
  shows "labels_drawn t \<and> view_of_status t \<and>
    (tw_restart_enabled (tr_window t) \<or> tw_update_enabled (tr_window t) \<longrightarrow> tv_server_url (tr_view t) \<noteq> [] \<and> tv_node_id (tr_view t) \<noteq> []) \<and>
    (tw_submit_enabled (tr_window t) \<longleftrightarrow> ta_configure_enrollment (tv_actions (tr_view t)) \<and> \<not> pf_pending (tr_form t)) \<and>
    count submits (tr_operations t) + count pairing_answer (tr_calls t) = (if pf_pending (tr_form t) then 1 else 0) \<and>
    count refreshes (tr_operations t) = (if tr_refreshing t then 1 else 0) \<and>
    coordinator_steps new_coordinator (tr_coordinator t) \<and>
    (0 < bc_cleanups (tr_coordinator t) \<longrightarrow> tr_operations t = [])"
proof -
  have ok: "drawn t" "operations_ok t" "balanced t" "coordinator_wf (tr_coordinator t)" and steps: "coordinator_steps new_coordinator (tr_coordinator t)"
    using tray_reach_ok [OF assms] by (simp_all add: tray_ok_def)
  from ok(1) have d: "labels_drawn t" "controls_drawn t" "view_of_status t" by (simp_all add: drawn_def)
  have "ta_check_update (tv_actions (tr_view t)) \<or> ta_restart_worker (tv_actions (tr_view t)) \<longrightarrow>
      tv_server_url (tr_view t) \<noteq> [] \<and> tv_node_id (tr_view t) \<noteq> []"
    using d(3) by (auto simp: view_of_status_def present_def split_beta Let_def)
  then have buttons: "tw_restart_enabled (tr_window t) \<or> tw_update_enabled (tr_window t) \<longrightarrow> tv_server_url (tr_view t) \<noteq> [] \<and> tv_node_id (tr_view t) \<noteq> []"
    using d(1) by (simp add: labels_drawn_def Let_def)
  have "bc_running (tr_coordinator t) = []" if "0 < bc_cleanups (tr_coordinator t)"
    using ok(4) that by (auto simp: coordinator_wf_def)
  then have "0 < bc_cleanups (tr_coordinator t) \<longrightarrow> tr_operations t = []" using ok(2) by (auto simp: operations_ok_def)
  with buttons d ok(3) steps show ?thesis by (simp add: balanced_def controls_drawn_def)
qed

definition demo_ui :: ui_env where
  "demo_ui = \<lparr>ui_format = (\<lambda>t. ''now''), ui_parse = (\<lambda>v. None), ui_top = None, ui_activate = None, ui_shell = (\<lambda>v. None),
     ui_logs = [], ui_program_data = []\<rparr>"

definition demo_instance :: instance_env where
  "demo_instance = \<lparr>ie_activation = CreatedNew, ie_update = CreatedNew, ie_mutex = CreatedNew, ie_signal = None\<rparr>"

lemma demo_tray_starts: "fst (start_tray demo_ui demo_instance True (Some 1) (Inr 2) None) =
    Inr (started_tray (Some 1) True demo_ui)"
  by (simp add: start_tray_def acquire_single_instance_def demo_instance_def Let_def)

lemma refresh_started: "\<not> tr_refreshing t \<Longrightarrow> \<not> bc_stopping (tr_coordinator t) \<Longrightarrow> tr_refreshing (refresh_status f t)"
  by (simp add: refresh_status_def start_operation_def coordinator_go_def)

lemma demo_tray_refreshes: "tr_refreshing (started_tray (Some 1) True demo_ui)"
  unfolding started_tray_def Let_def
  by (rule refresh_started) (simp_all add: new_tray_def start_operation_def coordinator_go_def new_coordinator_def)

theorem tray_window_faithful_witness:
  "\<exists>t. tray_reach t \<and> count refreshes (tr_operations t) = 1 \<and> labels_drawn t"
proof -
  have reach: "tray_reach (started_tray (Some 1) True demo_ui)" by (rule tray_starts [OF demo_tray_starts])
  with tray_window_faithful [OF reach] demo_tray_refreshes show ?thesis by auto
qed

text \<open>The message of a failed poll is not taken back by the polls that succeed after it.\<close>

lemma fault_message_stays:
  "tw_message (tr_window (run_ui_call ui (StatusPolled False (Inr s)) (run_ui_call ui (StatusPolled False (Inl e)) t))) = user_facing_error e"
proof -
  have "user_facing_error e \<noteq> []" by (simp add: user_facing_error_def unreachable_text_def utf8_def utf8_bytes_def split: tray_error.split)
  then show ?thesis by (simp add: Let_def apply_view_def update_enrollment_controls_def show_window_message_def)
qed

end
