(* ===== verification/ReleaseTool.thy ===== *)
theory ReleaseTool
  imports UpdateRun
begin

text \<open>
  The tool that makes and checks releases, \<^verbatim>\<open>tools/cmd/ace-release\<close>: generating a pair of keys as a transaction
  over the file system, printing a public key, signing a manifest for an installer and verifying
  the three together.

  The files are a map from paths to contents.  Parameters (\<open>tool_env\<close>): which file operations fail, the names of temporary files, the
  key that is generated, SHA-256, the JSON encoder and parser, and which texts are canonical UTC times.
\<close>

section \<open>Files and their failures\<close>

text \<open>
  \<open>te_fault\<close> says whether an operation fails on a path, \<open>te_nth_fault\<close> whether the n-th removal or synchronisation of a
  transaction does (these are tried again), \<open>te_partial\<close> how much of a failing write is there.
\<close>

record tool_env =
  te_fault :: "string \<Rightarrow> string \<Rightarrow> bool"
  te_nth_fault :: "nat \<Rightarrow> string \<Rightarrow> string \<Rightarrow> bool"
  te_partial :: "string \<Rightarrow> nat"
  te_temp :: "string \<Rightarrow> string"
  te_dir :: "string \<Rightarrow> string"
  te_clean :: "string \<Rightarrow> string"
  te_absolute :: "string \<Rightarrow> string option"
  te_seed :: "string option"
  te_sha256 :: "string \<Rightarrow> string"
  te_semver :: semver
  te_urls :: url_tools
  te_encoder :: encoder
  te_ed25519 :: ed25519
  te_indent :: "json \<Rightarrow> string option"
  te_parse :: "string \<Rightarrow> body"
  te_time :: "string \<Rightarrow> time option"

definition key_error :: "string \<Rightarrow> 'a res" where
  "key_error m = Inl (Message m)"

section \<open>The transaction of a key generation\<close>

record owned_key_file =
  ow_path :: string
  ow_directory :: string
  ow_exists :: bool

record key_transaction =
  kt_files :: files
  kt_owned :: "owned_key_file list"
  kt_affected :: "string list"
  kt_clock :: nat

definition new_transaction :: "files \<Rightarrow> key_transaction" where
  "new_transaction fs = \<lparr>kt_files = fs, kt_owned = [], kt_affected = [], kt_clock = 0\<rparr>"

definition mark_affected :: "tool_env \<Rightarrow> string \<Rightarrow> key_transaction \<Rightarrow> key_transaction" where
  "mark_affected env dir t = t\<lparr>kt_affected := List.insert (te_clean env dir) (kt_affected t)\<rparr>"

definition own_file :: "tool_env \<Rightarrow> string \<Rightarrow> string \<Rightarrow> string \<Rightarrow> key_transaction \<Rightarrow> key_transaction" where
  "own_file env path dir contents t =
     mark_affected env dir
       (t\<lparr>kt_files := (kt_files t)(path \<mapsto> contents),
          kt_owned := kt_owned t @ [\<lparr>ow_path = path, ow_directory = dir, ow_exists = True\<rparr>]\<rparr>)"

text \<open>\<^verbatim>\<open>prepare\<close>: a temporary key beside its destination.\<close>

definition prepare_key :: "tool_env \<Rightarrow> string \<Rightarrow> string \<Rightarrow> key_transaction \<Rightarrow> string res \<times> key_transaction" where
  "prepare_key env destination contents t =
     (let temp = te_temp env destination
      in if te_fault env ''create'' temp \<or> kt_files t temp \<noteq> None then (key_error ''create temporary key'', t)
         else let t1 = own_file env temp (te_dir env destination) [] t;
                  t2 = t1\<lparr>kt_files := (kt_files t1)(temp \<mapsto> contents)\<rparr>
              in if te_fault env ''chmod'' temp then (key_error ''set temporary key permissions'', t1)
                 else if te_fault env ''write'' temp
                 then (key_error ''write temporary key'', t1\<lparr>kt_files := (kt_files t1)(temp \<mapsto> take (te_partial env temp) contents)\<rparr>)
                 else if te_fault env ''sync'' temp then (key_error ''sync temporary key'', t2)
                 else if te_fault env ''close'' temp then (key_error ''close temporary key'', t2)
                 else (Inr temp, t2))"

text \<open>\<^verbatim>\<open>os.Link\<close> does not overwrite.\<close>

definition publish_key :: "tool_env \<Rightarrow> string \<Rightarrow> string \<Rightarrow> key_transaction \<Rightarrow> string res \<times> key_transaction" where
  "publish_key env temporary destination t =
     (case kt_files t temporary of
        Some contents \<Rightarrow>
          if te_fault env ''link'' destination \<or> kt_files t destination \<noteq> None then (key_error ''publish key without overwrite'', t)
          else (Inr destination, own_file env destination (te_dir env destination) contents t)
      | None \<Rightarrow> (key_error ''publish key without overwrite'', t))"

definition remove_owned :: "tool_env \<Rightarrow> string \<Rightarrow> key_transaction \<Rightarrow> bool \<times> key_transaction" where
  "remove_owned env path t =
     (case find (\<lambda>w. ow_path w = path \<and> ow_exists w) (kt_owned t) of
        None \<Rightarrow> (True, t)
      | Some w \<Rightarrow>
        let t1 = mark_affected env (ow_directory w) (t\<lparr>kt_clock := kt_clock t + 1\<rparr>)
        in if te_nth_fault env (kt_clock t) ''remove'' path \<and> kt_files t path \<noteq> None then (False, t1)
           else (True, t1\<lparr>kt_files := (kt_files t1)(path := None),
                    kt_owned := map (\<lambda>x. if ow_path x = path then x\<lparr>ow_exists := False\<rparr> else x) (kt_owned t1)\<rparr>))"

definition sync_keys :: "tool_env \<Rightarrow> string \<Rightarrow> key_transaction \<Rightarrow> bool \<times> key_transaction" where
  "sync_keys env dir t =
     (if te_nth_fault env (kt_clock t) ''sync'' dir then (False, t\<lparr>kt_clock := kt_clock t + 1\<rparr>)
      else (True, t\<lparr>kt_clock := kt_clock t + 1, kt_affected := remove1 (te_clean env dir) (kt_affected t)\<rparr>))"

text \<open>\<^verbatim>\<open>rollback\<close>: the files the transaction owns, the last one first, then the directories; the answer is whether it is complete.\<close>

fun remove_each :: "tool_env \<Rightarrow> string list \<Rightarrow> key_transaction \<Rightarrow> bool \<times> key_transaction" where
  "remove_each env [] t = (True, t)"
| "remove_each env (p # ps) t =
     (case remove_owned env p t of (r, t1) \<Rightarrow> (case remove_each env ps t1 of (rs, t2) \<Rightarrow> (r \<and> rs, t2)))"

fun sync_each :: "tool_env \<Rightarrow> string list \<Rightarrow> string list \<Rightarrow> key_transaction \<Rightarrow> bool \<times> key_transaction" where
  "sync_each env seen [] t = (True, t)"
| "sync_each env seen (d # ds) t =
     (if te_clean env d \<in> set seen then sync_each env seen ds t
      else if te_clean env d \<notin> set (kt_affected t) then sync_each env (te_clean env d # seen) ds t
      else case sync_keys env d t of (r, t1) \<Rightarrow> (case sync_each env (te_clean env d # seen) ds t1 of (rs, t2) \<Rightarrow> (r \<and> rs, t2)))"

definition rollback_incomplete :: go_error where
  "rollback_incomplete = Message ''rollback was incomplete''"

definition rollback_keys :: "tool_env \<Rightarrow> string list \<Rightarrow> key_transaction \<Rightarrow> bool \<times> key_transaction" where
  "rollback_keys env directories t =
     (case remove_each env (rev (map ow_path (kt_owned t))) t of
        (removed1, t1) \<Rightarrow> (case sync_each env [] directories t1 of (synced, t2) \<Rightarrow> (removed1 \<and> synced, t2)))"

definition fail_keys :: "tool_env \<Rightarrow> string list \<Rightarrow> go_error \<Rightarrow> key_transaction \<Rightarrow> go_error option \<times> files" where
  "fail_keys env directories primary t =
     (case rollback_keys env directories t of (undone, t1) \<Rightarrow> (Some (if undone then primary else rollback_incomplete), kt_files t1))"

definition cleanup_failure :: "tool_env \<Rightarrow> string list \<Rightarrow> key_transaction \<Rightarrow> go_error option \<times> files" where
  "cleanup_failure env directories t = (Some rollback_incomplete, kt_files (snd (rollback_keys env directories t)))"

definition encode_key :: "string \<Rightarrow> string" where
  "encode_key key = std_encode key @ [CHR 0x0A]"

definition destination_fault :: "tool_env \<Rightarrow> files \<Rightarrow> string \<Rightarrow> go_error option" where
  "destination_fault env fs p =
     (if te_fault env ''lstat'' p then Some (Message ''inspect key destination'')
      else if fs p \<noteq> None then Some (Message ''key destination already exists'') else None)"

definition destinations_fault :: "go_error option list \<Rightarrow> go_error option" where
  "destinations_fault es = (case filter (\<lambda>e. e \<noteq> None) es of [] \<Rightarrow> None | e # rest \<Rightarrow> e)"

text \<open>From a temporary file to its destination: the same three calls for each of the two keys.\<close>

definition commit_key ::
    "tool_env \<Rightarrow> string list \<Rightarrow> string \<Rightarrow> string \<Rightarrow> key_transaction \<Rightarrow> (go_error option \<times> files) + key_transaction" where
  "commit_key env directories path temp t =
     (case publish_key env temp path t of
        (Inl e, t1) \<Rightarrow> Inl (fail_keys env directories e t1)
      | (Inr p, t1) \<Rightarrow>
     (case remove_owned env temp t1 of
        (False, t2) \<Rightarrow> Inl (cleanup_failure env directories t2)
      | (True, t2) \<Rightarrow>
     (case sync_keys env (te_dir env path) t2 of
        (False, t3) \<Rightarrow> Inl (fail_keys env directories (Message ''sync key directory'') t3)
      | (True, t3) \<Rightarrow> Inr t3)))"

definition commit_keys ::
    "tool_env \<Rightarrow> string \<Rightarrow> string \<Rightarrow> string \<Rightarrow> string \<Rightarrow> key_transaction \<Rightarrow> go_error option \<times> files" where
  "commit_keys env private_path public_path private_temp public_temp t =
     (let directories = [te_dir env public_path, te_dir env private_path]
      in case commit_key env directories public_path public_temp t of
          Inl failed \<Rightarrow> failed
        | Inr t1 \<Rightarrow>
          (case commit_key env directories private_path private_temp t1 of
             Inl failed \<Rightarrow> failed
           | Inr t2 \<Rightarrow> (None, kt_files t2)))"

definition generate_key_pair :: "tool_env \<Rightarrow> string \<Rightarrow> string \<Rightarrow> files \<Rightarrow> go_error option \<times> files" where
  "generate_key_pair env private_path public_path fs =
     (case (te_absolute env private_path, te_absolute env public_path) of
        (None, _) \<Rightarrow> (Some (Message ''resolve private key path''), fs)
      | (Some a, None) \<Rightarrow> (Some (Message ''resolve public key path''), fs)
      | (Some a, Some b) \<Rightarrow>
        if a = b then (Some (Message ''private and public key paths must differ''), fs)
        else case destinations_fault [destination_fault env fs private_path, destination_fault env fs public_path] of
            Some e \<Rightarrow> (Some e, fs)
          | None \<Rightarrow>
         (case te_seed env of
            None \<Rightarrow> (Some (Message ''generate Ed25519 key''), fs)
          | Some seed \<Rightarrow>
           (let public = ed_public (te_ed25519 env) seed; directories = [te_dir env public_path, te_dir env private_path]
            in case prepare_key env private_path (encode_key (seed @ public)) (new_transaction fs) of
                (Inl e, t1) \<Rightarrow> fail_keys env directories e t1
              | (Inr private_temp, t1) \<Rightarrow>
               (case prepare_key env public_path (encode_key public) t1 of
                  (Inl e, t2) \<Rightarrow> fail_keys env directories e t2
                | (Inr public_temp, t2) \<Rightarrow> commit_keys env private_path public_path private_temp public_temp t2))))"

section \<open>Reading keys\<close>

text \<open>\<^verbatim>\<open>EncodedLen\<close> of a padded encoding.\<close>

definition encoded_len :: "nat \<Rightarrow> nat" where
  "encoded_len n = 4 * ((n + 2) div 3)"

definition load_encoded_key :: "tool_env \<Rightarrow> files \<Rightarrow> string \<Rightarrow> nat \<Rightarrow> string res" where
  "load_encoded_key env fs path expected =
     (case (if te_fault env ''open'' path then None else fs path) of
        None \<Rightarrow> key_error ''open key file''
      | Some file \<Rightarrow>
        let maximum = encoded_len expected + 1; contents = take (maximum + 1) file; encoded = take (encoded_len expected) contents
        in if te_fault env ''read'' path then key_error ''read key file''
           else if te_fault env ''close'' path then key_error ''close key file''
           else if length contents \<noteq> maximum \<or> last contents \<noteq> CHR 0x0A then key_error ''key file is not canonical base64''
           else case decode_exact expected encoded of
               None \<Rightarrow> key_error ''key file contains invalid Ed25519 key material''
             | Some key \<Rightarrow> Inr key)"

definition read_private_key :: "tool_env \<Rightarrow> files \<Rightarrow> string \<Rightarrow> string res" where
  "read_private_key env fs path =
     (case load_encoded_key env fs path 64 of
        Inl e \<Rightarrow> Inl (Wrapped ''read private key'' e)
      | Inr key \<Rightarrow>
        let derived = take 32 key @ ed_public (te_ed25519 env) (take 32 key)
        in if key \<noteq> derived then key_error ''read private key: key file contains inconsistent Ed25519 key material'' else Inr derived)"

definition read_public_key :: "tool_env \<Rightarrow> files \<Rightarrow> string \<Rightarrow> string res" where
  "read_public_key env fs path =
     (case load_encoded_key env fs path 32 of Inl e \<Rightarrow> Inl (Wrapped ''read public key'' e) | Inr key \<Rightarrow> Inr key)"

section \<open>Artifacts and manifests\<close>

definition hash_artifact :: "tool_env \<Rightarrow> files \<Rightarrow> string \<Rightarrow> (int \<times> string) res" where
  "hash_artifact env fs path =
     (case (if te_fault env ''open'' path then None else fs path) of
        None \<Rightarrow> key_error ''open artifact''
      | Some file \<Rightarrow>
        let contents = take (nat max_artifact_bytes + 1) file
        in if te_fault env ''read'' path then key_error ''read artifact''
           else if nat max_artifact_bytes < length contents then key_error ''artifact exceeds maximum size''
           else if contents = [] then key_error ''artifact must not be empty''
           else Inr (int (length contents), te_sha256 env contents))"

definition validate_cli_origin :: "tool_env \<Rightarrow> manifest \<Rightarrow> string \<Rightarrow> go_error option" where
  "validate_cli_origin env m origin =
     (case ut_parse (te_urls env) (mf_url m) of
        None \<Rightarrow> Some (Message ''manifest URL is invalid'')
      | Some u \<Rightarrow>
        if origin = []
        then (if is_abs u then Some (Message ''origin is required for an absolute manifest URL'')
              else case canonical_payload (te_semver env) (te_urls env) (te_encoder env) m of Inl e \<Rightarrow> Some e | Inr p \<Rightarrow> None)
        else validate_manifest_origin (te_semver env) (te_urls env) m origin)"

definition manifest_json_fields :: "string list" where
  "manifest_json_fields = [''schema'', ''channel'', ''version'', ''published_at'', ''minimum_os'', ''url'', ''size'', ''sha256'', ''signature'']"

text \<open>
  \<^verbatim>\<open>validateManifestJSONTokens\<close> over the members in their order, with the lower-cased names seen so far; the letters
  of the nine names have no other upper-case forms than the ASCII ones.
\<close>

fun scan_members :: "(string \<times> json) list \<Rightarrow> string list \<Rightarrow> bool \<Rightarrow> string list \<Rightarrow> go_error option" where
  "scan_members [] folded unknown exact =
     (if unknown then Some (Message ''manifest contains an unknown JSON field'')
      else if length (remdups exact) \<noteq> length manifest_json_fields then Some (Message ''manifest JSON fields are incomplete'')
      else None)"
| "scan_members ((k, j) # ms) folded unknown exact =
     (if map ascii_lower k \<in> set folded then Some (Message ''manifest contains a duplicate JSON field'')
      else if k \<in> set manifest_json_fields then scan_members ms (map ascii_lower k # folded) unknown (k # exact)
      else scan_members ms (map ascii_lower k # folded) True exact)"

definition validate_manifest_tokens :: "json \<Rightarrow> go_error option" where
  "validate_manifest_tokens j =
     (case j of JObj ms \<Rightarrow> scan_members ms [] False [] | _ \<Rightarrow> Some (Message ''manifest JSON root must be an object''))"

text \<open>
  A time of a document is one in canonical form, so that the second look at \<^verbatim>\<open>published_at\<close> finds its text unchanged; a time in
  any other form is a string, which is refused.
\<close>

definition decode_strict_manifest :: "body \<Rightarrow> manifest res" where
  "decode_strict_manifest b =
     (if bd_failed b then key_error ''read manifest''
      else if max_manifest_bytes < bd_size b then key_error ''manifest exceeds maximum size''
      else case bd_docs b of
          Some j # rest \<Rightarrow>
            (case validate_manifest_tokens j of
               Some e \<Rightarrow> Inl e
             | None \<Rightarrow>
               if rest \<noteq> [] then key_error ''manifest contains trailing JSON data''
               else case read_struct True manifest_fields j zero_manifest of
                   None \<Rightarrow> key_error ''manifest JSON is invalid''
                 | Some m \<Rightarrow> Inr m)
        | _ \<Rightarrow> key_error ''manifest JSON is invalid'')"

definition write_manifest :: "manifest \<Rightarrow> json" where
  "write_manifest m = JObj
     [(''schema'', JInt (mf_schema m)), (''channel'', JStr (mf_channel m)), (''version'', JStr (mf_version m)),
      (''published_at'', JTime (mf_published_at m)), (''minimum_os'', JStr (mf_minimum_os m)), (''url'', JStr (mf_url m)),
      (''size'', JInt (mf_size m)), (''sha256'', JStr (mf_sha256 m)), (''signature'', JStr (mf_signature m))]"

text \<open>\<^verbatim>\<open>writeAtomic\<close>: a temporary file that takes the place of the destination; its removal afterwards finds nothing.\<close>

definition write_atomic :: "tool_env \<Rightarrow> string \<Rightarrow> string \<Rightarrow> files \<Rightarrow> go_error option \<times> files" where
  "write_atomic env destination contents fs =
     (let temp = te_temp env destination; discard = (\<lambda>fs. if te_fault env ''remove'' temp then fs else fs(temp := None))
      in if te_fault env ''create'' temp \<or> fs temp \<noteq> None then (Some (Message ''create temporary file''), fs)
         else if te_fault env ''chmod'' temp then (Some (Message ''set temporary file permissions''), discard (fs(temp \<mapsto> [])))
         else if te_fault env ''write'' temp
         then (Some (Message ''write temporary file''), discard (fs(temp \<mapsto> take (te_partial env temp) contents)))
         else if te_fault env ''sync'' temp then (Some (Message ''sync temporary file''), discard (fs(temp \<mapsto> contents)))
         else if te_fault env ''close'' temp then (Some (Message ''close temporary file''), discard (fs(temp \<mapsto> contents)))
         else if te_fault env ''rename'' destination then (Some (Message ''replace destination''), discard (fs(temp \<mapsto> contents)))
         else if te_fault env ''open directory'' (te_dir env destination)
         then (Some (Message ''open output directory''), fs(destination \<mapsto> contents))
         else if te_fault env ''sync directory'' (te_dir env destination)
         then (Some (Message ''sync output directory''), fs(destination \<mapsto> contents))
         else (None, fs(destination \<mapsto> contents)))"

section \<open>Commands\<close>

text \<open>An error with whether it is one of usage, or what is printed.\<close>

type_synonym outcome = "(go_error \<times> bool) + string"

definition usage_error :: "go_error \<Rightarrow> outcome" where "usage_error e = Inl (e, True)"
definition tool_error :: "go_error \<Rightarrow> outcome" where "tool_error e = Inl (e, False)"

definition run_keygen :: "tool_env \<Rightarrow> string list \<Rightarrow> files \<Rightarrow> outcome \<times> files" where
  "run_keygen env args fs =
     (case parse_flags [''private'', ''public''] args no_flags of
        Inl e \<Rightarrow> (usage_error e, fs)
      | Inr (v, positional) \<Rightarrow>
        if positional \<noteq> [] \<or> v ''private'' = [] \<or> v ''public'' = []
        then (usage_error (Message ''keygen requires -private and -public''), fs)
        else case generate_key_pair env (v ''private'') (v ''public'') fs of
            (Some e, fs1) \<Rightarrow> (tool_error e, fs1)
          | (None, fs1) \<Rightarrow> (Inr [], fs1))"

definition run_public_key :: "tool_env \<Rightarrow> string list \<Rightarrow> files \<Rightarrow> outcome" where
  "run_public_key env args fs =
     (case parse_flags [''private''] args no_flags of
        Inl e \<Rightarrow> usage_error e
      | Inr (v, positional) \<Rightarrow>
        if positional \<noteq> [] \<or> v ''private'' = [] then usage_error (Message ''public-key requires -private'')
        else case read_private_key env fs (v ''private'') of
            Inl e \<Rightarrow> tool_error e
          | Inr key \<Rightarrow>
            if te_fault env ''print'' ''stdout'' then tool_error (Message ''write public key'')
            else Inr (std_encode (ed_public (te_ed25519 env) (take 32 key)) @ [CHR 0x0A]))"

definition sign_flags :: "string list" where
  "sign_flags = [''private'', ''artifact'', ''manifest'', ''version'', ''published-at'', ''minimum-os'', ''url'', ''origin'']"

text \<open>What is signed for these flags, this time and this installer.\<close>

definition unsigned_manifest :: "(string \<Rightarrow> string) \<Rightarrow> time \<Rightarrow> int \<times> string \<Rightarrow> manifest" where
  "unsigned_manifest v published artifact =
     \<lparr>mf_schema = manifest_schema, mf_channel = manifest_channel, mf_version = v ''version'', mf_published_at = published,
      mf_published_utc = True, mf_minimum_os = v ''minimum-os'', mf_url = v ''url'', mf_size = fst artifact,
      mf_sha256 = hex_encode (snd artifact), mf_signature = []\<rparr>"

definition sign_release :: "tool_env \<Rightarrow> (string \<Rightarrow> string) \<Rightarrow> files \<Rightarrow> go_error option \<times> files" where
  "sign_release env v fs =
     (case te_time env (v ''published-at'') of
        None \<Rightarrow> (Some (Message ''published-at must be a canonical whole-second UTC RFC3339 timestamp''), fs)
      | Some published \<Rightarrow>
     (case hash_artifact env fs (v ''artifact'') of
        Inl e \<Rightarrow> (Some e, fs)
      | Inr artifact \<Rightarrow>
     (let m = unsigned_manifest v published artifact
      in case validate_cli_origin env m (v ''origin'') of
          Some e \<Rightarrow> (Some e, fs)
        | None \<Rightarrow>
       (case read_private_key env fs (v ''private'') of
          Inl e \<Rightarrow> (Some e, fs)
        | Inr key \<Rightarrow>
       (case sign_manifest (te_semver env) (te_urls env) (te_encoder env) (te_ed25519 env) m key of
          Inl e \<Rightarrow> (Some (Wrapped ''sign manifest'' e), fs)
        | Inr sealed \<Rightarrow>
       (case te_indent env (write_manifest sealed) of
          None \<Rightarrow> (Some (Message ''encode signed manifest''), fs)
        | Some encoded \<Rightarrow>
         (case write_atomic env (v ''manifest'') (encoded @ [CHR 0x0A]) fs of
            (Some e, fs1) \<Rightarrow> (Some (Wrapped ''write signed manifest'' e), fs1)
          | (None, fs1) \<Rightarrow> (None, fs1))))))))"

definition run_sign :: "tool_env \<Rightarrow> string list \<Rightarrow> files \<Rightarrow> outcome \<times> files" where
  "run_sign env args fs =
     (case parse_flags sign_flags args no_flags of
        Inl e \<Rightarrow> (usage_error e, fs)
      | Inr (v, positional) \<Rightarrow>
        if positional \<noteq> [] \<or> list_ex (\<lambda>f. v f = []) (butlast sign_flags)
        then (usage_error (Message ''sign requires -private, -artifact, -manifest, -version, -published-at, -minimum-os, and -url''), fs)
        else (case sign_release env v fs of (Some e, fs1) \<Rightarrow> (tool_error e, fs1) | (None, fs1) \<Rightarrow> (Inr [], fs1)))"

definition hex_value :: "char \<Rightarrow> nat" where
  "hex_value c = (if is_digit c then byte c - 48 else if 97 \<le> byte c then byte c - 87 else byte c - 55)"

fun hex_decode :: "string \<Rightarrow> string option" where
  "hex_decode [] = Some []"
| "hex_decode [a] = None"
| "hex_decode (a # b # s) =
     (if \<not> is_hex a \<or> \<not> is_hex b then None
      else map_option (\<lambda>cs. char_of (16 * hex_value a + hex_value b) # cs) (hex_decode s))"

definition verify_release :: "tool_env \<Rightarrow> (string \<Rightarrow> string) \<Rightarrow> files \<Rightarrow> go_error option" where
  "verify_release env v fs =
     (case (if te_fault env ''open'' (v ''manifest'') then None else fs (v ''manifest'')) of
        None \<Rightarrow> Some (Message ''open manifest'')
      | Some contents \<Rightarrow>
     (case decode_strict_manifest (te_parse env contents) of
        Inl e \<Rightarrow> Some (Wrapped ''decode manifest'' e)
      | Inr m \<Rightarrow>
     if te_fault env ''close'' (v ''manifest'') then Some (Message ''close manifest'')
     else (case validate_cli_origin env m (v ''origin'') of
        Some e \<Rightarrow> Some e
      | None \<Rightarrow>
     (case read_public_key env fs (v ''public'') of
        Inl e \<Rightarrow> Some e
      | Inr key \<Rightarrow>
     (case verify_manifest (te_semver env) (te_urls env) (te_encoder env) (te_ed25519 env) m key of
        Some e \<Rightarrow> Some (Wrapped ''verify manifest'' e)
      | None \<Rightarrow>
     (case hash_artifact env fs (v ''artifact'') of
        Inl e \<Rightarrow> Some e
      | Inr (size1, digest) \<Rightarrow>
     (case hex_decode (mf_sha256 m) of
        None \<Rightarrow> Some (Message ''manifest artifact hash is invalid'')
      | Some want \<Rightarrow>
        if size1 \<noteq> mf_size m \<or> digest \<noteq> want then Some (Message ''artifact size or SHA-256 does not match manifest'')
        else if te_fault env ''print'' ''stdout'' then Some (Message ''write verification result'') else None)))))))"

definition run_verify :: "tool_env \<Rightarrow> string list \<Rightarrow> files \<Rightarrow> outcome" where
  "run_verify env args fs =
     (case parse_flags [''public'', ''artifact'', ''manifest'', ''origin''] args no_flags of
        Inl e \<Rightarrow> usage_error e
      | Inr (v, positional) \<Rightarrow>
        if positional \<noteq> [] \<or> v ''public'' = [] \<or> v ''artifact'' = [] \<or> v ''manifest'' = []
        then usage_error (Message ''verify requires -public, -artifact, and -manifest'')
        else (case verify_release env v fs of Some e \<Rightarrow> tool_error e | None \<Rightarrow> Inr (''verified'' @ [CHR 0x0A])))"

text \<open>\<^verbatim>\<open>run\<close>: the exit code and what the standard output gets.\<close>

definition run_tool :: "tool_env \<Rightarrow> string list \<Rightarrow> files \<Rightarrow> (nat \<times> string) \<times> files" where
  "run_tool env args fs =
     (let finish = (\<lambda>(r, fs1). (case r of Inl (e, usage) \<Rightarrow> (if usage then 2 else 1, []) | Inr printed \<Rightarrow> (0, printed), fs1))
      in case args of
          [] \<Rightarrow> ((2, []), fs)
        | cmd # rest \<Rightarrow>
          if cmd = ''keygen'' then finish (run_keygen env rest fs)
          else if cmd = ''public-key'' then finish (run_public_key env rest fs, fs)
          else if cmd = ''sign'' then finish (run_sign env rest fs)
          else if cmd = ''verify'' then finish (run_verify env rest fs, fs)
          else ((2, []), fs))"

end
