(* ===== verification/ReleaseToolTheorems.thy ===== *)
theory ReleaseToolTheorems
  imports ReleaseTool UpdateTheorems
begin

text \<open>
  What the release tool guarantees: a key generation that is one transaction, keys that are read back as they
  were written, and releases that verify exactly when they were signed.
\<close>

section \<open>The transaction\<close>

definition live :: "key_transaction \<Rightarrow> string \<Rightarrow> bool" where
  "live t p \<longleftrightarrow> (\<exists>w\<in>set (kt_owned t). ow_path w = p \<and> ow_exists w)"

text \<open>Every file is as it was, or is owned and was not there.\<close>

definition key_invariant :: "files \<Rightarrow> key_transaction \<Rightarrow> bool" where
  "key_invariant fs t \<longleftrightarrow> (\<forall>p. kt_files t p = fs p \<or> live t p) \<and> (\<forall>p. live t p \<longrightarrow> fs p = None)"

lemma key_invariant_new: "key_invariant fs (new_transaction fs)"
  by (simp add: key_invariant_def new_transaction_def live_def)

lemma key_invariant_keeps: "key_invariant fs t \<Longrightarrow> fs \<subseteq>\<^sub>m kt_files t"
  unfolding key_invariant_def map_le_def dom_def by (metis mem_Collect_eq)

lemma live_own: "live (own_file env p d c t) q \<longleftrightarrow> q = p \<or> live t q"
  by (auto simp: live_def own_file_def mark_affected_def)

lemma files_own: "kt_files (own_file env p d c t) = (kt_files t)(p \<mapsto> c)"
  by (simp add: own_file_def mark_affected_def)

lemma key_invariant_own: "key_invariant fs t \<Longrightarrow> kt_files t p = None \<Longrightarrow> key_invariant fs (own_file env p d c t)"
  unfolding key_invariant_def live_own files_own by (metis fun_upd_apply)

lemma key_invariant_write: "key_invariant fs t \<Longrightarrow> live t p \<Longrightarrow> key_invariant fs (t\<lparr>kt_files := (kt_files t)(p \<mapsto> c)\<rparr>)"
  by (auto simp: key_invariant_def live_def)

lemma prepare_invariant: "key_invariant fs t \<Longrightarrow> prepare_key env p c t = (r, t1) \<Longrightarrow> key_invariant fs t1"
  by (auto simp: prepare_key_def Let_def key_error_def live_own split: if_splits
      intro!: key_invariant_own key_invariant_write)

lemma publish_invariant: "key_invariant fs t \<Longrightarrow> publish_key env temp p t = (r, t1) \<Longrightarrow> key_invariant fs t1"
  by (auto simp: publish_key_def key_error_def split: option.splits if_splits intro: key_invariant_own)

text \<open>A removal takes its own path only; when it succeeds, the path is not owned any more.\<close>

lemma remove_owned_cases:
  assumes "remove_owned env p t = (r, t1)"
  obtains "r = True" "t1 = t" "\<not> live t p" | "r = False" "live t p" "kt_files t1 = kt_files t" "kt_owned t1 = kt_owned t"
  | "r = True" "live t p" "kt_files t1 = (kt_files t)(p := None)" "\<And>q. live t1 q \<longleftrightarrow> live t q \<and> q \<noteq> p"
proof (cases "find (\<lambda>w. ow_path w = p \<and> ow_exists w) (kt_owned t)")
  case None
  then have "\<not> live t p" by (auto simp: find_None_iff live_def)
  with None assms that(1) show ?thesis by (simp add: remove_owned_def)
next
  case (Some w)
  then have l: "live t p" by (auto simp: find_Some_iff live_def)
  show ?thesis
  proof (cases "te_nth_fault env (kt_clock t) ''remove'' p \<and> kt_files t p \<noteq> None")
    case True
    with Some assms have "r = False" "kt_files t1 = kt_files t" "kt_owned t1 = kt_owned t"
      by (auto simp: remove_owned_def mark_affected_def Let_def)
    with l that(2) show ?thesis by blast
  next
    case False
    let ?t = "t\<lparr>kt_clock := kt_clock t + 1, kt_affected := List.insert (te_clean env (ow_directory w)) (kt_affected t),
        kt_files := (kt_files t)(p := None),
        kt_owned := map (\<lambda>x. if ow_path x = p then x\<lparr>ow_exists := False\<rparr> else x) (kt_owned t)\<rparr>"
    from False Some assms have "r = True" "t1 = ?t" by (auto simp: remove_owned_def mark_affected_def Let_def)
    moreover have "live ?t q \<longleftrightarrow> live t q \<and> q \<noteq> p" for q by (auto simp: live_def)
    ultimately show ?thesis using l that(3) by auto
  qed
qed

lemma remove_owned_invariant: "key_invariant fs t \<Longrightarrow> remove_owned env p t = (r, t1) \<Longrightarrow> key_invariant fs t1"
  by (erule remove_owned_cases) (auto simp: key_invariant_def live_def)

lemma remove_owned_live: "remove_owned env p t = (r, t1) \<Longrightarrow> live t1 q \<Longrightarrow> live t q"
  by (erule remove_owned_cases) (auto simp: live_def)

lemma remove_owned_gone: "remove_owned env p t = (True, t1) \<Longrightarrow> \<not> live t1 p"
  by (erule remove_owned_cases) auto

lemma sync_keys_same: "sync_keys env d t = (r, t1) \<Longrightarrow> kt_files t1 = kt_files t \<and> kt_owned t1 = kt_owned t"
  by (auto simp: sync_keys_def split: if_splits)

lemma sync_keys_invariant: "key_invariant fs t \<Longrightarrow> sync_keys env d t = (r, t1) \<Longrightarrow> key_invariant fs t1"
  by (drule sync_keys_same) (simp add: key_invariant_def live_def)

lemma remove_each_result:
  "remove_each env ps t = (r, t1) \<Longrightarrow> key_invariant fs t \<Longrightarrow>
   key_invariant fs t1 \<and> (\<forall>q. live t1 q \<longrightarrow> live t q) \<and> (r \<longrightarrow> (\<forall>p\<in>set ps. \<not> live t1 p))"
proof (induction ps arbitrary: t r)
  case (Cons p ps)
  obtain r1 t2 where one: "remove_owned env p t = (r1, t2)" by fastforce
  obtain rs where rest: "remove_each env ps t2 = (rs, t1)" "r = (r1 \<and> rs)"
    using Cons.prems(1) by (auto simp: one split: prod.splits)
  note step = remove_owned_invariant [OF Cons.prems(2) one] remove_owned_live [OF one]
  show ?case using Cons.IH [OF rest(1) step(1)] step(2) one remove_owned_gone by (auto simp: rest(2))
qed simp

lemma sync_each_same: "sync_each env seen ds t = (r, t1) \<Longrightarrow> kt_files t1 = kt_files t"
proof (induction env seen ds t arbitrary: r t1 rule: sync_each.induct)
  case (2 env seen d ds t)
  then show ?case by (auto split: if_splits prod.splits dest: sync_keys_same)
qed simp

lemma rollback_result:
  assumes "key_invariant fs t" and "rollback_keys env ds t = (r, t1)"
  shows "fs \<subseteq>\<^sub>m kt_files t1 \<and> (r \<longrightarrow> kt_files t1 = fs)"
proof -
  obtain r2 t2 where rem: "remove_each env (rev (map ow_path (kt_owned t))) t = (r2, t2)" by fastforce
  obtain r3 where sync: "sync_each env [] ds t2 = (r3, t1)" "r = (r2 \<and> r3)"
    using assms(2) by (auto simp: rollback_keys_def rem split: prod.splits)
  note done1 = remove_each_result [OF rem assms(1)]
  have "kt_files t2 = fs" if r2
  proof -
    have "\<not> live t2 q" for q
      using done1 that by (metis image_eqI list.set_map live_def set_rev)
    with done1 show ?thesis by (auto simp: key_invariant_def)
  qed
  with key_invariant_keeps [of fs t2] done1 sync_each_same [OF sync(1)] sync(2) show ?thesis by simp
qed

lemma fail_keys_result:
  assumes "key_invariant fs t" and "fail_keys env ds e t = (r, fs1)"
  shows "r = Some rollback_incomplete \<and> fs \<subseteq>\<^sub>m fs1 \<or> r = Some e \<and> fs1 = fs"
  using rollback_result [OF assms(1)] assms(2) by (force simp: fail_keys_def split: prod.splits if_splits)

lemma cleanup_failure_result:
  assumes "key_invariant fs t" and "cleanup_failure env ds t = (r, fs1)"
  shows "r = Some rollback_incomplete \<and> fs \<subseteq>\<^sub>m fs1"
  using rollback_result [OF assms(1), of env ds] assms(2) by (cases "rollback_keys env ds t") (auto simp: cleanup_failure_def)

definition undone :: "files \<Rightarrow> go_error option \<times> files \<Rightarrow> bool" where
  "undone fs out \<longleftrightarrow> (case out of (r, fs1) \<Rightarrow> r = Some rollback_incomplete \<and> fs \<subseteq>\<^sub>m fs1 \<or> (\<exists>e. r = Some e \<and> fs1 = fs))"

lemma undone_intros:
  "key_invariant fs t \<Longrightarrow> undone fs (fail_keys env ds e t)" "key_invariant fs t \<Longrightarrow> undone fs (cleanup_failure env ds t)"
  "undone fs (Some e, fs)"
  using fail_keys_result [of fs t env ds e] cleanup_failure_result [of fs t env ds]
  by (auto simp: undone_def split: prod.splits)

text \<open>What a success does to the files.\<close>

lemma prepare_files: "prepare_key env p c t = (Inr temp, t1) \<Longrightarrow>
    kt_files t temp = None \<and> kt_files t1 = (kt_files t)(temp \<mapsto> c) \<and> live t1 temp \<and> (\<forall>q. live t q \<longrightarrow> live t1 q)"
  by (auto simp: prepare_key_def Let_def key_error_def live_def own_file_def mark_affected_def split: if_splits)

lemma publish_files: "publish_key env temp p t = (Inr d, t1) \<Longrightarrow>
    kt_files t p = None \<and> (\<exists>c. kt_files t temp = Some c \<and> kt_files t1 = (kt_files t)(p \<mapsto> c)) \<and> (\<forall>q. live t q \<longrightarrow> live t1 q)"
  by (auto simp: publish_key_def key_error_def live_own files_own split: option.splits if_splits)

lemma remove_files: "remove_owned env p t = (True, t1) \<Longrightarrow> live t p \<Longrightarrow>
    kt_files t1 = (kt_files t)(p := None) \<and> (\<forall>q. live t1 q \<longleftrightarrow> live t q \<and> q \<noteq> p)"
  by (erule remove_owned_cases) auto

lemma commit_key_result:
  assumes "key_invariant fs t" and "live t temp"
  shows "case commit_key env ds p temp t of
      Inl out \<Rightarrow> undone fs out
    | Inr t1 \<Rightarrow> key_invariant fs t1 \<and> kt_files t p = None \<and>
        (\<exists>c. kt_files t temp = Some c \<and> kt_files t1 = (kt_files t)(p \<mapsto> c, temp := None)) \<and> (\<forall>q. live t q \<longrightarrow> q \<noteq> temp \<longrightarrow> live t1 q)"
proof -
  obtain r1 t1 where p1: "publish_key env temp p t = (r1, t1)" by fastforce
  note i1 = publish_invariant [OF assms(1) p1]
  obtain r2 t2 where p2: "remove_owned env temp t1 = (r2, t2)" by fastforce
  note i2 = remove_owned_invariant [OF i1 p2]
  obtain r3 t3 where p3: "sync_keys env (te_dir env p) t2 = (r3, t3)" by fastforce
  note i3 = sync_keys_invariant [OF i2 p3]
  show ?thesis
  proof (cases "(\<exists>d. r1 = Inr d) \<and> r2 \<and> r3")
    case True
    then obtain d where r: "r1 = Inr d" "r2 = True" "r3 = True" by auto
    note f1 = publish_files [OF p1 [unfolded r]]
    have "live t1 temp" using f1 assms(2) by blast
    note f2 = remove_files [OF p2 [unfolded r] this]
    note f3 = sync_keys_same [OF p3]
    have "live t3 q = live t2 q" for q using f3 by (simp add: live_def)
    with f1 f2 f3 i3 show ?thesis by (auto simp: commit_key_def p1 p2 p3 r)
  next
    case False
    note undone_intros(1) [OF i1] undone_intros(2) [OF i2] undone_intros(1) [OF i3]
    with False show ?thesis by (cases r1; cases r2; cases r3) (simp_all add: commit_key_def p1 p2 p3)
  qed
qed

lemma commit_keys_result:
  assumes "key_invariant fs t" "live t public_temp" "live t private_temp" "public_temp \<noteq> private_temp"
    and files: "kt_files t = fs(private_temp \<mapsto> a, public_temp \<mapsto> b)" "fs private_temp = None" "fs public_temp = None"
    and "commit_keys env private_path public_path private_temp public_temp t = out"
  shows "undone fs out \<or> out = (None, fs(public_path \<mapsto> b, private_path \<mapsto> a))"
proof -
  let ?ds = "[te_dir env public_path, te_dir env private_path]"
  note one = commit_key_result [OF assms(1,2), where env = env and ds = ?ds and p = public_path]
  show ?thesis
  proof (cases "commit_key env ?ds public_path public_temp t")
    case (Inl failed)
    with one assms(8) show ?thesis by (simp add: commit_keys_def)
  next
    case (Inr t1)
    with one assms(3,4) files have 1: "key_invariant fs t1" "live t1 private_temp" "public_path \<noteq> public_temp" "public_path \<noteq> private_temp"
        "kt_files t1 = fs(private_temp \<mapsto> a, public_path \<mapsto> b)"
      by (auto split: if_splits)
    note two = commit_key_result [OF 1(1,2), where env = env and ds = ?ds and p = private_path]
    show ?thesis
    proof (cases "commit_key env ?ds private_path private_temp t1")
      case (Inl failed)
      with two Inr assms(8) show ?thesis by (simp add: commit_keys_def)
    next
      case second: (Inr t2)
      with two 1 have "kt_files t1 private_path = None" "kt_files t2 = (kt_files t1)(private_path \<mapsto> a, private_temp := None)"
        by auto
      with 1 files have "kt_files t2 = fs(public_path \<mapsto> b, private_path \<mapsto> a)"
        by (auto simp: fun_eq_iff split: if_splits)
      with second Inr assms(8) show ?thesis by (auto simp: commit_keys_def)
    qed
  qed
qed

lemma key_generation_result:
  "case generate_key_pair env private_path public_path fs of (r, fs1) \<Rightarrow>
     (\<exists>seed. te_seed env = Some seed \<and> r = None \<and> private_path \<noteq> public_path \<and> fs private_path = None \<and> fs public_path = None \<and>
        fs1 = fs(public_path \<mapsto> encode_key (ed_public (te_ed25519 env) seed),
                 private_path \<mapsto> encode_key (seed @ ed_public (te_ed25519 env) seed))) \<or>
     (\<exists>e. r = Some e \<and> fs1 = fs) \<or> r = Some rollback_incomplete \<and> fs \<subseteq>\<^sub>m fs1"
  (is "?goal (generate_key_pair env private_path public_path fs)")
proof -
  let ?ds = "[te_dir env public_path, te_dir env private_path]"
  define goal where "goal out \<longleftrightarrow> ?goal out" for out
  have weak: "goal out" if "undone fs out" for out using that by (auto simp: undone_def goal_def)
  have early: "goal (Some e, fs)" for e by (auto simp: goal_def)
  have "goal (generate_key_pair env private_path public_path fs)"
  proof (cases "te_absolute env private_path = None \<or> te_absolute env public_path = None \<or>
      te_absolute env private_path = te_absolute env public_path \<or>
      destinations_fault [destination_fault env fs private_path, destination_fault env fs public_path] \<noteq> None \<or> te_seed env = None")
    case True
    then show ?thesis by (auto simp: generate_key_pair_def early split: option.splits)
  next
    case False
    then obtain a b seed where ok: "te_absolute env private_path = Some a" "te_absolute env public_path = Some b" "a \<noteq> b"
        "destinations_fault [destination_fault env fs private_path, destination_fault env fs public_path] = None" "te_seed env = Some seed"
      by auto
    have paths: "private_path \<noteq> public_path" "fs private_path = None" "fs public_path = None"
      using ok by (auto simp: destinations_fault_def destination_fault_def split: if_splits)
    define sec where "sec = encode_key (seed @ ed_public (te_ed25519 env) seed)"
    define pub where "pub = encode_key (ed_public (te_ed25519 env) seed)"
    obtain r1 t1 where p1: "prepare_key env private_path sec (new_transaction fs) = (r1, t1)" by fastforce
    note i1 = prepare_invariant [OF key_invariant_new p1]
    obtain r2 t2 where p2: "prepare_key env public_path pub t1 = (r2, t2)" by fastforce
    note i2 = prepare_invariant [OF i1 p2]
    have unfolded1: "generate_key_pair env private_path public_path fs =
        (case r1 of Inl e \<Rightarrow> fail_keys env ?ds e t1
         | Inr private_temp \<Rightarrow> (case r2 of Inl e \<Rightarrow> fail_keys env ?ds e t2
             | Inr public_temp \<Rightarrow> commit_keys env private_path public_path private_temp public_temp t2))"
      using ok p1 p2 by (simp add: generate_key_pair_def Let_def sec_def pub_def split: sum.split)
    show ?thesis
    proof (cases "\<exists>d1 d2. r1 = Inr d1 \<and> r2 = Inr d2")
      case True
      then obtain d1 d2 where r: "r1 = Inr d1" "r2 = Inr d2" by blast
      note f = prepare_files [OF p1 [unfolded r]] prepare_files [OF p2 [unfolded r]]
      then have "fs d1 = None" "d2 \<noteq> d1" "fs d2 = None" "live t2 d1" "live t2 d2" "kt_files t2 = fs(d1 \<mapsto> sec, d2 \<mapsto> pub)"
        by (auto simp: new_transaction_def split: if_splits)
      note c = commit_keys_result [OF i2 this(5,4,2,6,1,3) refl, where env = env and private_path = private_path and public_path = public_path]
      have success: "goal (None, fs(public_path \<mapsto> pub, private_path \<mapsto> sec))" using ok(5) paths by (simp add: sec_def pub_def fun_eq_iff goal_def)
      from c have "goal (commit_keys env private_path public_path d1 d2 t2)"
      proof
        assume "undone fs (commit_keys env private_path public_path d1 d2 t2)"
        then show ?thesis by (rule weak)
      next
        assume eq: "commit_keys env private_path public_path d1 d2 t2 = (None, fs(public_path \<mapsto> pub, private_path \<mapsto> sec))"
        show ?thesis unfolding eq by (rule success)
      qed
      then show ?thesis by (simp add: unfolded1 r)
    next
      case no: False
      note weak [OF undone_intros(1) [OF i1]] weak [OF undone_intros(1) [OF i2]]
      with no show ?thesis unfolding unfolded1 by (cases r1; cases r2) simp_all
    qed
  qed
  then show ?thesis by (simp only: goal_def)
qed

text \<open>C14: A key generation is one transaction.  Either both destinations, neither of which was there before, hold the
private key and the public key of the same fresh seed in their encoding, and no other file is different, no temporary
file is left; or it failed and every file is as before; or the error says that the rollback was incomplete, and then still
no file that was there before is changed or gone.  This holds whichever operations fail, and at whichever attempt.\<close>

theorem key_generation_atomic:
  "case generate_key_pair env private_path public_path fs of (r, fs1) \<Rightarrow>
     (\<exists>seed. te_seed env = Some seed \<and> r = None \<and> private_path \<noteq> public_path \<and> fs private_path = None \<and> fs public_path = None \<and>
        fs1 = fs(public_path \<mapsto> encode_key (ed_public (te_ed25519 env) seed),
                 private_path \<mapsto> encode_key (seed @ ed_public (te_ed25519 env) seed))) \<or>
     (\<exists>e. r = Some e \<and> fs1 = fs) \<or> r = Some rollback_incomplete \<and> fs \<subseteq>\<^sub>m fs1"
  by (rule key_generation_result)

section \<open>Keys and hashes are read back\<close>

lemma length_std_encode: "length (std_encode s) = encoded_len (length s)"
  using length_base64_encode [of std_alphabet s] by (simp add: std_encode_def encoded_len_def)

lemma load_encoded_back:
  assumes "fs p = Some (encode_key key)" "length key = n" "\<not> te_fault env ''open'' p" "\<not> te_fault env ''read'' p" "\<not> te_fault env ''close'' p"
  shows "load_encoded_key env fs p n = Inr key"
  using assms by (auto simp: load_encoded_key_def encode_key_def length_std_encode Let_def decode_exact_encode)

lemma load_encoded_Inr: "load_encoded_key env fs p n = Inr key \<Longrightarrow> length key = n \<and> fs p = Some (encode_key key)"
proof -
  assume l: "load_encoded_key env fs p n = Inr key"
  then obtain stored where stored: "fs p = Some stored" by (auto simp: load_encoded_key_def key_error_def split: if_splits option.splits)
  define contents where "contents = take (encoded_len n + 1 + 1) stored"
  have c: "length contents = encoded_len n + 1" "last contents = CHR 0x0A" "decode_exact n (take (encoded_len n) contents) = Some key"
    using l stored by (auto simp: load_encoded_key_def key_error_def Let_def contents_def split: if_splits option.splits)
  have "stored = contents" using c(1) by (simp add: contents_def split: if_splits)
  moreover have "contents = take (encoded_len n) contents @ [CHR 0x0A]"
    using c(1,2) by (metis add_diff_cancel_right' append_butlast_last_id butlast_conv_take length_0_conv add_is_0 one_neq_zero)
  ultimately show ?thesis using decode_exact_Some [OF c(3)] stored by (metis encode_key_def)
qed

lemma hex_value_digit: "n < 16 \<Longrightarrow> is_hex (hex_digit n) \<and> hex_value (hex_digit n) = n"
  by (auto simp: hex_digit_def hex_value_def is_hex_def is_digit_def byte_def)

lemma hex_decode_encode: "hex_decode (hex_encode s) = Some s"
proof (induction s)
  case (Cons c s)
  have "byte c div 16 < 16" "byte c mod 16 < 16" by (simp_all add: byte_def less_mult_imp_div_less)
  then show ?case using Cons by (simp add: hex_encode_def hex_value_digit byte_def)
qed (simp add: hex_encode_def)

lemma hex_digit_value: "is_hex c \<Longrightarrow> ascii_lower c = c \<Longrightarrow> hex_value c < 16 \<and> hex_digit (hex_value c) = c"
proof -
  assume a: "is_hex c" "ascii_lower c = c"
  have "\<not> (65 \<le> byte c \<and> byte c \<le> 90)"
  proof
    assume u: "65 \<le> byte c \<and> byte c \<le> 90"
    with a(2) have "byte (char_of (byte c + 32)) = byte c" by (simp add: ascii_lower_def)
    with u show False by (simp add: byte_def)
  qed
  with a(1) show ?thesis by (auto simp: is_hex_def hex_value_def hex_digit_def is_digit_def byte_def)
qed

lemma hex_encode_decode: "hex_decode s = Some d \<Longrightarrow> map ascii_lower s = s \<Longrightarrow> hex_encode d = s"
proof (induction s arbitrary: d rule: hex_decode.induct)
  case (3 a b s)
  then obtain rest where "hex_decode s = Some rest" "d = char_of (16 * hex_value a + hex_value b) # rest" "is_hex a" "is_hex b"
    by (auto split: if_splits)
  moreover have "ascii_lower a = a" "ascii_lower b = b" "map ascii_lower s = s" using 3(3) by simp_all
  moreover note hex_digit_value [of a] hex_digit_value [of b] 3(1)
  ultimately show ?case by (simp add: hex_encode_def byte_def)
qed (auto simp: hex_encode_def)

section \<open>Signing and verifying\<close>

lemma hash_artifact_Inr:
  assumes "hash_artifact env fs p = Inr (n, d)"
  obtains data where "fs p = Some data" "n = int (length data)" "d = te_sha256 env data" "data \<noteq> []"
  using assms that by (auto simp: hash_artifact_def key_error_def Let_def split: if_splits option.splits)

lemma valid_manifest_digest:
  "validate_manifest sem ut m = None \<Longrightarrow> mf_schema m = manifest_schema \<and> map ascii_lower (mf_sha256 m) = mf_sha256 m"
  by (auto simp: validate_manifest_def split: if_splits option.splits sum.splits)

lemma canonical_valid: "canonical_payload sem ut enc m = Inr p \<Longrightarrow> validate_manifest sem ut m = None"
  by (auto simp: canonical_payload_def split: option.splits)

text \<open>What the tool calls verified is exactly what was released: the manifest file is one document with the nine
fields and no others, whose signature the key of the public key file verifies over the canonical bytes of its fields; the installer file has
the signed size and the signed SHA-256; and the address of the manifest is allowed for the given origin.\<close>

theorem verified_release_authentic:
  assumes "verify_release env v fs = None"
  shows "\<exists>document m key data payload signature. fs (v ''manifest'') = Some document \<and> decode_strict_manifest (te_parse env document) = Inr m \<and>
    fs (v ''public'') = Some (encode_key key) \<and> canonical_payload (te_semver env) (te_urls env) (te_encoder env) m = Inr payload \<and>
    mf_signature m = std_encode signature \<and> ed_verify (te_ed25519 env) key payload signature \<and>
    fs (v ''artifact'') = Some data \<and> int (length data) = mf_size m \<and> hex_encode (te_sha256 env data) = mf_sha256 m \<and>
    validate_cli_origin env m (v ''origin'') = None"
proof -
  from assms obtain document m key n d where parts: "fs (v ''manifest'') = Some document"
      "decode_strict_manifest (te_parse env document) = Inr m" "validate_cli_origin env m (v ''origin'') = None"
      "read_public_key env fs (v ''public'') = Inr key"
      "verify_manifest (te_semver env) (te_urls env) (te_encoder env) (te_ed25519 env) m key = None"
      "hash_artifact env fs (v ''artifact'') = Inr (n, d)" "hex_decode (mf_sha256 m) = Some d" "n = mf_size m"
    by (auto simp: verify_release_def split: if_splits option.splits sum.splits)
  from parts(6) obtain data where data: "fs (v ''artifact'') = Some data" "n = int (length data)" "d = te_sha256 env data"
    by (rule hash_artifact_Inr)
  from parts(5) obtain payload signature where signature: "canonical_payload (te_semver env) (te_urls env) (te_encoder env) m = Inr payload"
      "mf_signature m = std_encode signature" "ed_verify (te_ed25519 env) key payload signature"
    by (auto simp: verify_manifest_None)
  have "hex_encode d = mf_sha256 m"
    using hex_encode_decode [OF parts(7)] valid_manifest_digest [OF canonical_valid [OF signature(1)]] by blast
  moreover have "fs (v ''public'') = Some (encode_key key)"
    using parts(4) by (auto simp: read_public_key_def dest: load_encoded_Inr split: sum.splits)
  ultimately show ?thesis using parts data signature
    by (intro exI [of _ document] exI [of _ m] exI [of _ key] exI [of _ data] exI [of _ payload] exI [of _ signature]) simp
qed

text \<open>The bytes of a document are read back as that document, and are not too many.\<close>

definition reads_back :: "tool_env \<Rightarrow> manifest \<Rightarrow> bool" where
  "reads_back env m \<longleftrightarrow> (\<exists>document. te_indent env (write_manifest m) = Some document \<and> length document < max_manifest_bytes \<and>
     te_parse env (document @ [CHR 0x0A]) = json_body (length document + 1) (write_manifest m))"

lemma read_manifest: "mf_published_utc m \<Longrightarrow> int64 (mf_schema m) \<Longrightarrow> int64 (mf_size m) \<Longrightarrow>
    read_struct True manifest_fields (write_manifest m) zero_manifest = Some m"
  by (simp add: write_manifest_def manifest_fields_def zero_manifest_def set_member_def field_of_def read_published_def)

lemma tokens_manifest: "validate_manifest_tokens (write_manifest m) = None"
  by (simp add: validate_manifest_tokens_def write_manifest_def manifest_json_fields_def ascii_lower_def byte_def)

lemma decode_back:
  assumes "te_indent env (write_manifest m) = Some document" "reads_back env m" "mf_published_utc m" "int64 (mf_schema m)" "int64 (mf_size m)"
  shows "decode_strict_manifest (te_parse env (document @ [CHR 0x0A])) = Inr m"
  using assms read_manifest [OF assms(3-5)]
  by (auto simp: decode_strict_manifest_def reads_back_def json_body_def tokens_manifest)

definition quiet :: "tool_env \<Rightarrow> bool" where
  "quiet env \<longleftrightarrow> (\<forall>op p. \<not> te_fault env op p)"

lemma hash_artifact_same: "fs p = fs1 p \<Longrightarrow> hash_artifact env fs p = hash_artifact env fs1 p"
  by (simp add: hash_artifact_def)

lemma validate_cli_origin_signature: "validate_cli_origin env (m\<lparr>mf_signature := x\<rparr>) origin = validate_cli_origin env m origin"
  unfolding validate_cli_origin_def validate_manifest_origin_def unsigned unfolding unsigned_fields by (rule refl)

lemma write_atomic_success: "write_atomic env p c fs = (None, fs1) \<Longrightarrow> fs1 = fs(p \<mapsto> c)"
  by (auto simp: write_atomic_def Let_def split: if_splits)

lemma sign_release_success:
  assumes "sign_release env v fs = (None, fs1)"
  obtains published artifact key sealed encoded where "hash_artifact env fs (v ''artifact'') = Inr artifact"
    "validate_cli_origin env (unsigned_manifest v published artifact) (v ''origin'') = None"
    "read_private_key env fs (v ''private'') = Inr key"
    "sign_manifest (te_semver env) (te_urls env) (te_encoder env) (te_ed25519 env) (unsigned_manifest v published artifact) key = Inr sealed"
    "te_indent env (write_manifest sealed) = Some encoded" "fs1 = fs(v ''manifest'' \<mapsto> encoded @ [CHR 0x0A])"
  using assms that by (auto simp: sign_release_def Let_def dest: write_atomic_success split: option.splits sum.splits prod.splits)

lemma release_verifies:
  assumes "ed25519_laws (te_ed25519 env)" and "quiet env" and "te_seed env = Some seed" and "length seed = 32"
    and keys: "generate_key_pair env (v ''private'') (w ''public'') fs = (None, fs1)"
    and signing: "sign_release env v fs1 = (None, fs2)"
    and same: "w ''artifact'' = v ''artifact''" "w ''manifest'' = v ''manifest''" "w ''origin'' = v ''origin''"
    and apart: "v ''manifest'' \<notin> {v ''artifact'', w ''public''}"
    and document: "\<And>m. te_indent env (write_manifest m) \<noteq> None \<Longrightarrow> reads_back env m"
  shows "verify_release env w fs2 = None"
proof -
  let ?public = "ed_public (te_ed25519 env) seed"
  have calm: "\<not> te_fault env op p" for op p using assms(2) by (simp add: quiet_def)
  have len: "length ?public = 32" using assms(1) by (simp add: ed25519_laws_def)
  from key_generation_result [of env "v ''private''" "w ''public''" fs] keys assms(3)
  have files: "fs1 (v ''private'') = Some (encode_key (seed @ ?public))" "fs1 (w ''public'') = Some (encode_key ?public)"
    by auto
  have secret: "read_private_key env fs1 (v ''private'') = Inr (seed @ ?public)"
    using load_encoded_back [where fs = fs1 and p = "v ''private''" and n = 64, OF files(1)] len assms(4) calm by (simp add: read_private_key_def)
  from signing obtain published artifact key sealed encoded where s: "hash_artifact env fs1 (v ''artifact'') = Inr artifact"
    "validate_cli_origin env (unsigned_manifest v published artifact) (v ''origin'') = None"
    "read_private_key env fs1 (v ''private'') = Inr key"
    "sign_manifest (te_semver env) (te_urls env) (te_encoder env) (te_ed25519 env) (unsigned_manifest v published artifact) key = Inr sealed"
    "te_indent env (write_manifest sealed) = Some encoded" "fs2 = fs1(v ''manifest'' \<mapsto> encoded @ [CHR 0x0A])"
    by (rule sign_release_success)
  have "take 32 key = seed" using s(3) secret assms(4) by auto
  note ok = signed_verifies [OF assms(1) s(4), where public = ?public, unfolded this, OF refl]
  obtain x where sealed: "sealed = unsigned_manifest v published artifact\<lparr>mf_signature := x\<rparr>"
    using s(4) by (auto simp: sign_manifest_def Let_def split: if_splits sum.splits)
  obtain data where data: "artifact = (int (length data), te_sha256 env data)" "fs1 (v ''artifact'') = Some data"
    using s(1) hash_artifact_Inr by (metis surj_pair)
  have "validate_manifest (te_semver env) (te_urls env) sealed = None"
    using ok(1) canonical_valid by (auto simp: verify_manifest_None)
  then have size1: "0 < mf_size sealed" "mf_size sealed \<le> max_artifact_bytes" by (auto simp: validate_manifest_def split: if_splits option.splits sum.splits)
  have "decode_strict_manifest (te_parse env (encoded @ [CHR 0x0A])) = Inr sealed"
    using s(5) document size1 by (intro decode_back) (simp_all add: sealed unsigned_manifest_def int64_def)
  moreover have "read_public_key env fs2 (w ''public'') = Inr ?public"
  proof -
    have "fs2 (w ''public'') = Some (encode_key ?public)" using files(2) apart s(6) by auto
    from load_encoded_back [where n = 32 and fs = fs2 and p = "w ''public''", OF this len] calm show ?thesis by (simp add: read_public_key_def)
  qed
  moreover have "hash_artifact env fs2 (v ''artifact'') = Inr artifact"
  proof -
    have "fs2 (v ''artifact'') = fs1 (v ''artifact'')" using apart s(6) by auto
    from hash_artifact_same [where fs = fs2 and ?fs1.0 = fs1 and p = "v ''artifact''", OF this] s(1) show ?thesis by simp
  qed
  moreover have "validate_cli_origin env sealed (v ''origin'') = None"
    unfolding sealed validate_cli_origin_signature by (rule s(2))
  moreover have "mf_size sealed = fst artifact" "hex_decode (mf_sha256 sealed) = Some (snd artifact)"
    unfolding sealed by (simp_all add: unsigned_manifest_def hex_decode_encode)
  ultimately show ?thesis using ok(1) s(6) calm by (simp add: verify_release_def same data(1))
qed

section \<open>A release at concrete files\<close>

definition demo_release :: manifest where
  "demo_release = demo_manifest\<lparr>mf_signature := std_encode (replicate 64 (CHR ''s''))\<rparr>"

definition demo_tool :: tool_env where
  "demo_tool = \<lparr>te_fault = (\<lambda>op p. False), te_nth_fault = (\<lambda>n op p. False), te_partial = (\<lambda>p. 0), te_temp = (\<lambda>p. p @ ''.tmp''),
     te_dir = (\<lambda>p. ''/d''), te_clean = id, te_absolute = Some, te_seed = Some (replicate 32 (CHR ''p'')),
     te_sha256 = (\<lambda>s. replicate 32 (CHR 0x00)), te_semver = demo_semver, te_urls = demo_urls, te_encoder = (\<lambda>j. Some ''payload''),
     te_ed25519 = demo_ed25519, te_indent = (\<lambda>j. if j = write_manifest demo_release then Some ''{}'' else None),
     te_parse = (\<lambda>s. json_body 3 (write_manifest demo_release)), te_time = (\<lambda>s. Some second)\<rparr>"

lemma demo_tool_sel:
  "te_fault demo_tool = (\<lambda>op p. False)" "te_nth_fault demo_tool = (\<lambda>n op p. False)" "te_temp demo_tool = (\<lambda>p. p @ ''.tmp'')"
  "te_dir demo_tool = (\<lambda>p. ''/d'')" "te_clean demo_tool = id" "te_absolute demo_tool = Some" "te_seed demo_tool = Some (replicate 32 (CHR ''p''))"
  "te_sha256 demo_tool = (\<lambda>s. replicate 32 (CHR 0x00))" "te_semver demo_tool = demo_semver" "te_urls demo_tool = demo_urls"
  "te_encoder demo_tool = (\<lambda>j. Some ''payload'')" "te_ed25519 demo_tool = demo_ed25519"
  "te_indent demo_tool = (\<lambda>j. if j = write_manifest demo_release then Some ''{}'' else None)"
  "te_parse demo_tool = (\<lambda>s. json_body 3 (write_manifest demo_release))" "te_time demo_tool = (\<lambda>s. Some second)"
  by (simp_all add: demo_tool_def)

definition demo_options :: "string \<Rightarrow> string" where
  "demo_options = no_flags(''private'' := ''k'', ''public'' := ''p'', ''artifact'' := ''a'', ''manifest'' := ''m'', ''version'' := ''1.0.1'', ''minimum-os'' := ''10.0.1'',
     ''url'' := ''/a.exe'')"

lemma demo_options_sel:
  "demo_options ''private'' = ''k''" "demo_options ''public'' = ''p''" "demo_options ''artifact'' = ''a''" "demo_options ''manifest'' = ''m''"
  "demo_options ''version'' = ''1.0.1''" "demo_options ''minimum-os'' = ''10.0.1''" "demo_options ''url'' = ''/a.exe''" "demo_options ''origin'' = []"
  by (simp_all add: demo_options_def no_flags_def)

lemma demo_keys: "\<exists>fs1. generate_key_pair demo_tool ''k'' ''p'' [''a'' \<mapsto> ''abc''] = (None, fs1) \<and> fs1 ''a'' = Some ''abc'' \<and>
    fs1 ''k'' = Some (encode_key (replicate 32 (CHR ''p'') @ replicate 32 (CHR ''k''))) \<and> fs1 ''m'' = None \<and> fs1 ''m.tmp'' = None"
  by (simp add: generate_key_pair_def demo_tool_sel destinations_fault_def destination_fault_def prepare_key_def new_transaction_def own_file_def
      mark_affected_def Let_def commit_keys_def commit_key_def publish_key_def remove_owned_def sync_keys_def demo_ed25519_def)

lemma demo_signs:
  assumes "fs ''a'' = Some ''abc''" "fs ''k'' = Some (encode_key (replicate 32 (CHR ''p'') @ replicate 32 (CHR ''k'')))" "fs ''m.tmp'' = None"
  shows "sign_release demo_tool demo_options fs = (None, fs(''m'' \<mapsto> ''{}'' @ [CHR 0x0A]))"
proof -
  let ?key = "replicate 32 (CHR ''p'') @ replicate 32 (CHR ''k'')"
  have h: "hash_artifact demo_tool fs ''a'' = Inr (3, replicate 32 (CHR 0x00))"
    using assms(1) by (simp add: hash_artifact_def demo_tool_sel)
  have m: "unsigned_manifest demo_options second (3, replicate 32 (CHR 0x00)) = demo_manifest"
    by (simp add: unsigned_manifest_def demo_options_sel demo_manifest_def demo_hash manifest_channel_def)
  have p: "canonical_payload demo_semver demo_urls (\<lambda>j. Some ''payload'') demo_manifest = Inr ''payload''"
    by (simp add: canonical_payload_def demo_manifest_valid)
  have url: "mf_url demo_manifest = ''/a.exe''" by (simp add: demo_manifest_def)
  have o1: "validate_cli_origin demo_tool demo_manifest [] = None"
  proof -
    have u: "ut_parse demo_urls ''/a.exe'' = Some demo_url" "\<not> is_abs demo_url" by (simp_all add: demo_urls_def demo_url_def is_abs_def)
    show ?thesis by (simp add: validate_cli_origin_def demo_tool_sel url u p)
  qed
  have k: "read_private_key demo_tool fs ''k'' = Inr ?key"
    using load_encoded_back [where fs = fs and p = "''k''" and n = 64 and env = demo_tool, OF assms(2)]
    by (simp add: read_private_key_def demo_tool_sel demo_ed25519_def)
  have "sign_manifest demo_semver demo_urls (\<lambda>j. Some ''payload'') demo_ed25519 demo_manifest ?key = Inr demo_release"
    using p by (simp add: sign_manifest_def demo_ed25519_def demo_release_def)
  then show ?thesis
    by (simp add: sign_release_def demo_tool_sel demo_options_sel h m o1 k write_atomic_def Let_def assms(3) fun_upd_twist)
qed

lemma demo_document_law: "te_indent demo_tool (write_manifest m) \<noteq> None \<Longrightarrow> reads_back demo_tool m"
  by (simp add: reads_back_def demo_tool_sel numeral_3_eq_3 split: if_splits)

lemma demo_quiet: "quiet demo_tool"
  by (simp add: quiet_def demo_tool_sel)

lemmas demo_way = demo_ed25519_laws [folded demo_tool_sel(12)] demo_quiet demo_tool_sel(7)

theorem verified_release_authentic_witness:
  "\<exists>fs document m. fs ''m'' = Some document \<and> decode_strict_manifest (te_parse demo_tool document) = Inr m \<and> mf_sha256 m = hex_encode (te_sha256 demo_tool ''abc'')"
proof -
  obtain fs1 where g: "generate_key_pair demo_tool (demo_options ''private'') (demo_options ''public'') [''a'' \<mapsto> ''abc''] = (None, fs1)" "fs1 ''a'' = Some ''abc''"
      "fs1 ''k'' = Some (encode_key (replicate 32 (CHR ''p'') @ replicate 32 (CHR ''k'')))" "fs1 ''m.tmp'' = None"
    using demo_keys by (auto simp: demo_options_sel)
  have "verify_release demo_tool demo_options (fs1(''m'' \<mapsto> ''{}'' @ [CHR 0x0A])) = None"
    by (rule release_verifies [where v = demo_options and w = demo_options, OF demo_way _ g(1) demo_signs [OF g(2-4)]]) (simp_all add: demo_options_sel demo_document_law)
  from verified_release_authentic [OF this] show ?thesis
    by (elim exE conjE) (auto simp: demo_options_sel demo_tool_sel)
qed



end
