(* ===== verification/ServerProcess.thy ===== *)
theory ServerProcess
  imports UpdaterProcess ApiInvariant RegistryTheorems
begin

text \<open>
  The server's process, \<^verbatim>\<open>backend/cmd/server\<close>: its configuration out of the environment
  (\<^verbatim>\<open>internal/config\<close>), its start, and the two retention loops (\<^verbatim>\<open>internal/maintenance\<close>) beside
  the requests.

  Parameters: the environment, \<^verbatim>\<open>url.Parse\<close>, the errors of opening, reaching and migrating the database, and
  the order in which requests and ticks happen.
\<close>

section \<open>Configuration\<close>

record server_config =
  sc_database_url :: string
  sc_listen :: string
  sc_secure_cookies :: bool
  sc_updater_url :: string
  sc_updater_token :: string

definition validate_updater :: "(string \<Rightarrow> parsed_url option) \<Rightarrow> server_config \<Rightarrow> go_error option" where
  "validate_updater parse c =
     (if sc_updater_url c = [] \<and> sc_updater_token c = [] then None
      else if sc_updater_url c = [] \<or> sc_updater_token c = []
      then Some (Message ''ACE_UPDATER_URL and ACE_UPDATER_TOKEN must be configured together'')
      else case parse (sc_updater_url c) of
          None \<Rightarrow> Some (Message ''ACE_UPDATER_URL is invalid'')
        | Some u \<Rightarrow>
          if pu_scheme u \<noteq> ''http'' \<or> pu_host u = [] \<or> pu_user u \<or> pu_query u \<noteq> [] \<or> pu_fragment u \<noteq> []
          then Some (Message ''ACE_UPDATER_URL is invalid'')
          else if list_ex is_space (rune_chunks (sc_updater_token c)) \<or> rune_count (sc_updater_token c) < 32 \<or>
            placeholder_token (sc_updater_token c)
          then Some (Message ''ACE_UPDATER_TOKEN must be a non-placeholder value of at least 32 characters'')
          else None)"

definition load_server_config :: "(string \<Rightarrow> parsed_url option) \<Rightarrow> (string \<Rightarrow> string) \<Rightarrow> server_config res" where
  "load_server_config parse getenv =
     (if trim_space (getenv ''DATABASE_URL'') = [] then Inl (Message ''DATABASE_URL is required'')
      else let secure = (if getenv ''ACE_SECURE_COOKIES'' = [] then ''true'' else getenv ''ACE_SECURE_COOKIES'')
           in case parse_bool secure of
               None \<Rightarrow> Inl (Wrapped ''parse ACE_SECURE_COOKIES'' (Message ''invalid syntax''))
             | Some cookies \<Rightarrow>
               let c = \<lparr>sc_database_url = getenv ''DATABASE_URL'',
                     sc_listen = (if getenv ''LISTEN_ADDR'' = [] then '':8080'' else getenv ''LISTEN_ADDR''), sc_secure_cookies = cookies,
                     sc_updater_url = getenv ''ACE_UPDATER_URL'', sc_updater_token = getenv ''ACE_UPDATER_TOKEN''\<rparr>
               in case validate_updater parse c of Some e \<Rightarrow> Inl e | None \<Rightarrow> Inr c)"

section \<open>Retention\<close>

text \<open>
  One loop: the context it starts with, then its ticks with whether the context has ended
  meanwhile, up to the end of the context.  A failed pruning is only logged.
\<close>

datatype retention_event = RetentionTick time bool | RetentionDone

fun retention_loop :: "(database \<Rightarrow> time \<Rightarrow> int res \<times> database) \<Rightarrow> duration \<Rightarrow> retention_event list \<Rightarrow> database \<Rightarrow> database" where
  "retention_loop prune retention [] db = db"
| "retention_loop prune retention (RetentionDone # es) db = db"
| "retention_loop prune retention (RetentionTick now cancelled # es) db =
     (if cancelled then db else retention_loop prune retention es (snd (prune db (now - retention))))"

text \<open>The first pruning is that of the first tick, at once.\<close>

definition run_retention ::
    "(database \<Rightarrow> time \<Rightarrow> int res \<times> database) \<Rightarrow> duration \<Rightarrow> bool \<Rightarrow> time \<Rightarrow> retention_event list \<Rightarrow> database \<Rightarrow> database" where
  "run_retention prune retention cancelled begun es db =
     (if cancelled then db else retention_loop prune retention es (snd (prune db (begun - retention))))"

abbreviation network_keep :: duration where "network_keep \<equiv> 90 * 24 * hour"
abbreviation pairing_keep :: duration where "pairing_keep \<equiv> 30 * 24 * hour"

section \<open>The process\<close>

text \<open>What happens in a running server, in its order: requests, and the ticks of the two loops.\<close>

datatype 'u server_event = ServedRequest "'u api_env" http_request | NetworkTick server time | PairingTick server time

fun server_step :: "'u server_event \<Rightarrow> 'u api_state \<Rightarrow> 'u api_state" where
  "server_step (ServedRequest env rq) s = snd (serve_api env rq s)"
| "server_step (NetworkTick sv now) s = s\<lparr>as_db := snd (prune_network_samples sv (as_db s) (now - network_keep))\<rparr>"
| "server_step (PairingTick sv now) s = s\<lparr>as_db := snd (prune_pairing_requests sv (as_db s) (now - pairing_keep))\<rparr>"

record start_errors =
  se_open :: "go_error option"
  se_ping :: "go_error option"

text \<open>\<^verbatim>\<open>main\<close> up to the router: the exit code of a failed start, or the updater's client that the router is given.\<close>

definition start_server ::
    "(string \<Rightarrow> parsed_url option) \<Rightarrow> (string \<Rightarrow> string) \<Rightarrow> start_errors \<Rightarrow> (database \<Rightarrow> go_error option \<times> database) \<Rightarrow> database \<Rightarrow>
     (nat + server_config \<times> updater_client option) \<times> database" where
  "start_server parse getenv se migrate db =
     (case load_server_config parse getenv of
        Inl e \<Rightarrow> (Inl 1, db)
      | Inr c \<Rightarrow>
        if se_open se \<noteq> None \<or> se_ping se \<noteq> None then (Inl 1, db)
        else case migrate db of
            (Some e, db1) \<Rightarrow> (Inl 1, db1)
          | (None, db1) \<Rightarrow>
            if sc_updater_url c \<noteq> [] \<and> sc_updater_token c \<noteq> []
            then (case new_client (parse (sc_updater_url c)) (sc_updater_token c) of
                    Inl e \<Rightarrow> (Inl 1, db1)
                  | Inr client \<Rightarrow> (Inr (c, Some client), db1))
            else (Inr (c, None), db1))"

definition run_server :: "'u server_event list \<Rightarrow> 'u api_state \<Rightarrow> 'u api_state" where
  "run_server es s = foldl (\<lambda>s e. server_step e s) s es"

section \<open>What a retention keeps\<close>

text \<open>The latest time at which a loop has pruned.\<close>

fun last_tick :: "time \<Rightarrow> retention_event list \<Rightarrow> time" where
  "last_tick t [] = t"
| "last_tick t (RetentionDone # es) = t"
| "last_tick t (RetentionTick now c # es) = (if c then t else last_tick (max t now) es)"

lemma last_tick_mono: "t \<le> last_tick t es"
  by (induction t es rule: last_tick.induct) auto

text \<open>A pruning of one table: rows that are old at the cutoff go, everything else stays, and older cutoffs take less.\<close>

locale pruning =
  fixes prune :: "database \<Rightarrow> time \<Rightarrow> int res \<times> database"
    and rows :: "database \<Rightarrow> 'r list"
    and old :: "time \<Rightarrow> 'r \<Rightarrow> bool"
    and others :: "database \<Rightarrow> database"
  assumes prunes: "rows (snd (prune db t)) = rows db \<or> rows (snd (prune db t)) = filter (\<lambda>r. \<not> old t r) (rows db)"
    and keeps_others: "others (snd (prune db t)) = others db"
    and older: "t \<le> u \<Longrightarrow> old t r \<Longrightarrow> old u r"
begin

lemma prune_keeps: "t \<le> u \<Longrightarrow> filter (\<lambda>r. \<not> old u r) (rows (snd (prune db t))) = filter (\<lambda>r. \<not> old u r) (rows db)"
  using prunes [of db t]
proof
  assume t: "t \<le> u" and rows: "rows (snd (prune db t)) = filter (\<lambda>r. \<not> old t r) (rows db)"
  have "filter (\<lambda>r. \<not> old u r) (filter (\<lambda>r. \<not> old t r) (rows db)) = filter (\<lambda>r. \<not> old u r) (rows db)"
    unfolding filter_filter by (rule filter_cong [OF refl]) (use older [OF t] in blast)
  then show ?thesis by (simp only: rows)
qed simp

lemma loop_keeps:
  "last_tick t es \<le> u \<Longrightarrow> others (retention_loop prune d es db) = others db \<and>
     filter (\<lambda>r. \<not> old (u - d) r) (rows (retention_loop prune d es db)) = filter (\<lambda>r. \<not> old (u - d) r) (rows db)"
proof (induction t es arbitrary: db rule: last_tick.induct)
  case (3 t now c es)
  show ?case
  proof (cases c)
    case False
    with 3(2) last_tick_mono [of "max t now" es] have "now - d \<le> u - d" by auto
    with False 3 prune_keeps keeps_others show ?thesis by simp
  qed simp
qed simp_all

text \<open>However long a loop runs, what is not old at its latest time stays, in its order, and so does everything else.\<close>

lemma run_keeps:
  assumes "last_tick begun es \<le> u"
  shows "others (run_retention prune d cancelled begun es db) = others db \<and>
     filter (\<lambda>r. \<not> old (u - d) r) (rows (run_retention prune d cancelled begun es db)) = filter (\<lambda>r. \<not> old (u - d) r) (rows db)"
proof -
  have "begun - d \<le> u - d" using assms last_tick_mono [of begun es] by simp
  with loop_keeps [OF assms, of d "snd (prune db (begun - d))"] prune_keeps keeps_others show ?thesis
    by (simp add: run_retention_def)
qed

end

text \<open>A retention whose statements do not fail.\<close>

locale calm_pruning = pruning +
  assumes complete: "rows (snd (prune db t)) = filter (\<lambda>r. \<not> old t r) (rows db)"
begin

lemma loop_complete:
  "list_all (\<lambda>r. \<not> old (t - d) r) (rows db) \<Longrightarrow>
   list_all (\<lambda>r. \<not> old (last_tick t es - d) r) (rows (retention_loop prune d es db))"
proof (induction t es arbitrary: db rule: last_tick.induct)
  case (3 t now c es)
  show ?case
  proof (cases c)
    case False
    have "list_all (\<lambda>r. \<not> old (max t now - d) r) (rows (snd (prune db (now - d))))"
      using 3(2) by (auto simp: complete list_all_iff max_def)
    with 3(1) False show ?thesis by simp
  qed (use 3 in simp)
qed simp_all

lemma run_complete:
  "list_all (\<lambda>r. \<not> old (last_tick begun es - d) r) (rows (run_retention prune d False begun es db))"
proof -
  have "list_all (\<lambda>r. \<not> old (begun - d) r) (rows (snd (prune db (begun - d))))" by (simp add: complete list_all_iff)
  from loop_complete [OF this] show ?thesis by (simp add: run_retention_def)
qed

end

definition sample_old :: "time \<Rightarrow> sample_row \<Rightarrow> bool" where
  "sample_old t s \<longleftrightarrow> sm_captured_at s < t"

definition pairing_old :: "time \<Rightarrow> pairing_row \<Rightarrow> bool" where
  "pairing_old t w \<longleftrightarrow> pw_created_at w < t \<and> pw_state w \<noteq> PairingPending"

interpretation network_pruning: pruning "prune_network_samples sv" db_samples sample_old "db_samples_update (\<lambda>_. [])" for sv
  by unfold_locales (auto simp: prune_network_samples_def statement_def Let_def sample_old_def split: option.splits)

interpretation pairing_pruning: pruning "prune_pairing_requests sv" db_pairings pairing_old "db_pairings_update (\<lambda>_. [])" for sv
  by unfold_locales (auto simp: prune_pairing_requests_def statement_def Let_def pairing_old_def split: option.splits)

interpretation calm_network: calm_pruning "prune_network_samples calm" db_samples sample_old "db_samples_update (\<lambda>_. [])"
  by unfold_locales (simp add: prune_network_samples_def statement_def Let_def sample_old_def calm_def)

interpretation calm_pairing: calm_pruning "prune_pairing_requests calm" db_pairings pairing_old "db_pairings_update (\<lambda>_. [])"
  by unfold_locales (simp add: prune_pairing_requests_def statement_def Let_def pairing_old_def calm_def)

text \<open>C33: A retention loop, however often it ticks, whenever it is stopped and whichever of its statements fail, takes nothing but what is due: in
the table of samples every sample of the last ninety days before its latest tick stays, in its order, in the table of pairing requests every
request of the last thirty days and every one that is pending; no other table changes.  When the
database does not fail, nothing older is left of what was there.\<close>

theorem retention_exact:
  "(let db1 = run_retention (prune_network_samples sv) network_keep cancelled begun es db; limit = last_tick begun es - network_keep
    in db1 = db\<lparr>db_samples := db_samples db1\<rparr> \<and>
       filter (\<lambda>s. limit \<le> sm_captured_at s) (db_samples db1) = filter (\<lambda>s. limit \<le> sm_captured_at s) (db_samples db)) \<and>
   (let db1 = run_retention (prune_pairing_requests sv) pairing_keep cancelled begun es db; limit = last_tick begun es - pairing_keep;
        keep = (\<lambda>w. limit \<le> pw_created_at w \<or> pw_state w = PairingPending)
    in db1 = db\<lparr>db_pairings := db_pairings db1\<rparr> \<and> filter keep (db_pairings db1) = filter keep (db_pairings db)) \<and>
   list_all (\<lambda>s. last_tick begun es - network_keep \<le> sm_captured_at s)
     (db_samples (run_retention (prune_network_samples calm) network_keep False begun es db)) \<and>
   list_all (\<lambda>w. last_tick begun es - pairing_keep \<le> pw_created_at w \<or> pw_state w = PairingPending)
     (db_pairings (run_retention (prune_pairing_requests calm) pairing_keep False begun es db))"
proof -
  have kept: "(\<lambda>s. \<not> sample_old t s) = (\<lambda>s. t \<le> sm_captured_at s)"
      "(\<lambda>w. \<not> pairing_old t w) = (\<lambda>w. t \<le> pw_created_at w \<or> pw_state w = PairingPending)" for t
    by (auto simp: sample_old_def pairing_old_def)
  have samples: "db1 = db\<lparr>db_samples := db_samples db1\<rparr>" if "db1\<lparr>db_samples := []\<rparr> = db\<lparr>db_samples := []\<rparr>" for db1 :: database
    using that by (cases db1; cases db) simp
  have pairings: "db1 = db\<lparr>db_pairings := db_pairings db1\<rparr>" if "db1\<lparr>db_pairings := []\<rparr> = db\<lparr>db_pairings := []\<rparr>" for db1 :: database
    using that by (cases db1; cases db) simp
  show ?thesis
    using network_pruning.run_keeps [OF order_refl, where begun = begun and es = es and sv = sv and d = network_keep and cancelled = cancelled and db = db]
      pairing_pruning.run_keeps [OF order_refl, where begun = begun and es = es and sv = sv and d = pairing_keep and cancelled = cancelled and db = db]
      calm_network.run_complete [where begun = begun and es = es and d = network_keep and db = db]
      calm_pairing.run_complete [where begun = begun and es = es and d = pairing_keep and db = db] samples pairings
    unfolding kept Let_def by blast
qed

text \<open>The process keeps its tables well-formed, retention included.\<close>

lemma server_step_inv:
  assumes "system_inv (as_db s)" and "case e of ServedRequest env rq \<Rightarrow> orderly env | _ \<Rightarrow> True"
  shows "system_inv (as_db (server_step e s))"
proof (cases e)
  case (ServedRequest env rq)
  with assms serve_api_steps [of env s rq] db_steps_inv show ?thesis by auto
next
  case (NetworkTick sv now)
  have "db_steps (as_db s) (run_store sv (as_db s) (SPruneSamples (now - network_keep)))" by (rule store_step) simp
  with assms(1) db_steps_inv show ?thesis by (auto simp: NetworkTick)
next
  case (PairingTick sv now)
  have "db_steps (as_db s) (run_store sv (as_db s) (SPrunePairings (now - pairing_keep)))" by (rule store_step) simp
  with assms(1) db_steps_inv show ?thesis by (auto simp: PairingTick)
qed

lemma run_server_inv:
  "system_inv (as_db s) \<Longrightarrow> list_all (\<lambda>e. case e of ServedRequest env rq \<Rightarrow> orderly env | _ \<Rightarrow> True) es \<Longrightarrow>
   system_inv (as_db (run_server es s))"
  unfolding run_server_def by (induction es arbitrary: s) (simp_all add: server_step_inv)

text \<open>Two processes that accept their configurations, with one token in both, can talk: the server's start does not fail for the updater's client
that it builds from an updater address without a path of its own, the updater is built, and the client is connected to the updater's handler.\<close>

theorem validated_processes_connected:
  assumes "load_server_config parse getenv = Inr c" and "load_updater_config pe = Inr k"
    and "getenv ''ACE_UPDATER_TOKEN'' = pe_getenv pe ''ACE_UPDATER_TOKEN''"
    and "parse (getenv ''ACE_UPDATER_URL'') = Some u" and "trim_right (CHR ''/'') (pu_path u) = []"
    and "se_open se = None" and "se_ping se = None" and "migrate db = (None, db1)"
  shows "\<exists>client svc. start_server parse getenv se migrate db = (Inr (c, Some client), db1) \<and>
    build_production_updater rg inspect now http k = Inr svc \<and> connected (us_http svc) client"
proof -
  obtain svc where svc: "build_production_updater rg inspect now http k = Inr svc"
      "us_http svc = http\<lparr>uh_token := pe_getenv pe ''ACE_UPDATER_TOKEN''\<rparr>" "32 \<le> rune_count (uh_token (us_http svc))"
    by (rule validated_builds [OF assms(2)])
  have "rune_count [] = 0" by (simp add: rune_count_def)
  with svc(2,3) assms(3) have token: "getenv ''ACE_UPDATER_TOKEN'' \<noteq> []" by auto
  from assms(1) have c: "sc_updater_url c = getenv ''ACE_UPDATER_URL''" "sc_updater_token c = getenv ''ACE_UPDATER_TOKEN''"
      "validate_updater parse c = None"
    by (auto simp: load_server_config_def Let_def split: if_splits option.splits)
  with token have url: "sc_updater_url c \<noteq> []" by (auto simp: validate_updater_def split: if_splits)
  with c token assms(4) have "new_client (Some u) (sc_updater_token c) = Inr \<lparr>uc_path = pu_path u, uc_token = sc_updater_token c\<rparr>"
    by (auto simp: validate_updater_def new_client_def split: if_splits)
  with url token c assms have "start_server parse getenv se migrate db = (Inr (c, Some \<lparr>uc_path = pu_path u, uc_token = sc_updater_token c\<rparr>), db1)"
    by (simp add: start_server_def)
  moreover have "connected (us_http svc) \<lparr>uc_path = pu_path u, uc_token = sc_updater_token c\<rparr>"
    using assms(3,5) c(2) svc(2) by (simp add: connected_def)
  ultimately show ?thesis using svc(1) by blast
qed

definition demo_parse :: "string \<Rightarrow> parsed_url option" where
  "demo_parse v = Some \<lparr>pu_scheme = ''http'', pu_host = ''u'', pu_user = False, pu_path = ''/'', pu_query = [], pu_fragment = []\<rparr>"

lemma demo_server_configuration: "\<exists>c. load_server_config demo_parse (pe_getenv demo_process) = Inr c"
proof -
  have "case load_server_config demo_parse (pe_getenv demo_process) of Inl e \<Rightarrow> False | Inr c \<Rightarrow> True" by code_simp
  then show ?thesis by (auto split: sum.splits)
qed

theorem validated_processes_connected_witness:
  "\<forall>rg inspect now http. \<exists>c client svc. start_server demo_parse (pe_getenv demo_process) \<lparr>se_open = None, se_ping = None\<rparr> (\<lambda>db. (None, db)) empty_database =
       (Inr (c, Some client), empty_database) \<and> connected (us_http svc) client \<and>
     build_production_updater rg inspect now http (environment_config demo_process) = Inr svc"
proof (intro allI)
  fix rg inspect now http
  obtain c where c: "load_server_config demo_parse (pe_getenv demo_process) = Inr c" using demo_server_configuration by blast
  show "\<exists>c client svc. start_server demo_parse (pe_getenv demo_process) \<lparr>se_open = None, se_ping = None\<rparr> (\<lambda>db. (None, db)) empty_database =
       (Inr (c, Some client), empty_database) \<and> connected (us_http svc) client \<and>
     build_production_updater rg inspect now http (environment_config demo_process) = Inr svc"
    using validated_processes_connected [OF c demo_configuration refl, of _ "\<lparr>se_open = None, se_ping = None\<rparr>" "\<lambda>db. (None, db)" empty_database empty_database rg inspect now http]
    by (fastforce simp: demo_parse_def trim_right_def)
qed

end
