(* ===== verification/AgentMain.thy ===== *)
theory AgentMain
  imports AgentIpcTheorems UpdatePromote AgentDiagnostics AgentService
begin

text \<open>
  The Agent's process, \<^verbatim>\<open>agent/cmd/ace-agent/main.go\<close>: its modes and their arguments, the lifecycle of the foreground
  mode, the worker that the Service and the foreground mode run, and how enrollment and pairing reach the server.

  Parameters: the environment's paths and executable, the HTTP transport, what is collected from the host, randomness, the logger (its
  warnings are entries of a log), and the controller as the functions \<open>lifecycle\<close>.
\<close>

section \<open>Flags with kinds\<close>

text \<open>
  \<^verbatim>\<open>FlagSet.Parse\<close> with boolean flags, which take a value only behind \<open>=\<close>, and flags whose values are checked
  (\<open>-interval\<close>, by \<^verbatim>\<open>time.ParseDuration\<close>).
\<close>

datatype flag_kind = TextFlag | BoolFlag | CheckedFlag "string \<Rightarrow> bool"

definition flag_accepts :: "flag_kind \<Rightarrow> string \<Rightarrow> bool" where
  "flag_accepts k v = (case k of TextFlag \<Rightarrow> True | BoolFlag \<Rightarrow> parse_bool v \<noteq> None | CheckedFlag ok \<Rightarrow> ok v)"

definition takes_no_value :: "flag_kind \<Rightarrow> bool" where
  "takes_no_value k = (case k of BoolFlag \<Rightarrow> True | _ \<Rightarrow> False)"

fun parse_kinds :: "(string \<times> flag_kind) list \<Rightarrow> string list \<Rightarrow> (string \<Rightarrow> string) \<Rightarrow> ((string \<Rightarrow> string) \<times> string list) res" where
  "parse_kinds defined [] vals = Inr (vals, [])"
| "parse_kinds defined (s # rest) vals =
     (case flag_token s of
        FlagEnd consumed \<Rightarrow> Inr (vals, if consumed then rest else s # rest)
      | FlagBad bad \<Rightarrow> Inl (Message (''bad flag syntax: '' @ bad))
      | FlagNamed name value \<Rightarrow>
        (case map_of defined name of
           None \<Rightarrow>
             if name = ''help'' \<or> name = ''h'' then Inl (Message ''flag: help requested'')
             else Inl (Message (''flag provided but not defined: -'' @ name))
         | Some k \<Rightarrow>
           (case value of
              Some v \<Rightarrow>
                if flag_accepts k v then parse_kinds defined rest (vals(name := v))
                else Inl (Message (''invalid value for flag -'' @ name))
            | None \<Rightarrow>
              if takes_no_value k then parse_kinds defined rest (vals(name := ''true''))
              else (case rest of
                  [] \<Rightarrow> Inl (Message (''flag needs an argument: -'' @ name))
                | v # rest1 \<Rightarrow>
                  if flag_accepts k v then parse_kinds defined rest1 (vals(name := v))
                  else Inl (Message (''invalid value for flag -'' @ name))))))"

declare parse_kinds.simps [simp del]

section \<open>Modes\<close>

definition should_attach_console :: "string \<Rightarrow> string list \<Rightarrow> bool" where
  "should_attach_console goos args =
     (case args of
        [] \<Rightarrow> False
      | a # rest \<Rightarrow> if goos \<noteq> ''windows'' \<or> a = ''tray'' then False else a \<noteq> ''service'' \<or> rest \<noteq> [])"

text \<open>Whether the tray is shown at once.\<close>

definition tray_arguments :: "string list \<Rightarrow> bool res" where
  "tray_arguments args =
     (case args of
        [] \<Rightarrow> Inr False
      | [a] \<Rightarrow> if a = ''--show'' then Inr True else Inl (Message ''tray mode only accepts --show'')
      | _ \<Rightarrow> Inl (Message ''tray mode does not accept arguments''))"

text \<open>\<^verbatim>\<open>runService\<close>, over the service control manager; \<open>run\<close> is the run of the Service itself.\<close>

definition run_service ::
    "scm_env \<Rightarrow> string res \<Rightarrow> (scm \<Rightarrow> go_error option \<times> scm) \<Rightarrow> string list \<Rightarrow> scm \<Rightarrow> go_error option \<times> scm" where
  "run_service env executable service args s =
     (case args of
        [] \<Rightarrow> service s
      | [a] \<Rightarrow>
        if a = ''install''
        then (case executable of
                Inl e \<Rightarrow> (Some (Wrapped ''locate service executable'' e), s)
              | Inr p \<Rightarrow> install_with_manager env p s)
        else if a = ''stop'' then stop_with_manager env s
        else if a = ''uninstall'' then uninstall_with_manager env s
        else (Some (Message ''unknown service command''), s)
      | _ \<Rightarrow> (Some (Message ''unknown service command''), s))"

text \<open>\<^verbatim>\<open>main\<close>: the exit code; diagnosing and printing the version are not implemented.\<close>

definition agent_exit ::
    "string \<Rightarrow> string list \<Rightarrow> (string list \<Rightarrow> 's op) \<Rightarrow> (string list \<Rightarrow> 's op) \<Rightarrow> (string list \<Rightarrow> 's op) \<Rightarrow> 's \<Rightarrow> nat \<times> 's" where
  "agent_exit goos args foreground service tray s =
     (let finish = (\<lambda>(e, s1). (if e = None then 0 else 1, s1))
      in case parse_mode goos args of
          Inl e \<Rightarrow> (2, s)
        | Inr (ModeForeground, rest) \<Rightarrow> finish (foreground rest s)
        | Inr (ModeService, rest) \<Rightarrow> finish (service rest s)
        | Inr (ModeTray, rest) \<Rightarrow> finish (tray rest s)
        | Inr (_, rest) \<Rightarrow> (0, s))"

section \<open>Enrollment and pairing\<close>

text \<open>How a device is described is what \<^verbatim>\<open>Collect\<close> answers; \<open>path_of\<close> is the path of a server address.\<close>

record 's agent_host =
  ah_transport :: "'s http_transport"
  ah_marshal :: marshal
  ah_url :: url_parser
  ah_path :: "string \<Rightarrow> string"
  ah_collect :: "'s \<Rightarrow> (enroll_request \<times> heartbeat) res \<times> 's"
  ah_crypto :: crypto
  ah_random :: "string res"
  ah_clock :: "'s \<Rightarrow> time"

definition service_enroll :: "'s agent_host \<Rightarrow> string \<Rightarrow> string \<Rightarrow> 's \<Rightarrow> (string \<times> string) res \<times> 's" where
  "service_enroll h server_url token s =
     (case new_agent_client (ah_url h) (ah_path h) server_url of
        Inl e \<Rightarrow> (Inl e, s)
      | Inr client \<Rightarrow>
       (case ah_collect h s of
          (Inl e, s1) \<Rightarrow> (Inl e, s1)
        | (Inr (request, hb), s1) \<Rightarrow>
         (case client_enroll (ah_transport h) (ah_marshal h) client (request\<lparr>er_token := token\<rparr>) s1 of
            (Inl e, s2) \<Rightarrow> (Inl e, s2)
          | (Inr r, s2) \<Rightarrow> (Inr (nd_id (rs_node r), rs_credential r), s2))))"

definition pairing_request_of :: "enroll_request \<Rightarrow> string \<Rightarrow> pairing_create_request" where
  "pairing_request_of inventory credential =
     \<lparr>pc_hostname = er_hostname inventory, pc_type = er_type inventory, pc_agent_version = er_version inventory,
      pc_machine_id = er_machine_id inventory, pc_pairing_credential = credential\<rparr>"

definition service_start_pairing :: "'s agent_host \<Rightarrow> string \<Rightarrow> 's \<Rightarrow> (string \<times> string \<times> time) res \<times> 's" where
  "service_start_pairing h server_url s =
     (case new_agent_client (ah_url h) (ah_path h) server_url of
        Inl e \<Rightarrow> (Inl e, s)
      | Inr client \<Rightarrow>
       (case ah_collect h s of
          (Inl e, s1) \<Rightarrow> (Inl (Wrapped ''collect pairing inventory'' e), s1)
        | (Inr (inventory, hb), s1) \<Rightarrow>
         (case new_opaque_token (ah_crypto h) (ah_random h) of
            Inl e \<Rightarrow> (Inl (Wrapped ''generate pairing credential'' e), s1)
          | Inr (credential, hash) \<Rightarrow>
           (case client_start_pairing (ah_transport h) (ah_marshal h) client (pairing_request_of inventory credential) (ah_clock h s1) s1 of
              (Inl e, s2) \<Rightarrow> (Inl e, s2)
            | (Inr (r, poll_after), s2) \<Rightarrow> (Inr (pp_id r, credential, pp_expires_at r), s2)))))"

definition service_poll_pairing :: "'s agent_host \<Rightarrow> pending_pairing \<Rightarrow> 's \<Rightarrow> (pairing_poll_result \<times> go_error option) \<times> 's" where
  "service_poll_pairing h p s =
     (case new_agent_client (ah_url h) (ah_path h) (pn_server_url p) of
        Inl e \<Rightarrow> ((zero_poll, Some e), s)
      | Inr client \<Rightarrow> client_poll_pairing (ah_transport h) (ah_marshal h) client (pn_pairing_id p) (pn_credential p) s)"

section \<open>The Service's worker\<close>

datatype log_entry =
    UsageWarning go_error | UploadWarning string | HeartbeatInfo string | HeartbeatWarning string string
  | CommandStopped string | CommandRetry string | MaintenanceWarning string

text \<open>\<^verbatim>\<open>logServiceHeartbeatState\<close>.\<close>

definition log_heartbeat_state :: "status_snapshot \<Rightarrow> log_entry list" where
  "log_heartbeat_state sn =
     (case sn_state sn of
        StateOnline \<Rightarrow> [HeartbeatInfo (sn_node_id sn)]
      | StateError \<Rightarrow> [HeartbeatWarning (sn_node_id sn) (sn_error sn)]
      | _ \<Rightarrow> [])"

record 's agent_process =
  ap_host :: "'s agent_host"
  ap_version :: string
  ap_log :: "log_entry \<Rightarrow> 's \<Rightarrow> 's"
  ap_report :: "(status_snapshot \<Rightarrow> 's \<Rightarrow> 's) option"
  ap_fault :: fault
  ap_logs :: "'s \<Rightarrow> string \<Rightarrow> log_file option"
  ap_paths :: paths
  ap_default_config :: string

definition upload_process_logs :: "'s agent_process \<Rightarrow> agent_client \<Rightarrow> agent_config \<Rightarrow> 's \<Rightarrow> go_error option \<times> 's" where
  "upload_process_logs ap client c s =
     upload_service_logs (ap_fault ap) (ap_logs ap s)
       (Some (client_upload_logs (ah_transport (ap_host ap)) (ah_marshal (ap_host ap)) client)) c
       (agent_log_path (ap_paths ap) (ap_default_config ap)) (update_log_path (ap_paths ap) (ap_default_config ap)) s"

definition collected_heartbeat :: "'s agent_process \<Rightarrow> string \<Rightarrow> 's \<Rightarrow> heartbeat res \<times> 's" where
  "collected_heartbeat ap version s =
     (case ah_collect (ap_host ap) s of (Inl e, s1) \<Rightarrow> (Inl e, s1) | (Inr (request, hb), s1) \<Rightarrow> (Inr hb, s1))"

definition service_worker_deps :: "'s agent_process \<Rightarrow> agent_client \<Rightarrow> 's worker_deps" where
  "service_worker_deps ap client =
     \<lparr>wd_client = Some (client_heartbeat (ah_transport (ap_host ap)) (ah_marshal (ap_host ap)) client),
      wd_collect = Some (collected_heartbeat ap), wd_version = ap_version ap,
      wd_status = Some (\<lambda>sn s. fold (ap_log ap) (log_heartbeat_state sn) (case ap_report ap of None \<Rightarrow> s | Some sink \<Rightarrow> sink sn s)),
      wd_upload = Some (upload_process_logs ap client), wd_log_sink = Some (\<lambda>m. ap_log ap (UploadWarning m)),
      wd_clock = ah_clock (ap_host ap)\<rparr>"

text \<open>The command loop is there only with a platform that can run commands.\<close>

definition service_command_options ::
    "'s agent_process \<Rightarrow> 's command_client option \<Rightarrow> (command_claim \<Rightarrow> 's \<Rightarrow> command_completion \<times> 's) option \<Rightarrow> bool \<Rightarrow>
     (duration \<Rightarrow> 's \<Rightarrow> bool \<times> 's) \<Rightarrow> ('s \<Rightarrow> bool) \<Rightarrow> 's command_options option" where
  "service_command_options ap client runner supported wait cancelled =
     (if \<not> supported \<or> client = None \<or> runner = None then None
      else Some \<lparr>cm_client = client, cm_executor = runner, cm_wait = wait, cm_clock = ah_clock (ap_host ap), cm_cancelled = cancelled,
        cm_sink = Some (\<lambda>m. ap_log ap (CommandRetry m))\<rparr>)"

definition service_worker_run :: "'s agent_process \<Rightarrow> agent_config \<Rightarrow> duration \<Rightarrow> nat \<Rightarrow> 's \<Rightarrow> go_error option \<times> 's" where
  "service_worker_run ap c interval ticks s =
     (case new_agent_client (ah_url (ap_host ap)) (ah_path (ap_host ap)) (cg_server_url c) of
        Inl e \<Rightarrow> (Some e, s)
      | Inr client \<Rightarrow> worker_run (service_worker_deps ap client) c interval ticks s)"

definition maintenance_options :: "paths \<Rightarrow> string \<Rightarrow> string \<Rightarrow> string \<Rightarrow> time \<Rightarrow> promotion_options" where
  "maintenance_options pa version executable config now =
     \<lparr>po_version = version, po_installed = updater_path pa executable, po_pending = pending_updater_path pa executable,
      po_staging = staging_directory pa config, po_current = executable, po_interval = 0, po_timeout = 0, po_now = now\<rparr>"

text \<open>\<^verbatim>\<open>startUpdaterMaintenance\<close>: the warnings it logs, and the promotion if one was tried.\<close>

definition start_updater_maintenance ::
    "promotion_world \<Rightarrow> paths \<Rightarrow> string \<Rightarrow> string res \<Rightarrow> string \<Rightarrow> time \<Rightarrow> bool \<Rightarrow> log_entry list \<times> promotion option" where
  "start_updater_maintenance w pa version executable config now cancelled =
     (case executable of
        Inl e \<Rightarrow> ([MaintenanceWarning ''locate_agent''], None)
      | Inr p \<Rightarrow>
        let r = promote_pending_updater w (maintenance_options pa version p config now)
        in (if pr_error r \<noteq> None \<and> \<not> cancelled then [MaintenanceWarning ''promotion''] else [], Some r))"

section \<open>The foreground mode\<close>

record 's lifecycle =
  lc_bootstrap :: "'s op"
  lc_enroll :: "string \<Rightarrow> string \<Rightarrow> 's op"
  lc_pair :: "string \<Rightarrow> 's op"
  lc_shutdown :: "'s op"

definition run_lifecycle :: "'s lifecycle option \<Rightarrow> string \<Rightarrow> string \<Rightarrow> 's op" where
  "run_lifecycle lc server_url token s =
     (case lc of
        None \<Rightarrow> (Some (Message ''foreground lifecycle controller is required''), s)
      | Some l \<Rightarrow>
       (case lc_bootstrap l s of
          (Some e, s1) \<Rightarrow> (Some e, s1)
        | (None, s1) \<Rightarrow>
          if server_url = [] then (None, s1)
          else if token \<noteq> [] then lc_enroll l server_url token s1 else lc_pair l server_url s1))"

text \<open>Whether the lifecycle has taken over.\<close>

definition run_lifecycle_for_config ::
    "url_parser \<Rightarrow> agent_config res \<Rightarrow> string \<Rightarrow> string \<Rightarrow> 's lifecycle option \<Rightarrow> 's \<Rightarrow> (bool \<times> go_error option) \<times> 's" where
  "run_lifecycle_for_config url loaded server_url token lc s =
     (case loaded of
        Inl e \<Rightarrow>
          if \<not> err_is ErrNotExist e then ((False, Some (Wrapped ''load agent configuration'' e)), s)
          else (case run_lifecycle lc server_url token s of (r, s1) \<Rightarrow> ((True, r), s1))
      | Inr c \<Rightarrow>
        if \<not> is_pending url c then ((False, None), s)
        else (case run_lifecycle lc server_url token s of (r, s1) \<Rightarrow> ((True, r), s1)))"

record foreground_flags =
  fg_server :: string
  fg_enrollment :: string
  fg_config :: string
  fg_once :: bool
  fg_interval :: duration

text \<open>The flags of the foreground mode; \<open>durations\<close> is \<^verbatim>\<open>time.ParseDuration\<close>.\<close>

definition foreground_kinds :: "(string \<Rightarrow> duration option) \<Rightarrow> (string \<times> flag_kind) list" where
  "foreground_kinds durations =
     [(''server'', TextFlag), (''enrollment'', TextFlag), (''config'', TextFlag), (''once'', BoolFlag),
      (''interval'', CheckedFlag (\<lambda>v. durations v \<noteq> None))]"

definition parse_foreground :: "(string \<Rightarrow> duration option) \<Rightarrow> string \<Rightarrow> string list \<Rightarrow> foreground_flags res" where
  "parse_foreground durations default_config args =
     (case parse_kinds (foreground_kinds durations) args (no_flags(''config'' := default_config, ''once'' := ''false'', ''interval'' := ''30s'')) of
        Inl e \<Rightarrow> Inl e
      | Inr (v, positional) \<Rightarrow>
        Inr \<lparr>fg_server = v ''server'', fg_enrollment = v ''enrollment'', fg_config = v ''config'', fg_once = (parse_bool (v ''once'') = Some True),
          fg_interval = (case durations (v ''interval'') of None \<Rightarrow> 30 * second | Some d \<Rightarrow> d)\<rparr>)"

text \<open>The worker of the foreground mode; its status sink also notes whether the heartbeat failed when only one is to be sent.\<close>

definition lift_state :: "('s \<Rightarrow> 'a \<times> 's) \<Rightarrow> bool \<times> 's \<Rightarrow> 'a \<times> bool \<times> 's" where
  "lift_state f x = (case f (snd x) of (a, s) \<Rightarrow> (a, fst x, s))"

definition foreground_sink :: "'s agent_process \<Rightarrow> bool \<Rightarrow> status_snapshot \<Rightarrow> bool \<times> 's \<Rightarrow> bool \<times> 's" where
  "foreground_sink ap once sn x =
     (let s1 = fold (ap_log ap) (log_heartbeat_state sn) (snd x)
      in if once \<and> (sn_state sn = StateOnline \<or> sn_state sn = StateError) then (sn_state sn = StateError, s1) else (fst x, s1))"

definition foreground_worker_deps :: "'s agent_process \<Rightarrow> bool \<Rightarrow> agent_client \<Rightarrow> (bool \<times> 's) worker_deps" where
  "foreground_worker_deps ap once client =
     \<lparr>wd_client = Some (\<lambda>credential hb. lift_state (client_heartbeat (ah_transport (ap_host ap)) (ah_marshal (ap_host ap)) client credential hb)),
      wd_collect = Some (\<lambda>version. lift_state (collected_heartbeat ap version)), wd_version = ap_version ap,
      wd_status = Some (foreground_sink ap once), wd_upload = Some (\<lambda>c. lift_state (upload_process_logs ap client c)),
      wd_log_sink = Some (\<lambda>m (f, s). (f, ap_log ap (UploadWarning m) s)), wd_clock = (\<lambda>(f, s). ah_clock (ap_host ap) s)\<rparr>"

text \<open>
  \<^verbatim>\<open>runForeground\<close> after its flags: \<open>loaded\<close> is the configuration in the file, and the interrupt comes after so many
  ticks of the worker, or when the lifecycle has been waited for.  With \<open>-once\<close> the first heartbeat ends the worker.
\<close>

definition run_foreground ::
    "'s agent_process \<Rightarrow> 's lifecycle \<Rightarrow> foreground_flags \<Rightarrow> agent_config res \<Rightarrow> nat \<Rightarrow> 's op" where
  "run_foreground ap lc fg loaded ticks s =
     (case run_lifecycle_for_config (ah_url (ap_host ap)) loaded (fg_server fg) (fg_enrollment fg) (Some lc) s of
        ((handled, Some e), s1) \<Rightarrow> (Some e, s1)
      | ((True, None), s1) \<Rightarrow> if fg_once fg then (None, s1) else lc_shutdown lc s1
      | ((False, None), s1) \<Rightarrow>
        (let c0 = (case loaded of Inl e \<Rightarrow> zero_config | Inr c \<Rightarrow> c);
             c = (if fg_server fg \<noteq> [] then c0\<lparr>cg_server_url := fg_server fg\<rparr> else c0)
         in case new_agent_client (ah_url (ap_host ap)) (ah_path (ap_host ap)) (cg_server_url c) of
             Inl e \<Rightarrow> (Some (Wrapped ''configure agent client'' e), s1)
           | Inr client \<Rightarrow>
            (case worker_run (foreground_worker_deps ap (fg_once fg) client) c (fg_interval fg) (if fg_once fg then 0 else ticks) (False, s1) of
               (Some e, (failed, s2)) \<Rightarrow> (Some e, s2)
             | (None, (failed, s2)) \<Rightarrow> (if failed then Some (Message ''first heartbeat failed'') else None, s2))))"

definition network_usage_path :: "paths \<Rightarrow> string \<Rightarrow> string" where
  "network_usage_path pa config = pa_join pa [pa_dir pa config, ''network-usage.json'']"

section \<open>Properties\<close>

text \<open>With text flags only, this is the parser of the updater.\<close>

lemma parse_kinds_text:
  "map_of ks = (\<lambda>n. if n \<in> set defined then Some TextFlag else None) \<Longrightarrow> parse_kinds ks args vals = parse_flags defined args vals"
proof (induction defined args vals rule: parse_flags.induct)
  case (1 defined vals)
  show ?case by (simp add: parse_kinds.simps parse_flags.simps)
next
  case (2 defined s rest vals)
  show ?case
  proof (cases "flag_token s")
    case (FlagNamed name given)
    then show ?thesis
      using 2 unfolding parse_kinds.simps(2) [of ks s rest] parse_flags.simps(2) [of defined s rest]
      by (cases given; cases rest) (simp_all add: takes_no_value_def flag_accepts_def del: fun_upd_apply)
  qed (simp_all add: parse_kinds.simps(2) [of ks s rest] parse_flags.simps(2) [of defined s rest])
qed

text \<open>A console is attached for a command that ends by itself, and never for the tray or the run of the Service.\<close>

lemma console_attached:
  "should_attach_console goos args \<longleftrightarrow>
     goos = ''windows'' \<and> args \<noteq> [] \<and> hd args \<noteq> ''tray'' \<and> args \<noteq> [''service'']"
  by (cases args) (auto simp: should_attach_console_def)

lemma lifecycle_handled:
  "run_lifecycle_for_config url (Inr c) server_url token lc s = ((False, None), s)" if "\<not> is_pending url c"
  using that by (simp add: run_lifecycle_for_config_def)

lemma foreground_sel:
  "wd_client (foreground_worker_deps ap once client) =
     Some (\<lambda>credential hb. lift_state (client_heartbeat (ah_transport (ap_host ap)) (ah_marshal (ap_host ap)) client credential hb))"
  "wd_collect (foreground_worker_deps ap once client) = Some (\<lambda>version. lift_state (collected_heartbeat ap version))"
  "wd_status (foreground_worker_deps ap once client) = Some (foreground_sink ap once)"
  "wd_version (foreground_worker_deps ap once client) = ap_version ap"
  "wd_upload (foreground_worker_deps ap once client) = Some (\<lambda>c. lift_state (upload_process_logs ap client c))"
  "wd_log_sink (foreground_worker_deps ap once client) = Some (\<lambda>m (f, s). (f, ap_log ap (UploadWarning m) s))"
  by (simp_all add: foreground_worker_deps_def)

lemma publish_foreground:
  "publish (foreground_worker_deps ap True client) c st err m (f, s) =
     (if st = StateOnline \<or> st = StateError then st = StateError else f, snd (publish (foreground_worker_deps ap True client) c st err m (f, s)))"
  by (simp add: publish_def foreground_sel foreground_sink_def Let_def)

lemma publish_starting: "publish (foreground_worker_deps ap True client) c StateStarting None m (f, s) = (f, s)"
  by (simp add: publish_def foreground_sel foreground_sink_def log_heartbeat_state_def)

text \<open>The flag after the first heartbeat says whether that failed; neither the upload of logs nor its warning touches it.\<close>

lemma first_heartbeat_flag:
  "fst (snd (send_heartbeat (foreground_worker_deps ap True client) c (m, x))) \<longleftrightarrow>
     fst (collect_and_send (foreground_worker_deps ap True client) c x) \<noteq> None"
proof -
  let ?d = "foreground_worker_deps ap True client"
  obtain e y where cs: "collect_and_send ?d c x = (e, y)" by (meson surj_pair)
  have pub: "fst (publish ?d c st err m y) \<longleftrightarrow> st = StateError" if "st = StateOnline \<or> st = StateError" for st err m y
    using publish_foreground [of ap client c st err m "fst y" "snd y"] that by (auto simp: prod_eq_iff)
  have up: "fst (snd (lift_state f z)) = fst z" for f :: "'a \<Rightarrow> go_error option \<times> 'a" and z by (simp add: lift_state_def split: prod.split)
  show ?thesis
  proof (cases e)
    case (Some err)
    with cs pub show ?thesis by (simp add: send_heartbeat_def)
  next
    case None
    define z where "z = publish ?d c StateOnline None (m\<lparr>wm_heartbeat := wd_clock ?d y\<rparr>) y"
    have "\<not> fst z" using pub by (simp add: z_def)
    moreover obtain r f t where u: "lift_state (upload_process_logs ap client c) z = (r, f, t)" by (metis prod_cases3)
    with up [of "upload_process_logs ap client c" z] have "f = fst z" by simp
    ultimately show ?thesis using cs None u
      by (simp add: send_heartbeat_def foreground_sel Let_def z_def [symmetric] split: option.split)
  qed
qed

text \<open>With \<open>-once\<close> the foreground Agent sends exactly one heartbeat and its exit says how that went: for a stored, complete configuration
it ends without an error exactly when the host could be described and the server accepted the heartbeat; whether the logs could be
uploaded afterwards does not matter.\<close>

theorem once_tells_first_heartbeat:
  assumes "\<not> is_pending (ah_url (ap_host ap)) c0" and "fg_once fg"
    and "c = (if fg_server fg \<noteq> [] then c0\<lparr>cg_server_url := fg_server fg\<rparr> else c0)"
    and "new_agent_client (ah_url (ap_host ap)) (ah_path (ap_host ap)) (cg_server_url c) = Inr client"
    and "worker_validate (service_worker_deps ap client) c (fg_interval fg) = None"
  shows "fst (run_foreground ap lc fg (Inr c0) ticks s) = None \<longleftrightarrow>
    (case collected_heartbeat ap (ap_version ap) s of
       (Inl e, s1) \<Rightarrow> False
     | (Inr hb, s1) \<Rightarrow> fst (client_heartbeat (ah_transport (ap_host ap)) (ah_marshal (ap_host ap)) client (cg_credential c) hb s1) = None)"
proof -
  let ?d = "foreground_worker_deps ap True client"
  have valid: "worker_validate ?d c (fg_interval fg) = None"
    using assms(5) by (simp add: worker_validate_def service_worker_deps_def foreground_sel split: if_splits)
  define x where "x = send_heartbeat ?d c (\<lparr>wm_heartbeat = 0, wm_upload = 0\<rparr>, False, s)"
  have run1: "worker_run ?d c (fg_interval fg) 0 (False, s) = (None, publish ?d c StateStopped None (fst x) (snd x))"
    using valid by (simp add: worker_run_def Let_def publish_starting x_def split: prod.split)
  have flag: "fst (publish ?d c StateStopped None m y) = fst y" for m y
    using publish_foreground [of ap client c StateStopped None m "fst y" "snd y"] by (auto simp: prod_eq_iff)
  have "fst (run_foreground ap lc fg (Inr c0) ticks s) = None \<longleftrightarrow> \<not> fst (snd x)"
    using assms(1-4) run1 flag [of "fst x" "snd x"]
    by (auto simp: run_foreground_def lifecycle_handled Let_def split: prod.split)
  also have "\<dots> \<longleftrightarrow> fst (collect_and_send ?d c (False, s)) = None"
    using first_heartbeat_flag [of ap client c "\<lparr>wm_heartbeat = 0, wm_upload = 0\<rparr>" "(False, s)"] by (auto simp: x_def)
  also have "\<dots> \<longleftrightarrow> (case collected_heartbeat ap (ap_version ap) s of
       (Inl e, s1) \<Rightarrow> False
     | (Inr hb, s1) \<Rightarrow> fst (client_heartbeat (ah_transport (ap_host ap)) (ah_marshal (ap_host ap)) client (cg_credential c) hb s1) = None)"
    by (auto simp: collect_and_send_def foreground_sel lift_state_def split: prod.splits sum.splits)
  finally show ?thesis .
qed

definition demo_host :: "enroll_request \<Rightarrow> heartbeat \<Rightarrow> unit agent_host" where
  "demo_host rq hb = \<lparr>ah_transport = (\<lambda>q s. (Some (fixed_response 200 (JObj [(''node'', JObj [])])), s)), ah_marshal = (\<lambda>j. Some 1),
     ah_url = (\<lambda>v. Some (''http'', ''ace'')), ah_path = (\<lambda>v. []), ah_collect = (\<lambda>s. (Inr (rq, hb), s)), ah_crypto = demo_crypto,
     ah_random = Inr ''r'', ah_clock = (\<lambda>s. 0)\<rparr>"

definition demo_agent :: "enroll_request \<Rightarrow> heartbeat \<Rightarrow> unit agent_process" where
  "demo_agent rq hb = \<lparr>ap_host = demo_host rq hb, ap_version = ''1'', ap_log = (\<lambda>e s. s), ap_report = None, ap_fault = (\<lambda>l. None),
     ap_logs = (\<lambda>s p. None), ap_paths = \<lparr>pa_dir = id, pa_join = concat, pa_abs = (\<lambda>p. True)\<rparr>, ap_default_config = ''c''\<rparr>"

definition demo_flags :: foreground_flags where
  "demo_flags = \<lparr>fg_server = [], fg_enrollment = [], fg_config = ''c'', fg_once = True, fg_interval = second\<rparr>"

theorem once_tells_first_heartbeat_witness:
  "\<forall>rq hb lc. fst (run_foreground (demo_agent rq hb) lc demo_flags (Inr demo_config) 7 ()) = None"
proof (intro allI)
  fix rq hb and lc :: "unit lifecycle"
  let ?ap = "demo_agent rq hb"
  have p: "\<not> is_pending (ah_url (ap_host ?ap)) demo_config" by (simp add: is_pending_def demo_config_def)
  have o1: "fg_once demo_flags" by (simp add: demo_flags_def)
  have c: "demo_config = (if fg_server demo_flags \<noteq> [] then demo_config\<lparr>cg_server_url := fg_server demo_flags\<rparr> else demo_config)"
    by (simp add: demo_flags_def)
  have n: "new_agent_client (ah_url (ap_host ?ap)) (ah_path (ap_host ?ap)) (cg_server_url demo_config) = Inr \<lparr>ac_path = []\<rparr>"
    by (simp add: new_agent_client_def is_http_url_def demo_agent_def demo_host_def)
  have v: "worker_validate (service_worker_deps ?ap \<lparr>ac_path = []\<rparr>) demo_config (fg_interval demo_flags) = None"
    by (simp add: worker_validate_def service_worker_deps_def demo_config_def demo_flags_def demo_agent_def)
  have "fst (client_heartbeat (ah_transport (ap_host ?ap)) (ah_marshal (ap_host ?ap)) \<lparr>ac_path = []\<rparr> (cg_credential demo_config) hb ()) = None"
    by (simp add: client_heartbeat_def do_json_def send_json_def demo_agent_def demo_host_def fixed_response_def json_body_def decode_body_def
        successful_def set_member_def field_of_def Let_def)
  with once_tells_first_heartbeat [OF p o1 c n v, of lc 7 "()"]
  show "fst (run_foreground ?ap lc demo_flags (Inr demo_config) 7 ()) = None"
    by (simp add: collected_heartbeat_def demo_agent_def demo_host_def)
qed

end
