(* ===== verification/AgentOnboarding.thy ===== *)
theory AgentOnboarding
  imports AgentMain AgentTheorems RegistryTheorems ApiTheorems
begin

text \<open>
  The admission of a device as a whole: the Agent's pairing over the API, the owner's approval in the registry, the
  Agent's poll over the API, and what the controller makes of it.
\<close>

section \<open>The Agent's request arrives as it was made\<close>

lemma read_pairing_create: "read_struct False pairing_create_fields (write_pairing_create q) zero_pairing_create = Some q"
  by (simp add: pairing_create_fields_def write_pairing_create_def field_of_def set_member_def zero_pairing_create_def)

lemma pairing_route: "route ''POST'' ''/api/v1/agent/pairings'' = Some RCreatePairing"
  by (simp add: route_def post_route_def)

lemma refused: "\<not> successful (rs_status (bad_request m))" "\<not> successful (rs_status (write_error e))" "\<not> successful (rs_status unauthorized)"
  by (simp_all add: bad_request_def write_error_def unauthorized_def fixed_response_def successful_def)

lemma read_started:
  assumes "decode_body pairing_answer_fields \<lparr>pa_result = zero_poll, pa_poll_after = 0\<rparr>
      (fixed_response 201 (JObj [(''pairing_id'', JStr i), (''state'', JStr st), (''expires_at'', JTime t), (''poll_after_seconds'', JInt 5)])) = Inr a"
  shows "pp_id (pa_result a) = i \<and> pp_expires_at (pa_result a) = t"
  using assms
  by (auto simp: decode_body_def fixed_response_def json_body_def pairing_answer_fields_def poll_fields_def AgentClient.promote_def field_of_def
      set_member_def int64_def zero_poll_def read_pairing_state_def)

lemma created_row:
  assumes "create_pairing_request sv db q now = (Inr p, db1)" and "pr_state q = PairingPending"
  shows "pr_id p = pr_id q \<and> pr_expires_at p = now + 10 * minute \<and> (\<exists>w\<in>set (db_pairings db1). pw_id w = pr_id q \<and> pw_state w = PairingPending \<and>
    pw_expires_at w = now + 10 * minute \<and> pw_credential_hash w = pr_credential_hash q)"
  using assms by (auto simp: create_pairing_request_def Let_def statement_def checked_def split: option.splits if_splits)

lemma handled_pairing:
  assumes "handle_create_pairing env rq s = (response, s1)" and "successful (rs_status response)"
    and "bind_json None pairing_create_fields zero_pairing_create rq = Some q"
  obtains i st t where "response = fixed_response 201 (JObj [(''pairing_id'', JStr i), (''state'', JStr st), (''expires_at'', JTime t), (''poll_after_seconds'', JInt 5)])"
    "\<exists>w\<in>set (db_pairings (as_db s1)). pw_id w = i \<and> pw_state w = PairingPending \<and> pw_expires_at w = t \<and>
       pw_credential_hash w = hash_token (ae_crypto env) (pc_pairing_credential q)"
    "pc_pairing_credential q \<noteq> []"
proof -
  define created where "created = \<lparr>pr_id = ae_uuid env 1, pr_machine_id = trim_space (pc_machine_id q), pr_hostname = trim_space (pc_hostname q), pr_type = pc_type q,
      pr_agent_version = trim_space (pc_agent_version q), pr_credential_hash = hash_token (ae_crypto env) (pc_pairing_credential q),
      pr_state = PairingPending, pr_existing_node = None, pr_group_id = [], pr_created_at = 0, pr_expires_at = 0, pr_decided_at = None\<rparr>"
  obtain l p s2 where r: "repo env 1 (\<lambda>sv db. create_pairing_request sv db created (ae_now env 1)) (s\<lparr>as_limiter := l\<rparr>) = (Inr p, s2)"
    and out: "response = fixed_response 201 (JObj [(''pairing_id'', JStr (pr_id p)), (''state'', JStr (pairing_text (pr_state p))),
        (''expires_at'', JTime (pr_expires_at p)), (''poll_after_seconds'', JInt 5)])" "as_db s1 = as_db s2"
    and credential: "pc_pairing_credential q \<noteq> []"
    using assms refused
    by (auto simp: handle_create_pairing_def Let_def created_def [symmetric] simp del: One_nat_def split: option.splits if_splits prod.splits sum.splits)
  from r have "create_pairing_request (ae_server env 1) (run_changes (ae_other env 1) (as_db s)) created (ae_now env 1) = (Inr p, as_db s2)"
    by (auto simp: repo_def simp del: One_nat_def split: prod.splits)
  from created_row [OF this] out credential that show ?thesis by (auto simp: created_def)
qed

text \<open>What the Agent has started is a pending request in the registry that holds the hash of its credential.\<close>

lemma started_pairing_stored:
  assumes "service_start_pairing h url s = (Inr (i, credential, expires), s1)" and "ah_transport h = serve_api env" and "ah_path h = (\<lambda>v. [])"
  shows "i \<noteq> [] \<and> credential \<noteq> [] \<and> (\<exists>w\<in>set (db_pairings (as_db s1)). pw_id w = i \<and> pw_state w = PairingPending \<and>
    pw_expires_at w = expires \<and> pw_credential_hash w = hash_token (ae_crypto env) credential)"
proof -
  obtain client inventory hb s2 hash r poll_after where steps: "new_agent_client (ah_url h) (ah_path h) url = Inr client"
      "new_opaque_token (ah_crypto h) (ah_random h) = Inr (credential, hash)"
      "client_start_pairing (serve_api env) (ah_marshal h) client (pairing_request_of inventory credential) (ah_clock h s2) s2 = (Inr (r, poll_after), s1)"
      "i = pp_id r" "expires = pp_expires_at r"
    using assms(1,2) by (auto simp: service_start_pairing_def split: sum.splits prod.splits)
  from steps(1) have path: "ac_path client = []" using assms(3) by (auto simp: new_agent_client_def split: if_splits)
  define q where "q = pairing_request_of inventory credential"
  obtain a where a: "do_json (serve_api env) (ah_marshal h) client ''POST'' ''/api/v1/agent/pairings'' [] (Some (write_pairing_create q))
      pairing_answer_fields \<lparr>pa_result = zero_poll, pa_poll_after = 0\<rparr> s2 = (Inr a, s1)" "r = pa_result a"
    using steps(3) by (auto simp: client_start_pairing_def q_def Let_def split: sum.splits prod.splits if_splits)
  obtain n response where sent: "serve_api env \<lparr>rq_method = ''POST'', rq_path = ''/api/v1/agent/pairings'', rq_authorization = [], rq_cookie = None,
      rq_range = [], rq_remote = [], rq_body = json_body n (write_pairing_create q)\<rparr> s2 = (Some response, s1)"
      "successful (rs_status response)" "decode_body pairing_answer_fields \<lparr>pa_result = zero_poll, pa_poll_after = 0\<rparr> response = Inr a"
    using a(1) by (auto simp: do_json_def send_json_def path split: sum.splits prod.splits option.splits if_splits)
  let ?rq = "\<lparr>rq_method = ''POST'', rq_path = ''/api/v1/agent/pairings'', rq_authorization = [], rq_cookie = None,
      rq_range = [], rq_remote = [], rq_body = json_body n (write_pairing_create q)\<rparr>"
  have handled: "handle_create_pairing env ?rq s2 = (response, s1)"
    using sent(1) by (cases "handle_create_pairing env ?rq s2") (simp add: serve_api_def pairing_route answered_by_def)
  have bound: "bind_json None pairing_create_fields zero_pairing_create ?rq = Some q"
    by (simp add: bind_json_def json_body_def read_pairing_create)
  obtain j st t where out: "response = fixed_response 201 (JObj [(''pairing_id'', JStr j), (''state'', JStr st), (''expires_at'', JTime t), (''poll_after_seconds'', JInt 5)])"
      "\<exists>w\<in>set (db_pairings (as_db s1)). pw_id w = j \<and> pw_state w = PairingPending \<and> pw_expires_at w = t \<and>
         pw_credential_hash w = hash_token (ae_crypto env) (pc_pairing_credential q)"
      "pc_pairing_credential q \<noteq> []"
    by (rule handled_pairing [OF handled sent(2) bound])
  from read_started [OF sent(3) [unfolded out(1)]] have "i = j" "expires = t" by (simp_all add: steps(4,5) a(2))
  moreover have "pp_id r \<noteq> []" using steps(3) by (auto simp: client_start_pairing_def Let_def split: sum.splits prod.splits if_splits)
  ultimately show ?thesis using out(2,3) by (simp add: q_def pairing_request_of_def steps(4))
qed

section \<open>The approval and the poll\<close>

lemma approved_state:
  assumes "approve_pairing_request sv db i gid remark now = (Inr n, db1)" and "registry_inv db" and "w \<in> set (db_pairings db)" and "pw_id w = i"
  shows "now < pw_expires_at w \<and> nd_id n \<in> nd_id ` set (db_nodes db1) \<and>
    db_pairings db1 = sql_update (\<lambda>v. pw_id v = i) (approved_row (nd_id n) gid remark now) (db_pairings db)"
proof -
  have pairings: "distinct (map pw_id (db_pairings db))" and nodes: "nodes_inv db"
    using assms(2) by (simp_all add: registry_inv_def pairings_inv_def)
  from assms(1) obtain v r d where *: "find (\<lambda>w. pw_id w = i) (db_pairings db) = Some v" "now < pw_expires_at v"
      "pair_node sv db v gid remark now = (Inr r, d)" "n = scan_node r"
      "db_nodes db1 = db_nodes d" "db_pairings db1 = sql_update (\<lambda>w. pw_id w = i) (approved_row (nd_id r) gid remark now) (db_pairings d)"
    by (auto elim!: approve_Inr)
  have "v = w" using find_Some_conv [OF *(1)] assms(3,4) distinct_map_eq [OF pairings] by blast
  moreover have "nd_id n = nd_id r" by (simp add: *(4) scan_node_def node.truncate_def)
  moreover have "db_pairings d = db_pairings db" using pair_node_cases [OF *(3)] by auto
  moreover have "r \<in> set (db_nodes d)" using pair_node_nodes [OF nodes *(3)] by simp
  ultimately show ?thesis using *(2,5,6) by simp
qed

lemma below_u64: "uint (v :: u64) < 18446744073709551616"
  using uint_bounded [of v] by simp

lemma read_node: "read_struct False node_fields (write_node x) zero_node = Some x"
  by (cases "nd_last_seen_at x")
    (simp_all add: node_fields_def write_node_def field_of_def set_member_def zero_node_def json_option_def below_u64)

lemma read_node_pointer: "read_pointer (read_struct False node_fields) zero_node (write_node x) None = Some (Some x)"
  using read_node [of x] by (simp add: write_node_def)

text \<open>What the API writes of an approved pairing is what the Agent reads.\<close>

lemma read_poll: "pp_state r = PairingApproved \<Longrightarrow> read_struct False poll_fields (write_poll r) zero_poll = Some r"
  by (cases "pp_node r")
    (simp_all add: poll_fields_def write_poll_def field_of_def set_member_def zero_poll_def read_pairing_state_def read_node_pointer omit_none_def pairing_of_text_def)

lemma pending_split: "split_at (CHR ''/'') (''/api/v1/agent/pairings/'' @ i) = [[], ''api'', ''v1'', ''agent'', ''pairings''] @ split_at (CHR ''/'') i"
  by simp

lemma poll_route:
  assumes "CHR ''/'' \<notin> set i" and "i \<noteq> []"
  shows "route ''GET'' (''/api/v1/agent/pairings/'' @ i) = Some (RPollPairing i)"
proof -
  have "split_at (CHR ''/'') (''/api/v1/agent/pairings/'' @ i) = [[], ''api'', ''v1'', ''agent'', ''pairings'', i]"
    unfolding pending_split using split_at_plain [OF assms(1)] by simp
  then show ?thesis using assms(2) by (simp add: route_def get_route_def with_id_def)
qed

text \<open>The database tells the Agent that asks about its approved request the node of the request.\<close>

lemma approved_request_read:
  assumes "healthy sv" and "\<forall>w\<in>set (db_pairings db). pw_id w = i \<longrightarrow> pw_state w = PairingApproved \<and> pw_node_id w = Some j"
    and "w \<in> set (db_pairings db)" and "pw_id w = i" and "pw_credential_hash w = hash"
    and "j \<noteq> []" and "j \<in> nd_id ` set (db_nodes db)"
  shows "\<exists>p n. get_pairing_request sv db i hash now = (Inr p, db) \<and> pr_id p = i \<and> pr_state p = PairingApproved \<and> pr_existing_node p = Some n \<and> nd_id n = j"
proof -
  have same: "sql_update (\<lambda>w. pw_id w = i \<and> pairing_due now w) (expire_row now) (db_pairings db) = db_pairings db"
    unfolding sql_update_def using assms(2) by (intro map_idI) (auto simp: pairing_due_def)
  obtain v where v: "find (\<lambda>w. pw_id w = i \<and> pw_credential_hash w = hash) (db_pairings db) = Some v"
    using assms(3-5) by (cases "find (\<lambda>w. pw_id w = i \<and> pw_credential_hash w = hash) (db_pairings db)") (auto simp: find_None_conv)
  with assms(2) have row: "pw_id v = i" "pw_state v = PairingApproved" "pw_node_id v = Some j" by (auto dest!: find_Some_conv)
  obtain n ns where n: "filter (\<lambda>n. nd_id n = j) (db_nodes db) = n # ns"
    using assms(7) by (cases "filter (\<lambda>n. nd_id n = j) (db_nodes db)") (auto simp: filter_empty_conv)
  have "n \<in> set (filter (\<lambda>n. nd_id n = j) (db_nodes db))" unfolding n by simp
  then have "nd_id n = j" by simp
  moreover have "node_by_id sv db j = Inr (scan_node n)" using assms(1) n by (simp add: node_by_id_def query_def one_row_def)
  ultimately show ?thesis using assms(1,6) v row
    by (simp add: get_pairing_request_def statement_def same Let_def scan_pairing_def scan_node_def node.truncate_def)
qed

lemma polled_approved:
  assumes "get_pairing_request (ae_server env 1) (as_db s) i (hash_token (ae_crypto env) credential) (ae_now env 1) = (Inr p, as_db s)"
    and "pr_state p = PairingApproved" and "pr_existing_node p = Some n" and "ae_other env 1 = []"
    and "CHR ''/'' \<notin> set i" and "i \<noteq> []" and "credential \<noteq> []" and "ac_path c = []"
  shows "\<exists>r t. client_poll_pairing (serve_api env) marshal c i credential s = ((r, None), t) \<and> pp_state r = PairingApproved \<and> pp_node r = Some n"
proof -
  define r where "r = \<lparr>pp_id = pr_id p, pp_state = PairingApproved, pp_node = Some n, pp_expires_at = pr_expires_at p\<rparr>"
  let ?rq = "\<lparr>rq_method = ''GET'', rq_path = ''/api/v1/agent/pairings/'' @ i, rq_authorization = bearer @ credential, rq_cookie = None,
      rq_range = [], rq_remote = [], rq_body = empty_body\<rparr>"
  have "bearer_credential ?rq = Some credential" using assms(7) by (simp add: bearer_credential_def)
  then have "handle_poll_pairing env i ?rq s =
      (fixed_response 200 (write_poll r), logged (log_pairing (ae_crypto env) (pr_id p) (pr_machine_id p) PairingApproved) s)"
    using assms(1-4) by (simp add: handle_poll_pairing_def repo_def run_changes_def r_def Let_def del: One_nat_def)
  then have "serve_api env ?rq s =
      (Some (fixed_response 200 (write_poll r)), logged (log_pairing (ae_crypto env) (pr_id p) (pr_machine_id p) PairingApproved) s)"
    using poll_route [OF assms(5,6)] by (simp add: serve_api_def answered_by_def)
  moreover have "read_struct False poll_fields (write_poll r) zero_poll = Some r" by (rule read_poll) (simp add: r_def)
  ultimately have "client_poll_pairing (serve_api env) marshal c i credential s =
      ((r, None), logged (log_pairing (ae_crypto env) (pr_id p) (pr_machine_id p) PairingApproved) s)"
    using assms(7,8) by (simp add: client_poll_pairing_def send_json_def successful_def decode_body_def fixed_response_def json_body_def)
  then show ?thesis by (simp add: r_def)
qed

section \<open>From the request to the node\<close>

text \<open>C8: A device is admitted as a whole: when the Agent's pairing over the API has returned an identity and a credential and the owner's
approval of that request has succeeded, the Agent's next poll of the API (while the pairing lasts by its clock, nothing else happening during
the poll) is judged as approved with exactly the node the approval returned, and the credential the Agent keeps is then the only one
that the registry accepts for that node.\<close>

theorem pairing_admits_agent:
  assumes "service_start_pairing h url s = (Inr (i, credential, expires), s1)" and "ah_transport h = serve_api env" and "ah_path h = (\<lambda>v. [])"
    and "registry_inv (as_db s1)" and "approve_pairing_request sv (as_db s1) i gid remark decided = (Inr n, db)"
    and "ah_transport g = serve_api env1" and "ah_path g = (\<lambda>v. [])" and "is_http_url (ah_url g) url"
    and "ae_crypto env1 = ae_crypto env" and "healthy (ae_server env1 1)" and "ae_other env1 1 = []"
    and "CHR ''/'' \<notin> set i" and "nd_id n \<noteq> []" and "now < expires"
  shows "\<exists>r t. service_poll_pairing g \<lparr>pn_server_url = url, pn_pairing_id = i, pn_credential = credential, pn_expires_at = expires\<rparr> (s1\<lparr>as_db := db\<rparr>)
        = ((r, None), t) \<and>
      judge_poll now \<lparr>pn_server_url = url, pn_pairing_id = i, pn_credential = credential, pn_expires_at = expires\<rparr> (Inr r) = PollApproved (nd_id n) \<and>
      (\<forall>token. credential_node db token = Some (nd_id n) \<longleftrightarrow> token = hash_token (ae_crypto env) credential)"
proof -
  let ?p = "\<lparr>pn_server_url = url, pn_pairing_id = i, pn_credential = credential, pn_expires_at = expires\<rparr>"
  have ids: "i \<noteq> []" "credential \<noteq> []" using started_pairing_stored [OF assms(1-3)] by simp_all
  obtain w where w: "w \<in> set (db_pairings (as_db s1))" "pw_id w = i" "pw_credential_hash w = hash_token (ae_crypto env) credential"
    using started_pairing_stored [OF assms(1-3)] by blast
  have rows: "db_pairings db = sql_update (\<lambda>v. pw_id v = i) (approved_row (nd_id n) gid remark decided) (db_pairings (as_db s1))"
    and node: "nd_id n \<in> nd_id ` set (db_nodes db)" using approved_state [OF assms(5,4) w(1,2)] by blast+
  have "approved_row (nd_id n) gid remark decided w \<in> set (db_pairings db)"
    unfolding rows sql_update_def set_map by (rule rev_image_eqI [OF w(1)]) (simp add: w(2))
  moreover have "pw_id (approved_row (nd_id n) gid remark decided w) = i \<and> pw_credential_hash (approved_row (nd_id n) gid remark decided w) =
      hash_token (ae_crypto env1) credential" using w(2,3) assms(9) by (simp add: approved_row_def)
  moreover have "\<forall>v\<in>set (db_pairings db). pw_id v = i \<longrightarrow> pw_state v = PairingApproved \<and> pw_node_id v = Some (nd_id n)"
    unfolding rows sql_update_def set_map by (intro ballI) (erule imageE, simp add: approved_row_def split: if_splits)
  ultimately obtain p m where read: "get_pairing_request (ae_server env1 1) db i (hash_token (ae_crypto env1) credential) (ae_now env1 1) = (Inr p, db)"
      "pr_state p = PairingApproved" "pr_existing_node p = Some m" "nd_id m = nd_id n"
    using approved_request_read [OF assms(10) _ _ _ _ assms(13) node] by metis
  have c: "new_agent_client (ah_url g) (ah_path g) url = Inr \<lparr>ac_path = []\<rparr>"
    using assms(7,8) by (simp add: new_agent_client_def)
  obtain r t where polled: "client_poll_pairing (serve_api env1) (ah_marshal g) \<lparr>ac_path = []\<rparr> i credential (s1\<lparr>as_db := db\<rparr>) = ((r, None), t)"
      "pp_state r = PairingApproved" "pp_node r = Some m"
    using polled_approved [where env = env1 and s = "s1\<lparr>as_db := db\<rparr>" and marshal = "ah_marshal g"
        and c = "\<lparr>ac_path = []\<rparr>",
        OF _ read(2,3) assms(11,12) ids] read(1) by auto
  have "\<exists>v\<in>set (db_pairings (as_db s1)). pw_id v = i \<and> (\<forall>token. credential_node db token = Some (nd_id n) \<longleftrightarrow> token = pw_credential_hash v)"
    using approval_admits_machine [OF assms(4,5)] by blast
  moreover have "v = w" if "v \<in> set (db_pairings (as_db s1))" "pw_id v = i" for v
    using that w(1,2) assms(4) distinct_map_eq [of pw_id "db_pairings (as_db s1)" v w] by (simp add: registry_inv_def pairings_inv_def)
  ultimately have "\<forall>token. credential_node db token = Some (nd_id n) \<longleftrightarrow> token = hash_token (ae_crypto env) credential"
    using w(3) by metis
  moreover have "service_poll_pairing g ?p (s1\<lparr>as_db := db\<rparr>) = ((r, None), t)"
    using polled(1) assms(6) c by (simp add: service_poll_pairing_def)
  moreover have "judge_poll now ?p (Inr r) = PollApproved (nd_id n)"
    using polled(2,3) assms(13,14) read(4) by (simp add: judge_poll_def)
  ultimately show ?thesis by blast
qed

section \<open>A device that asks an empty office\<close>

definition demo_secret :: string where
  "demo_secret = base64_encode url_alphabet (replicate 32 CHR ''k'')"

definition demo_inventory :: enroll_request where
  "demo_inventory = \<lparr>er_token = [], er_hostname = ''pc'', er_type = ''windows'', er_version = ''1'', er_machine_id = ''m''\<rparr>"

definition pairing_host :: "unit api_state agent_host" where
  "pairing_host = \<lparr>ah_transport = serve_api blank_env, ah_marshal = (\<lambda>j. Some 1), ah_url = (\<lambda>v. Some (''http'', ''ace'')), ah_path = (\<lambda>v. []),
     ah_collect = (\<lambda>s. (Inr (demo_inventory, zero_heartbeat), s)), ah_crypto = demo_crypto,
     ah_random = Inr (replicate 32 CHR ''k''), ah_clock = (\<lambda>s. 0)\<rparr>"

definition demo_request :: pairing_row where
  "demo_request = \<lparr>pw_id = ''o'', pw_machine_id = ''m'', pw_hostname = ''pc'', pw_type = ''windows'',
     pw_agent_version = ''1'', pw_credential_hash = hash_token demo_crypto demo_secret, pw_state = PairingPending, pw_node_id = None,
     pw_group_id = None, pw_remark = [], pw_created_at = 100, pw_expires_at = 100 + 10 * minute, pw_decided_at = None\<rparr>"

lemma demo_secret_ok: "is_pairing_credential demo_secret" "demo_secret \<noteq> []"
proof -
  show "is_pairing_credential demo_secret" by (simp add: is_pairing_credential_def demo_secret_def base64_roundtrip [OF alphabets(1)])
  then show "demo_secret \<noteq> []"
    using base64_roundtrip [OF alphabets(1), of "[]"] by (auto simp: is_pairing_credential_def)
qed

lemma demo_created:
  "create_pairing_request calm office \<lparr>pr_id = ''o'', pr_machine_id = ''m'', pr_hostname = ''pc'', pr_type = ''windows'', pr_agent_version = ''1'',
      pr_credential_hash = hash_token demo_crypto demo_secret, pr_state = PairingPending, pr_existing_node = None, pr_group_id = [], pr_created_at = 0,
      pr_expires_at = 0, pr_decided_at = None\<rparr> 100 =
    (Inr \<lparr>pr_id = ''o'', pr_machine_id = ''m'', pr_hostname = ''pc'', pr_type = ''windows'', pr_agent_version = ''1'',
      pr_credential_hash = hash_token demo_crypto demo_secret, pr_state = PairingPending, pr_existing_node = None, pr_group_id = [], pr_created_at = 100,
      pr_expires_at = 100 + 10 * minute, pr_decided_at = None\<rparr>, office\<lparr>db_pairings := [demo_request]\<rparr>)"
  by (simp add: create_pairing_request_def calm_def office_def empty_database_def demo_request_def storable_text_def Let_def statement_def checked_def)

lemma demo_handled:
  assumes "bind_json None pairing_create_fields zero_pairing_create rq = Some (pairing_request_of demo_inventory demo_secret)" and "rq_remote rq = []"
  shows "\<exists>s1. handle_create_pairing blank_env rq (blank_state\<lparr>as_db := office\<rparr>) =
    (fixed_response 201 (JObj [(''pairing_id'', JStr ''o''), (''state'', JStr ''pending''), (''expires_at'', JTime (100 + 10 * minute)),
       (''poll_after_seconds'', JInt 5)]), s1) \<and> as_db s1 = office\<lparr>db_pairings := [demo_request]\<rparr>"
proof -
  have trims: "trim_space ''pc'' = ''pc''" "trim_space ''m'' = ''m''" "trim_space ''1'' = ''1''" by code_simp+
  have "fst (allow (pairing_remote_address []) ''m'' 100 [])"
    by (simp add: allow_def Let_def evict_expired_def window_of_def)
  then obtain l where l: "allow (pairing_remote_address []) ''m'' 100 [] = (True, l)" by (metis prod.collapse)
  show ?thesis
    using assms(2) demo_secret_ok demo_created
    by (simp add: handle_create_pairing_def assms(1) pairing_request_of_def demo_inventory_def trims validate_node_type_def blank_env_def
        blank_state_def l repo_def run_changes_def logged_def node_type_windows_def del: One_nat_def)
qed

lemma demo_asks:
  "\<exists>s1. service_start_pairing pairing_host ''http://ace'' (blank_state\<lparr>as_db := office\<rparr>) =
     (Inr (''o'', demo_secret, 100 + 10 * minute), s1) \<and> as_db s1 = office\<lparr>db_pairings := [demo_request]\<rparr>"
proof -
  define q where "q = pairing_request_of demo_inventory demo_secret"
  define rq where "rq = \<lparr>rq_method = ''POST'', rq_path = ''/api/v1/agent/pairings'', rq_authorization = [], rq_cookie = None,
      rq_range = [], rq_remote = [], rq_body = json_body 1 (write_pairing_create q)\<rparr>"
  have bound: "bind_json None pairing_create_fields zero_pairing_create rq = Some q"
    by (simp add: rq_def bind_json_def json_body_def read_pairing_create)
  obtain s1 where handled: "handle_create_pairing blank_env rq (blank_state\<lparr>as_db := office\<rparr>) =
      (fixed_response 201 (JObj [(''pairing_id'', JStr ''o''), (''state'', JStr ''pending''), (''expires_at'', JTime (100 + 10 * minute)),
       (''poll_after_seconds'', JInt 5)]), s1)" and db: "as_db s1 = office\<lparr>db_pairings := [demo_request]\<rparr>"
    using demo_handled [OF bound [unfolded q_def]] by (auto simp: rq_def)
  have serve: "serve_api blank_env rq (blank_state\<lparr>as_db := office\<rparr>) =
      (Some (fixed_response 201 (JObj [(''pairing_id'', JStr ''o''), (''state'', JStr ''pending''), (''expires_at'', JTime (100 + 10 * minute)),
       (''poll_after_seconds'', JInt 5)])), s1)"
    unfolding serve_api_def using handled by (simp add: rq_def pairing_route answered_by_def)
  have "client_start_pairing (serve_api blank_env) (\<lambda>j. Some 1) \<lparr>ac_path = []\<rparr> q 0 (blank_state\<lparr>as_db := office\<rparr>) =
      (Inr (\<lparr>pp_id = ''o'', pp_state = PairingPending, pp_node = None, pp_expires_at = 100 + 10 * minute\<rparr>, 5 * second), s1)"
    using serve
    by (simp add: rq_def client_start_pairing_def do_json_def send_json_def successful_def decode_body_def fixed_response_def json_body_def
        pairing_answer_fields_def poll_fields_def AgentClient.promote_def field_of_def set_member_def int64_def zero_poll_def
        read_pairing_state_def pairing_of_text_def is_zero_time_def wrap64_def Let_def)
  moreover have "new_opaque_token demo_crypto (Inr (replicate 32 CHR ''k'')) = Inr (demo_secret, hash_token demo_crypto demo_secret)"
    by (simp only: new_opaque_token_def sum.case Let_def demo_secret_def)
  ultimately show ?thesis using db
    by (simp add: service_start_pairing_def pairing_host_def new_agent_client_def is_http_url_def q_def)
qed

lemma demo_admitted:
  "\<exists>n db. approve_pairing_request calm (office\<lparr>db_pairings := [demo_request]\<rparr>) ''o'' ''g'' ''desk'' 200 = (Inr n, db) \<and> nd_id n = ''n''"
  by (simp add: approve_pairing_request_def pair_node_def office_def empty_database_def demo_request_def
      calm_def node_insertable_def inserted_node_def storable_text_def Let_def statement_def checked_def scan_node_def node.truncate_def)

lemma demo_asked_inv: "registry_inv (office\<lparr>db_pairings := [demo_request]\<rparr>)"
  using office_inv
  by (simp add: registry_inv_def accounts_inv_def groups_inv_def nodes_inv_def credentials_inv_def
      enrollments_inv_def pairings_inv_def telemetry_inv_def demo_request_def pairing_ok_def
      office_def empty_database_def)

theorem pairing_admits_agent_witness:
  "\<exists>s1 n db r t. service_start_pairing pairing_host ''http://ace'' (blank_state\<lparr>as_db := office\<rparr>) = (Inr (''o'', demo_secret, 100 + 10 * minute), s1) \<and>
     approve_pairing_request calm (as_db s1) ''o'' ''g'' ''desk'' 200 = (Inr n, db) \<and>
     service_poll_pairing pairing_host \<lparr>pn_server_url = ''http://ace'', pn_pairing_id = ''o'', pn_credential = demo_secret,
       pn_expires_at = 100 + 10 * minute\<rparr> (s1\<lparr>as_db := db\<rparr>) = ((r, None), t) \<and>
     credential_node db (hash_token demo_crypto demo_secret) = Some ''n''"
proof -
  obtain s1 where started: "service_start_pairing pairing_host ''http://ace'' (blank_state\<lparr>as_db := office\<rparr>) =
     (Inr (''o'', demo_secret, 100 + 10 * minute), s1)" and db: "as_db s1 = office\<lparr>db_pairings := [demo_request]\<rparr>" using demo_asks by blast
  obtain n db where approved: "approve_pairing_request calm (as_db s1) ''o'' ''g'' ''desk'' 200 = (Inr n, db)" and n: "nd_id n = ''n''"
    using demo_admitted unfolding db by blast
  have inv: "registry_inv (as_db s1)" unfolding db by (rule demo_asked_inv)
  have host: "ah_transport pairing_host = serve_api blank_env" "ah_path pairing_host = (\<lambda>v. [])" "is_http_url (ah_url pairing_host) ''http://ace''"
    by (simp_all add: pairing_host_def is_http_url_def)
  have env: "healthy (ae_server blank_env 1)" "ae_other blank_env 1 = []" "ae_crypto blank_env = demo_crypto"
    by (simp_all add: blank_env_def calm_def healthy_def)
  have "\<exists>r t. service_poll_pairing pairing_host \<lparr>pn_server_url = ''http://ace'', pn_pairing_id = ''o'', pn_credential = demo_secret,
       pn_expires_at = 100 + 10 * minute\<rparr> (s1\<lparr>as_db := db\<rparr>) = ((r, None), t) \<and>
     credential_node db (hash_token demo_crypto demo_secret) = Some ''n''"
    using pairing_admits_agent [OF started host(1,2) inv approved host refl env(1,2), of 0] n by (auto simp: env(3))
  with started approved show ?thesis by blast
qed

end
