(* ===== verification/Spec2Isabelle.thy ===== *)
theory Spec2Isabelle
  imports ApiTheorems ApiLimiter SuRecovery SuPlatformTheorems AgentAppTheorems UpdateTheorems UpdateMachine ControllerSteps
    AgentIpcTheorems UpdateRunTheorems UpdatePromote AgentDiagnostics AgentService TrayWindowTheorems ReleaseToolTheorems
    UpdaterProcess ServerProcess AgentMain AgentOnboarding
begin

text \<open>
  \<^bold>\<open>Ace IT Center\<close>: a server that manages Windows and Linux machines through an Agent on each of them.

  \<^bold>\<open>The program.\<close>  The server (\<^verbatim>\<open>internal/api\<close>, \<^verbatim>\<open>internal/postgres\<close>, \<^verbatim>\<open>internal/core\<close>, \<^verbatim>\<open>internal/domain\<close>,
  \<^verbatim>\<open>internal/security\<close>) keeps owners, sessions, organisations, nodes, their credentials, pairing
  requests, telemetry and a queue of commands in PostgreSQL and serves them over HTTP.  The updater
  (\<^verbatim>\<open>internal/systemupdate\<close>) upgrades the two containers of the server itself.  The Agent
  (\<^verbatim>\<open>agent/internal\<close>) enrolls or pairs, sends heartbeats, executes commands, and updates itself with signed
  releases (\<^verbatim>\<open>internal/release\<close>).

  \<^bold>\<open>Conventions.\<close>  A struct is a record whose fields carry a prefix, an enumeration a datatype; an error is
  \<open>go_error\<close> and a fallible result \<open>'a res\<close> with \<open>Inl\<close> the error (\<open>Prelude\<close>).  A string is the list of its bytes.
  \<open>int\<close> of Go is \<open>int\<close> where no value comes near its range, a time is its nanoseconds since the zero time,
  and what is kept at its width is a \<open>word\<close>.  What is not under \<^verbatim>\<open>src/\<close> is a parameter: hashes, signatures,
  the JSON text, URLs, the database engine's failures, Docker, Windows, the network, clocks; what
  a theorem needs of it is a named hypothesis that its witness meets.

  \<^bold>\<open>Server.\<close>  \<open>CoreTypes\<close>: the shared types and the validation of a command.  \<open>Database\<close>: tables as lists
  of rows, a statement that may fail, a transaction that is undone.  \<open>Lifecycle\<close>: the locale of rows that move
  along an order and stop in final states; \<open>CommandQueue\<close> and \<open>Registry\<close> interpret it.
  \<open>CommandStore\<close> and \<open>NodeStore\<close>: one definition per method of \<^verbatim>\<open>commands.go\<close> and \<^verbatim>\<open>store.go\<close>.
  \<open>CommandTheorems\<close>: results are final, a started command is never claimed again, a lease is exclusive,
  claims are served in order.  \<open>RegistryTheorems\<close>: a pairing is decided once, credentials come from
  admissions only.  \<open>Encodings\<close>, \<open>Security\<close>: base64, hex, passwords and tokens.  \<open>Json\<close>, \<open>ApiJson\<close>: decoding into
  structs and the wire types.  \<open>ApiServer\<close>, \<open>ApiHandlers\<close>, \<open>ApiCommands\<close>: every route of \<^verbatim>\<open>router.go\<close> and
  \<^verbatim>\<open>system_update.go\<close> up to \<open>serve_api\<close>.  \<open>ApiInvariant\<close>, \<open>ApiTheorems\<close>, \<open>ApiLimiter\<close>: every request is a
  sequence of store operations and keeps the database well formed, owner routes need a live session,
  the limiter of pairings keeps its bound.

  \<^bold>\<open>Upgrade of the server.\<close>  \<open>SuTypes\<close>, \<open>SuStore\<close>, \<open>SuManager\<close>: state, its file (locale \<open>state_store\<close>) and the
  manager that runs the stages of an upgrade over a log of calls.  \<open>SuUpgrade\<close>, \<open>SuTheorems\<close>, \<open>SuRecovery\<close>:
  nothing is switched before it is prepared, each call is announced by a saved stage, outcomes are
  truthful, a crash is recovered.  \<open>SuPlatform\<close>, \<open>SuCli\<close>, \<open>SuPlatformTheorems\<close>: the Docker commands and that
  the manager over them refines the abstract platform.  \<open>SuHttp\<close>: the updater behind HTTP is the same as
  the updater.  \<open>UpdaterProcess\<close>: the configuration of the updater's process with the paths it allows, the image
  registry, and the run of the process; it serves only with a safe configuration and no unfinished upgrade.
  \<open>ServerProcess\<close>: the configuration and the start of the server, and its retention loops (locales \<open>pruning\<close> and
  \<open>calm_pruning\<close>); a server and an updater that accept their configurations are connected.

  \<^bold>\<open>Agent.\<close>  \<open>AgentConfig\<close>, \<open>NetUsage\<close>, \<open>AgentCollect\<close>, \<open>AgentClient\<close>: configuration file, traffic counters, host facts, the
  HTTP client.  \<open>CmdExecutor\<close>: running a command and its bounded output (locale \<open>bounded_writer\<close>).  \<open>AgentApp\<close>,
  \<open>AgentAppTheorems\<close>: the heartbeat and the command worker; a round of the worker over \<open>serve_api\<close> brings the
  result into the queue.  \<open>AgentController\<close>, \<open>ControllerSteps\<close>: the controller, its sections between locks as
  definitions and their interleavings as the relation \<open>ctl_step\<close>.  \<open>AgentIpc\<close>, \<open>AgentIpcTheorems\<close>: the local control interface, its messages
  and its server, which answers no secret and leaves nothing open.  \<open>Redaction\<close>, \<open>AgentDiagnostics\<close>: log tails, the
  diagnostics bundle and the log upload, without secrets.  \<open>AgentService\<close>: the commands on the Windows Service over
  a model of the service control manager, and the Service's own run.  \<open>AgentTray\<close>: the presenter of the tray and
  the coordination of its background work.  \<open>TrayWindow\<close>, \<open>TrayWindowTheorems\<close>: the tray's run, its commands, background
  calls and callbacks as the relation \<open>tray_step\<close>; the window shows the view in force in every state.  \<open>AgentSupport\<close>: the log handler, network rates, the command process and the
  tray's single instance.  \<open>AgentMain\<close>: the modes of the program.  \<open>AgentOnboarding\<close>: from the Agent's pairing
  request over the API and the owner's approval to the node the Agent becomes.  \<open>GoTime\<close>, \<open>GoErrors\<close>, \<open>GoStrings\<close>, \<open>RegexMatch\<close>:
  what the code uses of Go's library.

  \<^bold>\<open>Updates of the Agent.\<close>  \<open>Release\<close>: manifests, versions and signatures.  \<open>UpdateCheck\<close>, \<open>UpdateTheorems\<close>: the
  check for a release and the staging of its installer; only authentic bytes are staged.  \<open>UpdateHelper\<close>: the
  helper that installs it, with the locale \<open>update_machine\<close> for what its operations promise and the phases of
  an update as its specification.  \<open>UpdateMachine\<close>: the operations on Windows, which interpret the locale.
  \<open>UpdateRun\<close>, \<open>UpdateRunTheorems\<close>: the updater's process and its client; what the Service starts is authentic.
  \<open>UpdatePromote\<close>: the promotion of a staged updater, exactly or not at all.  \<open>ReleaseTool\<close>, \<open>ReleaseToolTheorems\<close>: the tool
  that makes keys, signs and verifies; a key generation is one transaction and what is signed verifies.

  \<^bold>\<open>Bounds.\<close>  A loop that waits is a recursion on what it finds before its deadline, given as a list or a number of
  ticks by the environment, so every such loop ends; loops without a deadline are \<open>partial_function\<close> with a
  theorem that they return (\<open>stability_loop_terminates\<close>, \<open>reporting_ends\<close>).

  \<^bold>\<open>Not modelled.\<close>  The layout and the drawing of the tray's widgets and icons and its calls of Win32; security descriptors and other file calls of Windows; the stubs of other platforms; the drawing of the
  installer's bitmaps; listening on ports and pipes, signals and the opening of the database, which are parameters of
  the processes.  The entries of the manifest say it for each.
\<close>

end
